(* ===== verification/Py_Prelude.thy ===== *)
theory Py_Prelude
  imports Complex_Main "HOL-Library.Sublist"
begin

section \<open>Prelude: Python text, errors and the lemmas all components share\<close>

text \<open>
  What the scripts use of the Python language and its \<open>str\<close> methods.
  A Python string is a list of code points (\<open>pystr\<close>), so that the Turkish and
  punctuation characters of the audited files are single elements, as in Python;
  \<open>lit\<close> turns an ASCII literal of the source into such a list. A computation that
  may raise returns \<open>exn + 'a\<close>, with \<open>Inl\<close> for the exception; \<open>bindE\<close>
  sequences two of them.
\<close>

named_theorems text_simps
  \<comment> \<open>rules that evaluate the string methods on closed texts\<close>
named_theorems check_defs
  \<comment> \<open>the definitions of the audit checks\<close>

subsection \<open>Strings\<close>

type_synonym pystr = "nat list"

definition lit :: "string \<Rightarrow> pystr" where
  [text_simps]: "lit s = map of_char s"

abbreviation (input) NL :: nat where "NL \<equiv> 10"

text \<open>The white space of \<open>str.isspace\<close>, of \<open>str.strip\<close> and of \<open>\s\<close> in a pattern.\<close>

definition is_space :: "nat \<Rightarrow> bool" where
  [text_simps]: "is_space c \<longleftrightarrow> (9 \<le> c \<and> c \<le> 13) \<or> (28 \<le> c \<and> c \<le> 32) \<or> c = 133 \<or> c = 160 \<or> c = 5760 \<or>
     (8192 \<le> c \<and> c \<le> 8202) \<or> c = 8232 \<or> c = 8233 \<or> c = 8239 \<or> c = 8287 \<or> c = 12288"

text \<open>The line boundaries of \<open>str.splitlines\<close>.\<close>

definition is_linebreak :: "nat \<Rightarrow> bool" where
  [text_simps]: "is_linebreak c \<longleftrightarrow> (10 \<le> c \<and> c \<le> 13) \<or> (28 \<le> c \<and> c \<le> 30) \<or> c = 133 \<or> c = 8232 \<or> c = 8233"

lemma is_linebreak_CR_LF [simp]: "is_linebreak 13" "is_linebreak (Suc 12)" "is_linebreak 10"
  by (simp_all add: is_linebreak_def)

lemma linebreak_is_space: "is_linebreak c \<Longrightarrow> is_space c"
  by (auto simp: is_linebreak_def is_space_def)

text \<open>The code points that start a run of ten decimal digits (category Nd): what \<open>\d\<close>
  accepts and \<open>int\<close> reads.\<close>

definition digit_zeros :: "nat list" where
  "digit_zeros = [48, 1632, 1776, 1984, 2406, 2534, 2662, 2790, 2918, 3046, 3174, 3302, 3430, 3558,
     3664, 3792, 3872, 4160, 4240, 6112, 6160, 6470, 6608, 6784, 6800, 6992, 7088, 7232, 7248,
     42528, 43216, 43264, 43472, 43504, 43600, 44016, 65296, 66720, 68912, 69734, 69872, 69942,
     70096, 70384, 70736, 70864, 71248, 71360, 71472, 71904, 72016, 72784, 73040, 73120, 92768,
     92864, 93008, 120782, 120792, 120802, 120812, 120822, 123200, 123632, 125264, 130032]"

definition digit_of :: "nat \<Rightarrow> nat option" where
  "digit_of c = (if c < 128 then (if 48 \<le> c \<and> c < 58 then Some (c - 48) else None)
     else map_option (\<lambda>z. c - z) (List.find (\<lambda>z. z \<le> c \<and> c < z + 10) digit_zeros))"

definition is_digit :: "nat \<Rightarrow> bool" where
  "is_digit c \<longleftrightarrow> digit_of c \<noteq> None"

lemma digit_of_ascii [text_simps]: "c < 128 \<Longrightarrow> digit_of c = (if 48 \<le> c \<and> c < 58 then Some (c - 48) else None)"
  by (simp add: digit_of_def)

lemma is_digit_ascii [text_simps]: "c < 128 \<Longrightarrow> is_digit c \<longleftrightarrow> 48 \<le> c \<and> c < 58"
  by (simp add: is_digit_def digit_of_ascii)

lemma digit_of_less: "digit_of c = Some d \<Longrightarrow> d < 10"
  by (auto simp: digit_of_def find_Some_iff split: if_splits)

text \<open>\<open>int(s)\<close> of a string of digits.\<close>

definition py_int :: "pystr \<Rightarrow> nat" where
  "py_int ds = foldl (\<lambda>n c. 10 * n + (case digit_of c of Some d \<Rightarrow> d | None \<Rightarrow> 0)) 0 ds"

text \<open>\<open>needle in s\<close>.\<close>

fun contains :: "pystr \<Rightarrow> pystr \<Rightarrow> bool" where
  "contains [] n = (n = [])"
| "contains (x # xs) n = (prefix n (x # xs) \<or> contains xs n)"

lemma contains_sublist: "contains s n \<longleftrightarrow> sublist n s"
  by (induction s) (auto simp: sublist_Cons_right)

lemma contains_iff: "contains s n \<longleftrightarrow> (\<exists>p q. s = p @ n @ q)"
  by (simp add: contains_sublist sublist_def)

lemma contains_Nil [simp]: "contains s []"
  by (simp add: contains_sublist)

lemma contains_append1 [intro]: "contains s n \<Longrightarrow> contains (s @ t) n"
  and contains_append2 [intro]: "contains t n \<Longrightarrow> contains (s @ t) n"
  by (simp_all add: contains_sublist sublist_append)

text \<open>\<open>s.startswith(n)\<close> is \<open>prefix n s\<close>; \<open>s.endswith(n)\<close> is \<open>suffix n s\<close>.\<close>

text \<open>Where the first occurrence of \<open>h\<close> is known, an occurrence can only be there or later.\<close>

lemma occurrence_bound:
  assumes "\<not> contains (pre @ butlast h) h" and "pre @ h @ rest = u @ h @ v"
  shows "length pre \<le> length u"
proof (rule ccontr)
  assume "\<not> length pre \<le> length u"
  then obtain d ds where pre: "pre = u @ d # ds"
    using assms(2) by (metis append_eq_append_conv2 append_Nil2 length_append le_add1 neq_Nil_conv order_refl)
  with assms(2) have eq: "d # ds @ h @ rest = h @ v" by simp
  have ne: "h \<noteq> []" using assms(1) by auto
  have "prefix h (d # ds @ h @ rest)" by (simp add: eq)
  moreover have "prefix (d # ds @ butlast h) (d # ds @ h @ rest)"
    using ne by (metis append_Cons append_assoc append_butlast_last_id prefixI)
  ultimately have "prefix h (d # ds @ butlast h)"
    by (rule prefix_length_prefix) (use ne in \<open>simp add: Suc_leI\<close>)
  then have "contains (pre @ butlast h) h"
    unfolding pre contains_sublist by (auto intro: sublist_appendI simp: prefix_def)
  with assms(1) show False by simp
qed

text \<open>A run of characters of a class, ended by one outside it, is determined by the text.\<close>

lemma run_unique:
  assumes "xs @ a # r = ys @ b # s"
    and "\<forall>x\<in>set xs. P x" "\<forall>y\<in>set ys. P y" "\<not> P a" "\<not> P b"
  shows "xs = ys \<and> a = b \<and> r = s"
  using assms
proof (induction xs arbitrary: ys)
  case Nil
  then show ?case by (cases ys) auto
next
  case (Cons x xs)
  then show ?case by (cases ys) auto
qed

text \<open>\<open>s.count(n)\<close>: occurrences that do not overlap, from the left.\<close>

function count_from :: "pystr \<Rightarrow> pystr \<Rightarrow> nat" where
  "count_from n s = (if s = [] \<or> n = [] then 0
     else if prefix n s then Suc (count_from n (drop (length n) s))
     else count_from n (tl s))"
  by pat_completeness auto
termination
  by (relation "measure (\<lambda>(n, s). length s)") auto

declare count_from.simps [simp del]

definition py_count :: "pystr \<Rightarrow> pystr \<Rightarrow> nat" where
  "py_count s n = (if n = [] then Suc (length s) else count_from n s)"

text \<open>\<open>s.index(n)\<close> for an \<open>n\<close> that occurs; \<open>find_sub\<close> is None where \<open>str.find\<close> gives -1.\<close>

fun find_sub :: "pystr \<Rightarrow> pystr \<Rightarrow> nat option" where
  "find_sub [] n = (if n = [] then Some 0 else None)"
| "find_sub (x # xs) n = (if prefix n (x # xs) then Some 0 else map_option Suc (find_sub xs n))"

lemma find_sub_None: "find_sub s n = None \<longleftrightarrow> \<not> contains s n"
  by (induction s) auto

text \<open>\<open>s.strip()\<close>, \<open>s.lower()\<close> and \<open>sep.join(xs)\<close>. \<open>py_lower\<close> maps the ASCII capitals and the two
  other code points whose lower case has an ASCII letter; the rest stays as it is, which no
  comparison with an ASCII needle can tell.\<close>

definition py_lstrip :: "pystr \<Rightarrow> pystr" where
  "py_lstrip s = dropWhile is_space s"

definition py_strip :: "pystr \<Rightarrow> pystr" where
  "py_strip s = rev (dropWhile is_space (rev (dropWhile is_space s)))"

definition lower_char :: "nat \<Rightarrow> pystr" where
  [text_simps]: "lower_char c = (if 65 \<le> c \<and> c \<le> 90 then [c + 32]
     else if c = 8490 then [107] else if c = 304 then [105, 775] else [c])"

definition py_lower :: "pystr \<Rightarrow> pystr" where
  [text_simps]: "py_lower s = concat (map lower_char s)"

fun py_join :: "pystr \<Rightarrow> pystr list \<Rightarrow> pystr" where
  "py_join sep [] = []"
| "py_join sep [x] = x"
| "py_join sep (x # y # ys) = x @ sep @ py_join sep (y # ys)"

text \<open>A needle without the separator lies in one of the joined pieces.\<close>

lemma contains_around: "c \<notin> set n \<Longrightarrow> n \<noteq> [] \<Longrightarrow> contains (p @ c # q) n \<longleftrightarrow> contains p n \<or> contains q n"
proof -
  assume c: "c \<notin> set n" and ne: "n \<noteq> []"
  have "\<exists>u v. p = u @ n @ v \<or> q = u @ n @ v" if "p @ c # q = u @ n @ v" for u v
  proof -
    from that consider (left) us where "p = u @ us" "us @ c # q = n @ v" | (right) us where "u = p @ us" "c # q = us @ n @ v"
      by (auto simp: append_eq_append_conv2)
    then show ?thesis
    proof cases
      case left
      with c obtain ws where "us = n @ ws" by (auto simp: append_eq_append_conv2 Cons_eq_append_conv)
      with left show ?thesis by auto
    next
      case right
      with c ne obtain us' where "us = c # us'" by (cases us; cases n) auto
      with right show ?thesis by auto
    qed
  qed
  then show ?thesis unfolding contains_iff by (metis append.assoc append_Cons)
qed

lemma contains_lines:
  "NL \<notin> set n \<Longrightarrow> n \<noteq> [] \<Longrightarrow> contains (py_join [NL] ls) n \<longleftrightarrow> list_ex (\<lambda>l. contains l n) ls"
  by (induction "[NL] :: pystr" ls rule: py_join.induct) (auto simp: contains_around)

lemma contains_longer: "contains t (a @ b) \<Longrightarrow> contains t a"
  unfolding contains_iff by (metis append.assoc)

text \<open>\<open>s.splitlines()\<close> (\<open>cur\<close>: the current line, reversed) and \<open>s.split(c)\<close> for a single character.\<close>

fun splitlines_from :: "pystr \<Rightarrow> pystr \<Rightarrow> pystr list" where
  "splitlines_from cur [] = (if cur = [] then [] else [rev cur])"
| "splitlines_from cur [c] =
     (if is_linebreak c then [rev cur] else [rev (c # cur)])"
| "splitlines_from cur (c # d # s) =
     (if c = 13 \<and> d = NL then rev cur # splitlines_from [] s
      else if is_linebreak c then rev cur # splitlines_from [] (d # s)
      else splitlines_from (c # cur) (d # s))"

definition splitlines :: "pystr \<Rightarrow> pystr list" where
  "splitlines s = splitlines_from [] s"

fun split_char :: "nat \<Rightarrow> pystr \<Rightarrow> pystr list" where
  "split_char c [] = [[]]"
| "split_char c (x # xs) =
     (if x = c then [] # split_char c xs
      else (case split_char c xs of [] \<Rightarrow> [[x]] | l # ls \<Rightarrow> (x # l) # ls))"

lemma split_char_nonempty [simp]: "split_char c s \<noteq> []"
  by (induction s) (auto split: list.splits)

lemma join_split_char: "py_join [c] (split_char c s) = s"
proof (induction s)
  case (Cons x xs)
  then show ?case
    by (cases "split_char c xs") (auto split: list.splits, (case_tac list; simp)+)
qed simp

lemma split_char_no_sep: "l \<in> set (split_char c s) \<Longrightarrow> c \<notin> set l"
  by (induction s arbitrary: l) (auto split: list.splits if_splits)

lemma split_char_no_c: "c \<notin> set l \<Longrightarrow> split_char c l = [l]"
  by (induction l) auto

lemma split_char_append: "c \<notin> set l \<Longrightarrow> split_char c (l @ c # r) = l # split_char c r"
  by (induction l) auto

lemma split_char_join:
  "ls \<noteq> [] \<Longrightarrow> (\<And>l. l \<in> set ls \<Longrightarrow> c \<notin> set l) \<Longrightarrow> split_char c (py_join [c] ls) = ls"
proof (induction "[c]" ls rule: py_join.induct)
  case (3 x y ys)
  then show ?case by (simp add: split_char_append)
qed (auto simp: split_char_no_c)

text \<open>\<open>s.count(c)\<close> of a character, and the line of the split text that holds what starts at a position.\<close>

lemma py_count_char: "py_count s [c] = count_list s c"
proof -
  have "count_from [c] s = count_list s c"
  proof (induction s)
    case Nil
    then show ?case by (subst count_from.simps) simp
  next
    case (Cons x xs)
    then show ?case by (subst count_from.simps) simp
  qed
  then show ?thesis by (simp add: py_count_def)
qed

lemma split_char_at:
  assumes "c \<notin> set h"
  shows "count_list u c < length (split_char c (u @ h @ v)) \<and> contains (split_char c (u @ h @ v) ! count_list u c) h"
proof (induction u)
  case Nil
  have "\<exists>l ls. split_char c (h @ v) = (h @ l) # ls" using assms
  proof (induction h)
    case Nil
    then show ?case by (cases "split_char c v") auto
  qed auto
  moreover have "contains (h @ l) h" for l by (auto simp: contains_sublist)
  ultimately show ?case by auto
next
  case (Cons x u)
  obtain l ls where ls: "split_char c (u @ h @ v) = l # ls" by (cases "split_char c (u @ h @ v)") auto
  have "contains l h \<Longrightarrow> contains (x # l) h" by simp
  with Cons ls show ?case by (cases "count_list u c") auto
qed

lemma splitlines_from_no_break:
  "\<forall>c\<in>set cur. \<not> is_linebreak c \<Longrightarrow> l \<in> set (splitlines_from cur s) \<Longrightarrow> c \<in> set l \<Longrightarrow> \<not> is_linebreak c"
  by (induction cur s arbitrary: l rule: splitlines_from.induct)
     (auto split: if_splits simp: is_linebreak_def)

lemma splitlines_no_break: "l \<in> set (splitlines s) \<Longrightarrow> c \<in> set l \<Longrightarrow> \<not> is_linebreak c"
  using splitlines_from_no_break [of "[]"] by (simp add: splitlines_def)

lemma splitlines_single:
  "\<forall>c\<in>set s. \<not> is_linebreak c \<Longrightarrow> splitlines_from cur s = (if cur = [] \<and> s = [] then [] else [rev cur @ s])"
  by (induction cur s rule: splitlines_from.induct) auto

lemma splitlines_from_line:
  "\<forall>c\<in>set l. \<not> is_linebreak c \<Longrightarrow> splitlines_from cur (l @ NL # r) = (rev cur @ l) # splitlines_from [] r"
proof (induction l arbitrary: cur)
  case Nil
  then show ?case by (cases r) auto
next
  case (Cons c l)
  then have "c \<noteq> 13" "\<not> is_linebreak c" by auto
  moreover obtain d s where "l @ NL # r = d # s" by (cases "l @ NL # r") auto
  ultimately show ?case using Cons.IH [of "c # cur"] Cons.prems by simp
qed

lemma splitlines_join:
  "\<forall>l\<in>set ls. l \<noteq> [] \<and> (\<forall>c\<in>set l. \<not> is_linebreak c) \<Longrightarrow> splitlines (py_join [NL] ls) = ls"
proof (induction "[NL] :: pystr" ls rule: py_join.induct)
  case (3 x y ys)
  then show ?case by (simp add: splitlines_def splitlines_from_line)
qed (auto simp: splitlines_def splitlines_single)

text \<open>\<open>str(n)\<close> of a natural number.\<close>

fun show_nat :: "nat \<Rightarrow> pystr" where
  "show_nat n = (if n < 10 then [48 + n] else show_nat (n div 10) @ [48 + n mod 10])"

declare show_nat.simps [simp del]

lemma py_int_append: "py_int (ds @ [c]) = 10 * py_int ds + (case digit_of c of Some d \<Rightarrow> d | None \<Rightarrow> 0)"
  by (simp add: py_int_def)

lemma py_int_show_nat: "py_int (show_nat n) = n"
proof (induction n rule: show_nat.induct)
  case (1 n)
  show ?case
  proof (cases "n < 10")
    case True
    then show ?thesis by (subst show_nat.simps) (simp add: py_int_def digit_of_ascii)
  next
    case False
    have "n mod 10 < 10" by simp
    with False 1 show ?thesis
      by (subst show_nat.simps) (simp add: py_int_append digit_of_ascii)
  qed
qed

lemma show_nat_digits: "c \<in> set (show_nat n) \<Longrightarrow> 48 \<le> c \<and> c < 58"
proof (induction n rule: show_nat.induct)
  case (1 n)
  then show ?case by (subst (asm) show_nat.simps [of n]) (auto split: if_splits)
qed

subsection \<open>Exceptions\<close>

datatype exn =
    OSError
  | UnicodeDecodeError
  | AttributeError
  | TypeError
  | KeyError
  | IndexError
  | ValueError pystr
  | YAMLError
  | ParseError
  | JSONDecodeError
  | SystemExit nat

type_synonym 'a res = "exn + 'a"

fun bindE :: "'a res \<Rightarrow> ('a \<Rightarrow> 'b res) \<Rightarrow> 'b res" where
  "bindE (Inl e) f = Inl e"
| "bindE (Inr x) f = f x"

lemma bindE_eq_Inr [simp]: "bindE m f = Inr y \<longleftrightarrow> (\<exists>x. m = Inr x \<and> f x = Inr y)"
  by (cases m) auto

lemma bindE_eq_Inl: "bindE m f = Inl e \<longleftrightarrow> m = Inl e \<or> (\<exists>x. m = Inr x \<and> f x = Inl e)"
  by (cases m) auto

lemma bindE_assoc: "bindE (bindE m f) g = bindE m (\<lambda>x. bindE (f x) g)"
  by (cases m) auto

text \<open>A loop body run over a list, with the accumulator threaded and the first exception propagated.\<close>

fun foldE :: "('a \<Rightarrow> 'b \<Rightarrow> 'b res) \<Rightarrow> 'a list \<Rightarrow> 'b \<Rightarrow> 'b res" where
  "foldE f [] acc = Inr acc"
| "foldE f (x # xs) acc = bindE (f x acc) (foldE f xs)"

lemma foldE_append: "foldE f (xs @ ys) acc = bindE (foldE f xs acc) (foldE f ys)"
proof (induction xs arbitrary: acc)
  case (Cons x xs)
  then show ?case by (cases "f x acc") auto
qed simp

lemma foldE_pure: "foldE (\<lambda>x acc. Inr (g x acc)) xs acc = Inr (fold g xs acc)"
  by (induction xs arbitrary: acc) auto

end
