(* ===== verification/Py_Regex.thy ===== *)
theory Py_Regex
  imports Py_Prelude
begin

section \<open>Python's \<open>re\<close>: a backtracking matcher and its declarative semantics\<close>

text \<open>
  The part of the \<open>re\<close> module the scripts use: character classes, sequences, alternatives,
  greedy and lazy repetition, numbered groups, \<open>^\<close> and \<open>$\<close> (each with and without
  MULTILINE). \<open>matches_of r s\<close> lists every way \<open>r\<close> can match at the position of \<open>s\<close>, in the
  order in which the backtracking matcher tries them; the first element is Python's match.
  \<open>lang r p x q c c'\<close> says declaratively that \<open>r\<close> matches the text \<open>x\<close> between the left
  context \<open>p\<close> and the right context \<open>q\<close>, extending the captures \<open>c\<close> to \<open>c'\<close>. The theorem
  \<open>matches_of_iff\<close> says that the two agree, and \<open>search_Some\<close>, \<open>search_None_iff\<close> carry it
  over to \<open>re.search\<close>.
\<close>

subsection \<open>Patterns\<close>

datatype re =
    Eps
  | Cls "nat \<Rightarrow> bool"
  | Cat re re
  | Alt re re
  | Star bool re       \<comment> \<open>True: greedy \<open>r*\<close>, False: lazy \<open>r*?\<close>\<close>
  | Grp nat re
  | Bol bool           \<comment> \<open>\<open>^\<close>; True: MULTILINE\<close>
  | Eol bool           \<comment> \<open>\<open>$\<close>; True: MULTILINE\<close>

definition Chr :: "nat \<Rightarrow> re" where "Chr c = Cls (\<lambda>x. x = c)"
definition AnyC :: "re" where "AnyC = Cls (\<lambda>_. True)"           \<comment> \<open>\<open>[\s\S]\<close>, or \<open>.\<close> with DOTALL\<close>
definition Dot :: "re" where "Dot = Cls (\<lambda>x. x \<noteq> NL)"
definition Spc :: "re" where "Spc = Cls is_space"                  \<comment> \<open>\<open>\s\<close>\<close>
definition Dig :: "re" where "Dig = Cls is_digit"                  \<comment> \<open>\<open>\d\<close>\<close>
definition NotIn :: "pystr \<Rightarrow> re" where "NotIn cs = Cls (\<lambda>x. x \<notin> set cs)"  \<comment> \<open>\<open>[^...]\<close>\<close>
definition Plus :: "re \<Rightarrow> re" where "Plus r = Cat r (Star True r)"
definition Opt :: "re \<Rightarrow> re" where "Opt r = Alt r Eps"

fun Rep :: "nat \<Rightarrow> re \<Rightarrow> re" where
  "Rep 0 r = Eps"
| "Rep (Suc n) r = Cat r (Rep n r)"

fun Str :: "pystr \<Rightarrow> re" where
  "Str [] = Eps"
| "Str (c # cs) = Cat (Chr c) (Str cs)"

fun Seq :: "re list \<Rightarrow> re" where
  "Seq [] = Eps"
| "Seq [r] = r"
| "Seq (r # r' # rs) = Cat r (Seq (r' # rs))"

lemmas re_defs = Chr_def AnyC_def Dot_def Spc_def Dig_def NotIn_def Plus_def Opt_def

subsection \<open>The matcher\<close>

type_synonym caps = "(nat \<times> pystr) list"

text \<open>A position in the text: what is before it (reversed), what is after it, and the captures so far.\<close>

type_synonym mpos = "pystr \<times> pystr \<times> caps"

definition shorter :: "mpos \<Rightarrow> mpos \<Rightarrow> bool" where
  "shorter s s' \<longleftrightarrow> length (fst (snd s')) < length (fst (snd s))"

text \<open>Repetition: an iteration counts only if it consumes text, so the length of the rest bounds
  the number of iterations and serves as fuel (\<open>star_iter_fuel\<close>).\<close>

fun star_iter :: "(mpos \<Rightarrow> mpos list) \<Rightarrow> bool \<Rightarrow> nat \<Rightarrow> mpos \<Rightarrow> mpos list" where
  "star_iter f g 0 s = [s]"
| "star_iter f g (Suc n) s =
     (let more = concat (map (star_iter f g n) (filter (shorter s) (f s)))
      in if g then more @ [s] else s # more)"

primrec matches_of :: "re \<Rightarrow> mpos \<Rightarrow> mpos list" where
  "matches_of Eps s = [s]"
| "matches_of (Cls P) s = (case s of (b, a, c) \<Rightarrow>
     (case a of [] \<Rightarrow> [] | x # xs \<Rightarrow> if P x then [(x # b, xs, c)] else []))"
| "matches_of (Cat r1 r2) s = concat (map (matches_of r2) (matches_of r1 s))"
| "matches_of (Alt r1 r2) s = matches_of r1 s @ matches_of r2 s"
| "matches_of (Star g r) s = star_iter (matches_of r) g (length (fst (snd s))) s"
| "matches_of (Grp n r) s =
     map (\<lambda>(b', a', c'). (b', a', (n, rev (take (length b' - length (fst s)) b')) # c')) (matches_of r s)"
| "matches_of (Bol ml) s = (case s of (b, a, c) \<Rightarrow>
     if b = [] \<or> ml \<and> hd b = NL then [s] else [])"
| "matches_of (Eol ml) s = (case s of (b, a, c) \<Rightarrow>
     if a = [] \<or> a = [NL] \<or> ml \<and> hd a = NL then [s] else [])"

subsection \<open>Declarative semantics\<close>

inductive star_lang :: "(pystr \<Rightarrow> pystr \<Rightarrow> pystr \<Rightarrow> caps \<Rightarrow> caps \<Rightarrow> bool) \<Rightarrow>
    pystr \<Rightarrow> pystr \<Rightarrow> pystr \<Rightarrow> caps \<Rightarrow> caps \<Rightarrow> bool" for L where
  star_done: "star_lang L p [] q c c"
| star_more: "x \<noteq> [] \<Longrightarrow> L p x (y @ q) c c1 \<Longrightarrow> star_lang L (p @ x) y q c1 c' \<Longrightarrow>
     star_lang L p (x @ y) q c c'"

primrec lang :: "re \<Rightarrow> pystr \<Rightarrow> pystr \<Rightarrow> pystr \<Rightarrow> caps \<Rightarrow> caps \<Rightarrow> bool" where
  "lang Eps p x q c c' \<longleftrightarrow> x = [] \<and> c' = c"
| "lang (Cls P) p x q c c' \<longleftrightarrow> (\<exists>y. x = [y] \<and> P y) \<and> c' = c"
| "lang (Cat r1 r2) p x q c c' \<longleftrightarrow>
     (\<exists>x1 x2 c1. x = x1 @ x2 \<and> lang r1 p x1 (x2 @ q) c c1 \<and> lang r2 (p @ x1) x2 q c1 c')"
| "lang (Alt r1 r2) p x q c c' \<longleftrightarrow> lang r1 p x q c c' \<or> lang r2 p x q c c'"
| "lang (Star g r) p x q c c' \<longleftrightarrow> star_lang (lang r) p x q c c'"
| "lang (Grp n r) p x q c c' \<longleftrightarrow> (\<exists>c1. lang r p x q c c1 \<and> c' = (n, x) # c1)"
| "lang (Bol ml) p x q c c' \<longleftrightarrow> x = [] \<and> c' = c \<and> (p = [] \<or> ml \<and> last p = NL)"
| "lang (Eol ml) p x q c c' \<longleftrightarrow> x = [] \<and> c' = c \<and> (q = [] \<or> q = [NL] \<or> ml \<and> hd q = NL)"

text \<open>The position after matching \<open>x\<close>.\<close>

definition moved :: "pystr \<Rightarrow> pystr \<Rightarrow> mpos \<Rightarrow> bool" where
  "moved a x s' \<longleftrightarrow> a = x @ fst (snd s')"

lemma star_iter_iff:
  assumes step: "\<And>b a c b' a' c'. (b', a', c') \<in> set (f (b, a, c)) \<longleftrightarrow>
      (\<exists>x. a = x @ a' \<and> b' = rev x @ b \<and> L (rev b) x a' c c')"
  shows "length a \<le> n \<Longrightarrow> (b', a', c') \<in> set (star_iter f g n (b, a, c)) \<longleftrightarrow>
      (\<exists>x. a = x @ a' \<and> b' = rev x @ b \<and> star_lang L (rev b) x a' c c')"
proof (induction n arbitrary: a b c)
  case 0
  then show ?case by (auto intro: star_done elim: star_lang.cases)
next
  case (Suc n)
  define M where "M \<longleftrightarrow> (\<exists>x y c1. x \<noteq> [] \<and> a = (x @ y) @ a' \<and> b' = rev (x @ y) @ b \<and>
      L (rev b) x (y @ a') c c1 \<and> star_lang L (rev b @ x) y a' c1 c')"
  let ?more = "concat (map (star_iter f g n) (filter (shorter (b, a, c)) (f (b, a, c))))"
  have more: "(b', a', c') \<in> set ?more \<longleftrightarrow> M"
  proof
    assume "(b', a', c') \<in> set ?more"
    then obtain b1 a1 c1 where 1: "(b1, a1, c1) \<in> set (f (b, a, c))" and sh: "length a1 < length a"
      and 2: "(b', a', c') \<in> set (star_iter f g n (b1, a1, c1))"
      by (auto simp: shorter_def)
    from 1 step obtain x where x: "a = x @ a1" "b1 = rev x @ b" "L (rev b) x a1 c c1" by blast
    with sh have ne: "x \<noteq> []" by auto
    from sh Suc.prems have "length a1 \<le> n" by simp
    with Suc.IH 2 obtain y where y: "a1 = y @ a'" "b' = rev y @ b1" "star_lang L (rev b1) y a' c1 c'"
      by blast
    from x y ne show M
      unfolding M_def by (intro exI [of _ x] exI [of _ y] exI [of _ c1]) simp
  next
    assume M
    then obtain x y c1 where ne: "x \<noteq> []" and a: "a = (x @ y) @ a'" and b': "b' = rev (x @ y) @ b"
      and L: "L (rev b) x (y @ a') c c1" and st: "star_lang L (rev b @ x) y a' c1 c'"
      unfolding M_def by blast
    have 1: "(rev x @ b, y @ a', c1) \<in> set (f (b, a, c))"
      using a L by (subst step) auto
    have sh: "shorter (b, a, c) (rev x @ b, y @ a', c1)" using a ne by (simp add: shorter_def)
    have "length (y @ a') \<le> n" using a ne Suc.prems by (cases x) auto
    with st b' have "(b', a', c') \<in> set (star_iter f g n (rev x @ b, y @ a', c1))"
      by (subst Suc.IH) auto
    with 1 sh show "(b', a', c') \<in> set ?more"
      by (auto intro!: bexI [of _ "(rev x @ b, y @ a', c1)"])
  qed
  have unf: "(b', a', c') \<in> set (star_iter f g (Suc n) (b, a, c)) \<longleftrightarrow> (b', a', c') = (b, a, c) \<or> M"
    using more by (auto simp: Let_def)
  show ?case
  proof
    assume "(b', a', c') \<in> set (star_iter f g (Suc n) (b, a, c))"
    with unf consider "(b', a', c') = (b, a, c)" | M by blast
    then show "\<exists>x. a = x @ a' \<and> b' = rev x @ b \<and> star_lang L (rev b) x a' c c'"
    proof cases
      case 1
      then show ?thesis by (auto intro: star_done)
    next
      case 2
      then show ?thesis unfolding M_def by (blast intro: star_more)
    qed
  next
    assume "\<exists>x. a = x @ a' \<and> b' = rev x @ b \<and> star_lang L (rev b) x a' c c'"
    then obtain x where x: "a = x @ a'" "b' = rev x @ b" and st: "star_lang L (rev b) x a' c c'" by blast
    from st have "(b', a', c') = (b, a, c) \<or> M"
    proof cases
      case star_done
      with x show ?thesis by simp
    next
      case (star_more x1 y1 c1)
      with x show ?thesis unfolding M_def by (metis append.assoc)
    qed
    with unf show "(b', a', c') \<in> set (star_iter f g (Suc n) (b, a, c))" by blast
  qed
qed

lemma matches_of_iff:
  "(b', a', c') \<in> set (matches_of r (b, a, c)) \<longleftrightarrow>
     (\<exists>x. a = x @ a' \<and> b' = rev x @ b \<and> lang r (rev b) x a' c c')"
proof (induction r arbitrary: b a c b' a' c')
  case (Cls P)
  then show ?case by (cases a) auto
next
  case (Cat r1 r2)
  have "(b', a', c') \<in> set (matches_of (Cat r1 r2) (b, a, c)) \<longleftrightarrow>
      (\<exists>b1 a1 c1. (b1, a1, c1) \<in> set (matches_of r1 (b, a, c)) \<and> (b', a', c') \<in> set (matches_of r2 (b1, a1, c1)))"
    by force
  also have "\<dots> \<longleftrightarrow> (\<exists>x1 x2 c1. a = (x1 @ x2) @ a' \<and> b' = rev (x1 @ x2) @ b \<and>
      lang r1 (rev b) x1 (x2 @ a') c c1 \<and> lang r2 (rev b @ x1) x2 a' c1 c')"
    unfolding Cat.IH by (auto, fastforce, force)
  also have "\<dots> \<longleftrightarrow> (\<exists>x. a = x @ a' \<and> b' = rev x @ b \<and> lang (Cat r1 r2) (rev b) x a' c c')"
    by (auto; blast)
  finally show ?case .
next
  case (Star g r)
  have "\<And>b a c b' a' c'. (b', a', c') \<in> set (matches_of r (b, a, c)) \<longleftrightarrow>
      (\<exists>x. a = x @ a' \<and> b' = rev x @ b \<and> lang r (rev b) x a' c c')"
    by (rule Star.IH)
  from star_iter_iff [OF this, where n = "length a"] show ?case by simp
next
  case (Grp n r)
  have "(b', a', c') \<in> set (matches_of (Grp n r) (b, a, c)) \<longleftrightarrow>
      (\<exists>c1. (b', a', c1) \<in> set (matches_of r (b, a, c)) \<and> c' = (n, rev (take (length b' - length b) b')) # c1)"
    by force
  also have "\<dots> \<longleftrightarrow> (\<exists>x. a = x @ a' \<and> b' = rev x @ b \<and> lang (Grp n r) (rev b) x a' c c')"
    unfolding Grp.IH by auto
  finally show ?case .
next
  case (Bol ml)
  then show ?case by (cases b) auto
next
  case (Eol ml)
  then show ?case by auto
next
  case (Alt r1 r2)
  then show ?case by auto
next
  case Eps
  then show ?case by auto
qed

text \<open>The fuel is enough: any fuel that covers the rest of the text gives the same list.\<close>

lemma star_iter_fuel:
  "length (fst (snd s)) \<le> n \<Longrightarrow> length (fst (snd s)) \<le> m \<Longrightarrow> star_iter f g n s = star_iter f g m s"
proof (induction n arbitrary: m s)
  case 0
  then have "filter (shorter s) (f s) = []" by (auto simp: filter_empty_conv shorter_def)
  then show ?case by (cases m) (auto simp: Let_def)
next
  case (Suc n)
  show ?case
  proof (cases m)
    case 0
    with Suc.prems have "filter (shorter s) (f s) = []" by (auto simp: filter_empty_conv shorter_def)
    with 0 show ?thesis by (auto simp: Let_def)
  next
    case (Suc k)
    have "map (star_iter f g n) (filter (shorter s) (f s)) = map (star_iter f g k) (filter (shorter s) (f s))"
      using Suc Suc.prems by (auto simp: shorter_def intro!: Suc.IH)
    with Suc show ?thesis by (simp only: star_iter.simps)
  qed
qed

subsection \<open>Searching\<close>

text \<open>\<open>search_pos\<close> moves the start forward until the pattern matches; it returns the start and the
  end position.\<close>

fun search_pos :: "re \<Rightarrow> pystr \<Rightarrow> pystr \<Rightarrow> (mpos \<times> mpos) option" where
  "search_pos r b a = (case matches_of r (b, a, []) of
       e # _ \<Rightarrow> Some ((b, a, []), e)
     | [] \<Rightarrow> (case a of [] \<Rightarrow> None | x # xs \<Rightarrow> search_pos r (x # b) xs))"

declare search_pos.simps [simp del]

record re_match =
  m_start :: nat
  m_end :: nat
  m_caps :: caps

definition mk_match :: "mpos \<times> mpos \<Rightarrow> re_match" where
  "mk_match = (\<lambda>((b0, a0, c0), (b1, a1, c1)). \<lparr>m_start = length b0, m_end = length b1, m_caps = c1\<rparr>)"

definition group :: "nat \<Rightarrow> re_match \<Rightarrow> pystr option" where
  "group n m = map_of (m_caps m) n"

definition re_search :: "re \<Rightarrow> pystr \<Rightarrow> re_match option" where
  "re_search r t = map_option mk_match (search_pos r [] t)"

text \<open>\<open>re.match\<close>: only at the start of the text.\<close>

definition re_match_at_start :: "re \<Rightarrow> pystr \<Rightarrow> re_match option" where
  "re_match_at_start r t = (case matches_of r ([], t, []) of
     [] \<Rightarrow> None | e # _ \<Rightarrow> Some (mk_match (([], t, []), e)))"

text \<open>What a found position means: the split of the text, the match in \<open>lang\<close>, and that no
  earlier start has a match.\<close>

definition found :: "re \<Rightarrow> pystr \<Rightarrow> pystr \<Rightarrow> pystr \<Rightarrow> pystr \<Rightarrow> pystr \<Rightarrow> caps \<Rightarrow> bool" where
  "found r p0 t u x v c \<longleftrightarrow> t = u @ x @ v \<and> lang r (p0 @ u) x v [] c \<and>
     (\<forall>u1 u2 y w c'. u = u1 @ u2 \<and> u2 \<noteq> [] \<and> u2 @ x @ v = y @ w \<longrightarrow> \<not> lang r (p0 @ u1) y w [] c')"

lemma matches_of_Nil: "matches_of r (b, a, c) = [] \<longleftrightarrow> (\<forall>y w c'. a = y @ w \<longrightarrow> \<not> lang r (rev b) y w c c')"
proof -
  have "matches_of r (b, a, c) = [] \<longleftrightarrow> (\<forall>b' a' c'. (b', a', c') \<notin> set (matches_of r (b, a, c)))"
    by (metis empty_iff list.set(1) list.set_intros(1) neq_Nil_conv prod_cases3)
  then show ?thesis unfolding matches_of_iff by auto
qed

lemma found_here:
  assumes "(b1, a1, c1) \<in> set (matches_of r (b, a, []))"
  shows "\<exists>u x v c. (b, a, []) = (rev u @ b, x @ v, []) \<and>
    (b1, a1, c1) = (rev x @ rev u @ b, v, c) \<and> found r (rev b) a u x v c"
proof -
  from assms [unfolded matches_of_iff] obtain x
    where "a = x @ a1" "b1 = rev x @ b" "lang r (rev b) x a1 [] c1" by blast
  then show ?thesis
    by (intro exI [of _ "[]"] exI [of _ x] exI [of _ a1] exI [of _ c1]) (auto simp: found_def)
qed

lemma search_pos_Some:
  "search_pos r b a = Some (s0, e) \<Longrightarrow>
     \<exists>u x v c. s0 = (rev u @ b, x @ v, []) \<and> e = (rev x @ rev u @ b, v, c) \<and> found r (rev b) a u x v c"
proof (induction a arbitrary: b)
  case Nil
  obtain b1 a1 c1 where e: "e = (b1, a1, c1)" by (cases e)
  with Nil have s0: "s0 = (b, [], [])" and m: "(b1, a1, c1) \<in> set (matches_of r (b, [], []))"
    by (subst (asm) search_pos.simps; auto split: list.splits)+
  from found_here [OF m] s0 e show ?case by simp
next
  case (Cons y ys)
  show ?case
  proof (cases "matches_of r (b, y # ys, [])")
    case Nil
    with Cons.prems have "search_pos r (y # b) ys = Some (s0, e)"
      by (subst (asm) search_pos.simps) simp
    from Cons.IH [OF this] obtain u x v c where s0: "s0 = (rev u @ y # b, x @ v, [])"
      and e: "e = (rev x @ rev u @ y # b, v, c)" and f: "found r (rev (y # b)) ys u x v c" by blast
    have "found r (rev b) (y # ys) (y # u) x v c"
      using f Nil unfolding found_def matches_of_Nil by (auto simp: Cons_eq_append_conv)
    with s0 e show ?thesis by (intro exI [of _ "y # u"] exI [of _ x] exI [of _ v] exI [of _ c]) simp
  next
    case (Cons m ms)
    obtain b1 a1 c1 where m: "m = (b1, a1, c1)" by (cases m)
    from Cons Cons.prems m have e: "e = (b1, a1, c1)" and s0: "s0 = (b, y # ys, [])"
      by (simp_all add: search_pos.simps [of r b "y # ys"])
    have "(b1, a1, c1) \<in> set (matches_of r (b, y # ys, []))" using Cons m by simp
    from found_here [OF this] s0 e show ?thesis by simp
  qed
qed

lemma search_pos_None:
  "search_pos r b a = None \<longleftrightarrow> (\<forall>u x v c. a = u @ x @ v \<longrightarrow> \<not> lang r (rev b @ u) x v [] c)"
proof (induction a arbitrary: b)
  case Nil
  have "search_pos r b [] = None \<longleftrightarrow> matches_of r (b, [], []) = []"
    by (subst search_pos.simps) (auto split: list.splits)
  then show ?case unfolding matches_of_Nil by auto
next
  case (Cons y ys)
  have "search_pos r b (y # ys) = None \<longleftrightarrow> matches_of r (b, y # ys, []) = [] \<and> search_pos r (y # b) ys = None"
    by (subst search_pos.simps) (auto split: list.splits)
  also have "\<dots> \<longleftrightarrow> (\<forall>u x v c. y # ys = u @ x @ v \<longrightarrow> \<not> lang r (rev b @ u) x v [] c)"
    unfolding matches_of_Nil Cons.IH by (auto simp: Cons_eq_append_conv)
  finally show ?case .
qed

lemma re_search_None: "re_search r t = None \<longleftrightarrow> (\<forall>u x v c. t = u @ x @ v \<longrightarrow> \<not> lang r u x v [] c)"
  by (simp add: re_search_def search_pos_None)

lemma re_search_not_None: "re_search r t \<noteq> None \<longleftrightarrow> (\<exists>u x v c. t = u @ x @ v \<and> lang r u x v [] c)"
  by (simp add: re_search_None)

lemma re_search_Some:
  assumes "re_search r t = Some m"
  shows "\<exists>u x v. t = u @ x @ v \<and> m_start m = length u \<and> m_end m = length u + length x \<and>
    lang r u x v [] (m_caps m) \<and>
    (\<forall>u1 u2 y w c'. u = u1 @ u2 \<and> u2 \<noteq> [] \<and> u2 @ x @ v = y @ w \<longrightarrow> \<not> lang r u1 y w [] c')"
proof -
  from assms obtain s0 e where se: "search_pos r [] t = Some (s0, e)" and m: "m = mk_match (s0, e)"
    by (auto simp: re_search_def)
  from search_pos_Some [OF se] obtain u x v c where "s0 = (rev u, x @ v, [])" "e = (rev x @ rev u, v, c)"
    "found r [] t u x v c" by auto
  with m show ?thesis
    by (intro exI [of _ u] exI [of _ x] exI [of _ v]) (auto simp: mk_match_def found_def)
qed

lemma re_match_at_start_Some:
  "re_match_at_start r t = Some m \<Longrightarrow> \<exists>x v. t = x @ v \<and> lang r [] x v [] (m_caps m)"
proof -
  assume "re_match_at_start r t = Some m"
  then obtain b a c ms where "matches_of r ([], t, []) = (b, a, c) # ms" "m_caps m = c"
    by (auto simp: re_match_at_start_def mk_match_def split: list.splits)
  then have "(b, a, c) \<in> set (matches_of r ([], t, []))" by simp
  with \<open>m_caps m = c\<close> show ?thesis unfolding matches_of_iff by auto
qed

lemma re_match_at_start_None:
  "re_match_at_start r t = None \<longleftrightarrow> (\<forall>x v c. t = x @ v \<longrightarrow> \<not> lang r [] x v [] c)"
  by (auto simp: re_match_at_start_def matches_of_Nil split: list.splits)
     (metis list.distinct(1) matches_of_Nil rev.simps(1))+

text \<open>A search expressed by the shape \<open>f k\<close> of the texts a pattern matches and the condition \<open>Q\<close> on
  its parameters \<open>k\<close> and its contexts.\<close>

lemma re_search_shape:
  assumes "\<And>p y q c. (\<exists>c'. lang r p y q c c') \<longleftrightarrow> (\<exists>k. y = f k \<and> Q p k q)"
  shows "re_search r t \<noteq> None \<longleftrightarrow> (\<exists>p k q. t = p @ f k @ q \<and> Q p k q)"
  unfolding re_search_not_None using assms by blast

text \<open>A pattern that begins with a literal \<open>h\<close>, searched in a text where the first \<open>h\<close> is known: the
  match starts there, if the pattern matches there at all.\<close>

definition headed :: "re \<Rightarrow> pystr \<Rightarrow> bool" where
  "headed r h \<longleftrightarrow> (\<forall>p x q c c'. lang r p x q c c' \<longrightarrow> prefix h x)"

lemma headed_lang: "headed r h \<Longrightarrow> lang r p x q c c' \<Longrightarrow> prefix h x"
  unfolding headed_def by blast

lemma re_search_at_head:
  assumes head: "headed r h"
    and no: "\<not> contains (pre @ butlast h) h"
    and ex: "lang r pre (h @ x0) v0 [] c0"
  shows "\<exists>m x v. re_search r (pre @ h @ x0 @ v0) = Some m \<and> x0 @ v0 = x @ v \<and>
    lang r pre (h @ x) v [] (m_caps m) \<and> m_start m = length pre"
proof -
  let ?t = "pre @ h @ x0 @ v0"
  have "re_search r ?t \<noteq> None"
    unfolding re_search_not_None using ex by (intro exI [of _ pre] exI [of _ "h @ x0"] exI [of _ v0] exI [of _ c0]) simp
  then obtain m where m: "re_search r ?t = Some m" by blast
  from re_search_Some [OF m] obtain u x v where t: "?t = u @ x @ v" and st: "m_start m = length u"
    and L: "lang r u x v [] (m_caps m)"
    and least: "\<forall>u1 u2 y w c'. u = u1 @ u2 \<and> u2 \<noteq> [] \<and> u2 @ x @ v = y @ w \<longrightarrow> \<not> lang r u1 y w [] c'"
    by (elim exE conjE)
  from headed_lang [OF head L] obtain x' where x: "x = h @ x'" by (auto simp: prefix_def)
  have "length pre \<le> length u"
    by (rule occurrence_bound [OF no, of "x0 @ v0" u "x' @ v"]) (use t x in simp)
  then obtain u2 where u: "u = pre @ u2"
    using t by (metis append_eq_append_conv_if append_take_drop_id)
  have "u2 = []"
  proof (rule ccontr)
    assume "u2 \<noteq> []"
    moreover have "u2 @ x @ v = (h @ x0) @ v0" using t u by simp
    ultimately have "\<not> lang r pre (h @ x0) v0 [] c0" using least u by blast
    with ex show False by simp
  qed
  with t u x have "x0 @ v0 = x' @ v" "u = pre" by simp_all
  with m L st x show ?thesis by (intro exI [of _ m] exI [of _ x'] exI [of _ v]) simp
qed

text \<open>The same from any position of a text.\<close>

lemma search_pos_at_head:
  assumes head: "headed r h"
    and no: "\<not> contains (pre @ butlast h) h"
    and ex: "lang r (rev b @ pre) (h @ x0) v0 [] c0"
  shows "\<exists>x v c. search_pos r b (pre @ h @ x0 @ v0) =
      Some ((rev pre @ b, h @ x0 @ v0, []), (rev (pre @ h @ x) @ b, v, c)) \<and>
    x0 @ v0 = x @ v \<and> lang r (rev b @ pre) (h @ x) v [] c"
proof -
  let ?a = "pre @ h @ x0 @ v0"
  have "search_pos r b ?a \<noteq> None"
    unfolding search_pos_None using ex by (metis append.assoc)
  then obtain s0 e where se: "search_pos r b ?a = Some (s0, e)" by auto
  from search_pos_Some [OF se] obtain u x v c where s0: "s0 = (rev u @ b, x @ v, [])" and e: "e = (rev x @ rev u @ b, v, c)"
    and f: "found r (rev b) ?a u x v c" by blast
  from f have t: "?a = u @ x @ v" and L: "lang r (rev b @ u) x v [] c"
    and least: "\<forall>u1 u2 y w c'. u = u1 @ u2 \<and> u2 \<noteq> [] \<and> u2 @ x @ v = y @ w \<longrightarrow> \<not> lang r (rev b @ u1) y w [] c'"
    unfolding found_def by blast+
  from headed_lang [OF head L] obtain x' where x: "x = h @ x'" by (auto simp: prefix_def)
  have "length pre \<le> length u"
    by (rule occurrence_bound [OF no, of "x0 @ v0" u "x' @ v"]) (use t x in simp)
  then obtain u2 where u: "u = pre @ u2"
    using t by (metis append_eq_append_conv_if append_take_drop_id)
  have "u2 = []"
  proof (rule ccontr)
    assume "u2 \<noteq> []"
    moreover have "u2 @ x @ v = (h @ x0) @ v0" using t u by simp
    ultimately have "\<not> lang r (rev b @ pre) (h @ x0) v0 [] c0" using least u by blast
    with ex show False by simp
  qed
  with t u x have eq: "x0 @ v0 = x' @ v" and u': "u = pre" by simp_all
  have "search_pos r b ?a = Some ((rev pre @ b, h @ x0 @ v0, []), (rev (pre @ h @ x') @ b, v, c))"
    using se s0 e u' x eq by simp
  with eq L u' x show ?thesis by blast
qed

lemma re_search_head_None:
  assumes head: "headed r h"
    and no: "\<not> contains (pre @ butlast h) h" and no': "\<not> contains (tl h @ rest) h"
    and nomatch: "\<And>x v c. rest = x @ v \<Longrightarrow> \<not> lang r pre (h @ x) v [] c"
  shows "re_search r (pre @ h @ rest) = None"
  unfolding re_search_None
proof (intro allI impI notI)
  fix u x v c assume t: "pre @ h @ rest = u @ x @ v" and L: "lang r u x v [] c"
  from headed_lang [OF head L] obtain x' where x: "x = h @ x'" by (auto simp: prefix_def)
  have "length pre \<le> length u"
    by (rule occurrence_bound [OF no, of rest u "x' @ v"]) (use t x in simp)
  then obtain u2 where u: "u = pre @ u2"
    using t by (metis append_eq_append_conv_if append_take_drop_id)
  with t x have eq: "h @ rest = u2 @ h @ x' @ v" by simp
  show False
  proof (cases u2)
    case Nil
    with eq x L u nomatch show False by auto
  next
    case (Cons d ds)
    have "h \<noteq> []" using no by auto
    with eq Cons have "tl h @ rest = ds @ h @ x' @ v" by (cases h) auto
    with no' show False by (auto simp: contains_iff)
  qed
qed

lemma re_search_None_headed:
  assumes "headed r h" and "\<not> contains t h"
  shows "re_search r t = None"
  unfolding re_search_None
proof (intro allI impI notI)
  fix u x v c assume t: "t = u @ x @ v" and "lang r u x v [] c"
  with headed_lang [OF assms(1)] obtain y where "x = h @ y" unfolding prefix_def by blast
  with t assms(2) show False by (auto simp: contains_iff)
qed

subsection \<open>All matches, substitution\<close>

text \<open>\<open>re.finditer\<close> and \<open>re.sub\<close>: the search goes on at the end of the last match (and one
  character further after an empty match; none of the patterns of the scripts used with these
  two functions can match the empty text).\<close>

lemma search_pos_length:
  "search_pos r b a = Some ((b0, a0, c0), (b1, a1, c1)) \<Longrightarrow> length a0 \<le> length a \<and> length a1 \<le> length a0"
  using search_pos_Some [of r b a] by (fastforce simp: found_def)

function finditer_pos :: "re \<Rightarrow> pystr \<Rightarrow> pystr \<Rightarrow> (mpos \<times> mpos) list" where
  "finditer_pos r b a = (case search_pos r b a of
       None \<Rightarrow> []
     | Some ((b0, a0, c0), (b1, a1, c1)) \<Rightarrow> ((b0, a0, c0), (b1, a1, c1)) #
         (if length a1 < length a0 then finditer_pos r b1 a1
          else (case a1 of [] \<Rightarrow> [] | x # xs \<Rightarrow> finditer_pos r (x # b1) xs)))"
  by pat_completeness auto
termination
  by (relation "measure (\<lambda>(r, b, a). length a)") (auto dest!: search_pos_length)

declare finditer_pos.simps [simp del]

definition re_finditer :: "re \<Rightarrow> pystr \<Rightarrow> re_match list" where
  "re_finditer r t = map mk_match (finditer_pos r [] t)"

function sub_pos :: "re \<Rightarrow> pystr \<Rightarrow> pystr \<Rightarrow> pystr \<Rightarrow> pystr" where
  "sub_pos r repl b a = (case search_pos r b a of
       None \<Rightarrow> a
     | Some ((b0, a0, c0), (b1, a1, c1)) \<Rightarrow> take (length a - length a0) a @ repl @
         (if length a1 < length a0 then sub_pos r repl b1 a1
          else (case a1 of [] \<Rightarrow> [] | x # xs \<Rightarrow> x # sub_pos r repl (x # b1) xs)))"
  by pat_completeness auto
termination
  by (relation "measure (\<lambda>(r, repl, b, a). length a)") (auto dest!: search_pos_length)

declare sub_pos.simps [simp del]

definition re_sub :: "re \<Rightarrow> pystr \<Rightarrow> pystr \<Rightarrow> pystr" where
  "re_sub r repl t = sub_pos r repl [] t"

text \<open>\<open>re.sub\<close> with a function: it gets the match and the matched text (\<open>group(0)\<close>) and may raise.\<close>

function sub_posE :: "re \<Rightarrow> (re_match \<Rightarrow> pystr \<Rightarrow> pystr res) \<Rightarrow> pystr \<Rightarrow> pystr \<Rightarrow> pystr res" where
  "sub_posE r f b a = (case search_pos r b a of
       None \<Rightarrow> Inr a
     | Some ((b0, a0, c0), (b1, a1, c1)) \<Rightarrow>
         bindE (f (mk_match ((b0, a0, c0), (b1, a1, c1))) (take (length a0 - length a1) a0)) (\<lambda>new.
         bindE (if length a1 < length a0 then sub_posE r f b1 a1
                else (case a1 of [] \<Rightarrow> Inr [] | x # xs \<Rightarrow> bindE (sub_posE r f (x # b1) xs) (\<lambda>rest. Inr (x # rest))))
           (\<lambda>rest. Inr (take (length a - length a0) a @ new @ rest))))"
  by pat_completeness auto
termination
  by (relation "measure (\<lambda>(r, f, b, a). length a)") (auto dest!: search_pos_length)

declare sub_posE.simps [simp del]

definition re_subE :: "re \<Rightarrow> (re_match \<Rightarrow> pystr \<Rightarrow> pystr res) \<Rightarrow> pystr \<Rightarrow> pystr res" where
  "re_subE r f t = sub_posE r f [] t"

lemma finditer_pos_Nil: "finditer_pos r b a = [] \<longleftrightarrow> search_pos r b a = None"
  by (subst finditer_pos.simps) (auto split: option.splits)

lemma re_finditer_Nil: "re_finditer r t = [] \<longleftrightarrow> re_search r t = None"
  by (simp add: re_finditer_def re_search_def finditer_pos_Nil)

text \<open>One step of the search for all matches: what is found, and where it goes on.\<close>

lemma finditer_pos_step:
  obtains (none) "finditer_pos r b a = []"
  | (match) u x v c b' a' where "a = u @ x @ v" and "lang r (rev b @ u) x v [] c"
      and "finditer_pos r b a = ((rev u @ b, x @ v, []), (rev x @ rev u @ b, v, c)) # finditer_pos r b' a'"
      and "rev b' @ a' = rev b @ a" and "length (u @ b) < length b'"
  | (last) u where "a = u" and "\<exists>c. lang r (rev b @ u) [] [] [] c \<and> finditer_pos r b a = [((rev u @ b, [], []), (rev u @ b, [], c))]"
proof (cases "search_pos r b a")
  case None
  then show ?thesis by (intro none) (simp add: finditer_pos.simps)
next
  case (Some se)
  from search_pos_Some [of r b a "fst se" "snd se"] Some obtain u x v c
    where se: "se = ((rev u @ b, x @ v, []), (rev x @ rev u @ b, v, c))" and f: "found r (rev b) a u x v c"
    by (metis prod.collapse)
  have a: "a = u @ x @ v" and l: "lang r (rev b @ u) x v [] c" using f by (auto simp: found_def)
  show ?thesis
  proof (cases "x = [] \<and> v = []")
    case True
    with a l Some se show ?thesis by (intro last [of u]) (auto simp: finditer_pos.simps [of r b u])
  next
    case False
    show ?thesis
    proof (cases "x = []")
      case True
      with False obtain y ys where v: "v = y # ys" by (cases v) auto
      have "finditer_pos r b a = se # finditer_pos r (y # rev u @ b) ys"
        using Some se True v by (subst finditer_pos.simps) simp
      with a l se True v show ?thesis by (intro match [of u x v c "y # rev u @ b" ys]) simp_all
    next
      case False
      have "finditer_pos r b a = se # finditer_pos r (rev x @ rev u @ b) v"
        using Some se False by (subst finditer_pos.simps) simp
      with a l se False show ?thesis by (intro match [of u x v c "rev x @ rev u @ b" v]) simp_all
    qed
  qed
qed

lemma finditer_pos_sound:
  "((b0, a0, c0), (b1, a1, c1)) \<in> set (finditer_pos r b a) \<Longrightarrow>
     rev b0 @ a0 = rev b @ a \<and> length b \<le> length b0 \<and> (\<exists>x. a0 = x @ a1 \<and> b1 = rev x @ b0 \<and> lang r (rev b0) x a1 [] c1)"
proof (induction a arbitrary: b rule: measure_induct_rule [where f = length])
  case (less a)
  show ?case
  proof (cases rule: finditer_pos_step [of r b a])
    case none
    with less.prems show ?thesis by simp
  next
    case (match u x v c b' a')
    from arg_cong [OF match(4), of length] match(1,5) have len: "length a' < length a" "length b \<le> length b'" by simp_all
    from less.prems match(3) consider "((b0, a0, c0), (b1, a1, c1)) = ((rev u @ b, x @ v, []), (rev x @ rev u @ b, v, c))"
      | "((b0, a0, c0), (b1, a1, c1)) \<in> set (finditer_pos r b' a')" by auto
    then show ?thesis
    proof cases
      case 1
      with match(1,2) show ?thesis by simp
    next
      case 2
      from less.IH [OF len(1) 2] match(4) len(2) show ?thesis by simp
    qed
  next
    case (last u)
    with less.prems show ?thesis by auto
  qed
qed

lemma finditer_pos_sorted: "sorted_wrt (\<lambda>p q. length (fst (fst p)) < length (fst (fst q))) (finditer_pos r b a)"
proof (induction a arbitrary: b rule: measure_induct_rule [where f = length])
  case (less a)
  show ?case
  proof (cases rule: finditer_pos_step [of r b a])
    case none
    then show ?thesis by simp
  next
    case (match u x v c b' a')
    from arg_cong [OF match(4), of length] match(1,5) have "length a' < length a" by simp
    from less.IH [OF this] finditer_pos_sound [of _ _ _ _ _ _ r b' a'] match(5) show ?thesis
      unfolding match(3) by fastforce
  next
    case (last u)
    then show ?thesis by auto
  qed
qed

text \<open>What a match of \<open>finditer\<close> is, and that the matches come with increasing starts.\<close>

lemma re_finditer_sound:
  assumes "m \<in> set (re_finditer r t)"
  shows "\<exists>u x v. t = u @ x @ v \<and> m_start m = length u \<and> m_end m = length (u @ x) \<and> lang r u x v [] (m_caps m)"
proof -
  from assms obtain b0 a0 c0 b1 a1 c1 where p: "((b0, a0, c0), (b1, a1, c1)) \<in> set (finditer_pos r [] t)"
    and m: "m = mk_match ((b0, a0, c0), (b1, a1, c1))" by (auto simp: re_finditer_def)
  from finditer_pos_sound [OF p] obtain x where "t = rev b0 @ x @ a1" "b1 = rev x @ b0" "lang r (rev b0) x a1 [] c1"
    by auto
  with m show ?thesis by (intro exI [of _ "rev b0"] exI [of _ x] exI [of _ a1]) (simp add: mk_match_def)
qed

lemma re_finditer_sorted: "sorted_wrt (\<lambda>m m'. m_start m < m_start m') (re_finditer r t)"
  using finditer_pos_sorted [of r "[]" t] unfolding re_finditer_def sorted_wrt_map
  by (rule sorted_wrt_mono_rel [rotated]) (auto simp: mk_match_def)

subsection \<open>What the patterns mean\<close>

text \<open>Rules that turn \<open>lang\<close> of a pattern into a statement about the matched text.\<close>

lemma lang_CatI:
  "lang r1 p x1 (x2 @ q) c c1 \<Longrightarrow> lang r2 (p @ x1) x2 q c1 c' \<Longrightarrow> lang (Cat r1 r2) p (x1 @ x2) q c c'"
  by (simp only: lang.simps) blast

named_theorems lang_simps

lemma lang_Cls_pats [lang_simps]:
  "lang (Chr ch) p x q c c' \<longleftrightarrow> x = [ch] \<and> c' = c"
  "lang AnyC p x q c c' \<longleftrightarrow> (\<exists>y. x = [y]) \<and> c' = c"
  "lang Dot p x q c c' \<longleftrightarrow> (\<exists>y. x = [y] \<and> y \<noteq> NL) \<and> c' = c"
  "lang Spc p x q c c' \<longleftrightarrow> (\<exists>y. x = [y] \<and> is_space y) \<and> c' = c"
  "lang Dig p x q c c' \<longleftrightarrow> (\<exists>y. x = [y] \<and> is_digit y) \<and> c' = c"
  "lang (NotIn cs) p x q c c' \<longleftrightarrow> (\<exists>y. x = [y] \<and> y \<notin> set cs) \<and> c' = c"
  by (auto simp: re_defs)

lemma lang_Str [lang_simps]: "lang (Str s) p x q c c' \<longleftrightarrow> x = s \<and> c' = c"
  by (induction s arbitrary: p x) (auto simp: lang_Cls_pats)

lemma star_lang_Cls:
  "star_lang (lang (Cls P)) p x q c c' \<longleftrightarrow> (\<forall>y\<in>set x. P y) \<and> c' = c"
proof
  assume "star_lang (lang (Cls P)) p x q c c'"
  then show "(\<forall>y\<in>set x. P y) \<and> c' = c" by induction auto
next
  assume "(\<forall>y\<in>set x. P y) \<and> c' = c"
  then show "star_lang (lang (Cls P)) p x q c c'"
  proof (induction x arbitrary: p)
    case Nil
    then show ?case by (auto intro: star_done)
  next
    case (Cons y ys)
    have st: "star_lang (lang (Cls P)) (p @ [y]) ys q c c'"
      by (rule Cons.IH) (use Cons.prems in simp)
    have "lang (Cls P) p [y] (ys @ q) c c" using Cons.prems by simp
    from star_more [OF _ this st] have "star_lang (lang (Cls P)) p ([y] @ ys) q c c'" by blast
    then show ?case by (simp only: append.simps)
  qed
qed

lemma lang_Star_Cls [lang_simps]:
  "lang (Star g (Cls P)) p x q c c' \<longleftrightarrow> (\<forall>y\<in>set x. P y) \<and> c' = c"
  by (simp add: star_lang_Cls)

lemma lang_Star_pats [lang_simps]:
  "lang (Star g (Chr ch)) p x q c c' \<longleftrightarrow> (\<forall>y\<in>set x. y = ch) \<and> c' = c"
  "lang (Star g AnyC) p x q c c' \<longleftrightarrow> c' = c"
  "lang (Star g Dot) p x q c c' \<longleftrightarrow> NL \<notin> set x \<and> c' = c"
  "lang (Star g Spc) p x q c c' \<longleftrightarrow> (\<forall>y\<in>set x. is_space y) \<and> c' = c"
  "lang (Star g Dig) p x q c c' \<longleftrightarrow> (\<forall>y\<in>set x. is_digit y) \<and> c' = c"
  "lang (Star g (NotIn cs)) p x q c c' \<longleftrightarrow> set x \<inter> set cs = {} \<and> c' = c"
  by (auto simp: re_defs star_lang_Cls)

lemma lang_Cat_Cls:
  "lang (Cat (Cls P) r) p x q c c' \<longleftrightarrow> (\<exists>y ys. x = y # ys \<and> P y \<and> lang r (p @ [y]) ys q c c')"
  by (auto; metis append_Cons append_Nil)

lemma lang_Plus_Cls [lang_simps]:
  "lang (Plus (Cls P)) p x q c c' \<longleftrightarrow> x \<noteq> [] \<and> (\<forall>y\<in>set x. P y) \<and> c' = c"
  unfolding Plus_def lang_Cat_Cls lang_Star_Cls by (cases x) auto

lemma lang_Plus_pats [lang_simps]:
  "lang (Plus Spc) p x q c c' \<longleftrightarrow> x \<noteq> [] \<and> (\<forall>y\<in>set x. is_space y) \<and> c' = c"
  "lang (Plus Dig) p x q c c' \<longleftrightarrow> x \<noteq> [] \<and> (\<forall>y\<in>set x. is_digit y) \<and> c' = c"
  "lang (Plus (NotIn cs)) p x q c c' \<longleftrightarrow> x \<noteq> [] \<and> set x \<inter> set cs = {} \<and> c' = c"
  unfolding Spc_def Dig_def NotIn_def by (auto simp: lang_Plus_Cls)

lemma lang_Opt [lang_simps]:
  "lang (Opt r) p x q c c' \<longleftrightarrow> lang r p x q c c' \<or> x = [] \<and> c' = c"
  by (simp add: Opt_def)

lemma lang_Rep_Cls [lang_simps]:
  "lang (Rep n (Cls P)) p x q c c' \<longleftrightarrow> length x = n \<and> (\<forall>y\<in>set x. P y) \<and> c' = c"
proof (induction n arbitrary: p x)
  case (Suc n)
  have "lang (Rep (Suc n) (Cls P)) p x q c c' \<longleftrightarrow> (\<exists>y ys. x = y # ys \<and> P y \<and> lang (Rep n (Cls P)) (p @ [y]) ys q c c')"
    unfolding Rep.simps by (rule lang_Cat_Cls)
  then show ?case unfolding Suc.IH by (auto simp: length_Suc_conv)
qed auto

lemma lang_Cat_Str [lang_simps]:
  "lang (Cat (Str s) r) p x q c c' \<longleftrightarrow> (\<exists>y. x = s @ y \<and> lang r (p @ s) y q c c')"
  by (auto simp: lang_Str)

declare lang.simps(5) [simp del]

text \<open>Rules for a sequence, by its first part; with them a pattern unfolds to nested equations that
  follow the text from left to right.\<close>

named_theorems cat_simps

lemma lang_Cat_run [cat_simps]:
  "lang (Cat (Star g (Cls P)) r) p x q c c' \<longleftrightarrow> (\<exists>w y. x = w @ y \<and> (\<forall>z\<in>set w. P z) \<and> lang r (p @ w) y q c c')"
  "lang (Cat (Star g AnyC) r) p x q c c' \<longleftrightarrow> (\<exists>w y. x = w @ y \<and> lang r (p @ w) y q c c')"
  "lang (Cat (Star g Dot) r) p x q c c' \<longleftrightarrow> (\<exists>w y. x = w @ y \<and> NL \<notin> set w \<and> lang r (p @ w) y q c c')"
  "lang (Cat (Star g Spc) r) p x q c c' \<longleftrightarrow> (\<exists>w y. x = w @ y \<and> (\<forall>z\<in>set w. is_space z) \<and> lang r (p @ w) y q c c')"
  "lang (Cat (Plus Spc) r) p x q c c' \<longleftrightarrow>
     (\<exists>w y. x = w @ y \<and> w \<noteq> [] \<and> (\<forall>z\<in>set w. is_space z) \<and> lang r (p @ w) y q c c')"
  by (auto simp: lang_Star_Cls lang_Star_pats lang_Plus_pats)

lemma lang_Cat_char [cat_simps]:
  "lang (Cat (Cls P) r) p x q c c' \<longleftrightarrow> (\<exists>ch y. x = [ch] @ y \<and> P ch \<and> lang r (p @ [ch]) y q c c')"
  "lang (Cat (Chr a) r) p x q c c' \<longleftrightarrow> (\<exists>y. x = [a] @ y \<and> lang r (p @ [a]) y q c c')"
  "lang (Cat Dot r) p x q c c' \<longleftrightarrow> (\<exists>ch y. x = [ch] @ y \<and> ch \<noteq> NL \<and> lang r (p @ [ch]) y q c c')"
  unfolding Chr_def Dot_def lang_Cat_Cls by auto

lemma lang_Cat_marks [cat_simps]:
  "lang (Cat (Bol ml) r) p x q c c' \<longleftrightarrow> (p = [] \<or> ml \<and> last p = NL) \<and> lang r p x q c c'"
  "lang (Cat (Eol ml) r) p x q c c' \<longleftrightarrow> (x @ q = [] \<or> x @ q = [NL] \<or> ml \<and> hd (x @ q) = NL) \<and> lang r p x q c c'"
  "lang (Cat (Grp n r0) r) p x q c c' \<longleftrightarrow>
     (\<exists>w y c1. x = w @ y \<and> lang r0 p w (y @ q) c c1 \<and> lang r (p @ w) y q ((n, w) # c1) c')"
  by auto

declare lang_Cat_Str [cat_simps]

lemma headed_Seq: "headed (Seq (Str h # r # rs)) h"
  unfolding headed_def Seq.simps lang_Cat_Str by auto

subsection \<open>Patterns without anchors\<close>

text \<open>A pattern without anchors cannot see what is before the position.\<close>

primrec anchor_free :: "re \<Rightarrow> bool" where
  "anchor_free Eps = True"
| "anchor_free (Cls P) = True"
| "anchor_free (Cat r1 r2) = (anchor_free r1 \<and> anchor_free r2)"
| "anchor_free (Alt r1 r2) = (anchor_free r1 \<and> anchor_free r2)"
| "anchor_free (Star g r) = anchor_free r"
| "anchor_free (Grp n r) = anchor_free r"
| "anchor_free (Bol ml) = False"
| "anchor_free (Eol ml) = False"

definition behind :: "pystr \<Rightarrow> mpos \<Rightarrow> mpos" where
  "behind b0 = (\<lambda>(b, a, c). (b @ b0, a, c))"

lemma behind_simp [simp]: "behind b0 (b, a, c) = (b @ b0, a, c)"
  by (simp add: behind_def)

lemma shorter_behind [simp]: "shorter (behind b0 s) (behind b0 s') = shorter s s'"
  by (cases s; cases s') (simp add: shorter_def)

lemma star_iter_behind:
  assumes "\<And>s. f (behind b0 s) = map (behind b0) (f s)"
  shows "star_iter f g n (behind b0 s) = map (behind b0) (star_iter f g n s)"
proof (induction n arbitrary: s)
  case (Suc n)
  then show ?case by (simp add: assms filter_map o_def map_concat Let_def)
qed simp

lemma matches_of_moves: "(b', a', c') \<in> set (matches_of r (b, a, c)) \<Longrightarrow> length b \<le> length b'"
  unfolding matches_of_iff by auto

lemma matches_of_behind: "anchor_free r \<Longrightarrow> matches_of r (behind b0 s) = map (behind b0) (matches_of r s)"
proof (induction r arbitrary: s)
  case (Cls P)
  then show ?case by (cases s; cases "fst (snd s)") auto
next
  case (Cat r1 r2)
  then show ?case by (simp add: map_concat o_def)
next
  case (Star g r)
  then have "fst (snd (behind b0 s)) = fst (snd s)" by (cases s) simp
  with Star star_iter_behind [of "matches_of r" b0 g] show ?case by simp
next
  case (Grp n r)
  obtain b a c where s: "s = (b, a, c)" by (cases s)
  have "length b \<le> length b'" if "(b', a', c') \<in> set (matches_of r (b, a, c))" for b' a' c'
    using matches_of_moves [OF that] .
  with Grp s show ?case by (auto simp: behind_def)
qed auto

lemma search_pos_behind:
  "anchor_free r \<Longrightarrow> search_pos r (b @ b0) a = map_option (\<lambda>(s, e). (behind b0 s, behind b0 e)) (search_pos r b a)"
proof (induction a arbitrary: b)
  case Nil
  have "matches_of r (b @ b0, [], []) = map (behind b0) (matches_of r (b, [], []))"
    using matches_of_behind [OF Nil, of b0 "(b, [], [])"] by simp
  then show ?case by (simp add: search_pos.simps split: list.split)
next
  case (Cons x xs)
  have m: "matches_of r (b @ b0, x # xs, []) = map (behind b0) (matches_of r (b, x # xs, []))"
    using matches_of_behind [OF Cons.prems, of b0 "(b, x # xs, [])"] by simp
  show ?case
    using Cons.IH [OF Cons.prems, of "x # b"] by (simp add: search_pos.simps [of _ _ "x # xs"] m split: list.split)
qed

lemma sub_posE_behind:
  assumes "anchor_free r" and "\<And>m m' t. m_caps m = m_caps m' \<Longrightarrow> f m t = f m' t"
  shows "sub_posE r f b a = sub_posE r f [] a"
proof -
  have "sub_posE r f (b @ b0) a = sub_posE r f b a" for b b0
  proof (induction a arbitrary: b rule: measure_induct_rule [where f = length])
    case (less a)
    show ?case
    proof (cases "search_pos r b a")
      case None
      then show ?thesis by (simp add: sub_posE.simps [of r f _ a] search_pos_behind [OF assms(1)])
    next
      case (Some se)
      obtain p0 a0 c0 p1 a1 c1 where se: "se = ((p0, a0, c0), (p1, a1, c1))" by (metis prod_cases3 surj_pair)
      have len: "length a0 \<le> length a" "length a1 \<le> length a0" using search_pos_length Some se by blast+
      have f: "f (mk_match (behind b0 (p0, a0, c0), behind b0 (p1, a1, c1))) t = f (mk_match ((p0, a0, c0), (p1, a1, c1))) t" for t
        by (rule assms(2)) (simp add: mk_match_def)
      have IH: "sub_posE r f (p1 @ b0) a1 = sub_posE r f p1 a1" if "length a1 < length a0"
        using less len that by simp
      have IH': "sub_posE r f (x # p1 @ b0) xs = sub_posE r f (x # p1) xs" if "a1 = x # xs" for x xs
        using less [of xs "x # p1"] len that by simp
      show ?thesis
        using Some se f IH IH' by (simp add: sub_posE.simps [of r f _ a] search_pos_behind [OF assms(1)] split: list.split)
    qed
  qed
  from this [of "[]" b] show ?thesis by simp
qed

end
