(* ===== verification/Py_World.thy ===== *)
theory Py_World
  imports Py_Regex
begin

section \<open>The world of the scripts: documents, files, git and the third-party parsers\<close>

text \<open>
  \<^item> \<open>pyval\<close>: what \<open>yaml.safe_load\<close> and \<open>json.loads\<close> return; a dict is an
    association list in insertion order, looked up with Python's equality (\<open>True == 1\<close>).
  \<^item> \<open>xml\<close>: what the scripts read of an \<open>ElementTree\<close> element.
  \<^item> \<open>node\<close>: the files below the repository root, as a tree. A file holds the text
    \<open>read_text(encoding="utf-8")\<close> returns, or None if its bytes are not UTF-8.
  \<^item> \<open>world\<close>: the tree, the \<open>engine.version\<close> file of the Flutter SDK, the answers of
    \<open>git ls-files\<close>, and the functions of PyYAML, \<open>json\<close> and the expat parser, none of which
    is code of the repository: parameters, each returning a value or its exception.
\<close>

subsection \<open>Documents\<close>

datatype pyval =
    PNone
  | PBool bool
  | PInt int
  | PFloat rat
  | PStr pystr
  | PList "pyval list"
  | PDict "(pyval \<times> pyval) list"

fun num_of :: "pyval \<Rightarrow> rat option" where
  "num_of (PBool b) = Some (if b then 1 else 0)"
| "num_of (PInt i) = Some (of_int i)"
| "num_of (PFloat q) = Some q"
| "num_of _ = None"

text \<open>Equality of two dict keys (keys are scalars).\<close>

definition key_eq :: "pyval \<Rightarrow> pyval \<Rightarrow> bool" where
  "key_eq k k' \<longleftrightarrow> k = k' \<or> (num_of k \<noteq> None \<and> num_of k = num_of k')"

fun assoc_get :: "(pyval \<times> pyval) list \<Rightarrow> pyval \<Rightarrow> pyval option" where
  "assoc_get [] k = None"
| "assoc_get ((k', v) # kvs) k = (if key_eq k' k then Some v else assoc_get kvs k)"

lemma key_eq_PStr [simp]: "key_eq k (PStr s) \<longleftrightarrow> k = PStr s"
  by (auto simp: key_eq_def)

text \<open>\<open>d.get(k, default)\<close> and \<open>k in d\<close>; on anything but a dict, \<open>.get\<close> is an AttributeError.\<close>

fun py_get :: "pyval \<Rightarrow> pyval \<Rightarrow> pyval \<Rightarrow> pyval res" where
  "py_get (PDict kvs) k dflt = Inr (case assoc_get kvs k of Some v \<Rightarrow> v | None \<Rightarrow> dflt)"
| "py_get _ k dflt = Inl AttributeError"

abbreviation get_str :: "pyval \<Rightarrow> string \<Rightarrow> pyval \<Rightarrow> pyval res" where
  "get_str d k dflt \<equiv> py_get d (PStr (lit k)) dflt"

text \<open>The same on the entries of a value already known to be a dict: no exception.\<close>

definition dget :: "(pyval \<times> pyval) list \<Rightarrow> string \<Rightarrow> pyval \<Rightarrow> pyval" where
  "dget kvs k dflt = (case assoc_get kvs (PStr (lit k)) of Some v \<Rightarrow> v | None \<Rightarrow> dflt)"

definition has_key :: "(pyval \<times> pyval) list \<Rightarrow> string \<Rightarrow> bool" where
  "has_key kvs k \<longleftrightarrow> assoc_get kvs (PStr (lit k)) \<noteq> None"

text \<open>\<open>d.items()\<close> and \<open>d.keys()\<close>.\<close>

fun py_items :: "pyval \<Rightarrow> (pyval \<times> pyval) list res" where
  "py_items (PDict kvs) = Inr kvs"
| "py_items _ = Inl AttributeError"

text \<open>Iteration: a dict gives its keys, a string its characters; the other scalars are a TypeError.\<close>

fun py_iter :: "pyval \<Rightarrow> pyval list res" where
  "py_iter (PList xs) = Inr xs"
| "py_iter (PDict kvs) = Inr (map fst kvs)"
| "py_iter (PStr s) = Inr (map (\<lambda>c. PStr [c]) s)"
| "py_iter _ = Inl TypeError"

fun is_dict :: "pyval \<Rightarrow> bool" where
  "is_dict (PDict _) = True"
| "is_dict _ = False"

fun is_list :: "pyval \<Rightarrow> bool" where
  "is_list (PList _) = True"
| "is_list _ = False"

fun is_str :: "pyval \<Rightarrow> bool" where
  "is_str (PStr _) = True"
| "is_str _ = False"

fun is_bool :: "pyval \<Rightarrow> bool" where
  "is_bool (PBool _) = True"
| "is_bool _ = False"

fun dict_items :: "pyval \<Rightarrow> (pyval \<times> pyval) list" where
  "dict_items (PDict kvs) = kvs"
| "dict_items _ = []"

lemma is_dict_iff: "is_dict v \<longleftrightarrow> (\<exists>kvs. v = PDict kvs)"
  and is_list_iff: "is_list v \<longleftrightarrow> (\<exists>xs. v = PList xs)"
  and is_str_iff: "is_str v \<longleftrightarrow> (\<exists>s. v = PStr s)"
  and is_bool_iff: "is_bool v \<longleftrightarrow> (\<exists>b. v = PBool b)"
  by (cases v; simp)+

text \<open>Truth value.\<close>

fun truthy :: "pyval \<Rightarrow> bool" where
  "truthy PNone = False"
| "truthy (PBool b) = b"
| "truthy (PInt i) = (i \<noteq> 0)"
| "truthy (PFloat q) = (q \<noteq> 0)"
| "truthy (PStr s) = (s \<noteq> [])"
| "truthy (PList xs) = (xs \<noteq> [])"
| "truthy (PDict kvs) = (kvs \<noteq> [])"

fun type_name :: "pyval \<Rightarrow> pystr" where
  "type_name PNone = lit ''NoneType''"
| "type_name (PBool _) = lit ''bool''"
| "type_name (PInt _) = lit ''int''"
| "type_name (PFloat _) = lit ''float''"
| "type_name (PStr _) = lit ''str''"
| "type_name (PList _) = lit ''list''"
| "type_name (PDict _) = lit ''dict''"

subsection \<open>XML elements\<close>

text \<open>An element: tag and attributes with their expanded (\<open>{uri}name\<close>) names, and its children.\<close>

datatype xml = Elem (tag: pystr) (attrs: "(pystr \<times> pystr) list") (children: "xml list")

definition xml_get :: "xml \<Rightarrow> pystr \<Rightarrow> pystr option" where
  "xml_get e k = map_of (attrs e) k"

text \<open>\<open>root.iter(t)\<close>: the element itself and all elements below it, in document order;
  \<open>root.findall(t)\<close>: the children.\<close>

fun xml_nodes :: "xml \<Rightarrow> xml list" where
  "xml_nodes (Elem t as es) = Elem t as es # concat (map xml_nodes es)"

definition xml_iter :: "xml \<Rightarrow> pystr \<Rightarrow> xml list" where
  "xml_iter e t = filter (\<lambda>x. tag x = t) (xml_nodes e)"

definition xml_findall :: "xml \<Rightarrow> pystr \<Rightarrow> xml list" where
  "xml_findall e t = filter (\<lambda>x. tag x = t) (children e)"

subsection \<open>Files\<close>

type_synonym path = "string list"

datatype node =
    File "pystr option"
  | Dir "(string \<times> node) list"

fun lookup :: "node \<Rightarrow> path \<Rightarrow> node option" where
  "lookup n [] = Some n"
| "lookup (File t) (p # ps) = None"
| "lookup (Dir es) (p # ps) = (case map_of es p of None \<Rightarrow> None | Some n \<Rightarrow> lookup n ps)"

record world =
  repo :: node
  engine_version_file :: "node option"
  git_ls_files :: "string \<Rightarrow> (nat \<times> pystr) option"
    \<comment> \<open>return code and standard output; None when git is missing or times out\<close>
  yaml_load :: "pystr \<Rightarrow> pyval res"
  yaml_load_all :: "pystr \<Rightarrow> pyval list res"
  json_load :: "pystr \<Rightarrow> pyval res"
  xml_parse :: "pystr \<Rightarrow> xml res"
    \<comment> \<open>\<open>ET.fromstring\<close>\<close>
  et_parse :: "path \<Rightarrow> xml res"
    \<comment> \<open>the root of \<open>ET.parse\<close>, which reads the bytes of the file itself\<close>
  repr_of :: "pyval \<Rightarrow> pystr"
    \<comment> \<open>\<open>repr\<close> of a value, as CPython prints it\<close>
  unicode_alnum :: "nat \<Rightarrow> bool"
    \<comment> \<open>\<open>str.isalnum\<close> of a code point above 127, from the Unicode tables\<close>

definition path_exists :: "world \<Rightarrow> path \<Rightarrow> bool" where
  "path_exists w p \<longleftrightarrow> lookup (repo w) p \<noteq> None"

fun node_text :: "node option \<Rightarrow> pystr res" where
  "node_text (Some (File (Some t))) = Inr t"
| "node_text (Some (File None)) = Inl UnicodeDecodeError"
| "node_text (Some (Dir _)) = Inl OSError"
| "node_text None = Inl OSError"

definition read_text :: "world \<Rightarrow> path \<Rightarrow> pystr res" where
  "read_text w p = node_text (lookup (repo w) p)"

fun is_file_node :: "node option \<Rightarrow> bool" where
  "is_file_node (Some (File _)) = True"
| "is_file_node _ = False"

fun is_dir_node :: "node option \<Rightarrow> bool" where
  "is_dir_node (Some (Dir _)) = True"
| "is_dir_node _ = False"

definition has_text :: "world \<Rightarrow> path \<Rightarrow> pystr \<Rightarrow> bool" where
  "has_text w p t \<longleftrightarrow> lookup (repo w) p = Some (File (Some t))"

text \<open>Reading with \<open>except (UnicodeDecodeError, OSError)\<close>, the only exceptions of a read: None when it
  fails.\<close>

fun ok_value :: "'a res \<Rightarrow> 'a option" where
  "ok_value (Inr x) = Some x"
| "ok_value (Inl e) = None"

definition try_read :: "world \<Rightarrow> path \<Rightarrow> pystr option" where
  "try_read w p = ok_value (read_text w p)"

lemma has_text_exists: "has_text w p t \<Longrightarrow> path_exists w p"
  and has_text_read: "has_text w p t \<Longrightarrow> read_text w p = Inr t"
  by (auto simp: has_text_def path_exists_def read_text_def)

lemma read_text_Inr: "read_text w p = Inr t \<longleftrightarrow> has_text w p t"
  unfolding read_text_def has_text_def by (cases "lookup (repo w) p" rule: node_text.cases) auto

lemma read_text_Inl: "read_text w p = Inl e \<Longrightarrow> e = OSError \<or> e = UnicodeDecodeError"
  unfolding read_text_def by (cases "lookup (repo w) p" rule: node_text.cases) auto

text \<open>The optional text of a file, as the replicas of the self-test take it: None when the file
  is not there.\<close>

definition text_of :: "world \<Rightarrow> path \<Rightarrow> pystr option" where
  "text_of w p = (case lookup (repo w) p of Some (File (Some t)) \<Rightarrow> Some t | _ \<Rightarrow> None)"

text \<open>A path is \<open>readable\<close> when it is absent or a UTF-8 file: then no read of it raises.\<close>

definition readable :: "world \<Rightarrow> path \<Rightarrow> bool" where
  "readable w p \<longleftrightarrow> (case lookup (repo w) p of None \<Rightarrow> True | Some (File (Some t)) \<Rightarrow> True | _ \<Rightarrow> False)"

lemma readable_cases:
  assumes "readable w p"
  obtains (absent) "\<not> path_exists w p" "text_of w p = None"
    | (present) t where "has_text w p t" "path_exists w p" "read_text w p = Inr t" "text_of w p = Some t"
proof (cases "lookup (repo w) p")
  case None
  then show ?thesis by (intro absent) (simp_all add: path_exists_def text_of_def)
next
  case (Some n)
  with assms obtain t where "n = File (Some t)"
    by (auto simp: readable_def split: node.splits option.splits)
  with Some show ?thesis
    by (intro present [of t]) (simp_all add: path_exists_def text_of_def has_text_def read_text_def)
qed

text \<open>\<open>subprocess.run(["git", "ls-files", rel_path])\<close>.\<close>

definition git_tracked :: "world \<Rightarrow> string \<Rightarrow> bool" where
  "git_tracked w rel_path = (case git_ls_files w rel_path of
     None \<Rightarrow> False
   | Some (rc, out) \<Rightarrow> if rc \<noteq> 0 then False else py_strip out \<noteq> [])"

text \<open>A repository that holds one file, for the concrete instances of the properties: git knows
  nothing, and the parsers raise on every input.\<close>

fun file_at :: "path \<Rightarrow> pystr \<Rightarrow> node" where
  "file_at [] t = File (Some t)"
| "file_at (p # ps) t = Dir [(p, file_at ps t)]"

definition mk_world :: "node \<Rightarrow> world" where
  "mk_world n = \<lparr>repo = n, engine_version_file = None, git_ls_files = (\<lambda>_. None),
     yaml_load = (\<lambda>_. Inl YAMLError), yaml_load_all = (\<lambda>_. Inl YAMLError),
     json_load = (\<lambda>_. Inl JSONDecodeError), xml_parse = (\<lambda>_. Inl ParseError),
     et_parse = (\<lambda>_. Inl ParseError), repr_of = (\<lambda>_. []), unicode_alnum = (\<lambda>_. False)\<rparr>"

lemma has_text_file_at: "has_text (mk_world (file_at p t)) p t"
proof -
  have "lookup (file_at p t) p = Some (File (Some t))" by (induction p) auto
  then show ?thesis by (simp add: has_text_def mk_world_def)
qed

text \<open>The class \<open>\w\<close>.\<close>

definition is_word :: "world \<Rightarrow> nat \<Rightarrow> bool" where
  "is_word w c \<longleftrightarrow> (48 \<le> c \<and> c \<le> 57) \<or> (65 \<le> c \<and> c \<le> 90) \<or> (97 \<le> c \<and> c \<le> 122) \<or> c = 95 \<or>
     (128 \<le> c \<and> unicode_alnum w c)"

subsection \<open>Findings\<close>

text \<open>A finding is the place that appends it, named by its check and what it reports, and the
  values the source interpolates into the message; the fixed prose of the message is left out.\<close>

datatype finding = Finding (check: string) (site: string) (args: "pystr list")

type_synonym findings = "finding list res"

text \<open>\<open>str(v)\<close>: strings as they are, None and booleans by name, the rest as \<open>repr\<close>.\<close>

fun py_str :: "world \<Rightarrow> pyval \<Rightarrow> pystr" where
  "py_str w (PStr s) = s"
| "py_str w PNone = lit ''None''"
| "py_str w (PBool b) = (if b then lit ''True'' else lit ''False'')"
| "py_str w v = repr_of w v"

text \<open>The prefix a replica of the self-test reports for a check.\<close>

definition fail :: "string \<Rightarrow> string" where
  "fail s = s @ '' fail''"

end
