(* ===== verification/Workflow_Checks.thy ===== *)
theory Workflow_Checks
  imports Py_World
begin

section \<open>Workflow checks (triggers, Flutter steps, S6)\<close>

text \<open>
  \<open>audit_workflow\<close> and \<open>check_android_debug_workflow_v3\<close> of tools/workflow-yaml-audit.py: what the
  YAML documents below \<open>.github/workflows\<close> must hold. The documents come from PyYAML; every
  \<open>.get\<close>, \<open>.items\<close> and \<open>for\<close> the scripts apply to a value of the wrong kind raises, and these
  exceptions are part of the model.
\<close>

definition workflow_path :: "string \<Rightarrow> path" where
  "workflow_path name = [''.github'', ''workflows'', name]"

definition TARGETS :: "string list" where
  "TARGETS = [''android-debug.yml'', ''ci.yml'', ''ios.yml'', ''android-release.yml'']"

text \<open>\<open>list(yaml.safe_load_all(f))\<close> of an opened file.\<close>

definition load_docs :: "world \<Rightarrow> path \<Rightarrow> pyval list res" where
  "load_docs w p = bindE (read_text w p) (yaml_load_all w)"

text \<open>\<open>sorted(keys)\<close> of a dict's keys: strings by code point, numbers by value; keys of different kinds
  cannot be compared.\<close>

fun str_le :: "pyval \<Rightarrow> pyval \<Rightarrow> bool" where
  "str_le (PStr s) (PStr t) \<longleftrightarrow> ord_class.lexordp_eq s t"
| "str_le _ _ \<longleftrightarrow> True"

definition num_le :: "pyval \<Rightarrow> pyval \<Rightarrow> bool" where
  "num_le k k' \<longleftrightarrow> (case (num_of k, num_of k') of (Some q, Some q') \<Rightarrow> q \<le> q' | _ \<Rightarrow> True)"

fun insert_by :: "('a \<Rightarrow> 'a \<Rightarrow> bool) \<Rightarrow> 'a \<Rightarrow> 'a list \<Rightarrow> 'a list" where
  "insert_by le x [] = [x]"
| "insert_by le x (y # ys) = (if le x y then x # y # ys else y # insert_by le x ys)"

definition sorted_keys :: "pyval list \<Rightarrow> pyval list res" where
  "sorted_keys ks =
     (if length ks < 2 then Inr ks
      else if list_all is_str ks then Inr (foldr (insert_by str_le) ks [])
      else if list_all (\<lambda>k. num_of k \<noteq> None) ks then Inr (foldr (insert_by num_le) ks [])
      else Inl TypeError)"

subsection \<open>The steps of android-debug.yml\<close>

record wf_flags =
  has_flutter_setup :: bool
  flutter_version_pinned :: bool
  has_which_flutter_echo :: bool
  has_verify_step :: bool

definition no_flags :: wf_flags where
  "no_flags = \<lparr>has_flutter_setup = False, flutter_version_pinned = False,
     has_which_flutter_echo = False, has_verify_step = False\<rparr>"

text \<open>\<open>str(s.get(k, ""))\<close> of a step.\<close>

definition step_str :: "world \<Rightarrow> pyval \<Rightarrow> string \<Rightarrow> pystr" where
  "step_str w s k = py_str w (dget (dict_items s) k (PStr []))"

text \<open>The body of \<open>for s in steps\<close>.\<close>

definition audit_step :: "world \<Rightarrow> pyval \<Rightarrow> wf_flags \<Rightarrow> wf_flags" where
  "audit_step w s fl =
     (if \<not> is_dict s then fl
      else if contains (step_str w s ''uses'') (lit ''subosito/flutter-action'') then
        let step_with = dget (dict_items s) ''with'' (PDict []) in
        fl\<lparr>has_flutter_setup := True,
           flutter_version_pinned := flutter_version_pinned fl \<or>
             is_dict step_with \<and> has_key (dict_items step_with) ''flutter-version''\<rparr>
      else
        let step_name = step_str w s ''name''; run_text = step_str w s ''run'' in
        fl\<lparr>has_which_flutter_echo := has_which_flutter_echo fl \<or>
             contains step_name (lit ''Generate local.properties'') \<and>
             contains run_text (lit ''which flutter'') \<and> contains run_text (lit ''flutter.sdk=''),
           has_verify_step := has_verify_step fl \<or>
             contains step_name (lit ''Verify Flutter SDK path'') \<and>
             contains run_text (lit ''flutter_tools/gradle'')\<rparr>)"

definition audit_job :: "world \<Rightarrow> pystr \<Rightarrow> pyval \<times> pyval \<Rightarrow> finding list \<Rightarrow> findings" where
  "audit_job w name = (\<lambda>(job_name, job_def) findings.
     let steps = (if is_dict job_def then dget (dict_items job_def) ''steps'' (PList []) else PList [])
     in bindE (py_iter steps) (\<lambda>ss.
       let fl = fold (audit_step w) ss no_flags; args = [name, py_str w job_name]
       in Inr (findings @
         (if \<not> has_flutter_setup fl then [Finding ''workflow'' ''job missing flutter-action step'' args] else []) @
         (if \<not> flutter_version_pinned fl then [Finding ''workflow'' ''job missing flutter-version pin'' args] else []) @
         (if \<not> has_which_flutter_echo fl then [Finding ''workflow'' ''job missing which flutter derivation'' args] else []) @
         (if \<not> has_verify_step fl then [Finding ''workflow'' ''job missing verify step'' args] else []))))"

subsection \<open>\<open>audit_workflow\<close>\<close>

definition audit_triggers :: "world \<Rightarrow> pystr \<Rightarrow> (pyval \<times> pyval) list \<Rightarrow> findings" where
  "audit_triggers w name on_items =
     bindE (sorted_keys (map fst on_items)) (\<lambda>trigger_keys.
       Inr (if trigger_keys \<noteq> [PStr (lit ''workflow_dispatch'')]
            then [Finding ''workflow'' ''on triggers'' [name, repr_of w (PList trigger_keys)]] else []))"

definition audit_workflow :: "world \<Rightarrow> string \<Rightarrow> findings" where
  "audit_workflow w file_name = (let name = lit file_name in
     bindE (load_docs w (workflow_path file_name)) (\<lambda>docs.
       if length docs \<noteq> 1 \<or> hd docs = PNone
       then Inr [Finding ''workflow'' ''YAML parse failed'' [name, show_nat (length docs)]]
       else let d = hd docs in
         bindE (py_get d (PBool True) PNone) (\<lambda>on_block.
           if on_block = PNone then Inr [Finding ''workflow'' ''on block missing or None'' [name]]
           else if \<not> is_dict on_block
           then Inr [Finding ''workflow'' ''on block is not a dict'' [name, type_name on_block]]
           else
             bindE (audit_triggers w name (dict_items on_block)) (\<lambda>f1.
             bindE (if file_name = ''android-debug.yml''
                    then bindE (get_str d ''jobs'' (PDict [])) (\<lambda>jobs.
                           bindE (py_items jobs) (\<lambda>items. foldE (audit_job w name) items f1))
                    else Inr f1) (\<lambda>f2.
             let wd = dget (dict_items on_block) ''workflow_dispatch'' PNone in
             Inr (if file_name \<in> {''ci.yml'', ''ios.yml'', ''android-release.yml''} \<and>
                     is_dict wd \<and> has_key (dict_items wd) ''inputs''
                  then f2 @ [Finding ''workflow'' ''has inputs.runner'' [name]] else f2))))))"

subsection \<open>S6: \<open>flutter pub get\<close> runs in ./mobile\<close>

text \<open>\<open>s6_match\<close> (of which only the working directory is read again) and \<open>s6_name_found\<close>.\<close>

record s6_state =
  s6_match :: "pyval option"
  s6_name_found :: "pystr list"

definition s6_step :: "world \<Rightarrow> pyval \<Rightarrow> s6_state \<Rightarrow> s6_state" where
  "s6_step w s st =
     (if \<not> is_dict s then st
      else let step_name = step_str w s ''name''; step_run = step_str w s ''run'';
               step_wd = dget (dict_items s) ''working-directory'' PNone in
        if contains (py_lower step_name) (lit ''install flutter dependencies'') then
          let st = st\<lparr>s6_name_found := s6_name_found st @ [step_name]\<rparr> in
          if contains (py_lower step_run) (lit ''flutter pub get'') then st\<lparr>s6_match := Some step_wd\<rparr> else st
        else st)"

definition s6_job :: "world \<Rightarrow> pyval \<Rightarrow> s6_state \<Rightarrow> s6_state" where
  "s6_job w job_def st =
     (if \<not> is_dict job_def then st
      else case dget (dict_items job_def) ''steps'' (PList []) of
             PList steps \<Rightarrow> fold (s6_step w) steps st
           | _ \<Rightarrow> st)"

text \<open>The second pass over the jobs, for the message: the first step of each job that runs
  \<open>flutter pub get\<close>, the last such job winning. It iterates over \<open>steps\<close> without the list test of the
  first pass.\<close>

definition s6_observe :: "world \<Rightarrow> pyval \<Rightarrow> pystr \<Rightarrow> pystr res" where
  "s6_observe w job_def wd_observed =
     (if \<not> is_dict job_def then Inr wd_observed
      else bindE (py_iter (dget (dict_items job_def) ''steps'' (PList []))) (\<lambda>steps.
        Inr (case List.find (\<lambda>s. is_dict s \<and> contains (py_lower (step_str w s ''run'')) (lit ''flutter pub get'')) steps of
               Some s \<Rightarrow> repr_of w (dget (dict_items s) ''working-directory'' (PStr (lit ''absent'')))
             | None \<Rightarrow> wd_observed)))"

definition s6_initial :: s6_state where
  "s6_initial = \<lparr>s6_match = None, s6_name_found = []\<rparr>"

definition check_android_debug_workflow_v3 :: "world \<Rightarrow> findings" where
  "check_android_debug_workflow_v3 w = (let p = workflow_path ''android-debug.yml'' in
     if \<not> path_exists w p then Inr [Finding ''S6'' ''file missing'' []]
     else bindE (load_docs w p) (\<lambda>docs.
       if length docs \<noteq> 1 \<or> hd docs = PNone then Inr [Finding ''S6'' ''YAML parse failed'' []]
       else bindE (get_str (hd docs) ''jobs'' (PDict [])) (\<lambda>jobs.
         bindE (py_items jobs) (\<lambda>items.
           let st = fold (s6_job w) (map snd items) s6_initial in
           case s6_match st of
             None \<Rightarrow>
               bindE (foldE (s6_observe w) (map snd items) (lit ''absent'')) (\<lambda>wd_observed.
                 Inr (if s6_name_found st = [] then [Finding ''S6'' ''step is missing'' []]
                      else [Finding ''S6'' ''step is misconfigured'' [wd_observed]]))
           | Some wd \<Rightarrow>
               Inr (if wd \<noteq> PStr (lit ''./mobile'') then [Finding ''S6'' ''working-directory'' [repr_of w wd]] else [])))))"

subsection \<open>What the loops compute\<close>

definition setup_step :: "world \<Rightarrow> pyval \<Rightarrow> bool" where
  "setup_step w s \<longleftrightarrow> is_dict s \<and> contains (step_str w s ''uses'') (lit ''subosito/flutter-action'')"

definition pinned_step :: "world \<Rightarrow> pyval \<Rightarrow> bool" where
  "pinned_step w s \<longleftrightarrow> setup_step w s \<and> (let step_with = dget (dict_items s) ''with'' (PDict []) in
     is_dict step_with \<and> has_key (dict_items step_with) ''flutter-version'')"

definition sdk_step :: "world \<Rightarrow> pyval \<Rightarrow> bool" where
  "sdk_step w s \<longleftrightarrow> is_dict s \<and> \<not> setup_step w s \<and> contains (step_str w s ''name'') (lit ''Generate local.properties'') \<and>
     contains (step_str w s ''run'') (lit ''which flutter'') \<and> contains (step_str w s ''run'') (lit ''flutter.sdk='')"

definition verify_step :: "world \<Rightarrow> pyval \<Rightarrow> bool" where
  "verify_step w s \<longleftrightarrow> is_dict s \<and> \<not> setup_step w s \<and> contains (step_str w s ''name'') (lit ''Verify Flutter SDK path'') \<and>
     contains (step_str w s ''run'') (lit ''flutter_tools/gradle'')"

lemma fold_audit_step:
  "fold (audit_step w) ss fl =
     \<lparr>has_flutter_setup = (has_flutter_setup fl \<or> (\<exists>s\<in>set ss. setup_step w s)),
      flutter_version_pinned = (flutter_version_pinned fl \<or> (\<exists>s\<in>set ss. pinned_step w s)),
      has_which_flutter_echo = (has_which_flutter_echo fl \<or> (\<exists>s\<in>set ss. sdk_step w s)),
      has_verify_step = (has_verify_step fl \<or> (\<exists>s\<in>set ss. verify_step w s))\<rparr>"
  by (induction ss arbitrary: fl)
     (auto simp: audit_step_def setup_step_def pinned_step_def sdk_step_def verify_step_def Let_def)

text \<open>A job that holds all four kinds of steps.\<close>

definition flutter_job :: "world \<Rightarrow> pyval \<Rightarrow> bool" where
  "flutter_job w job_def \<longleftrightarrow> (\<exists>steps. py_iter (if is_dict job_def then dget (dict_items job_def) ''steps'' (PList []) else PList []) = Inr steps \<and>
     (\<exists>s\<in>set steps. pinned_step w s) \<and> (\<exists>s\<in>set steps. sdk_step w s) \<and> (\<exists>s\<in>set steps. verify_step w s))"

lemma audit_job_silent: "audit_job w name job fs = Inr fs \<longleftrightarrow> flutter_job w (snd job)"
proof -
  obtain n job_def where job: "job = (n, job_def)" by fastforce
  let ?steps = "if is_dict job_def then dget (dict_items job_def) ''steps'' (PList []) else PList []"
  have pinned: "pinned_step w s \<Longrightarrow> setup_step w s" for s by (simp add: pinned_step_def)
  show ?thesis
  proof (cases "py_iter ?steps")
    case (Inl e)
    then show ?thesis by (simp add: job audit_job_def flutter_job_def Let_def)
  next
    case (Inr steps)
    then show ?thesis
      using pinned by (simp add: job audit_job_def flutter_job_def Let_def fold_audit_step no_flags_def) blast
  qed
qed

lemma audit_job_grows: "audit_job w name job fs = Inr fs' \<Longrightarrow> \<exists>g. fs' = fs @ g"
  by (cases job) (auto simp: audit_job_def Let_def)

lemma audit_jobs_grow: "foldE (audit_job w name) jobs fs = Inr fs' \<Longrightarrow> \<exists>g. fs' = fs @ g"
proof (induction jobs arbitrary: fs)
  case (Cons job jobs)
  then show ?case using audit_job_grows by fastforce
qed simp

lemma audit_jobs_silent:
  "foldE (audit_job w name) jobs fs = Inr [] \<longleftrightarrow> fs = [] \<and> (\<forall>job\<in>set jobs. flutter_job w (snd job))"
proof (cases "fs = []")
  case True
  have "foldE (audit_job w name) jobs [] = Inr [] \<longleftrightarrow> (\<forall>job\<in>set jobs. flutter_job w (snd job))"
  proof (induction jobs)
    case (Cons job jobs)
    have "foldE (audit_job w name) (job # jobs) [] = Inr [] \<longleftrightarrow>
        audit_job w name job [] = Inr [] \<and> foldE (audit_job w name) jobs [] = Inr []"
      using audit_jobs_grow by fastforce
    with Cons.IH audit_job_silent show ?case by simp
  qed simp
  with True show ?thesis by simp
qed (use audit_jobs_grow in fastforce)

lemma sorted_keys_singleton: "sorted_keys ks = Inr [k] \<longleftrightarrow> ks = [k]"
proof -
  have len: "length (insert_by le x ys) = Suc (length ys)" for le and x :: pyval and ys
    by (induction ys) auto
  have "length (foldr (insert_by le) xs []) = length xs" for le and xs :: "pyval list"
    by (induction xs) (auto simp: len)
  then show ?thesis
    by (auto simp: sorted_keys_def less_Suc_eq dest: arg_cong [where f = length])
qed

lemma audit_triggers_silent:
  "audit_triggers w name kvs = Inr [] \<longleftrightarrow> map fst kvs = [PStr (lit ''workflow_dispatch'')]"
  by (auto simp: audit_triggers_def sorted_keys_singleton)

text \<open>The steps S6 considers, in document order.\<close>

definition pub_get_step :: "world \<Rightarrow> pyval \<Rightarrow> bool" where
  "pub_get_step w s \<longleftrightarrow> is_dict s \<and> contains (py_lower (step_str w s ''name'')) (lit ''install flutter dependencies'') \<and>
     contains (py_lower (step_str w s ''run'')) (lit ''flutter pub get'')"

definition working_directory :: "pyval \<Rightarrow> pyval" where
  "working_directory s = dget (dict_items s) ''working-directory'' PNone"

definition job_steps :: "pyval \<Rightarrow> pyval list" where
  "job_steps job_def = (if \<not> is_dict job_def then []
     else case dget (dict_items job_def) ''steps'' (PList []) of PList steps \<Rightarrow> steps | _ \<Rightarrow> [])"

definition pub_get_steps :: "world \<Rightarrow> pyval list \<Rightarrow> pyval list" where
  "pub_get_steps w job_defs = filter (pub_get_step w) (concat (map job_steps job_defs))"

lemma s6_step_match:
  "s6_match (s6_step w s st) = (if pub_get_step w s then Some (working_directory s) else s6_match st)"
  by (simp add: s6_step_def pub_get_step_def working_directory_def Let_def)

lemma s6_job_steps: "s6_job w job_def st = fold (s6_step w) (job_steps job_def) st"
  by (auto simp: s6_job_def job_steps_def split: pyval.splits)

lemma fold_s6_job: "fold (s6_job w) jobs st = fold (s6_step w) (concat (map job_steps jobs)) st"
  by (induction jobs arbitrary: st) (simp_all add: s6_job_steps)

lemma fold_s6_step_match:
  "s6_match (fold (s6_step w) ss st) =
     (if filter (pub_get_step w) ss = [] then s6_match st
      else Some (working_directory (last (filter (pub_get_step w) ss))))"
  by (induction ss arbitrary: st) (auto simp: s6_step_match)

lemma s6_match_jobs:
  "s6_match (fold (s6_job w) jobs s6_initial) =
     (if pub_get_steps w jobs = [] then None else Some (working_directory (last (pub_get_steps w jobs))))"
  by (simp add: fold_s6_job fold_s6_step_match pub_get_steps_def s6_initial_def)

lemma s6_observe_raises: "s6_observe w j wd = Inl e \<Longrightarrow> e = TypeError"
  by (auto simp: s6_observe_def bindE_eq_Inl split: if_splits elim: py_iter.elims)

lemma s6_observe_all_raises: "foldE (s6_observe w) js wd = Inl e \<Longrightarrow> e = TypeError"
  by (induction js arbitrary: wd) (auto simp: bindE_eq_Inl dest: s6_observe_raises)

lemma load_docs_exists: "load_docs w p = Inr docs \<Longrightarrow> path_exists w p"
  by (auto simp: load_docs_def read_text_Inr intro: has_text_exists)

lemma py_items_Inr [simp]: "py_items v = Inr kvs \<longleftrightarrow> v = PDict kvs"
  by (cases v) auto

lemma py_get_Inr: "py_get v k dflt = Inr r \<longleftrightarrow> (\<exists>kvs. v = PDict kvs \<and> r = (case assoc_get kvs k of Some x \<Rightarrow> x | None \<Rightarrow> dflt))"
  by (cases v) auto

lemma get_str_Inr: "get_str v k dflt = Inr r \<longleftrightarrow> (\<exists>kvs. v = PDict kvs \<and> r = dget kvs k dflt)"
  by (auto simp: py_get_Inr dget_def)

text \<open>A repository that holds one workflow file, parsed to the given documents, for the instances.\<close>

definition yaml_world :: "path \<Rightarrow> pyval list \<Rightarrow> world" where
  "yaml_world p docs = (mk_world (file_at p []))\<lparr>yaml_load_all := \<lambda>_. Inr docs\<rparr>"

lemma load_docs_yaml_world: "load_docs (yaml_world p docs) p = Inr docs"
  using has_text_read [OF has_text_file_at, of p "[]"]
  by (simp add: load_docs_def yaml_world_def read_text_def mk_world_def)

definition ymap :: "(string \<times> pyval) list \<Rightarrow> pyval" where
  "ymap kvs = PDict (map (\<lambda>(k, v). (PStr (lit k), v)) kvs)"

definition ystr :: "string \<Rightarrow> pyval" where
  "ystr s = PStr (lit s)"

definition sample_steps :: "pyval list" where
  "sample_steps =
     [ymap [(''uses'', ystr ''subosito/flutter-action@v2''), (''with'', ymap [(''flutter-version'', ystr ''3.44.1'')])],
      ymap [(''name'', ystr ''Generate local.properties''), (''run'', ystr ''which flutter; flutter.sdk='')],
      ymap [(''name'', ystr ''Verify Flutter SDK path''), (''run'', ystr ''ls flutter_tools/gradle'')],
      ymap [(''name'', ystr ''Install Flutter dependencies''), (''run'', ystr ''flutter pub get''),
            (''working-directory'', ystr ''./mobile'')]]"

definition sample_jobs :: "(pyval \<times> pyval) list" where
  "sample_jobs = [(ystr ''build'', ymap [(''steps'', PList sample_steps)])]"

definition sample_workflow :: "(pyval \<times> pyval) list" where
  "sample_workflow = [(PBool True, ymap [(''workflow_dispatch'', PNone)]), (ystr ''jobs'', PDict sample_jobs)]"

lemmas sample_defs = sample_workflow_def sample_jobs_def sample_steps_def ymap_def ystr_def

subsection \<open>Properties\<close>

text \<open>Behind the document tests, which all report something, the check is the triggers, the jobs and the
  inputs.\<close>

lemma audit_workflow_body:
  assumes "load_docs w (workflow_path file_name) = Inr [PDict d]" and "assoc_get d (PBool True) = Some (PDict t)"
  shows "audit_workflow w file_name =
    bindE (audit_triggers w (lit file_name) t) (\<lambda>f1.
    bindE (if file_name = ''android-debug.yml''
           then bindE (py_items (dget d ''jobs'' (PDict []))) (\<lambda>items. foldE (audit_job w (lit file_name)) items f1)
           else Inr f1) (\<lambda>f2.
    let wd = dget t ''workflow_dispatch'' PNone in
    Inr (if file_name \<in> {''ci.yml'', ''ios.yml'', ''android-release.yml''} \<and> is_dict wd \<and> has_key (dict_items wd) ''inputs''
         then f2 @ [Finding ''workflow'' ''has inputs.runner'' [lit file_name]] else f2)))"
  using assms by (simp add: audit_workflow_def Let_def dget_def [symmetric] cong: if_cong)

lemma audit_workflow_rejects:
  assumes "load_docs w (workflow_path file_name) = Inr docs" and "audit_workflow w file_name = Inr []"
  shows "\<exists>d t. docs = [PDict d] \<and> assoc_get d (PBool True) = Some (PDict t)"
proof -
  from assms have 1: "length docs = 1 \<and> hd docs \<noteq> PNone" by (auto simp: audit_workflow_def Let_def split: if_splits)
  then obtain v where v: "docs = [v]" by (cases docs) auto
  from assms 1 v obtain on_block where 2: "py_get v (PBool True) PNone = Inr on_block" "on_block \<noteq> PNone" "is_dict on_block"
    by (auto simp: audit_workflow_def Let_def split: if_splits)
  then show ?thesis unfolding v py_get_Inr is_dict_iff by (auto split: option.splits)
qed

text \<open>C10. \<open>android-debug.yml\<close> passes \<open>audit_workflow\<close> exactly when it is one document whose only trigger is
  \<open>workflow_dispatch\<close> and in which every job has a Flutter setup step with a pinned version, a
  local.properties step that derives the SDK with \<open>which flutter\<close>, and the verify step.\<close>

theorem audit_android_debug_silent_iff:
  assumes "load_docs w (workflow_path ''android-debug.yml'') = Inr docs"
  shows "audit_workflow w ''android-debug.yml'' = Inr [] \<longleftrightarrow>
    (\<exists>d triggers jobs. docs = [PDict d] \<and> assoc_get d (PBool True) = Some (PDict triggers) \<and>
       map fst triggers = [PStr (lit ''workflow_dispatch'')] \<and>
       dget d ''jobs'' (PDict []) = PDict jobs \<and> (\<forall>job\<in>set jobs. flutter_job w (snd job)))"
  (is "_ = ?R")
proof
  assume L: "audit_workflow w ''android-debug.yml'' = Inr []"
  from audit_workflow_rejects [OF assms L] obtain d t where
    d: "docs = [PDict d]" "assoc_get d (PBool True) = Some (PDict t)" by blast
  from L show ?R
    using d audit_workflow_body [OF assms [unfolded d(1)] d(2)]
    by (auto simp: audit_jobs_silent audit_triggers_silent Let_def)
next
  assume ?R
  then obtain d t jobs where d: "docs = [PDict d]" "assoc_get d (PBool True) = Some (PDict t)"
    and t: "audit_triggers w (lit ''android-debug.yml'') t = Inr []"
    and jobs: "dget d ''jobs'' (PDict []) = PDict jobs" "foldE (audit_job w (lit ''android-debug.yml'')) jobs [] = Inr []"
    by (auto simp: audit_jobs_silent audit_triggers_silent)
  then show "audit_workflow w ''android-debug.yml'' = Inr []"
    using audit_workflow_body [OF assms [unfolded d(1)] d(2)] by (simp add: Let_def)
qed

theorem audit_android_debug_silent_iff_witness:
  "audit_workflow (yaml_world (workflow_path ''android-debug.yml'') [PDict sample_workflow]) ''android-debug.yml'' = Inr []"
  unfolding audit_android_debug_silent_iff [OF load_docs_yaml_world]
  by (simp add: sample_defs dget_def lit_def flutter_job_def pinned_step_def setup_step_def sdk_step_def
      verify_step_def step_str_def has_key_def)
     (simp add: key_eq_def)

text \<open>The other three workflows pass exactly when they are one document whose only trigger is a
  \<open>workflow_dispatch\<close> without \<open>inputs\<close>.\<close>

theorem audit_other_workflow_silent_iff:
  assumes "file_name \<in> {''ci.yml'', ''ios.yml'', ''android-release.yml''}"
    and "load_docs w (workflow_path file_name) = Inr docs"
  shows "audit_workflow w file_name = Inr [] \<longleftrightarrow>
    (\<exists>d triggers wd. docs = [PDict d] \<and> assoc_get d (PBool True) = Some (PDict triggers) \<and>
       triggers = [(PStr (lit ''workflow_dispatch''), wd)] \<and> \<not> (is_dict wd \<and> has_key (dict_items wd) ''inputs''))"
  (is "_ = ?R")
proof
  assume L: "audit_workflow w file_name = Inr []"
  from audit_workflow_rejects [OF assms(2) L] obtain d t where
    d: "docs = [PDict d]" "assoc_get d (PBool True) = Some (PDict t)" by blast
  from L have "map fst t = [PStr (lit ''workflow_dispatch'')]"
    and "\<not> (is_dict (dget t ''workflow_dispatch'' PNone) \<and> has_key (dict_items (dget t ''workflow_dispatch'' PNone)) ''inputs'')"
    using assms(1) audit_workflow_body [OF assms(2) [unfolded d(1)] d(2)]
    by (auto simp: audit_triggers_silent Let_def split: if_splits)
  with d show ?R by (auto simp: dget_def map_eq_Cons_conv)
next
  assume ?R
  then obtain d t wd where d: "docs = [PDict d]" "assoc_get d (PBool True) = Some (PDict t)"
    and t: "t = [(PStr (lit ''workflow_dispatch''), wd)]" "\<not> (is_dict wd \<and> has_key (dict_items wd) ''inputs'')" by blast
  moreover have "audit_triggers w (lit file_name) t = Inr []" using t by (simp add: audit_triggers_silent)
  moreover have "dget t ''workflow_dispatch'' PNone = wd" using t by (simp add: dget_def)
  ultimately show "audit_workflow w file_name = Inr []"
    using assms(1) audit_workflow_body [OF assms(2) [unfolded d(1)] d(2)] by (auto simp: Let_def)
qed

theorem audit_other_workflow_silent_iff_witness:
  "audit_workflow (yaml_world (workflow_path ''ci.yml'') [PDict sample_workflow]) ''ci.yml'' = Inr []"
  by (subst audit_other_workflow_silent_iff [OF _ load_docs_yaml_world])
     (simp_all add: sample_workflow_def ymap_def ystr_def key_eq_def)



text \<open>S6 is not total: when no step qualifies and some job has \<open>steps: null\<close>, the second pass iterates
  over None and the audit ends with a TypeError instead of a finding.\<close>

theorem s6_raises_on_null_steps:
  assumes "load_docs w (workflow_path ''android-debug.yml'') = Inr [PDict d]"
    and "dget d ''jobs'' (PDict []) = PDict jobs" and "pub_get_steps w (map snd jobs) = []"
    and "(name, PDict job_def) \<in> set jobs" and "dget job_def ''steps'' (PList []) = PNone"
  shows "check_android_debug_workflow_v3 w = Inl TypeError"
proof -
  have "\<exists>e. foldE (s6_observe w) js wd = Inl e" if "PDict job_def \<in> set js" for js wd
    using that
  proof (induction js arbitrary: wd)
    case (Cons j js)
    show ?case
    proof (cases "s6_observe w j wd")
      case (Inr wd')
      then have "j \<noteq> PDict job_def" using assms(5) by (auto simp: s6_observe_def)
      with Cons Inr show ?thesis by auto
    qed simp
  qed simp
  moreover have "PDict job_def \<in> set (map snd jobs)" using assms(4) by force
  ultimately have "foldE (s6_observe w) (map snd jobs) (lit ''absent'') = Inl TypeError"
    using s6_observe_all_raises by blast
  then show ?thesis
    using assms(1-3) load_docs_exists [OF assms(1)]
    by (simp add: check_android_debug_workflow_v3_def s6_match_jobs dget_def)
qed

theorem s6_raises_on_null_steps_witness:
  "check_android_debug_workflow_v3 (yaml_world (workflow_path ''android-debug.yml'')
     [ymap [(''jobs'', ymap [(''build'', ymap [(''steps'', PNone)])])]]) = Inl TypeError"
  unfolding ymap_def [of "[(''jobs'', _)]"]
  by (rule s6_raises_on_null_steps [OF load_docs_yaml_world,
        where jobs = "[(ystr ''build'', ymap [(''steps'', PNone)])]" and job_def = "[(ystr ''steps'', PNone)]" and name = "ystr ''build''"])
     (simp_all add: ymap_def ystr_def dget_def pub_get_steps_def job_steps_def)

end
