(* ===== verification/Strip_Comments.thy ===== *)
theory Strip_Comments
  imports Py_World
begin

section \<open>Comment stripping\<close>

text \<open>
  \<open>strip_comments\<close> of tools/workflow-yaml-audit.py (and its copy in tools/audit-self-test.py):
  first every block comment is removed by \<open>re.sub\<close>, then each line is cut at the first \<open>//\<close>
  outside a double-quoted string. The per-line loop is \<open>cut_scan\<close>; \<open>cut_scan_dart\<close> is the
  variant without backslash escapes that the Dart checks inline. The block removal of the regex
  engine is proved equal to the direct scanner \<open>strip_delim\<close>, and the locale \<open>line_stripper\<close>
  holds what both line loops guarantee.
\<close>

subsection \<open>Removing delimited text with a lazy pattern\<close>

definition delim_re :: "pystr \<Rightarrow> pystr \<Rightarrow> re" where
  "delim_re op cl = Seq [Str op, Star False AnyC, Str cl]"

text \<open>The direct scanner: from the first \<open>op\<close> to the next \<open>cl\<close>, repeatedly.\<close>

function strip_delim :: "pystr \<Rightarrow> pystr \<Rightarrow> pystr \<Rightarrow> pystr" where
  "strip_delim op cl t = (if op = [] then t else
     (case find_sub t op of
        None \<Rightarrow> t
      | Some i \<Rightarrow> (case find_sub (drop (i + length op) t) cl of
           None \<Rightarrow> t
         | Some k \<Rightarrow> take i t @ strip_delim op cl (drop (i + length op + k + length cl) t))))"
  by pat_completeness auto

lemma find_sub_Some: "find_sub s n = Some i \<Longrightarrow> \<exists>p q. s = p @ n @ q \<and> length p = i"
proof (induction s arbitrary: i)
  case (Cons x xs)
  show ?case
  proof (cases "prefix n (x # xs)")
    case True
    with Cons.prems show ?thesis by (auto simp: prefix_def)
  next
    case False
    with Cons.prems obtain j where j: "find_sub xs n = Some j" "i = Suc j" by auto
    from Cons.IH [OF j(1)] obtain p q where "xs = p @ n @ q" "length p = j" by blast
    with j show ?thesis by (intro exI [of _ "x # p"] exI [of _ q]) auto
  qed
qed (auto split: if_splits)

lemma find_sub_length: "find_sub s n = Some i \<Longrightarrow> i + length n \<le> length s"
  by (auto dest!: find_sub_Some)

termination strip_delim
proof (relation "measure (\<lambda>(op, cl, t). length t)", goal_cases)
  case (2 op cl t i k)
  from find_sub_length [OF 2(2)] have "i + length op \<le> length t" .
  moreover have "0 < length op" using 2(1) by simp
  ultimately show ?case by (simp only: in_measure prod.case length_drop; linarith)
qed simp

declare strip_delim.simps [simp del]

lemma matches_of_Str:
  "matches_of (Str s) (b, a, c) = (if prefix s a then [(rev s @ b, drop (length s) a, c)] else [])"
proof (induction s arbitrary: b a)
  case (Cons x xs)
  then show ?case by (cases a) (auto simp: Chr_def)
qed simp

lemma star_iter_any:
  "n = length a \<Longrightarrow> star_iter (matches_of AnyC) False n (b, a, c) =
     map (\<lambda>k. (rev (take k a) @ b, drop k a, c)) [0..<Suc n]"
proof (induction n arbitrary: a b)
  case 0
  then show ?case by simp
next
  case (Suc n)
  then obtain x xs where a: "a = x # xs" and n: "n = length xs" by (cases a) auto
  have step: "matches_of AnyC (b, a, c) = [(x # b, xs, c)]" by (simp add: a AnyC_def)
  have "star_iter (matches_of AnyC) False (Suc n) (b, a, c) =
      (b, a, c) # star_iter (matches_of AnyC) False n (x # b, xs, c)"
    using step by (simp add: shorter_def a)
  also have "\<dots> = (b, a, c) # map (\<lambda>k. (rev (take k xs) @ x # b, drop k xs, c)) [0..<Suc n]"
    using Suc.IH [OF n] by simp
  also have "\<dots> = map (\<lambda>k. (rev (take k a) @ b, drop k a, c)) [0..<Suc (Suc n)]"
    unfolding upt_rec [of 0 "Suc (Suc n)"] map_Suc_upt [symmetric, of 0 "Suc n"] by (simp add: a del: upt_Suc)
  finally show ?case .
qed

lemma matches_of_lazy_any:
  "matches_of (Star False AnyC) (b, a, c) = map (\<lambda>k. (rev (take k a) @ b, drop k a, c)) [0..<Suc (length a)]"
  by (simp add: star_iter_any del: upt_Suc)

lemma find_sub_least: "find_sub s n = Some i \<Longrightarrow> prefix n (drop i s) \<and> (\<forall>j<i. \<not> prefix n (drop j s))"
proof (induction s arbitrary: i)
  case (Cons x xs)
  then show ?case by (auto split: if_splits simp: drop_Cons less_Suc_eq_0_disj split: nat.splits)
qed (auto split: if_splits)

lemma filter_upt_least:
  "P i \<Longrightarrow> i < n \<Longrightarrow> (\<forall>j<i. \<not> P j) \<Longrightarrow> \<exists>ks. filter P [0..<n] = i # ks"
proof -
  assume P: "P i" and i: "i < n" and least: "\<forall>j<i. \<not> P j"
  have "[0..<n] = [0..<i] @ i # [Suc i..<n]"
    using i by (metis less_imp_add_positive upt_add_eq_append upt_conv_Cons zero_le add_0)
  moreover have "filter P [0..<i] = []" using least by (simp add: filter_empty_conv)
  ultimately show ?thesis using P by simp
qed

lemma find_sub_first:
  assumes "\<not> contains (u @ butlast n) n"
  shows "find_sub (u @ n @ v) n = Some (length u)"
  using assms
proof (induction u)
  case (Cons x xs)
  then have ne: "n \<noteq> []" by auto
  have "\<not> prefix n ((x # xs) @ n @ v)"
  proof
    assume "prefix n ((x # xs) @ n @ v)"
    moreover have "prefix (x # xs @ butlast n) ((x # xs) @ n @ v)"
      using ne by (metis append_Cons append_assoc append_butlast_last_id prefixI)
    ultimately have "prefix n (x # xs @ butlast n)"
      by (rule prefix_length_prefix) (use ne in \<open>simp add: Suc_leI\<close>)
    with Cons.prems show False by simp
  qed
  with Cons show ?case by auto
next
  case Nil
  then show ?case by (cases n) auto
qed

lemma concat_map_filter: "concat (map (\<lambda>k. if P k then [f k] else []) ks) = map f (filter P ks)"
  by (induction ks) auto

text \<open>Where a delimiter pattern matches, the matcher's first answer is the nearest closing text.\<close>

lemma matches_of_delim_hd:
  assumes k: "find_sub a' cl = Some k" and a: "a = op @ a'"
  shows "\<exists>ms. matches_of (delim_re op cl) (b, a, c) =
    (rev (op @ take k a' @ cl) @ b, drop (k + length cl) a', c) # ms"
proof -
  let ?P = "\<lambda>k. prefix cl (drop k a')"
  let ?f = "\<lambda>k. (rev cl @ rev (take k a') @ rev op @ b, drop (length cl) (drop k a'), c)"
  have "matches_of (delim_re op cl) (b, a, c) =
      concat (map (\<lambda>k. if ?P k then [?f k] else []) [0..<Suc (length a')])"
    by (simp add: delim_re_def matches_of_Str matches_of_lazy_any a o_def del: upt_Suc matches_of.simps(5))
  also have "\<dots> = map ?f (filter ?P [0..<Suc (length a')])"
    by (rule concat_map_filter)
  finally have eq: "matches_of (delim_re op cl) (b, a, c) = map ?f (filter ?P [0..<Suc (length a')])" .
  from find_sub_least [OF k] find_sub_length [OF k] filter_upt_least [of ?P k "Suc (length a')"]
  obtain ks where "filter ?P [0..<Suc (length a')] = k # ks" by auto
  with eq have "matches_of (delim_re op cl) (b, a, c) = map ?f (k # ks)" by (simp only:)
  then show ?thesis by (simp add: add.commute)
qed

lemma search_pos_rec:
  "search_pos r b a = (if matches_of r (b, a, []) \<noteq> [] then Some ((b, a, []), hd (matches_of r (b, a, [])))
     else case a of [] \<Rightarrow> None | x # xs \<Rightarrow> search_pos r (x # b) xs)"
  by (subst search_pos.simps) (auto split: list.splits)

lemma lang_delim [lang_simps]:
  "lang (delim_re op cl) p y q c c' \<longleftrightarrow> (\<exists>m. y = op @ m @ cl) \<and> c' = c"
  by (auto simp: delim_re_def lang_simps)

lemma matches_of_delim_Nil:
  "matches_of (delim_re op cl) (b, a, c) = [] \<longleftrightarrow>
     \<not> (prefix op a \<and> contains (drop (length op) a) cl)"
proof -
  have "(\<exists>y w c'. a = y @ w \<and> lang (delim_re op cl) (rev b) y w c c') \<longleftrightarrow> (\<exists>m w. a = (op @ m @ cl) @ w)"
    by (auto simp only: lang_delim)
  also have "\<dots> \<longleftrightarrow> prefix op a \<and> contains (drop (length op) a) cl"
    by (auto simp: prefix_def contains_iff; blast)
  finally show ?thesis unfolding matches_of_Nil by blast
qed

lemma contains_drop_mono: "contains (drop (Suc n) s) m \<Longrightarrow> contains (drop n s) m"
proof -
  assume "contains (drop (Suc n) s) m"
  moreover have "drop (Suc n) s = drop 1 (drop n s)" by simp
  ultimately show ?thesis by (metis append_take_drop_id contains_append2)
qed

lemma delim_no_later:
  "\<not> contains (drop (length op) a) cl \<Longrightarrow> search_pos (delim_re op cl) b a = None"
proof (induction a arbitrary: b)
  case Nil
  then show ?case by (subst search_pos_rec) (simp add: matches_of_delim_Nil)
next
  case (Cons x xs)
  then have "\<not> contains (drop (length op) xs) cl"
    using contains_drop_mono [of "length op" "x # xs" cl] by auto
  with Cons show ?case by (subst search_pos_rec) (simp add: matches_of_delim_Nil)
qed

lemma search_pos_delim:
  "search_pos (delim_re op cl) b a = (case find_sub a op of
       None \<Rightarrow> None
     | Some i \<Rightarrow> (case find_sub (drop (i + length op) a) cl of
          None \<Rightarrow> None
        | Some k \<Rightarrow> Some ((rev (take i a) @ b, drop i a, []),
            (rev (take (i + length op + k + length cl) a) @ b, drop (i + length op + k + length cl) a, []))))"
proof (induction a arbitrary: b)
  case Nil
  show ?case
    using matches_of_delim_hd [of "[]" cl 0 "[]" op b "[]"]
    by (subst search_pos_rec) (auto simp: matches_of_delim_Nil split: option.splits)
next
  case (Cons x xs)
  show ?case
  proof (cases "prefix op (x # xs)")
    case False
    then have "search_pos (delim_re op cl) b (x # xs) = search_pos (delim_re op cl) (x # b) xs"
      by (subst search_pos_rec) (simp add: matches_of_delim_Nil)
    with False show ?thesis unfolding Cons.IH by (auto split: option.splits)
  next
    case True
    then obtain a' where a: "x # xs = op @ a'" by (auto simp: prefix_def)
    from True have i: "find_sub (x # xs) op = Some 0" by simp
    then have i': "find_sub (op @ a') op = Some 0" by (simp only: a)
    show ?thesis
    proof (cases "find_sub a' cl")
      case None
      then have "search_pos (delim_re op cl) b (x # xs) = None"
        by (intro delim_no_later) (simp add: a find_sub_None)
      with i' None show ?thesis by (simp add: a)
    next
      case (Some k)
      from matches_of_delim_hd [OF Some a, of b "[]"] obtain ms where
        m: "matches_of (delim_re op cl) (b, x # xs, []) =
          (rev (op @ take k a' @ cl) @ b, drop (k + length cl) a', []) # ms" by blast
      from find_sub_least [OF Some] have "take (length cl) (drop k a') = cl"
        by (auto simp: prefix_def)
      then have "take (k + length cl) a' = take k a' @ cl" by (simp add: take_add)
      with m i' Some show ?thesis
        by (subst search_pos_rec) (simp add: a add.assoc)
    qed
  qed
qed

lemma sub_pos_delim: "op \<noteq> [] \<Longrightarrow> sub_pos (delim_re op cl) [] b a = strip_delim op cl a"
proof (induction a arbitrary: b rule: measure_induct_rule [where f = length])
  case (less a)
  show ?case
  proof (cases "find_sub a op")
    case None
    with less.prems show ?thesis
      by (simp add: sub_pos.simps [of _ _ b a] strip_delim.simps [of op cl a] search_pos_delim)
  next
    case i: (Some i)
    show ?thesis
    proof (cases "find_sub (drop (i + length op) a) cl")
      case None
      with i less.prems show ?thesis
        by (simp add: sub_pos.simps [of _ _ b a] strip_delim.simps [of op cl a] search_pos_delim)
    next
      case k: (Some k)
      let ?n = "i + length op + k + length cl"
      have len: "i + length op \<le> length a" "0 < length op" using i less.prems by (auto dest: find_sub_length)
      then have "length (drop ?n a) < length (drop i a)" "length (drop ?n a) < length a"
        by (simp_all only: length_drop)
      with i k len less.IH [OF _ less.prems, of "drop ?n a"] show ?thesis
        by (simp add: sub_pos.simps [of _ _ b a] strip_delim.simps [of op cl a] search_pos_delim less.prems)
    qed
  qed
qed

lemma re_sub_delim: "op \<noteq> [] \<Longrightarrow> re_sub (delim_re op cl) [] t = strip_delim op cl t"
  by (simp add: re_sub_def sub_pos_delim)

subsection \<open>Cutting a line at its comment\<close>

text \<open>The body of the \<open>while i < len(l)\<close> loop: \<open>i\<close> is the index, the list what is left of the line.
  The result is \<open>cut_at\<close> (None for -1).\<close>

fun cut_scan :: "bool \<Rightarrow> bool \<Rightarrow> nat \<Rightarrow> pystr \<Rightarrow> nat option" where
  "cut_scan in_string esc i [] = None"
| "cut_scan in_string esc i (c # cs) =
     (if esc then cut_scan in_string False (Suc i) cs
      else if c = 92 then cut_scan in_string True (Suc i) cs
      else if c = 34 then cut_scan (\<not> in_string) False (Suc i) cs
      else if c = 47 \<and> cs \<noteq> [] \<and> hd cs = 47 \<and> \<not> in_string then Some i
      else cut_scan in_string False (Suc i) cs)"

definition cut_line :: "pystr \<Rightarrow> pystr" where
  "cut_line l = (case cut_scan False False 0 l of Some k \<Rightarrow> take k l | None \<Rightarrow> l)"

definition block_comment_re :: "re" where
  "block_comment_re = Seq [Str (lit ''/*''), Star False AnyC, Str (lit ''*/'')]"

definition strip_comments :: "pystr \<Rightarrow> pystr" where
  "strip_comments t = py_join [NL] (map cut_line (splitlines (re_sub block_comment_re [] t)))"

text \<open>The variant without escapes, inlined by the checks of Dart files.\<close>

fun cut_scan_dart :: "bool \<Rightarrow> nat \<Rightarrow> pystr \<Rightarrow> nat option" where
  "cut_scan_dart in_string i [] = None"
| "cut_scan_dart in_string i (c # cs) =
     (if c = 34 then cut_scan_dart (\<not> in_string) (Suc i) cs
      else if c = 47 \<and> cs \<noteq> [] \<and> hd cs = 47 \<and> \<not> in_string then Some i
      else cut_scan_dart in_string (Suc i) cs)"

definition cut_line_dart :: "pystr \<Rightarrow> pystr" where
  "cut_line_dart l = (case cut_scan_dart False 0 l of Some k \<Rightarrow> take k l | None \<Rightarrow> l)"

definition strip_comments_dart :: "pystr \<Rightarrow> pystr" where
  "strip_comments_dart t = py_join [NL] (map cut_line_dart (splitlines (re_sub block_comment_re [] t)))"

subsection \<open>What a line stripper guarantees\<close>

text \<open>The interface of the per-line loops: the result is a prefix of the line, and stripping it again
  changes nothing. Inside, the text functions built from such a loop are treated once for all.\<close>

locale line_stripper =
  fixes cut :: "pystr \<Rightarrow> pystr"
  assumes cut_prefix: "prefix (cut l) l"
    and cut_idem: "cut (cut l) = cut l"
begin

lemma cut_set: "set (cut l) \<subseteq> set l"
  using cut_prefix set_mono_prefix by blast

lemma cut_no_break:
  "l \<in> set (splitlines t) \<Longrightarrow> c \<in> set (cut l) \<Longrightarrow> \<not> is_linebreak c"
  using cut_set splitlines_no_break by blast

lemma cut_no_NL: "l \<in> set (splitlines t) \<Longrightarrow> NL \<notin> set (cut l)"
  using cut_no_break is_linebreak_CR_LF(3) by blast

text \<open>The lines of the stripped text are the stripped lines.\<close>

lemma lines_of_stripped:
  assumes "splitlines t \<noteq> []"
  shows "split_char NL (py_join [NL] (map cut (splitlines t))) = map cut (splitlines t)"
  by (rule split_char_join) (use assms cut_no_NL in auto)

lemma stripped_line_fixed:
  assumes "l \<in> set (split_char NL (py_join [NL] (map cut (splitlines t))))"
  shows "cut l = l"
proof (cases "splitlines t = []")
  case True
  with assms have "l = []" by simp
  with cut_prefix [of l] show ?thesis by simp
next
  case False
  with assms obtain l' where "l = cut l'" by (auto simp: lines_of_stripped)
  then show ?thesis by (simp add: cut_idem)
qed

end

text \<open>Both loops find the first cut of the line, and no cut in what is before it.\<close>

lemma cut_scan_shift: "cut_scan s e (i + j) cs = map_option ((+) j) (cut_scan s e i cs)"
  by (induction s e i cs rule: cut_scan.induct) (auto simp: add.commute)

lemma cut_scan_Suc: "cut_scan s e (Suc i) cs = map_option Suc (cut_scan s e i cs)"
  using cut_scan_shift [of s e i 1 cs] by (cases "cut_scan s e i cs") auto

lemma cut_scan_take: "cut_scan s e 0 cs = Some k \<Longrightarrow> cut_scan s e 0 (take k cs) = None"
proof (induction cs arbitrary: s e k)
  case (Cons c cs)
  have "cut_scan s' e' 0 cs = Some (k - 1) \<Longrightarrow> cut_scan s' e' (Suc 0) (take (k - 1) cs) = None" for s' e'
    using Cons.IH by (simp add: cut_scan_Suc)
  moreover have "hd (take (k - 1) cs) = hd cs" if "take (k - 1) cs \<noteq> []"
    using that by (cases cs; cases "k - 1") auto
  ultimately show ?case
    using Cons.prems by (cases k) (auto simp: cut_scan_Suc split: if_splits)
qed simp

lemma cut_scan_dart_Suc: "cut_scan_dart s (Suc i) cs = map_option Suc (cut_scan_dart s i cs)"
proof (induction cs arbitrary: s i)
  case (Cons c cs)
  then show ?case by simp
qed simp

lemma cut_scan_dart_take: "cut_scan_dart s 0 cs = Some k \<Longrightarrow> cut_scan_dart s 0 (take k cs) = None"
proof (induction cs arbitrary: s k)
  case (Cons c cs)
  have "cut_scan_dart s' 0 cs = Some (k - 1) \<Longrightarrow> cut_scan_dart s' (Suc 0) (take (k - 1) cs) = None" for s'
    using Cons.IH by (simp add: cut_scan_dart_Suc)
  moreover have "hd (take (k - 1) cs) = hd cs" if "take (k - 1) cs \<noteq> []"
    using that by (cases cs; cases "k - 1") auto
  ultimately show ?case
    using Cons.prems by (cases k) (auto simp: cut_scan_dart_Suc split: if_splits)
qed simp

interpretation kt: line_stripper cut_line
  by unfold_locales (auto simp: cut_line_def take_is_prefix cut_scan_take split: option.splits)

interpretation dart: line_stripper cut_line_dart
  by unfold_locales (auto simp: cut_line_dart_def take_is_prefix cut_scan_dart_take split: option.splits)

lemma block_comment_re_delim: "block_comment_re = delim_re (lit ''/*'') (lit ''*/'')"
  by (simp add: block_comment_re_def delim_re_def)

lemma re_sub_block_comments: "re_sub block_comment_re [] t = strip_delim (lit ''/*'') (lit ''*/'') t"
  unfolding block_comment_re_delim by (rule re_sub_delim) (simp add: lit_def)

subsection \<open>The string state of the scanner\<close>

text \<open>The flags after a prefix of the line without a cut, and a prefix that leaves the scanner
  outside a string: what the comment of such a line says cannot matter.\<close>

fun quote_step :: "bool \<times> bool \<Rightarrow> nat \<Rightarrow> bool \<times> bool" where
  "quote_step (in_string, esc) c =
     (if esc then (in_string, False)
      else if c = 92 then (in_string, True)
      else if c = 34 then (\<not> in_string, False)
      else (in_string, False))"

definition outside_string :: "pystr \<Rightarrow> bool" where
  "outside_string code \<longleftrightarrow> foldl quote_step (False, False) code = (False, False)"

lemma cut_scan_slashes:
  "foldl quote_step (s, e) code = (False, False) \<Longrightarrow>
     (case cut_scan s e 0 (code @ [47, 47]) of Some k \<Rightarrow>
        k \<le> length code \<and> cut_scan s e 0 (code @ 47 # 47 # comment) = Some k | None \<Rightarrow> False)"
proof (induction code arbitrary: s e)
  case Nil
  then show ?case by auto
next
  case (Cons c cs)
  have hd_eq: "hd (cs @ 47 # 47 # comment) = hd (cs @ [47, 47])" by (cases cs) auto
  show ?case
  proof (cases "\<not> e \<and> c = 47 \<and> hd (cs @ [47, 47]) = 47 \<and> \<not> s")
    case True
    with hd_eq show ?thesis by simp
  next
    case False
    obtain s' e' where st: "quote_step (s, e) c = (s', e')" by fastforce
    with Cons.prems have "foldl quote_step (s', e') cs = (False, False)" by simp
    from Cons.IH [OF this] have ih: "case cut_scan s' e' 0 (cs @ [47, 47]) of Some k \<Rightarrow>
        k \<le> length cs \<and> cut_scan s' e' 0 (cs @ 47 # 47 # comment) = Some k | None \<Rightarrow> False" .
    have "cut_scan s e 0 (c # cs @ [47, 47]) = map_option Suc (cut_scan s' e' 0 (cs @ [47, 47]))"
      "cut_scan s e 0 (c # cs @ 47 # 47 # comment) = map_option Suc (cut_scan s' e' 0 (cs @ 47 # 47 # comment))"
      using False st hd_eq by (auto simp: cut_scan_Suc split: if_splits)
    with ih show ?thesis by (auto split: option.splits)
  qed
qed

lemma cut_line_slashes:
  assumes "outside_string code"
  shows "cut_line (code @ lit ''//'' @ comment) = cut_line (code @ lit ''//'')"
proof -
  from assms have "foldl quote_step (False, False) code = (False, False)" by (simp add: outside_string_def)
  from cut_scan_slashes [OF this, of comment] show ?thesis
    by (auto simp: cut_line_def lit_def split: option.splits)
qed

subsection \<open>Properties\<close>

text \<open>Where a line comment begins, said without the scanner. A character is escaped when an odd number of backslashes stands
  directly before it; it is outside a string when an even number of unescaped double quotes stands before it; a comment
  begins at two slashes the first of which is neither escaped nor in a string.\<close>

definition escaped :: "pystr \<Rightarrow> nat \<Rightarrow> bool" where
  "escaped l i \<longleftrightarrow> odd (length (takeWhile (\<lambda>c. c = 92) (rev (take i l))))"

definition quotes_before :: "pystr \<Rightarrow> nat \<Rightarrow> nat" where
  "quotes_before l i = length (filter (\<lambda>j. l ! j = 34 \<and> \<not> escaped l j) [0..<i])"

definition comment_at :: "pystr \<Rightarrow> nat \<Rightarrow> bool" where
  "comment_at l i \<longleftrightarrow> Suc i < length l \<and> l ! i = 47 \<and> l ! Suc i = 47 \<and> \<not> escaped l i \<and> even (quotes_before l i)"

definition first_comment :: "pystr \<Rightarrow> nat option" where
  "first_comment l = List.find (comment_at l) [0..<length l]"

lemma escaped_0 [simp]: "\<not> escaped l 0" and quotes_before_0 [simp]: "quotes_before l 0 = 0"
  by (simp_all add: escaped_def quotes_before_def)

lemma escaped_Suc: "i < length l \<Longrightarrow> escaped l (Suc i) \<longleftrightarrow> l ! i = 92 \<and> \<not> escaped l i"
  by (simp add: escaped_def take_Suc_conv_app_nth)

lemma quotes_before_Suc: "quotes_before l (Suc i) = quotes_before l i + (if l ! i = 34 \<and> \<not> escaped l i then 1 else 0)"
  by (simp add: quotes_before_def)

lemma cut_scan_finds:
  "l = pre @ cs \<Longrightarrow> i = length pre \<Longrightarrow>
     cut_scan (odd (quotes_before l i)) (escaped l i) i cs = List.find (comment_at l) [i..<length l]"
proof (induction cs arbitrary: pre i)
  case (Cons c cs)
  have i: "i < length l" "l ! i = c" "l = (pre @ [c]) @ cs" "Suc i = length (pre @ [c])" using Cons.prems by simp_all
  have slashes: "Suc i < length l \<and> l ! Suc i = 47 \<longleftrightarrow> cs \<noteq> [] \<and> hd cs = 47"
    using Cons.prems by (cases cs) (auto simp: nth_append)
  have upt: "[i..<length l] = i # [Suc i..<length l]" using i(1) by (rule upt_conv_Cons)
  show ?case using Cons.IH [OF i(3,4)] slashes i(1,2)
    by (auto simp: upt comment_at_def escaped_Suc quotes_before_Suc)
qed simp

lemma cut_line_first_comment: "cut_line l = (case first_comment l of Some k \<Rightarrow> take k l | None \<Rightarrow> l)"
  using cut_scan_finds [of l "[]" l 0] by (simp add: cut_line_def first_comment_def)

lemma first_comment_cut_line: "first_comment (cut_line l) = None"
proof -
  have "cut_scan False False 0 (cut_line l) = None"
    using cut_scan_take by (auto simp: cut_line_def split: option.splits)
  then show ?thesis using cut_scan_finds [of "cut_line l" "[]" "cut_line l" 0] by (simp add: first_comment_def)
qed

text \<open>C6. \<open>strip_comments\<close> removes the block comments, from each opener to the next closer, and then cuts every line where its
  first comment begins: at the first two slashes that are not escaped and before which the number of unescaped double quotes is
  even. What comes before is kept, a line without such a place is kept whole, and no line of the result has one.\<close>

theorem strip_comments_cuts_at_comments:
  "strip_comments t = py_join [NL] (map (\<lambda>l. case first_comment l of Some k \<Rightarrow> take k l | None \<Rightarrow> l)
     (splitlines (strip_delim (lit ''/*'') (lit ''*/'') t))) \<and>
   list_all (\<lambda>l. first_comment l = None) (split_char NL (strip_comments t))"
proof
  show "strip_comments t = py_join [NL] (map (\<lambda>l. case first_comment l of Some k \<Rightarrow> take k l | None \<Rightarrow> l)
     (splitlines (strip_delim (lit ''/*'') (lit ''*/'') t)))"
    unfolding strip_comments_def re_sub_block_comments cut_line_first_comment [abs_def] by (rule refl)
  show "list_all (\<lambda>l. first_comment l = None) (split_char NL (strip_comments t))"
    unfolding list_all_iff
  proof
    fix l assume "l \<in> set (split_char NL (strip_comments t))"
    then have "cut_line l = l" unfolding strip_comments_def by (rule kt.stripped_line_fixed)
    with first_comment_cut_line [of l] show "first_comment l = None" by simp
  qed
qed

text \<open>What a line comment says has no effect: two one-line sources that agree up to a \<open>//\<close>
  outside a string literal are stripped to the same text, provided neither holds a block
  comment or a line boundary.\<close>

theorem comment_text_irrelevant:
  assumes "outside_string code"
    and "find_sub (code @ lit ''//'' @ c1) (lit ''/*'') = None"
    and "find_sub (code @ lit ''//'' @ c2) (lit ''/*'') = None"
    and "\<forall>c \<in> set (code @ c1 @ c2). \<not> is_linebreak c"
  shows "strip_comments (code @ lit ''//'' @ c1) = strip_comments (code @ lit ''//'' @ c2)"
proof -
  have one: "strip_comments (code @ lit ''//'' @ c) = cut_line (code @ lit ''//'')"
    if f: "find_sub (code @ lit ''//'' @ c) (lit ''/*'') = None"
      and nb: "\<forall>x \<in> set (code @ c). \<not> is_linebreak x" for c
  proof -
    have "re_sub block_comment_re [] (code @ lit ''//'' @ c) = code @ lit ''//'' @ c"
      unfolding re_sub_block_comments by (subst strip_delim.simps) (simp add: f)
    moreover have "splitlines (code @ lit ''//'' @ c) = [code @ lit ''//'' @ c]"
      unfolding splitlines_def using nb
      by (subst splitlines_single) (auto simp: lit_def is_linebreak_def)
    ultimately show ?thesis
      using cut_line_slashes [OF assms(1), of c] by (simp add: strip_comments_def)
  qed
  have "strip_comments (code @ lit ''//'' @ c1) = cut_line (code @ lit ''//'')"
    by (rule one) (use assms in auto)
  moreover have "strip_comments (code @ lit ''//'' @ c2) = cut_line (code @ lit ''//'')"
    by (rule one) (use assms in auto)
  ultimately show ?thesis by simp
qed

theorem comment_text_irrelevant_witness:
  "strip_comments (lit ''val url = 1 '' @ lit ''//'' @ lit '' import java.util.Properties'') =
   strip_comments (lit ''val url = 1 '' @ lit ''//'' @ lit '' no'')"
  by (rule comment_text_irrelevant) (simp_all add: text_simps outside_string_def)

text \<open>Block comments are removed before strings and line comments are looked at: for a text
  \<open>before /* mid */ after\<close> with no other delimiters, the stripped text does not depend on \<open>mid\<close>,
  and so not on whether the two delimiters stand in a string literal, in a line comment or in code.\<close>

theorem block_removed_anywhere:
  assumes "\<not> contains (p @ lit ''/'') (lit ''/*'')" and "\<not> contains (mid @ lit ''*'') (lit ''*/'')"
    and "\<not> contains q (lit ''/*'')"
  shows "strip_comments (p @ lit ''/*'' @ mid @ lit ''*/'' @ q) = py_join [NL] (map cut_line (splitlines (p @ q)))"
proof -
  have i: "find_sub (p @ lit ''/*'' @ mid @ lit ''*/'' @ q) (lit ''/*'') = Some (length p)"
    by (rule find_sub_first) (use assms(1) in \<open>simp add: lit_def\<close>)
  have k: "find_sub (mid @ lit ''*/'' @ q) (lit ''*/'') = Some (length mid)"
    by (rule find_sub_first) (use assms(2) in \<open>simp add: lit_def\<close>)
  have q: "strip_delim (lit ''/*'') (lit ''*/'') q = q"
    by (subst strip_delim.simps) (use assms(3) in \<open>simp add: find_sub_None [symmetric] del: not_None_eq\<close>)
  have "re_sub block_comment_re [] (p @ lit ''/*'' @ mid @ lit ''*/'' @ q) = p @ q"
    unfolding re_sub_block_comments
    by (subst strip_delim.simps) (use i k q in \<open>simp add: lit_def drop_Cons'\<close>)
  then show ?thesis by (simp add: strip_comments_def)
qed

theorem block_removed_anywhere_witness:
  "strip_comments (lit ''// see '' @ lit ''/*'' @ lit '' x '' @ lit ''*/'' @ lit ''end'') =
     py_join [NL] (map cut_line (splitlines (lit ''// see '' @ lit ''end'')))"
  by (rule block_removed_anywhere) (simp_all add: text_simps)

subsection \<open>Texts without comments\<close>

lemma cut_scan_dart_plain: "47 \<notin> set l \<Longrightarrow> cut_scan_dart s i l = None"
  by (induction s i l rule: cut_scan_dart.induct) auto

lemma py_join_set: "c \<in> set (py_join sep ls) \<Longrightarrow> c \<in> set sep \<or> (\<exists>l\<in>set ls. c \<in> set l)"
  by (induction sep ls rule: py_join.induct) auto

text \<open>A text without slashes and without empty lines is left as it is.\<close>

lemma strip_plain:
  assumes "list_all (\<lambda>l. l \<noteq> [] \<and> list_all (\<lambda>c. c \<noteq> 47 \<and> \<not> is_linebreak c) l) ls"
  shows "strip_comments_dart (py_join [NL] ls) = py_join [NL] ls"
proof -
  let ?t = "py_join [NL] ls"
  have no_slash: "47 \<notin> set l" if "l \<in> set ls" for l using assms that by (auto simp: list_all_iff)
  have "47 \<notin> set ?t" using assms py_join_set [of 47 "[NL]" ls] by (auto simp: list_all_iff)
  then have "\<not> contains ?t (lit ''/*'')" by (auto simp: contains_iff lit_def)
  then have "strip_delim (lit ''/*'') (lit ''*/'') ?t = ?t"
    by (subst strip_delim.simps) (simp add: find_sub_None [symmetric])
  moreover have "splitlines ?t = ls"
    using assms by (intro splitlines_join) (auto simp: list_all_iff)
  moreover have "map cut_line_dart ls = ls"
    using no_slash by (intro map_idI) (simp add: cut_line_dart_def cut_scan_dart_plain)
  ultimately show ?thesis by (simp add: strip_comments_dart_def re_sub_block_comments)
qed

end
