(* ===== verification/Gradle_Checks.thy ===== *)
theory Gradle_Checks
  imports Strip_Comments
begin

section \<open>Gradle checks: wrapper, AGP and Kotlin versions, Kotlin DSL syntax (S1 to S5)\<close>

text \<open>
  \<open>check_gradle_wrapper_version\<close>, \<open>check_agp_version\<close>, \<open>check_kotlin_version\<close> and
  \<open>check_app_build_gradle_syntax_v2\<close> of tools/workflow-yaml-audit.py. Each reads one file of the
  repository, searches it with a pattern and compares the captured version with the minimum of
  Flutter 3.44.1.
\<close>

subsection \<open>Constants and helpers\<close>

type_synonym version = "nat \<times> nat"

definition FLUTTER_MIN_GRADLE :: version where "FLUTTER_MIN_GRADLE = (8, 7)"
definition FLUTTER_MIN_AGP :: version where "FLUTTER_MIN_AGP = (8, 6)"
definition FLUTTER_MIN_KOTLIN :: version where "FLUTTER_MIN_KOTLIN = (2, 2)"

text \<open>Python's comparison of two pairs.\<close>

definition version_less :: "version \<Rightarrow> version \<Rightarrow> bool" where
  "version_less v v' \<longleftrightarrow> fst v < fst v' \<or> (fst v = fst v' \<and> snd v < snd v')"

text \<open>\<open>match.group(n)\<close> of a group that takes part in every match of its pattern.\<close>

definition grp :: "nat \<Rightarrow> re_match \<Rightarrow> pystr" where
  "grp n m = (case group n m of Some s \<Rightarrow> s | None \<Rightarrow> [])"

definition version_of :: "re_match \<Rightarrow> version" where
  "version_of m = (py_int (grp 1 m), py_int (grp 2 m))"

definition gradle_props_path :: path where
  "gradle_props_path = [''mobile'', ''android'', ''gradle'', ''wrapper'', ''gradle-wrapper.properties'']"
definition build_gradle_path :: path where
  "build_gradle_path = [''mobile'', ''android'', ''build.gradle.kts'']"
definition app_gradle_path :: path where
  "app_gradle_path = [''mobile'', ''android'', ''app'', ''build.gradle.kts'']"

text \<open>\<open>gradle-(\d+)\.(\d+)(?:-bin)?\.zip\<close>\<close>

definition gradle_zip_re :: re where
  "gradle_zip_re = Seq [Str (lit ''gradle-''), Grp 1 (Plus Dig), Str (lit ''.''), Grp 2 (Plus Dig),
     Opt (Str (lit ''-bin'')), Str (lit ''.zip'')]"

text \<open>\<open>id\("..."\)\s+version\s+"(\d+)\.(\d+)(?:\.(\d+))?"\<close> for a plugin id.\<close>

definition plugin_head :: "string \<Rightarrow> pystr" where
  "plugin_head pid = lit ''id('' @ [34] @ lit pid @ [34] @ lit '')''"

definition plugin_re :: "string \<Rightarrow> re" where
  "plugin_re pid = Seq [Str (plugin_head pid), Plus Spc, Str (lit ''version''), Plus Spc, Str [34],
     Grp 1 (Plus Dig), Str (lit ''.''), Grp 2 (Plus Dig), Opt (Seq [Str (lit ''.''), Grp 3 (Plus Dig)]), Str [34]]"

subsection \<open>The version checks\<close>

definition check_gradle_wrapper_version :: "world \<Rightarrow> findings" where
  "check_gradle_wrapper_version w =
     (if \<not> path_exists w gradle_props_path
      then Inr [Finding ''gradle-wrapper'' ''file missing'' []]
      else bindE (read_text w gradle_props_path) (\<lambda>text.
        case re_search gradle_zip_re text of
          None \<Rightarrow> Inr [Finding ''gradle-wrapper'' ''distributionUrl pattern not recognized'' []]
        | Some m \<Rightarrow>
            let gradle_version = version_of m
            in Inr (if version_less gradle_version FLUTTER_MIN_GRADLE
                    then [Finding ''gradle-wrapper'' ''below minimum''
                            [show_nat (fst gradle_version), show_nat (snd gradle_version)]]
                    else [])))"

definition check_agp_version :: "world \<Rightarrow> findings" where
  "check_agp_version w =
     (if \<not> path_exists w build_gradle_path
      then Inr [Finding ''agp'' ''file missing'' []]
      else bindE (read_text w build_gradle_path) (\<lambda>text.
        case re_search (plugin_re ''com.android.application'') text of
          None \<Rightarrow> Inr [Finding ''agp'' ''AGP plugin version pattern not recognized'' []]
        | Some m \<Rightarrow>
            let agp_version = version_of m
            in Inr (if version_less agp_version FLUTTER_MIN_AGP
                    then [Finding ''agp'' ''below minimum''
                            [show_nat (fst agp_version), show_nat (snd agp_version)]]
                    else [])))"

definition check_kotlin_version :: "world \<Rightarrow> findings" where
  "check_kotlin_version w =
     (if \<not> path_exists w build_gradle_path
      then Inr [Finding ''kotlin'' ''file missing'' []]
      else bindE (read_text w build_gradle_path) (\<lambda>text.
        case re_search (plugin_re ''org.jetbrains.kotlin.android'') text of
          None \<Rightarrow> Inr [Finding ''kotlin'' ''Kotlin Android plugin version pattern not recognized'' []]
        | Some m \<Rightarrow>
            let kotlin_version = version_of m
            in Inr (if version_less kotlin_version FLUTTER_MIN_KOTLIN
                    then [Finding ''kotlin'' ''below minimum''
                            [show_nat (fst kotlin_version), show_nat (snd kotlin_version)]]
                    else [])))"

subsection \<open>The Kotlin DSL syntax check\<close>

text \<open>\<open>^import\s+java\.util\.Properties\s*$\<close> and its like, MULTILINE.\<close>

definition import_re :: "string \<Rightarrow> re" where
  "import_re cls = Seq [Bol True, Str (lit ''import''), Plus Spc, Str (lit cls), Star True Spc, Eol True]"

definition kotlin_options_re :: re where
  "kotlin_options_re = Seq [Str (lit ''kotlinOptions''), Star True Spc, Str (lit ''{''), Star False AnyC,
     Str (lit ''jvmTarget''), Star True Spc, Str (lit ''=''), Star True Spc, Str [34], Plus Dig, Str [34]]"

definition compiler_options_re :: re where
  "compiler_options_re = Seq [Str (lit ''kotlin''), Star True Spc, Str (lit ''{''), Star False AnyC,
     Str (lit ''compilerOptions''), Star True Spc, Str (lit ''{''), Star False AnyC,
     Str (lit ''jvmTarget.set(JvmTarget.JVM_17)'')]"

definition check_app_build_gradle_syntax_v2 :: "world \<Rightarrow> findings" where
  "check_app_build_gradle_syntax_v2 w =
     (if \<not> path_exists w app_gradle_path
      then Inr [Finding ''S1-S5'' ''file missing'' []]
      else bindE (read_text w app_gradle_path) (\<lambda>text.
        let code = strip_comments text;
            has_properties_import = re_search (import_re ''java.util.Properties'') code \<noteq> None;
            has_jvm_target_import = re_search (import_re ''org.jetbrains.kotlin.gradle.dsl.JvmTarget'') code \<noteq> None;
            deprecated_kotlin_options = re_search kotlin_options_re code \<noteq> None;
            new_kotlin_block = re_search compiler_options_re code \<noteq> None;
            fully_qualified = re_search (Str (lit ''java.util.Properties()'')) code \<noteq> None
        in Inr ((if \<not> has_properties_import then [Finding ''S1'' ''missing import java.util.Properties'' []] else []) @
                (if \<not> has_jvm_target_import then [Finding ''S2'' ''missing import JvmTarget'' []] else []) @
                (if deprecated_kotlin_options then [Finding ''S3'' ''deprecated kotlinOptions'' []] else []) @
                (if \<not> new_kotlin_block then [Finding ''S4'' ''missing compilerOptions'' []] else []) @
                (if fully_qualified then [Finding ''S5'' ''fully-qualified Properties'' []] else []))))"

subsection \<open>What the version patterns match\<close>

lemma version_less_le: "\<not> version_less (a, b) (c, d) \<longleftrightarrow> c < a \<or> (c = a \<and> d \<le> b)"
  by (auto simp: version_less_def)

lemma show_nat_is_digit: "c \<in> set (show_nat n) \<Longrightarrow> is_digit c"
  using show_nat_digits [of c n] by (simp add: is_digit_ascii)

lemma show_nat_nonempty [simp]: "show_nat n \<noteq> []"
  by (subst show_nat.simps) simp

text \<open>A captured run of digits, ended by a character that is no digit, is the number written there.\<close>

lemma digits_unique:
  assumes "show_nat n @ a # r = ds @ b # s" "\<forall>x\<in>set ds. is_digit x" "\<not> is_digit a" "\<not> is_digit b"
  shows "ds = show_nat n \<and> b = a \<and> s = r"
  using run_unique [OF assms(1), of is_digit] assms show_nat_is_digit by auto

lemma single_space_run:
  assumes "32 # a # r = ws @ b # s" "\<forall>x\<in>set ws. is_space x" "\<not> is_space a" "\<not> is_space b"
  shows "ws = [32] \<and> r = s"
  using run_unique [of "[32]" a r ws b s is_space] assms by (simp add: is_space_def)

text \<open>The declaration \<open>id("...") version "M.N<tail>"\<close> as Gradle files write it.\<close>

definition plugin_decl :: "string \<Rightarrow> nat \<Rightarrow> nat \<Rightarrow> pystr" where
  "plugin_decl pid M N = plugin_head pid @ lit '' version '' @ [34] @ show_nat M @ [46] @ show_nat N"

lemma plugin_re_lang:
  "lang (plugin_re pid) p y q c c' \<longleftrightarrow> (\<exists>w1 w2 d1 d2 e. y = plugin_head pid @ w1 @ lit ''version'' @ w2 @ 34 # d1 @ 46 # d2 @ e @ [34] \<and>
     w1 \<noteq> [] \<and> (\<forall>x\<in>set w1. is_space x) \<and> w2 \<noteq> [] \<and> (\<forall>x\<in>set w2. is_space x) \<and>
     d1 \<noteq> [] \<and> (\<forall>x\<in>set d1. is_digit x) \<and> d2 \<noteq> [] \<and> (\<forall>x\<in>set d2. is_digit x) \<and>
     (e = [] \<and> c' = (2, d2) # (1, d1) # c \<or>
      (\<exists>d3. e = 46 # d3 \<and> d3 \<noteq> [] \<and> (\<forall>x\<in>set d3. is_digit x) \<and> c' = (3, d3) # (2, d2) # (1, d1) # c)))"
  by (simp add: plugin_re_def lang_simps lit_def [of "''.''"]; auto; metis)

lemma plugin_re_captures:
  assumes no: "\<not> contains (pre @ butlast (plugin_head pid)) (plugin_head pid)"
    and tl: "tail = [] \<or> (\<exists>P. tail = 46 # show_nat P)"
  shows "\<exists>m. re_search (plugin_re pid) (pre @ plugin_decl pid M N @ tail @ 34 # post) = Some m \<and> version_of m = (M, N)"
proof -
  let ?h = "plugin_head pid"
  let ?x0 = "lit '' version '' @ 34 # show_nat M @ 46 # show_nat N @ tail @ [34]"
  have head: "headed (plugin_re pid) ?h" unfolding plugin_re_def by (rule headed_Seq)
  have nd: "\<not> is_digit 46" "\<not> is_digit 34" "is_space 32" "\<not> is_space 118" "\<not> is_space 34"
    by (simp_all add: is_digit_ascii is_space_def)
  have "\<exists>c0. lang (plugin_re pid) pre (?h @ ?x0) post [] c0"
    using tl
  proof (elim disjE exE)
    assume "tail = []"
    then have "lang (plugin_re pid) pre (?h @ ?x0) post [] [(2, show_nat N), (1, show_nat M)]"
      unfolding plugin_re_lang using nd show_nat_is_digit
      by (rule_tac exI [of _ "[32]"], rule_tac exI [of _ "[32]"], rule_tac exI [of _ "show_nat M"],
          rule_tac exI [of _ "show_nat N"], rule_tac exI [of _ "[]"]) (simp add: lit_def)
    then show ?thesis by blast
  next
    fix P assume "tail = 46 # show_nat P"
    then have "lang (plugin_re pid) pre (?h @ ?x0) post [] [(3, show_nat P), (2, show_nat N), (1, show_nat M)]"
      unfolding plugin_re_lang using nd show_nat_is_digit
      by (rule_tac exI [of _ "[32]"], rule_tac exI [of _ "[32]"], rule_tac exI [of _ "show_nat M"],
          rule_tac exI [of _ "show_nat N"], rule_tac exI [of _ tail]) (simp add: lit_def)
    then show ?thesis by blast
  qed
  then obtain c0 where ex: "lang (plugin_re pid) pre (?h @ ?x0) post [] c0" by blast
  from re_search_at_head [OF head no ex] obtain m x v where
    m: "re_search (plugin_re pid) (pre @ ?h @ ?x0 @ post) = Some m" and xv: "?x0 @ post = x @ v"
    and L: "lang (plugin_re pid) pre (?h @ x) v [] (m_caps m)" by (elim exE conjE)
  from L [unfolded plugin_re_lang same_append_eq] obtain w1 w2 d1 d2 e where
    x: "x = w1 @ lit ''version'' @ w2 @ 34 # d1 @ 46 # d2 @ e @ [34]"
    and w1: "\<forall>x\<in>set w1. is_space x" and w2: "\<forall>x\<in>set w2. is_space x"
    and d1: "\<forall>x\<in>set d1. is_digit x" and d2: "\<forall>x\<in>set d2. is_digit x"
    and e': "e = [] \<and> m_caps m = [(2, d2), (1, d1)] \<or>
      (\<exists>d3. e = 46 # d3 \<and> d3 \<noteq> [] \<and> (\<forall>x\<in>set d3. is_digit x) \<and> m_caps m = [(3, d3), (2, d2), (1, d1)])"
    by (elim exE conjE)
  from e' have e: "e = [] \<or> (\<exists>d3. e = 46 # d3)" and caps: "map_of (m_caps m) 1 = Some d1" "map_of (m_caps m) 2 = Some d2"
    by auto
  have "32 # 118 # lit ''ersion '' @ 34 # show_nat M @ 46 # show_nat N @ tail @ [34] @ post =
      w1 @ 118 # lit ''ersion'' @ w2 @ 34 # d1 @ 46 # d2 @ e @ [34] @ v"
    using xv x by (simp add: lit_def)
  from single_space_run [OF this w1 nd(4,4)]
  have "32 # 34 # show_nat M @ 46 # show_nat N @ tail @ [34] @ post = w2 @ 34 # d1 @ 46 # d2 @ e @ [34] @ v"
    by (simp add: lit_def)
  from single_space_run [OF this w2 nd(5,5)]
  have r2: "show_nat M @ 46 # show_nat N @ tail @ [34] @ post = d1 @ 46 # d2 @ e @ [34] @ v" by simp
  from digits_unique [OF r2 d1 nd(1) nd(1)] have d1M: "d1 = show_nat M"
    and r3: "show_nat N @ tail @ [34] @ post = d2 @ e @ [34] @ v" by simp_all
  obtain a r where a: "tail @ [34] @ post = a # r" "\<not> is_digit a" using tl nd by auto
  obtain b s where b: "e @ [34] @ v = b # s" "\<not> is_digit b" using e nd by auto
  from digits_unique [OF r3 [unfolded a(1) b(1)] d2 a(2) b(2)] have "d2 = show_nat N" by simp
  with d1M caps have "version_of m = (M, N)"
    by (simp add: version_of_def grp_def group_def py_int_show_nat)
  with m show ?thesis by (simp add: plugin_decl_def lit_def)
qed

text \<open>The distribution name \<open>gradle-M.N\<close>, and the two endings the pattern accepts after it.\<close>

definition gradle_dist :: "nat \<Rightarrow> nat \<Rightarrow> pystr" where
  "gradle_dist M N = lit ''gradle-'' @ show_nat M @ 46 # show_nat N"

definition zip_ending :: "pystr \<Rightarrow> bool" where
  "zip_ending tail \<longleftrightarrow> prefix (lit ''.zip'') tail \<or> prefix (lit ''-bin.zip'') tail"

lemma zip_ending_split:
  "zip_ending tail \<longleftrightarrow> (\<exists>e v. (e = [] \<or> e = lit ''-bin'') \<and> tail = e @ lit ''.zip'' @ v)"
  unfolding zip_ending_def prefix_def by (auto simp: lit_def)

lemma gradle_zip_re_lang:
  "lang gradle_zip_re p y q c c' \<longleftrightarrow> (\<exists>d1 d2 e. y = lit ''gradle-'' @ d1 @ 46 # d2 @ e @ lit ''.zip'' \<and>
     d1 \<noteq> [] \<and> (\<forall>x\<in>set d1. is_digit x) \<and> d2 \<noteq> [] \<and> (\<forall>x\<in>set d2. is_digit x) \<and>
     (e = [] \<or> e = lit ''-bin'') \<and> c' = (2, d2) # (1, d1) # c)"
  by (simp add: gradle_zip_re_def lang_simps lit_def [of "''.''"]) blast

lemma gradle_zip_headed: "headed gradle_zip_re (lit ''gradle-'')"
  unfolding gradle_zip_re_def by (rule headed_Seq)

text \<open>What follows the head determines both numbers.\<close>

lemma gradle_zip_digits:
  assumes "lang gradle_zip_re p (lit ''gradle-'' @ x) v [] c"
    and "show_nat M @ 46 # show_nat N @ tail = x @ v"
    and "tail = [] \<or> \<not> is_digit (hd tail)"
  shows "c = [(2, show_nat N), (1, show_nat M)] \<and> zip_ending tail"
proof -
  have nd: "\<not> is_digit 46" "\<not> is_digit 45" by (simp_all add: is_digit_ascii)
  from assms(1) [unfolded gradle_zip_re_lang same_append_eq] obtain d1 d2 e where
    x: "x = d1 @ 46 # d2 @ e @ lit ''.zip''" and d1: "\<forall>x\<in>set d1. is_digit x" and d2: "\<forall>x\<in>set d2. is_digit x"
    and e: "e = [] \<or> e = lit ''-bin''" and c: "c = [(2, d2), (1, d1)]" by (elim exE conjE)
  from assms(2) x have "show_nat M @ 46 # show_nat N @ tail = d1 @ 46 # d2 @ e @ lit ''.zip'' @ v" by simp
  from digits_unique [OF this d1 nd(1) nd(1)] have 1: "d1 = show_nat M"
    and r: "show_nat N @ tail = d2 @ e @ lit ''.zip'' @ v" by simp_all
  obtain b s where b: "e @ lit ''.zip'' @ v = b # s" "\<not> is_digit b" using e nd by (auto simp: lit_def)
  have "tail \<noteq> []"
  proof
    assume "tail = []"
    with r b(1) have "b \<in> set (show_nat N)" by simp
    with b(2) show_nat_is_digit show False by blast
  qed
  with assms(3) obtain a t where a: "tail = a # t" "\<not> is_digit a" by (cases tail) auto
  from digits_unique [OF r [unfolded a(1) b(1)] d2 a(2) b(2)] have "d2 = show_nat N" "tail = e @ lit ''.zip'' @ v"
    using a(1) b(1) by simp_all
  with 1 c e show ?thesis by (auto simp only: zip_ending_split)
qed

text \<open>The AGP check decides the minimum on every declared version: if the root build file declares
  \<open>id("com.android.application") version "M.N"\<close> or \<open>"M.N.P"\<close> (with nothing before it that looks
  like the declaration), the check is silent exactly when (M, N) is at least 8.6, and otherwise
  reports M and N.\<close>

theorem check_agp_version_decides:
  assumes "has_text w build_gradle_path
      (pre @ plugin_decl ''com.android.application'' M N @ tail @ 34 # post)"
    and "\<not> contains (pre @ butlast (plugin_head ''com.android.application'')) (plugin_head ''com.android.application'')"
    and "tail = [] \<or> (\<exists>P. tail = 46 # show_nat P)"
  shows "check_agp_version w =
    Inr (if 8 < M \<or> (M = 8 \<and> 6 \<le> N) then [] else [Finding ''agp'' ''below minimum'' [show_nat M, show_nat N]])"
proof -
  from plugin_re_captures [OF assms(2,3)] obtain m where
    "re_search (plugin_re ''com.android.application'')
       (pre @ plugin_decl ''com.android.application'' M N @ tail @ 34 # post) = Some m"
    and "version_of m = (M, N)" by blast
  then show ?thesis
    using has_text_exists [OF assms(1)] has_text_read [OF assms(1)]
    by (auto simp: check_agp_version_def FLUTTER_MIN_AGP_def version_less_def Let_def)
qed

theorem check_agp_version_decides_witness:
  "check_agp_version (mk_world (file_at build_gradle_path
      (lit ''plugins { '' @ plugin_decl ''com.android.application'' 8 1 @ (46 # show_nat 4) @ 34 # lit '' apply false }''))) =
    Inr [Finding ''agp'' ''below minimum'' [show_nat 8, show_nat 1]]"
  by (subst check_agp_version_decides [OF has_text_file_at]) (auto simp: text_simps plugin_head_def)

text \<open>The same for the Kotlin plugin and its floor 2.2.\<close>

theorem check_kotlin_version_decides:
  assumes "has_text w build_gradle_path
      (pre @ plugin_decl ''org.jetbrains.kotlin.android'' M N @ tail @ 34 # post)"
    and "\<not> contains (pre @ butlast (plugin_head ''org.jetbrains.kotlin.android'')) (plugin_head ''org.jetbrains.kotlin.android'')"
    and "tail = [] \<or> (\<exists>P. tail = 46 # show_nat P)"
  shows "check_kotlin_version w =
    Inr (if 2 < M \<or> (M = 2 \<and> 2 \<le> N) then [] else [Finding ''kotlin'' ''below minimum'' [show_nat M, show_nat N]])"
proof -
  from plugin_re_captures [OF assms(2,3)] obtain m where
    "re_search (plugin_re ''org.jetbrains.kotlin.android'')
       (pre @ plugin_decl ''org.jetbrains.kotlin.android'' M N @ tail @ 34 # post) = Some m"
    and "version_of m = (M, N)" by blast
  then show ?thesis
    using has_text_exists [OF assms(1)] has_text_read [OF assms(1)]
    by (auto simp: check_kotlin_version_def FLUTTER_MIN_KOTLIN_def version_less_def Let_def)
qed

theorem check_kotlin_version_decides_witness:
  "check_kotlin_version (mk_world (file_at build_gradle_path
      ([] @ plugin_decl ''org.jetbrains.kotlin.android'' 2 2 @ (46 # show_nat 20) @ 34 # []))) = Inr []"
  by (subst check_kotlin_version_decides [OF has_text_file_at]) (auto simp: text_simps plugin_head_def)

text \<open>C31. The wrapper check decides the minimum 8.7 on every distribution name
  \<open>gradle-M.N.zip\<close> or \<open>gradle-M.N-bin.zip\<close>, and does not recognise any other ending after
  \<open>gradle-M.N\<close>: neither a third version component nor the \<open>-all\<close> distribution.\<close>

theorem check_gradle_wrapper_version_decides:
  assumes "has_text w gradle_props_path (pre @ gradle_dist M N @ tail)"
    and "\<not> contains (pre @ lit ''gradle'') (lit ''gradle-'')"
    and "tail = [] \<or> \<not> is_digit (hd tail)"
    and "\<not> contains (lit ''radle-'' @ show_nat M @ 46 # show_nat N @ tail) (lit ''gradle-'')"
  shows "check_gradle_wrapper_version w = Inr
    (if \<not> zip_ending tail then [Finding ''gradle-wrapper'' ''distributionUrl pattern not recognized'' []]
     else if 8 < M \<or> (M = 8 \<and> 7 \<le> N) then []
     else [Finding ''gradle-wrapper'' ''below minimum'' [show_nat M, show_nat N]])"
proof -
  let ?h = "lit ''gradle-''" and ?r = "show_nat M @ 46 # show_nat N @ tail"
  have no: "\<not> contains (pre @ butlast ?h) ?h" using assms(2) by (simp add: lit_def)
  have rd: "read_text w gradle_props_path = Inr (pre @ ?h @ ?r)" "path_exists w gradle_props_path"
    using has_text_read [OF assms(1)] has_text_exists [OF assms(1)] by (simp_all add: gradle_dist_def)
  show ?thesis
  proof (cases "zip_ending tail")
    case False
    have "re_search gradle_zip_re (pre @ ?h @ ?r) = None"
    proof (rule re_search_head_None [OF gradle_zip_headed no])
      show "\<not> contains (tl ?h @ ?r) ?h" using assms(4) by (simp add: lit_def)
      show "\<not> lang gradle_zip_re pre (?h @ x) v [] c" if "?r = x @ v" for x v c
        using gradle_zip_digits [OF _ that assms(3)] False by blast
    qed
    with rd False show ?thesis by (simp add: check_gradle_wrapper_version_def)
  next
    case True
    then obtain e v where e: "e = [] \<or> e = lit ''-bin''" and tail: "tail = e @ lit ''.zip'' @ v"
      by (auto simp only: zip_ending_split)
    let ?x0 = "show_nat M @ 46 # show_nat N @ e @ lit ''.zip''"
    have "lang gradle_zip_re pre (?h @ ?x0) v [] [(2, show_nat N), (1, show_nat M)]"
      unfolding gradle_zip_re_lang using e show_nat_is_digit by auto
    from re_search_at_head [OF gradle_zip_headed no this] obtain m x v' where
      m: "re_search gradle_zip_re (pre @ ?h @ ?x0 @ v) = Some m" and xv: "?x0 @ v = x @ v'"
      and L: "lang gradle_zip_re pre (?h @ x) v' [] (m_caps m)" by (elim exE conjE)
    from gradle_zip_digits [OF L _ assms(3)] xv tail have "version_of m = (M, N)"
      by (simp add: version_of_def grp_def group_def py_int_show_nat)
    with m rd tail True show ?thesis
      by (auto simp: check_gradle_wrapper_version_def FLUTTER_MIN_GRADLE_def version_less_def Let_def)
  qed
qed

text \<open>The repository's own line, \<open>.../distributions/gradle-9.1.0-all.zip\<close>.\<close>

theorem check_gradle_wrapper_version_decides_witness:
  "check_gradle_wrapper_version (mk_world (file_at gradle_props_path
      (lit ''distributionUrl=https://services.gradle.org/distributions/'' @ gradle_dist 9 1 @ lit ''.0-all.zip''))) =
    Inr [Finding ''gradle-wrapper'' ''distributionUrl pattern not recognized'' []]"
  by (subst check_gradle_wrapper_version_decides [OF has_text_file_at])
     (simp_all add: text_simps show_nat.simps zip_ending_def)

subsection \<open>What the syntax check looks for\<close>

definition has_import :: "string \<Rightarrow> pystr \<Rightarrow> bool" where
  "has_import cls code \<longleftrightarrow> (\<exists>p w1 w2 q. code = p @ lit ''import'' @ w1 @ lit cls @ w2 @ q \<and>
     (p = [] \<or> last p = NL) \<and> w1 \<noteq> [] \<and> (\<forall>x\<in>set w1. is_space x) \<and> (\<forall>x\<in>set w2. is_space x) \<and>
     (q = [] \<or> hd q = NL))"

definition has_kotlin_options :: "pystr \<Rightarrow> bool" where
  "has_kotlin_options code \<longleftrightarrow> (\<exists>p w1 y w2 w3 d q. code = p @ lit ''kotlinOptions'' @ w1 @ lit ''{'' @ y @
     lit ''jvmTarget'' @ w2 @ lit ''='' @ w3 @ [34] @ d @ [34] @ q \<and> (\<forall>x\<in>set w1. is_space x) \<and>
     (\<forall>x\<in>set w2. is_space x) \<and> (\<forall>x\<in>set w3. is_space x) \<and> d \<noteq> [] \<and> (\<forall>x\<in>set d. is_digit x))"

definition has_compiler_options :: "pystr \<Rightarrow> bool" where
  "has_compiler_options code \<longleftrightarrow> (\<exists>p w1 y w2 z q. code = p @ lit ''kotlin'' @ w1 @ lit ''{'' @ y @
     lit ''compilerOptions'' @ w2 @ lit ''{'' @ z @ lit ''jvmTarget.set(JvmTarget.JVM_17)'' @ q \<and>
     (\<forall>x\<in>set w1. is_space x) \<and> (\<forall>x\<in>set w2. is_space x))"

lemma import_re_lang:
  "lang (import_re cls) p y q c c' \<longleftrightarrow> (\<exists>w1 w2. y = lit ''import'' @ w1 @ lit cls @ w2 \<and>
     (p = [] \<or> last p = NL) \<and> w1 \<noteq> [] \<and> (\<forall>x\<in>set w1. is_space x) \<and> (\<forall>x\<in>set w2. is_space x) \<and>
     (q = [] \<or> hd q = NL)) \<and> c' = c"
proof -
  have "(q = [] \<or> q = [NL] \<or> hd q = NL) \<longleftrightarrow> (q = [] \<or> hd q = NL)" by auto
  then show ?thesis
    by (simp add: import_re_def lang_simps) blast
qed

lemma kotlin_options_re_lang:
  "lang kotlin_options_re p y q c c' \<longleftrightarrow> (\<exists>w1 z w2 w3 d. y = lit ''kotlinOptions'' @ w1 @ lit ''{'' @ z @
     lit ''jvmTarget'' @ w2 @ lit ''='' @ w3 @ [34] @ d @ [34] \<and> (\<forall>x\<in>set w1. is_space x) \<and>
     (\<forall>x\<in>set w2. is_space x) \<and> (\<forall>x\<in>set w3. is_space x) \<and> d \<noteq> [] \<and> (\<forall>x\<in>set d. is_digit x)) \<and> c' = c"
  unfolding kotlin_options_re_def Seq.simps lang_simps lang.simps(3)
  by (rule iffI; elim exE conjE; hypsubst; intro exI conjI, (rule refl | assumption)+)

lemma compiler_options_re_lang:
  "lang compiler_options_re p y q c c' \<longleftrightarrow> (\<exists>w1 z1 w2 z2. y = lit ''kotlin'' @ w1 @ lit ''{'' @ z1 @
     lit ''compilerOptions'' @ w2 @ lit ''{'' @ z2 @ lit ''jvmTarget.set(JvmTarget.JVM_17)'' \<and>
     (\<forall>x\<in>set w1. is_space x) \<and> (\<forall>x\<in>set w2. is_space x)) \<and> c' = c"
  unfolding compiler_options_re_def Seq.simps lang_simps lang.simps(3)
  by (rule iffI; elim exE conjE; hypsubst; intro exI conjI, (rule refl | assumption)+)

text \<open>The shape of a match is the shape of the text around it.\<close>

lemma search_kotlin_options: "re_search kotlin_options_re code \<noteq> None \<longleftrightarrow> has_kotlin_options code"
proof
  assume "re_search kotlin_options_re code \<noteq> None"
  then show "has_kotlin_options code"
    unfolding re_search_not_None kotlin_options_re_lang has_kotlin_options_def
    by (elim exE conjE; hypsubst) (unfold append_assoc, intro exI conjI, (rule refl | assumption)+)
next
  assume "has_kotlin_options code"
  then show "re_search kotlin_options_re code \<noteq> None"
    unfolding re_search_not_None kotlin_options_re_lang has_kotlin_options_def
    by (elim exE conjE; hypsubst)
       (intro exI conjI, rule_tac [2] refl, unfold append_assoc, (rule refl | assumption)+)
qed

lemma search_compiler_options: "re_search compiler_options_re code \<noteq> None \<longleftrightarrow> has_compiler_options code"
proof
  assume "re_search compiler_options_re code \<noteq> None"
  then show "has_compiler_options code"
    unfolding re_search_not_None compiler_options_re_lang has_compiler_options_def
    by (elim exE conjE; hypsubst) (unfold append_assoc, intro exI conjI, (rule refl | assumption)+)
next
  assume "has_compiler_options code"
  then show "re_search compiler_options_re code \<noteq> None"
    unfolding re_search_not_None compiler_options_re_lang has_compiler_options_def
    by (elim exE conjE; hypsubst)
       (intro exI conjI, rule_tac [2] refl, unfold append_assoc, (rule refl | assumption)+)
qed

lemma search_import: "re_search (import_re cls) code \<noteq> None \<longleftrightarrow> has_import cls code"
proof
  assume "re_search (import_re cls) code \<noteq> None"
  then show "has_import cls code"
    unfolding re_search_not_None import_re_lang has_import_def
    by (elim exE conjE; hypsubst) (unfold append_assoc, intro exI conjI, (rule refl | assumption)+)
next
  assume "has_import cls code"
  then show "re_search (import_re cls) code \<noteq> None"
    unfolding re_search_not_None import_re_lang has_import_def
    by (elim exE conjE; hypsubst)
       (intro exI conjI, rule_tac [2] refl, unfold append_assoc, (rule refl | assumption)+)
qed

lemma search_Str: "re_search (Str s) t \<noteq> None \<longleftrightarrow> contains t s"
  unfolding re_search_not_None contains_iff by (auto simp: lang_Str)

text \<open>A file that passes, for the instance.\<close>

definition sample_app_gradle :: pystr where
  "sample_app_gradle = lit ''import java.util.Properties'' @ [NL] @ lit ''import org.jetbrains.kotlin.gradle.dsl.JvmTarget'' @ [NL] @
     lit ''kotlin{compilerOptions{jvmTarget.set(JvmTarget.JVM_17)''"

lemma strip_sample: "strip_comments (sample_app_gradle @ lit ''// java.util.Properties()'') = sample_app_gradle"
  unfolding strip_comments_def re_sub_block_comments
  by (subst strip_delim.simps) (simp add: sample_app_gradle_def splitlines_def cut_line_def text_simps)



end
