(* ===== verification/Pubspec_Checks.thy ===== *)
theory Pubspec_Checks
  imports Py_World
begin

section \<open>Entry point, lockfile and git-tracking checks (S7, S17 to S20)\<close>

text \<open>
  \<open>check_mobile_entry_point_v4\<close>, \<open>check_gradle_wrapper_force_include\<close>,
  \<open>check_fresh_flutter_create_preserved\<close>, \<open>check_fresh_create_metadata_tracked\<close> and
  \<open>check_pubspec_baseline_shape\<close> of tools/workflow-yaml-audit.py, with \<open>_git_ls_files_tracked\<close>
  (\<open>git_tracked\<close> of the world theory).
\<close>

definition main_dart_path :: path where "main_dart_path = [''mobile'', ''lib'', ''main.dart'']"
definition pubspec_yaml_path :: path where "pubspec_yaml_path = [''mobile'', ''pubspec.yaml'']"
definition pubspec_lock_path :: path where "pubspec_lock_path = [''mobile'', ''pubspec.lock'']"
definition gitignore_path :: path where "gitignore_path = [''.gitignore'']"

text \<open>\<open>try: yaml.safe_load(text) except yaml.YAMLError: findings.append(...)\<close>; other exceptions escape.\<close>

definition with_yaml :: "world \<Rightarrow> pystr \<Rightarrow> finding list \<Rightarrow> (pyval \<Rightarrow> findings) \<Rightarrow> findings" where
  "with_yaml w text parse_failed body =
     (case yaml_load w text of Inl YAMLError \<Rightarrow> Inr parse_failed | Inl e \<Rightarrow> Inl e | Inr doc \<Rightarrow> body doc)"

subsection \<open>S7: the entry point\<close>

definition s7_deps :: "pyval \<Rightarrow> finding list" where
  "s7_deps pubspec_doc =
     (if \<not> is_dict pubspec_doc
      then [Finding ''S7'' ''pubspec.yaml: top-level is not a mapping'' [type_name pubspec_doc]]
      else
        let deps = dict_items (dget (dict_items pubspec_doc) ''dependencies'' (PDict []))
        in (if \<not> has_key deps ''flutter_riverpod'' then [Finding ''S7'' ''pubspec.yaml: flutter_riverpod missing'' []] else []) @
           (if \<not> has_key deps ''go_router'' then [Finding ''S7'' ''pubspec.yaml: go_router missing'' []] else []))"

definition s7_main :: "pystr \<Rightarrow> finding list" where
  "s7_main main_text =
     (if \<not> contains main_text (lit ''runApp('') then [Finding ''S7'' ''main.dart: no runApp'' []] else []) @
     (if \<not> contains main_text (lit ''ProviderScope'') then [Finding ''S7'' ''main.dart: no ProviderScope'' []] else [])"

definition check_mobile_entry_point_v4 :: "world \<Rightarrow> findings" where
  "check_mobile_entry_point_v4 w =
     (if \<not> path_exists w main_dart_path then Inr [Finding ''S7'' ''main.dart: file missing'' []]
      else bindE (read_text w main_dart_path) (\<lambda>main_text.
        let findings = s7_main main_text in
        if \<not> path_exists w pubspec_yaml_path
        then Inr (findings @ [Finding ''S7'' ''pubspec.yaml: file missing'' []])
        else bindE (read_text w pubspec_yaml_path) (\<lambda>text.
          with_yaml w text (findings @ [Finding ''S7'' ''pubspec.yaml: YAML parse failed'' []])
            (\<lambda>pubspec_doc. Inr (findings @ s7_deps pubspec_doc)))))"

subsection \<open>S17: the wrapper is force-included\<close>

definition wrapper_files :: "(string \<times> path) list" where
  "wrapper_files =
     [(''mobile/android/gradlew'', [''mobile'', ''android'', ''gradlew'']),
      (''mobile/android/gradlew.bat'', [''mobile'', ''android'', ''gradlew.bat'']),
      (''mobile/android/gradle/wrapper/gradle-wrapper.jar'',
       [''mobile'', ''android'', ''gradle'', ''wrapper'', ''gradle-wrapper.jar''])]"

definition GRADLE_WRAPPER_RE_INCLUDE_PATTERNS :: "string list" where
  "GRADLE_WRAPPER_RE_INCLUDE_PATTERNS =
     [''!**/android/gradlew'', ''!**/android/gradlew.bat'', ''!**/android/gradle/wrapper/gradle-wrapper.jar'']"

definition untracked_files :: "world \<Rightarrow> (string \<times> path) list \<Rightarrow> pystr list" where
  "untracked_files w paths_to_check = concat (map (\<lambda>(rel, abs_path).
     if \<not> git_tracked w rel then [lit rel]
     else if \<not> path_exists w abs_path then [lit rel @ lit '' (tracked but missing on disk)'']
     else []) paths_to_check)"

text \<open>The patterns that are not a substring of the repository's .gitignore.\<close>

definition missing_patterns :: "world \<Rightarrow> string list \<Rightarrow> string list res" where
  "missing_patterns w patterns =
     (if path_exists w gitignore_path
      then bindE (read_text w gitignore_path) (\<lambda>gitignore_text.
             Inr (filter (\<lambda>pattern. \<not> contains gitignore_text (lit pattern)) patterns))
      else Inr patterns)"

definition check_gradle_wrapper_force_include :: "world \<Rightarrow> findings" where
  "check_gradle_wrapper_force_include w =
     (let untracked = untracked_files w wrapper_files in
      bindE (missing_patterns w GRADLE_WRAPPER_RE_INCLUDE_PATTERNS) (\<lambda>missing_re_include.
        Inr (if untracked \<noteq> [] \<or> missing_re_include \<noteq> []
             then [Finding ''S17'' ''wrapper not force-included''
                     [py_join (lit '', '') untracked, py_join (lit '', '') (map lit missing_re_include)]]
             else [])))"

subsection \<open>S18: lockfile and exclusions\<close>

definition MOBILE_FLUTTER_EXCLUDE_PATTERNS :: "string list" where
  "MOBILE_FLUTTER_EXCLUDE_PATTERNS =
     [''**/android/.gradle/'', ''**/android/local.properties'', ''**/.dart_tool/'', ''**/.flutter-plugins-dependencies'']"

definition check_fresh_flutter_create_preserved :: "world \<Rightarrow> findings" where
  "check_fresh_flutter_create_preserved w =
     (if \<not> git_tracked w ''mobile/pubspec.lock'' then Inr [Finding ''S18'' ''pubspec.lock not tracked'' []]
      else if \<not> path_exists w pubspec_lock_path then Inr [Finding ''S18'' ''pubspec.lock missing on disk'' []]
      else bindE (read_text w pubspec_lock_path) (\<lambda>lock_text.
        with_yaml w lock_text [Finding ''S18'' ''pubspec.lock: YAML parse failed'' []] (\<lambda>lock_doc.
          if \<not> is_dict lock_doc then Inr [Finding ''S18'' ''top-level is not a mapping'' [type_name lock_doc]]
          else let packages = dget (dict_items lock_doc) ''packages'' PNone in
          if \<not> is_dict packages then Inr [Finding ''S18'' ''packages missing or not a dict'' []]
          else let flutter_pkg = dget (dict_items packages) ''flutter'' PNone in
          if \<not> is_dict flutter_pkg then Inr [Finding ''S18'' ''packages.flutter missing'' []]
          else let source = dget (dict_items flutter_pkg) ''source'' PNone in
          if source \<noteq> PStr (lit ''sdk'') then Inr [Finding ''S18'' ''packages.flutter.source'' [repr_of w source]]
          else bindE (missing_patterns w MOBILE_FLUTTER_EXCLUDE_PATTERNS) (\<lambda>missing.
            Inr (if missing \<noteq> []
                 then [Finding ''S18'' ''gitignore misses exclusion patterns'' [py_join (lit '', '') (map lit missing)]]
                 else [])))))"

subsection \<open>S19: metadata tracked\<close>

definition check_fresh_create_metadata_tracked :: "world \<Rightarrow> findings" where
  "check_fresh_create_metadata_tracked w =
     (let untracked =
        (if \<not> git_tracked w ''mobile/.metadata'' then [lit ''mobile/.metadata''] else []) @
        (if \<not> git_tracked w ''mobile/android/.gitignore'' then [lit ''mobile/android/.gitignore''] else [])
      in Inr (if untracked \<noteq> [] then [Finding ''S19'' ''not tracked'' [py_join (lit '', '') untracked]] else []))"

subsection \<open>S20: the shape of pubspec.yaml\<close>

text \<open>\<open>isinstance(v, str) and v\<close>.\<close>

definition nonempty_str :: "pyval \<Rightarrow> bool" where
  "nonempty_str v \<longleftrightarrow> is_str v \<and> truthy v"

text \<open>\<open>doc.get(section).get(dep).get("sdk")\<close>, None as soon as one of the two is no dict.\<close>

definition dep_sdk :: "(pyval \<times> pyval) list \<Rightarrow> string \<Rightarrow> string \<Rightarrow> pyval" where
  "dep_sdk doc section dep =
     (let deps = dget doc section PNone in
      if is_dict deps
      then let d = dget (dict_items deps) dep PNone in
           if is_dict d then dget (dict_items d) ''sdk'' PNone else PNone
      else PNone)"

definition s20_missing :: "world \<Rightarrow> (pyval \<times> pyval) list \<Rightarrow> pystr list" where
  "s20_missing w doc =
     (if \<not> nonempty_str (dget doc ''name'' PNone) then [lit ''name (non-empty string)''] else []) @
     (let env = dget doc ''environment'' PNone in
      if \<not> is_dict env \<or> \<not> nonempty_str (dget (dict_items env) ''sdk'' PNone)
      then [lit ''environment.sdk (non-empty string)''] else []) @
     (let flutter_dep_sdk = dep_sdk doc ''dependencies'' ''flutter'' in
      if flutter_dep_sdk \<noteq> PStr (lit ''flutter'')
      then [lit ''dependencies.flutter.sdk == 'flutter' (got '' @ repr_of w flutter_dep_sdk @ lit '')''] else []) @
     (let flutter_test_sdk = dep_sdk doc ''dev_dependencies'' ''flutter_test'' in
      if flutter_test_sdk \<noteq> PStr (lit ''flutter'')
      then [lit ''dev_dependencies.flutter_test.sdk == 'flutter' (got '' @ repr_of w flutter_test_sdk @ lit '')''] else [])"

definition check_pubspec_baseline_shape :: "world \<Rightarrow> findings" where
  "check_pubspec_baseline_shape w =
     (if \<not> path_exists w pubspec_yaml_path then Inr [Finding ''S20'' ''file missing'' []]
      else bindE (read_text w pubspec_yaml_path) (\<lambda>text.
        with_yaml w text [Finding ''S20'' ''YAML parse failed'' []] (\<lambda>doc.
          if \<not> is_dict doc then Inr [Finding ''S20'' ''top-level is not a mapping'' [type_name doc]]
          else let missing = s20_missing w (dict_items doc) in
            Inr (if missing \<noteq> [] then [Finding ''S20'' ''baseline shape incomplete'' [py_join (lit '', '') missing]] else []))))"

end
