(* ===== verification/Android_Checks.thy ===== *)
theory Android_Checks
  imports Pubspec_Checks Workflow_Checks Gradle_Checks
begin

section \<open>Android resource checks (S8, S9, S10)\<close>

text \<open>
  \<open>check_android_xml_comments_v5\<close>, \<open>check_android_manifest_v6\<close> and
  \<open>check_android_res_skeleton_v7\<close> of tools/workflow-yaml-audit.py. The branch for a Python without
  \<open>xml.etree\<close> is left out: the module is part of the standard library.
\<close>

definition android_res_path :: path where
  "android_res_path = [''mobile'', ''android'', ''app'', ''src'', ''main'', ''res'']"
definition android_res_xml_path :: path where
  "android_res_xml_path = android_res_path @ [''xml'']"
definition manifest_path :: path where
  "manifest_path = [''mobile'', ''android'', ''app'', ''src'', ''main'', ''AndroidManifest.xml'']"

subsection \<open>S8: comments of the XML resources\<close>

text \<open>\<open>sorted(dir.glob("*.xml"))\<close>: the names of the directory's entries.\<close>

definition glob_xml :: "world \<Rightarrow> path \<Rightarrow> string list" where
  "glob_xml w p = (case lookup (repo w) p of
     Some (Dir es) \<Rightarrow> foldr (insert_by (\<lambda>a b. ord_class.lexordp_eq (lit a) (lit b)))
       (filter (\<lambda>n. suffix (lit ''.xml'') (lit n)) (map fst es)) []
   | _ \<Rightarrow> [])"

text \<open>\<open><!--(.*?)-->\<close>, DOTALL.\<close>

definition xml_comment_re :: re where
  "xml_comment_re = Seq [Str (lit ''<!--''), Grp 1 (Star False AnyC), Str (lit ''-->'')]"

text \<open>\<open>match.start(1)\<close>: the group follows the four characters of the opening.\<close>

definition comment_line :: "pystr \<Rightarrow> re_match \<Rightarrow> nat" where
  "comment_line text m =
     (let start_offset = m_start m + length (lit ''<!--'');
          body_index_of = (case find_sub (grp 1 m) (lit ''--'') of Some i \<Rightarrow> i | None \<Rightarrow> 0);
          absolute_offset = start_offset + body_index_of
      in py_count (take absolute_offset text) [NL] + 1)"

definition xml_comment_findings :: "string \<Rightarrow> pystr \<Rightarrow> finding list" where
  "xml_comment_findings rel text =
     (case List.find (\<lambda>m. contains (grp 1 m) (lit ''--'')) (re_finditer xml_comment_re text) of
        Some m \<Rightarrow> [Finding ''S8'' ''-- inside an XML comment'' [lit rel, show_nat (comment_line text m)]]
      | None \<Rightarrow> [])"

definition check_xml_file :: "world \<Rightarrow> string \<Rightarrow> finding list \<Rightarrow> findings" where
  "check_xml_file w xml_name findings =
     (case read_text w (android_res_xml_path @ [xml_name]) of
        Inl OSError \<Rightarrow> Inr (findings @ [Finding ''S8'' ''read failed'' [lit xml_name]])
      | Inl e \<Rightarrow> Inl e
      | Inr text \<Rightarrow>
          (case xml_parse w text of
             Inl ParseError \<Rightarrow> Inr (findings @ [Finding ''S8'' ''XML parse failed'' [lit xml_name]])
           | Inl e \<Rightarrow> Inl e
           | Inr _ \<Rightarrow> Inr (findings @ xml_comment_findings xml_name text)))"

definition check_android_xml_comments_v5 :: "world \<Rightarrow> findings" where
  "check_android_xml_comments_v5 w =
     (if \<not> path_exists w android_res_xml_path then Inr [Finding ''S8'' ''directory missing'' []]
      else foldE (check_xml_file w) (glob_xml w android_res_xml_path) [])"

subsection \<open>S9: the manifest\<close>

definition ANDROID_NS :: pystr where "ANDROID_NS = lit ''http://schemas.android.com/apk/res/android''"
definition ANDROID_TOOLS_NS :: pystr where "ANDROID_TOOLS_NS = lit ''http://schemas.android.com/tools''"
definition ANDROID_APP_NAMESPACE :: pystr where "ANDROID_APP_NAMESPACE = lit ''com.opene2ee.opene2ee''"

definition ns_attr :: "pystr \<Rightarrow> string \<Rightarrow> pystr" where
  "ns_attr ns a = lit ''{'' @ ns @ lit ''}'' @ lit a"

definition xmlns_tools_pattern :: pystr where
  "xmlns_tools_pattern = lit ''xmlns:tools='' @ [34] @ ANDROID_TOOLS_NS @ [34]"

definition namespace_line :: pystr where
  "namespace_line = lit ''namespace = '' @ [34] @ ANDROID_APP_NAMESPACE @ [34]"

definition cleartext_conflict :: "xml \<Rightarrow> bool" where
  "cleartext_conflict application \<longleftrightarrow>
     xml_get application (ns_attr ANDROID_NS ''usesCleartextTraffic'') \<noteq> None \<and>
     (case xml_get application (ns_attr ANDROID_TOOLS_NS ''remove'') of
        Some tools_remove_value \<Rightarrow> contains tools_remove_value (lit ''usesCleartextTraffic'')
      | None \<Rightarrow> False)"

definition manifest_findings :: "xml \<Rightarrow> pystr \<Rightarrow> finding list" where
  "manifest_findings xml_root manifest_text =
     (case xml_get xml_root (lit ''package'') of
        Some package \<Rightarrow> [Finding ''S9'' ''manifest carries package'' [package]] | None \<Rightarrow> []) @
     (if \<not> contains manifest_text xmlns_tools_pattern then [Finding ''S9'' ''xmlns:tools missing'' []] else []) @
     concat (map (\<lambda>application. if cleartext_conflict application
        then [Finding ''S9'' ''usesCleartextTraffic and tools:remove'' []] else [])
       (xml_iter xml_root (lit ''application'')))"

definition check_android_manifest_v6 :: "world \<Rightarrow> findings" where
  "check_android_manifest_v6 w =
     (if \<not> path_exists w manifest_path then Inr [Finding ''S9'' ''manifest missing'' []]
      else case et_parse w manifest_path of
        Inl ParseError \<Rightarrow> Inr [Finding ''S9'' ''XML parse failed'' []]
      | Inl e \<Rightarrow> Inl e
      | Inr xml_root \<Rightarrow>
          bindE (read_text w manifest_path) (\<lambda>manifest_text.
            let findings = manifest_findings xml_root manifest_text in
            if \<not> path_exists w app_gradle_path
            then Inr (findings @ [Finding ''S9'' ''build.gradle.kts missing'' []])
            else bindE (read_text w app_gradle_path) (\<lambda>gradle_text.
              Inr (findings @ (if \<not> contains gradle_text namespace_line
                               then [Finding ''S9'' ''namespace not found'' []] else [])))))"

subsection \<open>S10: the resource skeleton\<close>

definition styles_path :: path where "styles_path = android_res_path @ [''values'', ''styles.xml'']"
definition launch_bg_path :: path where "launch_bg_path = android_res_path @ [''drawable'', ''launch_background.xml'']"

definition mipmap_dirs :: "path list" where
  "mipmap_dirs = map (\<lambda>d. android_res_path @ [d])
     [''mipmap-anydpi-v26'', ''mipmap-mdpi'', ''mipmap-hdpi'', ''mipmap-xhdpi'', ''mipmap-xxhdpi'', ''mipmap-xxxhdpi'']"

text \<open>The loop with its \<open>break\<close>; \<open>iterdir\<close> of a plain file is an OSError.\<close>

fun find_mipmap :: "world \<Rightarrow> path list \<Rightarrow> bool res" where
  "find_mipmap w [] = Inr False"
| "find_mipmap w (d # ds) = (case lookup (repo w) d of
     None \<Rightarrow> find_mipmap w ds
   | Some (File _) \<Rightarrow> Inl OSError
   | Some (Dir es) \<Rightarrow> if es \<noteq> [] then Inr True else find_mipmap w ds)"

text \<open>The set \<open>style_names\<close>, as the list of the names added.\<close>

definition style_names :: "xml \<Rightarrow> pystr list" where
  "style_names xml_root = concat (map (\<lambda>style.
     case xml_get style (lit ''name'') of
       Some name \<Rightarrow> if name \<noteq> [] then [name] else [] | None \<Rightarrow> []) (xml_findall xml_root (lit ''style'')))"

definition styles_findings :: "world \<Rightarrow> findings" where
  "styles_findings w =
     (if \<not> path_exists w styles_path then Inr [Finding ''S10'' ''styles.xml missing'' []]
      else case et_parse w styles_path of
        Inl ParseError \<Rightarrow> Inr [Finding ''S10'' ''XML parse failed'' []]
      | Inl e \<Rightarrow> Inl e
      | Inr xml_root \<Rightarrow>
          Inr ((if lit ''LaunchTheme'' \<notin> set (style_names xml_root) then [Finding ''S10'' ''LaunchTheme missing'' []] else []) @
               (if lit ''NormalTheme'' \<notin> set (style_names xml_root) then [Finding ''S10'' ''NormalTheme missing'' []] else [])))"

definition check_android_res_skeleton_v7 :: "world \<Rightarrow> findings" where
  "check_android_res_skeleton_v7 w =
     (if \<not> path_exists w android_res_path then Inr [Finding ''S10'' ''res directory missing'' []]
      else bindE (styles_findings w) (\<lambda>findings.
        bindE (find_mipmap w mipmap_dirs) (\<lambda>has_mipmap.
          Inr (findings @
               (if \<not> has_mipmap then [Finding ''S10'' ''no mipmap'' []] else []) @
               (if \<not> path_exists w launch_bg_path then [Finding ''S10'' ''launch_background missing'' []] else [])))))"

end
