(* ===== verification/Flutter_Checks.thy ===== *)
theory Flutter_Checks
  imports Gradle_Checks
begin

section \<open>Flutter wiring checks (S11, S12, S13)\<close>

text \<open>
  \<open>check_flutter_plugins_dependencies_v8\<close> (the JSON that \<open>flutter pub get\<close> writes),
  \<open>check_flutter_kotlin_embedding_v9\<close> (the engine dependency in the app build file against the
  SDK's engine.version) and \<open>check_flutter_storage_repo_v10\<close> (the Maven repository), of
  tools/workflow-yaml-audit.py. The last two cut a \<open>name { ... }\<close> block out of a Gradle file with a
  brace counter, here \<open>scan_braces\<close> and \<open>block_from\<close>; its abstract specification is the grammar
  \<open>balanced\<close>.
\<close>

subsection \<open>Blocks in braces\<close>

text \<open>The loop \<open>while i < len(text) and depth > 0\<close>; \<open>n\<close> counts the characters passed.\<close>

fun scan_braces :: "nat \<Rightarrow> nat \<Rightarrow> pystr \<Rightarrow> nat \<times> nat" where
  "scan_braces depth n [] = (depth, n)"
| "scan_braces depth n (c # cs) =
     (if depth = 0 then (depth, n)
      else if c = 123 then scan_braces (Suc depth) (Suc n) cs
      else if c = 125 then scan_braces (depth - 1) (Suc n) cs
      else scan_braces depth (Suc n) cs)"

text \<open>\<open>text[block_start:i - 1]\<close> after the loop, or the final depth of an unbalanced block.\<close>

definition block_from :: "pystr \<Rightarrow> nat \<Rightarrow> nat + pystr" where
  "block_from text block_start =
     (let rest = drop block_start text; (depth, n) = scan_braces 1 0 rest
      in if depth \<noteq> 0 then Inl depth else Inr (take (n - 1) rest))"

text \<open>The grammar of a block's content.\<close>

inductive balanced :: "pystr \<Rightarrow> bool" where
  balanced_Nil: "balanced []"
| balanced_char: "c \<noteq> 123 \<Longrightarrow> c \<noteq> 125 \<Longrightarrow> balanced b \<Longrightarrow> balanced (c # b)"
| balanced_block: "balanced a \<Longrightarrow> balanced b \<Longrightarrow> balanced (123 # a @ 125 # b)"

text \<open>\<open>^\s*name\s*\{\<close>, MULTILINE.\<close>

definition block_re :: "string \<Rightarrow> re" where
  "block_re name = Seq [Bol True, Star True Spc, Str (lit name), Star True Spc, Str [123]]"

subsection \<open>S11: the plugins file\<close>

definition fpd_path :: path where "fpd_path = [''mobile'', ''.flutter-plugins-dependencies'']"

definition plugin_entry_findings :: "nat \<Rightarrow> pyval \<Rightarrow> finding list" where
  "plugin_entry_findings i entry =
     (if \<not> is_dict entry
      then [Finding ''S11'' ''plugins.android[i] not an object'' [show_nat i, type_name entry]]
      else
        let name = dget (dict_items entry) ''name'' PNone
        in (if \<not> is_str name \<or> \<not> truthy name
            then [Finding ''S11'' ''plugins.android[i].name missing'' [show_nat i]] else []) @
           (if \<not> is_bool (dget (dict_items entry) ''native_build'' PNone)
            then [Finding ''S11'' ''plugins.android[i].native_build missing'' [show_nat i]] else []))"

definition check_flutter_plugins_dependencies_v8 :: "world \<Rightarrow> findings" where
  "check_flutter_plugins_dependencies_v8 w =
     (if \<not> path_exists w fpd_path then Inr [Finding ''S11'' ''file missing'' []]
      else bindE (read_text w fpd_path) (\<lambda>text.
        case json_load w text of
          Inl JSONDecodeError \<Rightarrow> Inr [Finding ''S11'' ''JSON parse failed'' []]
        | Inl e \<Rightarrow> Inl e
        | Inr fpd_doc \<Rightarrow>
            if \<not> is_dict fpd_doc
            then Inr [Finding ''S11'' ''top-level is not an object'' [type_name fpd_doc]]
            else let plugins = dget (dict_items fpd_doc) ''plugins'' PNone in
              if \<not> is_dict plugins
              then Inr [Finding ''S11'' ''plugins is not an object'' [type_name plugins]]
              else let android_plugins = dget (dict_items plugins) ''android'' PNone in
                case android_plugins of
                  PList entries \<Rightarrow>
                    if length entries = 0 then Inr [Finding ''S11'' ''plugins.android is empty'' []]
                    else Inr (concat (map (\<lambda>(i, entry). plugin_entry_findings i entry)
                                (zip [0..<length entries] entries)))
                | _ \<Rightarrow> Inr [Finding ''S11'' ''plugins.android is not an array'' [type_name android_plugins]]))"

subsection \<open>S12: the engine dependency\<close>

definition FLUTTER_EMBEDDING_GROUP :: string where "FLUTTER_EMBEDDING_GROUP = ''io.flutter''"
definition FLUTTER_EMBEDDING_ARTIFACT :: string where "FLUTTER_EMBEDDING_ARTIFACT = ''flutter_embedding_ktx''"

definition embedding_substr :: pystr where
  "embedding_substr = lit (FLUTTER_EMBEDDING_GROUP @ '':'' @ FLUTTER_EMBEDDING_ARTIFACT)"

definition is_hex :: "nat \<Rightarrow> bool" where
  [text_simps]: "is_hex c \<longleftrightarrow> (48 \<le> c \<and> c \<le> 57) \<or> (97 \<le> c \<and> c \<le> 102)"

text \<open>\<open>rf"{re.escape(embedding_substr)}:{FLUTTER_EMBEDDING_PREFIX}([0-9a-f]{40})"\<close>: the prefix
  \<open>1.0.0-\<close> is not escaped, so its dots match any character but a newline.\<close>

definition embedding_version_re :: re where
  "embedding_version_re = Seq [Str (embedding_substr @ lit '':1''), Dot, Str (lit ''0''), Dot,
     Str (lit ''0-''), Grp 1 (Rep 40 (Cls is_hex))]"

text \<open>\<open>rf"{re.escape(embedding_substr)}:([^\"'\s,)]+)"\<close>\<close>

definition bad_version_re :: re where
  "bad_version_re = Seq [Str (embedding_substr @ lit '':''),
     Grp 1 (Plus (Cls (\<lambda>y. \<not> (y = 34 \<or> y = 39 \<or> is_space y \<or> y = 44 \<or> y = 41))))]"

definition hex40_re :: re where
  "hex40_re = Seq [Bol False, Rep 40 (Cls is_hex), Eol False]"

definition check_flutter_kotlin_embedding_v9 :: "world \<Rightarrow> findings" where
  "check_flutter_kotlin_embedding_v9 w =
     (if \<not> path_exists w app_gradle_path then Inr [Finding ''S12'' ''file missing'' []]
      else bindE (read_text w app_gradle_path) (\<lambda>text.
        case re_search (block_re ''dependencies'') text of
          None \<Rightarrow> Inr [Finding ''S12'' ''no dependencies block'' []]
        | Some dep_block_match \<Rightarrow>
          (case block_from text (m_end dep_block_match) of
            Inl depth \<Rightarrow> Inr [Finding ''S12'' ''block is unbalanced'' [show_nat depth]]
          | Inr block_text \<Rightarrow>
            if \<not> contains block_text embedding_substr
            then Inr [Finding ''S12'' ''embedding missing from the block'' []]
            else (case re_search embedding_version_re block_text of
              None \<Rightarrow>
                let bad_version = (case re_search bad_version_re block_text of
                      Some m \<Rightarrow> grp 1 m | None \<Rightarrow> lit ''<not found>'')
                in Inr [Finding ''S12'' ''version does not follow the pattern'' [bad_version]]
            | Some version_match \<Rightarrow>
                let declared_hash = grp 1 version_match in
                if engine_version_file w = None
                then Inr [Finding ''S12'' ''engine.version file missing'' []]
                else bindE (node_text (engine_version_file w)) (\<lambda>engine_text.
                  let sdk_engine_version = py_strip engine_text in
                  if re_match_at_start hex40_re sdk_engine_version = None
                  then Inr [Finding ''S12'' ''engine.version is not a hash'' [sdk_engine_version]]
                  else if declared_hash \<noteq> sdk_engine_version
                  then Inr [Finding ''S12'' ''hash does not match engine.version''
                              [declared_hash, sdk_engine_version]]
                  else Inr [])))))"

subsection \<open>S13: the Maven repository\<close>

definition FLUTTER_STORAGE_URL :: pystr where
  "FLUTTER_STORAGE_URL = lit ''https://storage.googleapis.com/download.flutter.io''"

definition settings_gradle_path :: path where
  "settings_gradle_path = [''mobile'', ''android'', ''settings.gradle.kts'']"

text \<open>\<open>^repositories\s*\{\<close>, MULTILINE.\<close>

definition repositories_re :: re where
  "repositories_re = Seq [Bol True, Str (lit ''repositories''), Star True Spc, Str [123]]"

text \<open>The loop over the \<open>repositories\<close> blocks ends in \<open>pass\<close> or \<open>continue\<close> on every path; it adds
  nothing to the findings.\<close>

fun scan_repositories :: "pystr \<Rightarrow> re_match list \<Rightarrow> finding list \<Rightarrow> finding list" where
  "scan_repositories app_text [] findings = findings"
| "scan_repositories app_text (repo_match # ms) findings =
     (case block_from app_text (m_end repo_match) of
        Inl depth \<Rightarrow> scan_repositories app_text ms findings
      | Inr repo_block_text \<Rightarrow>
          if contains repo_block_text FLUTTER_STORAGE_URL
          then scan_repositories app_text ms findings
          else scan_repositories app_text ms findings)"

definition scan_app_repositories :: "world \<Rightarrow> findings" where
  "scan_app_repositories w =
     (if path_exists w app_gradle_path
      then bindE (read_text w app_gradle_path) (\<lambda>app_text.
             Inr (scan_repositories app_text (re_finditer repositories_re app_text) []))
      else Inr [])"

definition check_flutter_storage_repo_v10 :: "world \<Rightarrow> findings" where
  "check_flutter_storage_repo_v10 w =
     (if \<not> path_exists w settings_gradle_path then Inr [Finding ''S13'' ''file missing'' []]
      else bindE (read_text w settings_gradle_path) (\<lambda>settings_text.
        case re_search (block_re ''dependencyResolutionManagement'') settings_text of
          Some drm_match \<Rightarrow>
            (case block_from settings_text (m_end drm_match) of
               Inl depth \<Rightarrow> Inr [Finding ''S13'' ''block is unbalanced'' []]
             | Inr drm_block_text \<Rightarrow>
                 if contains drm_block_text FLUTTER_STORAGE_URL then Inr []
                 else scan_app_repositories w)
        | None \<Rightarrow> scan_app_repositories w))"

subsection \<open>The brace counter implements the grammar\<close>

lemma balanced_append: "balanced a \<Longrightarrow> balanced b \<Longrightarrow> balanced (a @ b)"
  by (induction rule: balanced.induct) (auto intro: balanced.intros)

lemma balanced_no_braces: "\<forall>x\<in>set b. x \<noteq> 123 \<and> x \<noteq> 125 \<Longrightarrow> balanced b"
  by (induction b) (auto intro: balanced.intros)

lemma scan_braces_balanced:
  "balanced b \<Longrightarrow> scan_braces (Suc d) n (b @ r) = scan_braces (Suc d) (n + length b) r"
proof (induction arbitrary: d n r rule: balanced.induct)
  case (balanced_block a b)
  have "scan_braces (Suc d) n ((123 # a @ 125 # b) @ r) = scan_braces (Suc (Suc d)) (Suc n) (a @ 125 # b @ r)"
    by simp
  also have "\<dots> = scan_braces (Suc d) (Suc (Suc n + length a)) (b @ r)"
    by (simp add: balanced_block.IH(1))
  also have "\<dots> = scan_braces (Suc d) (Suc (Suc n + length a) + length b) r"
    by (rule balanced_block.IH(2))
  finally show ?case by (simp add: add.assoc)
qed auto

lemma scan_braces_closed:
  "scan_braces (Suc d) n s = (0, n') \<Longrightarrow>
     \<exists>bs r. length bs = Suc d \<and> (\<forall>b\<in>set bs. balanced b) \<and> s = concat (map (\<lambda>b. b @ [125]) bs) @ r \<and>
       n' = n + length (concat (map (\<lambda>b. b @ [125]) bs))"
proof (induction s arbitrary: d n)
  case (Cons c cs)
  consider (left) "c = 123" | (right) "c = 125" | (other) "c \<noteq> 123" "c \<noteq> 125" by blast
  then show ?case
  proof cases
    case left
    with Cons.prems have "scan_braces (Suc (Suc d)) (Suc n) cs = (0, n')" by simp
    from Cons.IH [OF this] obtain bs r where 1: "length bs = Suc (Suc d)" "\<forall>b\<in>set bs. balanced b"
      "cs = concat (map (\<lambda>b. b @ [125]) bs) @ r" "n' = Suc n + length (concat (map (\<lambda>b. b @ [125]) bs))"
      by blast
    then obtain b0 b1 bs' where bs: "bs = b0 # b1 # bs'" by (auto simp: length_Suc_conv)
    with 1 left show ?thesis
      by (intro exI [of _ "(123 # b0 @ 125 # b1) # bs'"] exI [of _ r]) (auto intro: balanced_block)
  next
    case right
    show ?thesis
    proof (cases d)
      case 0
      have "scan_braces 0 k xs = (0, k)" for k xs by (cases xs) auto
      with Cons.prems right 0 have "n' = Suc n" by simp
      with right 0 show ?thesis by (intro exI [of _ "[[]]"] exI [of _ cs]) (auto intro: balanced_Nil)
    next
      case (Suc d')
      with Cons.prems right have "scan_braces (Suc d') (Suc n) cs = (0, n')" by simp
      from Cons.IH [OF this] obtain bs r where "length bs = Suc d'" "\<forall>b\<in>set bs. balanced b"
        "cs = concat (map (\<lambda>b. b @ [125]) bs) @ r" "n' = Suc n + length (concat (map (\<lambda>b. b @ [125]) bs))"
        by blast
      with right Suc show ?thesis
        by (intro exI [of _ "[] # bs"] exI [of _ r]) (auto intro: balanced_Nil)
    qed
  next
    case other
    with Cons.prems have "scan_braces (Suc d) (Suc n) cs = (0, n')" by simp
    from Cons.IH [OF this] obtain bs r where 1: "length bs = Suc d" "\<forall>b\<in>set bs. balanced b"
      "cs = concat (map (\<lambda>b. b @ [125]) bs) @ r" "n' = Suc n + length (concat (map (\<lambda>b. b @ [125]) bs))"
      by blast
    then obtain b0 bs' where bs: "bs = b0 # bs'" by (auto simp: length_Suc_conv)
    with 1 other show ?thesis
      by (intro exI [of _ "(c # b0) # bs'"] exI [of _ r]) (auto intro: balanced_char)
  qed
qed simp

lemma block_from_spec: "block_from text i = Inr b \<longleftrightarrow> (\<exists>r. drop i text = b @ 125 # r \<and> balanced b)"
proof
  assume "block_from text i = Inr b"
  then obtain n where n: "scan_braces (Suc 0) 0 (drop i text) = (0, n)" and b: "b = take (n - 1) (drop i text)"
    by (auto simp: block_from_def Let_def split: prod.splits if_splits)
  from scan_braces_closed [OF n] obtain b0 r where
    "balanced b0" "drop i text = b0 @ 125 # r" "n = length b0 + 1"
    by (auto simp: length_Suc_conv)
  with b show "\<exists>r. drop i text = b @ 125 # r \<and> balanced b" by auto
next
  assume "\<exists>r. drop i text = b @ 125 # r \<and> balanced b"
  then obtain r where r: "drop i text = b @ 125 # r" and b: "balanced b" by auto
  have "scan_braces 0 k xs = (0, k)" for k xs by (cases xs) auto
  then have "scan_braces (Suc 0) 0 (drop i text) = (0, Suc (length b))"
    unfolding r scan_braces_balanced [OF b] by simp
  then show "block_from text i = Inr b" by (simp add: block_from_def r)
qed

text \<open>Where a block starts: the pattern \<open>^\s*name\s*{\<close> finds the first occurrence of its name.\<close>

lemma block_re_lang:
  "lang (block_re name) p y q c c' \<longleftrightarrow> (\<exists>w1 w2. y = w1 @ lit name @ w2 @ [123] \<and>
     (p = [] \<or> last p = NL) \<and> (\<forall>x\<in>set w1. is_space x) \<and> (\<forall>x\<in>set w2. is_space x)) \<and> c' = c"
  by (simp add: block_re_def lang_simps) blast

lemma block_re_None: "\<not> contains t (lit name) \<Longrightarrow> re_search (block_re name) t = None"
proof -
  assume no: "\<not> contains t (lit name)"
  have "t \<noteq> u @ (w1 @ lit name @ w2 @ [123]) @ v" for u w1 w2 v
    using no [unfolded contains_iff, simplified, rule_format, of "u @ w1" "w2 @ [123] @ v"] by simp
  then show ?thesis unfolding re_search_None block_re_lang by blast
qed

lemma block_re_at_name:
  fixes pre name w rest
  defines "t \<equiv> pre @ lit name @ w @ 123 # rest"
  assumes bol: "pre = [] \<or> last pre = NL" and first: "\<not> contains (pre @ butlast (lit name)) (lit name)"
    and name: "\<not> is_space (hd (lit name))" and w: "\<forall>x\<in>set w. is_space x"
  shows "\<exists>m. re_search (block_re name) t = Some m \<and> m_end m = length (pre @ lit name @ w @ [123])"
proof -
  have ne: "lit name \<noteq> []" using first by auto
  have here: "lang (block_re name) pre (lit name @ w @ [123]) rest [] []"
    unfolding block_re_lang using bol w by (auto intro: exI [of _ "[]"])
  then have "re_search (block_re name) t \<noteq> None"
    unfolding re_search_not_None t_def by (intro exI conjI, rule_tac [2] here) simp
  then obtain m where m: "re_search (block_re name) t = Some m" by blast
  from re_search_Some [OF m] obtain u x v where t: "t = u @ x @ v" and e: "m_end m = length u + length x"
    and L: "lang (block_re name) u x v [] (m_caps m)"
    and least: "\<forall>u1 u2 y w c'. u = u1 @ u2 \<and> u2 \<noteq> [] \<and> u2 @ x @ v = y @ w \<longrightarrow> \<not> lang (block_re name) u1 y w [] c'"
    by (elim exE conjE)
  from L obtain w1 w2 where x: "x = w1 @ lit name @ w2 @ [123]"
    and w1: "\<forall>x\<in>set w1. is_space x" and w2: "\<forall>x\<in>set w2. is_space x"
    by (auto simp: block_re_lang)
  have eq: "pre @ lit name @ w @ 123 # rest = u @ w1 @ lit name @ w2 @ 123 # v"
    using t x by (simp add: t_def)
  have "length u \<le> length pre"
  proof (rule ccontr)
    assume "\<not> length u \<le> length pre"
    then obtain u2 where u: "u = pre @ u2" "u2 \<noteq> []"
      using eq by (metis append_eq_append_conv_if append_take_drop_id append_Nil2 order_refl linear)
    then have "u2 @ x @ v = (lit name @ w @ [123]) @ rest" using t by (simp add: t_def)
    with least u here show False by blast
  qed
  then obtain z where z: "pre = u @ z" using eq by (metis append_eq_append_conv_if append_take_drop_id)
  from eq have "pre @ lit name @ (w @ 123 # rest) = (u @ w1) @ lit name @ (w2 @ 123 # v)" by simp
  from occurrence_bound [OF first this] z have "length z \<le> length w1" by simp
  with eq z obtain z' where z': "w1 = z @ z'" by (auto simp: append_eq_append_conv_if) (metis append_take_drop_id)
  with eq z have eq': "lit name @ w @ 123 # rest = z' @ lit name @ w2 @ 123 # v" by simp
  have "z' = []"
  proof (rule ccontr)
    assume "z' \<noteq> []"
    with eq' ne have "hd (lit name) = hd z'" by (metis hd_append2)
    with \<open>z' \<noteq> []\<close> w1 z' name show False by simp
  qed
  with eq' have "w @ 123 # rest = w2 @ 123 # v" by simp
  from run_unique [OF this w w2] have "w2 = w" by (simp add: is_space_def)
  with m e x z z' \<open>z' = []\<close> show ?thesis by simp
qed

subsection \<open>Finding the declared hash\<close>

text \<open>A declared engine dependency: the coordinate with any two characters for the dots of \<open>1.0.0-\<close>,
  and a hash of 40 hexadecimal digits.\<close>

definition declares_engine :: "pystr \<Rightarrow> pystr \<Rightarrow> bool" where
  "declares_engine b h \<longleftrightarrow> length h = 40 \<and> (\<forall>x\<in>set h. is_hex x) \<and>
     (\<exists>u d1 d2 v. d1 \<noteq> NL \<and> d2 \<noteq> NL \<and>
        b = u @ embedding_substr @ lit '':1'' @ [d1] @ lit ''0'' @ [d2] @ lit ''0-'' @ h @ v)"

lemma embedding_version_re_lang:
  "lang embedding_version_re p y q c c' \<longleftrightarrow> (\<exists>d1 d2 h.
     y = embedding_substr @ lit '':1'' @ [d1] @ lit ''0'' @ [d2] @ lit ''0-'' @ h \<and> d1 \<noteq> NL \<and> d2 \<noteq> NL \<and>
     length h = 40 \<and> (\<forall>x\<in>set h. is_hex x) \<and> c' = (1, h) # c)"
  unfolding embedding_version_re_def Seq.simps cat_simps lang_simps lang.simps(6)
  by (rule iffI; elim exE conjE; hypsubst; (intro exI conjI; (unfold append_assoc)?, (rule refl | assumption)+))

lemma search_embedding_version:
  assumes "re_search embedding_version_re b = Some m"
  shows "declares_engine b (grp 1 m)"
proof -
  from re_search_Some [OF assms] obtain u x v where "b = u @ x @ v"
    and "lang embedding_version_re u x v [] (m_caps m)" by (elim exE conjE)
  then show ?thesis
    unfolding embedding_version_re_lang declares_engine_def
    by (elim exE conjE) (simp add: grp_def group_def, blast)
qed

definition is_hash :: "pystr \<Rightarrow> bool" where
  "is_hash h \<longleftrightarrow> length h = 40 \<and> (\<forall>x\<in>set h. is_hex x)"

definition engine_coordinate :: "pystr \<Rightarrow> pystr" where
  "engine_coordinate h = embedding_substr @ lit '':1.0.0-'' @ h"

lemma dependencies_block:
  assumes "pre = [] \<or> last pre = NL" and "\<not> contains (pre @ lit ''dependencie'') (lit ''dependencies'')"
    and "balanced b"
  shows "\<exists>m. re_search (block_re ''dependencies'') (pre @ lit ''dependencies {'' @ b @ lit ''}'' @ post) = Some m \<and>
    block_from (pre @ lit ''dependencies {'' @ b @ lit ''}'' @ post) (m_end m) = Inr b"
proof -
  have split: "lit ''dependencies {'' @ r = lit ''dependencies'' @ [32] @ 123 # r" for r by (simp add: lit_def)
  have "\<not> contains (pre @ butlast (lit ''dependencies'')) (lit ''dependencies'')"
    using assms(2) by (simp add: lit_def)
  from block_re_at_name [OF assms(1) this, of "[32]" "b @ lit ''}'' @ post"] obtain m where
    m: "re_search (block_re ''dependencies'') (pre @ lit ''dependencies {'' @ b @ lit ''}'' @ post) = Some m"
    and e: "m_end m = length (pre @ lit ''dependencies'' @ [32] @ [123])"
    by (auto simp only: split) (auto simp: lit_def is_space_def)
  have "drop (m_end m) (pre @ lit ''dependencies {'' @ b @ lit ''}'' @ post) = b @ 125 # post"
    unfolding e split by (simp add: lit_def)
  with m assms(3) show ?thesis unfolding block_from_spec by blast
qed

text \<open>The coordinate with any two characters in place of the dots.\<close>

definition loose_coordinate :: "nat \<Rightarrow> nat \<Rightarrow> pystr \<Rightarrow> pystr" where
  "loose_coordinate d1 d2 h = embedding_substr @ lit '':1'' @ [d1] @ lit ''0'' @ [d2] @ lit ''0-'' @ h"

lemma engine_coordinate_loose: "engine_coordinate h = loose_coordinate 46 46 h"
  by (simp add: engine_coordinate_def loose_coordinate_def lit_def)

lemma declared_hash:
  assumes "\<not> contains (b1 @ embedding_substr @ lit '':'') (embedding_substr @ lit '':1'')" and "is_hash h"
    and "d1 \<noteq> NL" and "d2 \<noteq> NL"
  shows "\<exists>m. re_search embedding_version_re (b1 @ loose_coordinate d1 d2 h @ b2) = Some m \<and> grp 1 m = h"
proof -
  let ?H = "embedding_substr @ lit '':1''"
  have head: "headed embedding_version_re ?H" unfolding embedding_version_re_def by (rule headed_Seq)
  have no: "\<not> contains (b1 @ butlast ?H) ?H" using assms(1) by (simp add: lit_def butlast_append)
  have "lang embedding_version_re b1 (?H @ [d1] @ lit ''0'' @ [d2] @ lit ''0-'' @ h) b2 [] [(1, h)]"
    unfolding embedding_version_re_lang using assms(2-4) by (auto simp: is_hash_def)
  from re_search_at_head [OF head no this] obtain m x v where
    m: "re_search embedding_version_re (b1 @ loose_coordinate d1 d2 h @ b2) = Some m"
    and xv: "([d1] @ lit ''0'' @ [d2] @ lit ''0-'' @ h) @ b2 = x @ v"
    and L: "lang embedding_version_re b1 (?H @ x) v [] (m_caps m)"
    by (auto simp: loose_coordinate_def)
  from L [unfolded embedding_version_re_lang append_assoc same_append_eq] obtain e1 e2 h' where
    x: "x = [e1] @ lit ''0'' @ [e2] @ lit ''0-'' @ h'" and len: "length h' = 40" and c: "m_caps m = [(1, h')]"
    by blast
  from xv x have "h @ b2 = h' @ v" by (simp add: lit_def)
  with len assms(2) have "h' = h" by (simp add: is_hash_def)
  with m c show ?thesis by (simp add: grp_def group_def)
qed

lemma py_strip_last: "py_strip s \<noteq> [] \<Longrightarrow> \<not> is_space (last (py_strip s))"
  by (simp add: py_strip_def last_rev hd_dropWhile)

lemma hex40_stripped: "re_match_at_start hex40_re (py_strip s) = None \<longleftrightarrow> \<not> is_hash (py_strip s)"
proof -
  have L: "lang hex40_re [] x v [] c \<longleftrightarrow> is_hash x \<and> (v = [] \<or> v = [NL]) \<and> c = []" for x v c
    by (auto simp: hex40_re_def is_hash_def cat_simps lang_simps)
  have "v \<noteq> [NL]" if "py_strip s = x @ v" for x v
    using py_strip_last [of s] that by (auto simp: is_space_def)
  then show ?thesis unfolding re_match_at_start_None L by auto
qed

lemma embedding_decides:
  assumes "has_text w app_gradle_path (pre @ lit ''dependencies {'' @ b1 @ loose_coordinate d1 d2 h @ b2 @ lit ''}'' @ post)"
    and "pre = [] \<or> last pre = NL" and "\<not> contains (pre @ lit ''dependencie'') (lit ''dependencies'')"
    and "balanced (b1 @ loose_coordinate d1 d2 h @ b2)"
    and "\<not> contains (b1 @ embedding_substr @ lit '':'') (embedding_substr @ lit '':1'')"
    and "is_hash h" and "engine_version_file w = Some (File (Some ev))" and "d1 \<noteq> NL" and "d2 \<noteq> NL"
  shows "check_flutter_kotlin_embedding_v9 w = Inr
    (if h = py_strip ev then []
     else if is_hash (py_strip ev) then [Finding ''S12'' ''hash does not match engine.version'' [h, py_strip ev]]
     else [Finding ''S12'' ''engine.version is not a hash'' [py_strip ev]])"
proof -
  from dependencies_block [OF assms(2-4), unfolded append_assoc] obtain m where
    m: "re_search (block_re ''dependencies'') (pre @ lit ''dependencies {'' @ b1 @ loose_coordinate d1 d2 h @ b2 @ lit ''}'' @ post) = Some m"
    and b: "block_from (pre @ lit ''dependencies {'' @ b1 @ loose_coordinate d1 d2 h @ b2 @ lit ''}'' @ post) (m_end m) =
      Inr (b1 @ loose_coordinate d1 d2 h @ b2)" by blast
  from declared_hash [OF assms(5,6,8,9)] obtain mv where
    mv: "re_search embedding_version_re (b1 @ loose_coordinate d1 d2 h @ b2) = Some mv" "grp 1 mv = h" by blast
  have "contains (b1 @ loose_coordinate d1 d2 h @ b2) embedding_substr"
    unfolding contains_iff loose_coordinate_def append_assoc by (intro exI) (rule refl)
  with m b mv show ?thesis
    using has_text_exists [OF assms(1)] has_text_read [OF assms(1)] assms(6,7) hex40_stripped [of ev]
    by (auto simp: check_flutter_kotlin_embedding_v9_def)
qed

subsection \<open>Properties\<close>

text \<open>C5. The brace counter cuts out the block the grammar describes: it returns \<open>b\<close> exactly when the
  text from the block's start is \<open>b\<close>, balanced, followed by the closing brace; in every other case the
  block is reported as unbalanced.\<close>

theorem block_from_iff_balanced:
  "block_from text i = Inr b \<longleftrightarrow> (\<exists>r. drop i text = b @ lit ''}'' @ r \<and> balanced b)"
  by (simp add: block_from_spec lit_def)

text \<open>A plugins file as \<open>flutter pub get\<close> writes it.\<close>

definition wf_plugin_entry :: "pyval \<Rightarrow> bool" where
  "wf_plugin_entry entry \<longleftrightarrow> (\<exists>kvs name. entry = PDict kvs \<and> dget kvs ''name'' PNone = PStr name \<and> name \<noteq> [] \<and>
     is_bool (dget kvs ''native_build'' PNone))"

lemma plugin_entry_findings_Nil: "plugin_entry_findings i entry = [] \<longleftrightarrow> wf_plugin_entry entry"
proof -
  have s: "is_str v \<and> truthy v \<longleftrightarrow> (\<exists>s. v = PStr s \<and> s \<noteq> [])" for v
    by (cases v; simp)
  show ?thesis
    by (cases entry) (auto simp: plugin_entry_findings_def wf_plugin_entry_def Let_def s [symmetric])
qed

text \<open>C28. The S11 check accepts exactly the plugins files that hold a JSON object with a non-empty list of
  Android plugins, each with a non-empty name and a boolean \<open>native_build\<close>.\<close>

theorem plugins_check_silent_iff:
  assumes "has_text w fpd_path text"
  shows "check_flutter_plugins_dependencies_v8 w = Inr [] \<longleftrightarrow>
    (\<exists>top plugins entries. json_load w text = Inr (PDict top) \<and> dget top ''plugins'' PNone = PDict plugins \<and>
       dget plugins ''android'' PNone = PList entries \<and> entries \<noteq> [] \<and> (\<forall>entry\<in>set entries. wf_plugin_entry entry))"
proof (cases "json_load w text")
  case (Inl e)
  then show ?thesis
    using has_text_exists [OF assms] has_text_read [OF assms]
    by (cases e) (auto simp: check_flutter_plugins_dependencies_v8_def)
next
  case (Inr doc)
  have loop: "concat (map (\<lambda>(i, entry). plugin_entry_findings i entry) (zip [0..<length es] es)) = [] \<longleftrightarrow>
      (\<forall>entry\<in>set es. wf_plugin_entry entry)" for es
    by (force simp: plugin_entry_findings_Nil set_zip in_set_conv_nth)
  show ?thesis
    using has_text_exists [OF assms] has_text_read [OF assms] Inr loop
    by (cases doc; simp add: check_flutter_plugins_dependencies_v8_def Let_def split: pyval.split)
       (auto simp: is_dict_iff split: pyval.splits)
qed

definition good_plugins :: pyval where
  "good_plugins = PDict [(PStr (lit ''plugins''), PDict [(PStr (lit ''android''),
     PList [PDict [(PStr (lit ''name''), PStr (lit ''jni'')), (PStr (lit ''native_build''), PBool True)]])])]"

theorem plugins_check_silent_iff_witness:
  "check_flutter_plugins_dependencies_v8
     ((mk_world (file_at fpd_path (lit ''{}''))) \<lparr>json_load := \<lambda>_. Inr good_plugins\<rparr>) = Inr []"
proof -
  have "has_text ((mk_world (file_at fpd_path (lit ''{}''))) \<lparr>json_load := \<lambda>_. Inr good_plugins\<rparr>) fpd_path (lit ''{}'')"
    using has_text_file_at by (simp add: has_text_def)
  then show ?thesis
    by (subst plugins_check_silent_iff) (simp_all add: good_plugins_def dget_def lit_def wf_plugin_entry_def)
qed


text \<open>The concrete file of the witness.\<close>

definition sample_hash :: pystr where "sample_hash = replicate 40 97"

definition app_deps_text :: pystr where
  "app_deps_text = [] @ lit ''dependencies {'' @ [] @ engine_coordinate sample_hash @ [] @ lit ''}'' @ []"

definition app_deps_world :: world where
  "app_deps_world = (mk_world (file_at app_gradle_path app_deps_text))
     \<lparr>engine_version_file := Some (File (Some (sample_hash @ [NL])))\<rparr>"

lemma app_deps_has_text: "has_text app_deps_world app_gradle_path app_deps_text"
  using has_text_file_at by (simp add: app_deps_world_def has_text_def)

lemma app_deps_balanced: "balanced ([] @ engine_coordinate sample_hash @ [])"
proof -
  have "balanced xs" if "\<forall>x\<in>set xs. x \<noteq> 123 \<and> x \<noteq> 125" for xs
    using that by (induction xs) (auto intro: balanced.intros)
  then show ?thesis
    by (auto simp: engine_coordinate_def embedding_substr_def FLUTTER_EMBEDDING_GROUP_def
        FLUTTER_EMBEDDING_ARTIFACT_def sample_hash_def lit_def)
qed

lemma app_deps_silent: "check_flutter_kotlin_embedding_v9 app_deps_world = Inr []"
  by (subst embedding_decides [where ev = "sample_hash @ [NL]", OF app_deps_has_text [unfolded app_deps_text_def engine_coordinate_loose] _ _ app_deps_balanced [unfolded engine_coordinate_loose]])
     (simp_all add: text_simps is_hash_def sample_hash_def app_deps_world_def py_strip_def
       embedding_substr_def FLUTTER_EMBEDDING_GROUP_def FLUTTER_EMBEDDING_ARTIFACT_def)




text \<open>C40. The S13 check never reports a missing Maven repository: its verdict depends on nothing but the
  presence of settings.gradle.kts and the balance of its \<open>dependencyResolutionManagement\<close> block; neither
  the repository URL nor the app build file can change it.\<close>

theorem storage_repo_check_ignores_url:
  assumes "readable w settings_gradle_path" and "readable w app_gradle_path"
  shows "check_flutter_storage_repo_v10 w = Inr (case text_of w settings_gradle_path of
      None \<Rightarrow> [Finding ''S13'' ''file missing'' []]
    | Some t \<Rightarrow> (case re_search (block_re ''dependencyResolutionManagement'') t of
        None \<Rightarrow> []
      | Some m \<Rightarrow> if \<exists>d. block_from t (m_end m) = Inl d then [Finding ''S13'' ''block is unbalanced'' []] else []))"
proof -
  have loop: "scan_repositories t ms fs = fs" for t ms fs
    by (induction ms) (auto split: sum.splits)
  have app: "scan_app_repositories w = Inr []"
    using assms(2) by (cases rule: readable_cases) (simp_all add: scan_app_repositories_def loop)
  from assms(1) show ?thesis
    by (cases rule: readable_cases)
       (auto simp: check_flutter_storage_repo_v10_def app split: option.splits sum.splits)
qed

text \<open>A settings file without any Maven repository passes.\<close>

theorem storage_repo_check_ignores_url_witness:
  "check_flutter_storage_repo_v10 (mk_world (file_at settings_gradle_path (lit ''rootProject.name''))) = Inr []"
proof -
  have "re_search (block_re ''dependencyResolutionManagement'') (lit ''rootProject.name'') = None"
    by (rule block_re_None) (simp add: text_simps)
  then show ?thesis
    by (subst storage_repo_check_ignores_url)
       (simp_all add: readable_def text_of_def mk_world_def settings_gradle_path_def app_gradle_path_def)
qed

end
