(* ===== verification/Literal_Checks.thy ===== *)
theory Literal_Checks
  imports Pubspec_Checks Strip_Comments
begin

section \<open>Literal checks of the audit (S25 to S72)\<close>

text \<open>
  The checks of tools/workflow-yaml-audit.py that look for literals in Dart, Kotlin, Go and YAML sources. Each reads its
  file with the same guards (\<open>with_text\<close>): absent, unreadable, else the body on the text. The exception text of a
  failed read is left out of its finding.
\<close>

subsection \<open>Shared shape\<close>

definition with_text :: "string \<Rightarrow> world \<Rightarrow> path \<Rightarrow> (pystr \<Rightarrow> finding list) \<Rightarrow> findings" where
  "with_text s w p body =
     (if \<not> path_exists w p then Inr [Finding s ''file missing'' []]
      else case try_read w p of
        None \<Rightarrow> Inr [Finding s ''read failed'' []]
      | Some text \<Rightarrow> Inr (body text))"

abbreviation has :: "pystr \<Rightarrow> string \<Rightarrow> bool" where
  "has text s \<equiv> contains text (lit s)"

definition dq :: "string \<Rightarrow> pystr" where "dq s = [34] @ lit s @ [34]"
definition sq :: "string \<Rightarrow> pystr" where "sq s = [39] @ lit s @ [39]"

text \<open>\<open>missing = []; if ...: missing.append(label); ...; if missing: findings.append(... ", ".join(missing) ...)\<close>\<close>

definition missing_finding :: "string \<Rightarrow> (bool \<times> pystr) list \<Rightarrow> finding list" where
  "missing_finding s entries = (let missing = map snd (filter fst entries)
     in if missing = [] then [] else [Finding s ''missing'' [py_join (lit '', '') missing]])"

text \<open>The same for \<open>missing = [n for n in needles if n not in text]\<close>.\<close>

definition missing_needles :: "string \<Rightarrow> pystr list \<Rightarrow> pystr \<Rightarrow> finding list" where
  "missing_needles s needles text = missing_finding s (map (\<lambda>n. (\<not> contains text n, n)) needles)"

definition literal_finding :: "string \<Rightarrow> bool \<Rightarrow> finding list" where
  "literal_finding s present = (if \<not> present then [Finding s ''literal missing'' []] else [])"

definition first_existing :: "world \<Rightarrow> path \<Rightarrow> path \<Rightarrow> path" where
  "first_existing w primary fallback = (if path_exists w primary then primary else fallback)"

definition screens_path :: "string \<Rightarrow> path" where "screens_path f = [''mobile'', ''lib'', ''screens'', f]"
definition services_path :: "string \<Rightarrow> path" where "services_path f = [''mobile'', ''lib'', ''services'', f]"
definition state_path :: "string \<Rightarrow> path" where "state_path f = [''mobile'', ''lib'', ''state'', f]"
definition backend_api_path :: "string \<Rightarrow> path" where "backend_api_path f = [''backend'', ''internal'', ''api'', f]"
definition kotlin_path :: "string list \<Rightarrow> path" where
  "kotlin_path f = [''mobile'', ''android'', ''app'', ''src'', ''main'', ''kotlin'', ''com'', ''opene2ee'', ''opene2ee''] @ f"
definition kotlin_fallback_path :: "string list \<Rightarrow> path" where
  "kotlin_fallback_path f = [''mobile'', ''android'', ''src'', ''main'', ''kotlin'', ''com'', ''opene2ee'', ''opene2ee''] @ f"

abbreviation active_pool_path :: path where "active_pool_path \<equiv> screens_path ''active_pool_screen.dart''"
abbreviation score_calculator_path :: path where "score_calculator_path \<equiv> services_path ''score_calculator.dart''"
abbreviation orchestrator_path :: path where "orchestrator_path \<equiv> services_path ''session_orchestrator.dart''"
abbreviation webrtc_path :: path where "webrtc_path \<equiv> services_path ''webrtc_service.dart''"
abbreviation skorlar_path :: path where "skorlar_path \<equiv> screens_path ''skorlar_screen.dart''"
abbreviation deeplink_path :: path where "deeplink_path \<equiv> state_path ''whatsapp_deeplink_provider.dart''"
abbreviation task_detail_path :: path where "task_detail_path \<equiv> screens_path ''whatsapp_task_detail_screen.dart''"
abbreviation main_activity_path :: "world \<Rightarrow> path" where
  "main_activity_path w \<equiv> first_existing w (kotlin_path [''MainActivity.kt'']) (kotlin_fallback_path [''MainActivity.kt''])"
abbreviation vpn_service_path :: "world \<Rightarrow> path" where
  "vpn_service_path w \<equiv> first_existing w (kotlin_path [''vpn'', ''OpenE2eeVpnService.kt''])
     (kotlin_fallback_path [''vpn'', ''OpenE2eeVpnService.kt''])"

subsection \<open>S25: the VPN word in the user interface\<close>

text \<open>\<open>rglob("*.dart")\<close>: the entries below a directory whose name ends in .dart, in the order of the tree.\<close>

fun rglob_dart :: "path \<Rightarrow> node \<Rightarrow> path list" where
  "rglob_dart p (File t) = []"
| "rglob_dart p (Dir es) = concat (map (\<lambda>(n, x).
     (if suffix (lit ''.dart'') (lit n) then [p @ [n]] else []) @ rglob_dart (p @ [n]) x) es)"

definition s25_files :: "world \<Rightarrow> path \<Rightarrow> path list" where
  "s25_files w t = (case lookup (repo w) t of
     Some (File _) \<Rightarrow> [t] | Some (Dir es) \<Rightarrow> rglob_dart t (Dir es) | None \<Rightarrow> [])"

definition check_no_vpn_string_in_sprint10_ui :: "world \<Rightarrow> findings" where
  "check_no_vpn_string_in_sprint10_ui w = Inr (concat (map (\<lambda>f.
     (case try_read w f of None \<Rightarrow> []
      | Some text \<Rightarrow> if has (py_lower text) ''vpn''
          then [Finding ''S25'' ''vpn'' [py_join (lit ''/'') (map lit (drop 2 f))]] else []))
     (s25_files w main_dart_path @ s25_files w [''mobile'', ''lib'', ''screens''])))"

subsection \<open>S26 to S41: literals of the screens and services\<close>

definition check_whatsapp_deeplink_literal_present :: "world \<Rightarrow> findings" where
  "check_whatsapp_deeplink_literal_present w = with_text ''S26'' w task_detail_path (\<lambda>text.
     literal_finding ''S26'' (has text ''intent://send?text=''))"

definition check_active_pool_linechart_literal_present :: "world \<Rightarrow> findings" where
  "check_active_pool_linechart_literal_present w = with_text ''S27'' w active_pool_path (\<lambda>text.
     literal_finding ''S27'' (has text ''LineChart''))"

definition check_active_pool_haptic_feedback_literal_present :: "world \<Rightarrow> findings" where
  "check_active_pool_haptic_feedback_literal_present w = with_text ''S29'' w active_pool_path (\<lambda>text.
     if \<not> has text ''HapticFeedback'' \<and> \<not> has text ''SystemSound'' then [Finding ''S29'' ''missing both'' []] else [])"

definition check_pool_provider_debug_state_fields :: "world \<Rightarrow> findings" where
  "check_pool_provider_debug_state_fields w = with_text ''S33'' w (state_path ''pool_provider.dart'')
     (missing_needles ''S33'' [lit ''lastError'', lit ''lastSuccess''])"

definition check_active_pool_scaffold_messenger_snackbar :: "world \<Rightarrow> findings" where
  "check_active_pool_scaffold_messenger_snackbar w = with_text ''S34'' w active_pool_path (\<lambda>text.
     literal_finding ''S34'' (has text ''ScaffoldMessenger.of(context).showSnackBar''))"

text \<open>The loop of S35 and S37 over two services: the first that holds the literal ends it; S35 lists those
  that could not be read.\<close>

fun first_hit :: "world \<Rightarrow> pystr \<Rightarrow> path list \<Rightarrow> path list \<Rightarrow> path option \<times> path list" where
  "first_hit w needle missing [] = (None, missing)"
| "first_hit w needle missing (t # ts) =
     (case (if path_exists w t then try_read w t else None) of
        None \<Rightarrow> first_hit w needle (missing @ [t]) ts
      | Some text \<Rightarrow> if contains text needle then (Some t, missing) else first_hit w needle missing ts)"

definition service_targets :: "path list" where
  "service_targets = [services_path ''telemetry_service.dart'', services_path ''p2p_matcher.dart'']"

definition show_path :: "path \<Rightarrow> pystr" where "show_path p = py_join (lit ''/'') (map lit p)"

definition check_service_api_key_from_environment :: "world \<Rightarrow> findings" where
  "check_service_api_key_from_environment w =
     (case first_hit w (lit ''String.fromEnvironment('' @ sq ''API_KEY'') [] service_targets of
        (Some hit, missing) \<Rightarrow> Inr []
      | (None, missing) \<Rightarrow> Inr [Finding ''S35'' ''literal missing'' [py_join (lit '', '') (map show_path service_targets),
          if missing \<noteq> [] then py_join (lit '', '') (map show_path missing) else lit ''(all exist, but no hit)'']])"

definition check_auth_service_exists :: "world \<Rightarrow> findings" where
  "check_auth_service_exists w = with_text ''S36'' w (services_path ''auth_service.dart'')
     (missing_needles ''S36'' [lit ''post('', lit ''/api/v1/auth'', lit ''user_id''])"

definition check_service_uses_auth_headers :: "world \<Rightarrow> findings" where
  "check_service_uses_auth_headers w =
     (case first_hit w (lit ''authHeaders()'') [] service_targets of
        (Some hit, missing) \<Rightarrow> Inr []
      | (None, missing) \<Rightarrow> Inr [Finding ''S37'' ''literal missing'' [py_join (lit '', '') (map show_path service_targets)]])"

definition check_auth_token_expiry_field :: "world \<Rightarrow> findings" where
  "check_auth_token_expiry_field w = with_text ''S38'' w (services_path ''auth_service.dart'') (\<lambda>text.
     literal_finding ''S38'' (has text ''_tokenExpiresAt''))"

definition check_auth_invalidate_method :: "world \<Rightarrow> findings" where
  "check_auth_invalidate_method w = with_text ''S39'' w (services_path ''auth_service.dart'') (\<lambda>text.
     literal_finding ''S39'' (has text ''invalidate()''))"

definition check_whatsapp_deeplink_intent_format :: "world \<Rightarrow> findings" where
  "check_whatsapp_deeplink_intent_format w = with_text ''S40'' w deeplink_path
     (missing_needles ''S40'' [lit ''intent://send?'', lit ''#Intent;scheme=whatsapp;package=com.whatsapp;end''])"

definition check_p2p_matcher_sessions_endpoint :: "world \<Rightarrow> findings" where
  "check_p2p_matcher_sessions_endpoint w = with_text ''S41'' w (services_path ''p2p_matcher.dart'') (\<lambda>text.
     (if \<not> has text ''/api/v1/sessions'' then [Finding ''S41'' ''literal missing'' []] else []) @
     (if has text ''/api/v1/matches'' then [Finding ''S41'' ''forbidden literal'' []] else []))"

subsection \<open>S42 to S44\<close>

definition queries_manifest_path :: "world \<Rightarrow> path" where
  "queries_manifest_path w = first_existing w [''mobile'', ''android'', ''app'', ''src'', ''main'', ''AndroidManifest.xml'']
     [''mobile'', ''android'', ''src'', ''main'', ''AndroidManifest.xml'']"

definition xml_comment_strip_re :: re where
  "xml_comment_strip_re = Seq [Str (lit ''<!--''), Star False AnyC, Str (lit ''-->'')]"

definition package_needle :: pystr where "package_needle = lit ''<package android:name='' @ dq ''com.whatsapp''"

definition check_android_manifest_whatsapp_queries_v12 :: "world \<Rightarrow> findings" where
  "check_android_manifest_whatsapp_queries_v12 w = with_text ''S42'' w (queries_manifest_path w) (\<lambda>text.
     if \<not> has text ''<queries>'' then [Finding ''S42'' ''<queries> missing'' []]
     else let stripped = re_sub xml_comment_strip_re [] text in
       if \<not> contains stripped package_needle then [Finding ''S42'' ''package missing'' []] else [])"

text \<open>\<open>when\s*\(\s*call\.method\s*\)\<close>\<close>

definition when_call_method_re :: re where
  "when_call_method_re = Seq [Str (lit ''when''), Star True Spc, Str (lit ''(''), Star True Spc, Str (lit ''call.method''),
     Star True Spc, Str (lit '')'')]"

definition has_when :: "pystr \<Rightarrow> bool" where
  "has_when code \<longleftrightarrow> re_search when_call_method_re code \<noteq> None"

definition has_sampled_literal :: "pystr \<Rightarrow> bool" where
  "has_sampled_literal code \<longleftrightarrow> contains code (dq ''getSampledPackets'') \<or> contains code (sq ''getSampledPackets'')"

text \<open>The label, the primary and the fallback path of a candidate, and its text: None when both are absent.\<close>

type_synonym s43_candidate = "pystr \<times> path \<times> path"

definition s43_candidates :: "s43_candidate list" where
  "s43_candidates = [(lit ''MainActivity.kt'', kotlin_path [''MainActivity.kt''], kotlin_fallback_path [''MainActivity.kt'']),
     (lit ''OpenE2eeVpnService.kt'', kotlin_path [''vpn'', ''OpenE2eeVpnService.kt''],
      kotlin_fallback_path [''vpn'', ''OpenE2eeVpnService.kt''])]"

definition s43_pick :: "world \<Rightarrow> s43_candidate \<Rightarrow> path option" where
  "s43_pick w c = (case c of (label, primary, fallback) \<Rightarrow>
     if path_exists w primary then Some primary else if path_exists w fallback then Some fallback else None)"

text \<open>The first loop: whether a candidate qualifies, and the findings until then.\<close>

fun s43_find :: "world \<Rightarrow> finding list \<Rightarrow> s43_candidate list \<Rightarrow> bool \<times> finding list" where
  "s43_find w findings [] = (False, findings)"
| "s43_find w findings (c # cs) =
     (case s43_pick w c of None \<Rightarrow> s43_find w findings cs
      | Some cand \<Rightarrow>
          (case try_read w cand of
             None \<Rightarrow> s43_find w (findings @ [Finding ''S43'' ''read failed'' [fst c]]) cs
           | Some text \<Rightarrow>
               let code = strip_comments text in
               if has_when code \<and> has_sampled_literal code then (True, findings) else s43_find w findings cs))"

text \<open>The second loop, when none did.\<close>

fun s43_explain :: "world \<Rightarrow> finding list \<Rightarrow> s43_candidate list \<Rightarrow> finding list" where
  "s43_explain w findings [] = findings"
| "s43_explain w findings (c # cs) =
     (case s43_pick w c of None \<Rightarrow> s43_explain w findings cs
      | Some cand \<Rightarrow>
          (case try_read w cand of None \<Rightarrow> s43_explain w findings cs
           | Some text \<Rightarrow>
               let code = strip_comments text in
               s43_explain w (if has_when code \<and> \<not> has_sampled_literal code
                 then findings @ [Finding ''S43'' ''case missing'' [fst c]] else findings) cs))"

definition check_main_activity_get_sampled_packets_v13 :: "world \<Rightarrow> findings" where
  "check_main_activity_get_sampled_packets_v13 w =
     (case s43_find w [] s43_candidates of
        (True, findings) \<Rightarrow> Inr findings
      | (False, findings) \<Rightarrow>
          let findings = s43_explain w findings s43_candidates in
          Inr (if findings = [] then [Finding ''S43'' ''handler missing'' []] else findings))"

definition check_whatsapp_deeplink_wa_me_format_v14 :: "world \<Rightarrow> findings" where
  "check_whatsapp_deeplink_wa_me_format_v14 w =
     bindE (with_text ''S44'' w deeplink_path
       (missing_needles ''S44'' [lit ''intent://send?text='', lit ''https://wa.me/?text=''])) (\<lambda>provider.
     bindE (with_text ''S44'' w task_detail_path (\<lambda>text. literal_finding ''S44'' (has text ''tryOpenWithReason''))) (\<lambda>screen.
     Inr (provider @ screen)))"

subsection \<open>S28: mock tickers\<close>

text \<open>\<open>Timer\.periodic\s*\(\<close> and \<open>=>\s*(\w+)\s*\(\<close>\<close>

definition timer_periodic_re :: re where
  "timer_periodic_re = Seq [Str (lit ''Timer.periodic''), Star True Spc, Str (lit ''('')]"

definition arrow_callback_re :: "world \<Rightarrow> re" where
  "arrow_callback_re w = Seq [Str (lit ''=>''), Star True Spc, Grp 1 (Plus (Cls (is_word w))), Star True Spc, Str (lit ''('')]"

definition callback_name :: "world \<Rightarrow> pystr \<Rightarrow> pystr" where
  "callback_name w snippet = (case re_search (arrow_callback_re w) snippet of
     None \<Rightarrow> lit ''?'' | Some m \<Rightarrow> (case group 1 m of Some s \<Rightarrow> s | None \<Rightarrow> []))"

definition is_mock_callback :: "pystr \<Rightarrow> bool" where
  "is_mock_callback cb_name \<longleftrightarrow>
     (let is_real_api = cb_name \<in> set (map lit [''_apiTick'', ''_poll'', ''tick'']);
          is_mock = cb_name \<in> set (map lit [''_mockTick'', ''_tick'', ''advance'', ''fakeTick''])
      in is_mock \<or> (\<not> is_real_api \<and> cb_name \<noteq> lit ''?''))"

definition mock_timers :: "world \<Rightarrow> pystr \<Rightarrow> (re_match \<times> pystr) list" where
  "mock_timers w code = filter (\<lambda>(m, cb_name). is_mock_callback cb_name)
     (map (\<lambda>m. (m, callback_name w (take 200 (drop (m_end m) code)))) (re_finditer timer_periodic_re code))"

definition line_no :: "pystr \<Rightarrow> re_match \<Rightarrow> pystr" where
  "line_no code m = show_nat (py_count (take (m_start m) code) [NL] + 1)"

definition check_pool_provider_no_fake_animation_v29 :: "world \<Rightarrow> findings" where
  "check_pool_provider_no_fake_animation_v29 w = with_text ''S28'' w (state_path ''pool_provider.dart'') (\<lambda>text.
     let code = strip_comments_dart text in
     map (\<lambda>(m, cb_name). Finding ''S28'' ''mock callback'' [cb_name, line_no code m]) (mock_timers w code))"

lemma line_no_at:
  assumes "code = u @ h @ v" and "m_start m = length u" and "NL \<notin> set h"
  defines "lines \<equiv> split_char NL code"
  shows "\<exists>n. line_no code m = show_nat n \<and> 1 \<le> n \<and> n \<le> length lines \<and> contains (lines ! (n - 1)) h"
  using split_char_at [OF assms(3), of u v] assms(1,2)
  by (intro exI [of _ "count_list u NL + 1"]) (simp add: line_no_def lines_def py_count_char)
lemma mock_timer_line:
  assumes "(m, cb_name) \<in> set (mock_timers w code)"
  shows "is_mock_callback cb_name \<and> (\<exists>n. line_no code m = show_nat n \<and> 1 \<le> n \<and> n \<le> length (split_char NL code) \<and>
    has (split_char NL code ! (n - 1)) ''Timer.periodic'')"
proof -
  from assms have mock: "is_mock_callback cb_name" and "m \<in> set (re_finditer timer_periodic_re code)"
    by (auto simp: mock_timers_def)
  from re_finditer_sound [OF this(2)] obtain u x v where "code = u @ x @ v" "m_start m = length u"
    "lang timer_periodic_re u x v [] (m_caps m)" by blast
  moreover from this(3) obtain y where "x = lit ''Timer.periodic'' @ y"
    unfolding timer_periodic_re_def Seq.simps lang_Cat_Str by blast
  ultimately show ?thesis
    using mock line_no_at [of code u "lit ''Timer.periodic''" "y @ v" m] by (simp add: lit_def)
qed

subsection \<open>S45 to S52: packet drain and telemetry\<close>

definition notification_title :: pystr where
  "notification_title = lit ''OpenE2EE '' @ [350] @ lit ''ifreleme Do'' @ [287] @ lit ''rulama''"

definition check_vpn_service_on_packets_sampled_literal_v15 :: "world \<Rightarrow> findings" where
  "check_vpn_service_on_packets_sampled_literal_v15 w = with_text ''S45'' w (vpn_service_path w) (\<lambda>text.
     let code = strip_comments text in
     literal_finding ''S45'' (contains code (dq ''onPacketsSampled'') \<or> contains code (sq ''onPacketsSampled'')))"

definition check_main_activity_snapshot_call_v15 :: "world \<Rightarrow> findings" where
  "check_main_activity_snapshot_call_v15 w = with_text ''S46'' w (main_activity_path w) (\<lambda>text.
     let code = strip_comments text;
         has_snapshot_call = has code ''OpenE2eeVpnService.snapshot()'';
         has_mock_packet = contains code (dq ''version'') \<and> contains code (dq ''protocol'') \<and> contains code (dq ''srcIpMasked'')
     in (if has_mock_packet then [Finding ''S46'' ''mock packet'' []] else []) @
        (if \<not> has_mock_packet \<and> \<not> has_snapshot_call then [] else []))"

definition check_vpn_service_packet_stream_getter_v15 :: "world \<Rightarrow> findings" where
  "check_vpn_service_packet_stream_getter_v15 w = with_text ''S47'' w (services_path ''vpn_service.dart'') (\<lambda>text.
     missing_finding ''S47'' [(\<not> has text ''packetStream'', lit ''packetStream''),
       (\<not> contains text (lit ''import '' @ sq ''package:flutter/services.dart''), lit ''MethodChannel import'')])"

definition check_active_pool_packet_stream_listen_v15 :: "world \<Rightarrow> findings" where
  "check_active_pool_packet_stream_listen_v15 w = with_text ''S48'' w active_pool_path (\<lambda>text.
     literal_finding ''S48'' (has text ''packetStream.listen''))"

definition check_sampled_packet_class_v15 :: "world \<Rightarrow> findings" where
  "check_sampled_packet_class_v15 w = with_text ''S49'' w (services_path ''packet_parser.dart'') (\<lambda>text.
     missing_finding ''S49'' [(\<not> has text ''class SampledPacket'', lit ''class SampledPacket''),
       (\<not> has text ''fromBytes'', lit ''fromBytes''), (\<not> has text ''toJson'', lit ''toJson'')])"

definition check_vpn_service_foreground_notification_text_v15 :: "world \<Rightarrow> findings" where
  "check_vpn_service_foreground_notification_text_v15 w = with_text ''S50'' w (vpn_service_path w) (\<lambda>text.
     literal_finding ''S50'' (contains (strip_comments text) notification_title))"

definition check_active_pool_no_30_call_loop_v15 :: "world \<Rightarrow> findings" where
  "check_active_pool_no_30_call_loop_v15 w = with_text ''S51'' w active_pool_path (\<lambda>text.
     let has_30_loop = has text ''< 30'' \<and> has text ''Timer.periodic'';
         has_packet_stream = has text ''packetStream''
     in (if has_30_loop then [Finding ''S51'' ''fixed loop'' []] else []) @
        (if \<not> has_packet_stream then [Finding ''S51'' ''packetStream missing'' []] else []))"

definition check_telemetry_service_summary_upload_v15 :: "world \<Rightarrow> findings" where
  "check_telemetry_service_summary_upload_v15 w = with_text ''S52'' w (services_path ''telemetry_service.dart'') (\<lambda>text.
     missing_finding ''S52'' [(\<not> has text ''sendSummary'', lit ''sendSummary''),
       (\<not> has text ''/api/v1/sessions/'', lit ''/api/v1/sessions/ path''),
       (\<not> has text ''encryptionIntegrityPct'', lit ''encryptionIntegrityPct field''),
       (\<not> has text ''packetLossPct'', lit ''packetLossPct field'')])"

subsection \<open>S53 to S60: WebRTC\<close>

definition check_pubspec_webrtc_dep_v16 :: "world \<Rightarrow> findings" where
  "check_pubspec_webrtc_dep_v16 w = with_text ''S53'' w pubspec_yaml_path (\<lambda>text. literal_finding ''S53'' (has text ''webrtc:''))"

definition check_webrtc_service_rtc_peer_connection_v16 :: "world \<Rightarrow> findings" where
  "check_webrtc_service_rtc_peer_connection_v16 w = with_text ''S54'' w webrtc_path (\<lambda>text.
     missing_finding ''S54'' [
       (\<not> contains text (lit ''import '' @ sq ''package:flutter_webrtc/flutter_webrtc.dart''), lit ''flutter_webrtc import''),
       (\<not> has text ''RTCPeerConnection'', lit ''RTCPeerConnection reference''),
       (\<not> has text ''createPeerConnection'', lit ''createPeerConnection call site'')])"

definition check_webrtc_service_on_ice_candidate_v16 :: "world \<Rightarrow> findings" where
  "check_webrtc_service_on_ice_candidate_v16 w = with_text ''S55'' w webrtc_path (\<lambda>text.
     missing_finding ''S55'' [(\<not> has text ''onIceCandidate'', lit ''onIceCandidate callback''),
       (\<not> (contains text (sq ''candidate'') \<or> contains text (dq ''candidate'')), lit ''candidate string literal''),
       (\<not> has text ''sdpMid'', lit ''sdpMid field'')])"

definition check_session_orchestrator_start_session_v16 :: "world \<Rightarrow> findings" where
  "check_session_orchestrator_start_session_v16 w = with_text ''S56'' w orchestrator_path (\<lambda>text.
     missing_finding ''S56'' [(\<not> has text ''startSession'', lit ''startSession method''),
       (\<not> has text ''authHeaders'', lit ''authHeaders() call (JWT)''),
       (\<not> has text ''/api/v1/sessions'', lit ''/api/v1/sessions endpoint'')])"

definition check_session_orchestrator_long_poll_v16 :: "world \<Rightarrow> findings" where
  "check_session_orchestrator_long_poll_v16 w = with_text ''S57'' w orchestrator_path (\<lambda>text.
     if \<not> (has text ''Duration(seconds: 30)'' \<or> has text ''_pollTimeout'') then [Finding ''S57'' ''timeout missing'' []]
     else (if \<not> has text ''.get('' then [Finding ''S57'' ''get missing'' []] else []) @
          (if \<not> has text ''pollForOffer'' \<and> \<not> has text ''pollForAnswer'' then [Finding ''S57'' ''poll method missing'' []] else []))"

definition check_backend_webrtc_long_poll_handlers_v16 :: "world \<Rightarrow> findings" where
  "check_backend_webrtc_long_poll_handlers_v16 w = with_text ''S58'' w (backend_api_path ''router.go'') (\<lambda>text.
     let offer = lit ''r.Get('' @ dq ''/webrtc/offer''; answer = lit ''r.Get('' @ dq ''/webrtc/answer'' in
     missing_finding ''S58'' [(\<not> contains text offer, offer @ lit '', ...)''), (\<not> contains text answer, answer @ lit '', ...)'')])"

definition check_webrtc_service_on_track_v16 :: "world \<Rightarrow> findings" where
  "check_webrtc_service_on_track_v16 w = with_text ''S59'' w webrtc_path (\<lambda>text.
     missing_finding ''S59'' [(\<not> has text ''onTrack'', lit ''onTrack callback''),
       (\<not> has text ''get onTrack'', lit ''onTrack stream getter'')])"

definition negotiating_label :: pystr where "negotiating_label = lit ''m'' @ [252] @ lit ''zakere''"
definition connected_label :: pystr where "connected_label = lit ''ba'' @ [287] @ lit ''land'' @ [305]"

definition check_active_pool_webrtc_status_indicator_v16 :: "world \<Rightarrow> findings" where
  "check_active_pool_webrtc_status_indicator_v16 w = with_text ''S60'' w active_pool_path (\<lambda>text.
     missing_finding ''S60'' [(\<not> contains text negotiating_label, lit ''Negotiating label ('' @ negotiating_label @ lit '')''),
       (\<not> contains text connected_label, lit ''Connected label ('' @ connected_label @ lit '')''),
       (\<not> has text ''hata'', lit ''Failed label (hata)'')])"

subsection \<open>S61 to S72: scores and sessions\<close>

definition check_skorlar_screen_fetch_scores_v17 :: "world \<Rightarrow> findings" where
  "check_skorlar_screen_fetch_scores_v17 w = with_text ''S61'' w skorlar_path (\<lambda>text.
     missing_finding ''S61'' [(\<not> has text ''Future<List<SessionScore>>'', lit ''Future<List<SessionScore>>''),
       (\<not> has text ''ConsumerStatefulWidget'' \<and> \<not> has text ''ConsumerState<'', lit ''ConsumerStatefulWidget / ConsumerState''),
       (\<not> has text ''fetchScores'', lit ''fetchScores method'')])"

definition check_score_calculator_compute_v17 :: "world \<Rightarrow> findings" where
  "check_score_calculator_compute_v17 w = with_text ''S62'' w score_calculator_path (\<lambda>text.
     missing_finding ''S62'' [(\<not> has text ''class SessionScoreCalculator'', lit ''class SessionScoreCalculator''),
       (\<not> has text ''static SessionScore compute'', lit ''static SessionScore compute method'')])"

definition check_score_calculator_four_metrics_v17 :: "world \<Rightarrow> findings" where
  "check_score_calculator_four_metrics_v17 w = with_text ''S63'' w score_calculator_path (\<lambda>text.
     missing_finding ''S63'' (map (\<lambda>field. (\<not> contains text field, field @ lit '' metric''))
       [lit ''encryptionIntegrityPct'', lit ''packetLossPct'', lit ''meanLatencyMs'', lit ''jitterMs'']))"

definition check_score_calculator_overall_weighted_sum_v17 :: "world \<Rightarrow> findings" where
  "check_score_calculator_overall_weighted_sum_v17 w = with_text ''S64'' w score_calculator_path (\<lambda>text.
     literal_finding ''S64'' (has text ''0.4 *'' \<and> has text ''0.3 *'' \<and> has text ''0.2 *'' \<and> has text ''0.1 *''))"

definition check_session_orchestrator_close_session_v17 :: "world \<Rightarrow> findings" where
  "check_session_orchestrator_close_session_v17 w = with_text ''S65'' w orchestrator_path (\<lambda>text.
     missing_finding ''S65'' [(\<not> has text ''closeSession'', lit ''closeSession method''),
       (\<not> (has text ''/api/v1/sessions/'' \<and> has text ''close'' \<and> has text ''.post(''), lit ''close endpoint path'')])"

definition check_active_pool_oturumu_bitur_button_v17 :: "world \<Rightarrow> findings" where
  "check_active_pool_oturumu_bitur_button_v17 w = with_text ''S66'' w active_pool_path (\<lambda>text.
     literal_finding ''S66'' (has text ''Oturumu Bitir''))"

definition check_active_pool_close_then_navigate_v17 :: "world \<Rightarrow> findings" where
  "check_active_pool_close_then_navigate_v17 w = with_text ''S67'' w active_pool_path (\<lambda>text.
     missing_finding ''S67'' [(\<not> has text ''closeSession'', lit ''closeSession call site''),
       (\<not> has text ''/home/skorlar'', lit ''/home/skorlar navigation'')])"

definition empty_state_text :: pystr where
  "empty_state_text = lit ''Hen'' @ [252] @ lit ''z tamamlanm'' @ [305, 351] @ lit '' oturum yok''"

definition check_skorlar_empty_state_v17 :: "world \<Rightarrow> findings" where
  "check_skorlar_empty_state_v17 w = with_text ''S68'' w skorlar_path (\<lambda>text.
     literal_finding ''S68'' (contains text empty_state_text))"

definition check_skorlar_card_overall_gauge_v17 :: "world \<Rightarrow> findings" where
  "check_skorlar_card_overall_gauge_v17 w = with_text ''S69'' w skorlar_path (\<lambda>text.
     missing_finding ''S69'' [(\<not> has text ''SessionScoreCard'', lit ''SessionScoreCard widget''),
       (\<not> (has text ''_OverallScoreDisc'' \<or> has text ''overallScore''), lit ''overallScore gauge (disc)'')])"

definition check_backend_sessions_close_handler_v17 :: "world \<Rightarrow> findings" where
  "check_backend_sessions_close_handler_v17 w = with_text ''S70'' w (backend_api_path ''router.go'') (\<lambda>text.
     literal_finding ''S70'' (contains text (lit ''r.Post('' @ dq ''/sessions/{id}/close'')))"

definition summary_fields :: "pystr list" where
  "summary_fields = map lit [''total_packets'', ''encrypted_packets'', ''packet_loss_pct'', ''mean_latency_ms'', ''jitter_ms'',
     ''encryption_integrity_pct'']"

definition check_backend_summary_stats_shape_v17 :: "world \<Rightarrow> findings" where
  "check_backend_summary_stats_shape_v17 w = with_text ''S71'' w (backend_api_path ''sessions.go'') (\<lambda>text.
     missing_finding ''S71'' ((\<not> has text ''summary_stats'', lit ''summary_stats key'') #
       map (\<lambda>field. (\<not> contains text field, field)) summary_fields))"

definition check_score_calculator_unit_tests_v17 :: "world \<Rightarrow> findings" where
  "check_score_calculator_unit_tests_v17 w = with_text ''S72'' w [''mobile'', ''test'', ''score_calculator_test.dart''] (\<lambda>text.
     if py_count text (lit ''test('') < 4 then [Finding ''S72'' ''tests missing'' []] else [])"

end
