(* ===== verification/Vpn_Checks.thy ===== *)
theory Vpn_Checks
  imports Literal_Checks Flutter_Checks
begin

section \<open>VPN service checks of the audit (S73 to S84)\<close>

text \<open>
  The checks of tools/workflow-yaml-audit.py on MainActivity.kt, OpenE2eeVpnService.kt, vpn_service.dart and
  active_pool_screen.dart (sprints 11.0D to 11.0M). Most strip the comments of the text first, with a loop that is
  repeated in each of them and that is \<open>strip_comments_dart\<close>; then they look for literals and patterns.
  \<open>need\<close> and \<open>forbid\<close> are the two shapes of their tests. S74 cuts the body of a Kotlin function
  out of the code, S84 asks in which function a call stands.
\<close>

subsection \<open>Shared shape\<close>

text \<open>\<open>if not ok: findings.append(...)\<close> and \<open>if bad: findings.append(...)\<close>.\<close>

definition need :: "string \<Rightarrow> string \<Rightarrow> bool \<Rightarrow> finding list" where
  "need s k ok = (if \<not> ok then [Finding s k []] else [])"

definition forbid :: "string \<Rightarrow> string \<Rightarrow> bool \<Rightarrow> finding list" where
  "forbid s k bad = (if bad then [Finding s k []] else [])"

text \<open>A row of tests \<open>if "k" not in code: findings.append(...)\<close>, each named by its literal.\<close>

definition need_all :: "string \<Rightarrow> string list \<Rightarrow> pystr \<Rightarrow> finding list" where
  "need_all s ks code = concat (map (\<lambda>k. need s k (has code k)) ks)"

lemma need_Nil [simp]: "need s k ok = [] \<longleftrightarrow> ok"
  and forbid_Nil [simp]: "forbid s k bad = [] \<longleftrightarrow> \<not> bad"
  by (simp_all add: need_def forbid_def)

lemma need_all_Nil [simp]: "need_all s ks code = [] \<longleftrightarrow> (\<forall>k\<in>set ks. has code k)"
  by (auto simp: need_all_def)

text \<open>\<open>re.search(pattern, code)\<close> as a condition.\<close>

definition re_found :: "re \<Rightarrow> pystr \<Rightarrow> bool" where
  "re_found r code \<longleftrightarrow> re_search r code \<noteq> None"

abbreviation vpn_kt_path :: path where "vpn_kt_path \<equiv> kotlin_path [''vpn'', ''OpenE2eeVpnService.kt'']"
abbreviation activity_kt_path :: path where "activity_kt_path \<equiv> kotlin_path [''MainActivity.kt'']"
abbreviation netty_kt_path :: path where "netty_kt_path \<equiv> kotlin_path [''vpn'', ''NettyChannelClient.kt'']"
abbreviation vpn_dart_path :: path where "vpn_dart_path \<equiv> services_path ''vpn_service.dart''"

text \<open>The guards of \<open>with_text\<close> for a body that may raise.\<close>

definition with_textE :: "string \<Rightarrow> world \<Rightarrow> path \<Rightarrow> (pystr \<Rightarrow> findings) \<Rightarrow> findings" where
  "with_textE s w p body =
     (if \<not> path_exists w p then Inr [Finding s ''file missing'' []]
      else case try_read w p of None \<Rightarrow> Inr [Finding s ''read failed'' []] | Some text \<Rightarrow> body text)"

lemma with_textE_pure: "with_textE s w p (\<lambda>text. Inr (body text)) = with_text s w p body"
  by (simp add: with_textE_def with_text_def)

subsection \<open>S73: MainActivity owns the channel\<close>

definition check_main_activity_owns_vpn_channel_v18 :: "world \<Rightarrow> findings" where
  "check_main_activity_owns_vpn_channel_v18 w = with_text ''S73'' w activity_kt_path (\<lambda>text.
     let code = strip_comments_dart text;
         has_const = has code ''OpenE2eeVpnService.METHOD_CHANNEL'';
         has_literal = contains code (dq ''opene2ee/vpn'') \<or> contains code (sq ''opene2ee/vpn'')
     in need ''S73'' ''MethodChannel('' (has code ''MethodChannel('') @
        need ''S73'' ''opene2ee/vpn'' (has_const \<or> has_literal) @
        need ''S73'' ''setMethodCallHandler'' (has code ''setMethodCallHandler'') @
        need ''S73'' ''OpenE2eeVpnService.dispatch'' (has code ''OpenE2eeVpnService.dispatch''))"

subsection \<open>S74: startForeground within five seconds\<close>

text \<open>\<open>override\s+fun\s+onStartCommand\s*\([^)]*\)[^{]*\{\<close>\<close>

definition onstart_re :: re where
  "onstart_re = Seq [Str (lit ''override''), Plus Spc, Str (lit ''fun''), Plus Spc, Str (lit ''onStartCommand''),
     Star True Spc, Str (lit ''(''), Star True (NotIn [41]), Str (lit '')''), Star True (NotIn [123]), Str [123]]"

text \<open>The loop \<open>while idx < len(code)\<close> from the opening brace on, and the slice
  \<open>code[body_start:idx + 1]\<close> after it: up to the brace that brings the depth back to 0, or all the rest.\<close>

fun scan_body :: "int \<Rightarrow> pystr \<Rightarrow> pystr" where
  "scan_body depth [] = []"
| "scan_body depth (c # cs) =
     (if c = 123 then c # scan_body (depth + 1) cs
      else if c = 125 then (if depth - 1 = 0 then [c] else c # scan_body (depth - 1) cs)
      else c # scan_body depth cs)"

definition onstart_body :: "pystr \<Rightarrow> re_match \<Rightarrow> pystr" where
  "onstart_body code onstart_match = (let body_start = m_end onstart_match - 1 in scan_body 0 (drop body_start code))"

definition check_vpn_service_startforeground_within_5s_v19 :: "world \<Rightarrow> findings" where
  "check_vpn_service_startforeground_within_5s_v19 w = with_text ''S74'' w vpn_kt_path (\<lambda>text.
     let code = strip_comments_dart text in
     need_all ''S74'' [''startForeground('', ''FOREGROUND_SERVICE_TYPE_SPECIAL_USE''] code @
     need ''S74'' ''createNotificationChannel'' (has code ''createNotificationChannel'' \<or> has code ''ensureNotificationChannel'') @
     need_all ''S74'' [''onStartCommand''] code @
     (case re_search onstart_re code of
        None \<Rightarrow> [Finding ''S74'' ''body not found'' []]
      | Some onstart_match \<Rightarrow>
          let body = onstart_body code onstart_match;
              has_direct = has body ''startForeground('';
              has_helper = has body ''ensureForegroundService'' \<or> has body ''startForegroundCompat''
          in need ''S74'' ''body does not call startForeground'' (has_direct \<or> has_helper)))"

subsection \<open>S75 to S80\<close>

definition check_vpn_service_log_d_breadcrumbs_v20 :: "world \<Rightarrow> findings" where
  "check_vpn_service_log_d_breadcrumbs_v20 w = with_text ''S75'' w vpn_kt_path (\<lambda>text.
     let log_d_count = py_count (strip_comments_dart text) (lit ''Log.d(TAG,'') in
     if log_d_count < 5 then [Finding ''S75'' ''too few Log.d'' [show_nat log_d_count]] else [])"

text \<open>\<open>VpnService\._\w*\s*\(\<close> and \<open>VpnService\s*\(\s*\)\<close>\<close>

definition private_ctor_re :: "world \<Rightarrow> re" where
  "private_ctor_re w = Seq [Str (lit ''VpnService._''), Star True (Cls (is_word w)), Star True Spc, Str (lit ''('')]"

definition default_ctor_re :: re where
  "default_ctor_re = Seq [Str (lit ''VpnService''), Star True Spc, Str (lit ''(''), Star True Spc, Str (lit '')'')]"

definition check_vpn_service_dart_singleton_v20 :: "world \<Rightarrow> findings" where
  "check_vpn_service_dart_singleton_v20 w = with_text ''S76'' w vpn_dart_path (\<lambda>text.
     let has_private_ctor = has text ''VpnService._internal('' \<or> has text ''VpnService._('' \<or> re_found (private_ctor_re w) text;
         has_getter = has text ''static VpnService get instance'';
         has_field = has text ''static final VpnService _instance''
     in need ''S76'' ''private constructor'' has_private_ctor @
        need ''S76'' ''singleton accessor'' (has_getter \<or> has_field) @
        forbid ''S76'' ''public default constructor'' (re_found default_ctor_re (strip_comments_dart text)))"

text \<open>\<open>text.split(sep)\<close>, from the left.\<close>

function split_from :: "pystr \<Rightarrow> pystr \<Rightarrow> pystr \<Rightarrow> pystr list" where
  "split_from sep cur s = (if s = [] \<or> sep = [] then [rev cur @ s]
     else if prefix sep s then rev cur # split_from sep [] (drop (length sep) s)
     else split_from sep (hd s # cur) (tl s))"
  by pat_completeness auto
termination
  by (relation "measure (\<lambda>(sep, cur, s). length s)") auto

declare split_from.simps [simp del]

definition split_sub :: "pystr \<Rightarrow> pystr \<Rightarrow> pystr list" where
  "split_sub s sep = split_from sep [] s"

text \<open>The condition of the branch of S77 whose body is \<open>pass\<close>; the index \<open>[0]\<close> could raise.\<close>

definition s77_plain_widget :: "pystr \<Rightarrow> bool res" where
  "s77_plain_widget text =
     (if has text ''StatefulWidget''
      then (case filter (\<lambda>m. has m ''StatefulWidget'') (split_sub text (lit ''extends '')) of
              [] \<Rightarrow> Inl IndexError
            | m # _ \<Rightarrow> Inr (\<not> has m ''ConsumerStatefulWidget''))
      else Inr False)"

definition check_active_pool_screen_ui_propagation_v21 :: "world \<Rightarrow> findings" where
  "check_active_pool_screen_ui_propagation_v21 w = with_textE ''S77'' w active_pool_path (\<lambda>text.
     bindE (if \<not> has text ''ConsumerStatefulWidget'' then Inr [Finding ''S77'' ''ConsumerStatefulWidget'' []]
            else bindE (s77_plain_widget text) (\<lambda>_. Inr [])) (\<lambda>widget.
     Inr (widget @
       (if \<not> has text ''stateStream.listen'' \<and> \<not> has text ''.stateStream.listen''
        then [Finding ''S77'' ''stateStream.listen'' []]
        else if \<not> has text ''setState('' then [Finding ''S77'' ''setState('' []] else []) @
       (if \<not> has text ''VpnService.instance'' \<and> \<not> has text ''vpnServiceProvider''
        then [Finding ''S77'' ''VpnService.instance'' []] else []))))"

definition check_vpn_service_state_transition_breadcrumbs_v22 :: "world \<Rightarrow> findings" where
  "check_vpn_service_state_transition_breadcrumbs_v22 w = with_text ''S78'' w vpn_kt_path (\<lambda>text.
     let code = strip_comments_dart text;
         has_synchronized = has code ''synchronized('';
         has_state_lock = has code ''stateLock''
     in need_all ''S78'' [''startCapture: SAMPLING started'', ''stopCapture: called'', ''onRevoke:''] code @
        need ''S78'' ''synchronized(stateLock)'' (has_synchronized \<and> has_state_lock))"

text \<open>\<open>\.addRoute\(\s*\"0\.0\.0\.0\"\s*,\s*0\s*\)\<close> and \<open>\.addRoute\(\s*TUN_ADDRESS\<close>\<close>

definition default_route_re :: re where
  "default_route_re = Seq [Str (lit ''.addRoute(''), Star True Spc, Str (dq ''0.0.0.0''), Star True Spc, Str (lit '',''),
     Star True Spc, Str (lit ''0''), Star True Spc, Str (lit '')'')]"

definition bad_route_re :: re where
  "bad_route_re = Seq [Str (lit ''.addRoute(''), Star True Spc, Str (lit ''TUN_ADDRESS'')]"

definition check_vpn_service_addroute_bad_address_v23 :: "world \<Rightarrow> findings" where
  "check_vpn_service_addroute_bad_address_v23 w = with_text ''S79'' w vpn_kt_path (\<lambda>text.
     let code = strip_comments_dart text;
         has_literal = re_found default_route_re code;
         has_constant = has code ''CAPTURED_ROUTE_ADDRESS'' \<and> has code ''CAPTURED_ROUTE_PREFIX''
     in need_all ''S79'' [''.addAddress(TUN_ADDRESS''] code @
        need ''S79'' ''default route'' (has_literal \<or> has_constant) @
        forbid ''S79'' ''.addRoute(TUN_ADDRESS'' (re_found bad_route_re code))"

text \<open>\<open>protect\s*\(\s*Socket\s*\(\s*\)\<close>\<close>

definition protect_socket_re :: re where
  "protect_socket_re = Seq [Str (lit ''protect''), Star True Spc, Str (lit ''(''), Star True Spc, Str (lit ''Socket''),
     Star True Spc, Str (lit ''(''), Star True Spc, Str (lit '')'')]"

definition check_vpn_service_tun_passthrough_v24 :: "world \<Rightarrow> findings" where
  "check_vpn_service_tun_passthrough_v24 w = with_text ''S80'' w vpn_kt_path (\<lambda>text.
     let code = strip_comments_dart text;
         has_passthrough = has code ''output.write(buf'' \<or> has code ''tunOutput.write('' \<or> has code ''tun.write('';
         has_input_read = has code ''input.read(buf'' \<or> has code ''tunInput.read('' \<or> has code ''tun.read(''
     in need ''S80'' ''passthrough write'' has_passthrough @
        need ''S80'' ''input read'' has_input_read @
        forbid ''S80'' ''protect(Socket())'' (re_found protect_socket_re code))"

subsection \<open>S82: calls on the UI thread\<close>

text \<open>\<open>Handler\s*\(\s*Looper\.getMainLooper\s*\(\s*\)\s*\)\<close>,
  \<open>methodChannel\?\.invokeMethod\s*\(|ch\.invokeMethod\s*\(\<close> and \<open>mainHandler\.post\s*\{\<close>\<close>

definition main_looper_re :: re where
  "main_looper_re = Seq [Str (lit ''Handler''), Star True Spc, Str (lit ''(''), Star True Spc, Str (lit ''Looper.getMainLooper''),
     Star True Spc, Str (lit ''(''), Star True Spc, Str (lit '')''), Star True Spc, Str (lit '')'')]"

definition invoke_re :: re where
  "invoke_re = Alt (Seq [Str (lit ''methodChannel?.invokeMethod''), Star True Spc, Str (lit ''('')])
     (Seq [Str (lit ''ch.invokeMethod''), Star True Spc, Str (lit ''('')])"

definition main_post_re :: re where
  "main_post_re = Seq [Str (lit ''mainHandler.post''), Star True Spc, Str (lit ''{'')]"

definition check_vpn_service_ui_thread_push_v26 :: "world \<Rightarrow> findings" where
  "check_vpn_service_ui_thread_push_v26 w = with_text ''S82'' w vpn_kt_path (\<lambda>text.
     let code = strip_comments_dart text;
         invoke_call_count = length (re_finditer invoke_re code);
         post_count = length (re_finditer main_post_re code)
     in need_all ''S82'' [''import android.os.Handler'', ''import android.os.Looper''] code @
        need ''S82'' ''Handler(Looper.getMainLooper())'' (re_found main_looper_re code) @
        need_all ''S82'' [''mainHandler.post''] code @
        (if invoke_call_count > post_count
         then [Finding ''S82'' ''invokeMethod not wrapped'' [show_nat invoke_call_count, show_nat post_count, show_nat invoke_call_count]]
         else []))"

subsection \<open>S84: where the packet counter moves\<close>

text \<open>\<open>packetsObserved\s*\.\s*incrementAndGet\s*\(\s*\)\<close>, \<open>packetsObserved\s*\.\s*set\s*\(\<close>, that followed by
  \<open>\s*packetsObserved\s*\.\s*get\s*\(\s*\)\s*\+\s*1\<close>, and \<open>(?:private\s+)?fun\s+(\w+)\s*\(\<close>\<close>

definition increment_re :: re where
  "increment_re = Seq [Str (lit ''packetsObserved''), Star True Spc, Str (lit ''.''), Star True Spc, Str (lit ''incrementAndGet''),
     Star True Spc, Str (lit ''(''), Star True Spc, Str (lit '')'')]"

definition counter_set_re :: re where
  "counter_set_re = Seq [Str (lit ''packetsObserved''), Star True Spc, Str (lit ''.''), Star True Spc, Str (lit ''set''),
     Star True Spc, Str (lit ''('')]"

definition counter_bump_re :: re where
  "counter_bump_re = Seq [Str (lit ''packetsObserved''), Star True Spc, Str (lit ''.''), Star True Spc, Str (lit ''set''),
     Star True Spc, Str (lit ''(''), Star True Spc, Str (lit ''packetsObserved''), Star True Spc, Str (lit ''.''), Star True Spc,
     Str (lit ''get''), Star True Spc, Str (lit ''(''), Star True Spc, Str (lit '')''), Star True Spc, Str (lit ''+''),
     Star True Spc, Str (lit ''1'')]"

definition fun_header_re :: "world \<Rightarrow> re" where
  "fun_header_re w = Seq [Opt (Seq [Str (lit ''private''), Plus Spc]), Str (lit ''fun''), Plus Spc,
     Grp 1 (Plus (Cls (is_word w))), Star True Spc, Str (lit ''('')]"

text \<open>The loop over the function headers that keeps the last one before \<open>pos\<close> and stops at the first after it.\<close>

definition enclosing_fun :: "world \<Rightarrow> pystr \<Rightarrow> nat \<Rightarrow> re_match option" where
  "enclosing_fun w code pos =
     (let before = takeWhile (\<lambda>fm. m_start fm < pos) (re_finditer (fun_header_re w) code)
      in if before = [] then None else Some (last before))"

definition fun_name :: "re_match option \<Rightarrow> pystr" where
  "fun_name fm = (case fm of None \<Rightarrow> lit ''<unknown>'' | Some m \<Rightarrow> (case group 1 m of Some s \<Rightarrow> s | None \<Rightarrow> []))"

text \<open>\<open>"line " + str(line_no) + ": " + ctx\<close>, with forty characters on each side.\<close>

definition increment_loc :: "pystr \<Rightarrow> re_match \<Rightarrow> pystr" where
  "increment_loc code mm =
     (let ctx_start = m_start mm - 40; ctx_end = min (length code) (m_end mm + 40);
          ctx = map (\<lambda>c. if c = NL then 32 else c) (take (ctx_end - ctx_start) (drop ctx_start code))
      in lit ''line '' @ line_no code mm @ lit '': '' @ ctx)"

definition s84_increment :: "world \<Rightarrow> pystr \<Rightarrow> finding list" where
  "s84_increment w code =
     (case re_finditer increment_re code of
        [] \<Rightarrow> [Finding ''S84'' ''no increment'' []]
      | [m] \<Rightarrow>
          let inc_pos = m_start m; func_match = enclosing_fun w code inc_pos in
          if func_match = None \<or> fun_name func_match \<noteq> lit ''startReaderThread''
          then [Finding ''S84'' ''increment in another function'' [fun_name func_match]]
          else let window_before = take (inc_pos - (inc_pos - 600)) (drop (inc_pos - 600) code)
            in need ''S84'' ''increment before extractMetadata'' (has window_before ''extractMetadata'')
      | ms \<Rightarrow> [Finding ''S84'' ''several increments''
               [show_nat (length ms), py_join (lit '' | '') (map (increment_loc code) ms)]])"

definition s84_set :: "world \<Rightarrow> pystr \<Rightarrow> re_match \<Rightarrow> finding list" where
  "s84_set w code sm =
     (let func_name = fun_name (enclosing_fun w code (m_start sm))
      in if func_name \<notin> set (map lit [''startCapture'', ''stopCapture''])
         then [Finding ''S84'' ''set in another function'' [line_no code sm, func_name]] else [])"

definition check_vpn_service_packets_observed_increment_invariant_v27 :: "world \<Rightarrow> findings" where
  "check_vpn_service_packets_observed_increment_invariant_v27 w = with_text ''S84'' w vpn_kt_path (\<lambda>text.
     let code = strip_comments_dart text in
     s84_increment w code @
     concat (map (s84_set w code) (re_finditer counter_set_re code)) @
     forbid ''S84'' ''set(get() + 1)'' (re_found counter_bump_re code))"

end
