(* ===== verification/Session_Checks.thy ===== *)
theory Session_Checks
  imports Vpn_Checks
begin

section \<open>Session and notification checks of the audit (S86 to S94)\<close>

text \<open>
  The checks of tools/workflow-yaml-audit.py of the sprints 11.0O to 11.0V: no invented numbers in the user interface
  (S86, over the files of mobile/lib/state too), the MTU (S87), ending a session (S88, S89), private DNS (S91), the
  countdown (S92), the packet counter of the reader loop (S93) and a permission of the manifest (S94). S88 and S91 look
  at two files one after the other, each with its own guards (\<open>with_file\<close>).
\<close>

subsection \<open>Two files in one check\<close>

text \<open>The guards of \<open>with_text\<close> where the findings name the file.\<close>

definition with_file :: "string \<Rightarrow> string \<Rightarrow> world \<Rightarrow> path \<Rightarrow> (pystr \<Rightarrow> finding list) \<Rightarrow> finding list" where
  "with_file s f w p body =
     (if \<not> path_exists w p then [Finding s ''file missing'' [lit f]]
      else case try_read w p of None \<Rightarrow> [Finding s ''read failed'' [lit f]] | Some text \<Rightarrow> body text)"

subsection \<open>S86: no invented numbers\<close>

text \<open>\<open>state_dir.glob("*.dart")\<close>, in the order of the directory.\<close>

definition glob_dart :: "world \<Rightarrow> path \<Rightarrow> path list" where
  "glob_dart w p = (case lookup (repo w) p of
     Some (Dir es) \<Rightarrow> map (\<lambda>n. p @ [n]) (filter (\<lambda>n. suffix (lit ''.dart'') (lit n)) (map fst es))
   | _ \<Rightarrow> [])"

definition s86_targets :: "world \<Rightarrow> path list" where
  "s86_targets w = fold (\<lambda>rel targets. if rel \<notin> set targets then targets @ [rel] else targets)
     (glob_dart w [''mobile'', ''lib'', ''state'']) [active_pool_path, state_path ''pool_provider.dart'']"

text \<open>\<open>forbidden_call_patterns\<close> and \<open>forbidden_literal_patterns\<close>: pattern, label, reason.\<close>

type_synonym forbidden_pattern = "re \<times> pystr \<times> pystr"

definition forbidden_call_patterns :: "forbidden_pattern list" where
  "forbidden_call_patterns =
     [(Seq [Str (lit ''setInterval''), Star True Spc, Str (lit ''('')], lit ''setInterval('', lit ''browser-only ticker''),
      (Seq [Str (lit ''Future.delayed''), Star True Spc, Str (lit ''('')], lit ''Future.delayed('', lit ''mock delayed callback'')]"

definition forbidden_literal_patterns :: "forbidden_pattern list" where
  "forbidden_literal_patterns =
     [(Seq [Str (lit ''paketSayisi''), Star True Spc, Str (lit '':''), Star True Spc, Str (lit ''247'')],
       lit ''paketSayisi: 247'', lit ''Sprint 10.1A mock initial value''),
      (Seq [Str (lit ''gonulluSayisi''), Star True Spc, Str (lit '':''), Star True Spc, Str (lit ''3'')],
       lit ''gonulluSayisi: 3'', lit ''Sprint 10.1A mock initial value''),
      (Seq [Str (lit ''testEdilenler''), Star True Spc, Str (lit '':''), Star True Spc, Str (lit ''{''), Star True Spc, Str (sq ''rcs''),
         Star True Spc, Str (lit '',''), Star True Spc, Str (sq ''whatsapp''), Star True Spc, Str (lit ''}'')],
       lit ''testEdilenler: {rcs, whatsapp}'', lit ''Sprint 10.1A mock initial value'')]"

definition s86_text :: "world \<Rightarrow> pystr \<Rightarrow> pystr \<Rightarrow> finding list" where
  "s86_text w rel text =
     (let code = strip_comments_dart text in
      concat (map (\<lambda>(pat, label, why). case re_search pat code of None \<Rightarrow> []
        | Some mm \<Rightarrow> [Finding ''S86'' ''forbidden call'' [rel, label, line_no code mm, why]]) forbidden_call_patterns) @
      map (\<lambda>(m_call, cb_name). Finding ''S86'' ''mock callback'' [rel, cb_name, line_no code m_call]) (mock_timers w code) @
      concat (map (\<lambda>(pat, label, why). case re_search pat code of None \<Rightarrow> []
        | Some mm \<Rightarrow> [Finding ''S86'' ''forbidden literal'' [rel, label, why]]) forbidden_literal_patterns))"

definition s86_target :: "world \<Rightarrow> path \<Rightarrow> finding list" where
  "s86_target w p =
     (if \<not> path_exists w p then []
      else case try_read w p of None \<Rightarrow> [Finding ''S86'' ''read failed'' [show_path p]]
      | Some text \<Rightarrow> s86_text w (show_path p) text)"

definition check_dart_no_fake_ui_animation_v30 :: "world \<Rightarrow> findings" where
  "check_dart_no_fake_ui_animation_v30 w = Inr (concat (map (s86_target w) (s86_targets w)) @
     with_file ''S86'' ''active_pool_screen.dart'' w active_pool_path (\<lambda>screen_text.
       (if \<not> has screen_text ''_vpn.packetStream.listen'' \<and> \<not> has screen_text ''packetStream.listen''
        then [Finding ''S86'' ''packetStream.listen'' []] else []) @
       (if \<not> has screen_text ''_vpn.stateStream.listen'' \<and> \<not> has screen_text ''stateStream.listen''
        then [Finding ''S86'' ''stateStream.listen'' []] else [])))"

subsection \<open>S87: MTU\<close>

definition mtu_re :: "string \<Rightarrow> re" where
  "mtu_re n = Seq [Str (lit ''TUN_MTU''), Star True Spc, Str (lit ''=''), Star True Spc, Str (lit n)]"

definition check_vpn_service_mtu_and_fragment_log_v31 :: "world \<Rightarrow> findings" where
  "check_vpn_service_mtu_and_fragment_log_v31 w = with_text ''S87'' w vpn_kt_path (\<lambda>text.
     let code = strip_comments_dart text;
         has_dns = has code ''addDnsServer(PRIMARY_DNS'' \<or> has code ''addDnsServer(1.1.1.1'' \<or> has code ''addDnsServer(8.8.8.8''
     in need ''S87'' ''TUN_MTU = 1400'' (re_found (mtu_re ''1400'') code) @
        forbid ''S87'' ''TUN_MTU = 1500'' (re_found (mtu_re ''1500'') code) @
        need ''S87'' ''addDnsServer'' has_dns @
        need_all ''S87'' [''ipFragmentCount''] code @
        (if \<not> has code ''fragmentRatePct'' \<and> \<not> has code ''fragmentCount='' then [Finding ''S87'' ''fragment log'' []] else []))"

subsection \<open>S88 and S89: ending a session\<close>

text \<open>\<open>\.stop\s*\(\s*\)\s*\.\s*timeout\s*\(\<close>, \<open>if\s*\(\s*_orchestrator\.sessionId\s*==\s*null\s*\)\s*\{\s*return\<close>,
  \<open>fun\s+disconnectVpn\s*\(\<close>, \<open>\"disconnectVpn\"\s*->\s*disconnectVpn\s*\(\<close> and \<open>setState\s*\(\s*\(\s*\)\s*\{\<close>\<close>

definition stop_timeout_re :: re where
  "stop_timeout_re = Seq [Str (lit ''.stop''), Star True Spc, Str (lit ''(''), Star True Spc, Str (lit '')''), Star True Spc,
     Str (lit ''.''), Star True Spc, Str (lit ''timeout''), Star True Spc, Str (lit ''('')]"

definition null_session_re :: re where
  "null_session_re = Seq [Str (lit ''if''), Star True Spc, Str (lit ''(''), Star True Spc, Str (lit ''_orchestrator.sessionId''),
     Star True Spc, Str (lit ''==''), Star True Spc, Str (lit ''null''), Star True Spc, Str (lit '')''), Star True Spc,
     Str (lit ''{''), Star True Spc, Str (lit ''return'')]"

definition disconnect_fun_re :: re where
  "disconnect_fun_re = Seq [Str (lit ''fun''), Plus Spc, Str (lit ''disconnectVpn''), Star True Spc, Str (lit ''('')]"

definition disconnect_case_re :: re where
  "disconnect_case_re = Seq [Str (dq ''disconnectVpn''), Star True Spc, Str (lit ''->''), Star True Spc,
     Str (lit ''disconnectVpn''), Star True Spc, Str (lit ''('')]"

definition set_state_re :: re where
  "set_state_re = Seq [Str (lit ''setState''), Star True Spc, Str (lit ''(''), Star True Spc, Str (lit ''(''), Star True Spc,
     Str (lit '')''), Star True Spc, Str (lit ''{'')]"

definition s88_screen :: "pystr \<Rightarrow> finding list" where
  "s88_screen screen_text =
     need ''S88'' ''stop().timeout('' (re_found stop_timeout_re screen_text) @
     need_all ''S88'' [''TimeoutException'', ''opene2ee/permissions'', ''disconnectVpn''] screen_text @
     forbid ''S88'' ''return on a null session'' (re_found null_session_re screen_text)"

definition s88_main :: "pystr \<Rightarrow> finding list" where
  "s88_main main_text =
     need ''S88'' ''fun disconnectVpn'' (re_found disconnect_fun_re main_text) @
     need_all ''S88'' [''stopService'', ''VpnService.prepare'', ''OpenE2eeVpnService::class.java''] main_text @
     need ''S88'' ''disconnectVpn case'' (re_found disconnect_case_re main_text)"

definition check_oturumu_bitir_2level_fallback_v32 :: "world \<Rightarrow> findings" where
  "check_oturumu_bitir_2level_fallback_v32 w =
     Inr (with_file ''S88'' ''active_pool_screen.dart'' w active_pool_path s88_screen @
          with_file ''S88'' ''MainActivity.kt'' w activity_kt_path s88_main)"

definition check_oturumu_bitir_full_state_reset_v33 :: "world \<Rightarrow> findings" where
  "check_oturumu_bitir_full_state_reset_v33 w = with_text ''S89'' w active_pool_path (\<lambda>screen_text.
     need ''S89'' ''_packetSub.cancel()'' (has screen_text ''_packetSub?.cancel()'' \<or> has screen_text ''_packetSub.cancel()'') @
     need ''S89'' ''_stateSub.cancel()'' (has screen_text ''_stateSub?.cancel()'' \<or> has screen_text ''_stateSub.cancel()'') @
     need_all ''S89'' [''_toplamPaket = 0'', ''_vpnState = VpnLifecycleState.idle''] screen_text @
     need ''S89'' ''setState'' (re_found set_state_re screen_text) @
     need_all ''S89'' [''_disconnectInProgress = true'', ''_disconnectInProgress = false''] screen_text @
     need ''S89'' ''context.go(/home/gorevler)''
       (contains screen_text (lit ''context.go('' @ sq ''/home/gorevler'' @ lit '')'') \<or>
        contains screen_text (lit ''context.go('' @ dq ''/home/gorevler'' @ lit '')'')))"

subsection \<open>S91 to S94\<close>

definition check_dns_private_dns_conflict_v34 :: "world \<Rightarrow> findings" where
  "check_dns_private_dns_conflict_v34 w =
     Inr (with_file ''S91'' ''OpenE2eeVpnService.kt'' w vpn_kt_path
            (need_all ''S91'' [''isPrivateDnsActive'', ''import android.net.ConnectivityManager'', ''bindProcessToNetwork'']) @
          with_file ''S91'' ''active_pool_screen.dart'' w active_pool_path
            (need_all ''S91'' [''private_dns_active'', ''chrome://flags/#dns-httpssvc'']))"

definition check_notification_chronometer_autostop_v35 :: "world \<Rightarrow> findings" where
  "check_notification_chronometer_autostop_v35 w = with_text ''S92'' w vpn_kt_path (\<lambda>text.
     need_all ''S92'' [''COUNTDOWN_TOTAL_MS'', ''setUsesChronometer(true)'', ''setWhen('', ''scheduleCountdownAutoStop'',
       ''mainHandler.postDelayed'', ''stopCapture(graceful = true)''] text @
     (if \<not> has text ''countdownAutoStopRunnable?.let'' \<and> \<not> has text ''countdownAutoStopRunnable''
      then [Finding ''S92'' ''countdownAutoStopRunnable'' []] else []))"

text \<open>\<open>private\s+val\s+passthroughCount\s*=\s*AtomicLong\s*\(\s*0\s*\)\<close>, \<open>catch\s*\(\s*\w+\s*:\s*IOException\s*\)\<close>
  and \<open>catch\s*\(\s*t\s*:\s*Throwable\s*\)\<close>\<close>

definition passthrough_decl_re :: re where
  "passthrough_decl_re = Seq [Str (lit ''private''), Plus Spc, Str (lit ''val''), Plus Spc, Str (lit ''passthroughCount''),
     Star True Spc, Str (lit ''=''), Star True Spc, Str (lit ''AtomicLong''), Star True Spc, Str (lit ''(''), Star True Spc,
     Str (lit ''0''), Star True Spc, Str (lit '')'')]"

definition io_catch_re :: "world \<Rightarrow> re" where
  "io_catch_re w = Seq [Str (lit ''catch''), Star True Spc, Str (lit ''(''), Star True Spc, Plus (Cls (is_word w)), Star True Spc,
     Str (lit '':''), Star True Spc, Str (lit ''IOException''), Star True Spc, Str (lit '')'')]"

definition throwable_catch_re :: re where
  "throwable_catch_re = Seq [Str (lit ''catch''), Star True Spc, Str (lit ''(''), Star True Spc, Str (lit ''t''), Star True Spc,
     Str (lit '':''), Star True Spc, Str (lit ''Throwable''), Star True Spc, Str (lit '')'')]"

definition check_vpn_service_passthrough_count_invariant_v36 :: "world \<Rightarrow> findings" where
  "check_vpn_service_passthrough_count_invariant_v36 w = with_text ''S93'' w vpn_kt_path (\<lambda>text.
     need ''S93'' ''passthroughCount declaration'' (re_found passthrough_decl_re text) @
     need_all ''S93'' [''passthroughCount.set(0)'', ''pfd.fileDescriptor.valid'', ''passthroughCount.incrementAndGet''] text @
     need ''S93'' ''catch (t: Throwable)'' (re_found throwable_catch_re text) @
     need ''S93'' ''catch (e: IOException)'' (re_found (io_catch_re w) text) @
     (if \<not> has text ''passthroughCount'' \<or> \<not> has text ''passthroughGap'' then [Finding ''S93'' ''passthroughGap'' []] else []))"

definition check_manifest_change_network_state_v37 :: "world \<Rightarrow> findings" where
  "check_manifest_change_network_state_v37 w =
     with_text ''S94'' w [''mobile'', ''android'', ''app'', ''src'', ''main'', ''AndroidManifest.xml'']
       (need_all ''S94'' [''CHANGE_NETWORK_STATE''])"

end
