(* ===== verification/Tcp_Checks.thy ===== *)
theory Tcp_Checks
  imports Session_Checks
begin

section \<open>DNS fallback and TCP stack checks of the audit (S95 to S115)\<close>

text \<open>
  The checks of tools/workflow-yaml-audit.py of the sprints 11.0V to 12.0A.9, on OpenE2eeVpnService.kt,
  NettyChannelClient.kt and the app build file. S95 to S97 strip the comments with two substitutions
  (\<open>strip_comments_sub\<close>), which do not look at string literals; S98 compares two positions of the text; S99 goes
  on with an empty text where a file cannot be read; the checks from S100 on append the findings of several invariants.
\<close>

subsection \<open>S95 to S97\<close>

text \<open>\<open>/\*.*?\*/\<close> with DOTALL (the language of \<open>block_comment_re\<close>), then \<open>//[^\n]*\<close>.\<close>

definition line_comment_re :: re where
  "line_comment_re = Seq [Str (lit ''//''), Star True (NotIn [NL])]"

definition strip_comments_sub :: "pystr \<Rightarrow> pystr" where
  "strip_comments_sub text = re_sub line_comment_re [] (re_sub block_comment_re [] text)"

definition check_stop_capture_ring_clear_invariant_v38 :: "world \<Rightarrow> findings" where
  "check_stop_capture_ring_clear_invariant_v38 w = with_text ''S95'' w vpn_kt_path (\<lambda>text.
     let stripped = strip_comments_sub text;
         ring_clear_count = py_count stripped (lit ''synchronized(ringLock) { ring.clear() }'');
         packets_set_zero_count = py_count stripped (lit ''packetsObserved.set(0)'')
     in (if ring_clear_count < 2 then [Finding ''S95'' ''ring.clear()'' [show_nat ring_clear_count]] else []) @
        (if packets_set_zero_count < 3 then [Finding ''S95'' ''packetsObserved.set(0)'' [show_nat packets_set_zero_count]] else []))"

text \<open>\<open>for label, token in required_tokens.items(): if token not in stripped: ...\<close>\<close>

definition missing_tokens :: "string \<Rightarrow> (string \<times> string) list \<Rightarrow> pystr \<Rightarrow> finding list" where
  "missing_tokens s required_tokens stripped = concat (map (\<lambda>(label, token).
     if \<not> has stripped token then [Finding s ''token missing'' [lit token, lit label]] else []) required_tokens)"

definition s96_tokens :: "(string \<times> string) list" where
  "s96_tokens =
     [(''1.ENTRY'', ''DNS: checkPrivateDnsAndBindToVpn: ENTRY''),
      (''2.isPrivateDnsActive'', ''isPrivateDnsActive=''),
      (''3.requestNetwork start'', ''ConnectivityManager.requestNetwork(TRANSPORT_VPN) start''),
      (''4a.onAvailable'', ''NetworkCallback.onAvailable''),
      (''4b.onUnavailable'', ''NetworkCallback.onUnavailable''),
      (''5.bindProcessToNetwork result'', ''bindProcessToNetwork(vpn) result='')]"

definition check_check_private_dns_bind_5_logd_invariant_v39 :: "world \<Rightarrow> findings" where
  "check_check_private_dns_bind_5_logd_invariant_v39 w = with_text ''S96'' w vpn_kt_path (\<lambda>text.
     missing_tokens ''S96'' s96_tokens (strip_comments_sub text))"

definition s97_tokens :: "(string \<times> string) list" where
  "s97_tokens =
     [(''a.callbackFired flag'', ''callbackFired''),
      (''b.fallback Handler'', ''Handler(Looper.getMainLooper())''),
      (''c.postDelayed scheduling'', ''postDelayed(''),
      (''d.fallback timeout breadcrumb'', ''NetworkCallback TIMEOUT''),
      (''e.fallback bind log'', ''FALLBACK bindProcessToNetwork(activeNetwork)''),
      (''f.TRANSPORT_VPN check'', ''hasTransport(NetworkCapabilities.TRANSPORT_VPN)''),
      (''g.Magisk DenyList hint'', ''Magisk DenyList''),
      (''h.removeCallbacks in lambdas'', ''removeCallbacks(fallbackRunnable)'')]"

definition check_check_private_dns_5s_fallback_invariant_v40 :: "world \<Rightarrow> findings" where
  "check_check_private_dns_5s_fallback_invariant_v40 w = with_text ''S97'' w vpn_kt_path (\<lambda>text.
     missing_tokens ''S97'' s97_tokens (strip_comments_sub text))"

subsection \<open>S98: the call before establish\<close>

text \<open>\<open>text.find(n, start)\<close>; None for -1.\<close>

definition find_after :: "pystr \<Rightarrow> pystr \<Rightarrow> nat \<Rightarrow> nat option" where
  "find_after text n start =
     (if start > length text then None else map_option (\<lambda>i. start + i) (find_sub (drop start text) n))"

definition line_at :: "pystr \<Rightarrow> nat \<Rightarrow> nat" where
  "line_at text pos = py_count (take pos text) [NL] + 1"

definition s98_call :: pystr where "s98_call = lit ''checkPrivateDnsAndBindToVpn()'' @ [NL]"

definition s98_order :: "pystr \<Rightarrow> finding list" where
  "s98_order text =
     (case find_sub text s98_call of
        None \<Rightarrow> [Finding ''S98'' ''call site missing'' []]
      | Some call_site_pos \<Rightarrow>
          (case find_after text (lit ''builder.establish()'') call_site_pos of
             None \<Rightarrow> [Finding ''S98'' ''establish missing'' []]
           | Some establish_pos \<Rightarrow>
               if call_site_pos > establish_pos
               then [Finding ''S98'' ''call after establish''
                       [show_nat (line_at text call_site_pos), show_nat (line_at text establish_pos)]]
               else []))"

definition check_check_private_dns_call_before_establish_invariant_v41 :: "world \<Rightarrow> findings" where
  "check_check_private_dns_call_before_establish_invariant_v41 w = with_text ''S98'' w vpn_kt_path (\<lambda>text.
     need_all ''S98'' [''fallbackAttemptCount'', ''attempt 1/2'', ''lateinit var fallbackRunnable''] text @ s98_order text)"

subsection \<open>S99: the user-space stack\<close>

text \<open>A read that fails leaves a finding and the empty text; the tests follow all the same.\<close>

definition s99_file :: "string \<Rightarrow> world \<Rightarrow> path \<Rightarrow> string list \<Rightarrow> finding list" where
  "s99_file f w p needles =
     (if path_exists w p
      then (case try_read w p of
              None \<Rightarrow> Finding ''S99'' ''read failed'' [lit f] # need_all ''S99'' needles []
            | Some text \<Rightarrow> need_all ''S99'' needles text)
      else [Finding ''S99'' ''file missing'' [lit f]])"

definition check_user_space_tcp_ip_stack_invariant_v42 :: "world \<Rightarrow> findings" where
  "check_user_space_tcp_ip_stack_invariant_v42 w =
     Inr (s99_file ''build.gradle.kts'' w [''mobile'', ''android'', ''app'', ''build.gradle.kts''] [''io.netty:netty-all''] @
          s99_file ''NettyChannelClient.kt'' w netty_kt_path [''VpnService.protect('', ''class NettyChannelClient''] @
          s99_file ''OpenE2eeVpnService.kt'' w vpn_kt_path [''user-space''])"

subsection \<open>S100 to S105: TCP states and UDP sockets\<close>

definition tcp_states :: "string list" where
  "tcp_states = [''LISTEN'', ''SYN_SENT'', ''ESTABLISHED'', ''FIN_WAIT_1'', ''FIN_WAIT_2'', ''CLOSE_WAIT'', ''LAST_ACK'',
     ''TIME_WAIT'', ''CLOSED'']"

definition check_tcp_state_machine_v43 :: "world \<Rightarrow> findings" where
  "check_tcp_state_machine_v43 w = with_text ''S100-S102'' w netty_kt_path (\<lambda>netty_text.
     let code = strip_comments_dart netty_text;
         s100_findings = need_all ''S100'' [''fun handleTcpPacket('', ''data class TcpConnection''] code;
         s101_findings = need_all ''S101'' [''enum class TcpState''] code @ need_all ''S101'' tcp_states code;
         has_ack_breadcrumb = has code ''ACK, flow'' \<or> has code ''ACK ->'';
         s102_findings = need_all ''S102'' [''SYN, flow'', ''SYN+ACK received''] code @
           need ''S102'' ''ACK breadcrumb'' has_ack_breadcrumb @ need_all ''S102'' [''-> ESTABLISHED''] code
     in s100_findings @ s101_findings @ s102_findings)"

definition check_udp_forwarder_v44 :: "world \<Rightarrow> findings" where
  "check_udp_forwarder_v44 w = with_text ''S103-S105'' w netty_kt_path (\<lambda>netty_text.
     let code = strip_comments_dart netty_text;
         s103_findings = need_all ''S103'' [''fun handleUdpPacket(''] code;
         s104_findings = need_all ''S104'' [''DatagramSocket''] code;
         s105_findings = (case find_sub code (lit ''DatagramSocket'') of
             None \<Rightarrow> []
           | Some ds_idx \<Rightarrow> need ''S105'' ''protect('' (find_after code (lit ''protect('') ds_idx \<noteq> None))
     in s103_findings @ s104_findings @ s105_findings)"

subsection \<open>S106 to S111: flows\<close>

text \<open>\<open>handled_idx\<close>; None for -1.\<close>

definition handled_pos :: "pystr \<Rightarrow> nat option" where
  "handled_pos code = (case find_sub code (lit ''var handled'') of
     None \<Rightarrow> find_sub code (lit ''val handled'') | Some i \<Rightarrow> Some i)"

definition s107_findings :: "pystr \<Rightarrow> finding list" where
  "s107_findings vpn_code =
     (if \<not> has vpn_code ''var handled'' \<and> \<not> has vpn_code ''val handled'' then [Finding ''S107'' ''handled'' []] else []) @
     need_all ''S107'' [''passthrough SKIPPED''] vpn_code @
     (if has vpn_code ''output.write'' then
        (case handled_pos vpn_code of
           None \<Rightarrow> [Finding ''S107'' ''flag missing'' []]
         | Some handled_idx \<Rightarrow> need ''S107'' ''if (handled)'' (has (drop handled_idx vpn_code) ''if (handled)''))
      else [])"

definition s106_findings :: "pystr \<Rightarrow> pystr \<Rightarrow> finding list" where
  "s106_findings vpn_code netty_code =
     (let has_new_conn = has netty_code ''new TcpConnection'' \<or> has netty_code ''TcpConnection()'';
          has_state_trans = has netty_code ''-> SYN_SENT'' \<or> has netty_code ''-> ESTABLISHED''
      in need_all ''S106'' [''TCP packet ENTRY'', ''parseTcpHeader dstPort='', ''handleTcpPacket dispatch''] vpn_code @
         (if \<not> has_new_conn \<or> \<not> has_state_trans then [Finding ''S106'' ''connection log'' []] else []))"

definition check_tcp_5tuple_v45 :: "world \<Rightarrow> findings" where
  "check_tcp_5tuple_v45 w =
     (if \<not> path_exists w netty_kt_path then Inr [Finding ''S106-S108'' ''file missing'' [lit ''NettyChannelClient.kt'']]
      else if \<not> path_exists w vpn_kt_path then Inr [Finding ''S106-S108'' ''file missing'' [lit ''OpenE2eeVpnService.kt'']]
      else case (try_read w netty_kt_path, try_read w vpn_kt_path) of
        (Some netty_text, Some service_text) \<Rightarrow>
          let vpn_code = strip_comments_dart service_text; netty_code = strip_comments_dart netty_text
          in Inr (s106_findings vpn_code netty_code @ s107_findings vpn_code @
                  need_all ''S108'' [''primaryFlowKey'', ''reverseFlowKey''] netty_code)
      | _ \<Rightarrow> Inr [Finding ''S106-S108'' ''read failed'' []])"

definition check_tcp_dataflow_v46 :: "world \<Rightarrow> findings" where
  "check_tcp_dataflow_v46 w = with_text ''S109-S111'' w netty_kt_path (\<lambda>netty_text.
     let code = strip_comments_dart netty_text;
         s109_findings = need_all ''S109'' [''sendHttpRequest:'', ''recvHttpResponse:'', ''responsePayload:'',
           ''bytes read from real socket''] code;
         s110_findings = need_all ''S110'' [''tcpConnectionMap.put primary flow'', ''late ACK''] code;
         volatile_count = py_count code (lit ''@Volatile'');
         s111_findings = (if volatile_count < 8 then [Finding ''S111'' ''@Volatile'' [show_nat volatile_count]] else [])
     in s109_findings @ s110_findings @ s111_findings)"

subsection \<open>S115: teardown\<close>

definition check_teardown_comprehensive_v48 :: "world \<Rightarrow> findings" where
  "check_teardown_comprehensive_v48 w = with_text ''S115'' w netty_kt_path (\<lambda>netty_text.
     let code = strip_comments_dart netty_text
     in need_all ''S115'' [''flowMap.clear()'', ''tcpConnectionMap.clear()''] code @
        (if \<not> has code ''readerFuture'' \<or> \<not> has code ''cancel(true)'' then [Finding ''S115'' ''readerFuture cancel'' []] else []) @
        need_all ''S115'' [''udpSocketMap.clear()'', ''udpReaderFutures'', ''tunOutputStream = null'',
          ''workerGroup.shutdownGracefully()'', ''await'', ''backgroundExecutor''] code @
        (if \<not> has code ''shutdownNow()'' \<or> \<not> has code ''awaitTermination''
         then [Finding ''S115'' ''shutdownNow and awaitTermination'' []] else []))"

end
