(* ===== verification/Audit_Main.thy ===== *)
theory Audit_Main
  imports Workflow_Checks Gradle_Checks Pubspec_Checks Android_Checks Flutter_Checks Literal_Checks Tcp_Checks
begin

section \<open>The audit as a whole\<close>

text \<open>
  \<open>main\<close> of tools/workflow-yaml-audit.py: the four workflow files, then the checks one after the other, each with its
  findings appended to the report or its PASS line printed; exit code 1 when there is a finding. No exception is
  caught. A stage is a check with the name of its PASS line; the stages are listed in the order of the code.
\<close>

type_synonym stage = "string \<times> (world \<Rightarrow> findings)"

text \<open>\<open>all_findings\<close> and the PASS lines printed so far.\<close>

type_synonym report = "finding list \<times> string list"

subsection \<open>The stages\<close>

text \<open>The body of the loop over \<open>TARGETS\<close>.\<close>

definition audit_target :: "string \<Rightarrow> world \<Rightarrow> findings" where
  "audit_target fname w =
     (if \<not> path_exists w (workflow_path fname) then Inr [Finding ''workflow'' ''file missing'' [lit fname]]
      else audit_workflow w fname)"

definition target_stages :: "stage list" where
  "target_stages = map (\<lambda>fname. (fname, audit_target fname)) TARGETS"

definition build_stages :: "stage list" where
  "build_stages =
    [(''gradle'', check_gradle_wrapper_version),
     (''agp'', check_agp_version),
     (''kotlin'', check_kotlin_version),
     (''syntax'', check_app_build_gradle_syntax_v2),
     (''s6'', check_android_debug_workflow_v3),
     (''s7'', check_mobile_entry_point_v4),
     (''s8'', check_android_xml_comments_v5),
     (''s9'', check_android_manifest_v6),
     (''s10'', check_android_res_skeleton_v7),
     (''s11'', check_flutter_plugins_dependencies_v8),
     (''s12'', check_flutter_kotlin_embedding_v9),
     (''s13'', check_flutter_storage_repo_v10),
     (''s17'', check_gradle_wrapper_force_include),
     (''s18'', check_fresh_flutter_create_preserved),
     (''s19'', check_fresh_create_metadata_tracked),
     (''s20'', check_pubspec_baseline_shape)]"

definition screen_stages :: "stage list" where
  "screen_stages =
    [(''s25'', check_no_vpn_string_in_sprint10_ui),
     (''s26'', check_whatsapp_deeplink_literal_present),
     (''s27'', check_active_pool_linechart_literal_present),
     (''s28'', check_pool_provider_no_fake_animation_v29)]"

definition session_stages :: "stage list" where
  "session_stages =
    [(''s86'', check_dart_no_fake_ui_animation_v30),
     (''s87'', check_vpn_service_mtu_and_fragment_log_v31),
     (''s88'', check_oturumu_bitir_2level_fallback_v32),
     (''s89'', check_oturumu_bitir_full_state_reset_v33),
     (''s91'', check_dns_private_dns_conflict_v34),
     (''s92'', check_notification_chronometer_autostop_v35),
     (''s93'', check_vpn_service_passthrough_count_invariant_v36),
     (''s94'', check_manifest_change_network_state_v37),
     (''s95'', check_stop_capture_ring_clear_invariant_v38),
     (''s96'', check_check_private_dns_bind_5_logd_invariant_v39),
     (''s97'', check_check_private_dns_5s_fallback_invariant_v40),
     (''s98'', check_check_private_dns_call_before_establish_invariant_v41),
     (''s99'', check_user_space_tcp_ip_stack_invariant_v42)]"

definition app_stages :: "stage list" where
  "app_stages =
    [(''s29'', check_active_pool_haptic_feedback_literal_present),
     (''s33'', check_pool_provider_debug_state_fields),
     (''s34'', check_active_pool_scaffold_messenger_snackbar),
     (''s35'', check_service_api_key_from_environment),
     (''s36'', check_auth_service_exists),
     (''s37'', check_service_uses_auth_headers),
     (''s38'', check_auth_token_expiry_field),
     (''s39'', check_auth_invalidate_method),
     (''s40'', check_whatsapp_deeplink_intent_format),
     (''s41'', check_p2p_matcher_sessions_endpoint),
     (''s42'', check_android_manifest_whatsapp_queries_v12),
     (''s43'', check_main_activity_get_sampled_packets_v13),
     (''s44'', check_whatsapp_deeplink_wa_me_format_v14)]"

definition capture_stages :: "stage list" where
  "capture_stages =
    [(''s45'', check_vpn_service_on_packets_sampled_literal_v15),
     (''s46'', check_main_activity_snapshot_call_v15),
     (''s47'', check_vpn_service_packet_stream_getter_v15),
     (''s48'', check_active_pool_packet_stream_listen_v15),
     (''s49'', check_sampled_packet_class_v15),
     (''s50'', check_vpn_service_foreground_notification_text_v15),
     (''s51'', check_active_pool_no_30_call_loop_v15),
     (''s52'', check_telemetry_service_summary_upload_v15)]"

definition peer_stages :: "stage list" where
  "peer_stages =
    [(''s53'', check_pubspec_webrtc_dep_v16),
     (''s54'', check_webrtc_service_rtc_peer_connection_v16),
     (''s55'', check_webrtc_service_on_ice_candidate_v16),
     (''s56'', check_session_orchestrator_start_session_v16),
     (''s57'', check_session_orchestrator_long_poll_v16),
     (''s58'', check_backend_webrtc_long_poll_handlers_v16),
     (''s59'', check_webrtc_service_on_track_v16),
     (''s60'', check_active_pool_webrtc_status_indicator_v16)]"

definition score_stages :: "stage list" where
  "score_stages =
    [(''s61'', check_skorlar_screen_fetch_scores_v17),
     (''s62'', check_score_calculator_compute_v17),
     (''s63'', check_score_calculator_four_metrics_v17),
     (''s64'', check_score_calculator_overall_weighted_sum_v17),
     (''s65'', check_session_orchestrator_close_session_v17),
     (''s66'', check_active_pool_oturumu_bitur_button_v17),
     (''s67'', check_active_pool_close_then_navigate_v17),
     (''s68'', check_skorlar_empty_state_v17),
     (''s69'', check_skorlar_card_overall_gauge_v17),
     (''s70'', check_backend_sessions_close_handler_v17),
     (''s71'', check_backend_summary_stats_shape_v17),
     (''s72'', check_score_calculator_unit_tests_v17)]"

definition service_stages :: "stage list" where
  "service_stages =
    [(''s73'', check_main_activity_owns_vpn_channel_v18),
     (''s74'', check_vpn_service_startforeground_within_5s_v19),
     (''s75'', check_vpn_service_log_d_breadcrumbs_v20),
     (''s76'', check_vpn_service_dart_singleton_v20),
     (''s77'', check_active_pool_screen_ui_propagation_v21),
     (''s78'', check_vpn_service_state_transition_breadcrumbs_v22),
     (''s79'', check_vpn_service_addroute_bad_address_v23),
     (''s80'', check_vpn_service_tun_passthrough_v24),
     (''s82'', check_vpn_service_ui_thread_push_v26),
     (''s84'', check_vpn_service_packets_observed_increment_invariant_v27)]"

definition tcp_stages :: "stage list" where
  "tcp_stages =
    [(''s100_102'', check_tcp_state_machine_v43),
     (''s103_105'', check_udp_forwarder_v44),
     (''s106_108'', check_tcp_5tuple_v45),
     (''s109_111'', check_tcp_dataflow_v46),
     (''s115'', check_teardown_comprehensive_v48)]"

text \<open>The stages after the build files.\<close>

definition source_stages :: "stage list" where
  "source_stages = screen_stages @ session_stages @ app_stages @ capture_stages @ peer_stages @ score_stages @
     service_stages @ tcp_stages"

subsection \<open>The run\<close>

fun run_stage :: "world \<Rightarrow> stage \<Rightarrow> report \<Rightarrow> report res" where
  "run_stage w (name, c) (all_findings, passed) = bindE (c w) (\<lambda>findings.
     Inr (if findings \<noteq> [] then (all_findings @ findings, passed) else (all_findings, passed @ [name])))"

text \<open>The exit code, the findings listed and the PASS lines.\<close>

definition audit_main :: "world \<Rightarrow> (nat \<times> finding list \<times> string list) res" where
  "audit_main w =
     bindE (foldE (run_stage w) (target_stages @ build_stages @ source_stages) ([], [])) (\<lambda>(all_findings, passed).
     Inr (if all_findings \<noteq> [] then (1, all_findings, passed) else (0, all_findings, passed)))"


subsection \<open>The later checks never raise\<close>

text \<open>Every read of the checks from S25 on is guarded, and nothing else in them raises; in S77 this takes the argument that
  some piece of the split text holds the word again.\<close>

definition returns :: "'a res \<Rightarrow> bool" where
  "returns r \<longleftrightarrow> \<not> isl r"

lemma returns_Inr: "returns (Inr x)"
  by (simp add: returns_def)

lemma returns_bindE: "returns m \<Longrightarrow> (\<And>x. returns (f x)) \<Longrightarrow> returns (bindE m f)"
  by (cases m) (auto simp: returns_def)

lemma returns_if: "(P \<Longrightarrow> returns a) \<Longrightarrow> (\<not> P \<Longrightarrow> returns b) \<Longrightarrow> returns (if P then a else b)"
  by simp

lemma returns_let: "(\<And>x. returns (f x)) \<Longrightarrow> returns (let x = y in f x)"
  by simp

lemma returns_option: "returns a \<Longrightarrow> (\<And>x. returns (f x)) \<Longrightarrow> returns (case v of None \<Rightarrow> a | Some x \<Rightarrow> f x)"
  by (cases v) auto

lemma returns_pair: "(\<And>x y. returns (f x y)) \<Longrightarrow> returns (case v of (x, y) \<Rightarrow> f x y)"
  by (cases v) auto

lemma returns_bool: "returns a \<Longrightarrow> returns b \<Longrightarrow> returns (case v of True \<Rightarrow> a | False \<Rightarrow> b)"
  by (cases v) auto

lemma returns_with_textE: "(\<And>text. returns (body text)) \<Longrightarrow> returns (with_textE s w p body)"
  by (auto simp: with_textE_def returns_Inr split: option.split)

lemma returns_with_text: "returns (with_text s w p body)"
  unfolding with_textE_pure [symmetric] by (intro returns_with_textE returns_Inr)

lemmas returns_intros = returns_Inr returns_bindE returns_if returns_let returns_option returns_pair returns_bool
  returns_with_text returns_with_textE

lemmas source_check_defs =
  check_no_vpn_string_in_sprint10_ui_def check_whatsapp_deeplink_literal_present_def
  check_active_pool_linechart_literal_present_def check_pool_provider_no_fake_animation_v29_def
  check_dart_no_fake_ui_animation_v30_def check_vpn_service_mtu_and_fragment_log_v31_def
  check_oturumu_bitir_2level_fallback_v32_def check_oturumu_bitir_full_state_reset_v33_def
  check_dns_private_dns_conflict_v34_def check_notification_chronometer_autostop_v35_def
  check_vpn_service_passthrough_count_invariant_v36_def check_manifest_change_network_state_v37_def
  check_stop_capture_ring_clear_invariant_v38_def check_check_private_dns_bind_5_logd_invariant_v39_def
  check_check_private_dns_5s_fallback_invariant_v40_def
  check_check_private_dns_call_before_establish_invariant_v41_def check_user_space_tcp_ip_stack_invariant_v42_def
  check_active_pool_haptic_feedback_literal_present_def check_pool_provider_debug_state_fields_def
  check_active_pool_scaffold_messenger_snackbar_def check_service_api_key_from_environment_def
  check_auth_service_exists_def check_service_uses_auth_headers_def check_auth_token_expiry_field_def
  check_auth_invalidate_method_def check_whatsapp_deeplink_intent_format_def check_p2p_matcher_sessions_endpoint_def
  check_android_manifest_whatsapp_queries_v12_def check_main_activity_get_sampled_packets_v13_def
  check_whatsapp_deeplink_wa_me_format_v14_def check_vpn_service_on_packets_sampled_literal_v15_def
  check_main_activity_snapshot_call_v15_def check_vpn_service_packet_stream_getter_v15_def
  check_active_pool_packet_stream_listen_v15_def check_sampled_packet_class_v15_def
  check_vpn_service_foreground_notification_text_v15_def check_active_pool_no_30_call_loop_v15_def
  check_telemetry_service_summary_upload_v15_def check_pubspec_webrtc_dep_v16_def
  check_webrtc_service_rtc_peer_connection_v16_def check_webrtc_service_on_ice_candidate_v16_def
  check_session_orchestrator_start_session_v16_def check_session_orchestrator_long_poll_v16_def
  check_backend_webrtc_long_poll_handlers_v16_def check_webrtc_service_on_track_v16_def
  check_active_pool_webrtc_status_indicator_v16_def check_skorlar_screen_fetch_scores_v17_def
  check_score_calculator_compute_v17_def check_score_calculator_four_metrics_v17_def
  check_score_calculator_overall_weighted_sum_v17_def check_session_orchestrator_close_session_v17_def
  check_active_pool_oturumu_bitur_button_v17_def check_active_pool_close_then_navigate_v17_def
  check_skorlar_empty_state_v17_def check_skorlar_card_overall_gauge_v17_def
  check_backend_sessions_close_handler_v17_def check_backend_summary_stats_shape_v17_def
  check_score_calculator_unit_tests_v17_def check_main_activity_owns_vpn_channel_v18_def
  check_vpn_service_startforeground_within_5s_v19_def check_vpn_service_log_d_breadcrumbs_v20_def
  check_vpn_service_dart_singleton_v20_def check_active_pool_screen_ui_propagation_v21_def
  check_vpn_service_state_transition_breadcrumbs_v22_def check_vpn_service_addroute_bad_address_v23_def
  check_vpn_service_tun_passthrough_v24_def check_vpn_service_ui_thread_push_v26_def
  check_vpn_service_packets_observed_increment_invariant_v27_def check_tcp_state_machine_v43_def
  check_udp_forwarder_v44_def check_tcp_5tuple_v45_def check_tcp_dataflow_v46_def check_teardown_comprehensive_v48_def

lemma split_from_Nil: "split_from sep cur [] = [rev cur]"
  by (subst split_from.simps) simp

lemma contains_snoc: "n \<noteq> [] \<Longrightarrow> last n \<noteq> c \<Longrightarrow> contains (p @ [c]) n \<Longrightarrow> contains p n"
proof -
  assume ne: "n \<noteq> []" and last: "last n \<noteq> c" and "contains (p @ [c]) n"
  then obtain u v where eq: "p @ [c] = u @ n @ v" by (auto simp: contains_iff)
  with ne last have "v \<noteq> []" by (metis append_Nil2 last_append last_snoc)
  then obtain v' d where "v = v' @ [d]" by (metis rev_exhaust)
  with eq have "p = u @ n @ v'" by simp
  then show ?thesis by (auto simp: contains_iff)
qed

lemma contains_over_extends:
  assumes "contains (p @ lit ''extends '' @ q) (lit ''StatefulWidget'')"
  shows "contains p (lit ''StatefulWidget'') \<or> contains q (lit ''StatefulWidget'')"
proof -
  have "contains ((p @ [101]) @ 120 # lit ''tends'' @ 32 # q) (lit ''StatefulWidget'')"
    using assms by (simp add: lit_def)
  then have "contains (p @ [101]) (lit ''StatefulWidget'') \<or> contains (lit ''tends'' @ 32 # q) (lit ''StatefulWidget'')"
    by (subst (asm) contains_around) (simp_all add: lit_def)
  moreover have "contains (p @ [101]) (lit ''StatefulWidget'') \<Longrightarrow> contains p (lit ''StatefulWidget'')"
    by (erule contains_snoc [rotated 2]) (simp_all add: lit_def)
  moreover have "contains (lit ''tends'' @ 32 # q) (lit ''StatefulWidget'') \<longleftrightarrow> contains q (lit ''StatefulWidget'')"
    by (subst contains_around) (simp_all add: lit_def)
  ultimately show ?thesis by blast
qed

lemma split_keeps_word:
  "contains (rev cur @ s) (lit ''StatefulWidget'') \<Longrightarrow>
     \<exists>m\<in>set (split_from (lit ''extends '') cur s). contains m (lit ''StatefulWidget'')"
proof (induction "lit ''extends ''" cur s rule: split_from.induct)
  case (1 cur s)
  consider (stop) "s = []" | (sep) "s \<noteq> []" "prefix (lit ''extends '') s"
    | (go) "s \<noteq> []" "\<not> prefix (lit ''extends '') s" by blast
  then show ?case
  proof cases
    case stop
    with 1 show ?thesis by (simp add: split_from_Nil)
  next
    case sep
    from sep(2) obtain t where t: "s = lit ''extends '' @ t" by (auto simp: prefix_def)
    from contains_over_extends [of "rev cur" t] 1(3) t
    have "contains (rev cur) (lit ''StatefulWidget'') \<or> contains t (lit ''StatefulWidget'')" by simp
    with 1(1) [OF _ sep(2)] t sep show ?thesis
      by (subst split_from.simps) (auto simp: lit_def)
  next
    case go
    with 1(2) [OF _ go(2)] 1(3) show ?thesis
      by (subst split_from.simps) (auto simp: lit_def)
  qed
qed

lemma returns_s77_plain_widget: "returns (s77_plain_widget text)"
proof (cases "has text ''StatefulWidget''")
  case True
  with split_keeps_word [of "[]" "text"]
  obtain m where "m \<in> set (split_sub text (lit ''extends ''))" "has m ''StatefulWidget''"
    by (auto simp: split_sub_def)
  then have "filter (\<lambda>m. has m ''StatefulWidget'') (split_sub text (lit ''extends '')) \<noteq> []"
    by (auto simp: filter_empty_conv)
  with True show ?thesis by (auto simp: s77_plain_widget_def returns_def split: list.split)
qed (simp add: s77_plain_widget_def returns_def)

lemma source_stages_return: "list_all (\<lambda>(name, c). returns (c w)) source_stages"
  unfolding source_stages_def screen_stages_def session_stages_def app_stages_def capture_stages_def peer_stages_def
    score_stages_def service_stages_def tcp_stages_def append.simps list.pred_inject prod.case source_check_defs
  by (intro conjI returns_intros returns_s77_plain_widget list.pred_inject(1) TrueI)

subsection \<open>What the run reports\<close>

lemma run_stages_Inr:
  "foldE (run_stage w) ss (fs, ps) = Inr (fs', ps') \<longleftrightarrow>
     (\<exists>rs. list_all2 (\<lambda>(name, c) r. c w = Inr r) ss rs \<and> fs' = fs @ concat rs \<and>
           ps' = ps @ map fst (filter (\<lambda>(name, c). c w = Inr []) ss))"
proof (induction ss arbitrary: fs ps)
  case (Cons nc ss)
  obtain name c where nc: "nc = (name, c)" by (cases nc)
  show ?case
  proof (cases "c w")
    case (Inl e)
    with nc show ?thesis by (auto simp: list_all2_Cons1)
  next
    case (Inr r)
    with nc Cons.IH show ?thesis by (cases r) (auto simp: list_all2_Cons1)
  qed
qed auto

lemma run_stages_Inl: "isl (foldE (run_stage w) ss r) \<longleftrightarrow> list_ex (\<lambda>(name, c). isl (c w)) ss"
proof (induction ss arbitrary: r)
  case (Cons nc ss)
  obtain name c where "nc = (name, c)" by (cases nc)
  with Cons.IH show ?case by (cases r; cases "c w") auto
qed simp

lemma audit_main_Inr:
  "audit_main w = Inr (code, fs, ps) \<longleftrightarrow>
     foldE (run_stage w) (target_stages @ build_stages @ source_stages) ([], []) = Inr (fs, ps) \<and>
     code = (if fs = [] then 0 else 1)"
  by (auto simp: audit_main_def)

lemma audit_main_isl:
  "isl (audit_main w) \<longleftrightarrow> isl (foldE (run_stage w) (target_stages @ build_stages @ source_stages) ([], []))"
  by (cases "foldE (run_stage w) (target_stages @ build_stages @ source_stages) ([], [])") (auto simp: audit_main_def)

lemma all_silent_concat:
  "list_all2 (\<lambda>(name, c) r. c w = Inr r) ss rs \<Longrightarrow> concat rs = [] \<longleftrightarrow> list_all (\<lambda>(name, c). c w = Inr []) ss"
  by (induction ss rs rule: list_all2_induct) auto

lemma all_silent_results:
  "list_all (\<lambda>(name, c). c w = Inr []) ss \<Longrightarrow> list_all2 (\<lambda>(name, c) r. c w = Inr r) ss (map (\<lambda>_. []) ss)"
  by (induction ss) auto

text \<open>C1. The audit exits with 0 exactly when every stage is silent: every workflow file is there and passes, and every
  check returns no finding. It then prints the PASS lines of all stages, in their order, and no finding.\<close>

theorem audit_main_green_iff:
  "(\<exists>fs ps. audit_main w = Inr (0, fs, ps)) = list_all (\<lambda>(name, c). c w = Inr []) (target_stages @ build_stages @ source_stages) \<and>
   ((\<exists>fs ps. audit_main w = Inr (0, fs, ps)) =
      (audit_main w = Inr (0, [], map fst (target_stages @ build_stages @ source_stages))))"
proof -
  let ?ss = "target_stages @ build_stages @ source_stages"
  have all: "list_all (\<lambda>(name, c). c w = Inr []) ?ss" if "audit_main w = Inr (0, fs, ps)" for fs ps
    using that all_silent_concat [of w ?ss] unfolding audit_main_Inr run_stages_Inr
    by (auto split: if_splits)
  have "audit_main w = Inr (0, [], map fst ?ss)" if silent: "list_all (\<lambda>(name, c). c w = Inr []) ?ss"
  proof -
    have "filter (\<lambda>(name, c). c w = Inr []) ?ss = ?ss" using silent by (simp add: list_all_iff)
    with all_silent_results [OF silent] show ?thesis
      unfolding audit_main_Inr run_stages_Inr by (intro conjI exI [of _ "map (\<lambda>_. []) ?ss"]) auto
  qed
  with all show ?thesis by blast
qed

text \<open>C24. The audit ends in a traceback exactly when a workflow file or one of the sixteen checks of the build files
  raises; the eighty-odd checks of the sources never do, whatever the files hold.\<close>

theorem audit_main_raises_iff:
  "isl (audit_main w) \<longleftrightarrow>
     list_ex (\<lambda>fname. path_exists w (workflow_path fname) \<and> isl (audit_workflow w fname)) TARGETS \<or>
     list_ex (\<lambda>(name, c). isl (c w)) build_stages"
proof -
  have "\<not> list_ex (\<lambda>(name, c). isl (c w)) source_stages"
    using source_stages_return [of w] by (auto simp: list_all_iff list_ex_iff returns_def)
  then show ?thesis
    unfolding audit_main_isl run_stages_Inl list_ex_append target_stages_def
    by (auto simp: list_ex_iff audit_target_def split: if_splits)
qed

text \<open>C13. When the audit does not raise, it lists the findings of all stages, none lost and none out of order, and its
  exit code is 1 exactly when there is one.\<close>

theorem audit_main_reports_all:
  "\<not> isl (audit_main w) \<Longrightarrow>
     audit_main w = Inr (if list_all (\<lambda>(name, c). c w = Inr []) (target_stages @ build_stages @ source_stages) then 0 else 1,
       concat (map (\<lambda>(name, c). projr (c w)) (target_stages @ build_stages @ source_stages)),
       map fst (filter (\<lambda>(name, c). c w = Inr []) (target_stages @ build_stages @ source_stages)))"
proof -
  let ?ss = "target_stages @ build_stages @ source_stages"
  assume "\<not> isl (audit_main w)"
  then have ok: "\<forall>(name, c)\<in>set ?ss. \<not> isl (c w)"
    unfolding audit_main_isl run_stages_Inl by (auto simp: list_ex_iff)
  have rs: "list_all2 (\<lambda>(name, c) r. c w = Inr r) ?ss (map (\<lambda>(name, c). projr (c w)) ?ss)"
    unfolding list_all2_map2 by (rule list.rel_refl_strong) (use ok in \<open>auto simp del: set_append dest!: sum.collapse(2) [symmetric]\<close>)
  show ?thesis
    unfolding audit_main_Inr run_stages_Inr
    using rs all_silent_concat [OF rs] by (intro conjI exI [of _ "map (\<lambda>(name, c). projr (c w)) ?ss"]) auto
qed

text \<open>The stages on a repository without files.\<close>

definition no_files :: world where "no_files = mk_world (Dir [])"

lemma no_path [simp]: "\<not> path_exists no_files (x # p)"
  by (simp add: path_exists_def no_files_def mk_world_def)

lemma no_files_build: "\<not> list_ex (\<lambda>(name, c). isl (c no_files)) build_stages"
  by (simp add: build_stages_def check_gradle_wrapper_version_def check_agp_version_def check_kotlin_version_def
    check_app_build_gradle_syntax_v2_def check_android_debug_workflow_v3_def check_mobile_entry_point_v4_def
    check_android_xml_comments_v5_def check_android_manifest_v6_def check_android_res_skeleton_v7_def
    check_flutter_plugins_dependencies_v8_def check_flutter_kotlin_embedding_v9_def check_flutter_storage_repo_v10_def
    check_gradle_wrapper_force_include_def check_fresh_flutter_create_preserved_def check_fresh_create_metadata_tracked_def
    check_pubspec_baseline_shape_def workflow_path_def gradle_props_path_def build_gradle_path_def app_gradle_path_def
    main_dart_path_def pubspec_yaml_path_def pubspec_lock_path_def gitignore_path_def android_res_xml_path_def
    android_res_path_def manifest_path_def fpd_path_def settings_gradle_path_def missing_patterns_def
    scan_app_repositories_def Let_def)

theorem audit_main_reports_all_witness: "\<exists>fs ps. audit_main no_files = Inr (1, fs, ps)"
proof -
  have "\<not> isl (audit_main no_files)"
    using no_files_build source_stages_return [of no_files]
    unfolding audit_main_isl run_stages_Inl list_ex_append
    by (auto simp: list_ex_iff list_all_iff returns_def target_stages_def audit_target_def workflow_path_def)
  moreover have "\<not> list_all (\<lambda>(name, c). c no_files = Inr []) (target_stages @ build_stages @ source_stages)"
    by (simp add: target_stages_def TARGETS_def audit_target_def workflow_path_def)
  ultimately show ?thesis
    by (subst audit_main_reports_all) simp_all
qed
end
