(* ===== verification/Self_Test.thy ===== *)
theory Self_Test
  imports Flutter_Checks Android_Checks
begin

section \<open>The self-test's replicas of the checks (S1 to S20)\<close>

text \<open>
  tools/audit-self-test.py does not call the audit: it holds a copy of each check that takes the
  texts instead of reading files, and tests the copies on seeded violations. What the self-test says
  about the audit is worth as much as the agreement of the two. The replicas \<open>run_check\<close> and
  \<open>run_s6_check\<close> to \<open>run_s20_check\<close> are modelled here; a replica reports the strings
  \<open>"S<n> fail"\<close>. The locale \<open>faithful_replica\<close> states what a faithful copy promises, and is
  interpreted on the pairs for which it is true.
\<close>

type_synonym report = "string list"

text \<open>\<open>try: yaml.safe_load(text) except Exception\<close>: any exception is reported.\<close>

definition try_doc :: "pyval res \<Rightarrow> report \<Rightarrow> (pyval \<Rightarrow> report) \<Rightarrow> report" where
  "try_doc r failed body = (case r of Inl _ \<Rightarrow> failed | Inr doc \<Rightarrow> body doc)"

subsection \<open>The replicas\<close>

definition run_check :: "pystr \<Rightarrow> report" where
  "run_check code_text =
     (let code = strip_comments code_text;
          has_properties_import = re_search (import_re ''java.util.Properties'') code \<noteq> None;
          has_jvm_target_import = re_search (import_re ''org.jetbrains.kotlin.gradle.dsl.JvmTarget'') code \<noteq> None;
          deprecated_kotlin_options = re_search kotlin_options_re code \<noteq> None;
          new_kotlin_block = re_search compiler_options_re code \<noteq> None;
          fully_qualified = re_search (Str (lit ''java.util.Properties()'')) code \<noteq> None
      in (if \<not> has_properties_import then [''S1 fail''] else []) @
         (if \<not> has_jvm_target_import then [''S2 fail''] else []) @
         (if deprecated_kotlin_options then [''S3 fail''] else []) @
         (if \<not> new_kotlin_block then [''S4 fail''] else []) @
         (if fully_qualified then [''S5 fail''] else []))"

definition run_s6_check :: "world \<Rightarrow> pystr \<Rightarrow> report res" where
  "run_s6_check w yaml_text =
     (let d = (case yaml_load_all w yaml_text of Inr (doc # docs) \<Rightarrow> doc | _ \<Rightarrow> PNone) in
      if \<not> is_dict d then Inr [''S6 fail'']
      else bindE (py_items (dget (dict_items d) ''jobs'' (PDict []))) (\<lambda>items.
        let st = fold (s6_job w) (map snd items) s6_initial in
        Inr (case s6_match st of
               None \<Rightarrow> if s6_name_found st = [] then [''S6 fail''] else [''S6 fail'']
             | Some wd \<Rightarrow> if wd \<noteq> PStr (lit ''./mobile'') then [''S6 fail''] else [])))"

definition run_s7_check :: "world \<Rightarrow> pystr option \<Rightarrow> pystr option \<Rightarrow> report" where
  "run_s7_check w main_dart_text pubspec_text =
     (case main_dart_text of None \<Rightarrow> [''S7 fail'']
      | Some main_text \<Rightarrow>
          (if \<not> contains main_text (lit ''runApp('') then [''S7 fail''] else []) @
          (if \<not> contains main_text (lit ''ProviderScope'') then [''S7 fail''] else []) @
          (case pubspec_text of None \<Rightarrow> [''S7 fail'']
           | Some text \<Rightarrow> try_doc (yaml_load w text) [''S7 fail''] (\<lambda>pubspec_doc.
               if \<not> is_dict pubspec_doc then [''S7 fail'']
               else let deps = dict_items (dget (dict_items pubspec_doc) ''dependencies'' (PDict [])) in
                 (if \<not> has_key deps ''flutter_riverpod'' then [''S7 fail''] else []) @
                 (if \<not> has_key deps ''go_router'' then [''S7 fail''] else []))))"

definition run_s8_check :: "world \<Rightarrow> pystr option \<Rightarrow> report" where
  "run_s8_check w xml_text =
     (case xml_text of None \<Rightarrow> [''S8 fail'']
      | Some text \<Rightarrow>
          (case xml_parse w text of Inl _ \<Rightarrow> [''S8 fail'']
           | Inr _ \<Rightarrow> if \<exists>m\<in>set (re_finditer xml_comment_re text). contains (grp 1 m) (lit ''--'')
                      then [''S8 fail''] else []))"

definition run_s9_check :: "world \<Rightarrow> pystr option \<Rightarrow> pystr option \<Rightarrow> report" where
  "run_s9_check w manifest_text gradle_text =
     (case (manifest_text, gradle_text) of
        (Some manifest, Some gradle) \<Rightarrow>
          (case xml_parse w manifest of Inl _ \<Rightarrow> [''S9 fail'']
           | Inr xml_root \<Rightarrow>
               if xml_get xml_root (lit ''package'') \<noteq> None then [''S9 fail'']
               else if \<not> contains manifest xmlns_tools_pattern then [''S9 fail'']
               else if \<exists>application\<in>set (xml_iter xml_root (lit ''application'')). cleartext_conflict application
               then [''S9 fail'']
               else if \<not> contains gradle namespace_line then [''S9 fail''] else [])
      | _ \<Rightarrow> [''S9 fail''])"

definition run_s10_check :: "world \<Rightarrow> pystr option \<Rightarrow> bool \<Rightarrow> bool \<Rightarrow> report" where
  "run_s10_check w styles_text has_mipmap has_launch_bg =
     (case styles_text of None \<Rightarrow> [''S10 fail'']
      | Some text \<Rightarrow>
          (case xml_parse w text of Inl _ \<Rightarrow> [''S10 fail'']
           | Inr xml_root \<Rightarrow>
               if lit ''LaunchTheme'' \<notin> set (style_names xml_root) \<or> lit ''NormalTheme'' \<notin> set (style_names xml_root)
               then [''S10 fail'']
               else if \<not> has_mipmap then [''S10 fail'']
               else if \<not> has_launch_bg then [''S10 fail''] else []))"

definition run_s11_check :: "world \<Rightarrow> pystr option \<Rightarrow> report" where
  "run_s11_check w fpd_text =
     (case fpd_text of None \<Rightarrow> [''S11 fail'']
      | Some text \<Rightarrow> try_doc (json_load w text) [''S11 fail''] (\<lambda>fpd_doc.
          if \<not> is_dict fpd_doc then [''S11 fail'']
          else let plugins = dget (dict_items fpd_doc) ''plugins'' PNone in
            if \<not> is_dict plugins then [''S11 fail'']
            else (case dget (dict_items plugins) ''android'' PNone of
              PList android_plugins \<Rightarrow>
                if length android_plugins = 0 then [''S11 fail'']
                else concat (map (\<lambda>entry.
                  if \<not> is_dict entry then [''S11 fail'']
                  else let name = dget (dict_items entry) ''name'' PNone in
                    (if \<not> is_str name \<or> \<not> truthy name then [''S11 fail''] else []) @
                    (if \<not> is_bool (dget (dict_items entry) ''native_build'' PNone) then [''S11 fail''] else []))
                  android_plugins)
            | _ \<Rightarrow> [''S11 fail''])))"

text \<open>\<open>io\.flutter:flutter_embedding_ktx:1\.0\.0-([0-9a-f]{40})\<close>: here the dots are escaped.\<close>

definition replica_version_re :: re where
  "replica_version_re = Seq [Str (embedding_substr @ lit '':1.0.0-''), Grp 1 (Rep 40 (Cls is_hex))]"

definition run_s12_check :: "pystr option \<Rightarrow> pystr option \<Rightarrow> report" where
  "run_s12_check app_gradle_text engine_version =
     (case app_gradle_text of None \<Rightarrow> [''S12 fail'']
      | Some text \<Rightarrow>
          (case re_search (block_re ''dependencies'') text of None \<Rightarrow> [''S12 fail'']
           | Some dep_match \<Rightarrow>
               (case block_from text (m_end dep_match) of Inl depth \<Rightarrow> [''S12 fail'']
                | Inr block_text \<Rightarrow>
                    if \<not> contains block_text embedding_substr then [''S12 fail'']
                    else (case re_search replica_version_re block_text of None \<Rightarrow> [''S12 fail'']
                      | Some version_match \<Rightarrow>
                          (case engine_version of None \<Rightarrow> [''S12 fail'']
                           | Some v \<Rightarrow>
                               if re_match_at_start hex40_re v = None then [''S12 fail'']
                               else if grp 1 version_match \<noteq> v then [''S12 fail''] else [])))))"

definition url_block :: "pystr \<Rightarrow> re_match \<Rightarrow> bool" where
  "url_block text m \<longleftrightarrow> (case block_from text (m_end m) of
     Inl depth \<Rightarrow> False | Inr block_text \<Rightarrow> contains block_text FLUTTER_STORAGE_URL)"

definition run_s13_check :: "pystr option \<Rightarrow> pystr option \<Rightarrow> report" where
  "run_s13_check settings_gradle_text app_gradle_text =
     (case settings_gradle_text of None \<Rightarrow> [''S13 fail'']
      | Some settings \<Rightarrow>
          if (case re_search (block_re ''dependencyResolutionManagement'') settings of
                None \<Rightarrow> False | Some drm_match \<Rightarrow> url_block settings drm_match)
          then []
          else if (case app_gradle_text of None \<Rightarrow> False
                   | Some app \<Rightarrow> \<exists>m\<in>set (re_finditer repositories_re app). url_block app m)
          then []
          else [''S13 fail''])"

definition run_s17_check :: "pystr \<Rightarrow> bool \<Rightarrow> bool \<Rightarrow> bool \<Rightarrow> report" where
  "run_s17_check gitignore_text gradlew_tracked gradlew_bat_tracked gradle_wrapper_jar_tracked =
     (if \<not> (gradlew_tracked \<and> gradlew_bat_tracked \<and> gradle_wrapper_jar_tracked) then [''S17 fail'']
      else if \<not> list_all (\<lambda>p. contains gitignore_text (lit p)) GRADLE_WRAPPER_RE_INCLUDE_PATTERNS then [''S17 fail'']
      else [])"

definition run_s18_check :: "world \<Rightarrow> pystr \<Rightarrow> pystr option \<Rightarrow> report" where
  "run_s18_check w gitignore_text pubspec_lock_text =
     (case pubspec_lock_text of None \<Rightarrow> [''S18 fail'']
      | Some text \<Rightarrow> try_doc (yaml_load w text) [''S18 fail''] (\<lambda>doc.
          if \<not> is_dict doc then [''S18 fail'']
          else let packages = dget (dict_items doc) ''packages'' PNone in
          if \<not> is_dict packages then [''S18 fail'']
          else let flutter_pkg = dget (dict_items packages) ''flutter'' PNone in
          if \<not> is_dict flutter_pkg \<or> dget (dict_items flutter_pkg) ''source'' PNone \<noteq> PStr (lit ''sdk'')
          then [''S18 fail'']
          else if \<not> list_all (\<lambda>p. contains gitignore_text (lit p)) MOBILE_FLUTTER_EXCLUDE_PATTERNS
          then [''S18 fail''] else []))"

definition run_s19_check :: "bool \<Rightarrow> bool \<Rightarrow> report" where
  "run_s19_check metadata_tracked android_gitignore_tracked =
     (if \<not> (metadata_tracked \<and> android_gitignore_tracked) then [''S19 fail''] else [])"

text \<open>\<open>not isinstance(deps, dict) or not isinstance(deps.get(d), dict) or deps[d].get("sdk") != "flutter"\<close>\<close>

definition bad_sdk_dep :: "pyval \<Rightarrow> string \<Rightarrow> bool" where
  "bad_sdk_dep deps d \<longleftrightarrow> \<not> is_dict deps \<or> \<not> is_dict (dget (dict_items deps) d PNone) \<or>
     dget (dict_items (dget (dict_items deps) d PNone)) ''sdk'' PNone \<noteq> PStr (lit ''flutter'')"

definition run_s20_check :: "world \<Rightarrow> pystr option \<Rightarrow> report" where
  "run_s20_check w pubspec_text =
     (case pubspec_text of None \<Rightarrow> [''S20 fail'']
      | Some text \<Rightarrow> try_doc (yaml_load w text) [''S20 fail''] (\<lambda>doc.
          if \<not> is_dict doc then [''S20 fail'']
          else let kvs = dict_items doc; env = dget kvs ''environment'' PNone in
          if \<not> is_str (dget kvs ''name'' PNone) \<or> \<not> truthy (dget kvs ''name'' PNone) then [''S20 fail'']
          else if \<not> is_dict env \<or> \<not> is_str (dget (dict_items env) ''sdk'' PNone) \<or> \<not> truthy (dget (dict_items env) ''sdk'' PNone)
          then [''S20 fail'']
          else if bad_sdk_dep (dget kvs ''dependencies'' PNone) ''flutter'' then [''S20 fail'']
          else if bad_sdk_dep (dget kvs ''dev_dependencies'' PNone) ''flutter_test'' then [''S20 fail'']
          else []))"

subsection \<open>What a faithful replica promises\<close>

definition replica_tags :: "finding list \<Rightarrow> report" where
  "replica_tags fs = map (\<lambda>f. fail (finding.check f)) fs"

lemma replica_tags_simps [simp]:
  "replica_tags [] = []"
  "replica_tags (f # fs) = fail (finding.check f) # replica_tags fs"
  "replica_tags (xs @ ys) = replica_tags xs @ replica_tags ys"
  "replica_tags (if b then xs else ys) = (if b then replica_tags xs else replica_tags ys)"
  "replica_tags fs = [] \<longleftrightarrow> fs = []"
  by (simp_all add: replica_tags_def)

lemma length_replica_tags [simp]: "length (replica_tags fs) = length fs"
  by (simp add: replica_tags_def)

text \<open>Two grades: a \<open>verdict_replica\<close> agrees with the check on passing and failing, and a
  \<open>faithful_replica\<close> reports finding for finding what the check reports. \<open>dom\<close> holds the worlds the
  replica is meant for.\<close>

locale verdict_replica =
  fixes chk :: "world \<Rightarrow> findings" and run :: "world \<Rightarrow> report" and dom :: "world \<Rightarrow> bool"
  assumes total: "dom w \<Longrightarrow> \<exists>fs. chk w = Inr fs"
    and agree: "dom w \<Longrightarrow> chk w = Inr fs \<Longrightarrow> fs = [] \<longleftrightarrow> run w = []"
begin

lemma verdict: "dom w \<Longrightarrow> chk w = Inr [] \<longleftrightarrow> run w = []"
  using total agree by blast

lemma detects: "dom w \<Longrightarrow> run w \<noteq> [] \<Longrightarrow> \<exists>f fs. chk w = Inr (f # fs)"
  using total [of w] agree [of w] by (metis neq_Nil_conv)

end

locale faithful_replica =
  fixes chk :: "world \<Rightarrow> findings" and run :: "world \<Rightarrow> report" and dom :: "world \<Rightarrow> bool"
  assumes same: "dom w \<Longrightarrow> \<exists>fs. chk w = Inr fs \<and> run w = replica_tags fs"
begin

lemma reports: "dom w \<Longrightarrow> chk w = Inr fs \<Longrightarrow> run w = replica_tags fs"
  using same by fastforce

lemma same_number: "dom w \<Longrightarrow> chk w = Inr fs \<Longrightarrow> length (run w) = length fs"
  using reports by simp

end

sublocale faithful_replica \<subseteq> verdict_replica
proof
  show "\<exists>fs. chk w = Inr fs" if "dom w" for w using same [OF that] by blast
  show "fs = [] \<longleftrightarrow> run w = []" if "dom w" "chk w = Inr fs" for w fs
    using reports [OF that] by simp
qed

subsection \<open>The faithful replicas\<close>

text \<open>The parsers raise nothing but their own exception.\<close>

definition only_raises :: "(pystr \<Rightarrow> 'a res) \<Rightarrow> exn \<Rightarrow> bool" where
  "only_raises f e \<longleftrightarrow> (\<forall>t e'. f t = Inl e' \<longrightarrow> e' = e)"

lemma only_raises_cases:
  assumes "only_raises f e" obtains (raises) "f t = Inl e" | (returns) v where "f t = Inr v"
  using assms by (cases "f t") (auto simp: only_raises_def)

lemma text_of_has_text: "has_text w p t \<Longrightarrow> text_of w p = Some t"
  by (simp add: has_text_def text_of_def)

interpretation s1_s5: faithful_replica check_app_build_gradle_syntax_v2
  "\<lambda>w. run_check (the (text_of w app_gradle_path))" "\<lambda>w. \<exists>t. has_text w app_gradle_path t"
proof
  fix w assume "\<exists>t. has_text w app_gradle_path t"
  then obtain t where t: "has_text w app_gradle_path t" by blast
  show "\<exists>fs. check_app_build_gradle_syntax_v2 w = Inr fs \<and>
      run_check (the (text_of w app_gradle_path)) = replica_tags fs"
    using has_text_exists [OF t] has_text_read [OF t] text_of_has_text [OF t]
    by (simp add: check_app_build_gradle_syntax_v2_def run_check_def  fail_def Let_def)
qed

interpretation s7: faithful_replica check_mobile_entry_point_v4
  "\<lambda>w. run_s7_check w (text_of w main_dart_path) (text_of w pubspec_yaml_path)"
  "\<lambda>w. readable w main_dart_path \<and> readable w pubspec_yaml_path \<and> only_raises (yaml_load w) YAMLError"
proof
  fix w assume dom: "readable w main_dart_path \<and> readable w pubspec_yaml_path \<and> only_raises (yaml_load w) YAMLError"
  let ?goal = "\<exists>fs. check_mobile_entry_point_v4 w = Inr fs \<and>
      run_s7_check w (text_of w main_dart_path) (text_of w pubspec_yaml_path) = replica_tags fs"
  have deps: "replica_tags (s7_deps doc) =
      (if \<not> is_dict doc then [''S7 fail'']
       else let deps = dict_items (dget (dict_items doc) ''dependencies'' (PDict [])) in
         (if \<not> has_key deps ''flutter_riverpod'' then [''S7 fail''] else []) @
         (if \<not> has_key deps ''go_router'' then [''S7 fail''] else []))" for doc
    by (simp add: s7_deps_def fail_def Let_def)
  from dom have r1: "readable w main_dart_path" and r2: "readable w pubspec_yaml_path"
    and o: "only_raises (yaml_load w) YAMLError" by blast+
  from r1 show ?goal
  proof (cases rule: readable_cases)
    case absent
    then show ?thesis by (simp add: check_mobile_entry_point_v4_def run_s7_check_def fail_def)
  next
    case main: (present main)
    from r2 show ?thesis
    proof (cases rule: readable_cases)
      case absent
      with main show ?thesis
        by (simp add: check_mobile_entry_point_v4_def run_s7_check_def fail_def s7_main_def)
    next
      case (present t)
      with main show ?thesis
        by (cases rule: only_raises_cases [OF o, of t])
           (simp_all add: check_mobile_entry_point_v4_def run_s7_check_def  with_yaml_def try_doc_def
             deps s7_main_def fail_def Let_def)
    qed
  qed
qed

interpretation s11: faithful_replica check_flutter_plugins_dependencies_v8
  "\<lambda>w. run_s11_check w (text_of w fpd_path)"
  "\<lambda>w. readable w fpd_path \<and> only_raises (json_load w) JSONDecodeError"
proof
  fix w assume dom: "readable w fpd_path \<and> only_raises (json_load w) JSONDecodeError"
  let ?goal = "\<exists>fs. check_flutter_plugins_dependencies_v8 w = Inr fs \<and>
      run_s11_check w (text_of w fpd_path) = replica_tags fs"
  have entry: "replica_tags (plugin_entry_findings i entry) =
      (if \<not> is_dict entry then [''S11 fail'']
       else let name = dget (dict_items entry) ''name'' PNone in
         (if \<not> is_str name \<or> \<not> truthy name then [''S11 fail''] else []) @
         (if \<not> is_bool (dget (dict_items entry) ''native_build'' PNone) then [''S11 fail''] else []))" for i entry
    by (simp add: plugin_entry_findings_def fail_def Let_def)
  have loop: "replica_tags (concat (map (\<lambda>(i, e). plugin_entry_findings i e) (zip is es))) =
      concat (map (\<lambda>entry. if \<not> is_dict entry then [''S11 fail'']
       else let name = dget (dict_items entry) ''name'' PNone in
         (if \<not> is_str name \<or> \<not> truthy name then [''S11 fail''] else []) @
         (if \<not> is_bool (dget (dict_items entry) ''native_build'' PNone) then [''S11 fail''] else [])) es)"
    if "length is = length es" for "is" es
    using that by (induction "is" es rule: list_induct2) (simp_all only: zip_Cons_Cons list.map concat.simps replica_tags_simps prod.case entry, simp)
  from dom have r: "readable w fpd_path" and o: "only_raises (json_load w) JSONDecodeError" by blast+
  from r show ?goal
  proof (cases rule: readable_cases)
    case absent
    then show ?thesis
      by (simp add: check_flutter_plugins_dependencies_v8_def run_s11_check_def  fail_def)
  next
    case (present t)
    with loop show ?thesis
      by (cases rule: only_raises_cases [OF o, of t])
         (auto simp: check_flutter_plugins_dependencies_v8_def run_s11_check_def  try_doc_def fail_def
           Let_def split: pyval.split)
  qed
qed

interpretation s19: faithful_replica check_fresh_create_metadata_tracked
  "\<lambda>w. run_s19_check (git_tracked w ''mobile/.metadata'') (git_tracked w ''mobile/android/.gitignore'')" "\<lambda>w. True"
  by unfold_locales (simp add: check_fresh_create_metadata_tracked_def run_s19_check_def fail_def)

interpretation s20: faithful_replica check_pubspec_baseline_shape
  "\<lambda>w. run_s20_check w (text_of w pubspec_yaml_path)"
  "\<lambda>w. readable w pubspec_yaml_path \<and> only_raises (yaml_load w) YAMLError"
proof
  fix w assume dom: "readable w pubspec_yaml_path \<and> only_raises (yaml_load w) YAMLError"
  let ?goal = "\<exists>fs. check_pubspec_baseline_shape w = Inr fs \<and>
      run_s20_check w (text_of w pubspec_yaml_path) = replica_tags fs"
  have dep: "dep_sdk kvs sec d \<noteq> PStr (lit ''flutter'') \<longleftrightarrow> bad_sdk_dep (dget kvs sec PNone) d" for kvs sec d
    by (simp add: dep_sdk_def bad_sdk_dep_def Let_def)
  have missing: "s20_missing w kvs = [] \<longleftrightarrow>
      nonempty_str (dget kvs ''name'' PNone) \<and>
      (let env = dget kvs ''environment'' PNone in is_dict env \<and> nonempty_str (dget (dict_items env) ''sdk'' PNone)) \<and>
      \<not> bad_sdk_dep (dget kvs ''dependencies'' PNone) ''flutter'' \<and>
      \<not> bad_sdk_dep (dget kvs ''dev_dependencies'' PNone) ''flutter_test''" for kvs
    by (auto simp: s20_missing_def dep [symmetric] Let_def)
  from dom have r: "readable w pubspec_yaml_path" and o: "only_raises (yaml_load w) YAMLError" by blast+
  from r show ?goal
  proof (cases rule: readable_cases)
    case absent
    then show ?thesis by (simp add: check_pubspec_baseline_shape_def run_s20_check_def fail_def)
  next
    case (present t)
    then show ?thesis
      by (cases rule: only_raises_cases [OF o, of t])
         (simp_all add: check_pubspec_baseline_shape_def run_s20_check_def with_yaml_def try_doc_def fail_def
           missing nonempty_str_def Let_def)
  qed
qed

text \<open>S6, on a single document in which every job's \<open>steps\<close> is a list.\<close>

definition s6_domain :: "world \<Rightarrow> bool" where
  "s6_domain w \<longleftrightarrow> (\<exists>t d jobs. has_text w (workflow_path ''android-debug.yml'') t \<and>
     yaml_load_all w t = Inr [PDict d] \<and> dget d ''jobs'' (PDict []) = PDict jobs \<and>
     (\<forall>job\<in>set jobs. \<forall>kvs. snd job = PDict kvs \<longrightarrow> is_list (dget kvs ''steps'' (PList []))))"

definition run_s6 :: "world \<Rightarrow> report" where
  "run_s6 w = (case run_s6_check w (the (text_of w (workflow_path ''android-debug.yml''))) of Inr r \<Rightarrow> r | Inl e \<Rightarrow> [])"

lemma s6_observe_total:
  "\<forall>j\<in>set js. \<forall>kvs. j = PDict kvs \<longrightarrow> is_list (dget kvs ''steps'' (PList [])) \<Longrightarrow> \<exists>v. foldE (s6_observe w) js wd = Inr v"
proof (induction js arbitrary: wd)
  case (Cons j js)
  have "\<exists>v. s6_observe w j wd = Inr v"
  proof (cases "is_dict j")
    case True
    with Cons.prems obtain kvs xs where "j = PDict kvs" "dget kvs ''steps'' (PList []) = PList xs"
      by (auto simp: is_dict_iff is_list_iff)
    then show ?thesis by (simp add: s6_observe_def)
  qed (simp add: s6_observe_def)
  with Cons show ?case by auto
qed simp

interpretation s6: faithful_replica check_android_debug_workflow_v3 run_s6 s6_domain
proof
  fix w assume "s6_domain w"
  then obtain t d jobs where t: "has_text w (workflow_path ''android-debug.yml'') t"
    and d: "yaml_load_all w t = Inr [PDict d]" and jobs: "dget d ''jobs'' (PDict []) = PDict jobs"
    and lists: "\<forall>j\<in>set (map snd jobs). \<forall>kvs. j = PDict kvs \<longrightarrow> is_list (dget kvs ''steps'' (PList []))"
    by (auto simp: s6_domain_def)
  obtain v where v: "foldE (s6_observe w) (map snd jobs) (lit ''absent'') = Inr v"
    using s6_observe_total [OF lists] by blast
  show "\<exists>fs. check_android_debug_workflow_v3 w = Inr fs \<and> run_s6 w = replica_tags fs"
    using has_text_exists [OF t] has_text_read [OF t] text_of_has_text [OF t] d jobs v
    by (auto simp: check_android_debug_workflow_v3_def run_s6_def run_s6_check_def load_docs_def dget_def [symmetric]
        fail_def Let_def split: option.split)
qed

text \<open>S8 takes one text; the check goes over a directory, here with one XML file.\<close>

interpretation s8: faithful_replica check_android_xml_comments_v5
  "\<lambda>w. run_s8_check w (text_of w (android_res_xml_path @ [hd (glob_xml w android_res_xml_path)]))"
  "\<lambda>w. \<exists>x t. glob_xml w android_res_xml_path = [x] \<and> has_text w (android_res_xml_path @ [x]) t \<and>
     only_raises (xml_parse w) ParseError"
proof
  fix w assume "\<exists>x t. glob_xml w android_res_xml_path = [x] \<and> has_text w (android_res_xml_path @ [x]) t \<and>
     only_raises (xml_parse w) ParseError"
  then obtain x t where x: "glob_xml w android_res_xml_path = [x]" and t: "has_text w (android_res_xml_path @ [x]) t"
    and o: "only_raises (xml_parse w) ParseError" by blast
  have dir: "path_exists w android_res_xml_path"
    using x by (auto simp: glob_xml_def path_exists_def split: option.splits)
  have found: "replica_tags (xml_comment_findings x t) =
      (if \<exists>m\<in>set (re_finditer xml_comment_re t). contains (grp 1 m) (lit ''--'') then [''S8 fail''] else [])"
    by (auto simp: xml_comment_findings_def fail_def find_None_iff find_Some_iff split: option.split)
  show "\<exists>fs. check_android_xml_comments_v5 w = Inr fs \<and>
      run_s8_check w (text_of w (android_res_xml_path @ [hd (glob_xml w android_res_xml_path)])) = replica_tags fs"
    using x dir has_text_read [OF t] text_of_has_text [OF t] found
    by (cases rule: only_raises_cases [OF o, of t])
       (simp_all add: check_android_xml_comments_v5_def check_xml_file_def run_s8_check_def fail_def)
qed

subsection \<open>The replicas that agree on the verdict only\<close>

interpretation s9: verdict_replica check_android_manifest_v6
  "\<lambda>w. run_s9_check w (text_of w manifest_path) (text_of w app_gradle_path)"
  "\<lambda>w. readable w manifest_path \<and> readable w app_gradle_path \<and> only_raises (xml_parse w) ParseError \<and>
     (\<forall>t. has_text w manifest_path t \<longrightarrow> et_parse w manifest_path = xml_parse w t)"
proof
  fix w
  assume dom: "readable w manifest_path \<and> readable w app_gradle_path \<and> only_raises (xml_parse w) ParseError \<and>
     (\<forall>t. has_text w manifest_path t \<longrightarrow> et_parse w manifest_path = xml_parse w t)"
  then have r1: "readable w manifest_path" and r2: "readable w app_gradle_path"
    and o: "only_raises (xml_parse w) ParseError"
    and et: "has_text w manifest_path t \<Longrightarrow> et_parse w manifest_path = xml_parse w t" for t by blast+
  have clean: "manifest_findings e t = [] \<longleftrightarrow> xml_get e (lit ''package'') = None \<and> contains t xmlns_tools_pattern \<and>
      \<not> (\<exists>a\<in>set (xml_iter e (lit ''application'')). cleartext_conflict a)" for e t
    by (auto simp: manifest_findings_def split: option.splits)
  have both: "\<exists>fs. check_android_manifest_v6 w = Inr fs \<and>
      (fs = [] \<longleftrightarrow> run_s9_check w (text_of w manifest_path) (text_of w app_gradle_path) = [])"
    using r1
  proof (cases rule: readable_cases)
    case absent
    then show ?thesis by (simp add: check_android_manifest_v6_def run_s9_check_def)
  next
    case m: (present t)
    from r2 show ?thesis
    proof (cases rule: readable_cases)
      case absent
      with m show ?thesis
        by (cases rule: only_raises_cases [OF o, of t])
           (simp_all add: check_android_manifest_v6_def run_s9_check_def et [OF m(1)] Let_def)
    next
      case (present g)
      with m show ?thesis
        by (cases rule: only_raises_cases [OF o, of t])
           (auto simp: check_android_manifest_v6_def run_s9_check_def et [OF m(1)] clean Let_def)
    qed
  qed
  show "\<exists>fs. check_android_manifest_v6 w = Inr fs" using both by blast
  show "fs = [] \<longleftrightarrow> run_s9_check w (text_of w manifest_path) (text_of w app_gradle_path) = []"
    if "check_android_manifest_v6 w = Inr fs" for fs using both that by auto
qed

lemma lookup_above: "lookup n p = None \<Longrightarrow> lookup n (p @ q) = None"
proof (induction p arbitrary: n)
  case (Cons d p)
  then show ?case by (cases n) (simp_all split: option.splits)
qed simp

lemma path_exists_above: "path_exists w (p @ q) \<Longrightarrow> path_exists w p"
  unfolding path_exists_def using lookup_above by metis

definition mipmap_present :: "world \<Rightarrow> bool" where
  "mipmap_present w \<longleftrightarrow> find_mipmap w mipmap_dirs = Inr True"

interpretation s10: verdict_replica check_android_res_skeleton_v7
  "\<lambda>w. run_s10_check w (text_of w styles_path) (mipmap_present w) (path_exists w launch_bg_path)"
  "\<lambda>w. readable w styles_path \<and> only_raises (xml_parse w) ParseError \<and>
     (\<forall>t. has_text w styles_path t \<longrightarrow> et_parse w styles_path = xml_parse w t) \<and> (\<exists>b. find_mipmap w mipmap_dirs = Inr b)"
proof
  fix w
  assume "readable w styles_path \<and> only_raises (xml_parse w) ParseError \<and>
     (\<forall>t. has_text w styles_path t \<longrightarrow> et_parse w styles_path = xml_parse w t) \<and> (\<exists>b. find_mipmap w mipmap_dirs = Inr b)"
  then obtain b where r: "readable w styles_path"
    and o: "only_raises (xml_parse w) ParseError" and b: "find_mipmap w mipmap_dirs = Inr b"
    and et: "has_text w styles_path t \<Longrightarrow> et_parse w styles_path = xml_parse w t" for t by blast
  have both: "\<exists>fs. check_android_res_skeleton_v7 w = Inr fs \<and>
      (fs = [] \<longleftrightarrow> run_s10_check w (text_of w styles_path) (mipmap_present w) (path_exists w launch_bg_path) = [])"
    using r
  proof (cases rule: readable_cases)
    case absent
    with b show ?thesis
      by (cases "path_exists w android_res_path")
        (simp_all add: check_android_res_skeleton_v7_def styles_findings_def run_s10_check_def)
  next
    case (present t)
    then have "path_exists w android_res_path" unfolding styles_path_def by (metis path_exists_above)
    with present b show ?thesis
      by (cases rule: only_raises_cases [OF o, of t])
         (simp_all add: check_android_res_skeleton_v7_def styles_findings_def run_s10_check_def et [OF present(1)]
           mipmap_present_def)
  qed
  show "\<exists>fs. check_android_res_skeleton_v7 w = Inr fs" using both by blast
  show "fs = [] \<longleftrightarrow> run_s10_check w (text_of w styles_path) (mipmap_present w) (path_exists w launch_bg_path) = []"
    if "check_android_res_skeleton_v7 w = Inr fs" for fs using both that by auto
qed

lemma missing_patterns_Nil:
  "has_text w gitignore_path g \<Longrightarrow> \<exists>ms. missing_patterns w ps = Inr ms \<and> (ms = [] \<longleftrightarrow> list_all (\<lambda>p. contains g (lit p)) ps)"
  by (simp add: missing_patterns_def has_text_exists has_text_read filter_empty_conv list_all_iff)

text \<open>S17: a wrapper file counts for the replica when it is tracked and on disk. S18: the replica gets no text when the lockfile is not
  tracked, which is how its comment says that it is told.\<close>

definition wrapper_kept :: "world \<Rightarrow> nat \<Rightarrow> bool" where
  "wrapper_kept w i \<longleftrightarrow> (case wrapper_files ! i of (rel, p) \<Rightarrow> git_tracked w rel \<and> path_exists w p)"

interpretation s17: verdict_replica check_gradle_wrapper_force_include
  "\<lambda>w. run_s17_check (the (text_of w gitignore_path)) (wrapper_kept w 0) (wrapper_kept w 1) (wrapper_kept w 2)"
  "\<lambda>w. \<exists>g. has_text w gitignore_path g"
proof
  fix w assume "\<exists>g. has_text w gitignore_path g"
  then obtain g where g: "has_text w gitignore_path g" by blast
  obtain ms where ms: "missing_patterns w GRADLE_WRAPPER_RE_INCLUDE_PATTERNS = Inr ms"
    "ms = [] \<longleftrightarrow> list_all (\<lambda>p. contains g (lit p)) GRADLE_WRAPPER_RE_INCLUDE_PATTERNS"
    using missing_patterns_Nil [OF g] by blast
  have un: "untracked_files w wrapper_files = [] \<longleftrightarrow> wrapper_kept w 0 \<and> wrapper_kept w 1 \<and> wrapper_kept w 2"
    by (auto simp: untracked_files_def wrapper_files_def wrapper_kept_def)
  show "\<exists>fs. check_gradle_wrapper_force_include w = Inr fs"
    by (simp add: check_gradle_wrapper_force_include_def ms(1) Let_def)
  show "fs = [] \<longleftrightarrow> run_s17_check (the (text_of w gitignore_path)) (wrapper_kept w 0) (wrapper_kept w 1) (wrapper_kept w 2) = []"
    if "check_gradle_wrapper_force_include w = Inr fs" for fs
    using that by (auto simp: check_gradle_wrapper_force_include_def run_s17_check_def ms text_of_has_text [OF g] un Let_def)
qed

definition tracked_lock :: "world \<Rightarrow> pystr option" where
  "tracked_lock w = (if git_tracked w ''mobile/pubspec.lock'' then text_of w pubspec_lock_path else None)"

interpretation s18: verdict_replica check_fresh_flutter_create_preserved
  "\<lambda>w. run_s18_check w (the (text_of w gitignore_path)) (tracked_lock w)"
  "\<lambda>w. (\<exists>g. has_text w gitignore_path g) \<and> readable w pubspec_lock_path \<and> only_raises (yaml_load w) YAMLError"
proof
  fix w assume "(\<exists>g. has_text w gitignore_path g) \<and> readable w pubspec_lock_path \<and> only_raises (yaml_load w) YAMLError"
  then obtain g where g: "has_text w gitignore_path g"
    and r: "readable w pubspec_lock_path" and o: "only_raises (yaml_load w) YAMLError" by blast
  obtain ms where ms: "missing_patterns w MOBILE_FLUTTER_EXCLUDE_PATTERNS = Inr ms"
    "ms = [] \<longleftrightarrow> list_all (\<lambda>p. contains g (lit p)) MOBILE_FLUTTER_EXCLUDE_PATTERNS"
    using missing_patterns_Nil [OF g] by blast
  have both: "\<exists>fs. check_fresh_flutter_create_preserved w = Inr fs \<and>
      (fs = [] \<longleftrightarrow> run_s18_check w (the (text_of w gitignore_path)) (tracked_lock w) = [])"
  proof (cases "git_tracked w ''mobile/pubspec.lock''")
    case False
    then show ?thesis by (simp add: check_fresh_flutter_create_preserved_def run_s18_check_def tracked_lock_def)
  next
    case tr: True
    from r show ?thesis
    proof (cases rule: readable_cases)
      case absent
      with tr show ?thesis by (simp add: check_fresh_flutter_create_preserved_def run_s18_check_def tracked_lock_def)
    next
      case (present t)
      with tr show ?thesis
        by (cases rule: only_raises_cases [OF o, of t])
           (simp_all add: check_fresh_flutter_create_preserved_def run_s18_check_def with_yaml_def try_doc_def ms
             text_of_has_text [OF g] tracked_lock_def Let_def)
    qed
  qed
  show "\<exists>fs. check_fresh_flutter_create_preserved w = Inr fs" using both by blast
  show "fs = [] \<longleftrightarrow> run_s18_check w (the (text_of w gitignore_path)) (tracked_lock w) = []"
    if "check_fresh_flutter_create_preserved w = Inr fs" for fs using both that by auto
qed

subsection \<open>Properties\<close>

text \<open>C29. The replicas of S7, S11, S19 and S20 report exactly the findings of the checks they copy, in number
  and order, on every repository whose inspected files are absent or UTF-8 texts and whose documents
  are parsed or rejected with the parser's own exception; in particular none of these checks raises there.\<close>

theorem replicas_report_the_findings:
  assumes "\<forall>p\<in>{main_dart_path, pubspec_yaml_path, fpd_path}. readable w p"
    and "only_raises (yaml_load w) YAMLError" and "only_raises (json_load w) JSONDecodeError"
  shows "\<exists>fs7 fs11 fs19 fs20.
    check_mobile_entry_point_v4 w = Inr fs7 \<and>
      run_s7_check w (text_of w main_dart_path) (text_of w pubspec_yaml_path) = replica_tags fs7 \<and>
    check_flutter_plugins_dependencies_v8 w = Inr fs11 \<and> run_s11_check w (text_of w fpd_path) = replica_tags fs11 \<and>
    check_fresh_create_metadata_tracked w = Inr fs19 \<and>
      run_s19_check (git_tracked w ''mobile/.metadata'') (git_tracked w ''mobile/android/.gitignore'') = replica_tags fs19 \<and>
    check_pubspec_baseline_shape w = Inr fs20 \<and> run_s20_check w (text_of w pubspec_yaml_path) = replica_tags fs20"
  using assms s7.same [of w] s11.same [of w] s19.same [of w] s20.same [of w] by blast

theorem replicas_report_the_findings_witness:
  "\<exists>fs7 fs11 fs19 fs20. let w = mk_world (Dir []) in
    check_mobile_entry_point_v4 w = Inr fs7 \<and>
      run_s7_check w (text_of w main_dart_path) (text_of w pubspec_yaml_path) = replica_tags fs7 \<and>
    check_flutter_plugins_dependencies_v8 w = Inr fs11 \<and> run_s11_check w (text_of w fpd_path) = replica_tags fs11 \<and>
    check_fresh_create_metadata_tracked w = Inr fs19 \<and>
      run_s19_check (git_tracked w ''mobile/.metadata'') (git_tracked w ''mobile/android/.gitignore'') = replica_tags fs19 \<and>
    check_pubspec_baseline_shape w = Inr fs20 \<and> run_s20_check w (text_of w pubspec_yaml_path) = replica_tags fs20"
  unfolding Let_def
  by (rule replicas_report_the_findings)
     (simp_all add: readable_def mk_world_def main_dart_path_def pubspec_yaml_path_def fpd_path_def only_raises_def)

text \<open>The replica of the Kotlin DSL checks reports exactly the S1 to S5 findings of the audit, for every
  app build file.\<close>

theorem kotlin_dsl_replica_agrees:
  assumes "has_text w app_gradle_path t"
  shows "\<exists>fs. check_app_build_gradle_syntax_v2 w = Inr fs \<and> run_check t = replica_tags fs"
  using s1_s5.same [of w] assms text_of_has_text [OF assms] by auto

theorem kotlin_dsl_replica_agrees_witness:
  "\<exists>fs. check_app_build_gradle_syntax_v2 (mk_world (file_at app_gradle_path (lit ''kotlinOptions''))) = Inr fs \<and>
     run_check (lit ''kotlinOptions'') = replica_tags fs"
  by (rule kotlin_dsl_replica_agrees [OF has_text_file_at])

text \<open>The S6 replica agrees with the check on every workflow file that is one document with a mapping
  of jobs whose \<open>steps\<close>, where given, are lists.\<close>

theorem s6_replica_agrees:
  assumes "has_text w (workflow_path ''android-debug.yml'') t" and "yaml_load_all w t = Inr [PDict d]"
    and "dget d ''jobs'' (PDict []) = PDict jobs"
    and "\<forall>job\<in>set jobs. \<forall>kvs. snd job = PDict kvs \<longrightarrow> is_list (dget kvs ''steps'' (PList []))"
  shows "\<exists>fs. check_android_debug_workflow_v3 w = Inr fs \<and> run_s6_check w t = Inr (replica_tags fs)"
proof -
  have dom: "s6_domain w" using assms by (auto simp: s6_domain_def)
  have "\<exists>r. run_s6_check w t = Inr r" using assms(2,3) by (simp add: run_s6_check_def Let_def)
  with s6.same [OF dom] text_of_has_text [OF assms(1)] show ?thesis by (auto simp: run_s6_def)
qed

theorem s6_replica_agrees_witness:
  "\<exists>fs. check_android_debug_workflow_v3 (yaml_world (workflow_path ''android-debug.yml'') [PDict sample_workflow]) = Inr fs \<and>
     run_s6_check (yaml_world (workflow_path ''android-debug.yml'') [PDict sample_workflow]) [] = Inr (replica_tags fs)"
proof (rule s6_replica_agrees [where d = sample_workflow and jobs = sample_jobs])
  show "has_text (yaml_world (workflow_path ''android-debug.yml'') [PDict sample_workflow]) (workflow_path ''android-debug.yml'') []"
    using has_text_file_at [of "workflow_path ''android-debug.yml''" "[]"] by (simp add: has_text_def yaml_world_def)
qed (simp_all add: yaml_world_def sample_workflow_def dget_def ystr_def,
     simp add: sample_jobs_def ymap_def ystr_def)

text \<open>C30. The replicas of S9, S10, S17 and S18 pass exactly when the checks pass, where each replica is given what the repository
  holds: the texts of the files (None for an absent file), for S10 whether a mipmap and the launch background are there, for S17 of
  each wrapper file whether it is tracked and on disk, for S18 the lockfile only if it is tracked. The replicas stop at the
  first violation, the checks go on, but the verdicts agree. This is for repositories with a readable \<open>.gitignore\<close>, the text
  of which two replicas take, whose four other files are absent or UTF-8 texts, whose mipmap paths are no plain files, and whose
  documents are parsed or rejected with the parser's own exception, by ElementTree as on the text of the file.\<close>

theorem replicas_agree_on_the_verdict:
  assumes "\<forall>p\<in>{manifest_path, app_gradle_path, styles_path, pubspec_lock_path}. readable w p"
    and "has_text w gitignore_path g"
    and "only_raises (xml_parse w) ParseError" and "only_raises (yaml_load w) YAMLError"
    and "\<forall>p t. has_text w p t \<longrightarrow> et_parse w p = xml_parse w t"
    and "find_mipmap w mipmap_dirs = Inr has_mipmap"
  shows "(check_android_manifest_v6 w = Inr [] \<longleftrightarrow>
      run_s9_check w (text_of w manifest_path) (text_of w app_gradle_path) = []) \<and>
    (check_android_res_skeleton_v7 w = Inr [] \<longleftrightarrow>
      run_s10_check w (text_of w styles_path) has_mipmap (path_exists w launch_bg_path) = []) \<and>
    (check_gradle_wrapper_force_include w = Inr [] \<longleftrightarrow>
      run_s17_check g (wrapper_kept w 0) (wrapper_kept w 1) (wrapper_kept w 2) = []) \<and>
    (check_fresh_flutter_create_preserved w = Inr [] \<longleftrightarrow> run_s18_check w g (tracked_lock w) = [])"
proof (intro conjI)
  have mip: "mipmap_present w = has_mipmap" using assms(6) by (simp add: mipmap_present_def)
  note g = text_of_has_text [OF assms(2)]
  show "check_android_manifest_v6 w = Inr [] \<longleftrightarrow> run_s9_check w (text_of w manifest_path) (text_of w app_gradle_path) = []"
    by (rule s9.verdict) (use assms in blast)
  show "check_android_res_skeleton_v7 w = Inr [] \<longleftrightarrow>
      run_s10_check w (text_of w styles_path) has_mipmap (path_exists w launch_bg_path) = []"
    using s10.verdict [of w] assms mip by blast
  show "check_gradle_wrapper_force_include w = Inr [] \<longleftrightarrow>
      run_s17_check g (wrapper_kept w 0) (wrapper_kept w 1) (wrapper_kept w 2) = []"
    using s17.verdict [of w] assms(2) g by auto
  show "check_fresh_flutter_create_preserved w = Inr [] \<longleftrightarrow> run_s18_check w g (tracked_lock w) = []"
    using s18.verdict [of w] assms(1,2,4) g by auto
qed

text \<open>A repository whose lockfile is in order on disk and not tracked: the check of S18 fails, and so does the replica.\<close>

definition good_lock :: pyval where
  "good_lock = PDict [(PStr (lit ''packages''), PDict [(PStr (lit ''flutter''), PDict [(PStr (lit ''source''), PStr (lit ''sdk''))])])]"

definition replica_world :: "bool \<Rightarrow> world" where
  "replica_world tracked = (mk_world (Dir [(''.gitignore'', File (Some (concat (map lit MOBILE_FLUTTER_EXCLUDE_PATTERNS)))),
     (''mobile'', Dir [(''pubspec.lock'', File (Some []))])]))
     \<lparr>git_ls_files := \<lambda>rel. Some (0, if tracked then lit rel else []), yaml_load := \<lambda>_. Inr good_lock, et_parse := \<lambda>_. Inl ParseError\<rparr>"

theorem replicas_agree_on_the_verdict_witness:
  "check_fresh_flutter_create_preserved (replica_world True) = Inr [] \<and>
     check_fresh_flutter_create_preserved (replica_world False) \<noteq> Inr []"
proof -
  let ?g = "concat (map lit MOBILE_FLUTTER_EXCLUDE_PATTERNS)"
  have paths: "\<forall>p\<in>{manifest_path, app_gradle_path, styles_path, pubspec_lock_path}. readable (replica_world t) p" for t
    by (simp add: readable_def replica_world_def mk_world_def manifest_path_def app_gradle_path_def styles_path_def
        pubspec_lock_path_def android_res_path_def)
  have g: "has_text (replica_world t) gitignore_path ?g" for t
    by (simp add: has_text_def replica_world_def mk_world_def gitignore_path_def)
  have ow: "only_raises (xml_parse (replica_world t)) ParseError" "only_raises (yaml_load (replica_world t)) YAMLError"
    "\<forall>p u. has_text (replica_world t) p u \<longrightarrow> et_parse (replica_world t) p = xml_parse (replica_world t) u"
    "find_mipmap (replica_world t) mipmap_dirs = Inr False" for t
    by (simp_all add: only_raises_def replica_world_def mk_world_def mipmap_dirs_def android_res_path_def)
  have "contains ?g (lit p)" if "p \<in> set MOBILE_FLUTTER_EXCLUDE_PATTERNS" for p
  proof -
    from split_list [OF that] obtain ps qs where ps: "MOBILE_FLUTTER_EXCLUDE_PATTERNS = ps @ p # qs" by blast
    have "contains (concat (map lit (ps @ p # qs))) (lit p)" by (auto simp: contains_append1 contains_append2 contains_iff)
    then show ?thesis by (metis ps)
  qed
  then have pats: "list_all (\<lambda>p. contains ?g (lit p)) MOBILE_FLUTTER_EXCLUDE_PATTERNS" by (simp add: list_all_iff)
  have tracked: "git_tracked (replica_world t) ''mobile/pubspec.lock'' \<longleftrightarrow> t" for t
    by (simp add: git_tracked_def replica_world_def py_strip_def text_simps)
  have "tracked_lock (replica_world t) = (if t then Some [] else None)" for t
    by (simp add: tracked_lock_def tracked) (simp add: text_of_def replica_world_def mk_world_def pubspec_lock_path_def)
  moreover have "yaml_load (replica_world t) [] = Inr good_lock" for t by (simp add: replica_world_def)
  ultimately have "run_s18_check (replica_world t) ?g (tracked_lock (replica_world t)) = [] \<longleftrightarrow> t" for t
    using pats by (simp add: run_s18_check_def try_doc_def good_lock_def dget_def lit_def)
  with replicas_agree_on_the_verdict [OF paths g ow] show ?thesis by simp
qed

text \<open>The S13 replica is not the S13 check: on every settings file without the Maven repository (here:
  without a \<open>dependencyResolutionManagement\<close> block, and with no \<open>repositories\<close> block in the app build
  file), the replica reports the violation and the audit is silent, so the self-test passes on a
  check that detects nothing.\<close>

theorem s13_replica_diverges:
  assumes "has_text w settings_gradle_path s" and "has_text w app_gradle_path a"
    and "\<not> contains s (lit ''dependencyResolutionManagement'')" and "\<not> contains a (lit ''repositories'')"
  shows "run_s13_check (text_of w settings_gradle_path) (text_of w app_gradle_path) = [''S13 fail''] \<and>
    check_flutter_storage_repo_v10 w = Inr []"
proof -
  have "lang repositories_re p y q c c' \<Longrightarrow> prefix (lit ''repositories'') y" for p y q c c'
    unfolding repositories_re_def Seq.simps cat_simps by auto
  then have "headed repositories_re (lit ''repositories'')" by (simp add: headed_def)
  then have none: "re_finditer repositories_re a = []"
    unfolding re_finditer_Nil by (rule re_search_None_headed) (rule assms(4))
  show ?thesis
    using block_re_None [OF assms(3)] none text_of_has_text [OF assms(1)] text_of_has_text [OF assms(2)]
      has_text_exists [OF assms(1)] has_text_read [OF assms(1)] has_text_exists [OF assms(2)] has_text_read [OF assms(2)]
    by (simp add: run_s13_check_def check_flutter_storage_repo_v10_def scan_app_repositories_def)
qed

theorem s13_replica_diverges_witness:
  "let w = mk_world (Dir [(''mobile'', Dir [(''android'', Dir [(''settings.gradle.kts'', File (Some (lit ''include''))),
      (''app'', Dir [(''build.gradle.kts'', File (Some (lit ''plugins'')))])])])])
   in run_s13_check (text_of w settings_gradle_path) (text_of w app_gradle_path) = [''S13 fail''] \<and>
     check_flutter_storage_repo_v10 w = Inr []"
  unfolding Let_def
  by (rule s13_replica_diverges [where s = "lit ''include''" and a = "lit ''plugins''"])
     (simp_all add: has_text_def mk_world_def settings_gradle_path_def app_gradle_path_def text_simps)

lemma py_strip_id_hash: "is_hash h \<Longrightarrow> py_strip h = h"
proof -
  assume h: "is_hash h"
  have "\<not> is_space x" if "is_hex x" for x using that by (auto simp: is_hex_def is_space_def)
  with h have "list_all (\<lambda>x. \<not> is_space x) h" "list_all (\<lambda>x. \<not> is_space x) (rev h)" by (auto simp: is_hash_def list_all_iff)
  moreover have "dropWhile is_space xs = xs" if "list_all (\<lambda>x. \<not> is_space x) xs" for xs using that by (cases xs) auto
  ultimately show ?thesis by (simp add: py_strip_def)
qed

lemma replica_hash:
  fixes b1 b2 h
  defines "H \<equiv> embedding_substr @ lit '':1.0.0-''"
  assumes "\<not> contains (b1 @ butlast H) H" and "is_hash h"
  shows "\<exists>m. re_search replica_version_re (b1 @ H @ h @ b2) = Some m \<and> grp 1 m = h"
proof -
  have head: "headed replica_version_re H" unfolding replica_version_re_def H_def by (rule headed_Seq)
  have L: "lang replica_version_re p y q c c' \<longleftrightarrow> (\<exists>h. y = H @ h \<and> length h = 40 \<and> (\<forall>x\<in>set h. is_hex x) \<and> c' = (1, h) # c)"
    for p y q c c'
    unfolding replica_version_re_def Seq.simps cat_simps lang_simps lang.simps(6) H_def by auto
  have "lang replica_version_re b1 (H @ h) b2 [] [(1, h)]" unfolding L using assms(3) by (auto simp: is_hash_def)
  from re_search_at_head [OF head assms(2) this] obtain m x v where
    m: "re_search replica_version_re (b1 @ H @ h @ b2) = Some m" "h @ b2 = x @ v" and Lx: "lang replica_version_re b1 (H @ x) v [] (m_caps m)"
    by (elim exE conjE)
  from Lx [unfolded L] m(2) assms(3) have "grp 1 m = h" by (auto simp: is_hash_def grp_def group_def)
  with m(1) show ?thesis by blast
qed

lemma s12_replica_on_coordinate:
  assumes "is_hash h" and "d1 \<notin> {10, 123, 125}" and "d2 \<notin> {10, 123, 125}"
  shows "run_s12_check (Some (lit ''dependencies {'' @ loose_coordinate d1 d2 h @ lit ''}'')) (Some h) = [] \<longleftrightarrow> d1 = 46 \<and> d2 = 46"
proof -
  let ?c = "loose_coordinate d1 d2 h" and ?H = "embedding_substr @ lit '':1.0.0-''"
  note embedding = embedding_substr_def FLUTTER_EMBEDDING_GROUP_def FLUTTER_EMBEDDING_ARTIFACT_def lit_def
  have "\<forall>x\<in>set h. x \<noteq> 123 \<and> x \<noteq> 125" using assms(1) by (force simp: is_hash_def is_hex_def)
  then have "balanced ?c" using assms(2,3) by (intro balanced_no_braces) (auto simp: loose_coordinate_def embedding)
  with dependencies_block [of "[]" ?c "[]"] obtain m where
    m: "re_search (block_re ''dependencies'') (lit ''dependencies {'' @ ?c @ lit ''}'') = Some m"
    "block_from (lit ''dependencies {'' @ ?c @ lit ''}'') (m_end m) = Inr ?c" by (auto simp: lit_def)
  have sub: "contains ?c embedding_substr"
    unfolding contains_iff loose_coordinate_def by (intro exI [of _ "[]"] exI) simp
  have hash: "re_match_at_start hex40_re h \<noteq> None"
    using hex40_stripped [of h] assms(1) py_strip_id_hash [OF assms(1)] by simp
  have "105 \<in> set ?H" "105 \<notin> set h" using assms(1) by (auto simp: embedding is_hash_def is_hex_def)
  then have "\<not> contains h ?H" by (auto simp: contains_iff)
  then have dots: "contains ?c ?H \<longleftrightarrow> d1 = 46 \<and> d2 = 46" by (simp add: loose_coordinate_def embedding)
  show ?thesis
  proof (cases "d1 = 46 \<and> d2 = 46")
    case False
    have "headed replica_version_re ?H" unfolding replica_version_re_def by (rule headed_Seq)
    then have "re_search replica_version_re ?c = None" using re_search_None_headed dots False by blast
    with False m sub show ?thesis by (simp add: run_s12_check_def)
  next
    case True
    then have "?c = [] @ ?H @ h @ []" by (simp add: loose_coordinate_def lit_def)
    moreover have "\<not> contains ([] @ butlast ?H) ?H" by (auto simp: contains_iff lit_def dest: arg_cong [where f = length])
    ultimately obtain mv where "re_search replica_version_re ?c = Some mv" "grp 1 mv = h"
      using replica_hash [of "[]" h "[]"] assms(1) by auto
    with True m sub hash show ?thesis by (auto simp: run_s12_check_def)
  qed
qed

text \<open>The version pattern of the S12 check leaves the dots of \<open>1.0.0-\<close> unescaped, that of its replica
  does not: on a build file whose \<open>dependencies\<close> block is exactly a coordinate \<open>...:1<d1>0<d2>0-<hash>\<close> with
  the right hash, the check passes for any two characters but newlines and braces, the replica only for
  two dots.\<close>

lemma s12_replica_diverges:
  assumes "has_text w app_gradle_path (lit ''dependencies {'' @ loose_coordinate d1 d2 h @ lit ''}'')"
    and "engine_version_file w = Some (File (Some ev))" and "py_strip ev = h" and "is_hash h"
    and "d1 \<notin> {10, 123, 125}" and "d2 \<notin> {10, 123, 125}"
  shows "check_flutter_kotlin_embedding_v9 w = Inr [] \<and>
    (run_s12_check (text_of w app_gradle_path) (Some h) = [] \<longleftrightarrow> d1 = 46 \<and> d2 = 46)"
proof
  note embedding = embedding_substr_def FLUTTER_EMBEDDING_GROUP_def FLUTTER_EMBEDDING_ARTIFACT_def lit_def
  have "\<forall>x\<in>set h. x \<noteq> 123 \<and> x \<noteq> 125" using assms(4) by (force simp: is_hash_def is_hex_def)
  then have bal: "balanced (loose_coordinate d1 d2 h)"
    using assms(5,6) by (intro balanced_no_braces) (auto simp: loose_coordinate_def embedding)
  have first: "\<not> contains ([] @ embedding_substr @ lit '':'') (embedding_substr @ lit '':1'')" by (simp add: embedding)
  have "check_flutter_kotlin_embedding_v9 w = Inr
    (if h = py_strip ev then []
     else if is_hash (py_strip ev) then [Finding ''S12'' ''hash does not match engine.version'' [h, py_strip ev]]
     else [Finding ''S12'' ''engine.version is not a hash'' [py_strip ev]])"
  proof (rule embedding_decides [where pre = "[]" and ?b1.0 = "[]" and ?b2.0 = "[]" and post = "[]"])
    show "d1 \<noteq> NL" "d2 \<noteq> NL" using assms(5,6) by auto
  qed (use assms(1,2,4) bal first in \<open>simp_all add: text_simps\<close>)
  with assms(3) show "check_flutter_kotlin_embedding_v9 w = Inr []" by simp
  show "run_s12_check (text_of w app_gradle_path) (Some h) = [] \<longleftrightarrow> d1 = 46 \<and> d2 = 46"
    using s12_replica_on_coordinate [OF assms(4-6)] text_of_has_text [OF assms(1)] by simp
qed

lemma s12_replica_diverges_witness:
  "check_flutter_kotlin_embedding_v9 ((mk_world (file_at app_gradle_path
       (lit ''dependencies {'' @ loose_coordinate 120 46 sample_hash @ lit ''}''))) \<lparr>engine_version_file := Some (File (Some sample_hash))\<rparr>) = Inr [] \<and>
     run_s12_check (Some (lit ''dependencies {'' @ loose_coordinate 120 46 sample_hash @ lit ''}'')) (Some sample_hash) \<noteq> []"
proof -
  let ?t = "lit ''dependencies {'' @ loose_coordinate 120 46 sample_hash @ lit ''}''"
  let ?w = "(mk_world (file_at app_gradle_path ?t)) \<lparr>engine_version_file := Some (File (Some sample_hash))\<rparr>"
  have t: "has_text ?w app_gradle_path ?t" using has_text_file_at [of app_gradle_path ?t] by (simp add: has_text_def)
  have "py_strip sample_hash = sample_hash" "is_hash sample_hash"
    by (simp_all add: sample_hash_def py_strip_def is_space_def is_hash_def is_hex_def)
  from s12_replica_diverges [OF t _ this] text_of_has_text [OF t] show ?thesis by simp
qed

end
