(* ===== verification/Literal_Replicas.thy ===== *)
theory Literal_Replicas
  imports Literal_Checks Self_Test
begin

section \<open>The self-test's replicas of the literal checks (S26 to S72)\<close>

text \<open>
  The functions \<open>run_s26_check\<close> to \<open>run_s72_check\<close> of tools/audit-self-test.py, on the text of the file or None. A
  replica reports strings that start with its check's name: here findings again, whose site is the parenthesis.
  Most of them report what the check reports; S28 to S65 hold some that look for other literals or in other text.
\<close>

subsection \<open>The replicas\<close>

definition on_text :: "string \<Rightarrow> pystr option \<Rightarrow> (pystr \<Rightarrow> finding list) \<Rightarrow> finding list" where
  "on_text s t body = (case t of None \<Rightarrow> [Finding s ''file missing'' []] | Some text \<Rightarrow> body text)"

definition run_s26_check :: "pystr option \<Rightarrow> finding list" where
  "run_s26_check t = on_text ''S26'' t (\<lambda>text. literal_finding ''S26'' (has text ''intent://send?text=''))"

definition run_s27_check :: "pystr option \<Rightarrow> finding list" where
  "run_s27_check t = on_text ''S27'' t (\<lambda>text. literal_finding ''S27'' (has text ''LineChart''))"

definition run_s28_check :: "world \<Rightarrow> pystr option \<Rightarrow> finding list" where
  "run_s28_check w t = on_text ''S28'' t (\<lambda>text.
     map (\<lambda>(m, cb_name). Finding ''S28'' ''mock callback'' [cb_name]) (mock_timers w (strip_comments_dart text)))"

definition run_s29_check :: "pystr option \<Rightarrow> finding list" where
  "run_s29_check t = on_text ''S29'' t (\<lambda>text.
     if \<not> has text ''HapticFeedback'' \<and> \<not> has text ''SystemSound'' then [Finding ''S29'' ''no haptic'' []] else [])"

definition missing_commas :: "string \<Rightarrow> (bool \<times> pystr) list \<Rightarrow> finding list" where
  "missing_commas s entries = (let missing = map snd (filter fst entries)
     in if missing \<noteq> [] then [Finding s ''missing'' [py_join (lit '','') missing]] else [])"

definition run_s33_check :: "pystr option \<Rightarrow> finding list" where
  "run_s33_check t = on_text ''S33'' t (\<lambda>text.
     missing_commas ''S33'' (map (\<lambda>n. (\<not> contains text n, n)) [lit ''lastError'', lit ''lastSuccess'']))"

definition run_s34_check :: "pystr option \<Rightarrow> finding list" where
  "run_s34_check t = on_text ''S34'' t (\<lambda>text. literal_finding ''S34'' (has text ''ScaffoldMessenger.of(context).showSnackBar''))"

definition any_text :: "pystr \<Rightarrow> pystr option list \<Rightarrow> bool" where
  "any_text needle texts \<longleftrightarrow> list_ex (\<lambda>t. case t of None \<Rightarrow> False | Some text \<Rightarrow> contains text needle) texts"

definition run_s35_check :: "pystr option \<Rightarrow> pystr option \<Rightarrow> finding list" where
  "run_s35_check telemetry p2p_matcher =
     literal_finding ''S35'' (any_text (lit ''String.fromEnvironment('' @ sq ''API_KEY'') [telemetry, p2p_matcher])"

definition run_s36_check :: "pystr option \<Rightarrow> finding list" where
  "run_s36_check t = on_text ''S36'' t (\<lambda>text.
     missing_commas ''S36'' (map (\<lambda>n. (\<not> contains text n, n)) [lit ''http.post'', lit ''/api/v1/auth'', lit ''user_id'']))"

definition run_s37_check :: "pystr option \<Rightarrow> pystr option \<Rightarrow> finding list" where
  "run_s37_check telemetry p2p_matcher = literal_finding ''S37'' (any_text (lit ''authHeaders()'') [telemetry, p2p_matcher])"

definition run_s38_check :: "pystr option \<Rightarrow> finding list" where
  "run_s38_check t = on_text ''S38'' t (\<lambda>text. literal_finding ''S38'' (has text ''_tokenExpiresAt''))"

definition run_s39_check :: "pystr option \<Rightarrow> finding list" where
  "run_s39_check t = on_text ''S39'' t (\<lambda>text. literal_finding ''S39'' (has text ''invalidate()''))"

definition run_s40_check :: "pystr option \<Rightarrow> finding list" where
  "run_s40_check t = on_text ''S40'' t (\<lambda>text. missing_commas ''S40'' (map (\<lambda>n. (\<not> contains text n, n))
     [lit ''intent://send?'', lit ''#Intent;scheme=whatsapp;package=com.whatsapp;end'']))"

definition run_s41_check :: "pystr option \<Rightarrow> finding list" where
  "run_s41_check t = on_text ''S41'' t (\<lambda>text.
     (if \<not> has text ''/api/v1/sessions'' then [Finding ''S41'' ''missing'' []] else []) @
     (if has text ''/api/v1/matches'' then [Finding ''S41'' ''forbidden literal'' []] else []))"

definition run_s42_check :: "pystr option \<Rightarrow> finding list" where
  "run_s42_check t = on_text ''S42'' t (\<lambda>text.
     if \<not> has text ''<queries>'' then [Finding ''S42'' ''<queries> missing'' []]
     else if \<not> contains (re_sub xml_comment_strip_re [] text) package_needle then [Finding ''S42'' ''package missing'' []] else [])"

definition run_s43_check :: "pystr option \<Rightarrow> finding list" where
  "run_s43_check t = on_text ''S43'' t (\<lambda>text.
     let code = strip_comments_dart text in
     if \<not> has_when code then [Finding ''S43'' ''when missing'' []]
     else if \<not> has_sampled_literal code then [Finding ''S43'' ''case missing'' []] else [])"

definition run_s44_check :: "pystr option \<Rightarrow> pystr option \<Rightarrow> finding list" where
  "run_s44_check provider screen = on_text ''S44'' provider (\<lambda>provider_text.
     missing_commas ''S44'' (map (\<lambda>n. (\<not> contains provider_text n, n)) [lit ''intent://send?text='', lit ''https://wa.me/?text='']) @
     (case screen of
        None \<Rightarrow> [Finding ''S44'' ''screen file missing'' []]
      | Some screen_text \<Rightarrow> if \<not> has screen_text ''tryOpenWithReason'' then [Finding ''S44'' ''screen literal missing'' []] else []))"

definition run_s45_check :: "pystr option \<Rightarrow> finding list" where
  "run_s45_check t = on_text ''S45'' t (\<lambda>text. literal_finding ''S45'' (contains text (dq ''onPacketsSampled'')))"

definition run_s46_check :: "pystr option \<Rightarrow> finding list" where
  "run_s46_check t = on_text ''S46'' t (\<lambda>text.
     (if \<not> has text ''OpenE2eeVpnService.snapshot()'' then [Finding ''S46'' ''snapshot missing'' []] else []) @
     (if contains text (dq ''srcIpMasked'') \<and> contains text (dq ''version'') \<and> contains text (dq ''protocol'')
      then [Finding ''S46'' ''mock packet'' []] else []))"

definition run_s47_check :: "pystr option \<Rightarrow> finding list" where
  "run_s47_check t = on_text ''S47'' t (\<lambda>text.
     missing_commas ''S47'' [(\<not> has text ''packetStream'', lit ''packetStream''),
       (\<not> contains text (lit ''import '' @ sq ''package:flutter/services.dart''), lit ''MethodChannel import'')])"

definition run_s48_check :: "pystr option \<Rightarrow> finding list" where
  "run_s48_check t = on_text ''S48'' t (\<lambda>text. literal_finding ''S48'' (has text ''packetStream.listen''))"

definition run_s49_check :: "pystr option \<Rightarrow> finding list" where
  "run_s49_check t = on_text ''S49'' t (\<lambda>text.
     missing_commas ''S49'' [(\<not> has text ''class SampledPacket'', lit ''class SampledPacket''),
       (\<not> has text ''fromBytes'', lit ''fromBytes''), (\<not> has text ''toJson'', lit ''toJson'')])"

definition run_s50_check :: "pystr option \<Rightarrow> finding list" where
  "run_s50_check t = on_text ''S50'' t (\<lambda>text. literal_finding ''S50'' (contains text notification_title))"

definition run_s51_check :: "pystr option \<Rightarrow> finding list" where
  "run_s51_check t = on_text ''S51'' t (\<lambda>text.
     (if has text ''< 30'' \<and> has text ''Timer.periodic'' then [Finding ''S51'' ''fixed loop'' []] else []) @
     (if \<not> has text ''packetStream'' then [Finding ''S51'' ''packetStream missing'' []] else []))"

definition run_s52_check :: "pystr option \<Rightarrow> finding list" where
  "run_s52_check t = on_text ''S52'' t (\<lambda>text.
     missing_commas ''S52'' [(\<not> has text ''sendSummary'', lit ''sendSummary''),
       (\<not> has text ''/api/v1/sessions/'', lit ''/api/v1/sessions/ path''),
       (\<not> has text ''encryptionIntegrityPct'', lit ''encryptionIntegrityPct field''),
       (\<not> has text ''packetLossPct'', lit ''packetLossPct field'')])"

definition run_s53_check :: "pystr option \<Rightarrow> finding list" where
  "run_s53_check t = on_text ''S53'' t (\<lambda>text. literal_finding ''S53'' (has text ''webrtc:''))"

definition run_s54_check :: "pystr option \<Rightarrow> finding list" where
  "run_s54_check t = on_text ''S54'' t (\<lambda>text.
     missing_finding ''S54'' [
       (\<not> contains text (lit ''import '' @ sq ''package:flutter_webrtc/flutter_webrtc.dart''), lit ''flutter_webrtc import''),
       (\<not> has text ''RTCPeerConnection'', lit ''RTCPeerConnection class reference''),
       (\<not> has text ''createPeerConnection'', lit ''createPeerConnection call site'')])"

definition run_s55_check :: "pystr option \<Rightarrow> finding list" where
  "run_s55_check t = on_text ''S55'' t (\<lambda>text.
     missing_finding ''S55'' [(\<not> has text ''onIceCandidate'', lit ''onIceCandidate callback''),
       (\<not> contains text (sq ''candidate'') \<and> \<not> contains text (dq ''candidate''), lit ''candidate string literal in callback''),
       (\<not> has text ''sdpMid'', lit ''sdpMid field'')])"

definition run_s56_check :: "pystr option \<Rightarrow> finding list" where
  "run_s56_check t = on_text ''S56'' t (\<lambda>text.
     missing_finding ''S56'' [(\<not> has text ''startSession'', lit ''startSession method''),
       (\<not> has text ''authHeaders'', lit ''authHeaders() call (JWT)''),
       (\<not> has text ''/api/v1/sessions'', lit ''/api/v1/sessions endpoint'')])"

definition run_s57_check :: "pystr option \<Rightarrow> finding list" where
  "run_s57_check t = on_text ''S57'' t (\<lambda>text.
     if \<not> (has text ''Duration(seconds: 30)'' \<or> has text ''_pollTimeout'') then [Finding ''S57'' ''timeout missing'' []]
     else (if \<not> has text ''.get('' then [Finding ''S57'' ''get missing'' []] else []) @
          (if \<not> has text ''pollForOffer'' \<and> \<not> has text ''pollForAnswer'' then [Finding ''S57'' ''poll method missing'' []] else []))"

definition run_s59_check :: "pystr option \<Rightarrow> finding list" where
  "run_s59_check t = on_text ''S59'' t (\<lambda>text.
     missing_finding ''S59'' [(\<not> has text ''onTrack'', lit ''onTrack callback''),
       (\<not> has text ''get onTrack'', lit ''onTrack stream getter'')])"

definition run_s60_check :: "pystr option \<Rightarrow> finding list" where
  "run_s60_check t = on_text ''S60'' t (\<lambda>text.
     let has_negotiating = contains text negotiating_label; has_connected = contains text connected_label;
         has_failed = has text ''hata'' in
     missing_finding ''S60'' [(\<not> has_negotiating, lit ''Negotiating label ('' @ negotiating_label @ lit '')''),
       (\<not> has_connected, lit ''Connected label ('' @ connected_label @ lit '')''),
       (\<not> has_failed, lit ''Failed label (hata)'')])"

definition run_s61_check :: "pystr option \<Rightarrow> finding list" where
  "run_s61_check t = on_text ''S61'' t (\<lambda>text.
     missing_finding ''S61'' [
       (\<not> has text ''Future<List<SessionScore>>'' \<and> \<not> has text ''Future<List<SessionScore>>'', lit ''Future<List<SessionScore>>''),
       (\<not> has text ''fetchScores'', lit ''fetchScores method''),
       (\<not> has text ''ConsumerStatefulWidget'' \<and> \<not> has text ''ConsumerState<'', lit ''ConsumerStatefulWidget / ConsumerState'')])"

definition run_s62_check :: "pystr option \<Rightarrow> finding list" where
  "run_s62_check t = on_text ''S62'' t (\<lambda>text.
     missing_finding ''S62'' [(\<not> has text ''class SessionScoreCalculator'', lit ''class SessionScoreCalculator''),
       (\<not> has text ''static SessionScore compute'', lit ''static SessionScore compute method'')])"

definition run_s63_check :: "pystr option \<Rightarrow> finding list" where
  "run_s63_check t = on_text ''S63'' t (\<lambda>text.
     missing_finding ''S63'' [(\<not> has text ''encryptionIntegrityPct'', lit ''encryptionIntegrityPct metric''),
       (\<not> has text ''packetLossPct'', lit ''packetLossPct metric''), (\<not> has text ''meanLatencyMs'', lit ''meanLatencyMs metric''),
       (\<not> has text ''jitterMs'', lit ''jitterMs metric'')])"

definition run_s64_check :: "pystr option \<Rightarrow> finding list" where
  "run_s64_check t = on_text ''S64'' t (\<lambda>text.
     let has_weights = has text ''0.4 *'' \<and> has text ''0.3 *'' \<and> has text ''0.2 *'' \<and> has text ''0.1 *'' in
     if \<not> has_weights then [Finding ''S64'' ''weights missing'' []] else [])"

definition run_s65_check :: "pystr option \<Rightarrow> finding list" where
  "run_s65_check t = on_text ''S65'' t (\<lambda>text.
     missing_finding ''S65'' [(\<not> has text ''closeSession'', lit ''closeSession method''),
       (\<not> has text ''/api/v1/sessions/'' \<or> \<not> has text ''close'', lit ''close endpoint path'')])"

definition run_s66_check :: "pystr option \<Rightarrow> finding list" where
  "run_s66_check t = on_text ''S66'' t (\<lambda>text. literal_finding ''S66'' (has text ''Oturumu Bitir''))"

definition run_s67_check :: "pystr option \<Rightarrow> finding list" where
  "run_s67_check t = on_text ''S67'' t (\<lambda>text.
     let has_call = has text ''closeSession''; has_nav = has text ''/home/skorlar'' in
     missing_finding ''S67'' [(\<not> has_call, lit ''closeSession call site''), (\<not> has_nav, lit ''/home/skorlar navigation'')])"

definition run_s68_check :: "pystr option \<Rightarrow> finding list" where
  "run_s68_check t = on_text ''S68'' t (\<lambda>text. literal_finding ''S68'' (contains text empty_state_text))"

definition run_s69_check :: "pystr option \<Rightarrow> finding list" where
  "run_s69_check t = on_text ''S69'' t (\<lambda>text.
     let has_card = has text ''SessionScoreCard''; has_gauge = has text ''_OverallScoreDisc'' \<or> has text ''overallScore'' in
     missing_finding ''S69'' [(\<not> has_card, lit ''SessionScoreCard widget''), (\<not> has_gauge, lit ''overallScore gauge (disc)'')])"

definition run_s70_check :: "pystr option \<Rightarrow> finding list" where
  "run_s70_check t = on_text ''S70'' t (\<lambda>text.
     literal_finding ''S70'' (contains text (lit ''r.Post('' @ dq ''/sessions/{id}/close'')))"

definition run_s71_check :: "pystr option \<Rightarrow> finding list" where
  "run_s71_check t = on_text ''S71'' t (\<lambda>text.
     missing_finding ''S71'' ((\<not> has text ''summary_stats'', lit ''summary_stats key'') #
       map (\<lambda>field. (\<not> contains text field, field)) summary_fields))"

definition run_s72_check :: "pystr option \<Rightarrow> finding list" where
  "run_s72_check t = on_text ''S72'' t (\<lambda>text.
     let test_count = py_count text (lit ''test('') in
     if test_count < 4 then [Finding ''S72'' ''tests missing'' []] else [])"

subsection \<open>Reading a text\<close>

lemma try_read_text_of: "try_read w p = text_of w p"
  by (auto simp: try_read_def text_of_def read_text_def split: option.splits node.splits)

lemma text_of_exists: "text_of w p = Some t \<Longrightarrow> path_exists w p"
  by (auto simp: text_of_def path_exists_def split: option.splits)

lemma with_text_cases:
  "with_text s w p body = Inr (case text_of w p of
     None \<Rightarrow> [Finding s (if path_exists w p then ''read failed'' else ''file missing'') []] | Some t \<Rightarrow> body t)"
  by (auto simp: with_text_def try_read_text_of split: option.split dest: text_of_exists)

lemma with_text_replica:
  assumes "\<And>t. replica_tags (body' t) = replica_tags (body t)"
  shows "\<exists>fs. with_text s w p body = Inr fs \<and> replica_tags (on_text s (text_of w p) body') = replica_tags fs"
  using assms by (auto simp: with_text_cases on_text_def split: option.split)

lemma missing_tags [simp]: "replica_tags (missing_finding s es) = (if list_all (\<lambda>(b, l). \<not> b) es then [] else [fail s])"
  and missing_commas_tags [simp]: "replica_tags (missing_commas s es) = (if list_all (\<lambda>(b, l). \<not> b) es then [] else [fail s])"
  by (auto simp: missing_finding_def missing_commas_def filter_empty_conv list_all_iff Let_def)

lemma literal_tags [simp]: "replica_tags (literal_finding s b) = (if b then [] else [fail s])"
  by (simp add: literal_finding_def)

lemma missing_Nil [simp]: "missing_finding s es = [] \<longleftrightarrow> list_all (\<lambda>(b, l). \<not> b) es"
  and missing_commas_Nil [simp]: "missing_commas s es = [] \<longleftrightarrow> list_all (\<lambda>(b, l). \<not> b) es"
  by (auto simp: missing_finding_def missing_commas_def filter_empty_conv list_all_iff Let_def)

lemma literal_Nil [simp]: "literal_finding s b = [] \<longleftrightarrow> b"
  by (simp add: literal_finding_def)

subsection \<open>The replicas that report what the check reports\<close>

interpretation s26: faithful_replica check_whatsapp_deeplink_literal_present
  "\<lambda>w. replica_tags (run_s26_check (text_of w task_detail_path))" "\<lambda>_. True"
  unfolding check_whatsapp_deeplink_literal_present_def run_s26_check_def by unfold_locales (rule with_text_replica; auto simp: missing_needles_def Let_def)

interpretation s27: faithful_replica check_active_pool_linechart_literal_present
  "\<lambda>w. replica_tags (run_s27_check (text_of w active_pool_path))" "\<lambda>_. True"
  unfolding check_active_pool_linechart_literal_present_def run_s27_check_def by unfold_locales (rule with_text_replica; auto simp: missing_needles_def Let_def)

interpretation s29: faithful_replica check_active_pool_haptic_feedback_literal_present
  "\<lambda>w. replica_tags (run_s29_check (text_of w active_pool_path))" "\<lambda>_. True"
  unfolding check_active_pool_haptic_feedback_literal_present_def run_s29_check_def by unfold_locales (rule with_text_replica; auto simp: missing_needles_def Let_def)

interpretation s33: faithful_replica check_pool_provider_debug_state_fields
  "\<lambda>w. replica_tags (run_s33_check (text_of w (state_path ''pool_provider.dart'')))" "\<lambda>_. True"
  unfolding check_pool_provider_debug_state_fields_def run_s33_check_def by unfold_locales (rule with_text_replica; auto simp: missing_needles_def Let_def)

interpretation s34: faithful_replica check_active_pool_scaffold_messenger_snackbar
  "\<lambda>w. replica_tags (run_s34_check (text_of w active_pool_path))" "\<lambda>_. True"
  unfolding check_active_pool_scaffold_messenger_snackbar_def run_s34_check_def by unfold_locales (rule with_text_replica; auto simp: missing_needles_def Let_def)

interpretation s38: faithful_replica check_auth_token_expiry_field
  "\<lambda>w. replica_tags (run_s38_check (text_of w (services_path ''auth_service.dart'')))" "\<lambda>_. True"
  unfolding check_auth_token_expiry_field_def run_s38_check_def by unfold_locales (rule with_text_replica; auto simp: missing_needles_def Let_def)

interpretation s39: faithful_replica check_auth_invalidate_method
  "\<lambda>w. replica_tags (run_s39_check (text_of w (services_path ''auth_service.dart'')))" "\<lambda>_. True"
  unfolding check_auth_invalidate_method_def run_s39_check_def by unfold_locales (rule with_text_replica; auto simp: missing_needles_def Let_def)

interpretation s40: faithful_replica check_whatsapp_deeplink_intent_format
  "\<lambda>w. replica_tags (run_s40_check (text_of w deeplink_path))" "\<lambda>_. True"
  unfolding check_whatsapp_deeplink_intent_format_def run_s40_check_def by unfold_locales (rule with_text_replica; auto simp: missing_needles_def Let_def)

interpretation s41: faithful_replica check_p2p_matcher_sessions_endpoint
  "\<lambda>w. replica_tags (run_s41_check (text_of w (services_path ''p2p_matcher.dart'')))" "\<lambda>_. True"
  unfolding check_p2p_matcher_sessions_endpoint_def run_s41_check_def by unfold_locales (rule with_text_replica; auto simp: missing_needles_def Let_def)

interpretation s42: faithful_replica check_android_manifest_whatsapp_queries_v12
  "\<lambda>w. replica_tags (run_s42_check (text_of w (queries_manifest_path w)))" "\<lambda>_. True"
  unfolding check_android_manifest_whatsapp_queries_v12_def run_s42_check_def by unfold_locales (rule with_text_replica; auto simp: missing_needles_def Let_def)

interpretation s47: faithful_replica check_vpn_service_packet_stream_getter_v15
  "\<lambda>w. replica_tags (run_s47_check (text_of w (services_path ''vpn_service.dart'')))" "\<lambda>_. True"
  unfolding check_vpn_service_packet_stream_getter_v15_def run_s47_check_def by unfold_locales (rule with_text_replica; auto simp: missing_needles_def Let_def)

interpretation s48: faithful_replica check_active_pool_packet_stream_listen_v15
  "\<lambda>w. replica_tags (run_s48_check (text_of w active_pool_path))" "\<lambda>_. True"
  unfolding check_active_pool_packet_stream_listen_v15_def run_s48_check_def by unfold_locales (rule with_text_replica; auto simp: missing_needles_def Let_def)

interpretation s49: faithful_replica check_sampled_packet_class_v15
  "\<lambda>w. replica_tags (run_s49_check (text_of w (services_path ''packet_parser.dart'')))" "\<lambda>_. True"
  unfolding check_sampled_packet_class_v15_def run_s49_check_def by unfold_locales (rule with_text_replica; auto simp: missing_needles_def Let_def)

interpretation s51: faithful_replica check_active_pool_no_30_call_loop_v15
  "\<lambda>w. replica_tags (run_s51_check (text_of w active_pool_path))" "\<lambda>_. True"
  unfolding check_active_pool_no_30_call_loop_v15_def run_s51_check_def by unfold_locales (rule with_text_replica; auto simp: missing_needles_def Let_def)

interpretation s52: faithful_replica check_telemetry_service_summary_upload_v15
  "\<lambda>w. replica_tags (run_s52_check (text_of w (services_path ''telemetry_service.dart'')))" "\<lambda>_. True"
  unfolding check_telemetry_service_summary_upload_v15_def run_s52_check_def by unfold_locales (rule with_text_replica; auto simp: missing_needles_def Let_def)

interpretation s53: faithful_replica check_pubspec_webrtc_dep_v16
  "\<lambda>w. replica_tags (run_s53_check (text_of w pubspec_yaml_path))" "\<lambda>_. True"
  unfolding check_pubspec_webrtc_dep_v16_def run_s53_check_def by unfold_locales (rule with_text_replica; auto simp: missing_needles_def Let_def)

interpretation s54: faithful_replica check_webrtc_service_rtc_peer_connection_v16
  "\<lambda>w. replica_tags (run_s54_check (text_of w webrtc_path))" "\<lambda>_. True"
  unfolding check_webrtc_service_rtc_peer_connection_v16_def run_s54_check_def by unfold_locales (rule with_text_replica; auto simp: missing_needles_def Let_def)

interpretation s55: faithful_replica check_webrtc_service_on_ice_candidate_v16
  "\<lambda>w. replica_tags (run_s55_check (text_of w webrtc_path))" "\<lambda>_. True"
  unfolding check_webrtc_service_on_ice_candidate_v16_def run_s55_check_def by unfold_locales (rule with_text_replica; auto simp: missing_needles_def Let_def)

interpretation s56: faithful_replica check_session_orchestrator_start_session_v16
  "\<lambda>w. replica_tags (run_s56_check (text_of w orchestrator_path))" "\<lambda>_. True"
  unfolding check_session_orchestrator_start_session_v16_def run_s56_check_def by unfold_locales (rule with_text_replica; auto simp: missing_needles_def Let_def)

interpretation s57: faithful_replica check_session_orchestrator_long_poll_v16
  "\<lambda>w. replica_tags (run_s57_check (text_of w orchestrator_path))" "\<lambda>_. True"
  unfolding check_session_orchestrator_long_poll_v16_def run_s57_check_def by unfold_locales (rule with_text_replica; auto simp: missing_needles_def Let_def)

interpretation s59: faithful_replica check_webrtc_service_on_track_v16
  "\<lambda>w. replica_tags (run_s59_check (text_of w webrtc_path))" "\<lambda>_. True"
  unfolding check_webrtc_service_on_track_v16_def run_s59_check_def by unfold_locales (rule with_text_replica; auto simp: missing_needles_def Let_def)

interpretation s60: faithful_replica check_active_pool_webrtc_status_indicator_v16
  "\<lambda>w. replica_tags (run_s60_check (text_of w active_pool_path))" "\<lambda>_. True"
  unfolding check_active_pool_webrtc_status_indicator_v16_def run_s60_check_def by unfold_locales (rule with_text_replica; auto simp: missing_needles_def Let_def)

interpretation s61: faithful_replica check_skorlar_screen_fetch_scores_v17
  "\<lambda>w. replica_tags (run_s61_check (text_of w skorlar_path))" "\<lambda>_. True"
  unfolding check_skorlar_screen_fetch_scores_v17_def run_s61_check_def by unfold_locales (rule with_text_replica; auto simp: missing_needles_def Let_def)

interpretation s62: faithful_replica check_score_calculator_compute_v17
  "\<lambda>w. replica_tags (run_s62_check (text_of w score_calculator_path))" "\<lambda>_. True"
  unfolding check_score_calculator_compute_v17_def run_s62_check_def by unfold_locales (rule with_text_replica; auto simp: missing_needles_def Let_def)

interpretation s63: faithful_replica check_score_calculator_four_metrics_v17
  "\<lambda>w. replica_tags (run_s63_check (text_of w score_calculator_path))" "\<lambda>_. True"
  unfolding check_score_calculator_four_metrics_v17_def run_s63_check_def by unfold_locales (rule with_text_replica; auto simp: missing_needles_def Let_def)

interpretation s64: faithful_replica check_score_calculator_overall_weighted_sum_v17
  "\<lambda>w. replica_tags (run_s64_check (text_of w score_calculator_path))" "\<lambda>_. True"
  unfolding check_score_calculator_overall_weighted_sum_v17_def run_s64_check_def by unfold_locales (rule with_text_replica; auto simp: missing_needles_def Let_def)

interpretation s66: faithful_replica check_active_pool_oturumu_bitur_button_v17
  "\<lambda>w. replica_tags (run_s66_check (text_of w active_pool_path))" "\<lambda>_. True"
  unfolding check_active_pool_oturumu_bitur_button_v17_def run_s66_check_def by unfold_locales (rule with_text_replica; auto simp: missing_needles_def Let_def)

interpretation s67: faithful_replica check_active_pool_close_then_navigate_v17
  "\<lambda>w. replica_tags (run_s67_check (text_of w active_pool_path))" "\<lambda>_. True"
  unfolding check_active_pool_close_then_navigate_v17_def run_s67_check_def by unfold_locales (rule with_text_replica; auto simp: missing_needles_def Let_def)

interpretation s68: faithful_replica check_skorlar_empty_state_v17
  "\<lambda>w. replica_tags (run_s68_check (text_of w skorlar_path))" "\<lambda>_. True"
  unfolding check_skorlar_empty_state_v17_def run_s68_check_def by unfold_locales (rule with_text_replica; auto simp: missing_needles_def Let_def)

interpretation s69: faithful_replica check_skorlar_card_overall_gauge_v17
  "\<lambda>w. replica_tags (run_s69_check (text_of w skorlar_path))" "\<lambda>_. True"
  unfolding check_skorlar_card_overall_gauge_v17_def run_s69_check_def by unfold_locales (rule with_text_replica; auto simp: missing_needles_def Let_def)

interpretation s70: faithful_replica check_backend_sessions_close_handler_v17
  "\<lambda>w. replica_tags (run_s70_check (text_of w (backend_api_path ''router.go'')))" "\<lambda>_. True"
  unfolding check_backend_sessions_close_handler_v17_def run_s70_check_def by unfold_locales (rule with_text_replica; auto simp: missing_needles_def Let_def)

interpretation s71: faithful_replica check_backend_summary_stats_shape_v17
  "\<lambda>w. replica_tags (run_s71_check (text_of w (backend_api_path ''sessions.go'')))" "\<lambda>_. True"
  unfolding check_backend_summary_stats_shape_v17_def run_s71_check_def by unfold_locales (rule with_text_replica; auto simp: missing_needles_def Let_def)

interpretation s72: faithful_replica check_score_calculator_unit_tests_v17
  "\<lambda>w. replica_tags (run_s72_check (text_of w [''mobile'', ''test'', ''score_calculator_test.dart'']))" "\<lambda>_. True"
  unfolding check_score_calculator_unit_tests_v17_def run_s72_check_def by unfold_locales (rule with_text_replica; auto simp: missing_needles_def Let_def)

interpretation s28: faithful_replica check_pool_provider_no_fake_animation_v29
  "\<lambda>w. replica_tags (run_s28_check w (text_of w (state_path ''pool_provider.dart'')))" "\<lambda>_. True"
  unfolding check_pool_provider_no_fake_animation_v29_def run_s28_check_def
  by unfold_locales (rule with_text_replica; simp add: replica_tags_def case_prod_unfold comp_def Let_def)

lemma first_hit_None: "fst (first_hit w needle missing ts) = None \<longleftrightarrow> \<not> any_text needle (map (text_of w) ts)"
  by (induction ts arbitrary: missing) (auto simp: any_text_def try_read_text_of split: option.split dest: text_of_exists)

lemma service_texts: "map (text_of w) service_targets =
    [text_of w (services_path ''telemetry_service.dart''), text_of w (services_path ''p2p_matcher.dart'')]"
  by (simp add: service_targets_def)

interpretation s35: faithful_replica check_service_api_key_from_environment
  "\<lambda>w. replica_tags (run_s35_check (text_of w (services_path ''telemetry_service.dart'')) (text_of w (services_path ''p2p_matcher.dart'')))"
  "\<lambda>_. True"
proof
  fix w
  let ?needle = "lit ''String.fromEnvironment('' @ sq ''API_KEY''"
  show "\<exists>fs. check_service_api_key_from_environment w = Inr fs \<and> replica_tags (run_s35_check
      (text_of w (services_path ''telemetry_service.dart'')) (text_of w (services_path ''p2p_matcher.dart''))) = replica_tags fs"
    using first_hit_None [of w ?needle "[]" service_targets]
    unfolding check_service_api_key_from_environment_def run_s35_check_def service_texts
    by (cases "first_hit w ?needle [] service_targets") (auto split: option.split)
qed

interpretation s37: faithful_replica check_service_uses_auth_headers
  "\<lambda>w. replica_tags (run_s37_check (text_of w (services_path ''telemetry_service.dart'')) (text_of w (services_path ''p2p_matcher.dart'')))"
  "\<lambda>_. True"
proof
  fix w
  show "\<exists>fs. check_service_uses_auth_headers w = Inr fs \<and> replica_tags (run_s37_check
      (text_of w (services_path ''telemetry_service.dart'')) (text_of w (services_path ''p2p_matcher.dart''))) = replica_tags fs"
    using first_hit_None [of w "lit ''authHeaders()''" "[]" service_targets]
    unfolding check_service_uses_auth_headers_def run_s37_check_def service_texts
    by (cases "first_hit w (lit ''authHeaders()'') [] service_targets") (auto split: option.split)
qed

interpretation s44: verdict_replica check_whatsapp_deeplink_wa_me_format_v14
  "\<lambda>w. replica_tags (run_s44_check (text_of w deeplink_path) (text_of w task_detail_path))" "\<lambda>_. True"
  by unfold_locales (auto simp: check_whatsapp_deeplink_wa_me_format_v14_def run_s44_check_def with_text_cases
      on_text_def missing_needles_def split: option.splits)

text \<open>The pairs, with the replica applied to the texts of its files.\<close>

definition literal_pairs :: "((world \<Rightarrow> findings) \<times> (world \<Rightarrow> finding list)) list" where
  "literal_pairs = [
     (check_whatsapp_deeplink_literal_present, \<lambda>w. run_s26_check (text_of w task_detail_path)),
     (check_active_pool_linechart_literal_present, \<lambda>w. run_s27_check (text_of w active_pool_path)),
     (check_active_pool_haptic_feedback_literal_present, \<lambda>w. run_s29_check (text_of w active_pool_path)),
     (check_pool_provider_debug_state_fields, \<lambda>w. run_s33_check (text_of w (state_path ''pool_provider.dart''))),
     (check_active_pool_scaffold_messenger_snackbar, \<lambda>w. run_s34_check (text_of w active_pool_path)),
     (check_auth_token_expiry_field, \<lambda>w. run_s38_check (text_of w (services_path ''auth_service.dart''))),
     (check_auth_invalidate_method, \<lambda>w. run_s39_check (text_of w (services_path ''auth_service.dart''))),
     (check_whatsapp_deeplink_intent_format, \<lambda>w. run_s40_check (text_of w deeplink_path)),
     (check_p2p_matcher_sessions_endpoint, \<lambda>w. run_s41_check (text_of w (services_path ''p2p_matcher.dart''))),
     (check_android_manifest_whatsapp_queries_v12, \<lambda>w. run_s42_check (text_of w (queries_manifest_path w))),
     (check_vpn_service_packet_stream_getter_v15, \<lambda>w. run_s47_check (text_of w (services_path ''vpn_service.dart''))),
     (check_active_pool_packet_stream_listen_v15, \<lambda>w. run_s48_check (text_of w active_pool_path)),
     (check_sampled_packet_class_v15, \<lambda>w. run_s49_check (text_of w (services_path ''packet_parser.dart''))),
     (check_active_pool_no_30_call_loop_v15, \<lambda>w. run_s51_check (text_of w active_pool_path)),
     (check_telemetry_service_summary_upload_v15, \<lambda>w. run_s52_check (text_of w (services_path ''telemetry_service.dart''))),
     (check_pubspec_webrtc_dep_v16, \<lambda>w. run_s53_check (text_of w pubspec_yaml_path)),
     (check_webrtc_service_rtc_peer_connection_v16, \<lambda>w. run_s54_check (text_of w webrtc_path)),
     (check_webrtc_service_on_ice_candidate_v16, \<lambda>w. run_s55_check (text_of w webrtc_path)),
     (check_session_orchestrator_start_session_v16, \<lambda>w. run_s56_check (text_of w orchestrator_path)),
     (check_session_orchestrator_long_poll_v16, \<lambda>w. run_s57_check (text_of w orchestrator_path)),
     (check_webrtc_service_on_track_v16, \<lambda>w. run_s59_check (text_of w webrtc_path)),
     (check_active_pool_webrtc_status_indicator_v16, \<lambda>w. run_s60_check (text_of w active_pool_path)),
     (check_skorlar_screen_fetch_scores_v17, \<lambda>w. run_s61_check (text_of w skorlar_path)),
     (check_score_calculator_compute_v17, \<lambda>w. run_s62_check (text_of w score_calculator_path)),
     (check_score_calculator_four_metrics_v17, \<lambda>w. run_s63_check (text_of w score_calculator_path)),
     (check_score_calculator_overall_weighted_sum_v17, \<lambda>w. run_s64_check (text_of w score_calculator_path)),
     (check_active_pool_oturumu_bitur_button_v17, \<lambda>w. run_s66_check (text_of w active_pool_path)),
     (check_active_pool_close_then_navigate_v17, \<lambda>w. run_s67_check (text_of w active_pool_path)),
     (check_skorlar_empty_state_v17, \<lambda>w. run_s68_check (text_of w skorlar_path)),
     (check_skorlar_card_overall_gauge_v17, \<lambda>w. run_s69_check (text_of w skorlar_path)),
     (check_backend_sessions_close_handler_v17, \<lambda>w. run_s70_check (text_of w (backend_api_path ''router.go''))),
     (check_backend_summary_stats_shape_v17, \<lambda>w. run_s71_check (text_of w (backend_api_path ''sessions.go''))),
     (check_score_calculator_unit_tests_v17, \<lambda>w. run_s72_check (text_of w [''mobile'', ''test'', ''score_calculator_test.dart''])),
     (check_pool_provider_no_fake_animation_v29, \<lambda>w. run_s28_check w (text_of w (state_path ''pool_provider.dart''))),
     (check_service_api_key_from_environment, \<lambda>w. run_s35_check (text_of w (services_path ''telemetry_service.dart''))
        (text_of w (services_path ''p2p_matcher.dart''))),
     (check_service_uses_auth_headers, \<lambda>w. run_s37_check (text_of w (services_path ''telemetry_service.dart''))
        (text_of w (services_path ''p2p_matcher.dart'')))]"

lemmas literal_same = s26.same s27.same s29.same s33.same s34.same s38.same s39.same s40.same s41.same s42.same s47.same s48.same s49.same s51.same s52.same s53.same s54.same s55.same s56.same s57.same s59.same s60.same s61.same s62.same s63.same s64.same s66.same s67.same s68.same s69.same s70.same s71.same s72.same s28.same s35.same s37.same

subsection \<open>Properties\<close>

text \<open>C12. Thirty-six replicas of the literal checks are faithful: on every repository, files absent or unreadable
  included, the check raises nothing, and the replica on the texts of its files reports finding for finding what it reports.\<close>

theorem literal_replicas_report_the_findings:
  "list_all (\<lambda>(chk, run). \<exists>fs. chk w = Inr fs \<and> replica_tags (run w) = replica_tags fs) literal_pairs"
  unfolding literal_pairs_def list.pred_inject prod.case by (intro conjI literal_same list.pred_inject(1) TrueI)

text \<open>Replicas that are not faithful. S36: the check looks for \<open>post(\<close>, the replica for \<open>http.post\<close>. S46: the
  replica requires the \<open>snapshot()\<close> call, which the check does not. S65: only the check requires \<open>.post(\<close>.
  Each time the verdicts differ on every text of the described kind.\<close>

theorem replicas_with_other_needles:
  assumes "has_text w (services_path ''auth_service.dart'') auth" and "has auth ''/api/v1/auth''" and "has auth ''user_id''"
    and "has_text w (main_activity_path w) activity" and "\<not> has activity ''OpenE2eeVpnService.snapshot()''"
    and "\<not> contains (strip_comments activity) (dq ''srcIpMasked'')"
    and "has_text w orchestrator_path orch" and "has orch ''closeSession''" and "has orch ''/api/v1/sessions/''"
  shows "(check_auth_service_exists w = Inr [] \<longleftrightarrow> has auth ''post('') \<and>
    (run_s36_check (Some auth) = [] \<longleftrightarrow> has auth ''http.post'') \<and>
    check_main_activity_snapshot_call_v15 w = Inr [] \<and> run_s46_check (Some activity) \<noteq> [] \<and>
    (check_session_orchestrator_close_session_v17 w = Inr [] \<longleftrightarrow> has orch ''.post('') \<and> run_s65_check (Some orch) = []"
proof -
  have "has orch ''close''" using assms(8) by (auto simp: contains_iff lit_def)
  then show ?thesis
    using assms text_of_has_text [OF assms(1)] text_of_has_text [OF assms(4)] text_of_has_text [OF assms(7)]
    by (simp add: check_auth_service_exists_def run_s36_check_def check_main_activity_snapshot_call_v15_def run_s46_check_def
        check_session_orchestrator_close_session_v17_def run_s65_check_def with_text_cases on_text_def missing_needles_def)
qed

definition sample_repo :: node where
  "sample_repo = Dir [(''mobile'', Dir [
     (''lib'', Dir [(''services'', Dir [(''auth_service.dart'', File (Some (lit ''post(/api/v1/auth user_id''))),
        (''session_orchestrator.dart'', File (Some (lit ''closeSession /api/v1/sessions/'')))])]),
     (''android'', file_at [''app'', ''src'', ''main'', ''kotlin'', ''com'', ''opene2ee'', ''opene2ee'', ''MainActivity.kt''] [])])]"

theorem replicas_with_other_needles_witness:
  "run_s36_check (Some (lit ''post(/api/v1/auth user_id'')) \<noteq> [] \<and> check_auth_service_exists (mk_world sample_repo) = Inr [] \<and>
     check_main_activity_snapshot_call_v15 (mk_world sample_repo) = Inr [] \<and> run_s46_check (Some []) \<noteq> [] \<and>
     check_session_orchestrator_close_session_v17 (mk_world sample_repo) \<noteq> Inr []"
proof -
  let ?w = "mk_world sample_repo"
  have t: "has_text ?w (services_path ''auth_service.dart'') (lit ''post(/api/v1/auth user_id'')"
    "has_text ?w (main_activity_path ?w) []" "has_text ?w orchestrator_path (lit ''closeSession /api/v1/sessions/'')"
    by (simp_all add: has_text_def mk_world_def sample_repo_def services_path_def first_existing_def path_exists_def kotlin_path_def)
  have "strip_comments [] = []" by code_simp
  then show ?thesis
    using replicas_with_other_needles [OF t(1) _ _ t(2) _ _ t(3)] by (simp add: text_simps dq_def)
qed

subsection \<open>Literals in comments\<close>

locale needle_check =
  fixes chk :: "world \<Rightarrow> findings" and p :: path and needles :: "pystr list"
  assumes enough: "has_text w p t \<Longrightarrow> list_all (contains t) needles \<Longrightarrow> chk w = Inr []"
begin

lemma passes:
  assumes "has_text w p (u @ py_join (lit '' '') needles @ v)"
  shows "chk w = Inr []"
proof -
  have "contains (py_join sep ns) n" if "n \<in> set ns" for sep ns n
    using that by (induction sep ns rule: py_join.induct) (auto simp: contains_sublist sublist_append)
  then have "list_all (contains (u @ py_join (lit '' '') needles @ v)) needles"
    unfolding list_all_iff by (intro ballI contains_append2 contains_append1)
  with assms show ?thesis by (rule enough)
qed

end

interpretation raw26: needle_check check_whatsapp_deeplink_literal_present "task_detail_path"
  "[lit ''intent://send?text='']"
  by unfold_locales (simp add: check_whatsapp_deeplink_literal_present_def with_text_cases text_of_has_text missing_needles_def Let_def)

interpretation raw27: needle_check check_active_pool_linechart_literal_present "active_pool_path"
  "[lit ''LineChart'']"
  by unfold_locales (simp add: check_active_pool_linechart_literal_present_def with_text_cases text_of_has_text missing_needles_def Let_def)

interpretation raw29: needle_check check_active_pool_haptic_feedback_literal_present "active_pool_path"
  "[lit ''HapticFeedback'']"
  by unfold_locales (simp add: check_active_pool_haptic_feedback_literal_present_def with_text_cases text_of_has_text missing_needles_def Let_def)

interpretation raw33: needle_check check_pool_provider_debug_state_fields "(state_path ''pool_provider.dart'')"
  "[lit ''lastError'', lit ''lastSuccess'']"
  by unfold_locales (simp add: check_pool_provider_debug_state_fields_def with_text_cases text_of_has_text missing_needles_def Let_def)

interpretation raw34: needle_check check_active_pool_scaffold_messenger_snackbar "active_pool_path"
  "[lit ''ScaffoldMessenger.of(context).showSnackBar'']"
  by unfold_locales (simp add: check_active_pool_scaffold_messenger_snackbar_def with_text_cases text_of_has_text missing_needles_def Let_def)

interpretation raw36: needle_check check_auth_service_exists "(services_path ''auth_service.dart'')"
  "[lit ''post('', lit ''/api/v1/auth'', lit ''user_id'']"
  by unfold_locales (simp add: check_auth_service_exists_def with_text_cases text_of_has_text missing_needles_def Let_def)

interpretation raw38: needle_check check_auth_token_expiry_field "(services_path ''auth_service.dart'')"
  "[lit ''_tokenExpiresAt'']"
  by unfold_locales (simp add: check_auth_token_expiry_field_def with_text_cases text_of_has_text missing_needles_def Let_def)

interpretation raw39: needle_check check_auth_invalidate_method "(services_path ''auth_service.dart'')"
  "[lit ''invalidate()'']"
  by unfold_locales (simp add: check_auth_invalidate_method_def with_text_cases text_of_has_text missing_needles_def Let_def)

interpretation raw40: needle_check check_whatsapp_deeplink_intent_format "deeplink_path"
  "[lit ''intent://send?'', lit ''#Intent;scheme=whatsapp;package=com.whatsapp;end'']"
  by unfold_locales (simp add: check_whatsapp_deeplink_intent_format_def with_text_cases text_of_has_text missing_needles_def Let_def)

interpretation raw47: needle_check check_vpn_service_packet_stream_getter_v15 "(services_path ''vpn_service.dart'')"
  "[lit ''packetStream'', lit ''import '' @ sq ''package:flutter/services.dart'']"
  by unfold_locales (simp add: check_vpn_service_packet_stream_getter_v15_def with_text_cases text_of_has_text missing_needles_def Let_def)

interpretation raw48: needle_check check_active_pool_packet_stream_listen_v15 "active_pool_path"
  "[lit ''packetStream.listen'']"
  by unfold_locales (simp add: check_active_pool_packet_stream_listen_v15_def with_text_cases text_of_has_text missing_needles_def Let_def)

interpretation raw49: needle_check check_sampled_packet_class_v15 "(services_path ''packet_parser.dart'')"
  "[lit ''class SampledPacket'', lit ''fromBytes'', lit ''toJson'']"
  by unfold_locales (simp add: check_sampled_packet_class_v15_def with_text_cases text_of_has_text missing_needles_def Let_def)

interpretation raw52: needle_check check_telemetry_service_summary_upload_v15 "(services_path ''telemetry_service.dart'')"
  "[lit ''sendSummary'', lit ''/api/v1/sessions/'', lit ''encryptionIntegrityPct'', lit ''packetLossPct'']"
  by unfold_locales (simp add: check_telemetry_service_summary_upload_v15_def with_text_cases text_of_has_text missing_needles_def Let_def)

interpretation raw53: needle_check check_pubspec_webrtc_dep_v16 "pubspec_yaml_path"
  "[lit ''webrtc:'']"
  by unfold_locales (simp add: check_pubspec_webrtc_dep_v16_def with_text_cases text_of_has_text missing_needles_def Let_def)

interpretation raw54: needle_check check_webrtc_service_rtc_peer_connection_v16 "webrtc_path"
  "[lit ''import '' @ sq ''package:flutter_webrtc/flutter_webrtc.dart'', lit ''RTCPeerConnection'', lit ''createPeerConnection'']"
  by unfold_locales (simp add: check_webrtc_service_rtc_peer_connection_v16_def with_text_cases text_of_has_text missing_needles_def Let_def)

interpretation raw55: needle_check check_webrtc_service_on_ice_candidate_v16 "webrtc_path"
  "[lit ''onIceCandidate'', sq ''candidate'', lit ''sdpMid'']"
  by unfold_locales (simp add: check_webrtc_service_on_ice_candidate_v16_def with_text_cases text_of_has_text missing_needles_def Let_def)

interpretation raw56: needle_check check_session_orchestrator_start_session_v16 "orchestrator_path"
  "[lit ''startSession'', lit ''authHeaders'', lit ''/api/v1/sessions'']"
  by unfold_locales (simp add: check_session_orchestrator_start_session_v16_def with_text_cases text_of_has_text missing_needles_def Let_def)

interpretation raw57: needle_check check_session_orchestrator_long_poll_v16 "orchestrator_path"
  "[lit ''_pollTimeout'', lit ''.get('', lit ''pollForOffer'']"
  by unfold_locales (simp add: check_session_orchestrator_long_poll_v16_def with_text_cases text_of_has_text missing_needles_def Let_def)

interpretation raw58: needle_check check_backend_webrtc_long_poll_handlers_v16 "(backend_api_path ''router.go'')"
  "[lit ''r.Get('' @ dq ''/webrtc/offer'', lit ''r.Get('' @ dq ''/webrtc/answer'']"
  by unfold_locales (simp add: check_backend_webrtc_long_poll_handlers_v16_def with_text_cases text_of_has_text missing_needles_def Let_def)

interpretation raw59: needle_check check_webrtc_service_on_track_v16 "webrtc_path"
  "[lit ''onTrack'', lit ''get onTrack'']"
  by unfold_locales (simp add: check_webrtc_service_on_track_v16_def with_text_cases text_of_has_text missing_needles_def Let_def)

interpretation raw60: needle_check check_active_pool_webrtc_status_indicator_v16 "active_pool_path"
  "[negotiating_label, connected_label, lit ''hata'']"
  by unfold_locales (simp add: check_active_pool_webrtc_status_indicator_v16_def with_text_cases text_of_has_text missing_needles_def Let_def)

interpretation raw61: needle_check check_skorlar_screen_fetch_scores_v17 "skorlar_path"
  "[lit ''Future<List<SessionScore>>'', lit ''ConsumerState<'', lit ''fetchScores'']"
  by unfold_locales (simp add: check_skorlar_screen_fetch_scores_v17_def with_text_cases text_of_has_text missing_needles_def Let_def)

interpretation raw62: needle_check check_score_calculator_compute_v17 "score_calculator_path"
  "[lit ''class SessionScoreCalculator'', lit ''static SessionScore compute'']"
  by unfold_locales (simp add: check_score_calculator_compute_v17_def with_text_cases text_of_has_text missing_needles_def Let_def)

interpretation raw63: needle_check check_score_calculator_four_metrics_v17 "score_calculator_path"
  "[lit ''encryptionIntegrityPct'', lit ''packetLossPct'', lit ''meanLatencyMs'', lit ''jitterMs'']"
  by unfold_locales (simp add: check_score_calculator_four_metrics_v17_def with_text_cases text_of_has_text missing_needles_def Let_def)

interpretation raw64: needle_check check_score_calculator_overall_weighted_sum_v17 "score_calculator_path"
  "[lit ''0.4 *'', lit ''0.3 *'', lit ''0.2 *'', lit ''0.1 *'']"
  by unfold_locales (simp add: check_score_calculator_overall_weighted_sum_v17_def with_text_cases text_of_has_text missing_needles_def Let_def)

interpretation raw65: needle_check check_session_orchestrator_close_session_v17 "orchestrator_path"
  "[lit ''closeSession'', lit ''/api/v1/sessions/'', lit ''close'', lit ''.post('']"
  by unfold_locales (simp add: check_session_orchestrator_close_session_v17_def with_text_cases text_of_has_text missing_needles_def Let_def)

interpretation raw66: needle_check check_active_pool_oturumu_bitur_button_v17 "active_pool_path"
  "[lit ''Oturumu Bitir'']"
  by unfold_locales (simp add: check_active_pool_oturumu_bitur_button_v17_def with_text_cases text_of_has_text missing_needles_def Let_def)

interpretation raw67: needle_check check_active_pool_close_then_navigate_v17 "active_pool_path"
  "[lit ''closeSession'', lit ''/home/skorlar'']"
  by unfold_locales (simp add: check_active_pool_close_then_navigate_v17_def with_text_cases text_of_has_text missing_needles_def Let_def)

interpretation raw68: needle_check check_skorlar_empty_state_v17 "skorlar_path"
  "[empty_state_text]"
  by unfold_locales (simp add: check_skorlar_empty_state_v17_def with_text_cases text_of_has_text missing_needles_def Let_def)

interpretation raw69: needle_check check_skorlar_card_overall_gauge_v17 "skorlar_path"
  "[lit ''SessionScoreCard'', lit ''overallScore'']"
  by unfold_locales (simp add: check_skorlar_card_overall_gauge_v17_def with_text_cases text_of_has_text missing_needles_def Let_def)

interpretation raw70: needle_check check_backend_sessions_close_handler_v17 "(backend_api_path ''router.go'')"
  "[lit ''r.Post('' @ dq ''/sessions/{id}/close'']"
  by unfold_locales (simp add: check_backend_sessions_close_handler_v17_def with_text_cases text_of_has_text missing_needles_def Let_def)

text \<open>The checks with the file they read and literals that satisfy them.\<close>

definition raw_checks :: "((world \<Rightarrow> findings) \<times> path \<times> pystr list) list" where
  "raw_checks = [
     (check_whatsapp_deeplink_literal_present, task_detail_path, [lit ''intent://send?text='']),
     (check_active_pool_linechart_literal_present, active_pool_path, [lit ''LineChart'']),
     (check_active_pool_haptic_feedback_literal_present, active_pool_path, [lit ''HapticFeedback'']),
     (check_pool_provider_debug_state_fields, (state_path ''pool_provider.dart''), [lit ''lastError'', lit ''lastSuccess'']),
     (check_active_pool_scaffold_messenger_snackbar, active_pool_path, [lit ''ScaffoldMessenger.of(context).showSnackBar'']),
     (check_auth_service_exists, (services_path ''auth_service.dart''), [lit ''post('', lit ''/api/v1/auth'', lit ''user_id'']),
     (check_auth_token_expiry_field, (services_path ''auth_service.dart''), [lit ''_tokenExpiresAt'']),
     (check_auth_invalidate_method, (services_path ''auth_service.dart''), [lit ''invalidate()'']),
     (check_whatsapp_deeplink_intent_format, deeplink_path, [lit ''intent://send?'', lit ''#Intent;scheme=whatsapp;package=com.whatsapp;end'']),
     (check_vpn_service_packet_stream_getter_v15, (services_path ''vpn_service.dart''), [lit ''packetStream'', lit ''import '' @ sq ''package:flutter/services.dart'']),
     (check_active_pool_packet_stream_listen_v15, active_pool_path, [lit ''packetStream.listen'']),
     (check_sampled_packet_class_v15, (services_path ''packet_parser.dart''), [lit ''class SampledPacket'', lit ''fromBytes'', lit ''toJson'']),
     (check_telemetry_service_summary_upload_v15, (services_path ''telemetry_service.dart''), [lit ''sendSummary'', lit ''/api/v1/sessions/'', lit ''encryptionIntegrityPct'', lit ''packetLossPct'']),
     (check_pubspec_webrtc_dep_v16, pubspec_yaml_path, [lit ''webrtc:'']),
     (check_webrtc_service_rtc_peer_connection_v16, webrtc_path, [lit ''import '' @ sq ''package:flutter_webrtc/flutter_webrtc.dart'', lit ''RTCPeerConnection'', lit ''createPeerConnection'']),
     (check_webrtc_service_on_ice_candidate_v16, webrtc_path, [lit ''onIceCandidate'', sq ''candidate'', lit ''sdpMid'']),
     (check_session_orchestrator_start_session_v16, orchestrator_path, [lit ''startSession'', lit ''authHeaders'', lit ''/api/v1/sessions'']),
     (check_session_orchestrator_long_poll_v16, orchestrator_path, [lit ''_pollTimeout'', lit ''.get('', lit ''pollForOffer'']),
     (check_backend_webrtc_long_poll_handlers_v16, (backend_api_path ''router.go''), [lit ''r.Get('' @ dq ''/webrtc/offer'', lit ''r.Get('' @ dq ''/webrtc/answer'']),
     (check_webrtc_service_on_track_v16, webrtc_path, [lit ''onTrack'', lit ''get onTrack'']),
     (check_active_pool_webrtc_status_indicator_v16, active_pool_path, [negotiating_label, connected_label, lit ''hata'']),
     (check_skorlar_screen_fetch_scores_v17, skorlar_path, [lit ''Future<List<SessionScore>>'', lit ''ConsumerState<'', lit ''fetchScores'']),
     (check_score_calculator_compute_v17, score_calculator_path, [lit ''class SessionScoreCalculator'', lit ''static SessionScore compute'']),
     (check_score_calculator_four_metrics_v17, score_calculator_path, [lit ''encryptionIntegrityPct'', lit ''packetLossPct'', lit ''meanLatencyMs'', lit ''jitterMs'']),
     (check_score_calculator_overall_weighted_sum_v17, score_calculator_path, [lit ''0.4 *'', lit ''0.3 *'', lit ''0.2 *'', lit ''0.1 *'']),
     (check_session_orchestrator_close_session_v17, orchestrator_path, [lit ''closeSession'', lit ''/api/v1/sessions/'', lit ''close'', lit ''.post('']),
     (check_active_pool_oturumu_bitur_button_v17, active_pool_path, [lit ''Oturumu Bitir'']),
     (check_active_pool_close_then_navigate_v17, active_pool_path, [lit ''closeSession'', lit ''/home/skorlar'']),
     (check_skorlar_empty_state_v17, skorlar_path, [empty_state_text]),
     (check_skorlar_card_overall_gauge_v17, skorlar_path, [lit ''SessionScoreCard'', lit ''overallScore'']),
     (check_backend_sessions_close_handler_v17, (backend_api_path ''router.go''), [lit ''r.Post('' @ dq ''/sessions/{id}/close''])]"

lemmas raw_passes = raw26.passes raw27.passes raw29.passes raw33.passes raw34.passes raw36.passes raw38.passes raw39.passes raw40.passes raw47.passes raw48.passes raw49.passes raw52.passes raw53.passes raw54.passes raw55.passes raw56.passes raw57.passes raw58.passes raw59.passes raw60.passes raw61.passes raw62.passes raw63.passes raw64.passes raw65.passes raw66.passes raw67.passes raw68.passes raw69.passes raw70.passes

text \<open>A literal satisfies the checks on raw text wherever it stands, in a comment too: each of thirty-one checks
  passes on every file that contains its literals, joined by spaces.\<close>

theorem raw_literals_pass_anywhere:
  assumes "(chk, p, needles) \<in> set raw_checks" and "has_text w p (u @ py_join (lit '' '') needles @ v)"
  shows "chk w = Inr []"
proof -
  have "list_all (\<lambda>(chk, p, needles). has_text w p (u @ py_join (lit '' '') needles @ v) \<longrightarrow> chk w = Inr []) raw_checks"
    unfolding raw_checks_def list.pred_inject prod.case by (intro conjI impI list.pred_inject(1)) (rule raw_passes, assumption)+
  with assms show ?thesis by (auto simp: list_all_iff)
qed

theorem raw_literals_pass_anywhere_witness:
  "check_active_pool_linechart_literal_present (mk_world (file_at active_pool_path (lit ''// LineChart''))) = Inr []"
proof (rule raw_literals_pass_anywhere)
  show "(check_active_pool_linechart_literal_present, active_pool_path, [lit ''LineChart'']) \<in> set raw_checks"
    by (simp add: raw_checks_def)
  show "has_text (mk_world (file_at active_pool_path (lit ''// LineChart''))) active_pool_path
      (lit ''// '' @ py_join (lit '' '') [lit ''LineChart''] @ [])"
    using has_text_file_at [of active_pool_path "lit ''// LineChart''"] by (simp add: lit_def)
qed

end
