(* ===== verification/Vpn_Replicas.thy ===== *)
theory Vpn_Replicas
  imports Audit_Main Literal_Replicas
begin

section \<open>The self-test's replicas of the VPN checks (S25, S73 to S115)\<close>

text \<open>
  The functions \<open>run_s73_check\<close> to \<open>run_s111_check\<close> and \<open>run_s115_check\<close> of tools/audit-self-test.py, on the texts
  of the files, None for a missing one, and \<open>run_s25_check\<close>. From S100 on the audit bundles several invariants in
  one check, while the self-test has a replica for each.
\<close>

subsection \<open>S25\<close>

definition run_s25_check :: "pystr option \<Rightarrow> pystr option \<Rightarrow> finding list" where
  "run_s25_check main_text screens_text = concat (map (\<lambda>(label, t). case t of None \<Rightarrow> []
     | Some text \<Rightarrow> if has (py_lower text) ''vpn'' then [Finding ''S25'' ''vpn'' [lit label]] else [])
     [(''main'', main_text), (''screens'', screens_text)])"

subsection \<open>S73 to S84\<close>

definition run_s73_check :: "pystr option \<Rightarrow> finding list" where
  "run_s73_check t = on_text ''S73'' t (\<lambda>text.
     let code = strip_comments_dart text;
         has_const = has code ''OpenE2eeVpnService.METHOD_CHANNEL'';
         has_literal = contains code (dq ''opene2ee/vpn'') \<or> contains code (sq ''opene2ee/vpn'')
     in need ''S73'' ''MethodChannel('' (has code ''MethodChannel('') @
        need ''S73'' ''opene2ee/vpn'' (has_const \<or> has_literal) @
        need_all ''S73'' [''setMethodCallHandler'', ''OpenE2eeVpnService.dispatch''] code)"

definition run_s74_check :: "pystr option \<Rightarrow> finding list" where
  "run_s74_check t = on_text ''S74'' t (\<lambda>text.
     let code = strip_comments_dart text in
     need_all ''S74'' [''startForeground('', ''FOREGROUND_SERVICE_TYPE_SPECIAL_USE''] code @
     (if \<not> has code ''createNotificationChannel'' \<and> \<not> has code ''ensureNotificationChannel''
      then [Finding ''S74'' ''createNotificationChannel'' []] else []) @
     need_all ''S74'' [''onStartCommand''] code @
     (case re_search onstart_re code of
        None \<Rightarrow> [Finding ''S74'' ''body not found'' []]
      | Some onstart_match \<Rightarrow>
          let body = onstart_body code onstart_match;
              has_direct = has body ''startForeground('';
              has_helper = has body ''ensureForegroundService'' \<or> has body ''startForegroundCompat''
          in need ''S74'' ''body does not call startForeground'' (has_direct \<or> has_helper)))"

definition run_s75_check :: "pystr option \<Rightarrow> finding list" where
  "run_s75_check t = on_text ''S75'' t (\<lambda>text.
     let log_d_count = py_count (strip_comments_dart text) (lit ''Log.d(TAG,'') in
     if log_d_count < 5 then [Finding ''S75'' ''too few Log.d'' [show_nat log_d_count]] else [])"

text \<open>\<open>VpnService\._(?:internal)?\s*\(\<close>\<close>

definition internal_ctor_re :: re where
  "internal_ctor_re = Seq [Str (lit ''VpnService._''), Opt (Str (lit ''internal'')), Star True Spc, Str (lit ''('')]"

definition run_s76_check :: "pystr option \<Rightarrow> finding list" where
  "run_s76_check t = on_text ''S76'' t (\<lambda>text.
     let has_private_ctor = re_found internal_ctor_re text;
         has_getter = has text ''static VpnService get instance'';
         has_field = has text ''static final VpnService _instance''
     in need ''S76'' ''private constructor'' has_private_ctor @
        need ''S76'' ''singleton accessor'' (has_getter \<or> has_field) @
        forbid ''S76'' ''public default constructor'' (re_found default_ctor_re (strip_comments_dart text)))"

definition run_s77_check :: "pystr option \<Rightarrow> finding list" where
  "run_s77_check t = on_text ''S77'' t (\<lambda>text.
     need_all ''S77'' [''ConsumerStatefulWidget''] text @
     (if \<not> has text ''stateStream.listen'' \<and> \<not> has text ''.stateStream.listen''
      then [Finding ''S77'' ''stateStream.listen'' []] else []) @
     need_all ''S77'' [''setState(''] text @
     (if \<not> has text ''VpnService.instance'' \<and> \<not> has text ''vpnServiceProvider''
      then [Finding ''S77'' ''VpnService.instance'' []] else []))"

definition run_s78_check :: "pystr option \<Rightarrow> finding list" where
  "run_s78_check t = on_text ''S78'' t (\<lambda>text.
     let code = strip_comments_dart text in
     need_all ''S78'' [''startCapture: SAMPLING started'', ''stopCapture: called'', ''onRevoke:''] code @
     need ''S78'' ''synchronized(stateLock)'' (has code ''synchronized('' \<and> has code ''stateLock''))"

definition run_s79_check :: "pystr option \<Rightarrow> finding list" where
  "run_s79_check t = on_text ''S79'' t (\<lambda>text.
     let code = strip_comments_dart text;
         has_literal = re_found default_route_re code;
         has_constant = has code ''CAPTURED_ROUTE_ADDRESS'' \<and> has code ''CAPTURED_ROUTE_PREFIX''
     in need_all ''S79'' [''.addAddress(TUN_ADDRESS''] code @
        need ''S79'' ''default route'' (has_literal \<or> has_constant) @
        forbid ''S79'' ''.addRoute(TUN_ADDRESS'' (re_found bad_route_re code))"

definition run_s80_check :: "pystr option \<Rightarrow> finding list" where
  "run_s80_check t = on_text ''S80'' t (\<lambda>text.
     let code = strip_comments_dart text;
         has_passthrough = has code ''output.write(buf'' \<or> has code ''tunOutput.write('' \<or> has code ''tun.write('';
         has_input_read = has code ''input.read(buf'' \<or> has code ''tunInput.read('' \<or> has code ''tun.read(''
     in need ''S80'' ''passthrough write'' has_passthrough @ need ''S80'' ''input read'' has_input_read @
        forbid ''S80'' ''protect(Socket())'' (re_found protect_socket_re code))"

definition run_s82_check :: "pystr option \<Rightarrow> finding list" where
  "run_s82_check t = on_text ''S82'' t (\<lambda>text.
     let code = strip_comments_dart text;
         invoke_call_count = length (re_finditer invoke_re code);
         post_count = length (re_finditer main_post_re code)
     in need_all ''S82'' [''import android.os.Handler'', ''import android.os.Looper''] code @
        need ''S82'' ''Handler(Looper.getMainLooper())'' (re_found main_looper_re code) @
        need_all ''S82'' [''mainHandler.post''] code @
        (if invoke_call_count > post_count
         then [Finding ''S82'' ''invokeMethod not wrapped'' [show_nat invoke_call_count, show_nat post_count, show_nat invoke_call_count]]
         else []))"

text \<open>In the replica of S84 the counter may be set in \<open>startCapture\<close> only.\<close>

definition s84_replica_increment :: "world \<Rightarrow> pystr \<Rightarrow> finding list" where
  "s84_replica_increment w code =
     (case re_finditer increment_re code of
        [] \<Rightarrow> [Finding ''S84'' ''no increment'' []]
      | [m] \<Rightarrow>
          let inc_pos = m_start m; func_match = enclosing_fun w code inc_pos in
          if func_match = None \<or> fun_name func_match \<noteq> lit ''startReaderThread''
          then [Finding ''S84'' ''increment in another function'' [fun_name func_match]]
          else let window_before = take (inc_pos - (inc_pos - 600)) (drop (inc_pos - 600) code)
            in need ''S84'' ''increment before extractMetadata'' (has window_before ''extractMetadata'')
      | ms \<Rightarrow> [Finding ''S84'' ''several increments'' [show_nat (length ms)]])"

definition run_s84_check :: "world \<Rightarrow> pystr option \<Rightarrow> finding list" where
  "run_s84_check w t = on_text ''S84'' t (\<lambda>text.
     let code = strip_comments_dart text in
     s84_replica_increment w code @
     concat (map (\<lambda>sm. let func_name = fun_name (enclosing_fun w code (m_start sm))
       in if func_name \<noteq> lit ''startCapture'' then [Finding ''S84'' ''set in another function'' [func_name]] else [])
       (re_finditer counter_set_re code)) @
     forbid ''S84'' ''set(get() + 1)'' (re_found counter_bump_re code))"

subsection \<open>S86 to S94\<close>

definition run_s86_check :: "world \<Rightarrow> pystr option \<Rightarrow> finding list" where
  "run_s86_check w t = on_text ''S86'' t (\<lambda>text.
     let code = strip_comments_dart text in
     concat (map (\<lambda>m_call. let cb_name = callback_name w (take 200 (drop (m_end m_call) code))
       in if cb_name \<in> set (map lit [''_mockTick'', ''_tick'', ''advance'', ''fakeTick''])
          then [Finding ''S86'' ''mock callback'' [cb_name]] else []) (re_finditer timer_periodic_re code)) @
     concat (map (\<lambda>(pat, label, why). forbid ''S86'' ''forbidden call'' (re_found pat code)) forbidden_call_patterns) @
     (if \<not> has code ''_vpn.packetStream.listen'' \<and> \<not> has code ''packetStream.listen''
      then [Finding ''S86'' ''packetStream.listen'' []] else []) @
     (if \<not> has code ''_vpn.stateStream.listen'' \<and> \<not> has code ''stateStream.listen''
      then [Finding ''S86'' ''stateStream.listen'' []] else []))"

definition run_s87_check :: "pystr option \<Rightarrow> finding list" where
  "run_s87_check t = on_text ''S87'' t (\<lambda>text.
     let code = strip_comments_dart text
     in need ''S87'' ''TUN_MTU = 1400'' (re_found (mtu_re ''1400'') code) @
        forbid ''S87'' ''TUN_MTU = 1500'' (re_found (mtu_re ''1500'') code) @
        need ''S87'' ''addDnsServer''
          (has code ''addDnsServer(PRIMARY_DNS'' \<or> has code ''addDnsServer(1.1.1.1'' \<or> has code ''addDnsServer(8.8.8.8'') @
        need_all ''S87'' [''ipFragmentCount''] code @
        (if \<not> has code ''fragmentRatePct'' \<and> \<not> has code ''fragmentCount='' then [Finding ''S87'' ''fragment log'' []] else []))"

definition run_s88_check :: "pystr option \<Rightarrow> pystr option \<Rightarrow> finding list" where
  "run_s88_check active_pool main_activity =
     on_text ''S88'' active_pool (\<lambda>active_pool_text.
       need ''S88'' ''stop().timeout('' (re_found stop_timeout_re active_pool_text) @
       need_all ''S88'' [''TimeoutException'', ''opene2ee/permissions'', ''disconnectVpn''] active_pool_text @
       forbid ''S88'' ''return on a null session'' (re_found null_session_re active_pool_text)) @
     on_text ''S88'' main_activity (\<lambda>main_activity_text.
       need ''S88'' ''fun disconnectVpn'' (re_found disconnect_fun_re main_activity_text) @
       need_all ''S88'' [''stopService'', ''VpnService.prepare'', ''OpenE2eeVpnService::class.java''] main_activity_text @
       need ''S88'' ''disconnectVpn case'' (re_found disconnect_case_re main_activity_text))"

definition run_s89_check :: "pystr option \<Rightarrow> finding list" where
  "run_s89_check t = on_text ''S89'' t (\<lambda>text.
     (if \<not> has text ''_packetSub?.cancel()'' \<and> \<not> has text ''_packetSub.cancel()'' then [Finding ''S89'' ''_packetSub.cancel()'' []] else []) @
     (if \<not> has text ''_stateSub?.cancel()'' \<and> \<not> has text ''_stateSub.cancel()'' then [Finding ''S89'' ''_stateSub.cancel()'' []] else []) @
     need_all ''S89'' [''_toplamPaket = 0'', ''_vpnState = VpnLifecycleState.idle''] text @
     need ''S89'' ''setState'' (re_found set_state_re text) @
     need_all ''S89'' [''_disconnectInProgress = true'', ''_disconnectInProgress = false''] text @
     (if \<not> contains text (lit ''context.go('' @ sq ''/home/gorevler'' @ lit '')'') \<and>
         \<not> contains text (lit ''context.go('' @ dq ''/home/gorevler'' @ lit '')'')
      then [Finding ''S89'' ''context.go(/home/gorevler)'' []] else []))"

definition run_s91_check :: "pystr option \<Rightarrow> pystr option \<Rightarrow> finding list" where
  "run_s91_check vpn_service active_pool =
     on_text ''S91'' vpn_service
       (need_all ''S91'' [''isPrivateDnsActive'', ''import android.net.ConnectivityManager'', ''bindProcessToNetwork'']) @
     on_text ''S91'' active_pool (need_all ''S91'' [''private_dns_active'', ''chrome://flags/#dns-httpssvc''])"

definition run_s92_check :: "pystr option \<Rightarrow> finding list" where
  "run_s92_check t = on_text ''S92'' t
     (need_all ''S92'' [''COUNTDOWN_TOTAL_MS'', ''setUsesChronometer(true)'', ''setWhen('', ''scheduleCountdownAutoStop'',
       ''mainHandler.postDelayed'', ''stopCapture(graceful = true)'', ''countdownAutoStopRunnable''])"

definition run_s93_check :: "pystr option \<Rightarrow> finding list" where
  "run_s93_check t = on_text ''S93'' t (\<lambda>text.
     need ''S93'' ''passthroughCount declaration'' (re_found passthrough_decl_re text) @
     need_all ''S93'' [''passthroughCount.set(0)'', ''pfd.fileDescriptor.valid'', ''passthroughCount.incrementAndGet''] text @
     need ''S93'' ''catch (t: Throwable)'' (re_found throwable_catch_re text) @
     need_all ''S93'' [''passthroughGap''] text)"

definition run_s94_check :: "pystr option \<Rightarrow> finding list" where
  "run_s94_check t = on_text ''S94'' t (need_all ''S94'' [''CHANGE_NETWORK_STATE''])"

subsection \<open>S95 to S99\<close>

definition run_s95_check :: "pystr option \<Rightarrow> finding list" where
  "run_s95_check t = on_text ''S95'' t (\<lambda>text.
     let stripped = strip_comments_sub text;
         ring_clear_count = py_count stripped (lit ''synchronized(ringLock) { ring.clear() }'');
         packets_set_zero_count = py_count stripped (lit ''packetsObserved.set(0)'')
     in (if ring_clear_count < 2 then [Finding ''S95'' ''ring.clear()'' [show_nat ring_clear_count]] else []) @
        (if packets_set_zero_count < 3 then [Finding ''S95'' ''packetsObserved.set(0)'' [show_nat packets_set_zero_count]] else []))"

definition run_s96_check :: "pystr option \<Rightarrow> finding list" where
  "run_s96_check t = on_text ''S96'' t (\<lambda>text. missing_tokens ''S96''
     [(''1.ENTRY'', ''DNS: checkPrivateDnsAndBindToVpn: ENTRY''), (''2.isPrivateDnsActive'', ''isPrivateDnsActive=''),
      (''3.requestNetwork start'', ''ConnectivityManager.requestNetwork(TRANSPORT_VPN) start''),
      (''4a.onAvailable'', ''NetworkCallback.onAvailable''), (''4b.onUnavailable'', ''NetworkCallback.onUnavailable''),
      (''5.bindProcessToNetwork result'', ''bindProcessToNetwork(vpn) result='')] (strip_comments_sub text))"

definition run_s97_check :: "pystr option \<Rightarrow> finding list" where
  "run_s97_check t = on_text ''S97'' t (\<lambda>text. missing_tokens ''S97''
     [(''a.callbackFired flag'', ''callbackFired''), (''b.fallback Handler'', ''Handler(Looper.getMainLooper())''),
      (''c.postDelayed scheduling'', ''postDelayed(''), (''d.fallback timeout breadcrumb'', ''NetworkCallback TIMEOUT''),
      (''e.fallback bind log'', ''FALLBACK bindProcessToNetwork(activeNetwork)''),
      (''f.TRANSPORT_VPN check'', ''hasTransport(NetworkCapabilities.TRANSPORT_VPN)''),
      (''g.Magisk DenyList hint'', ''Magisk DenyList''),
      (''h.removeCallbacks in lambdas'', ''removeCallbacks(fallbackRunnable)'')] (strip_comments_sub text))"

definition run_s98_check :: "pystr option \<Rightarrow> finding list" where
  "run_s98_check t = on_text ''S98'' t (\<lambda>text.
     need_all ''S98'' [''fallbackAttemptCount'', ''attempt 1/2'', ''lateinit var fallbackRunnable''] text @
     (case find_sub text s98_call of
        None \<Rightarrow> [Finding ''S98'' ''call site missing'' []]
      | Some call_site_pos \<Rightarrow>
          (case find_after text (lit ''builder.establish()'') call_site_pos of
             None \<Rightarrow> [Finding ''S98'' ''establish missing'' []]
           | Some establish_pos \<Rightarrow>
               if call_site_pos > establish_pos
               then [Finding ''S98'' ''call after establish''
                       [show_nat (line_at text call_site_pos), show_nat (line_at text establish_pos)]]
               else [])))"

definition run_s99_check :: "pystr option \<Rightarrow> pystr option \<Rightarrow> pystr option \<Rightarrow> finding list" where
  "run_s99_check vpn_service build_gradle netty_channel =
     on_text ''S99'' build_gradle (need_all ''S99'' [''io.netty:netty-all'']) @
     on_text ''S99'' netty_channel (need_all ''S99'' [''VpnService.protect('', ''class NettyChannelClient'']) @
     on_text ''S99'' vpn_service (need_all ''S99'' [''user-space''])"

subsection \<open>S100 to S105\<close>

definition run_s100_check :: "pystr option \<Rightarrow> finding list" where
  "run_s100_check t = on_text ''S100'' t (\<lambda>text.
     need_all ''S100'' [''fun handleTcpPacket('', ''data class TcpConnection''] (strip_comments_dart text))"

definition run_s101_check :: "pystr option \<Rightarrow> finding list" where
  "run_s101_check t = on_text ''S101'' t (\<lambda>text.
     let code = strip_comments_dart text in
     need_all ''S101'' [''enum class TcpState''] code @
     need_all ''S101'' [''LISTEN'', ''SYN_SENT'', ''ESTABLISHED'', ''FIN_WAIT_1'', ''FIN_WAIT_2'', ''CLOSE_WAIT'', ''LAST_ACK'',
       ''TIME_WAIT'', ''CLOSED''] code)"

definition run_s102_check :: "pystr option \<Rightarrow> finding list" where
  "run_s102_check t = on_text ''S102'' t (\<lambda>text.
     let code = strip_comments_dart text in
     need_all ''S102'' [''SYN, flow'', ''SYN+ACK received''] code @
     need ''S102'' ''ACK breadcrumb'' (has code ''ACK, flow'' \<or> has code ''ACK ->'') @
     need_all ''S102'' [''-> ESTABLISHED''] code)"

definition run_s103_check :: "pystr option \<Rightarrow> finding list" where
  "run_s103_check t = on_text ''S103'' t (\<lambda>text. need_all ''S103'' [''fun handleUdpPacket(''] (strip_comments_dart text))"

definition run_s104_check :: "pystr option \<Rightarrow> finding list" where
  "run_s104_check t = on_text ''S104'' t (\<lambda>text. need_all ''S104'' [''DatagramSocket''] (strip_comments_dart text))"

definition run_s105_check :: "pystr option \<Rightarrow> finding list" where
  "run_s105_check t = on_text ''S105'' t (\<lambda>text.
     let code = strip_comments_dart text in
     (case find_sub code (lit ''DatagramSocket'') of
        None \<Rightarrow> []
      | Some ds_idx \<Rightarrow> need ''S105'' ''protect('' (find_after code (lit ''protect('') ds_idx \<noteq> None)))"

subsection \<open>S106 to S111, S115\<close>

definition run_s106_check :: "pystr option \<Rightarrow> pystr option \<Rightarrow> finding list" where
  "run_s106_check vpn_service netty = on_text ''S106'' vpn_service (\<lambda>vpn_service_text. on_text ''S106'' netty (\<lambda>netty_text.
     let vpn_code = strip_comments_dart vpn_service_text; netty_code = strip_comments_dart netty_text in
     need_all ''S106'' [''TCP packet ENTRY'', ''parseTcpHeader dstPort='', ''handleTcpPacket dispatch''] vpn_code @
     (if \<not> has netty_code ''new TcpConnection'' \<and> \<not> has netty_code ''TcpConnection()''
      then [Finding ''S106'' ''new TcpConnection'' []] else []) @
     (if \<not> has netty_code ''-> SYN_SENT'' \<and> \<not> has netty_code ''-> ESTABLISHED''
      then [Finding ''S106'' ''state transition'' []] else [])))"

definition run_s107_check :: "pystr option \<Rightarrow> finding list" where
  "run_s107_check t = on_text ''S107'' t (\<lambda>text.
     let code = strip_comments_dart text in
     (if \<not> has code ''var handled'' \<and> \<not> has code ''val handled'' then [Finding ''S107'' ''handled'' []] else []) @
     (if has code ''output.write'' then
        (case handled_pos code of
           None \<Rightarrow> []
         | Some handled_idx \<Rightarrow>
             let after = drop handled_idx code in
             if has after ''output.write'' \<and> has after ''if (handled)''
             then need ''S107'' ''skip not logged'' (has after ''passthrough SKIPPED'')
             else [Finding ''S107'' ''if (handled)'' []])
      else []) @
     need_all ''S107'' [''passthrough SKIPPED''] code)"

definition run_s108_check :: "pystr option \<Rightarrow> finding list" where
  "run_s108_check t = on_text ''S108'' t (\<lambda>text.
     need_all ''S108'' [''primaryFlowKey'', ''reverseFlowKey''] (strip_comments_dart text))"

definition run_s109_check :: "pystr option \<Rightarrow> finding list" where
  "run_s109_check t = on_text ''S109'' t (\<lambda>text.
     need_all ''S109'' [''sendHttpRequest:'', ''recvHttpResponse:'', ''responsePayload:'', ''bytes read from real socket'']
       (strip_comments_dart text))"

definition run_s110_check :: "pystr option \<Rightarrow> finding list" where
  "run_s110_check t = on_text ''S110'' t (\<lambda>text.
     need_all ''S110'' [''tcpConnectionMap.put primary flow'', ''late ACK''] (strip_comments_dart text))"

definition run_s111_check :: "pystr option \<Rightarrow> finding list" where
  "run_s111_check t = on_text ''S111'' t (\<lambda>text.
     let volatile_count = py_count (strip_comments_dart text) (lit ''@Volatile'') in
     if volatile_count < 8 then [Finding ''S111'' ''@Volatile'' [show_nat volatile_count]] else [])"

definition run_s115_check :: "pystr option \<Rightarrow> finding list" where
  "run_s115_check t = on_text ''S115'' t (\<lambda>text.
     let code = strip_comments_dart text in
     need_all ''S115'' [''flowMap.clear()'', ''tcpConnectionMap.clear()''] code @
     (if \<not> has code ''readerFuture'' \<or> \<not> has code ''cancel(true)'' then [Finding ''S115'' ''readerFuture cancel'' []] else []) @
     (if \<not> has code ''udpSocketMap.clear()'' \<and> \<not> has code ''step 3 DELEGATED'' then [Finding ''S115'' ''udpSocketMap.clear()'' []] else []) @
     (if \<not> has code ''udpReaderFutures'' \<and> \<not> has code ''step 3 DELEGATED'' then [Finding ''S115'' ''udpReaderFutures'' []] else []) @
     need_all ''S115'' [''tunOutputStream = null'', ''workerGroup.shutdownGracefully()''] code @
     (if \<not> has code ''TimeUnit'' \<or> \<not> has code ''await'' then [Finding ''S115'' ''await'' []] else []) @
     need_all ''S115'' [''backgroundExecutor''] code @
     (if \<not> has code ''shutdownNow()'' \<or> \<not> has code ''awaitTermination''
      then [Finding ''S115'' ''shutdownNow and awaitTermination'' []] else []))"


subsection \<open>The faithful ones\<close>

lemma need_tags [simp]: "replica_tags (need s k ok) = (if ok then [] else [fail s])"
  and forbid_tags [simp]: "replica_tags (forbid s k bad) = (if bad then [fail s] else [])"
  by (simp_all add: need_def forbid_def replica_tags_def)

text \<open>S73 to S98 with one file, S88 and S91 with two: the bodies are the same up to the shape of the tests.\<close>

lemma countdown_literal: "has t ''countdownAutoStopRunnable?.let'' \<Longrightarrow> has t ''countdownAutoStopRunnable''"
  using contains_longer [of t "lit ''countdownAutoStopRunnable''" "lit ''?.let''"] by (simp add: lit_def)

interpretation s73: faithful_replica check_main_activity_owns_vpn_channel_v18
  "\<lambda>w. replica_tags (run_s73_check (text_of w activity_kt_path))" "\<lambda>_. True"
  unfolding check_main_activity_owns_vpn_channel_v18_def run_s73_check_def need_all_def by unfold_locales (rule with_text_replica; simp add: Let_def)

interpretation s74: faithful_replica check_vpn_service_startforeground_within_5s_v19
  "\<lambda>w. replica_tags (run_s74_check (text_of w vpn_kt_path))" "\<lambda>_. True"
  unfolding check_vpn_service_startforeground_within_5s_v19_def run_s74_check_def  by unfold_locales (rule with_text_replica; simp add: Let_def)

interpretation s75: faithful_replica check_vpn_service_log_d_breadcrumbs_v20
  "\<lambda>w. replica_tags (run_s75_check (text_of w vpn_kt_path))" "\<lambda>_. True"
  unfolding check_vpn_service_log_d_breadcrumbs_v20_def run_s75_check_def  by unfold_locales (rule with_text_replica; simp add: Let_def)

interpretation s78: faithful_replica check_vpn_service_state_transition_breadcrumbs_v22
  "\<lambda>w. replica_tags (run_s78_check (text_of w vpn_kt_path))" "\<lambda>_. True"
  unfolding check_vpn_service_state_transition_breadcrumbs_v22_def run_s78_check_def  by unfold_locales (rule with_text_replica; simp add: Let_def)

interpretation s79: faithful_replica check_vpn_service_addroute_bad_address_v23
  "\<lambda>w. replica_tags (run_s79_check (text_of w vpn_kt_path))" "\<lambda>_. True"
  unfolding check_vpn_service_addroute_bad_address_v23_def run_s79_check_def  by unfold_locales (rule with_text_replica; simp add: Let_def)

interpretation s80: faithful_replica check_vpn_service_tun_passthrough_v24
  "\<lambda>w. replica_tags (run_s80_check (text_of w vpn_kt_path))" "\<lambda>_. True"
  unfolding check_vpn_service_tun_passthrough_v24_def run_s80_check_def  by unfold_locales (rule with_text_replica; simp add: Let_def)

interpretation s82: faithful_replica check_vpn_service_ui_thread_push_v26
  "\<lambda>w. replica_tags (run_s82_check (text_of w vpn_kt_path))" "\<lambda>_. True"
  unfolding check_vpn_service_ui_thread_push_v26_def run_s82_check_def  by unfold_locales (rule with_text_replica; simp add: Let_def)

interpretation s87: faithful_replica check_vpn_service_mtu_and_fragment_log_v31
  "\<lambda>w. replica_tags (run_s87_check (text_of w vpn_kt_path))" "\<lambda>_. True"
  unfolding check_vpn_service_mtu_and_fragment_log_v31_def run_s87_check_def  by unfold_locales (rule with_text_replica; simp add: Let_def)

interpretation s89: faithful_replica check_oturumu_bitir_full_state_reset_v33
  "\<lambda>w. replica_tags (run_s89_check (text_of w active_pool_path))" "\<lambda>_. True"
  unfolding check_oturumu_bitir_full_state_reset_v33_def run_s89_check_def  by unfold_locales (rule with_text_replica; simp add: Let_def)

interpretation s92: faithful_replica check_notification_chronometer_autostop_v35
  "\<lambda>w. replica_tags (run_s92_check (text_of w vpn_kt_path))" "\<lambda>_. True"
  unfolding check_notification_chronometer_autostop_v35_def run_s92_check_def  by unfold_locales (rule with_text_replica; simp add: Let_def need_all_def need_def countdown_literal)

interpretation s94: faithful_replica check_manifest_change_network_state_v37
  "\<lambda>w. replica_tags (run_s94_check (text_of w [''mobile'', ''android'', ''app'', ''src'', ''main'', ''AndroidManifest.xml'']))" "\<lambda>_. True"
  unfolding check_manifest_change_network_state_v37_def run_s94_check_def  by unfold_locales (rule with_text_replica; simp add: Let_def)

interpretation s95: faithful_replica check_stop_capture_ring_clear_invariant_v38
  "\<lambda>w. replica_tags (run_s95_check (text_of w vpn_kt_path))" "\<lambda>_. True"
  unfolding check_stop_capture_ring_clear_invariant_v38_def run_s95_check_def  by unfold_locales (rule with_text_replica; simp add: Let_def)

interpretation s96: faithful_replica check_check_private_dns_bind_5_logd_invariant_v39
  "\<lambda>w. replica_tags (run_s96_check (text_of w vpn_kt_path))" "\<lambda>_. True"
  unfolding check_check_private_dns_bind_5_logd_invariant_v39_def run_s96_check_def s96_tokens_def by unfold_locales (rule with_text_replica; simp add: Let_def)

interpretation s97: faithful_replica check_check_private_dns_5s_fallback_invariant_v40
  "\<lambda>w. replica_tags (run_s97_check (text_of w vpn_kt_path))" "\<lambda>_. True"
  unfolding check_check_private_dns_5s_fallback_invariant_v40_def run_s97_check_def s97_tokens_def by unfold_locales (rule with_text_replica; simp add: Let_def)

interpretation s98: faithful_replica check_check_private_dns_call_before_establish_invariant_v41
  "\<lambda>w. replica_tags (run_s98_check (text_of w vpn_kt_path))" "\<lambda>_. True"
  unfolding check_check_private_dns_call_before_establish_invariant_v41_def run_s98_check_def s98_order_def by unfold_locales (rule with_text_replica; simp add: Let_def)

lemma with_file_cases:
  "with_file s f w p body = (case text_of w p of
     None \<Rightarrow> [Finding s (if path_exists w p then ''read failed'' else ''file missing'') [lit f]] | Some t \<Rightarrow> body t)"
  by (auto simp: with_file_def try_read_text_of split: option.split dest: text_of_exists)

lemma with_file_replica: "replica_tags (with_file s f w p body) = replica_tags (on_text s (text_of w p) body)"
  by (auto simp: with_file_cases on_text_def split: option.split)

lemma replica_tags_append: "replica_tags (xs @ ys) = replica_tags xs @ replica_tags ys"
  by (simp add: replica_tags_def)

interpretation s88: faithful_replica check_oturumu_bitir_2level_fallback_v32
  "\<lambda>w. replica_tags (run_s88_check (text_of w active_pool_path) (text_of w activity_kt_path))" "\<lambda>_. True"
  by unfold_locales (simp add: check_oturumu_bitir_2level_fallback_v32_def run_s88_check_def replica_tags_append
      s88_screen_def [symmetric] s88_main_def [symmetric] with_file_replica)

interpretation s91: faithful_replica check_dns_private_dns_conflict_v34
  "\<lambda>w. replica_tags (run_s91_check (text_of w vpn_kt_path) (text_of w active_pool_path))" "\<lambda>_. True"
  by unfold_locales (simp add: check_dns_private_dns_conflict_v34_def run_s91_check_def replica_tags_append with_file_replica)

subsection \<open>The ones with the same verdict\<close>

text \<open>S77 has one finding more in the replica when the listener is missing; S99 adds findings for an unreadable file; the
  bundles S100 to S102, S103 to S105 and S109 to S111 report a missing file once, the replicas once each.\<close>

lemma with_textE_cases:
  "with_textE s w p body = (case text_of w p of
     None \<Rightarrow> Inr [Finding s (if path_exists w p then ''read failed'' else ''file missing'') []] | Some t \<Rightarrow> body t)"
  by (auto simp: with_textE_def try_read_text_of split: option.split dest: text_of_exists)

lemma on_text_Nil: "on_text s t body = [] \<longleftrightarrow> (\<exists>text. t = Some text \<and> body text = [])"
  by (auto simp: on_text_def split: option.split)

lemma s77_total: "\<exists>b. s77_plain_widget text = Inr b"
  using returns_s77_plain_widget [of "text"] by (cases "s77_plain_widget text") (auto simp: returns_def)

interpretation s77: verdict_replica check_active_pool_screen_ui_propagation_v21
  "\<lambda>w. replica_tags (run_s77_check (text_of w active_pool_path))" "\<lambda>_. True"
proof
  fix w
  show "\<exists>fs. check_active_pool_screen_ui_propagation_v21 w = Inr fs"
    using s77_total by (auto simp: check_active_pool_screen_ui_propagation_v21_def with_textE_cases split: option.split)
  fix fs
  assume fs: "check_active_pool_screen_ui_propagation_v21 w = Inr fs"
  show "fs = [] \<longleftrightarrow> replica_tags (run_s77_check (text_of w active_pool_path)) = []"
  proof (cases "text_of w active_pool_path")
    case None
    with fs show ?thesis
      by (auto simp: check_active_pool_screen_ui_propagation_v21_def with_textE_cases run_s77_check_def on_text_def)
  next
    case (Some t)
    obtain b where "s77_plain_widget t = Inr b" using s77_total by blast
    with fs Some show ?thesis
      by (auto simp: check_active_pool_screen_ui_propagation_v21_def with_textE_cases run_s77_check_def on_text_def split: if_splits)
  qed
qed

lemma s99_file_cases:
  "s99_file f w p ks = (case text_of w p of
     None \<Rightarrow> (if path_exists w p then Finding ''S99'' ''read failed'' [lit f] # need_all ''S99'' ks [] else [Finding ''S99'' ''file missing'' [lit f]])
   | Some t \<Rightarrow> need_all ''S99'' ks t)"
  by (auto simp: s99_file_def try_read_text_of split: option.split dest: text_of_exists)

lemma s99_file_Nil: "s99_file f w p ks = [] \<longleftrightarrow> on_text ''S99'' (text_of w p) (need_all ''S99'' ks) = []"
  by (auto simp: s99_file_cases on_text_def split: option.split)

interpretation s99: verdict_replica check_user_space_tcp_ip_stack_invariant_v42
  "\<lambda>w. replica_tags (run_s99_check (text_of w vpn_kt_path)
     (text_of w [''mobile'', ''android'', ''app'', ''build.gradle.kts'']) (text_of w netty_kt_path))" "\<lambda>_. True"
  by unfold_locales (simp_all add: check_user_space_tcp_ip_stack_invariant_v42_def run_s99_check_def replica_tags_append,
    metis append_is_Nil_conv s99_file_Nil)

interpretation s100: verdict_replica check_tcp_state_machine_v43
  "\<lambda>w. replica_tags (let t = text_of w netty_kt_path in run_s100_check t @ run_s101_check t @ run_s102_check t)" "\<lambda>_. True"
  by unfold_locales (auto simp: check_tcp_state_machine_v43_def with_text_cases Let_def run_s100_check_def run_s101_check_def
    run_s102_check_def on_text_def tcp_states_def replica_tags_append split: option.split)

interpretation s103: verdict_replica check_udp_forwarder_v44
  "\<lambda>w. replica_tags (let t = text_of w netty_kt_path in run_s103_check t @ run_s104_check t @ run_s105_check t)" "\<lambda>_. True"
  by unfold_locales (auto simp: check_udp_forwarder_v44_def with_text_cases Let_def run_s103_check_def run_s104_check_def
    run_s105_check_def on_text_def replica_tags_append split: option.split)

interpretation s109: verdict_replica check_tcp_dataflow_v46
  "\<lambda>w. replica_tags (let t = text_of w netty_kt_path in run_s109_check t @ run_s110_check t @ run_s111_check t)" "\<lambda>_. True"
  by unfold_locales (auto simp: check_tcp_dataflow_v46_def with_text_cases Let_def run_s109_check_def run_s110_check_def
    run_s111_check_def on_text_def replica_tags_append split: option.split)

text \<open>The pairs, with the replicas applied to the texts of their files.\<close>

definition vpn_faithful :: "((world \<Rightarrow> findings) \<times> (world \<Rightarrow> finding list)) list" where
  "vpn_faithful = [
     (check_main_activity_owns_vpn_channel_v18, \<lambda>w. run_s73_check (text_of w activity_kt_path)),
     (check_vpn_service_startforeground_within_5s_v19, \<lambda>w. run_s74_check (text_of w vpn_kt_path)),
     (check_vpn_service_log_d_breadcrumbs_v20, \<lambda>w. run_s75_check (text_of w vpn_kt_path)),
     (check_vpn_service_state_transition_breadcrumbs_v22, \<lambda>w. run_s78_check (text_of w vpn_kt_path)),
     (check_vpn_service_addroute_bad_address_v23, \<lambda>w. run_s79_check (text_of w vpn_kt_path)),
     (check_vpn_service_tun_passthrough_v24, \<lambda>w. run_s80_check (text_of w vpn_kt_path)),
     (check_vpn_service_ui_thread_push_v26, \<lambda>w. run_s82_check (text_of w vpn_kt_path)),
     (check_vpn_service_mtu_and_fragment_log_v31, \<lambda>w. run_s87_check (text_of w vpn_kt_path)),
     (check_oturumu_bitir_full_state_reset_v33, \<lambda>w. run_s89_check (text_of w active_pool_path)),
     (check_notification_chronometer_autostop_v35, \<lambda>w. run_s92_check (text_of w vpn_kt_path)),
     (check_manifest_change_network_state_v37,
       \<lambda>w. run_s94_check (text_of w [''mobile'', ''android'', ''app'', ''src'', ''main'', ''AndroidManifest.xml''])),
     (check_stop_capture_ring_clear_invariant_v38, \<lambda>w. run_s95_check (text_of w vpn_kt_path)),
     (check_check_private_dns_bind_5_logd_invariant_v39, \<lambda>w. run_s96_check (text_of w vpn_kt_path)),
     (check_check_private_dns_5s_fallback_invariant_v40, \<lambda>w. run_s97_check (text_of w vpn_kt_path)),
     (check_check_private_dns_call_before_establish_invariant_v41, \<lambda>w. run_s98_check (text_of w vpn_kt_path)),
     (check_oturumu_bitir_2level_fallback_v32, \<lambda>w. run_s88_check (text_of w active_pool_path) (text_of w activity_kt_path)),
     (check_dns_private_dns_conflict_v34, \<lambda>w. run_s91_check (text_of w vpn_kt_path) (text_of w active_pool_path))]"

definition vpn_same_verdict :: "((world \<Rightarrow> findings) \<times> (world \<Rightarrow> finding list)) list" where
  "vpn_same_verdict = [
     (check_active_pool_screen_ui_propagation_v21, \<lambda>w. run_s77_check (text_of w active_pool_path)),
     (check_user_space_tcp_ip_stack_invariant_v42, \<lambda>w. run_s99_check (text_of w vpn_kt_path)
        (text_of w [''mobile'', ''android'', ''app'', ''build.gradle.kts'']) (text_of w netty_kt_path)),
     (check_tcp_state_machine_v43, \<lambda>w. let t = text_of w netty_kt_path in run_s100_check t @ run_s101_check t @ run_s102_check t),
     (check_udp_forwarder_v44, \<lambda>w. let t = text_of w netty_kt_path in run_s103_check t @ run_s104_check t @ run_s105_check t),
     (check_tcp_dataflow_v46, \<lambda>w. let t = text_of w netty_kt_path in run_s109_check t @ run_s110_check t @ run_s111_check t)]"

lemmas vpn_same = s73.same s74.same s75.same s78.same s79.same s80.same s82.same s87.same s89.same s92.same s94.same s95.same
  s96.same s97.same s98.same s88.same s91.same

lemma same_verdict:
  assumes "verdict_replica chk (\<lambda>w. replica_tags (run w)) (\<lambda>_. True)"
  shows "\<exists>fs. chk w = Inr fs \<and> (fs = [] \<longleftrightarrow> run w = [])"
  using verdict_replica.total [OF assms, of w] verdict_replica.agree [OF assms, of w] by fastforce

subsection \<open>Properties\<close>

text \<open>C11. Seventeen replicas of the VPN checks report, on every repository, finding for finding what the check reports;
  five more, among them the bundles of the TCP state machine, the UDP forwarder and the data flow, give the verdict of the
  check. None of these checks raises.\<close>

theorem vpn_replicas_report_the_findings:
  "list_all (\<lambda>(chk, run). \<exists>fs. chk w = Inr fs \<and> replica_tags (run w) = replica_tags fs) vpn_faithful \<and>
   list_all (\<lambda>(chk, run). \<exists>fs. chk w = Inr fs \<and> (fs = [] \<longleftrightarrow> run w = [])) vpn_same_verdict"
  unfolding vpn_faithful_def vpn_same_verdict_def list.pred_inject prod.case
  by (intro conjI vpn_same list.pred_inject(1) TrueI same_verdict s77.verdict_replica_axioms s99.verdict_replica_axioms
      s100.verdict_replica_axioms s103.verdict_replica_axioms s109.verdict_replica_axioms)

text \<open>Each of the other replicas, compared with its check on a repository that holds the files.\<close>

lemma io_catch_only_in_check:
  assumes "has_text w vpn_kt_path t"
  shows "check_vpn_service_passthrough_count_invariant_v36 w = Inr [] \<longleftrightarrow> run_s93_check (Some t) = [] \<and> re_found (io_catch_re w) t"
proof -
  have "has t ''passthroughCount.set(0)'' \<Longrightarrow> has t ''passthroughCount''"
    using contains_longer [of t "lit ''passthroughCount''" "lit ''.set(0)''"] by (simp add: lit_def)
  then show ?thesis
    using text_of_has_text [OF assms]
    by (auto simp: check_vpn_service_passthrough_count_invariant_v36_def with_text_cases run_s93_check_def on_text_def split: if_splits)
qed

lemma delegated_only_in_replica:
  assumes "has_text w netty_kt_path t"
  defines "code \<equiv> strip_comments_dart t"
  shows "check_teardown_comprehensive_v48 w = Inr [] \<and> has code ''TimeUnit'' \<longleftrightarrow>
    run_s115_check (Some t) = [] \<and> has code ''udpSocketMap.clear()'' \<and> has code ''udpReaderFutures''"
  using text_of_has_text [OF assms(1)]
  by (auto simp: check_teardown_comprehensive_v48_def with_text_cases run_s115_check_def on_text_def code_def Let_def split: if_splits)

lemma stop_capture_only_in_check:
  assumes "has_text w vpn_kt_path t"
  defines "code \<equiv> strip_comments_dart t"
  shows "run_s84_check w (Some t) = [] \<longleftrightarrow> check_vpn_service_packets_observed_increment_invariant_v27 w = Inr [] \<and>
    list_all (\<lambda>sm. fun_name (enclosing_fun w code (m_start sm)) = lit ''startCapture'') (re_finditer counter_set_re code)"
proof -
  have "s84_replica_increment w code = [] \<longleftrightarrow> s84_increment w code = []"
    by (auto simp: s84_replica_increment_def s84_increment_def Let_def split: list.splits)
  then show ?thesis
    using text_of_has_text [OF assms(1)]
    by (auto simp: check_vpn_service_packets_observed_increment_invariant_v27_def with_text_cases run_s84_check_def on_text_def
        code_def Let_def list_all_iff s84_set_def split: if_splits)
qed

lemma re_found_iff: "re_found r t \<longleftrightarrow> (\<exists>u x v c. t = u @ x @ v \<and> lang r u x v [] c)"
  unfolding re_found_def by (rule re_search_not_None)

lemma internal_ctor_lang:
  "lang internal_ctor_re p x q c c' \<Longrightarrow>
     \<exists>y z. x = lit ''VpnService._'' @ y @ z @ lit ''('' \<and> (y = [] \<or> y = lit ''internal'') \<and> (\<forall>c\<in>set z. is_space c)"
  unfolding internal_ctor_re_def Seq.simps lang_Cat_Str lang.simps(3) [of "Opt _"] lang_Opt lang_Str cat_simps
  by (elim exE conjE disjE; hypsubst)
    ((intro exI conjI, rule refl, rule disjI2, rule refl, assumption),
     (rule exI [of _ "[]"], simp only: append_Nil, blast))

lemma internal_ctor_is_private: "re_found internal_ctor_re t \<Longrightarrow> re_found (private_ctor_re w) t"
proof -
  assume "re_found internal_ctor_re t"
  then obtain u x v c where t: "t = u @ x @ v" and "lang internal_ctor_re u x v [] c"
    unfolding re_found_iff by blast
  from internal_ctor_lang [OF this(2)] obtain y z where x: "x = lit ''VpnService._'' @ y @ z @ lit ''(''"
    and y: "y = [] \<or> y = lit ''internal''" and z: "\<forall>c\<in>set z. is_space c" by blast
  from y have "\<forall>c\<in>set y. is_word w c" by (auto simp: lit_def is_word_def)
  with z have "lang (private_ctor_re w) u x v [] []"
    unfolding private_ctor_re_def x Seq.simps cat_simps lang_Str by blast
  with t show ?thesis unfolding re_found_iff by blast
qed

lemma internal_only_in_replica:
  assumes "has_text w vpn_dart_path t"
  shows "run_s76_check (Some t) = [] \<longleftrightarrow> check_vpn_service_dart_singleton_v20 w = Inr [] \<and> re_found internal_ctor_re t"
  using text_of_has_text [OF assms] internal_ctor_is_private [of t w]
  by (auto simp: check_vpn_service_dart_singleton_v20_def with_text_cases run_s76_check_def on_text_def Let_def)

lemma handled_pos_None: "handled_pos code = None \<longleftrightarrow> \<not> has code ''var handled'' \<and> \<not> has code ''val handled''"
  by (auto simp: handled_pos_def find_sub_None [symmetric] split: option.split)

lemma s107_stricter: "run_s107_check (Some t) = [] \<Longrightarrow> s107_findings (strip_comments_dart t) = []"
  by (cases "handled_pos (strip_comments_dart t)")
    (auto simp: run_s107_check_def on_text_def s107_findings_def handled_pos_None Let_def split: if_splits)

lemma skip_order_only_in_replica:
  assumes "has_text w vpn_kt_path t" and "has_text w netty_kt_path n"
    and "run_s106_check (Some t) (Some n) @ run_s107_check (Some t) @ run_s108_check (Some n) = []"
  shows "check_tcp_5tuple_v45 w = Inr []"
  using assms(3) s107_stricter [of t] text_of_has_text [OF assms(1)] text_of_has_text [OF assms(2)]
  by (auto simp: check_tcp_5tuple_v45_def try_read_text_of text_of_exists s106_findings_def run_s106_check_def
      run_s108_check_def on_text_def Let_def split: if_splits)

text \<open>C36. The other replicas, on repositories that hold the files. Two overlook what the check reports: S93 does not look for the
  IOException handler, and S115 accepts the note \<open>step 3 DELEGATED\<close> for the step on the UDP sockets. Three report
  what the check accepts: S84 allows a reset in \<open>startCapture\<close> only, S76 wants the constructor to be \<open>_\<close> or
  \<open>_internal\<close>, and S107 wants the skip after the flag.\<close>

theorem vpn_replicas_that_differ:
  assumes "has_text w vpn_kt_path t" and "has_text w netty_kt_path n" and "has_text w vpn_dart_path d"
  shows "(check_vpn_service_passthrough_count_invariant_v36 w = Inr [] \<longleftrightarrow> run_s93_check (Some t) = [] \<and> re_found (io_catch_re w) t) \<and>
    (check_teardown_comprehensive_v48 w = Inr [] \<and> has (strip_comments_dart n) ''TimeUnit'' \<longleftrightarrow>
       run_s115_check (Some n) = [] \<and> has (strip_comments_dart n) ''udpSocketMap.clear()'' \<and> has (strip_comments_dart n) ''udpReaderFutures'') \<and>
    (run_s84_check w (Some t) = [] \<longleftrightarrow> check_vpn_service_packets_observed_increment_invariant_v27 w = Inr [] \<and>
       list_all (\<lambda>sm. fun_name (enclosing_fun w (strip_comments_dart t) (m_start sm)) = lit ''startCapture'')
         (re_finditer counter_set_re (strip_comments_dart t))) \<and>
    (run_s76_check (Some d) = [] \<longleftrightarrow> check_vpn_service_dart_singleton_v20 w = Inr [] \<and> re_found internal_ctor_re d) \<and>
    (run_s106_check (Some t) (Some n) @ run_s107_check (Some t) @ run_s108_check (Some n) = [] \<longrightarrow> check_tcp_5tuple_v45 w = Inr [])"
  using assms by (intro conjI impI io_catch_only_in_check delegated_only_in_replica stop_capture_only_in_check
      internal_only_in_replica skip_order_only_in_replica)

text \<open>A NettyChannelClient.kt whose teardown delegates step 3.\<close>

definition delegating_lines :: "pystr list" where
  "delegating_lines = map lit [''flowMap.clear()'', ''tcpConnectionMap.clear()'', ''readerFuture.cancel(true)'',
     ''log(step 3 DELEGATED)'', ''tunOutputStream = null'', ''workerGroup.shutdownGracefully()'', ''await(1, TimeUnit.SECONDS)'',
     ''backgroundExecutor.shutdownNow()'', ''awaitTermination'']"

definition delegating_netty :: pystr where
  "delegating_netty = py_join [NL] delegating_lines"

definition vpn_repo :: node where
  "vpn_repo = Dir [(''mobile'', Dir [
     (''lib'', file_at [''services'', ''vpn_service.dart''] []),
     (''android'', Dir [(''app'', Dir [(''src'', Dir [(''main'', Dir [(''kotlin'', Dir [(''com'', Dir [(''opene2ee'', Dir [(''opene2ee'',
        Dir [(''vpn'', Dir [(''OpenE2eeVpnService.kt'', File (Some [])), (''NettyChannelClient.kt'', File (Some delegating_netty))])])])])])])])])])])]"

theorem vpn_replicas_that_differ_witness:
  "run_s115_check (Some delegating_netty) = [] \<and> check_teardown_comprehensive_v48 (mk_world vpn_repo) \<noteq> Inr []"
proof -
  let ?w = "mk_world vpn_repo"
  have t: "has_text ?w vpn_kt_path []" "has_text ?w netty_kt_path delegating_netty" "has_text ?w vpn_dart_path []"
    by (simp_all add: has_text_def mk_world_def vpn_repo_def kotlin_path_def services_path_def)
  have strip: "strip_comments_dart delegating_netty = delegating_netty"
    unfolding delegating_netty_def by (rule strip_plain) (simp add: delegating_lines_def text_simps)
  have present: "list_all (has delegating_netty) [''flowMap.clear()'', ''tcpConnectionMap.clear()'', ''readerFuture'',
      ''cancel(true)'', ''step 3 DELEGATED'', ''tunOutputStream = null'', ''workerGroup.shutdownGracefully()'', ''TimeUnit'', ''await'',
      ''backgroundExecutor'', ''shutdownNow()'', ''awaitTermination'']"
    by (simp add: delegating_netty_def contains_lines delegating_lines_def text_simps del: py_join.simps)
  then have "run_s115_check (Some delegating_netty) = []"
    by (simp add: run_s115_check_def on_text_def strip)
  moreover have "\<not> has delegating_netty ''udpSocketMap.clear()''"
    by (simp add: delegating_netty_def contains_lines delegating_lines_def text_simps del: py_join.simps)
  ultimately show ?thesis using present conjunct1 [OF conjunct2 [OF vpn_replicas_that_differ [OF t]]] unfolding strip by simp
qed
end
