(* ===== verification/Proxy_Replicas.thy ===== *)
theory Proxy_Replicas
  imports Vpn_Replicas
begin

section \<open>Invariants held by the self-test alone (S112 to S114, S116 to S139)\<close>

text \<open>
  The functions \<open>run_s112_check\<close> to \<open>run_s114_check\<close> and \<open>run_s116_check\<close> to \<open>run_s139_check\<close> of
  tools/audit-self-test.py: the forwarders of sprint 12.0, and the proxy architecture of sprint 14 (constants, proxy servers,
  tunnels, the port table). The audit has no check for these numbers. Several functions take more than one text and
  return early when one is missing.
\<close>

subsection \<open>S112 to S114: the connection map\<close>

text \<open>\<open>tcpConnectionMap[^=]*=\s*HashMap\<close>, \<open>HashMap<[^,]+,\s*tcpConnectionMap|HashMap<[^,]+,\s*[^,]+>\s*=\s*[^;]*tcpConnectionMap\<close>
  and \<open>tcpConnectionMap\[\s*\w+\s*\]\s*=\s*conn\<close>\<close>

definition map_is_hash_re :: re where
  "map_is_hash_re = Seq [Str (lit ''tcpConnectionMap''), Star True (NotIn [61]), Str (lit ''=''), Star True Spc, Str (lit ''HashMap'')]"

definition hash_is_map_re :: re where
  "hash_is_map_re = Alt
     (Seq [Str (lit ''HashMap<''), Plus (NotIn [44]), Str (lit '',''), Star True Spc, Str (lit ''tcpConnectionMap'')])
     (Seq [Str (lit ''HashMap<''), Plus (NotIn [44]), Str (lit '',''), Star True Spc, Plus (NotIn [44]), Str (lit ''>''),
       Star True Spc, Str (lit ''=''), Star True Spc, Star True (NotIn [59]), Str (lit ''tcpConnectionMap'')])"

definition map_put_re :: "world \<Rightarrow> re" where
  "map_put_re w = Seq [Str (lit ''tcpConnectionMap[''), Star True Spc, Plus (Cls (is_word w)), Star True Spc, Str (lit '']''),
     Star True Spc, Str (lit ''=''), Star True Spc, Str (lit ''conn'')]"

definition run_s112_check :: "pystr option \<Rightarrow> finding list" where
  "run_s112_check t = on_text ''S112'' t (\<lambda>text.
     let code = strip_comments_dart text in
     if \<not> has code ''tcpConnectionMap'' then [Finding ''S112'' ''tcpConnectionMap'' []]
     else need ''S112'' ''ConcurrentHashMap'' (has code ''ConcurrentHashMap'') @
       forbid ''S112'' ''plain HashMap'' (re_found map_is_hash_re code \<or> re_found hash_is_map_re code))"

definition run_s113_check :: "world \<Rightarrow> pystr option \<Rightarrow> finding list" where
  "run_s113_check w t = on_text ''S113'' t (\<lambda>text.
     let map_put_count = length (re_finditer (map_put_re w) (strip_comments_dart text)) in
     if map_put_count < 2 then [Finding ''S113'' ''dual put'' [show_nat map_put_count]] else [])"

definition run_s114_check :: "pystr option \<Rightarrow> finding list" where
  "run_s114_check t = on_text ''S114'' t (\<lambda>text.
     let code = strip_comments_dart text in
     forbid ''S114'' ''UNKNOWN FLOW'' (has code ''UNKNOWN FLOW'') @
     need_all ''S114'' [''forwarded via reverseKey'', ''late ACK''] code)"

subsection \<open>S116 to S119: the forwarders\<close>

definition run_s116_check :: "pystr option \<Rightarrow> finding list" where
  "run_s116_check t = on_text ''S116'' t (\<lambda>text.
     let code = strip_comments_dart text in
     need_all ''S116'' [''class UdpForwarder'', ''udpSocketMap'', ''udpReaderFutures'', ''fun tearDown()'', ''cancel(true)''] code @
     (if \<not> has code ''sock.close()'' \<and> \<not> has code ''s.close()'' then [Finding ''S116'' ''close()'' []] else []) @
     need_all ''S116'' [''shutdownNow()'', ''awaitTermination'', ''protect('', ''udpForwarder.tearDown()'',
       ''udpForwarder.setTunOutputStream''] code)"

definition run_s117_check :: "pystr option \<Rightarrow> finding list" where
  "run_s117_check t = on_text ''S117'' t (\<lambda>text.
     let code = strip_comments_dart text in
     need_all ''S117'' [''class TcpForwarder'', ''tcpConnectionMap'', ''tcpReaderFutures'', ''fun tearDown()'', ''cancel(true)''] code @
     (if \<not> has code ''conn.socket?.close()'' \<and> \<not> has code ''conn.socket?.close()'' then [Finding ''S117'' ''close()'' []] else []) @
     need_all ''S117'' [''conn.readerThread?.interrupt()'', ''conn.readerThread?.join'', ''shutdownNow()'', ''awaitTermination'',
       ''service.protect('', ''tcpForwarder.tearDown()'', ''tcpForwarder.setTunOutputStream''] code)"

definition run_s118_check :: "pystr option \<Rightarrow> finding list" where
  "run_s118_check t = on_text ''S118'' t (\<lambda>text.
     need_all ''S118'' [''recvHttpResponse:'', ''status='', ''content-type='', ''content-length='', ''SUSPECT response'',
       ''forwarded via reverseKey'', ''responsePayload:'', ''bodyBytes=''] (strip_comments_dart text))"

definition run_s119_check :: "pystr option \<Rightarrow> finding list" where
  "run_s119_check t = on_text ''S119'' t (\<lambda>text.
     need_all ''S119'' [''expected=application/json'', ''Host='', ''bodyFirst100'', ''MISMATCH'', ''flow forward'']
       (strip_comments_dart text))"

subsection \<open>S120 to S124: several texts\<close>

text \<open>A finding for each missing text; the tests follow only when none is missing.\<close>

definition missing_texts :: "string \<Rightarrow> (string \<times> pystr option) list \<Rightarrow> finding list" where
  "missing_texts s texts = concat (map (\<lambda>(f, t). if t = None then [Finding s ''file missing'' [lit f]] else []) texts)"

definition run_s120_check :: "pystr option \<Rightarrow> pystr option \<Rightarrow> finding list" where
  "run_s120_check config active_pool = missing_texts ''S120'' [(''config.dart'', config), (''active_pool_screen.dart'', active_pool)] @
     (case (config, active_pool) of
        (Some config_text, Some active_pool_text) \<Rightarrow>
          let config_code = strip_comments_dart config_text; active_code = strip_comments_dart active_pool_text
          in need_all ''S120'' [''versionName'', ''versionCode'', ''kVersionName'', ''kVersionCode''] config_code @
             need_all ''S120'' [''v${kVersionName}'', ''(${kVersionCode})''] active_code
      | _ \<Rightarrow> [])"

definition s121_order :: "pystr \<Rightarrow> finding list" where
  "s121_order code =
     (case (find_sub code (lit ''checkPrivateDnsAndBindToVpn()''), find_sub code (lit ''builder.establish()'')) of
        (Some cpd_idx, Some est_idx) \<Rightarrow> if cpd_idx > est_idx then [Finding ''S121'' ''call after establish'' []] else []
      | _ \<Rightarrow> [Finding ''S121'' ''call or establish missing'' []])"

definition run_s121_check :: "pystr option \<Rightarrow> pystr option \<Rightarrow> finding list" where
  "run_s121_check vpn_service changelog =
     missing_texts ''S121'' [(''OpenE2eeVpnService.kt'', vpn_service), (''CHANGELOG.md'', changelog)] @
     (case (vpn_service, changelog) of
        (Some vpn_service_text, Some changelog_text) \<Rightarrow>
          let code = strip_comments_dart vpn_service_text; changelog_code = strip_comments_dart changelog_text
          in (if \<not> has code ''flags=0x'' \<or> \<not> has code ''SYN='' \<or> \<not> has code ''ACK='' \<or> \<not> has code ''PSH='' \<or>
                 \<not> has code ''FIN='' \<or> \<not> has code ''RST='' then [Finding ''S121'' ''flags log'' []] else []) @
             need_all ''S121'' [''buildVpnBuilder: allowedApps=''] code @
             s121_order code @
             need_all ''S121'' [''Sprint 12.0F+1''] changelog_code @
             (if \<not> has changelog_code ''Tag 4 filter'' \<and> \<not> has changelog_code ''OpenE2eeVpn:V TcpForwarder:V''
              then [Finding ''S121'' ''Tag 4 filter'' []] else []) @
             (if \<not> has changelog_code ''R8'' \<and> \<not> has (py_lower changelog_code) ''proguard''
              then [Finding ''S121'' ''R8'' []] else []) @
             (if \<not> has changelog_code ''SHA-256'' \<and> \<not> has changelog_code ''SHA256'' then [Finding ''S121'' ''SHA-256'' []] else []) @
             (if \<not> has changelog_code ''TcpForwarder:V'' \<or> \<not> has changelog_code ''UdpForwarder:V'' \<or>
                 \<not> has changelog_code ''NettyChannelClient:V'' then [Finding ''S121'' ''tags'' []] else [])
      | _ \<Rightarrow> [])"

definition run_s122_check :: "pystr option \<Rightarrow> pystr option \<Rightarrow> pystr option \<Rightarrow> finding list" where
  "run_s122_check vpn_service proguard changelog =
     missing_texts ''S122'' [(''OpenE2eeVpnService.kt'', vpn_service), (''proguard-rules.pro'', proguard), (''CHANGELOG.md'', changelog)] @
     (case (vpn_service, proguard, changelog) of
        (Some vpn_service_text, Some proguard_text, Some changelog_text) \<Rightarrow>
          let code = strip_comments_dart vpn_service_text; proguard_code = strip_comments_dart proguard_text;
              changelog_code = strip_comments_dart changelog_text;
              rst_call_count = py_count code (lit ''writeTcpRstToTun('');
              keep_count = py_count code (lit ''@Keep'')
          in need_all ''S122'' [''fun writeTcpRstToTun(''] code @
             (if rst_call_count < 2 then [Finding ''S122'' ''too few resets'' [show_nat rst_call_count]] else []) @
             (if rst_call_count < 4 then [Finding ''S122'' ''reset in handleFinAck'' []] else []) @
             need_all ''S122'' [''*** Log*(...)'', ''public static final java.lang.String TAG''] proguard_code @
             need_all ''S122'' [''import androidx.annotation.Keep''] code @
             (if keep_count < 1 then [Finding ''S122'' ''@Keep'' [show_nat keep_count]] else []) @
             need_all ''S122'' [''Sprint 12.0F+2''] changelog_code @
             (if \<not> has changelog_code ''Tag 4 filter'' \<and> \<not> has changelog_code ''OpenE2eeVpn:V TcpForwarder:V''
              then [Finding ''S122'' ''Tag 4 filter'' []] else []) @
             need_all ''S122'' [''7-step''] changelog_code
      | _ \<Rightarrow> [])"

text \<open>\<open>^\s*//\s*builder\.addAllowedApplication\<close>, MULTILINE.\<close>

definition commented_allow_re :: re where
  "commented_allow_re = Seq [Bol True, Star True Spc, Str (lit ''//''), Star True Spc, Str (lit ''builder.addAllowedApplication'')]"

definition run_s123_check :: "pystr option \<Rightarrow> pystr option \<Rightarrow> finding list" where
  "run_s123_check vpn_service changelog =
     missing_texts ''S123'' [(''OpenE2eeVpnService.kt'', vpn_service), (''CHANGELOG.md'', changelog)] @
     (case (vpn_service, changelog) of
        (Some vpn_service_text, Some changelog_text) \<Rightarrow>
          let code = strip_comments_dart vpn_service_text; changelog_code = strip_comments_dart changelog_text;
              call_count = py_count code (lit ''rebindProcessToNetworkWithRetry()'')
          in need_all ''S123'' [''fun rebindProcessToNetworkWithRetry(''] code @
             (if call_count < 1 then [Finding ''S123'' ''rebindProcessToNetworkWithRetry()'' []] else []) @
             need ''S123'' ''commented addAllowedApplication'' (re_found commented_allow_re vpn_service_text) @
             need_all ''S123'' [''fun dumpVpnRoutingState(''] code @
             need_all ''S123'' [''vpnRoutingState: ip route''] changelog_code
      | _ \<Rightarrow> [])"

definition run_s124_check :: "pystr option \<Rightarrow> pystr option \<Rightarrow> pystr option \<Rightarrow> finding list" where
  "run_s124_check vpn_service main_activity vpn_service_dart =
     missing_texts ''S124'' [(''OpenE2eeVpnService.kt'', vpn_service), (''MainActivity.kt'', main_activity),
       (''vpn_service.dart'', vpn_service_dart)] @
     (case (vpn_service, main_activity, vpn_service_dart) of
        (Some vpn_service_text, Some main_activity_text, Some vpn_service_dart_text) \<Rightarrow>
          need_all ''S124'' [''onMethodCall: received method='', ''attachFlutterEngine: ENTER, prev Companion.methodChannel='']
            vpn_service_text @
          need_all ''S124'' [''vpn_service.dart: start''] vpn_service_dart_text @
          need_all ''S124'' [''configureFlutterEngine: ENTER''] main_activity_text
      | _ \<Rightarrow> [])"

end
