(* ===== verification/Proxy_Rules.thy ===== *)
theory Proxy_Rules
  imports Proxy_Replicas
begin

section \<open>The replicas of the proxy invariants\<close>

text \<open>
  The functions \<open>run_s129_check\<close> to \<open>run_s139_check\<close> of tools/audit-self-test.py, on the proxy, its tunnels, the port table and
  the service that owns them. They return their messages, here in full: the cases of the self-test compare them. A function that takes several texts
  reports the missing ones and stops. Code points outside ASCII stand as numbers.
\<close>

subsection \<open>Rows of tests\<close>

text \<open>\<open>if key not in text: findings.append(message)\<close>, in a row; \<open>if text is None: findings.append(message)\<close>, in a row.\<close>

definition lacking :: "pystr \<Rightarrow> (pystr \<times> pystr) list \<Rightarrow> pystr list" where
  "lacking text rows = concat (map (\<lambda>(key, message). if \<not> contains text key then [message] else []) rows)"

definition absent :: "(pystr option \<times> pystr) list \<Rightarrow> pystr list" where
  "absent rows = concat (map (\<lambda>(t, message). if t = None then [message] else []) rows)"

lemma lacking_simps [simp]:
  "lacking text [] = []"
  "lacking text ((key, message) # rows) = (if contains text key then lacking text rows else message # lacking text rows)"
  by (simp_all add: lacking_def)

lemma absent_simps [simp]:
  "absent [] = []"
  "absent ((t, message) # rows) = (if t = None then message # absent rows else absent rows)"
  by (simp_all add: absent_def)

text \<open>\<open>line.split("//", 1)[0]\<close>\<close>

definition code_part :: "pystr \<Rightarrow> pystr" where
  "code_part line = (case find_sub line (lit ''//'') of None \<Rightarrow> line | Some i \<Rightarrow> take i line)"

text \<open>The numbers, from 1, of the lines whose code holds \<open>n\<close>.\<close>

definition code_lines_with :: "string \<Rightarrow> pystr \<Rightarrow> nat list" where
  "code_lines_with n text = (let lines = splitlines text
     in map fst (filter (\<lambda>(i, line). has (code_part line) n) (zip [1..<Suc (length lines)] lines)))"

text \<open>The text of a list of numbers.\<close>

definition show_list :: "nat list \<Rightarrow> pystr" where
  "show_list ns = lit ''['' @ py_join (lit '', '') (map show_nat ns) @ lit '']''"

subsection \<open>S129 to S132: constants, proxy, UDP server, port table\<close>

definition run_s129_check :: "pystr option \<Rightarrow> pystr list" where
  "run_s129_check vpn_constants = (case vpn_constants of None \<Rightarrow>
     [lit ''S129 VPNConstants.kt: file text missing. Sprint 14 invariant - the MTU=1400 + DNS '' @
         lit ''constants live in this file.'']
   | Some text \<Rightarrow>
     lacking text [(lit ''object VPNConstants'',
      lit ''S129 VPNConstants.kt: missing `object VPNConstants` declaration. Sprint 14 spec '' @ [167] @
         lit ''3 requires the singleton object form (not a top-level const).'')] @
     (if \<not> contains text (lit ''const val VPN_MTU = 1400'')
      then if contains text (lit ''const val VPN_MTU'')
        then [lit ''S129 VPNConstants.kt: `const val VPN_MTU` found but value is NOT 1400. Sprint 14 KURAL 1 - '' @
         lit ''15000 '' @ [8594] @ lit '' Android 14 ConnectivityService reject. Reference: spec '' @ [167] @
         lit ''0 table row 1.'']
        else [lit ''S129 VPNConstants.kt: missing `const val VPN_MTU = 1400` literal. Sprint 14 KURAL 1 '' @ [8212] @
         lit '' MTU=1400 is mandatory.'']
      else []) @
     lacking text [(lit ''const val PRIMARY_DNS = '' @ [34] @ lit ''1.1.1.1'' @ [34],
      lit ''S129 VPNConstants.kt: missing `const val PRIMARY_DNS = '' @ [34] @ lit ''1.1.1.1'' @ [34] @
         lit ''` literal. Sprint 14 spec '' @ [167] @
         lit ''3 - Cloudflare primary DNS is mandatory (was 4 DNS in 12.0F+5, spec reduces to 2).'')])"

definition run_s130_check :: "pystr option \<Rightarrow> pystr option \<Rightarrow> pystr list" where
  "run_s130_check tcp_proxy_server proxy_glob = (case proxy_glob of None \<Rightarrow>
     [lit ''S130 vpn/proxy/*: no Kotlin source text found. Sprint 14 invariant - the KURAL 2+3 '' @
         lit ''violations are source-grepped across the vpn/proxy/ subpackage.'']
   | Some glob_text \<Rightarrow>
     (if has glob_text ''readFirstPacket'' \<or> has glob_text ''parseFirstPacket''
      then [lit ''S130 vpn/proxy/*: contains `readFirstPacket` or `parseFirstPacket` literal. Sprint 14 KURAL 2 '' @
         [8212] @
         lit '' kernel transparent proxy strips IP headers; Sprint 12.0F+6 attempt timed out every time. Spec '' @
         [167] @ lit ''9 mandates the NAT-lookup approach.'']
      else []) @
     (case tcp_proxy_server of None \<Rightarrow>
       [lit ''S130 TcpProxyServer.kt: file text missing. Sprint 14 KURAL 3 invariant.'']
     | Some server_text \<Rightarrow>
       lacking server_text [(lit ''val portKey = clientSocket.port'',
      lit ''S130 TcpProxyServer.kt: missing `val portKey = clientSocket.port` literal. Sprint 14 KURAL 3 '' @
         [8212] @ lit '' `port` = remote/peer port = app'' @ [39] @
         lit ''s source port (NAT key). `localPort` is the proxy'' @ [39] @
         lit ''s ephemeral port, NOT a NAT key. Spec '' @ [167] @ lit ''9.2.'')] @
       (if has server_text ''clientSocket.localPort'' then
          let bad_lines = code_lines_with ''clientSocket.localPort'' server_text
          in if bad_lines \<noteq> []
             then [lit ''S130 TcpProxyServer.kt: contains `clientSocket.localPort` in code (lines '' @
         show_list bad_lines @
         lit ''). Sprint 14 KURAL 3 '' @ [8212] @ lit '' `clientSocket.port` is the NAT key (app'' @ [39] @
         lit ''s source port); `clientSocket.localPort` is the proxy'' @ [39] @ lit ''s ephemeral port.'']
             else []
        else [])))"

definition run_s131_check :: "pystr option \<Rightarrow> pystr list" where
  "run_s131_check udp_server = (case udp_server of None \<Rightarrow>
     [lit ''S131 UdpServer.kt: file text missing. Sprint 14 KURAL 4 invariant.'']
   | Some text \<Rightarrow>
     lacking text
      [(lit ''private fun initConnection'',
      lit ''S131 UdpServer.kt: missing `private fun initConnection` function. Sprint 14 spec '' @ [167] @
         lit ''10.2 mandates this private helper for tunnel creation.''),
       (lit ''channel.register(selector, SelectionKey.OP_READ)'',
      lit ''S131 UdpServer.kt: missing `channel.register(selector, SelectionKey.OP_READ)` call. Sprint '' @
         lit ''14 spec '' @ [167] @ lit ''10.2 '' @ [8212] @
         lit '' selector registration is MANDATORY for the run loop to dispatch the key to receivePackets().'')] @
     (let has_attach_code = list_ex (\<lambda>line. has (code_part line) ''key.attach(tunnel)'') (splitlines text)
      in if \<not> has_attach_code
         then [lit ''S131 UdpServer.kt: missing `key.attach(tunnel)` code (commented or absent). Sprint 14 KURAL 4 '' @
         [8212] @
         lit '' without this call, selector runLoop gets null attachment, receivePackets() never fires, '' @
         lit ''DNS times out at 15s. Spec '' @ [167] @ lit ''10.2.'']
         else []) @
     lacking text [(lit ''key.attachment() as? UdpTunnel'',
      lit ''S131 UdpServer.kt: missing `key.attachment() as? UdpTunnel` use site. Sprint 14 spec '' @ [167] @
         lit ''10.2 '' @ [8212] @
         lit '' the run loop must cast the attachment to UdpTunnel to dispatch incoming UDP packets.'')])"

definition run_s132_check :: "pystr option \<Rightarrow> pystr list" where
  "run_s132_check port_host_service = (case port_host_service of None \<Rightarrow>
     [lit ''S132 PortHostService.kt: file text missing. Sprint 14 KURAL 5 invariant.'']
   | Some text \<Rightarrow>
     lacking text
      [(lit ''fun refreshSessionInfo'',
      lit ''S132 PortHostService.kt: missing `fun refreshSessionInfo` declaration. Sprint 14 spec '' @
         [167] @ lit ''8.3 mandates this public refresh method.''),
       (lit ''getUid(session.localPort)'',
      lit ''S132 PortHostService.kt: missing `getUid(session.localPort)` call. Sprint 14 KURAL 5 '' @
         [8212] @ lit '' /proc/net/tcp carries port in the local_address column, NOT remote_address. Spec '' @
         [167] @ lit ''8.3.'')] @
     (if has text ''getUid(session.remotePort)''
      then [lit ''S132 PortHostService.kt: contains `getUid(session.remotePort)` literal. Sprint 14 KURAL 5 '' @
         lit ''regression guard '' @ [8212] @
         lit '' this is the Sprint 13.0 bug that made UID lookup always -1. Spec '' @ [167] @ lit ''8.3.'']
      else []))"

subsection \<open>S133 to S137: service, constants, files, activity\<close>

definition run_s133_check :: "pystr option \<Rightarrow> pystr option \<Rightarrow> pystr list" where
  "run_s133_check vpn_service main_activity =
     absent
      [(vpn_service,
      lit ''S133 OpenE2eeVpnService.kt: file text missing. Sprint 14 KURAL 6 + stop-branch invariant.''),
       (main_activity,
      lit ''S133 MainActivity.kt: file text missing. Sprint 14 stop-branch svc.stopVpn() direct call '' @
         lit ''invariant.'')] @
     (case (vpn_service, main_activity) of
        (Some vpn_service_text, Some main_activity_text) \<Rightarrow>
          lacking vpn_service_text [(lit ''builder.addAllowedApplication'',
      lit ''S133 OpenE2eeVpnService.kt: missing `builder.addAllowedApplication` call. Sprint 14 KURAL 6 '' @
         [8212] @
         lit '' `addDisallowedApplication` throws SecurityException; `addAllowedApplication` is the '' @
         lit ''correct API. Spec '' @ [167] @ lit ''11.'')] @
          (if has vpn_service_text ''addDisallowedApplication'' \<and>
              list_ex (\<lambda>line. has (code_part line) ''addDisallowedApplication'') (splitlines vpn_service_text)
           then [lit ''S133 OpenE2eeVpnService.kt: contains `addDisallowedApplication` in code. Sprint 14 KURAL 6 '' @
         lit ''regression guard.'']
           else []) @
          lacking vpn_service_text
      [(lit ''fun stopVpn()'',
      lit ''S133 OpenE2eeVpnService.kt: missing `fun stopVpn()` declaration. Sprint 14 spec '' @ [167] @
         lit ''11 '' @ [8212] @ lit '' the external synchronous stop entry point is mandatory.''),
       (lit ''stopVpn called'',
      lit ''S133 OpenE2eeVpnService.kt: missing `stopVpn called` log inside stopVpn(). Sprint 14 spec '' @
         [167] @ lit ''11 '' @ [8212] @ lit '' debug breadcrumb for the 14-step Owner test flow.''),
       (lit ''builder.setMtu(VPNConstants.VPN_MTU)'',
      lit ''S133 OpenE2eeVpnService.kt: missing `builder.setMtu(VPNConstants.VPN_MTU)` call. Sprint 14 '' @
         lit ''spec '' @ [167] @ lit ''11 '' @ [8212] @ lit '' KURAL 1 MTU=1400 enforcement.'')] @
          lacking main_activity_text
      [([34] @ lit ''stop'' @ [34],
      lit ''S133 MainActivity.kt: missing `'' @ [34] @ lit ''stop'' @ [34] @
         lit ''` MethodChannel branch. Sprint 14 spec '' @ [167] @ lit ''12.1.''),
       (lit ''svc.stopVpn()'',
      lit ''S133 MainActivity.kt: missing `svc.stopVpn()` direct call in the `stop` branch. Sprint 14 spec '' @
         [167] @ lit ''12.1 '' @ [8212] @ lit '' stopService alone is a no-op for foreground services.'')]
      | _ \<Rightarrow> [])"

definition run_s134_check :: "pystr option \<Rightarrow> pystr list" where
  "run_s134_check vpn_constants = (case vpn_constants of None \<Rightarrow>
     [lit ''S134 VPNConstants.kt: file text missing. Sprint 14 '' @ [167] @ lit ''3 invariant.'']
   | Some text \<Rightarrow>
     lacking text
      [(lit ''const val TUN_ADDRESS = '' @ [34] @ lit ''10.0.0.2'' @ [34],
      lit ''S134 VPNConstants.kt: missing `const val TUN_ADDRESS = '' @ [34] @ lit ''10.0.0.2'' @ [34] @
         lit ''` literal. Sprint 14 spec '' @ [167] @ lit ''3 mandates the TUN IP for the transparent proxy.''),
       (lit ''const val TUN_PREFIX = 32'',
      lit ''S134 VPNConstants.kt: missing `const val TUN_PREFIX = 32` literal. Sprint 14 spec '' @ [167] @
         lit ''3 '' @ [8212] @ lit '' single-host /32 route prefix for TUN.''),
       (lit ''const val VPN_ROUTE = '' @ [34] @ lit ''0.0.0.0'' @ [34],
      lit ''S134 VPNConstants.kt: missing `const val VPN_ROUTE = '' @ [34] @ lit ''0.0.0.0'' @ [34] @
         lit ''` literal. Sprint 14 spec '' @ [167] @ lit ''3 '' @ [8212] @ lit '' capture everything route.''),
       (lit ''const val VPN_ROUTE_PREFIX = 0'',
      lit ''S134 VPNConstants.kt: missing `const val VPN_ROUTE_PREFIX = 0` literal. Sprint 14 spec '' @
         [167] @ lit ''3 '' @ [8212] @ lit '' capture everything prefix.''),
       (lit ''const val SESSION_TIME_OUT_MS: Long = 60_000L'',
      lit ''S134 VPNConstants.kt: missing `const val SESSION_TIME_OUT_MS: Long = 60_000L` literal. '' @
         lit ''Sprint 14 spec '' @ [167] @ lit ''3 '' @ [8212] @ lit '' 60s idle session timeout.''),
       (lit ''const val PACKET_SIZE = 32767'',
      lit ''S134 VPNConstants.kt: missing `const val PACKET_SIZE = 32767` literal. Sprint 14 spec '' @
         [167] @ lit ''3 '' @ [8212] @ lit '' max IP packet size.''),
       (lit ''const val NOTIFICATION_ID = 0x5650_4E4E'',
      lit ''S134 VPNConstants.kt: missing `const val NOTIFICATION_ID = 0x5650_4E4E` literal. Sprint 14 '' @
         lit ''spec '' @ [167] @ lit ''3 '' @ [8212] @ lit '' '' @ [39] @ lit ''VPNN'' @ [39] @
         lit '' notification ID.'')])"

definition run_s135_check :: "pystr option \<Rightarrow> pystr list" where
  "run_s135_check net_file_manager = (case net_file_manager of None \<Rightarrow>
     [lit ''S135 NetFileManager.kt: file text missing. Sprint 14 '' @ [167] @ lit ''8 invariant.'']
   | Some text \<Rightarrow>
     lacking text
      [(lit ''class NetFileManager'',
      lit ''S135 NetFileManager.kt: missing `class NetFileManager` declaration. Sprint 14 spec '' @ [167] @
         lit ''8 '' @ [8212] @ lit '' class form (not object) with companion getInstance() singleton.''),
       (lit ''fun getInstance(): NetFileManager'',
      lit ''S135 NetFileManager.kt: missing `fun getInstance(): NetFileManager` companion function. '' @
         lit ''Sprint 14 spec '' @ [167] @ lit ''8 '' @ [8212] @ lit '' singleton instance accessor.''),
       (lit ''fun getUid(port: Int): Int?'',
      lit ''S135 NetFileManager.kt: missing `fun getUid(port: Int): Int?` declaration. Sprint 14 spec '' @
         [167] @ lit ''8 '' @ [8212] @ lit '' port '' @ [8594] @ lit '' uid lookup with nullable return.''),
       (lit ''fun refresh()'',
      lit ''S135 NetFileManager.kt: missing `fun refresh()` declaration. Sprint 14 spec '' @ [167] @
         lit ''8 '' @ [8212] @ lit '' re-read /proc/net/ on file mtime change.''),
       (lit ''fun init(context: Context)'',
      lit ''S135 NetFileManager.kt: missing `fun init(context: Context)` declaration. Sprint 14 spec '' @
         [167] @ lit ''8 '' @ [8212] @ lit '' file path setup.''),
       (lit ''startsWith('' @ [34] @ lit ''  sl'' @ [34] @ lit '')'',
      lit ''S135 NetFileManager.kt: missing PR #33 header skip (`startsWith('' @ [34] @ lit ''  sl'' @ [34] @
         lit '')`). Sprint 14 spec '' @ [167] @ lit ''8 '' @ [8212] @
         lit '' /proc/net/tcp first line is the `  sl  ...` header; parsing it as a data row would crash '' @
         lit ''parseData.'')])"

definition run_s136_check :: "pystr option \<Rightarrow> pystr list" where
  "run_s136_check vpn_service = (case vpn_service of None \<Rightarrow>
     [lit ''S136 OpenE2eeVpnService.kt: file text missing. Sprint 14 '' @ [167] @ lit ''11 invariant.'']
   | Some text \<Rightarrow>
     (if \<not> has text ''class OpenE2eeVpnService : VpnService(), Runnable'' \<and> \<not> has text ''class OpenE2eeVpnService :''
      then [lit ''S136 OpenE2eeVpnService.kt: missing `class OpenE2eeVpnService : VpnService()...` '' @
         lit ''declaration. Sprint 14 spec '' @ [167] @ lit ''11 '' @ [8212] @
         lit '' VpnService subclass with Runnable interface for thread execution.'']
      else []) @
     lacking text
      [(lit ''var activeInstance: OpenE2eeVpnService?'',
      lit ''S136 OpenE2eeVpnService.kt: missing `var activeInstance: OpenE2eeVpnService?` companion '' @
         lit ''field. Sprint 14 spec '' @ [167] @ lit ''11 '' @ [8212] @
         lit '' the singleton pattern that TcpProxyServer / UdpServer use to find the running service.''),
       (lit ''private fun runVpnLoop'',
      lit ''S136 OpenE2eeVpnService.kt: missing `private fun runVpnLoop` declaration. Sprint 14 spec '' @
         [167] @ lit ''11 '' @ [8212] @ lit '' the TUN read + dispatch loop is the service'' @ [39] @
         lit ''s main work.''),
       (lit ''const val METHOD_CHANNEL = '' @ [34] @ lit ''opene2ee/vpn'' @ [34],
      lit ''S136 OpenE2eeVpnService.kt: missing `const val METHOD_CHANNEL = '' @ [34] @
         lit ''opene2ee/vpn'' @ [34] @ lit ''` literal. Sprint 14 spec '' @ [167] @ lit ''11 '' @ [8212] @
         lit '' MethodChannel name for Dart '' @ [8596] @ lit '' Kotlin calls.''),
       (lit ''private fun establishVpn'',
      lit ''S136 OpenE2eeVpnService.kt: missing `private fun establishVpn` declaration. Sprint 14 spec '' @
         [167] @ lit ''11 '' @ [8212] @ lit '' VPN builder + pfd return.'')])"

definition run_s137_check :: "pystr option \<Rightarrow> pystr option \<Rightarrow> pystr list" where
  "run_s137_check main_activity android_manifest =
     absent
      [(main_activity,
      lit ''S137 MainActivity.kt: file text missing. Sprint 14 '' @ [167] @ lit ''12 invariant.''),
       (android_manifest,
      lit ''S137 AndroidManifest.xml: file text missing. Sprint 14 '' @ [167] @ lit ''2 invariant.'')] @
     (case (main_activity, android_manifest) of
        (Some main_activity_text, Some android_manifest_text) \<Rightarrow>
          lacking main_activity_text
      [(lit ''com.opene2ee.opene2ee.vpn.OpenE2eeVpnService'',
      lit ''S137 MainActivity.kt: missing import `com.opene2ee.opene2ee.vpn.OpenE2eeVpnService`. '' @
         lit ''Sprint 14 spec '' @ [167] @ lit ''12.1 '' @ [8212] @
         lit '' MainActivity calls OpenE2eeVpnService.stopVpn() in the stop branch.''),
       (lit ''OpenE2eeVpnService.activeInstance'',
      lit ''S137 MainActivity.kt: missing `OpenE2eeVpnService.activeInstance` reference. Sprint 14 spec '' @
         [167] @ lit ''12.1 '' @ [8212] @ lit '' MainActivity reads the singleton to call stopVpn() directly.''),
       (lit ''svc.stopVpn()'',
      lit ''S137 MainActivity.kt: missing `svc.stopVpn()` direct call. Sprint 14 spec '' @ [167] @
         lit ''12.1 '' @ [8212] @ lit '' stopService alone is a no-op for foreground services.'')] @
          lacking android_manifest_text
      [(lit ''.vpn.OpenE2eeVpnService'',
      lit ''S137 AndroidManifest.xml: missing `.vpn.OpenE2eeVpnService` service entry. Sprint 14 spec '' @
         [167] @ lit ''2 '' @ [8212] @ lit '' VPN service registration.''),
       (lit ''android.permission.BIND_VPN_SERVICE'',
      lit ''S137 AndroidManifest.xml: missing `android.permission.BIND_VPN_SERVICE` permission. Sprint '' @
         lit ''14 spec '' @ [167] @ lit ''2 '' @ [8212] @ lit '' VPN service permission.''),
       (lit ''android.app.PROPERTY_SPECIAL_USE_FGS_SUBTYPE'',
      lit ''S137 AndroidManifest.xml: missing `android.app.PROPERTY_SPECIAL_USE_FGS_SUBTYPE` property. '' @
         lit ''Sprint 14 spec '' @ [167] @ lit ''2 '' @ [8212] @
         lit '' Android 14+ specialUse subtype declaration.''),
       (lit ''android.net.VpnService'',
      lit ''S137 AndroidManifest.xml: missing `android.net.VpnService` action. Sprint 14 spec '' @ [167] @
         lit ''2 '' @ [8212] @ lit '' VPN service intent-filter.'')]
      | _ \<Rightarrow> [])"

subsection \<open>S138 and S139: the servers\<close>

definition run_s138_check :: "pystr option \<Rightarrow> pystr option \<Rightarrow> pystr option \<Rightarrow> pystr list" where
  "run_s138_check udp_server udp_tunnel proxy_glob =
     absent
      [(udp_server,
      lit ''S138 UdpServer.kt: file text missing. Sprint 14 '' @ [167] @ lit ''10 invariant.''),
       (udp_tunnel,
      lit ''S138 UdpTunnel.kt: file text missing. Sprint 14 '' @ [167] @ lit ''10 invariant.''),
       (proxy_glob,
      lit ''S138 vpn/proxy/*: no Kotlin source text found. Sprint 14 '' @ [167] @ lit ''10 invariant.'')] @
     (case (udp_server, udp_tunnel, proxy_glob) of
        (Some udp_server_text, Some udp_tunnel_text, Some proxy_glob_text) \<Rightarrow>
          lacking udp_server_text
      [(lit ''Selector.open()'',
      lit ''S138 UdpServer.kt: missing `Selector.open()` in init. Sprint 14 spec '' @ [167] @ lit ''10 '' @
         [8212] @ lit '' NIO selector open is required for the dispatch loop.''),
       (lit ''DatagramChannel.open()'',
      lit ''S138 UdpServer.kt: missing `DatagramChannel.open()` call. Sprint 14 spec '' @ [167] @
         lit ''10 '' @ [8212] @ lit '' UDP channel creation.''),
       (lit ''selector.select('',
      lit ''S138 UdpServer.kt: missing `selector.select(` call. Sprint 14 spec '' @ [167] @ lit ''10 '' @
         [8212] @ lit '' blocking poll.'')] @
          lacking udp_tunnel_text
      [(lit ''fun receivePackets'',
      lit ''S138 UdpTunnel.kt: missing `fun receivePackets` declaration. Sprint 14 spec '' @ [167] @
         lit ''10 '' @ [8212] @ lit '' payload dispatch to VPN service.'')] @
          lacking proxy_glob_text
      [(lit ''channel.register('',
      lit ''S138 vpn/proxy/*: no `channel.register(` call. Sprint 14 spec '' @ [167] @ lit ''10 '' @ [8212] @
         lit '' selector registration is mandatory.'')]
      | _ \<Rightarrow> [])"

definition run_s139_check :: "pystr option \<Rightarrow> pystr option \<Rightarrow> pystr option \<Rightarrow> pystr list" where
  "run_s139_check tcp_proxy_server tcp_tunnel proxy_glob =
     absent
      [(tcp_proxy_server,
      lit ''S139 TcpProxyServer.kt: file text missing. Sprint 14 '' @ [167] @ lit ''9 invariant.''),
       (tcp_tunnel,
      lit ''S139 TcpTunnel.kt: file text missing. Sprint 14 '' @ [167] @ lit ''9 invariant.''),
       (proxy_glob,
      lit ''S139 vpn/proxy/*: no Kotlin source text found. Sprint 14 '' @ [167] @ lit ''9 invariant.'')] @
     (case (tcp_proxy_server, tcp_tunnel, proxy_glob) of
        (Some tcp_proxy_server_text, Some tcp_tunnel_text, Some proxy_glob_text) \<Rightarrow>
          lacking tcp_proxy_server_text
      [(lit ''ServerSocket('',
      lit ''S139 TcpProxyServer.kt: missing `ServerSocket(` creation. Sprint 14 spec '' @ [167] @
         lit ''9 '' @ [8212] @ lit '' proxy binds a ServerSocket on the loopback port.''),
       (lit ''private fun handleNewClient'',
      lit ''S139 TcpProxyServer.kt: missing `private fun handleNewClient` declaration. Sprint 14 spec '' @
         [167] @ lit ''9 '' @ [8212] @ lit '' per-connection handler.'')] @
          (if \<not> has tcp_proxy_server_text ''vpnService.protect('' \<and> \<not> has tcp_proxy_server_text ''vpnService.protect ('' \<and> \<not> has tcp_proxy_server_text ''.protect(''
           then [lit ''S139 TcpProxyServer.kt: missing `protect(` call. Sprint 14 spec '' @ [167] @ lit ''9 '' @
         [8212] @ lit '' outbound socket must bypass TUN.'']
           else []) @
          lacking tcp_tunnel_text
      [(lit ''class TcpTunnel('',
      lit ''S139 TcpTunnel.kt: missing `class TcpTunnel(` declaration. Sprint 14 spec '' @ [167] @
         lit ''9 '' @ [8212] @ lit '' tunnel has clientSocket + remoteSocket + portKey.'')] @
          (if \<not> has tcp_tunnel_text ''override fun run()'' \<and> \<not> has tcp_tunnel_text ''fun run()''
           then [lit ''S139 TcpTunnel.kt: missing `fun run()` declaration. Sprint 14 spec '' @ [167] @ lit ''9 '' @
         [8212] @ lit '' tunnel is a Thread that does bidirectional copy.'']
           else []) @
          (if \<not> has tcp_tunnel_text ''clientSocket.getInputStream'' \<and> \<not> has tcp_tunnel_text ''clientSocket.getInputStream()''
           then [lit ''S139 TcpTunnel.kt: missing `clientSocket.getInputStream()` call. Sprint 14 spec '' @ [167] @
         lit ''9 '' @ [8212] @ lit '' forward read from client to remote.'']
           else [])
      | _ \<Rightarrow> [])"

subsection \<open>What S130 accepts and reports\<close>

lemma splitlines_from_sublist: "l \<in> set (splitlines_from cur s) \<Longrightarrow> sublist l (rev cur @ s)"
proof (induction cur s rule: splitlines_from.induct)
  case (3 cur c d s)
  consider "l = rev cur" | "l \<in> set (splitlines_from [] s)" "c = 13" "d = NL" | "l \<in> set (splitlines_from [] (d # s))"
      "\<not> (c = 13 \<and> d = NL)" "is_linebreak c" | "l \<in> set (splitlines_from (c # cur) (d # s))" "\<not> (c = 13 \<and> d = NL)" "\<not> is_linebreak c"
    using "3.prems" by (simp split: if_splits) blast+
  then show ?case
  proof cases
    case 2
    then have "sublist l s" using "3.IH"(1) by simp
    then show ?thesis using sublist_append [of l "rev cur @ [c, d]" s] by simp
  next
    case 3
    then have "sublist l (d # s)" using "3.IH"(2) by simp
    then show ?thesis using sublist_append [of l "rev cur @ [c]" "d # s"] by simp
  next
    case 4
    then show ?thesis using "3.IH"(3) by simp
  qed simp
qed (auto split: if_splits)

lemma line_in_text: "l \<in> set (splitlines t) \<Longrightarrow> sublist l t"
  using splitlines_from_sublist [of l "[]" t] by (simp add: splitlines_def)

lemma code_part_in_line: "sublist (code_part l) l"
  by (auto simp: code_part_def sublist_take split: option.split)

lemma code_part_has: "l \<in> set (splitlines t) \<Longrightarrow> has (code_part l) n \<Longrightarrow> has t n"
  unfolding contains_sublist using line_in_text code_part_in_line sublist_order.order_trans by metis

text \<open>The numbers of \<open>enumerate(lines, 1)\<close> whose line passes a test.\<close>

lemma numbered_lines:
  "i \<in> set (map fst (filter (\<lambda>(i, l). P l) (zip [1..<Suc (length ls)] ls))) \<longleftrightarrow> 1 \<le> i \<and> i \<le> length ls \<and> P (ls ! (i - 1))"
proof -
  have "i \<in> set (map fst (filter (\<lambda>(i, l). P l) (zip [1..<Suc (length ls)] ls))) \<longleftrightarrow>
      (\<exists>k < length ls. i = Suc k \<and> P (ls ! k))"
    by (force simp: set_zip simp del: upt_Suc)
  then show ?thesis by (cases i) auto
qed

lemma code_lines_with_iff:
  "i \<in> set (code_lines_with n t) \<longleftrightarrow> 1 \<le> i \<and> i \<le> length (splitlines t) \<and> has (code_part (splitlines t ! (i - 1))) n"
  unfolding code_lines_with_def Let_def by (rule numbered_lines)

lemma filter_snd_Nil: "filter (\<lambda>(i, l). P l) xs = [] \<longleftrightarrow> list_all (\<lambda>l. \<not> P l) (map snd xs)"
  by (induction xs) auto

lemma code_lines_with_Nil: "code_lines_with n t = [] \<longleftrightarrow> list_all (\<lambda>l. \<not> has (code_part l) n) (splitlines t)"
  by (simp add: code_lines_with_def Let_def filter_snd_Nil del: upt_Suc)

text \<open>The replica of S130 passes exactly on a proxy that never parses a first packet, whose TCP server takes the source port
  as the key, and which has no \<open>clientSocket.localPort\<close> before the comment of a line; the lines it reports otherwise are the
  lines, counted from 1, with the word in their code.\<close>

lemma s130_silent_iff:
  "(run_s130_check (Some server) (Some glob) = [] \<longleftrightarrow>
      \<not> has glob ''readFirstPacket'' \<and> \<not> has glob ''parseFirstPacket'' \<and> has server ''val portKey = clientSocket.port'' \<and>
      list_all (\<lambda>l. \<not> has (code_part l) ''clientSocket.localPort'') (splitlines server)) \<and>
   (i \<in> set (code_lines_with ''clientSocket.localPort'' server) \<longleftrightarrow>
      1 \<le> i \<and> i \<le> length (splitlines server) \<and> has (code_part (splitlines server ! (i - 1))) ''clientSocket.localPort'')"
proof
  have "\<not> has server ''clientSocket.localPort'' \<Longrightarrow>
      list_all (\<lambda>l. \<not> has (code_part l) ''clientSocket.localPort'') (splitlines server)"
    using code_part_has by (auto simp: list_all_iff)
  then show "run_s130_check (Some server) (Some glob) = [] \<longleftrightarrow>
      \<not> has glob ''readFirstPacket'' \<and> \<not> has glob ''parseFirstPacket'' \<and> has server ''val portKey = clientSocket.port'' \<and>
      list_all (\<lambda>l. \<not> has (code_part l) ''clientSocket.localPort'') (splitlines server)"
    by (auto simp: run_s130_check_def code_lines_with_Nil Let_def)
  show "i \<in> set (code_lines_with ''clientSocket.localPort'' server) \<longleftrightarrow>
      1 \<le> i \<and> i \<le> length (splitlines server) \<and> has (code_part (splitlines server ! (i - 1))) ''clientSocket.localPort''"
    by (rule code_lines_with_iff)
qed

end
