(* ===== verification/Self_Test_Driver.thy ===== *)
theory Self_Test_Driver
  imports Proxy_Rules "HOL-Library.List_Lexorder" "HOL-Library.Multiset"
begin

section \<open>The driver of the self-test and its cases on the proxy\<close>

text \<open>
  The main block of tools/audit-self-test.py runs a table of cases: a name, a replica with its arguments, and the messages that
  are expected. It compares the sorted lists and exits with 1 when a case fails. The cases of S129 to S137 are here in
  full, texts and messages; they are the last seventeen of the table. A case holds the value of \<open>check_fn(*args)\<close>.
\<close>

subsection \<open>The driver\<close>

type_synonym test_case = "pystr \<times> pystr list res \<times> pystr list"

fun run_case :: "test_case \<Rightarrow> pystr list \<Rightarrow> pystr list res" where
  "run_case (name, actual, expected) failed = bindE actual (\<lambda>actual.
     let ok = sort actual = sort expected in Inr (if \<not> ok then failed @ [name] else failed))"

text \<open>The exit code and the names of the failed cases.\<close>

definition self_test_main :: "test_case list \<Rightarrow> (nat \<times> pystr list) res" where
  "self_test_main cases = bindE (foldE run_case cases []) (\<lambda>failed.
     Inr (if failed \<noteq> [] then (1, failed) else (0, failed)))"

text \<open>What it takes to pass: the same messages, each as often; the order does not matter.\<close>

definition passes :: "test_case \<Rightarrow> bool" where
  "passes c = (case c of (name, actual, expected) \<Rightarrow>
     case actual of Inl e \<Rightarrow> False | Inr messages \<Rightarrow> mset messages = mset expected)"

definition raises :: "test_case \<Rightarrow> bool" where
  "raises c \<longleftrightarrow> isl (fst (snd c))"

lemma sort_eq_iff_mset: "sort xs = sort ys \<longleftrightarrow> mset xs = mset ys"
  for xs :: "'a :: linorder list"
  by (metis mset_sort properties_for_sort sorted_sort)

lemma run_cases:
  "foldE run_case cases failed =
     (case find raises cases of
        Some (name, actual, expected) \<Rightarrow> Inl (projl actual)
      | None \<Rightarrow> Inr (failed @ map fst (filter (\<lambda>c. \<not> passes c) cases)))"
proof (induction cases arbitrary: failed)
  case (Cons c cases)
  obtain name actual expected where c: "c = (name, actual, expected)" by (cases c) auto
  show ?case
  proof (cases actual)
    case (Inr messages)
    have "passes c \<longleftrightarrow> sort messages = sort expected" by (simp add: passes_def c Inr sort_eq_iff_mset)
    with Cons show ?thesis by (simp add: c Inr raises_def Let_def split: option.split)
  qed (simp add: c raises_def)
qed simp

text \<open>C35. The self-test ends in the exception of the first replica that raises. Otherwise it exits with 0 exactly when every replica returns, in
  whatever order, the messages its case expects, and the names it lists as failed are those of the other cases, in their order.\<close>

theorem self_test_exit_code:
  "self_test_main cases =
     (case find raises cases of
        Some (name, actual, expected) \<Rightarrow> Inl (projl actual)
      | None \<Rightarrow> Inr (if list_all passes cases then 0 else 1, map fst (filter (\<lambda>c. \<not> passes c) cases)))"
proof -
  have "filter (\<lambda>c. \<not> passes c) cases = [] \<longleftrightarrow> list_all passes cases" by (simp add: filter_empty_conv list_all_iff)
  then show ?thesis by (simp add: self_test_main_def run_cases split: option.split)
qed

lemma self_test_passes: "list_all passes cases \<Longrightarrow> self_test_main cases = Inr (0, [])"
proof -
  assume p: "list_all passes cases"
  have "passes c \<Longrightarrow> \<not> raises c" for c by (cases c) (auto simp: passes_def raises_def split: sum.splits)
  with p have "find raises cases = None" by (auto simp: find_None_iff list_all_iff)
  with p show ?thesis by (simp add: self_test_main_def run_cases filter_empty_conv list_all_iff)
qed

subsection \<open>Texts of lines\<close>

definition text_lines :: "pystr list \<Rightarrow> pystr" where
  "text_lines ls = concat (map (\<lambda>l. l @ [NL]) ls)"

lemma contains_text_lines:
  "NL \<notin> set n \<Longrightarrow> n \<noteq> [] \<Longrightarrow> contains (text_lines ls) n \<longleftrightarrow> list_ex (\<lambda>l. contains l n) ls"
  by (induction ls) (auto simp: text_lines_def contains_around)

lemma splitlines_text_lines:
  "list_all (list_all (\<lambda>c. \<not> is_linebreak c)) ls \<Longrightarrow> splitlines (text_lines ls) = ls"
  by (induction ls) (auto simp: text_lines_def splitlines_def splitlines_from_line list_all_iff)

lemma count_from_rules [text_simps]:
  "count_from n [] = 0"
  "count_from (y # ys) (x # xs) = (if prefix (y # ys) (x # xs) then Suc (count_from (y # ys) (drop (length ys) xs))
     else count_from (y # ys) xs)"
  by (simp_all add: count_from.simps [of _ "[]"] count_from.simps [of "y # ys" "x # xs"])

lemma prefix_before_sep: "c \<notin> set n \<Longrightarrow> prefix n (l @ c # r) \<longleftrightarrow> prefix n l"
  unfolding prefix_append by (auto simp: prefix_Cons)

lemma count_from_sep: "c \<notin> set n \<Longrightarrow> n \<noteq> [] \<Longrightarrow> count_from n (l @ c # r) = count_from n l + count_from n r"
proof (induction l rule: measure_induct_rule [where f = length])
  case (less l)
  show ?case
  proof (cases l)
    case Nil
    with less.prems show ?thesis by (cases n) (auto simp: count_from_rules)
  next
    case (Cons x xs)
    have "length (drop (length n) l) < length l" using Cons less.prems by simp
    note IH = less.IH [OF this less.prems] less.IH [of xs, OF _ less.prems]
    have p: "prefix n (x # xs @ c # r) \<longleftrightarrow> prefix n (x # xs)"
      using prefix_before_sep [OF less.prems(1), of "x # xs" r] by simp
    have d: "drop (length n) (x # xs @ c # r) = drop (length n) (x # xs) @ c # r" if "prefix n (x # xs)"
      using prefix_length_le [OF that] by (cases n) auto
    show ?thesis using IH less.prems
      by (simp add: Cons p d count_from.simps [of n "x # xs @ c # r"] count_from.simps [of n "x # xs"] del: drop.simps)
  qed
qed

lemma py_count_text_lines:
  "NL \<notin> set n \<Longrightarrow> n \<noteq> [] \<Longrightarrow> py_count (text_lines ls) n = sum_list (map (count_from n) ls)"
proof (induction ls)
  case Nil
  then show ?case by (simp add: text_lines_def py_count_def count_from_rules)
next
  case (Cons l ls)
  have "text_lines (l # ls) = l @ NL # text_lines ls" by (simp add: text_lines_def)
  with Cons show ?case by (simp add: py_count_def count_from_sep)
qed

lemma py_lower_text_lines: "concat (map lower_char (text_lines ls)) = text_lines (map (\<lambda>l. concat (map lower_char l)) ls)"
  by (induction ls) (simp_all add: text_lines_def lower_char_def)

subsection \<open>S129 to S137\<close>

definition s129_constants_pass :: pystr where
  "s129_constants_pass = text_lines [
     lit ''package com.opene2ee.opene2ee.vpn.net'',
     lit ''object VPNConstants {'',
     lit ''    const val TUN_ADDRESS = '' @ [34] @ lit ''10.0.0.2'' @ [34],
     lit ''    const val TUN_PREFIX = 32'',
     lit ''    const val VPN_MTU = 1400'',
     lit ''    const val PRIMARY_DNS = '' @ [34] @ lit ''1.1.1.1'' @ [34],
     lit ''    const val SECONDARY_DNS = '' @ [34] @ lit ''8.8.8.8'' @ [34],
     lit ''}'']"

definition case_s129_pass :: test_case where
  "case_s129_pass = (
      lit ''S129 PASS (Sprint 14 KURAL 1 '' @ [8212] @
      lit '' VPNConstants object VPN_MTU=1400 literal + PRIMARY_DNS=1.1.1.1 literal - regression guard for '' @
      lit ''Sprint 14 spec '' @ [167] @ lit ''3)'',
      Inr (run_s129_check (Some s129_constants_pass)),
      [])"

definition s129_constants_fail :: pystr where
  "s129_constants_fail = text_lines [
     lit ''package com.opene2ee.opene2ee.vpn.net'',
     lit ''object VPNConstants {'',
     lit ''    const val VPN_MTU = 15000'',
     lit ''    const val PRIMARY_DNS = '' @ [34] @ lit ''1.1.1.1'' @ [34],
     lit ''}'']"

definition case_s129_fail :: test_case where
  "case_s129_fail = (
      lit ''S129 FAIL (VPN_MTU value is NOT 1400 - regression guard for Sprint 14 KURAL 1)'',
      Inr (run_s129_check (Some s129_constants_fail)),
      [
        lit ''S129 VPNConstants.kt: `const val VPN_MTU` found but value is NOT 1400. Sprint 14 KURAL 1 - '' @
         lit ''15000 '' @ [8594] @ lit '' Android 14 ConnectivityService reject. Reference: spec '' @ [167] @
         lit ''0 table row 1.''])"

definition s130_server_pass :: pystr where
  "s130_server_pass = text_lines [
     lit ''package com.opene2ee.opene2ee.vpn.proxy'',
     lit ''import com.opene2ee.opene2ee.vpn.OpenE2eeVpnService'',
     lit ''class TcpProxyServer(private val port: Int) {'',
     lit ''    private fun handleNewClient(clientSocket: java.net.Socket) {'',
     lit ''        val portKey = clientSocket.port'',
     lit ''        OpenE2eeVpnService.activeInstance?.protect(clientSocket)'',
     lit ''    }'',
     lit ''}'']"

definition s130_glob_pass :: pystr where
  "s130_glob_pass = text_lines [
     lit ''val portKey = clientSocket.port'',
     lit ''OpenE2eeVpnService.activeInstance?.protect(clientSocket)'']"

definition case_s130_pass :: test_case where
  "case_s130_pass = (
      lit ''S130 PASS (Sprint 14 KURAL 2+3 '' @ [8212] @
      lit '' TcpProxyServer has no readFirstPacket/parseFirstPacket + val portKey=clientSocket.port - '' @
      lit ''regression guard for Sprint 12.0F+6 SYN/IP parse attempt)'',
      Inr (run_s130_check (Some s130_server_pass) (Some s130_glob_pass)),
      [])"

definition s130_server_fail :: pystr where
  "s130_server_fail = text_lines [
     lit ''package com.opene2ee.opene2ee.vpn.proxy'',
     lit ''import com.opene2ee.opene2ee.vpn.OpenE2eeVpnService'',
     lit ''class TcpProxyServer {'',
     lit ''    private fun handleNewClient(clientSocket: java.net.Socket) {'',
     lit ''        readFirstPacket(clientSocket)'',
     lit ''        val portKey = clientSocket.port'',
     lit ''        OpenE2eeVpnService.activeInstance?.protect(clientSocket)'',
     lit ''    }'',
     lit ''    private fun readFirstPacket(s: java.net.Socket) {}'',
     lit ''}'']"

definition s130_glob_fail :: pystr where
  "s130_glob_fail = text_lines [
     lit ''readFirstPacket(clientSocket)'',
     lit ''val portKey = clientSocket.port'',
     lit ''OpenE2eeVpnService.activeInstance?.protect(clientSocket)'']"

definition case_s130_fail :: test_case where
  "case_s130_fail = (
      lit ''S130 FAIL (TcpProxyServer uses readFirstPacket - regression guard for Sprint 14 KURAL 2)'',
      Inr (run_s130_check (Some s130_server_fail) (Some s130_glob_fail)),
      [
        lit ''S130 vpn/proxy/*: contains `readFirstPacket` or `parseFirstPacket` literal. Sprint 14 KURAL 2 '' @
         [8212] @
         lit '' kernel transparent proxy strips IP headers; Sprint 12.0F+6 attempt timed out every time. Spec '' @
         [167] @ lit ''9 mandates the NAT-lookup approach.''])"

definition s131_server_pass :: pystr where
  "s131_server_pass = text_lines [
     lit ''package com.opene2ee.opene2ee.vpn.proxy'',
     lit ''import java.nio.channels.SelectionKey'',
     lit ''import java.nio.channels.DatagramChannel'',
     lit ''import java.nio.channels.Selector'',
     lit ''class UdpServer {'',
     lit ''    private val selector: Selector = Selector.open()'',
     lit ''    private fun initConnection(channel: DatagramChannel, tunnel: UdpTunnel) {'',
     lit ''        val key = channel.register(selector, SelectionKey.OP_READ)'',
     lit ''        key.attach(tunnel)'',
     lit ''    }'',
     lit ''    private fun runLoop() {'',
     lit ''        val key = selector.selectedKeys().iterator().next()'',
     lit ''        val tunnel = key.attachment() as? UdpTunnel'',
     lit ''    }'',
     lit ''}'']"

definition case_s131_pass :: test_case where
  "case_s131_pass = (
      lit ''S131 PASS (Sprint 14 KURAL 4 '' @ [8212] @
      lit '' UdpServer has key.attach(tunnel) code after channel.register(selector, SelectionKey.OP_READ) + '' @
      lit ''key.attachment() as? UdpTunnel dispatch)'',
      Inr (run_s131_check (Some s131_server_pass)),
      [])"

definition s131_server_fail :: pystr where
  "s131_server_fail = text_lines [
     lit ''package com.opene2ee.opene2ee.vpn.proxy'',
     lit ''import java.nio.channels.SelectionKey'',
     lit ''import java.nio.channels.DatagramChannel'',
     lit ''import java.nio.channels.Selector'',
     lit ''class UdpServer {'',
     lit ''    private val selector: Selector = Selector.open()'',
     lit ''    private fun initConnection(channel: DatagramChannel, tunnel: UdpTunnel) {'',
     lit ''        val key = channel.register(selector, SelectionKey.OP_READ)'',
     lit ''        // key.attach(tunnel) // COMMENTED OUT'',
     lit ''    }'',
     lit ''    private fun runLoop() {'',
     lit ''        val key = selector.selectedKeys().iterator().next()'',
     lit ''        val tunnel = key.attachment() as? UdpTunnel'',
     lit ''    }'',
     lit ''}'']"

definition case_s131_fail :: test_case where
  "case_s131_fail = (
      lit ''S131 FAIL (UdpServer missing key.attach(tunnel) - regression guard for Sprint 14 KURAL 4)'',
      Inr (run_s131_check (Some s131_server_fail)),
      [
        lit ''S131 UdpServer.kt: missing `key.attach(tunnel)` code (commented or absent). Sprint 14 KURAL 4 '' @
         [8212] @
         lit '' without this call, selector runLoop gets null attachment, receivePackets() never fires, '' @
         lit ''DNS times out at 15s. Spec '' @ [167] @ lit ''10.2.''])"

definition s132_service_pass :: pystr where
  "s132_service_pass = text_lines [
     lit ''package com.opene2ee.opene2ee.vpn.processparse'',
     lit ''import com.opene2ee.opene2ee.vpn.nat.NatSessionManager'',
     lit ''class PortHostService : android.app.Service() {'',
     lit ''    fun refreshSessionInfo() {'',
     lit ''        val sessions = NatSessionManager.snapshot()'',
     lit ''        for (session in sessions) {'',
     lit ''            val uid = NetFileManager.getInstance().getUid(session.localPort)'',
     lit ''        }'',
     lit ''    }'',
     lit ''}'']"

definition case_s132_pass :: test_case where
  "case_s132_pass = (
      lit ''S132 PASS (Sprint 14 KURAL 5 '' @ [8212] @ lit '' PortHostService has fun refreshSessionInfo + '' @
      lit ''NetFileManager.getInstance().getUid(session.localPort) - regression guard for Sprint 13.0 '' @
      lit ''getUid(session.remotePort) bug)'',
      Inr (run_s132_check (Some s132_service_pass)),
      [])"

definition s132_service_fail :: pystr where
  "s132_service_fail = text_lines [
     lit ''package com.opene2ee.opene2ee.vpn.processparse'',
     lit ''import com.opene2ee.opene2ee.vpn.nat.NatSessionManager'',
     lit ''class PortHostService : android.app.Service() {'',
     lit ''    fun refreshSessionInfo() {'',
     lit ''        val sessions = NatSessionManager.snapshot()'',
     lit ''        for (session in sessions) {'',
     lit ''            val uid = NetFileManager.getInstance().getUid(session.remotePort)'',
     lit ''            val uid2 = NetFileManager.getInstance().getUid(session.localPort)'',
     lit ''        }'',
     lit ''    }'',
     lit ''}'']"

definition case_s132_fail :: test_case where
  "case_s132_fail = (
      lit ''S132 FAIL (PortHostService uses getUid(session.remotePort) - regression guard for Sprint 14 KURAL 5)'',
      Inr (run_s132_check (Some s132_service_fail)),
      [
        lit ''S132 PortHostService.kt: contains `getUid(session.remotePort)` literal. Sprint 14 KURAL 5 '' @
         lit ''regression guard '' @ [8212] @
         lit '' this is the Sprint 13.0 bug that made UID lookup always -1. Spec '' @ [167] @ lit ''8.3.''])"

definition s133_service_pass :: pystr where
  "s133_service_pass = text_lines [
     lit ''package com.opene2ee.opene2ee.vpn'',
     lit ''import android.net.VpnService'',
     lit ''class OpenE2eeVpnService : VpnService() {'',
     lit ''    private fun establishVpn(): android.os.ParcelFileDescriptor {'',
     lit ''        val builder = Builder()'',
     lit ''        builder.setMtu(VPNConstants.VPN_MTU)'',
     lit ''        builder.addAllowedApplication(packageName)'',
     lit ''        return builder.establish()!!'',
     lit ''    }'',
     lit ''    fun stopVpn() {'',
     lit ''        android.util.Log.d('' @ [34] @ lit ''OpenE2eeVpn'' @ [34] @ lit '', '' @ [34] @ lit ''stopVpn called'' @ [34] @ lit '')'',
     lit ''        dispose()'',
     lit ''    }'',
     lit ''}'']"

definition s133_activity_pass :: pystr where
  "s133_activity_pass = text_lines [
     lit ''package com.opene2ee.opene2ee'',
     lit ''import com.opene2ee.opene2ee.vpn.OpenE2eeVpnService'',
     lit ''class MainActivity : io.flutter.embedding.android.FlutterActivity() {'',
     lit ''    override fun configureFlutterEngine(flutterEngine: io.flutter.embedding.engine.FlutterEngine) {'',
     lit ''        io.flutter.plugin.common.MethodChannel(flutterEngine.dartExecutor.binaryMessenger, '' @ [34] @ lit ''opene2ee/vpn'' @ [34] @ lit '').setMethodCallHandler { call, result ->'',
     lit ''            when (call.method) {'',
     lit ''                '' @ [34] @ lit ''stop'' @ [34] @ lit '' -> {'',
     lit ''                    val svc = OpenE2eeVpnService.activeInstance'',
     lit ''                    svc.stopVpn()'',
     lit ''                    stopService(android.content.Intent(this, OpenE2eeVpnService::class.java))'',
     lit ''                    result.success(null)'',
     lit ''                }'',
     lit ''            }'',
     lit ''        }'',
     lit ''    }'',
     lit ''}'']"

definition case_s133_pass :: test_case where
  "case_s133_pass = (
      lit ''S133 PASS (Sprint 14 KURAL 6 + stop-branch '' @ [8212] @
      lit '' OpenE2eeVpnService has builder.addAllowedApplication + fun stopVpn() + '' @
      lit ''builder.setMtu(VPNConstants.VPN_MTU) + MainActivity svc.stopVpn() before stopService)'',
      Inr (run_s133_check (Some s133_service_pass) (Some s133_activity_pass)),
      [])"

definition s134_constants_pass :: pystr where
  "s134_constants_pass = text_lines [
     lit ''package com.opene2ee.opene2ee.vpn.net'',
     lit ''object VPNConstants {'',
     lit ''    const val TUN_ADDRESS = '' @ [34] @ lit ''10.0.0.2'' @ [34],
     lit ''    const val TUN_PREFIX = 32'',
     lit ''    const val VPN_ROUTE = '' @ [34] @ lit ''0.0.0.0'' @ [34],
     lit ''    const val VPN_ROUTE_PREFIX = 0'',
     lit ''    const val SESSION_TIME_OUT_MS: Long = 60_000L'',
     lit ''    const val PACKET_SIZE = 32767'',
     lit ''    const val NOTIFICATION_ID = 0x5650_4E4E'',
     lit ''}'']"

definition case_s134_pass :: test_case where
  "case_s134_pass = (
      lit ''S134 PASS (Sprint 14 spec '' @ [167] @ lit ''3 '' @ [8212] @
      lit '' VPNConstants TUN_ADDRESS=10.0.0.2 + TUN_PREFIX=32 + VPN_ROUTE=0.0.0.0 + '' @
      lit ''SESSION_TIME_OUT_MS=60_000L + PACKET_SIZE=32767 + NOTIFICATION_ID=0x5650_4E4E)'',
      Inr (run_s134_check (Some s134_constants_pass)),
      [])"

definition s134_constants_fail :: pystr where
  "s134_constants_fail = text_lines [
     lit ''package com.opene2ee.opene2ee.vpn.net'',
     lit ''object VPNConstants {'',
     lit ''    const val VPN_MTU = 1400'',
     lit ''}'']"

definition case_s134_fail :: test_case where
  "case_s134_fail = (
      lit ''S134 FAIL (VPNConstants missing TUN_ADDRESS literal - regression guard for Sprint 14 spec '' @ [167] @
      lit ''3)'',
      Inr (run_s134_check (Some s134_constants_fail)),
      [
        lit ''S134 VPNConstants.kt: missing `const val TUN_ADDRESS = '' @ [34] @ lit ''10.0.0.2'' @ [34] @
         lit ''` literal. Sprint 14 spec '' @ [167] @ lit ''3 mandates the TUN IP for the transparent proxy.'',
        lit ''S134 VPNConstants.kt: missing `const val TUN_PREFIX = 32` literal. Sprint 14 spec '' @ [167] @
         lit ''3 '' @ [8212] @ lit '' single-host /32 route prefix for TUN.'',
        lit ''S134 VPNConstants.kt: missing `const val VPN_ROUTE = '' @ [34] @ lit ''0.0.0.0'' @ [34] @
         lit ''` literal. Sprint 14 spec '' @ [167] @ lit ''3 '' @ [8212] @ lit '' capture everything route.'',
        lit ''S134 VPNConstants.kt: missing `const val VPN_ROUTE_PREFIX = 0` literal. Sprint 14 spec '' @
         [167] @ lit ''3 '' @ [8212] @ lit '' capture everything prefix.'',
        lit ''S134 VPNConstants.kt: missing `const val SESSION_TIME_OUT_MS: Long = 60_000L` literal. '' @
         lit ''Sprint 14 spec '' @ [167] @ lit ''3 '' @ [8212] @ lit '' 60s idle session timeout.'',
        lit ''S134 VPNConstants.kt: missing `const val PACKET_SIZE = 32767` literal. Sprint 14 spec '' @
         [167] @ lit ''3 '' @ [8212] @ lit '' max IP packet size.'',
        lit ''S134 VPNConstants.kt: missing `const val NOTIFICATION_ID = 0x5650_4E4E` literal. Sprint 14 '' @
         lit ''spec '' @ [167] @ lit ''3 '' @ [8212] @ lit '' '' @ [39] @ lit ''VPNN'' @ [39] @
         lit '' notification ID.''])"

definition s135_files_pass :: pystr where
  "s135_files_pass = text_lines [
     lit ''package com.opene2ee.opene2ee.vpn.processparse'',
     lit ''import android.content.Context'',
     lit ''class NetFileManager {'',
     lit ''    companion object {'',
     lit ''        private val INSTANCE = NetFileManager()'',
     lit ''        fun getInstance(): NetFileManager = INSTANCE'',
     lit ''    }'',
     lit ''    fun init(context: Context) {}'',
     lit ''    fun refresh() {'',
     lit ''        val line = '' @ [34] @ lit ''  sl  ...'' @ [34],
     lit ''        if (line.startsWith('' @ [34] @ lit ''  sl'' @ [34] @ lit '')) return'',
     lit ''    }'',
     lit ''    fun getUid(port: Int): Int? = null'',
     lit ''}'']"

definition case_s135_pass :: test_case where
  "case_s135_pass = (
      lit ''S135 PASS (Sprint 14 spec '' @ [167] @ lit ''8 '' @ [8212] @
      lit '' NetFileManager class + getInstance + fun getUid(port: Int): Int? + fun refresh() + fun '' @
      lit ''init(context: Context) + PR #33 startsWith('' @ [34] @ lit ''  sl'' @ [34] @ lit '') header skip)'',
      Inr (run_s135_check (Some s135_files_pass)),
      [])"

definition s135_files_fail :: pystr where
  "s135_files_fail = text_lines [
     lit ''package com.opene2ee.opene2ee.vpn.processparse'',
     lit ''import android.content.Context'',
     lit ''class NetFileManager {'',
     lit ''    companion object {'',
     lit ''        fun getInstance(): NetFileManager = NetFileManager()'',
     lit ''    }'',
     lit ''    fun init(context: Context) {}'',
     lit ''    fun refresh() {}'',
     lit ''    fun getUid(port: Int): Int? = null'',
     lit ''}'']"

definition case_s135_fail :: test_case where
  "case_s135_fail = (
      lit ''S135 FAIL (NetFileManager missing PR #33 startsWith('' @ [39] @ lit ''  sl'' @ [39] @
      lit '') header skip - regression guard for Sprint 14 spec '' @ [167] @ lit ''8)'',
      Inr (run_s135_check (Some s135_files_fail)),
      [
        lit ''S135 NetFileManager.kt: missing PR #33 header skip (`startsWith('' @ [34] @ lit ''  sl'' @ [34] @
         lit '')`). Sprint 14 spec '' @ [167] @ lit ''8 '' @ [8212] @
         lit '' /proc/net/tcp first line is the `  sl  ...` header; parsing it as a data row would crash '' @
         lit ''parseData.''])"

definition s136_service_pass :: pystr where
  "s136_service_pass = text_lines [
     lit ''package com.opene2ee.opene2ee.vpn'',
     lit ''import android.net.VpnService'',
     lit ''class OpenE2eeVpnService : VpnService(), Runnable {'',
     lit ''    companion object {'',
     lit ''        var activeInstance: OpenE2eeVpnService? = null'',
     lit ''        const val METHOD_CHANNEL = '' @ [34] @ lit ''opene2ee/vpn'' @ [34],
     lit ''    }'',
     lit ''    private fun runVpnLoop() {}'',
     lit ''    private fun establishVpn(): android.os.ParcelFileDescriptor = Builder().establish()!!'',
     lit ''    override fun run() {}'',
     lit ''}'']"

definition case_s136_pass :: test_case where
  "case_s136_pass = (
      lit ''S136 PASS (Sprint 14 spec '' @ [167] @ lit ''11 '' @ [8212] @
      lit '' OpenE2eeVpnService companion has var activeInstance + private fun runVpnLoop + const val '' @
      lit ''METHOD_CHANNEL='' @ [34] @ lit ''opene2ee/vpn'' @ [34] @ lit '' + private fun establishVpn)'',
      Inr (run_s136_check (Some s136_service_pass)),
      [])"

definition s136_service_fail :: pystr where
  "s136_service_fail = text_lines [
     lit ''package com.opene2ee.opene2ee.vpn'',
     lit ''import android.net.VpnService'',
     lit ''class OpenE2eeVpnService : VpnService() {'',
     lit ''    companion object {'',
     lit ''        const val METHOD_CHANNEL = '' @ [34] @ lit ''opene2ee/vpn'' @ [34],
     lit ''    }'',
     lit ''    private fun runVpnLoop() {}'',
     lit ''    private fun establishVpn(): android.os.ParcelFileDescriptor = Builder().establish()!!'',
     lit ''}'']"

definition case_s136_fail :: test_case where
  "case_s136_fail = (
      lit ''S136 FAIL (OpenE2eeVpnService missing activeInstance singleton field - regression guard for '' @
      lit ''Sprint 14 spec '' @ [167] @ lit ''11)'',
      Inr (run_s136_check (Some s136_service_fail)),
      [
        lit ''S136 OpenE2eeVpnService.kt: missing `var activeInstance: OpenE2eeVpnService?` companion '' @
         lit ''field. Sprint 14 spec '' @ [167] @ lit ''11 '' @ [8212] @
         lit '' the singleton pattern that TcpProxyServer / UdpServer use to find the running service.''])"

definition s137_activity_pass :: pystr where
  "s137_activity_pass = text_lines [
     lit ''package com.opene2ee.opene2ee'',
     lit ''import com.opene2ee.opene2ee.vpn.OpenE2eeVpnService'',
     lit ''class MainActivity : io.flutter.embedding.android.FlutterActivity() {'',
     lit ''    override fun configureFlutterEngine(flutterEngine: io.flutter.embedding.engine.FlutterEngine) {'',
     lit ''        io.flutter.plugin.common.MethodChannel(flutterEngine.dartExecutor.binaryMessenger, '' @ [34] @ lit ''opene2ee/vpn'' @ [34] @ lit '').setMethodCallHandler { call, result ->'',
     lit ''            when (call.method) {'',
     lit ''                '' @ [34] @ lit ''stop'' @ [34] @ lit '' -> {'',
     lit ''                    val svc = OpenE2eeVpnService.activeInstance'',
     lit ''                    svc.stopVpn()'',
     lit ''                    stopService(android.content.Intent(this, OpenE2eeVpnService::class.java))'',
     lit ''                }'',
     lit ''            }'',
     lit ''        }'',
     lit ''    }'',
     lit ''}'']"

definition s137_manifest_pass :: pystr where
  "s137_manifest_pass = text_lines [
     lit ''<manifest xmlns:android='' @ [34] @ lit ''http://schemas.android.com/apk/res/android'' @ [34] @ lit ''>'',
     lit ''    <application android:label='' @ [34] @ lit ''opene2ee'' @ [34] @ lit ''>'',
     lit ''        <service'',
     lit ''            android:name='' @ [34] @ lit ''.vpn.OpenE2eeVpnService'' @ [34],
     lit ''            android:permission='' @ [34] @ lit ''android.permission.BIND_VPN_SERVICE'' @ [34],
     lit ''            android:foregroundServiceType='' @ [34] @ lit ''specialUse'' @ [34] @ lit ''>'',
     lit ''            <property'',
     lit ''                android:name='' @ [34] @ lit ''android.app.PROPERTY_SPECIAL_USE_FGS_SUBTYPE'' @ [34],
     lit ''                android:value='' @ [34] @ lit ''vpn_transparent_proxy_for_e2ee_tunnel'' @ [34] @ lit '' />'',
     lit ''            <intent-filter>'',
     lit ''                <action android:name='' @ [34] @ lit ''android.net.VpnService'' @ [34] @ lit '' />'',
     lit ''            </intent-filter>'',
     lit ''        </service>'',
     lit ''    </application>'',
     lit ''</manifest>'']"

definition case_s137_pass :: test_case where
  "case_s137_pass = (
      lit ''S137 PASS (Sprint 14 spec '' @ [167] @ lit ''2+'' @ [167] @ lit ''12 '' @ [8212] @
      lit '' MainActivity imports OpenE2eeVpnService + reads .activeInstance + svc.stopVpn() + '' @
      lit ''AndroidManifest has .vpn.OpenE2eeVpnService + BIND_VPN_SERVICE + PROPERTY_SPECIAL_USE_FGS_SUBTYPE '' @
      lit ''+ android.net.VpnService)'',
      Inr (run_s137_check (Some s137_activity_pass) (Some s137_manifest_pass)),
      [])"

definition s137_activity_fail :: pystr where
  "s137_activity_fail = text_lines [
     lit ''package com.opene2ee.opene2ee'',
     lit ''class MainActivity : io.flutter.embedding.android.FlutterActivity() {'',
     lit ''    override fun configureFlutterEngine(flutterEngine: io.flutter.embedding.engine.FlutterEngine) {'',
     lit ''        io.flutter.plugin.common.MethodChannel(flutterEngine.dartExecutor.binaryMessenger, '' @ [34] @ lit ''opene2ee/vpn'' @ [34] @ lit '').setMethodCallHandler { call, result ->'',
     lit ''            when (call.method) {'',
     lit ''                '' @ [34] @ lit ''stop'' @ [34] @ lit '' -> {'',
     lit ''                    stopService(android.content.Intent(this, MyVpnClass::class.java))'',
     lit ''                }'',
     lit ''            }'',
     lit ''        }'',
     lit ''    }'',
     lit ''}'']"

definition s137_manifest_fail :: pystr where
  "s137_manifest_fail = text_lines [
     lit ''<manifest><application></application></manifest>'']"

definition case_s137_fail :: test_case where
  "case_s137_fail = (
      lit ''S137 FAIL (MainActivity missing svc.stopVpn() direct call - regression guard for Sprint 14 spec '' @
      [167] @ lit ''12.1)'',
      Inr (run_s137_check (Some s137_activity_fail) (Some s137_manifest_fail)),
      [
        lit ''S137 MainActivity.kt: missing import `com.opene2ee.opene2ee.vpn.OpenE2eeVpnService`. '' @
         lit ''Sprint 14 spec '' @ [167] @ lit ''12.1 '' @ [8212] @
         lit '' MainActivity calls OpenE2eeVpnService.stopVpn() in the stop branch.'',
        lit ''S137 MainActivity.kt: missing `OpenE2eeVpnService.activeInstance` reference. Sprint 14 spec '' @
         [167] @ lit ''12.1 '' @ [8212] @ lit '' MainActivity reads the singleton to call stopVpn() directly.'',
        lit ''S137 MainActivity.kt: missing `svc.stopVpn()` direct call. Sprint 14 spec '' @ [167] @
         lit ''12.1 '' @ [8212] @ lit '' stopService alone is a no-op for foreground services.'',
        lit ''S137 AndroidManifest.xml: missing `.vpn.OpenE2eeVpnService` service entry. Sprint 14 spec '' @
         [167] @ lit ''2 '' @ [8212] @ lit '' VPN service registration.'',
        lit ''S137 AndroidManifest.xml: missing `android.permission.BIND_VPN_SERVICE` permission. Sprint '' @
         lit ''14 spec '' @ [167] @ lit ''2 '' @ [8212] @ lit '' VPN service permission.'',
        lit ''S137 AndroidManifest.xml: missing `android.app.PROPERTY_SPECIAL_USE_FGS_SUBTYPE` property. '' @
         lit ''Sprint 14 spec '' @ [167] @ lit ''2 '' @ [8212] @
         lit '' Android 14+ specialUse subtype declaration.'',
        lit ''S137 AndroidManifest.xml: missing `android.net.VpnService` action. Sprint 14 spec '' @ [167] @
         lit ''2 '' @ [8212] @ lit '' VPN service intent-filter.''])"

subsection \<open>The literals of the texts\<close>

lemma s129_pass_keys:
  "contains s129_constants_pass (lit ''object VPNConstants'')"
  "contains s129_constants_pass (lit ''const val VPN_MTU = 1400'')"
  "contains s129_constants_pass (lit ''const val VPN_MTU'')"
  "contains s129_constants_pass (lit ''const val PRIMARY_DNS = '' @ [34] @ lit ''1.1.1.1'' @ [34])"
  by (simp_all add: s129_constants_pass_def contains_text_lines splitlines_text_lines code_part_def text_simps)

lemma s129_fail_keys:
  "contains s129_constants_fail (lit ''object VPNConstants'')"
  "\<not> contains s129_constants_fail (lit ''const val VPN_MTU = 1400'')"
  "contains s129_constants_fail (lit ''const val VPN_MTU'')"
  "contains s129_constants_fail (lit ''const val PRIMARY_DNS = '' @ [34] @ lit ''1.1.1.1'' @ [34])"
  by (simp_all add: s129_constants_fail_def contains_text_lines splitlines_text_lines code_part_def text_simps)

lemma s130_pass_keys:
  "contains s130_server_pass (lit ''val portKey = clientSocket.port'')"
  "\<not> contains s130_server_pass (lit ''clientSocket.localPort'')"
  "\<not> contains s130_glob_pass (lit ''readFirstPacket'')"
  "\<not> contains s130_glob_pass (lit ''parseFirstPacket'')"
  by (simp_all add: s130_server_pass_def s130_glob_pass_def contains_text_lines splitlines_text_lines code_part_def text_simps)

lemma s130_fail_keys:
  "contains s130_server_fail (lit ''val portKey = clientSocket.port'')"
  "\<not> contains s130_server_fail (lit ''clientSocket.localPort'')"
  "contains s130_glob_fail (lit ''readFirstPacket'')"
  "\<not> contains s130_glob_fail (lit ''parseFirstPacket'')"
  by (simp_all add: s130_server_fail_def s130_glob_fail_def contains_text_lines splitlines_text_lines code_part_def text_simps)

lemma s131_pass_keys:
  "contains s131_server_pass (lit ''private fun initConnection'')"
  "contains s131_server_pass (lit ''channel.register(selector, SelectionKey.OP_READ)'')"
  "contains s131_server_pass (lit ''key.attachment() as? UdpTunnel'')"
  "list_ex (\<lambda>line. has (code_part line) ''key.attach(tunnel)'') (splitlines s131_server_pass)"
  by (simp_all add: s131_server_pass_def contains_text_lines splitlines_text_lines code_part_def text_simps)

lemma s131_fail_keys:
  "contains s131_server_fail (lit ''private fun initConnection'')"
  "contains s131_server_fail (lit ''channel.register(selector, SelectionKey.OP_READ)'')"
  "contains s131_server_fail (lit ''key.attachment() as? UdpTunnel'')"
  "\<not> list_ex (\<lambda>line. has (code_part line) ''key.attach(tunnel)'') (splitlines s131_server_fail)"
  by (simp_all add: s131_server_fail_def contains_text_lines splitlines_text_lines code_part_def text_simps)

lemma s132_pass_keys:
  "contains s132_service_pass (lit ''fun refreshSessionInfo'')"
  "contains s132_service_pass (lit ''getUid(session.localPort)'')"
  "\<not> contains s132_service_pass (lit ''getUid(session.remotePort)'')"
  by (simp_all add: s132_service_pass_def contains_text_lines splitlines_text_lines code_part_def text_simps)

lemma s132_fail_keys:
  "contains s132_service_fail (lit ''fun refreshSessionInfo'')"
  "contains s132_service_fail (lit ''getUid(session.localPort)'')"
  "contains s132_service_fail (lit ''getUid(session.remotePort)'')"
  by (simp_all add: s132_service_fail_def contains_text_lines splitlines_text_lines code_part_def text_simps)

lemma s133_pass_keys:
  "contains s133_service_pass (lit ''builder.addAllowedApplication'')"
  "\<not> contains s133_service_pass (lit ''addDisallowedApplication'')"
  "contains s133_service_pass (lit ''fun stopVpn()'')"
  "contains s133_service_pass (lit ''stopVpn called'')"
  "contains s133_service_pass (lit ''builder.setMtu(VPNConstants.VPN_MTU)'')"
  "contains s133_activity_pass ([34] @ lit ''stop'' @ [34])"
  "contains s133_activity_pass (lit ''svc.stopVpn()'')"
  by (simp_all add: s133_service_pass_def s133_activity_pass_def contains_text_lines splitlines_text_lines code_part_def text_simps)

lemma s134_pass_keys:
  "contains s134_constants_pass (lit ''const val TUN_ADDRESS = '' @ [34] @ lit ''10.0.0.2'' @ [34])"
  "contains s134_constants_pass (lit ''const val TUN_PREFIX = 32'')"
  "contains s134_constants_pass (lit ''const val VPN_ROUTE = '' @ [34] @ lit ''0.0.0.0'' @ [34])"
  "contains s134_constants_pass (lit ''const val VPN_ROUTE_PREFIX = 0'')"
  "contains s134_constants_pass (lit ''const val SESSION_TIME_OUT_MS: Long = 60_000L'')"
  "contains s134_constants_pass (lit ''const val PACKET_SIZE = 32767'')"
  "contains s134_constants_pass (lit ''const val NOTIFICATION_ID = 0x5650_4E4E'')"
  by (simp_all add: s134_constants_pass_def contains_text_lines splitlines_text_lines code_part_def text_simps)

lemma s134_fail_keys:
  "\<not> contains s134_constants_fail (lit ''const val TUN_ADDRESS = '' @ [34] @ lit ''10.0.0.2'' @ [34])"
  "\<not> contains s134_constants_fail (lit ''const val TUN_PREFIX = 32'')"
  "\<not> contains s134_constants_fail (lit ''const val VPN_ROUTE = '' @ [34] @ lit ''0.0.0.0'' @ [34])"
  "\<not> contains s134_constants_fail (lit ''const val VPN_ROUTE_PREFIX = 0'')"
  "\<not> contains s134_constants_fail (lit ''const val SESSION_TIME_OUT_MS: Long = 60_000L'')"
  "\<not> contains s134_constants_fail (lit ''const val PACKET_SIZE = 32767'')"
  "\<not> contains s134_constants_fail (lit ''const val NOTIFICATION_ID = 0x5650_4E4E'')"
  by (simp_all add: s134_constants_fail_def contains_text_lines splitlines_text_lines code_part_def text_simps)

lemma s135_pass_keys:
  "contains s135_files_pass (lit ''class NetFileManager'')"
  "contains s135_files_pass (lit ''fun getInstance(): NetFileManager'')"
  "contains s135_files_pass (lit ''fun getUid(port: Int): Int?'')"
  "contains s135_files_pass (lit ''fun refresh()'')"
  "contains s135_files_pass (lit ''fun init(context: Context)'')"
  "contains s135_files_pass (lit ''startsWith('' @ [34] @ lit ''  sl'' @ [34] @ lit '')'')"
  by (simp_all add: s135_files_pass_def contains_text_lines splitlines_text_lines code_part_def text_simps)

lemma s135_fail_keys:
  "contains s135_files_fail (lit ''class NetFileManager'')"
  "contains s135_files_fail (lit ''fun getInstance(): NetFileManager'')"
  "contains s135_files_fail (lit ''fun getUid(port: Int): Int?'')"
  "contains s135_files_fail (lit ''fun refresh()'')"
  "contains s135_files_fail (lit ''fun init(context: Context)'')"
  "\<not> contains s135_files_fail (lit ''startsWith('' @ [34] @ lit ''  sl'' @ [34] @ lit '')'')"
  by (simp_all add: s135_files_fail_def contains_text_lines splitlines_text_lines code_part_def text_simps)

lemma s136_pass_keys:
  "contains s136_service_pass (lit ''class OpenE2eeVpnService : VpnService(), Runnable'')"
  "contains s136_service_pass (lit ''class OpenE2eeVpnService :'')"
  "contains s136_service_pass (lit ''var activeInstance: OpenE2eeVpnService?'')"
  "contains s136_service_pass (lit ''private fun runVpnLoop'')"
  "contains s136_service_pass (lit ''const val METHOD_CHANNEL = '' @ [34] @ lit ''opene2ee/vpn'' @ [34])"
  "contains s136_service_pass (lit ''private fun establishVpn'')"
  by (simp_all add: s136_service_pass_def contains_text_lines splitlines_text_lines code_part_def text_simps)

lemma s136_fail_keys:
  "\<not> contains s136_service_fail (lit ''class OpenE2eeVpnService : VpnService(), Runnable'')"
  "contains s136_service_fail (lit ''class OpenE2eeVpnService :'')"
  "\<not> contains s136_service_fail (lit ''var activeInstance: OpenE2eeVpnService?'')"
  "contains s136_service_fail (lit ''private fun runVpnLoop'')"
  "contains s136_service_fail (lit ''const val METHOD_CHANNEL = '' @ [34] @ lit ''opene2ee/vpn'' @ [34])"
  "contains s136_service_fail (lit ''private fun establishVpn'')"
  by (simp_all add: s136_service_fail_def contains_text_lines splitlines_text_lines code_part_def text_simps)

lemma s137_pass_keys:
  "contains s137_activity_pass (lit ''com.opene2ee.opene2ee.vpn.OpenE2eeVpnService'')"
  "contains s137_activity_pass (lit ''OpenE2eeVpnService.activeInstance'')"
  "contains s137_activity_pass (lit ''svc.stopVpn()'')"
  "contains s137_manifest_pass (lit ''.vpn.OpenE2eeVpnService'')"
  "contains s137_manifest_pass (lit ''android.permission.BIND_VPN_SERVICE'')"
  "contains s137_manifest_pass (lit ''android.app.PROPERTY_SPECIAL_USE_FGS_SUBTYPE'')"
  "contains s137_manifest_pass (lit ''android.net.VpnService'')"
  by (simp_all add: s137_activity_pass_def s137_manifest_pass_def contains_text_lines splitlines_text_lines code_part_def text_simps)

lemma s137_fail_keys:
  "\<not> contains s137_activity_fail (lit ''com.opene2ee.opene2ee.vpn.OpenE2eeVpnService'')"
  "\<not> contains s137_activity_fail (lit ''OpenE2eeVpnService.activeInstance'')"
  "\<not> contains s137_activity_fail (lit ''svc.stopVpn()'')"
  "\<not> contains s137_manifest_fail (lit ''.vpn.OpenE2eeVpnService'')"
  "\<not> contains s137_manifest_fail (lit ''android.permission.BIND_VPN_SERVICE'')"
  "\<not> contains s137_manifest_fail (lit ''android.app.PROPERTY_SPECIAL_USE_FGS_SUBTYPE'')"
  "\<not> contains s137_manifest_fail (lit ''android.net.VpnService'')"
  by (simp_all add: s137_activity_fail_def s137_manifest_fail_def contains_text_lines splitlines_text_lines code_part_def text_simps)

subsection \<open>The cases\<close>

lemma s129_pass_passes: "passes case_s129_pass"
  by (simp add: passes_def case_s129_pass_def run_s129_check_def Let_def s129_pass_keys [simplified])

lemma s129_fail_passes: "passes case_s129_fail"
  by (simp add: passes_def case_s129_fail_def run_s129_check_def Let_def s129_fail_keys [simplified])

lemma s130_pass_passes: "passes case_s130_pass"
  by (simp add: passes_def case_s130_pass_def run_s130_check_def Let_def s130_pass_keys)

lemma s130_fail_passes: "passes case_s130_fail"
  by (simp add: passes_def case_s130_fail_def run_s130_check_def Let_def s130_fail_keys)

lemma s131_pass_passes: "passes case_s131_pass"
  by (simp add: passes_def case_s131_pass_def run_s131_check_def Let_def s131_pass_keys)

lemma s131_fail_passes: "passes case_s131_fail"
  by (simp add: passes_def case_s131_fail_def run_s131_check_def Let_def s131_fail_keys)

lemma s132_pass_passes: "passes case_s132_pass"
  by (simp add: passes_def case_s132_pass_def run_s132_check_def Let_def s132_pass_keys)

lemma s132_fail_passes: "passes case_s132_fail"
  by (simp add: passes_def case_s132_fail_def run_s132_check_def Let_def s132_fail_keys)

lemma s133_pass_passes: "passes case_s133_pass"
  by (simp add: passes_def case_s133_pass_def run_s133_check_def Let_def s133_pass_keys [simplified])

lemma s134_pass_passes: "passes case_s134_pass"
  by (simp add: passes_def case_s134_pass_def run_s134_check_def Let_def s134_pass_keys [simplified])

lemma s134_fail_passes: "passes case_s134_fail"
  by (simp add: passes_def case_s134_fail_def run_s134_check_def Let_def s134_fail_keys [simplified])

lemma s135_pass_passes: "passes case_s135_pass"
  by (simp add: passes_def case_s135_pass_def run_s135_check_def Let_def s135_pass_keys [simplified])

lemma s135_fail_passes: "passes case_s135_fail"
  by (simp add: passes_def case_s135_fail_def run_s135_check_def Let_def s135_fail_keys [simplified])

lemma s136_pass_passes: "passes case_s136_pass"
  by (simp add: passes_def case_s136_pass_def run_s136_check_def Let_def s136_pass_keys [simplified])

lemma s136_fail_passes: "passes case_s136_fail"
  by (simp add: passes_def case_s136_fail_def run_s136_check_def Let_def s136_fail_keys [simplified])

lemma s137_pass_passes: "passes case_s137_pass"
  by (simp add: passes_def case_s137_pass_def run_s137_check_def Let_def s137_pass_keys)

lemma s137_fail_passes: "passes case_s137_fail"
  by (simp add: passes_def case_s137_fail_def run_s137_check_def Let_def s137_fail_keys)

lemmas proxy_cases_pass_each = s129_pass_passes
  s129_fail_passes
  s130_pass_passes
  s130_fail_passes
  s131_pass_passes
  s131_fail_passes
  s132_pass_passes
  s132_fail_passes
  s133_pass_passes
  s134_pass_passes
  s134_fail_passes
  s135_pass_passes
  s135_fail_passes
  s136_pass_passes
  s136_fail_passes
  s137_pass_passes
  s137_fail_passes

end
