(* ===== verification/Vpn_Properties.thy ===== *)
theory Vpn_Properties
  imports Tcp_Checks
begin

section \<open>What the checks of the VPN sources accept\<close>

text \<open>
  S28: the line numbers it reports. S74: the body it reads is the balanced block, by the grammar of \<open>Flutter_Checks\<close>. S84:
  the enclosing function is the one whose header comes last before the call. S98: which order it accepts. S95 to S97: what
  their way of stripping comments leaves.
\<close>

subsection \<open>S28: reported lines\<close>

text \<open>C25. Every mock ticker that S28 reports is where it says: its number is one of the lines of the stripped code, counted from
  1, and that line holds \<open>Timer.periodic\<close>; the callback named is one of the forbidden ones.\<close>

theorem mock_tickers_have_lines:
  assumes "has_text w (state_path ''pool_provider.dart'') t"
  shows "\<exists>fs. check_pool_provider_no_fake_animation_v29 w = Inr fs \<and>
    list_all (\<lambda>f. \<exists>cb_name n. f = Finding ''S28'' ''mock callback'' [cb_name, show_nat n] \<and> is_mock_callback cb_name \<and>
      1 \<le> n \<and> n \<le> length (split_char NL (strip_comments_dart t)) \<and>
      has (split_char NL (strip_comments_dart t) ! (n - 1)) ''Timer.periodic'') fs"
proof -
  let ?code = "strip_comments_dart t"
  have "check_pool_provider_no_fake_animation_v29 w =
      Inr (map (\<lambda>(m, cb_name). Finding ''S28'' ''mock callback'' [cb_name, line_no ?code m]) (mock_timers w ?code))"
    using assms has_text_exists [OF assms] has_text_read [OF assms]
    by (simp add: check_pool_provider_no_fake_animation_v29_def with_text_def try_read_def Let_def)
  moreover have "list_all (\<lambda>f. \<exists>cb_name n. f = Finding ''S28'' ''mock callback'' [cb_name, show_nat n] \<and> is_mock_callback cb_name \<and>
      1 \<le> n \<and> n \<le> length (split_char NL ?code) \<and> has (split_char NL ?code ! (n - 1)) ''Timer.periodic'')
      (map (\<lambda>(m, cb_name). Finding ''S28'' ''mock callback'' [cb_name, line_no ?code m]) (mock_timers w ?code))"
    using mock_timer_line [of _ _ w ?code] by (fastforce simp: list_all_iff)
  ultimately show ?thesis by blast
qed

theorem mock_tickers_have_lines_witness:
  "\<exists>fs. check_pool_provider_no_fake_animation_v29 (mk_world (file_at (state_path ''pool_provider.dart'')
     (lit ''final t = Timer.periodic(d, (_) => _mockTick());''))) = Inr fs"
  using mock_tickers_have_lines [OF has_text_file_at] by blast

subsection \<open>S74: the body of onStartCommand\<close>

lemma scan_body_balanced: "balanced b \<Longrightarrow> scan_body (int d + 1) (b @ r) = b @ scan_body (int d + 1) r"
proof (induction arbitrary: d r rule: balanced.induct)
  case (balanced_block a b)
  have "scan_body (int d + 1) ((123 # a @ 125 # b) @ r) = 123 # scan_body (int (Suc d) + 1) (a @ 125 # b @ r)"
    by (simp add: add.commute)
  also have "\<dots> = 123 # a @ 125 # scan_body (int d + 1) (b @ r)"
    by (simp add: balanced_block.IH(1) del: of_nat_Suc) (simp add: add.commute)
  finally show ?case by (simp add: balanced_block.IH(2))
qed auto

lemma scan_body_open: "fst (scan_braces (Suc d) n s) \<noteq> 0 \<Longrightarrow> scan_body (int d + 1) s = s"
proof (induction s arbitrary: d n)
  case (Cons c cs)
  show ?case
  proof (cases "c = 125")
    case True
    have "fst (scan_braces 0 k xs) = 0" for k xs by (cases xs) auto
    with True Cons obtain d' where "d = Suc d'" by (cases d) auto
    with True Cons show ?thesis by (auto simp: add.commute)
  next
    case False
    with Cons.IH [of "Suc d" "Suc n"] Cons.IH [of d "Suc n"] Cons.prems show ?thesis
      by (auto simp: add.commute)
  qed
qed simp

lemma lang_Seq_last: "lang (Seq (rs @ [Str s])) p x q c c' \<Longrightarrow> \<exists>y. x = y @ s"
proof (induction rs arbitrary: p x c)
  case Nil
  then show ?case by (simp add: lang_Str)
next
  case (Cons r rs)
  obtain r' rs' where rs: "rs @ [Str s] = r' # rs'" by (cases "rs @ [Str s]") auto
  with Cons.prems obtain x1 x2 p' c1 where "x = x1 @ x2" "lang (Seq (rs @ [Str s])) p' x2 q c1 c'" by auto
  with Cons.IH [of p' x2 c1] show ?case by auto
qed

lemma onstart_brace:
  assumes "re_search onstart_re code = Some m"
  shows "drop (m_end m - 1) code = 123 # drop (m_end m) code"
proof -
  from re_search_Some [OF assms] obtain u x v where code: "code = u @ x @ v" and e: "m_end m = length u + length x"
    and l: "lang onstart_re u x v [] (m_caps m)" by blast
  have "onstart_re = Seq ([Str (lit ''override''), Plus Spc, Str (lit ''fun''), Plus Spc, Str (lit ''onStartCommand''),
      Star True Spc, Str (lit ''(''), Star True (NotIn [41]), Str (lit '')''), Star True (NotIn [123])] @ [Str [123]])"
    by (simp only: onstart_re_def append.simps)
  with l lang_Seq_last obtain y where "x = y @ [123]" by metis
  with code e show ?thesis by simp
qed

text \<open>C20. The body that S74 reads after \<open>onStartCommand\<close> is its block: from the opening brace over a balanced text to the
  brace that closes it; only where the rest of the file holds no such block does it read to the end.\<close>

theorem onstart_body_is_the_block:
  assumes "re_search onstart_re code = Some m"
  shows "if \<exists>b r. drop (m_end m) code = b @ 125 # r \<and> balanced b
    then \<exists>b r. drop (m_end m) code = b @ 125 # r \<and> balanced b \<and> onstart_body code m = 123 # b @ [125]
    else onstart_body code m = 123 # drop (m_end m) code"
proof (cases "\<exists>b r. drop (m_end m) code = b @ 125 # r \<and> balanced b")
  case True
  then obtain b r where br: "drop (m_end m) code = b @ 125 # r" "balanced b" by blast
  then have "onstart_body code m = 123 # b @ [125]"
    using onstart_brace [OF assms] scan_body_balanced [OF br(2), of 0 "125 # r"] by (simp add: onstart_body_def)
  with br True show ?thesis by auto
next
  case False
  then have "\<nexists>b. block_from code (m_end m) = Inr b" using block_from_spec by blast
  then have "fst (scan_braces (Suc 0) 0 (drop (m_end m) code)) \<noteq> 0"
    by (auto simp: block_from_def Let_def split: prod.splits if_splits)
  with scan_body_open [of 0 0 "drop (m_end m) code"] show ?thesis
    unfolding if_not_P [OF False] using onstart_brace [OF assms] by (simp add: onstart_body_def)
qed

text \<open>The match on a text whose first \<open>override\<close> is that of \<open>onStartCommand\<close>.\<close>

definition onstart_shape :: "pystr \<Rightarrow> pystr \<Rightarrow> pystr \<Rightarrow> pystr \<Rightarrow> pystr \<Rightarrow> pystr" where
  "onstart_shape w1 w2 w3 ps ret = lit ''override'' @ w1 @ lit ''fun'' @ w2 @ lit ''onStartCommand'' @ w3 @ lit ''('' @ ps @
     lit '')'' @ ret @ [123]"

lemma onstart_lang:
  "lang onstart_re p x q c c' \<Longrightarrow> \<exists>w1 w2 w3 ps ret. x = onstart_shape w1 w2 w3 ps ret \<and> (\<forall>z\<in>set w1. is_space z) \<and>
     (\<forall>z\<in>set w2. is_space z) \<and> (\<forall>z\<in>set w3. is_space z) \<and> (\<forall>z\<in>set ps. z \<noteq> 41) \<and> (\<forall>z\<in>set ret. z \<noteq> 123)"
  unfolding onstart_re_def onstart_shape_def Seq.simps cat_simps NotIn_def lang_Str
  by (elim exE conjE) (hypsubst, intro exI conjI, rule refl, auto)

lemma onstart_langI:
  assumes "w1 \<noteq> []" "\<forall>z\<in>set w1. is_space z" "w2 \<noteq> []" "\<forall>z\<in>set w2. is_space z" "\<forall>z\<in>set w3. is_space z"
    and "41 \<notin> set ps" "123 \<notin> set ret"
  shows "lang onstart_re p (onstart_shape w1 w2 w3 ps ret) q c c"
  unfolding onstart_re_def onstart_shape_def Seq.simps
  by (intro lang_CatI) (use assms in \<open>simp_all add: lang_simps\<close>)

lemma onstart_shape_unique:
  assumes "onstart_shape w1 w2 w3 ps ret @ v = onstart_shape [32] [32] [] ps0 ret0 @ v0"
    and "\<forall>z\<in>set w1. is_space z" "\<forall>z\<in>set w2. is_space z" "\<forall>z\<in>set w3. is_space z" "\<forall>z\<in>set ps. z \<noteq> 41" "\<forall>z\<in>set ret. z \<noteq> 123"
    and "\<forall>z\<in>set ps0. z \<noteq> 41" "\<forall>z\<in>set ret0. z \<noteq> 123"
  shows "v = v0"
proof -
  have sp: "\<not> is_space 102" "\<not> is_space 111" "\<not> is_space 40" "is_space 32" by (simp_all add: is_space_def)
  from assms(1) have "w1 @ 102 # 117 # 110 # w2 @ lit ''onStartCommand'' @ w3 @ 40 # ps @ 41 # ret @ 123 # v =
      [32] @ 102 # 117 # 110 # [32] @ lit ''onStartCommand'' @ [] @ 40 # ps0 @ 41 # ret0 @ 123 # v0"
    by (simp add: onstart_shape_def lit_def)
  from run_unique [OF this assms(2)] sp
  have "w2 @ 111 # lit ''nStartCommand'' @ w3 @ 40 # ps @ 41 # ret @ 123 # v =
      [32] @ 111 # lit ''nStartCommand'' @ [] @ 40 # ps0 @ 41 # ret0 @ 123 # v0"
    by (simp add: lit_def)
  from run_unique [OF this assms(3)] sp
  have "w3 @ 40 # ps @ 41 # ret @ 123 # v = [] @ 40 # ps0 @ 41 # ret0 @ 123 # v0" by simp
  from run_unique [OF this assms(4)] sp have "ps @ 41 # ret @ 123 # v = ps0 @ 41 # ret0 @ 123 # v0" by simp
  from run_unique [OF this assms(5,7)] have "ret @ 123 # v = ret0 @ 123 # v0" by simp
  from run_unique [OF this assms(6,8)] show ?thesis by simp
qed

lemma onstart_found:
  assumes "41 \<notin> set ps" and "123 \<notin> set ret" and "\<not> contains (pre @ butlast (lit ''override'')) (lit ''override'')"
  shows "\<exists>m. re_search onstart_re (pre @ onstart_shape [32] [32] [] ps ret @ rest) = Some m \<and>
    drop (m_end m) (pre @ onstart_shape [32] [32] [] ps ret @ rest) = rest"
proof -
  let ?t = "pre @ onstart_shape [32] [32] [] ps ret @ rest" and ?h = "lit ''override''"
  obtain x0 where x0: "onstart_shape [32] [32] [] ps ret = ?h @ x0" by (simp add: onstart_shape_def)
  have t: "pre @ ?h @ x0 @ rest = ?t" unfolding x0 by simp
  have head: "headed onstart_re ?h" unfolding onstart_re_def by (rule headed_Seq)
  have ex: "lang onstart_re pre (?h @ x0) rest [] []"
    unfolding x0 [symmetric] by (rule onstart_langI) (use assms(1,2) in \<open>simp_all add: is_space_def\<close>)
  from re_search_at_head [OF head assms(3) ex] obtain m where m: "re_search onstart_re ?t = Some m" and st: "m_start m = length pre"
    unfolding t by (elim exE conjE) (rule that)
  from re_search_Some [OF m] obtain u x v where t': "?t = u @ x @ v" and u: "m_start m = length u" and e: "m_end m = length u + length x"
    and l: "lang onstart_re u x v [] (m_caps m)" by (elim exE conjE) (rule that)
  from u st t' have u: "u = pre" by (simp add: append_eq_append_conv)
  from onstart_lang [OF l] obtain w1 w2 w3 ps' ret' where x: "x = onstart_shape w1 w2 w3 ps' ret'" and
    runs: "\<forall>z\<in>set w1. is_space z" "\<forall>z\<in>set w2. is_space z" "\<forall>z\<in>set w3. is_space z" "\<forall>z\<in>set ps'. z \<noteq> 41" "\<forall>z\<in>set ret'. z \<noteq> 123"
    by (elim exE conjE) (rule that)
  have "onstart_shape w1 w2 w3 ps' ret' @ v = onstart_shape [32] [32] [] ps ret @ rest" using t' u x by simp
  then have "v = rest" by (rule onstart_shape_unique) (use runs assms(1,2) in auto)
  with e u t' have "drop (m_end m) ?t = rest" by simp
  with m show ?thesis by blast
qed

theorem onstart_body_is_the_block_witness:
  "\<exists>m. re_search onstart_re (lit ''override fun onStartCommand(i): Int {{}}'') = Some m \<and>
     (\<exists>b. balanced b \<and> onstart_body (lit ''override fun onStartCommand(i): Int {{}}'') m = 123 # b @ [125])"
proof -
  have t: "lit ''override fun onStartCommand(i): Int {{}}'' =
      onstart_shape [32] [32] [] (lit ''i'') (lit '': Int '') @ lit ''{}'' @ 125 # []" by (simp add: onstart_shape_def lit_def)
  from onstart_found [of "lit ''i''" "lit '': Int ''" "[]" "lit ''{}'' @ 125 # []"] obtain m where
    m: "re_search onstart_re (lit ''override fun onStartCommand(i): Int {{}}'') = Some m"
    and d: "drop (m_end m) (lit ''override fun onStartCommand(i): Int {{}}'') = lit ''{}'' @ 125 # []"
    unfolding append_Nil t [symmetric] by (auto simp: text_simps)
  show ?thesis
    using onstart_body_is_the_block [OF m] m d balanced_block [OF balanced_Nil balanced_Nil]
    by (auto simp: lit_def split: if_splits)
qed

subsection \<open>S95 to S97: the comments that are stripped\<close>

text \<open>What is left of a line before its first two slashes, quoted or not.\<close>

fun cut_at_slashes :: "pystr \<Rightarrow> pystr" where
  "cut_at_slashes [] = []"
| "cut_at_slashes (c # cs) = (if prefix (lit ''//'') (c # cs) then [] else c # cut_at_slashes cs)"

definition cut_lines :: "pystr \<Rightarrow> pystr" where
  "cut_lines t = py_join [NL] (map cut_at_slashes (split_char NL t))"

lemma cut_lines_NL: "cut_lines (NL # t) = NL # cut_lines t"
  by (cases "split_char NL t") (auto simp: cut_lines_def)

lemma split_char_line: "split_char c s =
    takeWhile (\<lambda>x. x \<noteq> c) s # (case dropWhile (\<lambda>x. x \<noteq> c) s of [] \<Rightarrow> [] | x # r \<Rightarrow> split_char c r)"
  by (induction s) auto

lemma cut_lines_line:
  "cut_lines s = cut_at_slashes (takeWhile (\<lambda>x. x \<noteq> NL) s) @ cut_lines (dropWhile (\<lambda>x. x \<noteq> NL) s)"
proof (cases "dropWhile (\<lambda>x. x \<noteq> NL) s")
  case Nil
  then have "split_char NL s = [takeWhile (\<lambda>x. x \<noteq> NL) s]" by (subst split_char_line) (simp only: list.case)
  then show ?thesis by (simp add: Nil cut_lines_def)
next
  case (Cons x r)
  then have x: "x = NL" using hd_dropWhile [of "\<lambda>x. x \<noteq> NL" s] by simp
  from Cons have "split_char NL s = takeWhile (\<lambda>x. x \<noteq> NL) s # split_char NL r" by (subst split_char_line) (simp only: list.case)
  then have "cut_lines s = cut_at_slashes (takeWhile (\<lambda>x. x \<noteq> NL) s) @ NL # cut_lines r"
    by (cases "split_char NL r") (simp_all add: cut_lines_def)
  then show ?thesis unfolding Cons x cut_lines_NL .
qed

lemma cut_lines_Cons:
  assumes "\<not> prefix (lit ''//'') (c # cs)" and "c \<noteq> NL"
  shows "cut_lines (c # cs) = c # cut_lines cs"
proof -
  have "\<not> prefix (lit ''//'') (c # takeWhile (\<lambda>x. x \<noteq> NL) cs)"
  proof
    assume "prefix (lit ''//'') (c # takeWhile (\<lambda>x. x \<noteq> NL) cs)"
    moreover have "prefix (c # takeWhile (\<lambda>x. x \<noteq> NL) cs) (c # cs)" by (simp add: takeWhile_is_prefix)
    ultimately show False using assms(1) prefix_order.trans by blast
  qed
  with assms(2) show ?thesis using cut_lines_line [of "c # cs"] cut_lines_line [of cs] by simp
qed

lemma cut_lines_comment:
  assumes "prefix (lit ''//'') s"
  shows "cut_lines s = cut_lines (dropWhile (\<lambda>x. x \<noteq> NL) s)"
proof -
  obtain r where s: "s = 47 # 47 # r" using assms by (auto simp: prefix_def lit_def)
  have "cut_at_slashes (takeWhile (\<lambda>x. x \<noteq> NL) s) = []" by (simp add: s lit_def)
  then show ?thesis by (subst cut_lines_line) simp
qed

text \<open>The greedy \<open>[^\n]*\<close> takes the rest of the line.\<close>

lemma star_iter_greedy:
  "length a \<le> n \<Longrightarrow> \<exists>ms. star_iter (matches_of (Cls P)) True n (b, a, c) = (rev (takeWhile P a) @ b, dropWhile P a, c) # ms"
proof (induction n arbitrary: a b)
  case (Suc n)
  show ?case
  proof (cases a)
    case (Cons x xs)
    with Suc.prems Suc.IH [of xs "x # b"] show ?thesis by (auto simp: shorter_def)
  qed simp
qed simp

lemma line_comment_hd:
  assumes "prefix (lit ''//'') a"
  shows "\<exists>ms. matches_of line_comment_re (b, a, []) =
    (rev (takeWhile (\<lambda>x. x \<noteq> NL) a) @ b, dropWhile (\<lambda>x. x \<noteq> NL) a, []) # ms"
proof -
  obtain r where a: "a = 47 # 47 # r" using assms by (auto simp: prefix_def lit_def)
  from star_iter_greedy [of r "length r" "\<lambda>x. x \<notin> set [NL]" "47 # 47 # b" "[]"] obtain ms where
    "star_iter (matches_of (NotIn [NL])) True (length r) (47 # 47 # b, r, []) =
      (rev (takeWhile (\<lambda>x. x \<noteq> NL) r) @ 47 # 47 # b, dropWhile (\<lambda>x. x \<noteq> NL) r, []) # ms"
    by (auto simp: NotIn_def)
  then show ?thesis using assms
    by (auto simp: a line_comment_re_def matches_of_Str lit_def simp del: Str.simps)
qed

lemma line_comment_none: "\<not> prefix (lit ''//'') a \<Longrightarrow> matches_of line_comment_re (b, a, []) = []"
  by (simp add: line_comment_re_def matches_of_Str)

lemma sub_pos_step:
  assumes "matches_of r (b, c # cs, []) = []"
  shows "sub_pos r repl b (c # cs) = c # sub_pos r repl (c # b) cs"
proof -
  have "search_pos r b (c # cs) = search_pos r (c # b) cs" using assms by (subst search_pos_rec) simp
  then show ?thesis
    by (auto simp: sub_pos.simps [of r repl b] sub_pos.simps [of r repl "c # b" cs] Suc_diff_le dest: search_pos_length
        split: option.split)
qed

lemma sub_pos_line_comment: "sub_pos line_comment_re [] b a = cut_lines a"
proof (induction a arbitrary: b rule: measure_induct_rule [where f = length])
  case (less a)
  show ?case
  proof (cases "prefix (lit ''//'') a")
    case True
    let ?rest = "dropWhile (\<lambda>x. x \<noteq> NL) a"
    have len: "length ?rest < length a" using True
      by (auto simp: prefix_def lit_def less_Suc_eq_le intro!: le_SucI length_dropWhile_le)
    have "search_pos line_comment_re b a = Some ((b, a, []), (rev (takeWhile (\<lambda>x. x \<noteq> NL) a) @ b, ?rest, []))"
      using line_comment_hd [OF True, of b] by (subst search_pos_rec) auto
    then have "sub_pos line_comment_re [] b a = sub_pos line_comment_re [] (rev (takeWhile (\<lambda>x. x \<noteq> NL) a) @ b) ?rest"
      using len by (simp add: sub_pos.simps [of _ _ b a])
    with less.IH [OF len] cut_lines_comment [OF True] show ?thesis by simp
  next
    case False
    show ?thesis
    proof (cases a)
      case Nil
      then show ?thesis using False line_comment_none [of "[]" b]
        by (simp add: sub_pos.simps search_pos_rec cut_lines_def)
    next
      case (Cons c cs)
      from False Cons have "sub_pos line_comment_re [] b a = c # cut_lines cs"
        using less.IH [of cs "c # b"] by (simp add: sub_pos_step line_comment_none)
      with False Cons show ?thesis by (cases "c = NL") (simp_all add: cut_lines_NL cut_lines_Cons)
    qed
  qed
qed

text \<open>C21. The two substitutions with which S95 to S97 strip comments do what they are meant to where no quotes are involved:
  block comments are removed from left to right, then every line is cut at its first two slashes. They look at no quotes, so
  a line is cut inside a string literal too (a URL, say).\<close>

theorem strip_comments_sub_is:
  "strip_comments_sub t = py_join [NL] (map cut_at_slashes (split_char NL (strip_delim (lit ''/*'') (lit ''*/'') t)))"
  by (simp add: strip_comments_sub_def re_sub_def [of line_comment_re] sub_pos_line_comment re_sub_block_comments
      cut_lines_def)

subsection \<open>S84: the function around a position\<close>

text \<open>The name of the function header that comes last before \<open>pos\<close>.\<close>

definition stands_in :: "world \<Rightarrow> pystr \<Rightarrow> nat \<Rightarrow> pystr \<Rightarrow> bool" where
  "stands_in w code pos f \<longleftrightarrow> (\<exists>fm \<in> set (re_finditer (fun_header_re w) code). m_start fm < pos \<and> group 1 fm = Some f \<and>
     (\<forall>fm' \<in> set (re_finditer (fun_header_re w) code). m_start fm' < pos \<longrightarrow> m_start fm' \<le> m_start fm))"

lemma sorted_takeWhile_less:
  fixes f :: "'a \<Rightarrow> nat"
  assumes "sorted_wrt (\<lambda>x y. f x < f y) xs"
  shows "takeWhile (\<lambda>x. f x < k) xs = filter (\<lambda>x. f x < k) xs"
  using assms
proof (induction xs)
  case (Cons x xs)
  show ?case
  proof (cases "f x < k")
    case False
    with Cons.prems have "filter (\<lambda>x. f x < k) xs = []" by (auto simp: filter_empty_conv)
    with False show ?thesis by simp
  qed (use Cons in simp)
qed simp

lemma sorted_last_greatest:
  fixes f :: "'a \<Rightarrow> nat"
  assumes "sorted_wrt (\<lambda>x y. f x < f y) xs" and "x \<in> set xs"
  shows "f x \<le> f (last xs)"
  using assms by (induction xs) (auto simp: less_imp_le)

lemma sorted_inj:
  fixes f :: "'a \<Rightarrow> nat"
  assumes "sorted_wrt (\<lambda>x y. f x < f y) xs" and "x \<in> set xs" "y \<in> set xs" "f x = f y"
  shows "x = y"
  using assms by (induction xs) auto

lemma enclosing_fun_None:
  "enclosing_fun w code pos = None \<longleftrightarrow> (\<forall>fm \<in> set (re_finditer (fun_header_re w) code). \<not> m_start fm < pos)"
  by (simp add: enclosing_fun_def Let_def sorted_takeWhile_less [OF re_finditer_sorted] filter_empty_conv)

lemma enclosing_fun_Some:
  "enclosing_fun w code pos = Some fm \<longleftrightarrow> fm \<in> set (re_finditer (fun_header_re w) code) \<and> m_start fm < pos \<and>
     (\<forall>fm' \<in> set (re_finditer (fun_header_re w) code). m_start fm' < pos \<longrightarrow> m_start fm' \<le> m_start fm)"
  (is "?L \<longleftrightarrow> ?R")
proof -
  let ?all = "re_finditer (fun_header_re w) code"
  let ?before = "filter (\<lambda>m. m_start m < pos) ?all"
  have s: "sorted_wrt (\<lambda>m m'. m_start m < m_start m') ?before" by (rule sorted_wrt_filter [OF re_finditer_sorted])
  have e: "enclosing_fun w code pos = (if ?before = [] then None else Some (last ?before))"
    by (simp add: enclosing_fun_def Let_def sorted_takeWhile_less [OF re_finditer_sorted])
  show ?thesis
  proof
    assume ?L
    then have "?before \<noteq> []" "fm = last ?before" unfolding e by (simp_all split: if_splits)
    then have "fm \<in> set ?before" by (metis last_in_set)
    with sorted_last_greatest [OF s] \<open>fm = last ?before\<close> show ?R by auto
  next
    assume r: ?R
    then have m: "fm \<in> set ?before" by simp
    then have ne: "?before \<noteq> []" by (metis empty_iff empty_set)
    then have l: "last ?before \<in> set ?before" by (rule last_in_set)
    then have "m_start (last ?before) \<le> m_start fm" using r by auto
    with sorted_last_greatest [OF s m] have "fm = last ?before" by (intro sorted_inj [OF s m l]) simp
    with ne show ?L unfolding e by simp
  qed
qed

lemma fun_header_named:
  assumes "fm \<in> set (re_finditer (fun_header_re w) code)"
  shows "\<exists>f. group 1 fm = Some f \<and> f \<noteq> [] \<and> (\<forall>c\<in>set f. is_word w c)"
proof -
  from re_finditer_sound [OF assms] obtain u x v where "lang (fun_header_re w) u x v [] (m_caps fm)" by blast
  then obtain f where "m_caps fm = [(1, f)]" "f \<noteq> []" "\<forall>c\<in>set f. is_word w c"
    unfolding fun_header_re_def Seq.simps by (auto simp: lang_simps)
  then show ?thesis by (auto simp: group_def)
qed

lemma fun_name_stands_in:
  assumes "f \<noteq> lit ''<unknown>''"
  shows "fun_name (enclosing_fun w code pos) = f \<longleftrightarrow> stands_in w code pos f"
proof (cases "enclosing_fun w code pos")
  case None
  then have "\<not> stands_in w code pos f" unfolding stands_in_def enclosing_fun_None by blast
  with None show ?thesis using assms by (simp add: fun_name_def)
next
  case (Some fm)
  then have fm: "fm \<in> set (re_finditer (fun_header_re w) code)" unfolding enclosing_fun_Some by blast
  from fun_header_named [OF this] obtain g where g: "group 1 fm = Some g" by blast
  show ?thesis
  proof
    assume "fun_name (enclosing_fun w code pos) = f"
    with Some g have "g = f" by (simp add: fun_name_def)
    with Some g show "stands_in w code pos f" unfolding stands_in_def enclosing_fun_Some by blast
  next
    assume "stands_in w code pos f"
    then obtain fm' where "group 1 fm' = Some f" "enclosing_fun w code pos = Some fm'"
      unfolding stands_in_def enclosing_fun_Some by blast
    then show "fun_name (enclosing_fun w code pos) = f" by (simp add: fun_name_def)
  qed
qed

lemma s84_increment_silent:
  "s84_increment w code = [] \<longleftrightarrow> (\<exists>m. re_finditer increment_re code = [m] \<and>
     stands_in w code (m_start m) (lit ''startReaderThread'') \<and>
     has (take (min 600 (m_start m)) (drop (m_start m - 600) code)) ''extractMetadata'')"
proof -
  have f: "enclosing_fun w code p = None \<or> fun_name (enclosing_fun w code p) \<noteq> lit ''startReaderThread'' \<longleftrightarrow>
      \<not> stands_in w code p (lit ''startReaderThread'')" for p
    using fun_name_stands_in [of "lit ''startReaderThread''" w code p] by (auto simp: lit_def fun_name_def)
  have k: "p - (p - 600) = min 600 p" for p :: nat by simp
  show ?thesis
    by (cases "re_finditer increment_re code" rule: remdups_adj.cases)
      (simp_all add: s84_increment_def Let_def f k need_def)
qed

lemma s84_set_silent:
  "s84_set w code sm = [] \<longleftrightarrow>
     stands_in w code (m_start sm) (lit ''startCapture'') \<or> stands_in w code (m_start sm) (lit ''stopCapture'')"
proof -
  have "lit ''startCapture'' \<noteq> lit ''<unknown>''" "lit ''stopCapture'' \<noteq> lit ''<unknown>''" by (simp_all add: lit_def)
  from this [THEN fun_name_stands_in, of w code "m_start sm"] show ?thesis by (auto simp: s84_set_def Let_def)
qed

text \<open>C19. S84 is silent exactly on a service whose only \<open>packetsObserved.incrementAndGet()\<close> stands in
  \<open>startReaderThread\<close> with \<open>extractMetadata\<close> in the 600 characters before it, whose \<open>packetsObserved.set(\<close> all stand in
  \<open>startCapture\<close> or \<open>stopCapture\<close>, and which never sets the counter to its own value plus one. To stand in a function
  means that its header is the last one before. (The docstring of the check allows the reset in \<open>startCapture\<close> only; the code,
  its later comment and its message allow it in \<open>stopCapture\<close> too.)\<close>

theorem s84_silent_iff:
  assumes "has_text w vpn_kt_path t"
  shows "check_vpn_service_packets_observed_increment_invariant_v27 w = Inr [] \<longleftrightarrow>
    (let code = strip_comments_dart t in
     (\<exists>m. re_finditer increment_re code = [m] \<and> stands_in w code (m_start m) (lit ''startReaderThread'') \<and>
        has (take (min 600 (m_start m)) (drop (m_start m - 600) code)) ''extractMetadata'') \<and>
     list_all (\<lambda>sm. stands_in w code (m_start sm) (lit ''startCapture'') \<or> stands_in w code (m_start sm) (lit ''stopCapture''))
       (re_finditer counter_set_re code) \<and>
     re_search counter_bump_re code = None)"
  using has_text_exists [OF assms] has_text_read [OF assms]
  by (simp add: check_vpn_service_packets_observed_increment_invariant_v27_def with_text_def try_read_def Let_def
      s84_increment_silent s84_set_silent forbid_Nil list_all_iff re_found_def)

subsection \<open>S98: the order that is looked at\<close>

lemma contains_skip: "n \<noteq> [] \<Longrightarrow> hd n \<notin> set c \<Longrightarrow> contains (c @ v) n = contains v n"
  by (induction c) (auto simp: prefix_def Cons_eq_append_conv)

text \<open>C37. S98 looks for \<open>builder.establish()\<close> after the first call site only: what stands before it changes nothing, so a
  tunnel that is established first passes as soon as another \<open>builder.establish()\<close> follows the call. The finding for the
  wrong order is never made.\<close>

theorem s98_looks_after_the_call_only:
  assumes "\<not> contains (u @ butlast s98_call) s98_call"
  shows "s98_order (u @ s98_call @ v) =
    (if has v ''builder.establish()'' then [] else [Finding ''S98'' ''establish missing'' []])"
proof -
  have call: "find_sub (u @ s98_call @ v) s98_call = Some (length u)" by (rule find_sub_first [OF assms])
  have "has (s98_call @ v) ''builder.establish()'' \<longleftrightarrow> has v ''builder.establish()''"
    by (rule contains_skip) (simp_all add: lit_def s98_call_def)
  then show ?thesis using find_sub_None [of "s98_call @ v" "lit ''builder.establish()''"]
    by (cases "find_sub (s98_call @ v) (lit ''builder.establish()'')") (simp_all add: s98_order_def call find_after_def)
qed

theorem s98_looks_after_the_call_only_witness:
  "s98_order (lit ''builder.establish();'' @ s98_call @ lit ''builder.establish()'') = []"
  by (subst s98_looks_after_the_call_only) (simp_all add: text_simps s98_call_def)

end
