(* ===== verification/Text_Lines.thy ===== *)
theory Text_Lines
  imports Self_Test_Driver Vpn_Properties
begin

section \<open>Texts as lists of lines\<close>

text \<open>
  The fixtures of the self-test are lists of lines. These lemmas answer on the lines what the replicas ask of the text: what the three
  comment strippers leave (for a text without \<open>//\<close> and \<open>/*\<close>, \<open>plain\<close>, the text itself), where a literal stands, how often, and whether
  a pattern matches that a line shows or a missing literal excludes.
\<close>

subsection \<open>Texts without comments\<close>

definition plain :: "pystr list \<Rightarrow> bool" where
  "plain ls \<longleftrightarrow> ls \<noteq> [] \<and> list_all (\<lambda>l. \<not> contains l (lit ''//'') \<and> \<not> contains l (lit ''/*'') \<and> list_all (\<lambda>c. \<not> is_linebreak c) l) ls"

definition one_line :: "pystr \<Rightarrow> bool" where
  "one_line n \<longleftrightarrow> n \<noteq> [] \<and> NL \<notin> set n"

lemma of_char_NL: "of_char c = (10 :: nat) \<longleftrightarrow> c = CHR 0x0A"
proof -
  have ten: "of_char (CHR 0x0A) = (10 :: nat)" by simp
  show ?thesis by (simp only: ten [symmetric] of_char_eq_iff)
qed

lemma NL_in_lit: "NL \<in> set (lit s) \<longleftrightarrow> CHR 0x0A \<in> set s"
  unfolding lit_def
  by (induction s)
    (simp_all only: list.map list.set insert_iff empty_iff eq_commute [of "10 :: nat"] of_char_NL eq_commute [of "CHR 0x0A"])

lemma lit_Nil: "lit s = [] \<longleftrightarrow> s = []"
  by (simp add: lit_def)

lemma cut_scan_no_slashes: "\<not> contains l (lit ''//'') \<Longrightarrow> cut_scan_dart b i l = None"
proof (induction l arbitrary: b i)
  case (Cons c l)
  then have "\<not> (c = 47 \<and> l \<noteq> [] \<and> hd l = 47)" by (cases l) (auto simp: lit_def)
  with Cons show ?case by auto
qed simp

lemma cut_line_dart_plain: "\<not> contains l (lit ''//'') \<Longrightarrow> cut_line_dart l = l"
  by (simp add: cut_line_dart_def cut_scan_no_slashes)

lemma strip_text_lines:
  assumes "list_all (\<lambda>l. \<not> contains l (lit ''/*'') \<and> list_all (\<lambda>c. \<not> is_linebreak c) l) ls"
  shows "strip_comments_dart (text_lines ls) = py_join [NL] (map cut_line_dart ls)"
proof -
  have "\<not> contains (text_lines ls) (lit ''/*'')" using assms by (simp add: contains_text_lines lit_def list_ex_iff list_all_iff)
  then have "strip_delim (lit ''/*'') (lit ''*/'') (text_lines ls) = text_lines ls"
    by (subst strip_delim.simps) (simp add: find_sub_None [symmetric])
  moreover have "splitlines (text_lines ls) = ls" using assms by (simp add: splitlines_text_lines list_all_iff)
  ultimately show ?thesis by (simp add: strip_comments_dart_def re_sub_block_comments)
qed

lemma text_lines_join: "ls \<noteq> [] \<Longrightarrow> text_lines ls = py_join [NL] ls @ [NL]"
  by (induction "[NL] :: pystr" ls rule: py_join.induct) (simp_all add: text_lines_def)

lemma plain_strip: "plain ls \<Longrightarrow> strip_comments_dart (text_lines ls) @ [NL] = text_lines ls"
proof -
  assume p: "plain ls"
  then have "map cut_line_dart ls = ls" by (auto simp: plain_def list_all_iff cut_line_dart_plain intro: map_idI)
  moreover have "strip_comments_dart (text_lines ls) = py_join [NL] (map cut_line_dart ls)"
    using p by (intro strip_text_lines) (auto simp: plain_def list_all_iff)
  ultimately show ?thesis using p by (simp add: text_lines_join plain_def)
qed

lemma one_line_sep:
  assumes "one_line n"
  shows "contains (l @ NL # r) n \<longleftrightarrow> contains l n \<or> contains r n"
    and "count_from n (l @ NL # r) = count_from n l + count_from n r"
    and "find_sub (l @ NL # r) n = (case find_sub l n of Some i \<Rightarrow> Some i | None \<Rightarrow> map_option (\<lambda>i. Suc (length l) + i) (find_sub r n))"
proof -
  have n: "NL \<notin> set n" "n \<noteq> []" using assms by (auto simp: one_line_def)
  show "contains (l @ NL # r) n \<longleftrightarrow> contains l n \<or> contains r n" using n by (rule contains_around)
  show "count_from n (l @ NL # r) = count_from n l + count_from n r" using n by (rule count_from_sep)
  show "find_sub (l @ NL # r) n = (case find_sub l n of Some i \<Rightarrow> Some i | None \<Rightarrow> map_option (\<lambda>i. Suc (length l) + i) (find_sub r n))"
  proof (induction l)
    case Nil
    have "\<not> prefix n (NL # r)" using prefix_before_sep [OF n(1), of "[]" r] n(2) by simp
    moreover have "(+) (Suc 0) = Suc" by auto
    ultimately show ?case using n by simp
  next
    case (Cons x l)
    have "prefix n (x # l @ NL # r) \<longleftrightarrow> prefix n (x # l)" using prefix_before_sep [OF n(1), of "x # l" r] by simp
    moreover have "(+) (Suc (Suc (length l))) = (\<lambda>i. Suc (Suc (length l + i)))" by auto
    ultimately show ?case using Cons n by (simp add: option.map_comp comp_def split: option.split)
  qed
qed

lemma plain_rules:
  assumes "t = text_lines ls" and "plain ls" and "one_line n"
  shows "contains (strip_comments_dart t) n = contains t n"
    and "py_count (strip_comments_dart t) n = py_count t n"
    and "find_sub (strip_comments_dart t) n = find_sub t n"
proof -
  have t: "t = strip_comments_dart t @ NL # []" using plain_strip [OF assms(2)] assms(1) by simp
  have n: "n \<noteq> []" using assms(3) by (simp add: one_line_def)
  note sep = one_line_sep [OF assms(3), of "strip_comments_dart t" "[]", folded t]
  show "contains (strip_comments_dart t) n = contains t n" using sep(1) n by simp
  show "py_count (strip_comments_dart t) n = py_count t n" using sep(2) n by (simp add: py_count_def count_from_rules)
  show "find_sub (strip_comments_dart t) n = find_sub t n" using sep(3) n by (simp split: option.splits)
qed

lemma find_sub_text_lines:
  "one_line n \<Longrightarrow> find_sub (text_lines []) n = None"
  "one_line n \<Longrightarrow> find_sub (text_lines (l # ls)) n = (case find_sub l n of Some i \<Rightarrow> Some i
     | None \<Rightarrow> map_option (\<lambda>i. Suc (length l) + i) (find_sub (text_lines ls) n))"
  using one_line_sep(3) [of n l "text_lines ls"] by (simp_all add: text_lines_def one_line_def)

lemma drop_text_lines:
  "drop k (text_lines (l # ls)) = (if k \<le> length l then drop k l @ NL # text_lines ls else drop (k - Suc (length l)) (text_lines ls))"
  by (auto simp: text_lines_def drop_Cons')

definition no_comment_block :: "pystr list \<Rightarrow> bool" where
  "no_comment_block ls \<longleftrightarrow> list_all (\<lambda>l. \<not> contains l (lit ''/*'') \<and> list_all (\<lambda>c. \<not> is_linebreak c) l) ls"

lemmas strip_code_lines = strip_text_lines [folded no_comment_block_def]

lemma cut_lines_text_lines: "list_all (\<lambda>l. NL \<notin> set l) ls \<Longrightarrow> cut_lines (text_lines ls) = text_lines (map cut_at_slashes ls)"
proof (induction ls)
  case (Cons l ls)
  then have "dropWhile (\<lambda>x. x \<noteq> NL) (l @ NL # text_lines ls) = NL # text_lines ls"
    "takeWhile (\<lambda>x. x \<noteq> NL) (l @ NL # text_lines ls) = l" by (auto simp: dropWhile_append takeWhile_append)
  with Cons cut_lines_line [of "l @ NL # text_lines ls"] show ?case by (simp add: text_lines_def cut_lines_NL)
qed (simp add: text_lines_def cut_lines_def)

lemma strip_sub_text_lines: "no_comment_block ls \<Longrightarrow> strip_comments_sub (text_lines ls) = text_lines (map cut_at_slashes ls)"
proof -
  assume b: "no_comment_block ls"
  then have "\<not> contains (text_lines ls) (lit ''/*'')"
    by (simp add: no_comment_block_def contains_text_lines lit_def list_ex_iff list_all_iff)
  then have "strip_delim (lit ''/*'') (lit ''*/'') (text_lines ls) = text_lines ls"
    by (subst strip_delim.simps) (simp add: find_sub_None [symmetric])
  moreover have "list_all (\<lambda>l. NL \<notin> set l) ls" using b by (force simp: no_comment_block_def list_all_iff)
  ultimately show ?thesis
    by (simp add: strip_comments_sub_def re_sub_def [of line_comment_re] sub_pos_line_comment re_sub_block_comments cut_lines_text_lines)
qed

lemma cut_at_slashes_plain: "\<not> contains l (lit ''//'') \<Longrightarrow> cut_at_slashes l = l"
  by (induction l) auto

lemma plain_sub: "plain ls \<Longrightarrow> strip_comments_sub (text_lines ls) = text_lines ls"
proof -
  assume p: "plain ls"
  then have "map cut_at_slashes ls = ls" by (auto simp: plain_def list_all_iff cut_at_slashes_plain intro: map_idI)
  with p show ?thesis by (simp add: strip_sub_text_lines no_comment_block_def plain_def list_all_iff)
qed

lemma plain_code: "plain ls \<Longrightarrow> strip_comments_dart (text_lines ls) = py_join [NL] ls"
  using plain_strip [of ls] by (simp add: text_lines_join plain_def)

text \<open>A literal at a known place: on line \<open>k\<close>, from character \<open>j\<close> on.\<close>

definition found_at :: "pystr list \<Rightarrow> pystr \<Rightarrow> nat \<Rightarrow> nat \<Rightarrow> bool" where
  "found_at ls n k j \<longleftrightarrow> one_line n \<and> k < length ls \<and> prefix n (drop j (ls ! k))"

lemma found_at_line: "found_at ls n k j \<Longrightarrow> one_line n \<and> list_ex (\<lambda>l. contains l n) ls"
  unfolding found_at_def list_ex_iff contains_sublist
  by (metis nth_mem prefix_imp_sublist sublist_drop sublist_order.order_trans)

lemma found_at_lines: "found_at ls n k j \<Longrightarrow> contains (text_lines ls) n"
  using found_at_line by (auto simp: one_line_def contains_text_lines)

lemma found_at_code: "found_at (map cut_line_dart ls) n k j \<Longrightarrow> contains (py_join [NL] (map cut_line_dart ls)) n"
  using found_at_line [of "map cut_line_dart ls" n k j] by (simp add: one_line_def contains_lines del: py_join.simps)

lemma found_at_sub: "found_at (map cut_at_slashes ls) n k j \<Longrightarrow> contains (text_lines (map cut_at_slashes ls)) n"
  by (rule found_at_lines)

subsection \<open>Patterns on lines\<close>

lemma re_found_in: "contains t x \<Longrightarrow> (\<And>u v. \<exists>c. lang r u x v [] c) \<Longrightarrow> re_search r t \<noteq> None"
  unfolding re_search_not_None contains_iff by blast

lemma strip_audit_lines: "no_comment_block ls \<Longrightarrow> strip_comments (text_lines ls) = py_join [NL] (map cut_line ls)"
proof -
  assume b: "no_comment_block ls"
  then have "\<not> contains (text_lines ls) (lit ''/*'')"
    by (simp add: no_comment_block_def contains_text_lines lit_def list_ex_iff list_all_iff)
  then have "strip_delim (lit ''/*'') (lit ''*/'') (text_lines ls) = text_lines ls"
    by (subst strip_delim.simps) (simp add: find_sub_None [symmetric])
  moreover have "splitlines (text_lines ls) = ls" using b by (simp add: no_comment_block_def splitlines_text_lines list_all_iff)
  ultimately show ?thesis by (simp add: strip_comments_def re_sub_block_comments)
qed

text \<open>A line of a text, and two lines that follow one another.\<close>

lemma line_in_join:
  "\<exists>p q. py_join [NL] (xs @ l # ys) = p @ l @ q \<and> (p = [] \<or> last p = NL) \<and> (q = [] \<or> hd q = NL)"
proof (induction xs)
  case Nil
  show ?case
    by (cases ys) (auto intro: exI [of _ "[]"])
next
  case (Cons x xs)
  then obtain p q where pq: "py_join [NL] (xs @ l # ys) = p @ l @ q" "p = [] \<or> last p = NL" "q = [] \<or> hd q = NL" by blast
  have "py_join [NL] ((x # xs) @ l # ys) = x @ [NL] @ py_join [NL] (xs @ l # ys)" by (cases "xs @ l # ys") auto
  with pq show ?case by (intro exI [of _ "x @ [NL] @ p"] exI [of _ q]) auto
qed

lemma two_lines_in_join: "contains (py_join [NL] (xs @ a # b # ys)) (a @ NL # b)"
proof (induction xs)
  case Nil
  show ?case by (cases ys) (auto simp: contains_sublist intro: sublist_appendI [of _ "[]", simplified])
next
  case (Cons x xs)
  have "py_join [NL] ((x # xs) @ a # b # ys) = (x @ [NL]) @ py_join [NL] (xs @ a # b # ys)" by (cases xs) auto
  with Cons show ?case unfolding contains_iff by (metis append_assoc)
qed

lemma literal_before_char:
  assumes "NL \<notin> set n" and "n \<noteq> []" and "contains (text_lines ls) (n @ [c])"
  shows "list_ex (\<lambda>l. contains (l @ [NL]) (n @ [c])) ls"
  using assms(3)
proof (induction ls)
  case (Cons l ls)
  then obtain u v where eq: "l @ NL # text_lines ls = u @ n @ c # v" by (auto simp: contains_iff text_lines_def)
  show ?case
  proof (cases "length u + length n \<le> length l")
    case True
    then have "l @ [NL] = u @ n @ [c] @ take (length l - (length u + length n)) v"
      using arg_cong [OF eq, of "take (Suc (length l))"] by (simp add: Suc_diff_le)
    then have "contains (l @ [NL]) (n @ [c])" by (metis contains_iff append_assoc)
    then show ?thesis by simp
  next
    case False
    have "length l < length u"
    proof (rule ccontr)
      assume "\<not> length l < length u"
      with False have "length l - length u < length n" by linarith
      with \<open>\<not> length l < length u\<close> have "(u @ n @ c # v) ! length l \<in> set n" by (simp add: nth_append)
      with assms(1) show False by (simp flip: eq)
    qed
    then have "text_lines ls = drop (Suc (length l)) u @ n @ [c] @ v"
      using arg_cong [OF eq, of "drop (Suc (length l))"] by simp
    then have "contains (text_lines ls) (n @ [c])" by (metis contains_iff append_assoc)
    with Cons.IH show ?thesis by simp
  qed
qed (use assms in \<open>simp add: text_lines_def contains_iff\<close>)

text \<open>A text that goes on after some lines, and a line that stands in it once.\<close>

lemma text_lines_append: "text_lines (xs @ ys) = text_lines xs @ text_lines ys"
  by (simp add: text_lines_def)

lemma contains_after_lines:
  "one_line n \<Longrightarrow> contains (text_lines xs @ r) n \<longleftrightarrow> list_ex (\<lambda>l. contains l n) xs \<or> contains r n"
  by (induction xs) (simp_all add: text_lines_def one_line_sep)

lemma contains_length: "contains t n \<Longrightarrow> length n \<le> length t"
  by (auto simp: contains_iff)

lemma contains_butlast: "h \<noteq> [] \<Longrightarrow> \<not> contains (butlast h) h" and contains_tl: "h \<noteq> [] \<Longrightarrow> \<not> contains (tl h) h"
proof -
  have "length (butlast h) < length h" "length (tl h) < length h" if "h \<noteq> []" using that by simp_all
  with contains_length [of "butlast h" h] contains_length [of "tl h" h]
  show "h \<noteq> [] \<Longrightarrow> \<not> contains (butlast h) h" "h \<noteq> [] \<Longrightarrow> \<not> contains (tl h) h" by fastforce+
qed

lemma occurrence_unique:
  assumes "pre @ h @ rest = u @ h @ v" and "\<not> contains (pre @ butlast h) h" and "\<not> contains (tl h @ rest) h"
  shows "u = pre \<and> v = rest"
proof -
  have "h \<noteq> []" using assms(2) by auto
  have "length pre \<le> length u" by (rule occurrence_bound [OF assms(2,1)])
  with assms(1) obtain u2 where u: "u = pre @ u2" by (metis append_eq_append_conv_if append_take_drop_id)
  with assms(1) have eq: "h @ rest = u2 @ h @ v" by simp
  have "u2 = []"
  proof (rule ccontr)
    assume "u2 \<noteq> []"
    with eq \<open>h \<noteq> []\<close> have "tl h @ rest = tl u2 @ h @ v" by (cases h; cases u2) auto
    with assms(3) show False by (auto simp: contains_iff)
  qed
  with u eq show ?thesis by simp
qed

lemma unique_line:
  assumes "text_lines (xs @ h # ys) = u @ h @ v" and "one_line h" and "\<not> list_ex (\<lambda>l. contains l h) (xs @ ys)"
  shows "u = text_lines xs \<and> v = text_lines ([] # ys)"
proof (rule occurrence_unique)
  have h: "h \<noteq> []" using assms(2) by (simp add: one_line_def)
  show "text_lines xs @ h @ text_lines ([] # ys) = u @ h @ v"
    using assms(1) by (simp add: text_lines_def)
  show "\<not> contains (text_lines xs @ butlast h) h"
    using assms(2,3) contains_butlast [OF h] by (simp add: contains_after_lines)
  show "\<not> contains (tl h @ text_lines ([] # ys)) h"
    using assms(2,3) contains_tl [OF h] one_line_sep(1) [OF assms(2), of "tl h" "text_lines ys"]
    by (simp add: text_lines_def) (simp add: text_lines_def [symmetric] contains_text_lines one_line_def)
qed

text \<open>A text with one block.\<close>

lemma strip_one_block:
  assumes "\<not> contains (p @ butlast op) op" and "\<not> contains (mid @ butlast cl) cl" and "\<not> contains q op"
  shows "strip_delim op cl (p @ op @ mid @ cl @ q) = p @ q"
proof -
  have ne: "op \<noteq> []" using assms(3) by auto
  have "strip_delim op cl q = q"
    by (subst strip_delim.simps) (use assms(3) in \<open>simp add: find_sub_None [symmetric] del: not_None_eq\<close>)
  moreover have "find_sub (p @ op @ mid @ cl @ q) op = Some (length p)" by (rule find_sub_first [OF assms(1)])
  moreover have "find_sub (mid @ cl @ q) cl = Some (length mid)" by (rule find_sub_first [OF assms(2)])
  ultimately show ?thesis using ne by (subst strip_delim.simps) simp
qed

text \<open>A pattern that begins with a literal of which the text holds one.\<close>

lemma finditer_once:
  assumes "headed r h" and "\<not> contains (pre @ butlast h) h" and "\<not> contains (tl h @ x0 @ v0) h" and "lang r pre (h @ x0) v0 [] c0"
  obtains m x v where "re_finditer r (pre @ h @ x0 @ v0) = [m]" "m_start m = length pre" "m_end m = length (pre @ h @ x)"
    "x0 @ v0 = x @ v" "lang r pre (h @ x) v [] (m_caps m)"
proof -
  let ?t = "pre @ h @ x0 @ v0" and ?ms = "re_finditer r (pre @ h @ x0 @ v0)"
  have all: "\<exists>x v. m_start m = length pre \<and> m_end m = length (pre @ h @ x) \<and> x0 @ v0 = x @ v \<and> lang r pre (h @ x) v [] (m_caps m)"
    if "m \<in> set ?ms" for m
  proof -
    from re_finditer_sound [OF that] obtain u y v where t: "?t = u @ y @ v" and m: "m_start m = length u" "m_end m = length (u @ y)"
      and L: "lang r u y v [] (m_caps m)" by blast
    from headed_lang [OF assms(1) L] obtain x where y: "y = h @ x" unfolding prefix_def by blast
    have "pre @ h @ (x0 @ v0) = u @ h @ (x @ v)" using t y by simp
    from occurrence_unique [OF this assms(2,3)] have "u = pre" "x0 @ v0 = x @ v" by simp_all
    with m L y show ?thesis by auto
  qed
  have "?ms \<noteq> []"
    unfolding re_finditer_Nil re_search_not_None using assms(4) by (intro exI [of _ pre] exI [of _ "h @ x0"] exI [of _ v0]) auto
  moreover have "m_start m < m_start m'" if "?ms = m # m' # ms" for m m' ms
    using re_finditer_sorted [of r ?t] that by simp
  moreover have "m_start m = m_start m'" if "?ms = m # m' # ms" for m m' ms
  proof -
    have "m \<in> set ?ms" "m' \<in> set ?ms" using that by simp_all
    from all [OF this(1)] all [OF this(2)] show ?thesis by auto
  qed
  ultimately obtain m where "?ms = [m]" by (metis neq_Nil_conv less_irrefl)
  with all [of m] that show ?thesis by auto
qed

lemma timer_once:
  fixes pre rest
  defines "T \<equiv> lit ''Timer.periodic''"
  assumes "\<not> contains (pre @ butlast T) T" and "\<not> contains (tl T @ 40 # rest) T"
  obtains m where "re_finditer timer_periodic_re (pre @ T @ 40 # rest) = [m]" "m_end m = length (pre @ T @ [40])"
proof -
  have lang: "lang timer_periodic_re p y q c c' \<longleftrightarrow> (\<exists>w. y = T @ w @ [40] \<and> (\<forall>x\<in>set w. is_space x)) \<and> c' = c" for p y q c c'
    unfolding timer_periodic_re_def T_def Seq.simps cat_simps lang_Str by (auto simp: text_simps)
  have head: "headed timer_periodic_re T" unfolding timer_periodic_re_def T_def by (rule headed_Seq)
  have here: "lang timer_periodic_re pre (T @ [40]) rest [] []" unfolding lang by auto
  have later: "\<not> contains (tl T @ [40] @ rest) T" using assms(3) by simp
  obtain m x v where m: "re_finditer timer_periodic_re (pre @ T @ [40] @ rest) = [m]" "m_end m = length (pre @ T @ x)"
    "[40] @ rest = x @ v" "lang timer_periodic_re pre (T @ x) v [] (m_caps m)"
    by (rule finditer_once [OF head assms(2) later here])
  from m(3,4) have "x = [40]" unfolding lang by (auto simp: append_eq_Cons_conv Cons_eq_append_conv is_space_def)
  with m that show ?thesis by simp
qed

lemma arrow_callback:
  assumes "\<not> contains (pre @ [61]) (lit ''=>'')" and "name \<noteq> []" and "\<forall>x\<in>set name. is_word w x \<and> \<not> is_space x"
  shows "callback_name w (pre @ lit ''=>'' @ 32 # name @ 40 # post) = name"
proof -
  have paren: "\<not> is_word w 40" "\<not> is_space 40" "is_space 32" "\<not> is_word w 32" by (simp_all add: is_word_def is_space_def)
  have lang: "lang (arrow_callback_re w) p y q c c' \<longleftrightarrow> (\<exists>w1 n w2. y = lit ''=>'' @ w1 @ n @ w2 @ lit ''('' \<and> (\<forall>x\<in>set w1. is_space x) \<and>
      n \<noteq> [] \<and> (\<forall>x\<in>set n. is_word w x) \<and> (\<forall>x\<in>set w2. is_space x) \<and> c' = (1, n) # c)" for p y q c c'
    unfolding arrow_callback_re_def Seq.simps cat_simps lang_Str lang_Plus_Cls lang.simps(6)
    by (rule iffI; elim exE conjE; hypsubst; intro exI conjI, (rule refl | assumption)+)
  have head: "headed (arrow_callback_re w) (lit ''=>'')" unfolding arrow_callback_re_def by (rule headed_Seq)
  have no: "\<not> contains (pre @ butlast (lit ''=>'')) (lit ''=>'')" using assms(1) by (simp add: lit_def)
  have "lang (arrow_callback_re w) pre (lit ''=>'' @ 32 # name @ [40]) post [] [(1, name)]"
    unfolding lang using assms paren by (intro exI [of _ "[32]"] exI [of _ name] exI [of _ "[]"]) (simp add: lit_def)
  from re_search_at_head [OF head no this] obtain m x v where m: "re_search (arrow_callback_re w) (pre @ lit ''=>'' @ 32 # name @ 40 # post) = Some m"
    and xv: "32 # name @ 40 # post = x @ v" and L: "lang (arrow_callback_re w) pre (lit ''=>'' @ x) v [] (m_caps m)" by auto
  have open_paren: "lit ''('' = [40]" by (simp add: lit_def)
  from L obtain w1 n w2 where x: "x = w1 @ n @ w2 @ [40]" and w1: "\<forall>x\<in>set w1. is_space x" and n: "n \<noteq> []" "\<forall>x\<in>set n. is_word w x"
    and w2: "\<forall>x\<in>set w2. is_space x" and c: "m_caps m = [(1, n)]"
    unfolding lang open_paren by auto
  have eq: "32 # name @ 40 # post = w1 @ n @ w2 @ 40 # v" using xv x by simp
  then obtain w1' where w1': "w1 = 32 # w1'" using n paren by (cases w1; cases n) auto
  with eq have "name @ 40 # post = w1' @ n @ w2 @ 40 # v" by simp
  moreover from this have "w1' = []" using w1 w1' assms(2,3) by (cases w1'; cases name) auto
  ultimately have "name @ 40 # post = (n @ w2) @ 40 # v" by simp
  from run_unique [OF this, of "\<lambda>x. x \<noteq> 40"] have "name = n @ w2" using assms(3) n(2) w2 paren by auto
  then have "name = n" using assms(3) w2 by (cases w2) auto
  with m c show ?thesis by (simp add: callback_name_def group_def)
qed

subsection \<open>Order and number of lines\<close>

lemma found_at_contains: "found_at ls n k j \<Longrightarrow> one_line n \<and> k < length ls \<and> contains (ls ! k) n"
  unfolding found_at_def contains_sublist by (metis prefix_imp_sublist sublist_drop sublist_order.order_trans)

lemma find_sub_le: "n \<noteq> [] \<Longrightarrow> \<exists>k \<le> length u. find_sub (u @ n @ v) n = Some k"
  by (induction u) (auto simp: neq_Nil_conv)

text \<open>\<open>t\<close> is the text of the lines, with or without its last line feed.\<close>

definition text_of_lines :: "pystr \<Rightarrow> pystr list \<Rightarrow> bool" where
  "text_of_lines t ls \<longleftrightarrow> t = text_lines ls \<or> t @ [NL] = text_lines ls"

lemma text_of_lines_I: "text_of_lines (text_lines ls) ls" "ls \<noteq> [] \<Longrightarrow> text_of_lines (py_join [NL] ls) ls"
  by (simp_all add: text_of_lines_def text_lines_join)

lemma split_at_line:
  assumes "text_of_lines t ls" and "found_at ls a i p" and "found_at ls b j q" and "i < j"
  obtains u v where "t = u @ a @ v" "contains v b"
proof -
  have a: "i < length ls" "contains (ls ! i) a" and b: "one_line b" "j < length ls" "contains (ls ! j) b"
    using found_at_contains [OF assms(2)] found_at_contains [OF assms(3)] by auto
  then obtain x y where l: "ls ! i = x @ a @ y" by (auto simp: contains_iff)
  let ?rest = "drop (Suc i) ls"
  have "ls = take i ls @ (x @ a @ y) # ?rest" using id_take_nth_drop [OF a(1)] l by simp
  then have whole: "text_lines ls = (text_lines (take i ls) @ x) @ a @ y @ NL # text_lines ?rest"
    using text_lines_append [of "take i ls" "(x @ a @ y) # ?rest"] by (simp add: text_lines_def)
  have "ls ! j \<in> set ?rest" using assms(4) b(2) by (auto simp: in_set_conv_nth intro!: exI [of _ "j - Suc i"])
  then have found: "contains (text_lines ?rest) b" and ne: "?rest \<noteq> []"
    using b(1,3) by (auto simp: contains_text_lines one_line_def list_ex_iff)
  from assms(1) consider "t = text_lines ls" | "t @ [NL] = text_lines ls" unfolding text_of_lines_def by blast
  then show ?thesis
  proof cases
    case 1
    have "contains (y @ NL # text_lines ?rest) b" using found one_line_sep(1) [OF b(1)] by simp
    with 1 whole that show ?thesis by blast
  next
    case 2
    have rest: "text_lines ?rest = py_join [NL] ?rest @ [NL]" by (rule text_lines_join [OF ne])
    then have "contains (py_join [NL] ?rest) b" using found one_line_sep(1) [OF b(1), of "py_join [NL] ?rest" "[]"] b(1)
      by (simp add: one_line_def)
    then have "contains (y @ NL # py_join [NL] ?rest) b" using one_line_sep(1) [OF b(1)] by simp
    moreover have "t = (text_lines (take i ls) @ x) @ a @ y @ NL # py_join [NL] ?rest" using 2 whole rest by simp
    ultimately show ?thesis using that by blast
  qed
qed

lemma contains_after_first:
  assumes "t = u @ a @ v" and "a \<noteq> []" and "contains v b"
  shows "\<exists>k. find_sub t a = Some k \<and> contains (drop k t) b \<and> find_after t b k \<noteq> None"
proof -
  obtain k where k: "find_sub t a = Some k" "k \<le> length u" using find_sub_le [OF assms(2), of u v] assms(1) by blast
  then have "drop k t = drop k u @ a @ v" by (simp add: assms(1))
  then have "contains (drop k t) b" using assms(3) unfolding contains_iff by (metis append.assoc)
  moreover have "k \<le> length t" using k(2) assms(1) by simp
  moreover have "find_sub (drop k t) b \<noteq> None" using calculation(1) by (simp add: find_sub_None)
  ultimately show ?thesis using k(1) by (auto simp: find_after_def)
qed

lemma after_first_line:
  assumes "text_of_lines t ls" and "found_at ls a i p" and "found_at ls b j q" and "i < j"
  shows "\<exists>k. find_sub t a = Some k \<and> contains (drop k t) b \<and> find_after t b k \<noteq> None"
proof -
  from split_at_line [OF assms] obtain u v where "t = u @ a @ v" "contains v b" .
  then show ?thesis using contains_after_first found_at_contains [OF assms(2)] by (simp add: one_line_def)
qed

end
