(* ===== verification/Literal_Cases.thy ===== *)
theory Literal_Cases
  imports Self_Test_Driver Vpn_Replicas
begin

section \<open>The cases of the self-test on the literal checks\<close>

text \<open>
  The cases that tools/audit-self-test.py has for S25 to S72, but for those of S28, S42 and S43, which search with patterns: their
  texts (the constants \<open>case_*\<close>, and those written into the table), and the messages they expect. A replica returns findings here;
  \<open>message_of\<close> makes the message of a finding from the format its place has in the code.
\<close>

subsection \<open>Messages\<close>

type_synonym message_table = "(string \<times> pystr \<times> pystr) list"

definition message_of :: "message_table \<Rightarrow> finding \<Rightarrow> pystr" where
  "message_of table f = (case f of Finding s place values \<Rightarrow>
     (case map_of table place of None \<Rightarrow> [] | Some (before, after) \<Rightarrow> before @ concat values @ after))"

lemmas case_rules = on_text_def Let_def message_of_def literal_finding_def missing_finding_def missing_commas_def contains_text_lines
  any_text_def sq_def dq_def notification_title_def negotiating_label_def connected_label_def empty_state_text_def summary_fields_def
  py_lower_text_lines py_count_text_lines

definition s25_messages :: message_table where
  "s25_messages = [
     (''vpn'',
        lit ''S25 fail ('',
        lit '')'')]"

definition s26_messages :: message_table where
  "s26_messages = [
     (''file missing'',
        lit ''S26 fail (file missing)'',
        []),
     (''literal missing'',
        lit ''S26 fail (literal missing)'',
        [])]"

definition s27_messages :: message_table where
  "s27_messages = [
     (''file missing'',
        lit ''S27 fail (file missing)'',
        []),
     (''literal missing'',
        lit ''S27 fail (literal missing)'',
        [])]"

definition s29_messages :: message_table where
  "s29_messages = [
     (''file missing'',
        lit ''S29 fail (file missing)'',
        []),
     (''no haptic'',
        lit ''S29 fail (no haptic / system-sound literal)'',
        [])]"

definition s33_messages :: message_table where
  "s33_messages = [
     (''file missing'',
        lit ''S33 fail (file missing)'',
        []),
     (''missing'',
        lit ''S33 fail (missing: '',
        lit '')'')]"

definition s34_messages :: message_table where
  "s34_messages = [
     (''file missing'',
        lit ''S34 fail (file missing)'',
        []),
     (''literal missing'',
        lit ''S34 fail (literal missing)'',
        [])]"

definition s35_messages :: message_table where
  "s35_messages = [
     (''literal missing'',
        lit ''S35 fail (literal missing in both services)'',
        [])]"

definition s36_messages :: message_table where
  "s36_messages = [
     (''file missing'',
        lit ''S36 fail (file missing)'',
        []),
     (''missing'',
        lit ''S36 fail (missing: '',
        lit '')'')]"

definition s37_messages :: message_table where
  "s37_messages = [
     (''literal missing'',
        lit ''S37 fail (authHeaders() call missing in both services)'',
        [])]"

definition s38_messages :: message_table where
  "s38_messages = [
     (''file missing'',
        lit ''S38 fail (file missing)'',
        []),
     (''literal missing'',
        lit ''S38 fail (_tokenExpiresAt field missing)'',
        [])]"

definition s39_messages :: message_table where
  "s39_messages = [
     (''file missing'',
        lit ''S39 fail (file missing)'',
        []),
     (''literal missing'',
        lit ''S39 fail (invalidate() method missing)'',
        [])]"

definition s40_messages :: message_table where
  "s40_messages = [
     (''file missing'',
        lit ''S40 fail (file missing)'',
        []),
     (''missing'',
        lit ''S40 fail (missing: '',
        lit '')'')]"

definition s41_messages :: message_table where
  "s41_messages = [
     (''file missing'',
        lit ''S41 fail (file missing)'',
        []),
     (''missing'',
        lit ''S41 fail (missing /api/v1/sessions)'',
        []),
     (''forbidden literal'',
        lit ''S41 fail (forbidden /api/v1/matches still present)'',
        [])]"

definition s44_messages :: message_table where
  "s44_messages = [
     (''file missing'',
        lit ''S44 fail (provider file missing)'',
        []),
     (''missing'',
        lit ''S44 fail (provider missing: '',
        lit '')''),
     (''screen file missing'',
        lit ''S44 fail (screen file missing)'',
        []),
     (''screen literal missing'',
        lit ''S44 fail (screen missing: tryOpenWithReason)'',
        [])]"

definition s45_messages :: message_table where
  "s45_messages = [
     (''file missing'',
        lit ''S45 fail (OpenE2eeVpnService.kt file missing)'',
        []),
     (''literal missing'',
        lit ''S45 fail ('' @ [34] @ lit ''onPacketsSampled'' @ [34] @ lit '' literal missing)'',
        [])]"

definition s46_messages :: message_table where
  "s46_messages = [
     (''file missing'',
        lit ''S46 fail (MainActivity.kt file missing)'',
        []),
     (''snapshot missing'',
        lit ''S46 fail (OpenE2eeVpnService.snapshot() call missing)'',
        []),
     (''mock packet'',
        lit ''S46 fail (mock packet mapOf(...) literal still present)'',
        [])]"

definition s47_messages :: message_table where
  "s47_messages = [
     (''file missing'',
        lit ''S47 fail (vpn_service.dart file missing)'',
        []),
     (''missing'',
        lit ''S47 fail (missing: '',
        lit '')'')]"

definition s48_messages :: message_table where
  "s48_messages = [
     (''file missing'',
        lit ''S48 fail (active_pool_screen.dart file missing)'',
        []),
     (''literal missing'',
        lit ''S48 fail (packetStream.listen literal missing)'',
        [])]"

definition s49_messages :: message_table where
  "s49_messages = [
     (''file missing'',
        lit ''S49 fail (packet_parser.dart file missing)'',
        []),
     (''missing'',
        lit ''S49 fail (missing: '',
        lit '')'')]"

definition s50_messages :: message_table where
  "s50_messages = [
     (''file missing'',
        lit ''S50 fail (OpenE2eeVpnService.kt file missing)'',
        []),
     (''literal missing'',
        lit ''S50 fail (foreground notification title '' @ [34] @ lit ''OpenE2EE '' @ [350] @ lit ''ifreleme Do'' @
        [287] @ lit ''rulama'' @ [34] @ lit '' missing)'',
        [])]"

definition s51_messages :: message_table where
  "s51_messages = [
     (''file missing'',
        lit ''S51 fail (active_pool_screen.dart file missing)'',
        []),
     (''fixed loop'',
        lit ''S51 fail (30-call fixed Timer.periodic loop still present)'',
        []),
     (''packetStream missing'',
        lit ''S51 fail (continuous packetStream subscription missing)'',
        [])]"

definition s52_messages :: message_table where
  "s52_messages = [
     (''file missing'',
        lit ''S52 fail (telemetry_service.dart file missing)'',
        []),
     (''missing'',
        lit ''S52 fail (missing: '',
        lit '')'')]"

definition s53_messages :: message_table where
  "s53_messages = [
     (''file missing'',
        lit ''S53 pubspec.yaml: file missing'',
        []),
     (''literal missing'',
        lit ''S53 pubspec.yaml: missing `webrtc:` dependency line. Sprint 11.0B invariant '' @ [8212] @
        lit '' the WebRTC peer connection is the M2 demo path. (The brief specifies `webrtc: ^0.13.0+`; the '' @
        lit ''modern actively-maintained variant is `flutter_webrtc: ^1.5.0` which satisfies the same audit '' @
        lit ''substring.)'',
        [])]"

definition s54_messages :: message_table where
  "s54_messages = [
     (''file missing'',
        lit ''S54 webrtc_service.dart: file missing'',
        []),
     (''missing'',
        lit ''S54 webrtc_service.dart: missing '',
        lit ''. Sprint 11.0B invariant '' @ [8212] @
        lit '' the Dart-side peer connection wrapper must import the `flutter_webrtc` package and instantiate '' @
        lit ''`RTCPeerConnection` via `createPeerConnection({iceServers: ...})`.'')]"

definition s55_messages :: message_table where
  "s55_messages = [
     (''file missing'',
        lit ''S55 webrtc_service.dart: file missing'',
        []),
     (''missing'',
        lit ''S55 webrtc_service.dart: missing '',
        lit ''. Sprint 11.0B invariant '' @ [8212] @
        lit '' the `onIceCandidate` callback forwards each peer-discovered candidate to the orchestrator'' @ [39] @
        lit ''s `POST /api/v1/webrtc/ice` endpoint. The candidate payload carries `candidate` (RFC 5245 candidate '' @
        lit ''string) + `sdpMid` (mid attribute) + `sdpMLineIndex` (line index).'')]"

definition s56_messages :: message_table where
  "s56_messages = [
     (''file missing'',
        lit ''S56 session_orchestrator.dart: file missing'',
        []),
     (''missing'',
        lit ''S56 session_orchestrator.dart: missing '',
        lit ''. Sprint 11.0B invariant '' @ [8212] @
        lit '' `startSession()` is the JWT-authenticated entry point that mints a session id (and '' @
        lit ''receiver_session_id) the orchestrator uses for the rest of the negotiation flow.'')]"

definition s57_messages :: message_table where
  "s57_messages = [
     (''file missing'',
        lit ''S57 session_orchestrator.dart: file missing'',
        []),
     (''timeout missing'',
        lit ''S57 session_orchestrator.dart: missing 30s long-poll timeout literal. Sprint 11.0B invariant '' @ [8212] @
        lit '' the orchestrator'' @ [39] @
        lit ''s `pollForOffer` / `pollForAnswer` methods long-poll GET with a 30s timeout (the brief'' @ [39] @
        lit ''s `Future.timeout` contract).'',
        []),
     (''get missing'',
        lit ''S57 session_orchestrator.dart: missing `.get(` call site for the long-poll GET.'',
        []),
     (''poll method missing'',
        lit ''S57 session_orchestrator.dart: missing `pollForOffer` or `pollForAnswer` method (the long-poll '' @
        lit ''entry points).'',
        [])]"

definition s59_messages :: message_table where
  "s59_messages = [
     (''file missing'',
        lit ''S59 webrtc_service.dart: file missing'',
        []),
     (''missing'',
        lit ''S59 webrtc_service.dart: missing '',
        lit ''. Sprint 11.0B invariant '' @ [8212] @ lit '' the service exposes the peer connection'' @ [39] @
        lit ''s `onTrack` stream so the UI can show '' @ [39] @ lit ''1 stream received'' @ [39] @
        lit '' when the test harness triggers an inbound track event.'')]"

definition s60_messages :: message_table where
  "s60_messages = [
     (''file missing'',
        lit ''S60 active_pool_screen.dart: file missing'',
        []),
     (''missing'',
        lit ''S60 active_pool_screen.dart: missing '',
        lit ''. Sprint 11.0B invariant '' @ [8212] @
        lit '' the WebRTC status pill on the active pool screen surfaces the live peer connection state with '' @
        lit ''three labels: Negotiating / Connected / Failed (Turkish: m'' @ [252] @ lit ''zakere / ba'' @ [287] @
        lit ''land'' @ [305] @
        lit '' / hata). The `P2P:` prefix in the row distinguishes the WebRTC pill from the foreground service pill.'')]"

definition s61_messages :: message_table where
  "s61_messages = [
     (''file missing'',
        lit ''S61 skorlar_screen.dart: file missing'',
        []),
     (''missing'',
        lit ''S61 skorlar_screen.dart: missing '',
        lit ''. Sprint 11.0C invariant '' @ [8212] @
        lit '' the screen is a Riverpod ConsumerStatefulWidget; the future list type Future<List<SessionScore>> + '' @
        lit ''the fetchScores method are the canonical 11.0C wire shape.'')]"

definition s62_messages :: message_table where
  "s62_messages = [
     (''file missing'',
        lit ''S62 score_calculator.dart: file missing'',
        []),
     (''missing'',
        lit ''S62 score_calculator.dart: missing '',
        lit ''. Sprint 11.0C invariant '' @ [8212] @
        lit '' the `compute` method is a pure function (no I/O, no time-source injection) so it'' @ [39] @
        lit ''s unit-testable and the Skorlar screen can compute the headline score from a `summary_stats` block '' @
        lit ''without side effects.'')]"

definition s63_messages :: message_table where
  "s63_messages = [
     (''file missing'',
        lit ''S63 score_calculator.dart: file missing'',
        []),
     (''missing'',
        lit ''S63 score_calculator.dart: missing '',
        lit ''. Sprint 11.0C invariant '' @ [8212] @
        lit '' the 4 metric fields (encryption integrity %, packet loss %, mean latency ms, jitter ms) are the '' @
        lit ''inputs to the weighted sum; the Skorlar screen'' @ [39] @
        lit ''s `SessionScoreCard` detail view shows all 4 side-by-side.'')]"

definition s64_messages :: message_table where
  "s64_messages = [
     (''file missing'',
        lit ''S64 score_calculator.dart: file missing'',
        []),
     (''weights missing'',
        lit ''S64 score_calculator.dart: missing overall weighted sum weights (0.4 + 0.3 + 0.2 + 0.1). Sprint '' @
        lit ''11.0C invariant '' @ [8212] @ lit '' the 4 weights sum to 1.0; the brief'' @ [39] @
        lit ''s spec is verbatim. The audit accepts the literal `0.4 *` + `0.3 *` + `0.2 *` + `0.1 *` substring '' @
        lit ''sequence in the file'' @ [39] @ lit ''s `compute` method.'',
        [])]"

definition s65_messages :: message_table where
  "s65_messages = [
     (''file missing'',
        lit ''S65 session_orchestrator.dart: file missing'',
        []),
     (''missing'',
        lit ''S65 session_orchestrator.dart: missing '',
        lit ''. Sprint 11.0C invariant '' @ [8212] @
        lit '' `closeSession()` POSTs to `/api/v1/sessions/{id}/close` and caches the `summary_stats` block. The '' @
        lit ''active-pool screen'' @ [39] @ lit ''s '' @ [34] @ lit ''Oturumu Bitir'' @ [34] @
        lit '' button is the only call site.'')]"

definition s66_messages :: message_table where
  "s66_messages = [
     (''file missing'',
        lit ''S66 active_pool_screen.dart: file missing'',
        []),
     (''literal missing'',
        lit ''S66 active_pool_screen.dart: missing `Oturumu Bitir` Turkish label. Sprint 11.0C invariant '' @ [8212] @
        lit '' the button calls `_orchestrator.closeSession()` and navigates to /home/skorlar. S25 invariant '' @
        lit ''extends: no '' @ [39] @ lit ''VPN'' @ [39] @ lit '' string, Turkish UI text only.'',
        [])]"

definition s67_messages :: message_table where
  "s67_messages = [
     (''file missing'',
        lit ''S67 active_pool_screen.dart: file missing'',
        []),
     (''missing'',
        lit ''S67 active_pool_screen.dart: missing '',
        lit ''. Sprint 11.0C invariant '' @ [8212] @
        lit '' the Oturumu Bitir flow calls `_orchestrator.closeSession()` then `context.go('' @ [39] @
        lit ''/home/skorlar'' @ [39] @ lit '')` so the new score is visible without an explicit refresh.'')]"

definition s68_messages :: message_table where
  "s68_messages = [
     (''file missing'',
        lit ''S68 skorlar_screen.dart: file missing'',
        []),
     (''literal missing'',
        lit ''S68 skorlar_screen.dart: missing `Hen'' @ [252] @ lit ''z tamamlanm'' @ [305, 351] @
        lit '' oturum yok` empty-state string. Sprint 11.0C invariant '' @ [8212] @
        lit '' the screen shows the empty state when `fetchScores()` returns an empty list (no completed sessions '' @
        lit ''yet).'',
        [])]"

definition s69_messages :: message_table where
  "s69_messages = [
     (''file missing'',
        lit ''S69 skorlar_screen.dart: file missing'',
        []),
     (''missing'',
        lit ''S69 skorlar_screen.dart: missing '',
        lit ''. Sprint 11.0C invariant '' @ [8212] @
        lit '' each session card has a headline gauge (coloured disc with the overall score 0-100) plus an '' @
        lit ''expandable details view with the 4 sub-metrics. The brief'' @ [39] @
        lit ''s spec is a `fl_chart` radial gauge; Sprint 11.0C uses a simple disc with the `tier` color hint to '' @
        lit ''keep the APK small after the M2 +50 MB libwebrtc hit.'')]"

definition s70_messages :: message_table where
  "s70_messages = [
     (''file missing'',
        lit ''S70 backend/internal/api/router.go: file missing'',
        []),
     (''literal missing'',
        lit ''S70 backend/internal/api/router.go: missing `r.Post('' @ [34] @ lit ''/sessions/{id}/close'' @ [34] @
        lit ''` route registration. Sprint 11.0C invariant '' @ [8212] @ lit '' the mobile orchestrator'' @ [39] @
        lit ''s `closeSession()` POSTs this endpoint; the handler in `sessions.go` marks the session completed '' @
        lit ''and returns the `summary_stats` block.'',
        [])]"

definition s71_messages :: message_table where
  "s71_messages = [
     (''file missing'',
        lit ''S71 backend/internal/api/sessions.go: file missing'',
        []),
     (''missing'',
        lit ''S71 backend/internal/api/sessions.go: missing '',
        lit ''. Sprint 11.0C invariant '' @ [8212] @ lit '' the close handler'' @ [39] @
        lit ''s `summary_stats` block carries 6 fields: `total_packets`, `encrypted_packets`, `packet_loss_pct`, '' @
        lit ''`mean_latency_ms`, `jitter_ms`, `encryption_integrity_pct`. The mobile `SessionScore` JSON '' @
        lit ''deserialiser reads all 6 into the calculator.'')]"

definition s72_messages :: message_table where
  "s72_messages = [
     (''file missing'',
        lit ''S72 score_calculator_test.dart: file missing'',
        []),
     (''tests missing'',
        lit ''S72 score_calculator_test.dart: missing the 4 unit tests (integration, loss, latency, jitter). '' @
        lit ''Sprint 11.0C invariant '' @ [8212] @
        lit '' the brief requires exactly 4 unit tests for the calculator; the M3 implementation has 7 (the 4 '' @
        lit ''brief + 3 extra: overall weighted sum, computeAll, standardDeviation helper).'',
        [])]"

subsection \<open>The texts\<close>

definition s25_text1_a :: pystr where
  "s25_text1_a = text_lines [
     lit ''void main() => runApp(const OpenE2EEApp());'',
     lit ''// A'' @ [287] @ lit '' G'' @ [252] @ lit ''venli'' @ [287] @ lit ''i Arac'' @ [305]]"

definition s25_text2_a :: pystr where
  "s25_text2_a = text_lines [
     lit ''import '' @ [39] @ lit ''package:flutter/material.dart'' @ [39] @ lit '';'',
     lit ''class HomeScreen extends StatelessWidget {}'']"

definition s25_text1_b :: pystr where
  "s25_text1_b = text_lines [
     lit ''void main() { connectVpn(); }'']"

definition s25_text2_b :: pystr where
  "s25_text2_b = text_lines [
     lit ''// clean'']"

definition s26_text_a :: pystr where
  "s26_text_a = text_lines [
     lit ''final uri = '' @ [39] @ lit ''intent://send?text=hello#Intent;scheme=whatsapp;package=com.whatsapp;end'' @ [39] @
       lit '';'']"

definition s26_text_b :: pystr where
  "s26_text_b = text_lines [
     lit ''// replaced with custom intent later'']"

definition s27_text_a :: pystr where
  "s27_text_a = text_lines [
     lit ''child: LineChart(LineChartData(lineBarsData: [LineChartBarData(spots: [])]))'']"

definition s27_text_b :: pystr where
  "s27_text_b = text_lines [
     lit ''child: Text('' @ [39] @ lit ''chart coming soon'' @ [39] @ lit '')'']"

definition s29_text_a :: pystr where
  "s29_text_a = text_lines [
     lit ''HapticFeedback.lightImpact();'']"

definition s29_text_b :: pystr where
  "s29_text_b = text_lines [
     lit ''// haptic removed; visual only'',
     lit ''ScaffoldMessenger.showSnackBar(...)'']"

definition s33_text_a :: pystr where
  "s33_text_a = text_lines [
     lit ''final String? lastError;'',
     lit ''final String? lastSuccess;'']"

definition s33_text_b :: pystr where
  "s33_text_b = text_lines [
     lit ''// error-tracking field removed'',
     lit ''final String? lastSuccess;'']"

definition s34_text_a :: pystr where
  "s34_text_a = text_lines [
     lit ''ScaffoldMessenger.of(context).showSnackBar(SnackBar(content: Text('' @ [39] @ lit ''Hata'' @ [39] @ lit '')));'']"

definition s34_text_b :: pystr where
  "s34_text_b = text_lines [
     lit ''final messenger = ScaffoldMessenger.of(context);'',
     lit ''messenger.showSnackBar(...);'']"

definition s35_text1_a :: pystr where
  "s35_text1_a = text_lines [
     lit ''const String _kApiKey = String.fromEnvironment('' @ [39] @ lit ''API_KEY'' @ [39] @ lit '', defaultValue: '' @ [39] @
       lit ''test_key_placeholder'' @ [39] @ lit '');'']"

definition s35_text1_b :: pystr where
  "s35_text1_b = text_lines [
     lit ''// literal removed in 10.1C rebase; using constructor param instead'']"

definition s35_text2_b :: pystr where
  "s35_text2_b = text_lines [
     lit ''// p2p uses constructor param too'']"

definition s36_text_a :: pystr where
  "s36_text_a = text_lines [
     lit ''final resp = await http.post('',
     lit ''  Uri.parse('' @ [39] @ lit ''${AppConfig.apiBase}/api/v1/auth'' @ [39] @ lit ''),'',
     lit ''  body: jsonEncode({'' @ [39] @ lit ''user_id'' @ [39] @ lit '': AppConfig.deviceId}),'',
     lit '');'']"

definition s36_text_b :: pystr where
  "s36_text_b = text_lines [
     lit ''// switched to header-based auth, no POST body'',
     lit ''final headers = {'' @ [39] @ lit ''Authorization'' @ [39] @ lit '': '' @ [39] @ lit ''Bearer token'' @ [39] @
       lit ''};'']"

definition s37_text1_a :: pystr where
  "s37_text1_a = text_lines [
     lit ''final headers = await _auth.authHeaders();'',
     lit ''headers['' @ [39] @ lit ''Content-Type'' @ [39] @ lit ''] = '' @ [39] @ lit ''application/json'' @ [39] @ lit '';'']"

definition s37_text1_b :: pystr where
  "s37_text1_b = text_lines [
     lit ''// auth integration removed, using static key'',
     lit ''headers: {'' @ [39] @ lit ''Authorization'' @ [39] @ lit '': '' @ [39] @ lit ''Bearer $_apiKey'' @ [39] @ lit ''},'']"

definition s37_text2_b :: pystr where
  "s37_text2_b = text_lines [
     lit ''// p2p also reverted to static key'']"

definition s38_text_a :: pystr where
  "s38_text_a = text_lines [
     lit ''DateTime? _tokenExpiresAt;'',
     lit ''bool get hasValidToken => _tokenExpiresAt != null;'']"

definition s38_text_b :: pystr where
  "s38_text_b = text_lines [
     lit ''// expiry tracking field removed; using one-shot token'',
     lit ''String? _cachedToken;'']"

definition s39_text_a :: pystr where
  "s39_text_a = text_lines [
     lit ''void invalidate() {'',
     lit ''  _cachedToken = null;'',
     lit ''  _tokenExpiresAt = null;'',
     lit ''}'']"

definition s39_text_b :: pystr where
  "s39_text_b = text_lines [
     lit ''// flush-on-401 method removed; cached JWT stays until 1h expiry'']"

definition s40_text_a :: pystr where
  "s40_text_a = text_lines [
     lit ''static Uri buildUri() => Uri.parse('',
     lit ''  '' @ [39] @ lit ''intent://send?text=foo#Intent;scheme=whatsapp;package=com.whatsapp;end'' @ [39] @ lit '','',
     lit '');'']"

definition s40_text_b :: pystr where
  "s40_text_b = text_lines [
     lit ''// forgot both halves of the Android Intent URI, reverted to legacy'',
     lit ''static Uri buildUri() => Uri.parse('' @ [39] @ lit ''whatsapp://send?text=foo'' @ [39] @ lit '');'']"

definition s41_text_a :: pystr where
  "s41_text_a = text_lines [
     lit ''final uri = Uri.parse('' @ [39, 92] @ lit ''${AppConfig.apiBase}/api/v1/sessions'' @ [39] @ lit '');'',
     lit ''final resp = await _client.get(uri, headers: headers);'']"

definition s41_text_b :: pystr where
  "s41_text_b = text_lines [
     lit ''// reverted to the 10.1B path that 404'' @ [39] @ lit ''d'',
     lit ''final uri = Uri.parse('' @ [39, 92] @ lit ''${AppConfig.apiBase}/api/v1/matches?sessionId=...'' @ [39] @ lit '');'']"

definition case_s44_provider_pass :: pystr where
  "case_s44_provider_pass = text_lines [
     lit ''static Uri buildUri() => Uri.parse('',
     lit ''  '' @ [39] @ lit ''intent://send?text=foo#Intent;scheme=whatsapp;package=com.whatsapp;end'' @ [39] @ lit '','',
     lit '');'',
     lit ''static Uri buildWaMeUri() => Uri.parse('' @ [39] @ lit ''https://wa.me/?text=foo'' @ [39] @ lit '');'']"

definition case_s44_screen_pass :: pystr where
  "case_s44_screen_pass = text_lines [
     lit ''final result = await WhatsAppDeepLink.tryOpenWithReason();'',
     lit ''if (!result.ok) {'',
     lit ''  messenger.showSnackBar(SnackBar(content: Text('' @ [39] @ lit ''WhatsApp a'' @ [231, 305] @ lit ''lamad'' @ [305] @
       lit '': ${result.reason}'' @ [39] @ lit '')));'',
     lit ''}'']"

definition case_s45_vpn_service_pass :: pystr where
  "case_s45_vpn_service_pass = text_lines [
     lit ''class OpenE2eeVpnService : VpnService() {'',
     lit ''    private class PacketDrain(...) : Runnable {'',
     lit ''        override fun run() {'',
     lit ''            ch.invokeMethod('' @ [34] @ lit ''onPacketsSampled'' @ [34] @ lit '', packets)'',
     lit ''        }'',
     lit ''    }'',
     lit ''}'']"

definition case_s45_vpn_service_no_literal :: pystr where
  "case_s45_vpn_service_no_literal = text_lines [
     lit ''class OpenE2eeVpnService : VpnService() {'',
     lit ''    // forgot the event name literal '' @ [8212] @ lit '' 10.1F inline mock returns'',
     lit ''    private fun snapshot(): List<Map<String, Any?>> = listOf()'',
     lit ''}'']"

definition case_s46_main_activity_pass :: pystr where
  "case_s46_main_activity_pass = text_lines [
     lit ''package com.opene2ee.opene2ee'',
     lit ''import com.opene2ee.opene2ee.vpn.OpenE2eeVpnService'',
     lit ''class MainActivity : FlutterActivity() {'',
     lit ''    override fun configureFlutterEngine(flutterEngine: FlutterEngine) {'',
     lit ''        OpenE2eeVpnService.attachFlutterEngine(flutterEngine)'',
     lit ''    }'',
     lit ''    fun readSamples(): List<Map<String, Any?>>? = OpenE2eeVpnService.snapshot()'',
     lit ''}'']"

definition case_s46_main_activity_with_mock :: pystr where
  "case_s46_main_activity_with_mock = text_lines [
     lit ''package com.opene2ee.opene2ee'',
     lit ''class MainActivity : FlutterActivity() {'',
     lit ''    private fun onVpnCall(call: MethodCall, result: MethodChannel.Result) {'',
     lit ''        when (call.method) {'',
     lit ''            '' @ [34] @ lit ''getSampledPackets'' @ [34] @ lit '' -> {'',
     lit ''                val mockPackets = listOf('',
     lit ''                    mapOf('',
     lit ''                        '' @ [34] @ lit ''version'' @ [34] @ lit '' to 4,'',
     lit ''                        '' @ [34] @ lit ''protocol'' @ [34] @ lit '' to 6,'',
     lit ''                        '' @ [34] @ lit ''srcIpMasked'' @ [34] @ lit '' to '' @ [34] @ lit ''10.42.0.0'' @ [34] @
       lit '','',
     lit ''                        '' @ [34] @ lit ''dstIpMasked'' @ [34] @ lit '' to '' @ [34] @ lit ''1.1.1.0'' @ [34] @
       lit '','',
     lit ''                    ),'',
     lit ''                )'',
     lit ''                result.success(mockPackets)'',
     lit ''            }'',
     lit ''        }'',
     lit ''    }'',
     lit ''}'']"

definition case_s47_vpn_service_pass :: pystr where
  "case_s47_vpn_service_pass = text_lines [
     lit ''import '' @ [39] @ lit ''dart:async'' @ [39] @ lit '';'',
     lit ''import '' @ [39] @ lit ''package:flutter/services.dart'' @ [39] @ lit '';'',
     lit ''class VpnService {'',
     lit ''  VpnService({MethodChannel? channel})'',
     lit ''      : _channel = channel ?? const MethodChannel('' @ [39] @ lit ''opene2ee/vpn'' @ [39] @ lit '');'',
     lit ''  Stream<List<SampledPacket>> get packetStream => _packetCtrl.stream;'',
     lit ''}'']"

definition case_s47_vpn_service_no_packetstream :: pystr where
  "case_s47_vpn_service_no_packetstream = text_lines [
     lit ''import '' @ [39] @ lit ''dart:async'' @ [39] @ lit '';'',
     lit ''class VpnService {'',
     lit ''  // forgot the live stream getter '' @ [8212] @ lit '' screen has no live subscription'',
     lit ''  Future<List<Map<String, Object?>>> getSampledPackets() async => const [];'',
     lit ''}'']"

definition case_s48_active_pool_pass :: pystr where
  "case_s48_active_pool_pass = text_lines [
     lit ''class _ActivePoolScreenState extends ConsumerState<ActivePoolScreen> {'',
     lit ''  void initState() {'',
     lit ''    _packetSub = _vpn.packetStream.listen(_onPacketsSampled);'',
     lit ''  }'',
     lit ''}'']"

definition case_s48_active_pool_no_listen :: pystr where
  "case_s48_active_pool_no_listen = text_lines [
     lit ''class _ActivePoolScreenState extends ConsumerState<ActivePoolScreen> {'',
     lit ''  void initState() {'',
     lit ''    // forgot the live subscription '' @ [8212] @ lit '' reverts to mock ticker'',
     lit ''    _mockTimer = Timer.periodic(_mockTickPeriod, (_) => _mockTick());'',
     lit ''  }'',
     lit ''}'']"

definition case_s49_packet_parser_pass :: pystr where
  "case_s49_packet_parser_pass = text_lines [
     lit ''class SampledPacket {'',
     lit ''  SampledPacket({required this.protocol, required this.srcIpMasked, ...});'',
     lit ''  static SampledPacket? fromBytes(Uint8List raw) {'',
     lit ''    return PacketParser.parse(raw) != null'',
     lit ''        ? SampledPacket(...)'',
     lit ''        : null;'',
     lit ''  }'',
     lit ''  Map<String, Object?> toJson() => {'' @ [39] @ lit ''protocol'' @ [39] @ lit '': protocol, ...};'',
     lit ''}'']"

definition case_s49_packet_parser_no_sampledpacket :: pystr where
  "case_s49_packet_parser_no_sampledpacket = text_lines [
     lit ''// forgot the SampledPacket class '' @ [8212] @ lit '' only ParsedPacket remains'',
     lit ''class ParsedPacket {'',
     lit ''  ParsedPacket({required this.protocol, ...});'',
     lit ''  Map<String, Object?> toJson() => {'' @ [39] @ lit ''protocol'' @ [39] @ lit '': protocol.name, ...};'',
     lit ''}'']"

definition case_s50_vpn_service_pass :: pystr where
  "case_s50_vpn_service_pass = text_lines [
     lit ''val notification: Notification = NotificationCompat.Builder(this, NOTIFICATION_CHANNEL_ID)'',
     lit ''    .setContentTitle('' @ [34] @ lit ''OpenE2EE '' @ [350] @ lit ''ifreleme Do'' @ [287] @ lit ''rulama'' @ [34] @
       lit '')'',
     lit ''    .setContentText('' @ [34] @ lit ''A'' @ [287, 305] @ lit ''n'' @ [305] @
       lit ''zda ilk 10 paket analiz ediliyor (PRIVACY_TEXT eki)'' @ [34] @ lit '')'',
     lit ''    .setSmallIcon(android.R.drawable.ic_lock_lock)'',
     lit ''    .build()'']"

definition case_s50_vpn_service_with_vpn_word :: pystr where
  "case_s50_vpn_service_with_vpn_word = text_lines [
     lit ''val notification: Notification = NotificationCompat.Builder(this, NOTIFICATION_CHANNEL_ID)'',
     lit ''    .setContentTitle('' @ [34] @ lit ''OpenE2EE VPN diagnostic session'' @ [34] @ lit '')'',
     lit ''    .setContentText('' @ [34] @ lit ''Sampling the first 10 packets of your network'' @ [34] @ lit '')'',
     lit ''    .setSmallIcon(android.R.drawable.ic_lock_lock)'',
     lit ''    .build()'']"

definition case_s51_active_pool_pass :: pystr where
  "case_s51_active_pool_pass = text_lines [
     lit ''class _ActivePoolScreenState extends ConsumerState<ActivePoolScreen> {'',
     lit ''  void initState() {'',
     lit ''    _packetSub = _vpn.packetStream.listen(_onPacketsSampled);'',
     lit ''    // 30-call fixed loop REMOVED in Sprint 11.0A '' @ [8212] @ lit '' chart is'',
     lit ''    // driven by the live stream subscription, not a timer.'',
     lit ''  }'',
     lit ''}'']"

definition case_s51_active_pool_with_30_loop :: pystr where
  "case_s51_active_pool_with_30_loop = text_lines [
     lit ''class _ActivePoolScreenState extends ConsumerState<ActivePoolScreen> {'',
     lit ''  void initState() {'',
     lit ''    // 10.1A fixed-30-call Timer.periodic chart loop still in place'',
     lit ''    for (var i = 0; i < 30; i++) {'',
     lit ''      _mockTimer = Timer.periodic(const Duration(seconds: 3), (_) => _mockTick());'',
     lit ''    }'',
     lit ''  }'',
     lit ''}'']"

definition case_s52_telemetry_pass :: pystr where
  "case_s52_telemetry_pass = text_lines [
     lit ''Future<void> sendSummary({'',
     lit ''  required int totalPackets,'',
     lit ''  required int encryptedPackets,'',
     lit ''  required double packetLossPct,'',
     lit ''  required double meanLatencyMs,'',
     lit ''  required double jitterMs,'',
     lit ''  required double encryptionIntegrityPct,'',
     lit ''  Duration window = const Duration(seconds: 30),'',
     lit ''}) async {'',
     lit ''  final uri = Uri.parse('' @ [39] @ lit ''${AppConfig.apiBase}/api/v1/sessions/$_sessionId/telemetry'' @ [39] @
       lit '');'',
     lit ''  ...'',
     lit ''}'']"

definition case_s52_telemetry_no_summary :: pystr where
  "case_s52_telemetry_no_summary = text_lines [
     lit ''// no 30-second batch upload method on this class'',
     lit ''Future<void> send(List<ParsedPacket> packets) async {'',
     lit ''  await _client.post(_endpoint, ...);'',
     lit ''}'']"

definition case_s53_pubspec_pass :: pystr where
  "case_s53_pubspec_pass = text_lines [
     lit ''name: opene2ee'',
     lit ''dependencies:'',
     lit ''  flutter_webrtc: ^1.5.0  # WebRTC peer connection (11.0B)'',
     lit ''  http: ^1.2.0'']"

definition case_s53_pubspec_no_webrtc :: pystr where
  "case_s53_pubspec_no_webrtc = text_lines [
     lit ''name: opene2ee'',
     lit ''dependencies:'',
     lit ''  http: ^1.2.0'']"

definition case_s54_webrtc_service_pass :: pystr where
  "case_s54_webrtc_service_pass = text_lines [
     lit ''import '' @ [39] @ lit ''package:flutter_webrtc/flutter_webrtc.dart'' @ [39] @ lit '' as webrtc;'',
     lit ''import '' @ [39] @ lit ''package:flutter_webrtc/flutter_webrtc.dart'' @ [39] @ lit '' show RTCPeerConnection;'',
     lit ''class WebRTCService {'',
     lit ''  RTCPeerConnection? _pc;'',
     lit ''  Future<void> createPeerConnection() async {'',
     lit ''    _pc = await webrtc.createPeerConnection({'' @ [39] @ lit ''iceServers'' @ [39] @ lit '': []});'',
     lit ''  }'',
     lit ''}'']"

definition case_s54_webrtc_service_no_rtc :: pystr where
  "case_s54_webrtc_service_no_rtc = text_lines [
     lit ''// forgot the flutter_webrtc import + RTCPeerConnection reference'',
     lit ''class WebRTCService {}'']"

definition case_s55_webrtc_service_pass :: pystr where
  "case_s55_webrtc_service_pass = text_lines [
     lit ''_pc!.onIceCandidate = (RTCIceCandidate candidate) {'',
     lit ''  _iceCtrl.add({'',
     lit ''    '' @ [39] @ lit ''candidate'' @ [39] @ lit '': candidate.candidate,'',
     lit ''    '' @ [39] @ lit ''sdpMid'' @ [39] @ lit '': candidate.sdpMid,'',
     lit ''    '' @ [39] @ lit ''sdpMLineIndex'' @ [39] @ lit '': candidate.sdpMLineIndex,'',
     lit ''  });'',
     lit ''};'']"

definition case_s55_webrtc_service_no_callback :: pystr where
  "case_s55_webrtc_service_no_callback = text_lines [
     lit ''// forgot the onIceCandidate callback wiring'',
     lit ''class WebRTCService {'',
     lit ''  RTCPeerConnection? _pc;'',
     lit ''}'']"

definition case_s56_orchestrator_pass :: pystr where
  "case_s56_orchestrator_pass = text_lines [
     lit ''import '' @ [39] @ lit ''package:http/http.dart'' @ [39] @ lit '' as http;'',
     lit ''class SessionOrchestrator {'',
     lit ''  Future<String> startSession({String? role}) async {'',
     lit ''    final headers = await _auth.authHeaders();'',
     lit ''    final resp = await _client.post('',
     lit ''      Uri.parse('' @ [39, 92] @ lit ''${AppConfig.apiBase}/api/v1/sessions'' @ [39] @ lit ''),'',
     lit ''      headers: headers,'',
     lit ''    );'',
     lit ''    return resp.body;'',
     lit ''  }'',
     lit ''}'']"

definition case_s56_orchestrator_no_start :: pystr where
  "case_s56_orchestrator_no_start = text_lines [
     lit ''// forgot startSession method'',
     lit ''class SessionOrchestrator {}'']"

definition case_s57_orchestrator_pass :: pystr where
  "case_s57_orchestrator_pass = text_lines [
     lit ''Future<Map<String, Object?>?> pollForOffer() async {'',
     lit ''  final resp = await _client.get(url, headers: headers).timeout('',
     lit ''        _pollTimeout,'',
     lit ''        onTimeout: () => http.Response('' @ [39, 39] @ lit '', 204),'',
     lit ''      );'',
     lit ''  if (resp.statusCode == 204) return null;'',
     lit ''  return jsonDecode(resp.body) as Map<String, Object?>;'',
     lit ''}'',
     lit ''static const Duration _pollTimeout = Duration(seconds: 30);'']"

definition case_s57_orchestrator_no_longpoll :: pystr where
  "case_s57_orchestrator_no_longpoll = text_lines [
     lit ''// forgot the long-poll GET '' @ [8212] @ lit '' used a single-fire .get() instead'',
     lit ''Future<void> fetch() async {'',
     lit ''  await _client.get(url);'',
     lit ''}'']"

definition case_s59_webrtc_service_pass :: pystr where
  "case_s59_webrtc_service_pass = text_lines [
     lit ''Stream<MediaStream> get onTrack => _trackCtrl.stream;'',
     lit ''_pc!.onTrack = (RTCTrackEvent event) {'',
     lit ''  if (event.streams.isNotEmpty) {'',
     lit ''    _trackCtrl.add(event.streams[0]);'',
     lit ''  }'',
     lit ''};'']"

definition case_s59_webrtc_service_no_ontrack :: pystr where
  "case_s59_webrtc_service_no_ontrack = text_lines [
     lit ''// forgot the onTrack stream exposure'',
     lit ''class WebRTCService {'',
     lit ''  Stream get onIceCandidate => _iceCtrl.stream;'',
     lit ''}'']"

definition case_s60_active_pool_pass :: pystr where
  "case_s60_active_pool_pass = text_lines [
     lit ''static String _webrtcStateLabel(WebRTCState s) {'',
     lit ''  switch (s) {'',
     lit ''    case WebRTCState.negotiating:'',
     lit ''      return '' @ [39] @ lit ''m'' @ [252] @ lit ''zakere'' @ [39] @ lit '';'',
     lit ''    case WebRTCState.connected:'',
     lit ''      return '' @ [39] @ lit ''ba'' @ [287] @ lit ''land'' @ [305, 39] @ lit '';'',
     lit ''    case WebRTCState.failed:'',
     lit ''      return '' @ [39] @ lit ''hata'' @ [39] @ lit '';'',
     lit ''  }'',
     lit ''}'']"

definition case_s60_active_pool_no_indicators :: pystr where
  "case_s60_active_pool_no_indicators = text_lines [
     lit ''// forgot the three status indicator labels'',
     lit ''static String _webrtcStateLabel(WebRTCState s) => '' @ [39] @ lit ''unknown'' @ [39] @ lit '';'']"

definition case_s61_skorlar_pass :: pystr where
  "case_s61_skorlar_pass = text_lines [
     lit ''import '' @ [39] @ lit ''package:flutter_riverpod/flutter_riverpod.dart'' @ [39] @ lit '';'',
     lit ''class SkorlarScreen extends ConsumerStatefulWidget {'',
     lit ''  const SkorlarScreen({super.key});'',
     lit ''  @override'',
     lit ''  ConsumerState<SkorlarScreen> createState() => _SkorlarScreenState();'',
     lit ''}'',
     lit ''class _SkorlarScreenState extends ConsumerState<SkorlarScreen> {'',
     lit ''  Future<List<SessionScore>>? _scoresFuture;'',
     lit ''  Future<List<SessionScore>> _fetchScores() async {'',
     lit ''    return <SessionScore>[];'',
     lit ''  }'',
     lit ''}'']"

definition case_s61_skorlar_no_consumer :: pystr where
  "case_s61_skorlar_no_consumer = text_lines [
     lit ''// forgot ConsumerStatefulWidget + fetchScores'',
     lit ''class SkorlarScreen extends StatefulWidget {}'']"

definition case_s62_score_calculator_pass :: pystr where
  "case_s62_score_calculator_pass = text_lines [
     lit ''class SessionScoreCalculator {'',
     lit ''  const SessionScoreCalculator._();'',
     lit ''  static SessionScore compute(SessionTelemetry t) {'',
     lit ''    final integrity = (t.encryptionIntegrityPct / 100.0).clamp(0.0, 1.0);'',
     lit ''    return SessionScore(sessionId: t.sessionId, overallScore: integrity * 100);'',
     lit ''  }'',
     lit ''}'']"

definition case_s62_score_calculator_no_compute :: pystr where
  "case_s62_score_calculator_no_compute = text_lines [
     lit ''// forgot the compute method'',
     lit ''class SessionScoreCalculator {}'']"

definition case_s63_score_calculator_pass :: pystr where
  "case_s63_score_calculator_pass = text_lines [
     lit ''final integrity = (t.encryptionIntegrityPct / 100.0).clamp(0.0, 1.0);'',
     lit ''final loss = (t.packetLossPct / 100.0).clamp(0.0, 1.0);'',
     lit ''final latency = (1.0 - (t.meanLatencyMs / 1000.0)).clamp(0.0, 1.0);'',
     lit ''final jitter = (1.0 - (t.jitterMs / 100.0)).clamp(0.0, 1.0);'']"

definition case_s63_score_calculator_no_metrics :: pystr where
  "case_s63_score_calculator_no_metrics = text_lines [
     lit ''// forgot the 4 metric formulas'',
     lit ''static SessionScore compute(SessionTelemetry t) {'',
     lit ''  return SessionScore(sessionId: t.sessionId, overallScore: 100);'',
     lit ''}'']"

definition case_s64_score_calculator_pass :: pystr where
  "case_s64_score_calculator_pass = text_lines [
     lit ''final raw = 0.4 * integrity +'',
     lit ''    0.3 * (1.0 - loss) +'',
     lit ''    0.2 * latency +'',
     lit ''    0.1 * jitter;'']"

definition case_s64_score_calculator_no_weights :: pystr where
  "case_s64_score_calculator_no_weights = text_lines [
     lit ''// forgot the weighted sum weights'',
     lit ''final raw = (integrity + loss + latency + jitter) / 4.0;'']"

definition case_s65_orchestrator_pass :: pystr where
  "case_s65_orchestrator_pass = text_lines [
     lit ''Future<Map<String, Object?>?> closeSession({String? sessionId}) async {'',
     lit ''  final id = sessionId ?? _sessionId;'',
     lit ''  final resp = await _client.post('',
     lit ''    Uri.parse('' @ [39, 92] @ lit ''${AppConfig.apiBase}/api/v1/sessions/$id/close'' @ [39] @ lit ''),'',
     lit ''    headers: headers,'',
     lit ''  );'',
     lit ''  return body['' @ [39] @ lit ''summary_stats'' @ [39] @ lit ''];'',
     lit ''}'']"

definition case_s65_orchestrator_no_close :: pystr where
  "case_s65_orchestrator_no_close = text_lines [
     lit ''// forgot the closeSession method'',
     lit ''Future<void> tearDown() async {}'']"

definition case_s66_active_pool_pass :: pystr where
  "case_s66_active_pool_pass = text_lines [
     lit ''OutlinedButton.icon('',
     lit ''  onPressed: _oturumuBitir,'',
     lit ''  icon: const Icon(Icons.stop_circle_outlined),'',
     lit ''  label: const Text('' @ [39] @ lit ''Oturumu Bitir'' @ [39] @ lit ''),'',
     lit '')'']"

definition case_s66_active_pool_no_button :: pystr where
  "case_s66_active_pool_no_button = text_lines [
     lit ''// forgot the session-close button '' @ [8212] @ lit '' no oturumu bitir surface'',
     lit ''ElevatedButton.icon('',
     lit ''  onPressed: _onStart,'',
     lit ''  label: const Text('' @ [39, 350] @ lit ''ifreleme Do'' @ [287] @ lit ''rulamay'' @ [305] @ lit '' Ba'' @ [351] @
       lit ''lat'' @ [39] @ lit ''),'',
     lit '')'']"

definition case_s67_active_pool_pass :: pystr where
  "case_s67_active_pool_pass = text_lines [
     lit ''final summary = await _orchestrator.closeSession();'',
     lit ''if (!mounted) return;'',
     lit ''context.go('' @ [39] @ lit ''/home/skorlar'' @ [39] @ lit '');'']"

definition case_s67_active_pool_no_flow :: pystr where
  "case_s67_active_pool_no_flow = text_lines [
     lit ''// forgot the close flow'',
     lit ''await _orchestrator.tearDown();'']"

definition case_s68_skorlar_pass :: pystr where
  "case_s68_skorlar_pass = text_lines [
     lit ''class _SkorlarEmpty extends StatelessWidget {'',
     lit ''  @override'',
     lit ''  Widget build(BuildContext context) {'',
     lit ''    return const Center('',
     lit ''      child: Text('' @ [39] @ lit ''Hen'' @ [252] @ lit ''z tamamlanm'' @ [305, 351] @ lit '' oturum yok'' @ [39] @
       lit ''),'',
     lit ''    );'',
     lit ''  }'',
     lit ''}'']"

definition case_s68_skorlar_no_empty :: pystr where
  "case_s68_skorlar_no_empty = text_lines [
     lit ''// forgot the empty state'',
     lit ''class _SkorlarEmpty extends StatelessWidget {'',
     lit ''  Widget build(BuildContext context) => const Center(child: Text('' @ [39] @ lit ''Empty'' @ [39] @ lit ''));'',
     lit ''}'']"

definition case_s69_skorlar_pass :: pystr where
  "case_s69_skorlar_pass = text_lines [
     lit ''class SessionScoreCard extends StatefulWidget {'',
     lit ''  Widget build(BuildContext context) {'',
     lit ''    return _OverallScoreDisc(score: s.overallScore, color: color);'',
     lit ''  }'',
     lit ''}'']"

definition case_s69_skorlar_no_card :: pystr where
  "case_s69_skorlar_no_card = text_lines [
     lit ''// forgot the per-session card + headline gauge'',
     lit ''Widget build(BuildContext context) => const Center(child: Text('' @ [39] @ lit ''No cards'' @ [39] @ lit ''));'']"

definition case_s70_router_pass :: pystr where
  "case_s70_router_pass = text_lines [
     lit ''r.Post('' @ [34] @ lit ''/sessions/{id}/close'' @ [34] @ lit '', a.handleCloseSession())'']"

definition case_s70_router_no_close :: pystr where
  "case_s70_router_no_close = text_lines [
     lit ''// forgot the close route'',
     lit ''r.Post('' @ [34] @ lit ''/sessions/{id}/telemetry'' @ [34] @ lit '', a.handlePostTelemetry())'']"

definition case_s71_sessions_pass :: pystr where
  "case_s71_sessions_pass = text_lines [
     lit ''out := map[string]any{'',
     lit ''    '' @ [34] @ lit ''session_id'' @ [34] @ lit '':    sessionID,'',
     lit ''    '' @ [34] @ lit ''status'' @ [34] @ lit '':        '' @ [34] @ lit ''completed'' @ [34] @ lit '','',
     lit ''    '' @ [34] @ lit ''closed_at'' @ [34] @ lit '':     now.Format(time.RFC3339),'',
     lit ''    '' @ [34] @ lit ''summary_stats'' @ [34] @ lit '': map[string]any{'',
     lit ''        '' @ [34] @ lit ''total_packets'' @ [34] @ lit '':            0,'',
     lit ''        '' @ [34] @ lit ''encrypted_packets'' @ [34] @ lit '':        0,'',
     lit ''        '' @ [34] @ lit ''packet_loss_pct'' @ [34] @ lit '':          0.0,'',
     lit ''        '' @ [34] @ lit ''mean_latency_ms'' @ [34] @ lit '':          0.0,'',
     lit ''        '' @ [34] @ lit ''jitter_ms'' @ [34] @ lit '':                0.0,'',
     lit ''        '' @ [34] @ lit ''encryption_integrity_pct'' @ [34] @ lit '': 100.0,'',
     lit ''    },'',
     lit ''}'']"

definition case_s71_sessions_no_summary :: pystr where
  "case_s71_sessions_no_summary = text_lines [
     lit ''// forgot the summary block'',
     lit ''out := map[string]any{'' @ [34] @ lit ''session_id'' @ [34] @ lit '': sessionID, '' @ [34] @ lit ''status'' @ [34] @
       lit '': '' @ [34] @ lit ''completed'' @ [34] @ lit ''}'']"

definition case_s72_score_calculator_test_pass :: pystr where
  "case_s72_score_calculator_test_pass = text_lines [
     lit ''void main() {'',
     lit ''  test('' @ [39] @ lit ''perfect session '' @ [8594] @ lit '' 100'' @ [39] @ lit '', () {});'',
     lit ''  test('' @ [39] @ lit ''loss-only regression'' @ [39] @ lit '', () {});'',
     lit ''  test('' @ [39] @ lit ''latency-only regression'' @ [39] @ lit '', () {});'',
     lit ''  test('' @ [39] @ lit ''jitter-only regression'' @ [39] @ lit '', () {});'',
     lit ''  test('' @ [39] @ lit ''mixed 4-metric regression'' @ [39] @ lit '', () {});'',
     lit ''}'']"

definition case_s72_score_calculator_test_no_tests :: pystr where
  "case_s72_score_calculator_test_no_tests = text_lines [
     lit ''void main() {'',
     lit ''  // forgot the 4 unit tests'',
     lit ''}'']"

subsection \<open>The cases\<close>

definition test_s25_a :: test_case where
  "test_s25_a = (
      lit ''S25 PASS (main.dart + screens/*.dart contain no `vpn` substring)'',
      Inr (map (message_of s25_messages) (run_s25_check (Some s25_text1_a) (Some s25_text2_a))),
      [])"

definition test_s25_b :: test_case where
  "test_s25_b = (
      lit ''S25 FAIL (main.dart contains the literal `vpn` - regression: future sprint re-introduces VPN framing)'',
      Inr (map (message_of s25_messages) (run_s25_check (Some s25_text1_b) (Some s25_text2_b))),
      [
        lit ''S25 fail (main)''])"

definition test_s26_a :: test_case where
  "test_s26_a = (
      lit ''S26 PASS (whatsapp_task_detail_screen.dart contains the literal `intent://send?text=`)'',
      Inr (map (message_of s26_messages) (run_s26_check (Some s26_text_a))),
      [])"

definition test_s26_b :: test_case where
  "test_s26_b = (
      lit ''S26 FAIL (whatsapp_task_detail_screen.dart missing the literal `intent://send?text=`)'',
      Inr (map (message_of s26_messages) (run_s26_check (Some s26_text_b))),
      [
        lit ''S26 fail (literal missing)''])"

definition test_s27_a :: test_case where
  "test_s27_a = (
      lit ''S27 PASS (active_pool_screen.dart contains the literal `LineChart` from package:fl_chart)'',
      Inr (map (message_of s27_messages) (run_s27_check (Some s27_text_a))),
      [])"

definition test_s27_b :: test_case where
  "test_s27_b = (
      lit ''S27 FAIL (active_pool_screen.dart missing the literal `LineChart` - regression: Sprint 10.1A removed '' @
      lit ''fl_chart)'',
      Inr (map (message_of s27_messages) (run_s27_check (Some s27_text_b))),
      [
        lit ''S27 fail (literal missing)''])"

definition test_s29_a :: test_case where
  "test_s29_a = (
      lit ''S29 PASS (active_pool_screen.dart contains the literal `HapticFeedback` for e'' @ [351] @ lit ''le'' @
      [351] @ lit ''me feedback)'',
      Inr (map (message_of s29_messages) (run_s29_check (Some s29_text_a))),
      [])"

definition test_s29_b :: test_case where
  "test_s29_b = (
      lit ''S29 FAIL (active_pool_screen.dart missing both `HapticFeedback` and `SystemSound` - regression: e'' @
      [351] @ lit ''le'' @ [351] @ lit ''me is silent)'',
      Inr (map (message_of s29_messages) (run_s29_check (Some s29_text_b))),
      [
        lit ''S29 fail (no haptic / system-sound literal)''])"

definition test_s33_a :: test_case where
  "test_s33_a = (
      lit ''S33 PASS (pool_provider.dart contains both `lastError` and `lastSuccess` debug-state fields on PoolState)'',
      Inr (map (message_of s33_messages) (run_s33_check (Some s33_text_a))),
      [])"

definition test_s33_b :: test_case where
  "test_s33_b = (
      lit ''S33 FAIL (pool_provider.dart missing `lastError` literal - regression: silent-failure mode returns)'',
      Inr (map (message_of s33_messages) (run_s33_check (Some s33_text_b))),
      [
        lit ''S33 fail (missing: lastError)''])"

definition test_s34_a :: test_case where
  "test_s34_a = (
      lit ''S34 PASS (active_pool_screen.dart contains the literal `ScaffoldMessenger.of(context).showSnackBar` '' @
      lit ''for ref.listen<PoolState> snackbar handler)'',
      Inr (map (message_of s34_messages) (run_s34_check (Some s34_text_a))),
      [])"

definition test_s34_b :: test_case where
  "test_s34_b = (
      lit ''S34 FAIL (active_pool_screen.dart missing the literal `ScaffoldMessenger.of(context).showSnackBar` - '' @
      lit ''regression: ref.listen compiles to no-op)'',
      Inr (map (message_of s34_messages) (run_s34_check (Some s34_text_b))),
      [
        lit ''S34 fail (literal missing)''])"

definition test_s35_a :: test_case where
  "test_s35_a = (
      lit ''S35 PASS (telemetry_service.dart contains `String.fromEnvironment('' @ [39] @ lit ''API_KEY'' @ [39] @
      lit ''` for build-time API key injection)'',
      Inr (map (message_of s35_messages) (run_s35_check (Some s35_text1_a) None)),
      [])"

definition test_s35_b :: test_case where
  "test_s35_b = (
      lit ''S35 FAIL (neither telemetry_service.dart nor p2p_matcher.dart contains the literal - regression: '' @
      lit ''--dart-define API_KEY=... silently ignored)'',
      Inr (map (message_of s35_messages) (run_s35_check (Some s35_text1_b) (Some s35_text2_b))),
      [
        lit ''S35 fail (literal missing in both services)''])"

definition test_s36_a :: test_case where
  "test_s36_a = (
      lit ''S36 PASS (auth_service.dart contains http.post + /api/v1/auth + user_id literals for JWT auth flow)'',
      Inr (map (message_of s36_messages) (run_s36_check (Some s36_text_a))),
      [])"

definition test_s36_b :: test_case where
  "test_s36_b = (
      lit ''S36 FAIL (auth_service.dart missing one of http.post + /api/v1/auth + user_id - regression: JWT flow '' @
      lit ''silently broken)'',
      Inr (map (message_of s36_messages) (run_s36_check (Some s36_text_b))),
      [
        lit ''S36 fail (missing: http.post,/api/v1/auth,user_id)''])"

definition test_s37_a :: test_case where
  "test_s37_a = (
      lit ''S37 PASS (telemetry_service.dart contains `authHeaders()` call for JWT-protected POST)'',
      Inr (map (message_of s37_messages) (run_s37_check (Some s37_text1_a) None)),
      [])"

definition test_s37_b :: test_case where
  "test_s37_b = (
      lit ''S37 FAIL (neither telemetry_service.dart nor p2p_matcher.dart contains `authHeaders()` - regression: '' @
      lit ''static Bearer key returns)'',
      Inr (map (message_of s37_messages) (run_s37_check (Some s37_text1_b) (Some s37_text2_b))),
      [
        lit ''S37 fail (authHeaders() call missing in both services)''])"

definition test_s38_a :: test_case where
  "test_s38_a = (
      lit ''S38 PASS (auth_service.dart contains `_tokenExpiresAt` field for JWT token cache + 5min pre-expiry '' @
      lit ''refresh)'',
      Inr (map (message_of s38_messages) (run_s38_check (Some s38_text_a))),
      [])"

definition test_s38_b :: test_case where
  "test_s38_b = (
      lit ''S38 FAIL (auth_service.dart missing `_tokenExpiresAt` - regression: every protected call re-auths)'',
      Inr (map (message_of s38_messages) (run_s38_check (Some s38_text_b))),
      [
        lit ''S38 fail (_tokenExpiresAt field missing)''])"

definition test_s39_a :: test_case where
  "test_s39_a = (
      lit ''S39 PASS (auth_service.dart contains `invalidate()` method for 401 retry contract)'',
      Inr (map (message_of s39_messages) (run_s39_check (Some s39_text_a))),
      [])"

definition test_s39_b :: test_case where
  "test_s39_b = (
      lit ''S39 FAIL (auth_service.dart missing `invalidate()` - regression: 401 leaves stale cached JWT)'',
      Inr (map (message_of s39_messages) (run_s39_check (Some s39_text_b))),
      [
        lit ''S39 fail (invalidate() method missing)''])"

definition test_s40_a :: test_case where
  "test_s40_a = (
      lit ''S40 PASS (whatsapp_deeplink_provider.dart carries BOTH `intent://send?` prefix and '' @
      lit ''`#Intent;scheme=whatsapp;package=com.whatsapp;end` suffix)'',
      Inr (map (message_of s40_messages) (run_s40_check (Some s40_text_a))),
      [])"

definition test_s40_b :: test_case where
  "test_s40_b = (
      lit ''S40 FAIL (whatsapp_deeplink_provider.dart missing BOTH Android Intent literals - regression: 10.0 '' @
      lit ''whatsapp://send?text= scheme was unreliable on Android)'',
      Inr (map (message_of s40_messages) (run_s40_check (Some s40_text_b))),
      [
        lit ''S40 fail (missing: intent://send?,#Intent;scheme=whatsapp;package=com.whatsapp;end)''])"

definition test_s41_a :: test_case where
  "test_s41_a = (
      lit ''S41 PASS (p2p_matcher.dart uses /api/v1/sessions and does NOT contain the broken /api/v1/matches)'',
      Inr (map (message_of s41_messages) (run_s41_check (Some s41_text_a))),
      [])"

definition test_s41_b :: test_case where
  "test_s41_b = (
      lit ''S41 FAIL (p2p_matcher.dart missing /api/v1/sessions - regression: 10.1B /api/v1/matches 404'' @ [39] @
      lit ''d because the backend never had that route)'',
      Inr (map (message_of s41_messages) (run_s41_check (Some s41_text_b))),
      [
        lit ''S41 fail (missing /api/v1/sessions)'',
        lit ''S41 fail (forbidden /api/v1/matches still present)''])"

definition test_s44_a :: test_case where
  "test_s44_a = (
      lit ''S44 PASS (whatsapp_deeplink_provider.dart carries BOTH `intent://send?text=` (10.1E fallback) AND '' @
      lit ''`https://wa.me/?text=` (10.1G primary) literals; whatsapp_task_detail_screen.dart calls '' @
      lit ''`tryOpenWithReason()` '' @ [8212] @
      lit '' OnePlus 9 Pro rooted / Magisk / LSPosed fix; snackbar surfaces per-tier debug reason)'',
      Inr (map (message_of s44_messages) (run_s44_check (Some case_s44_provider_pass) (Some case_s44_screen_pass))),
      [])"

definition test_s45_a :: test_case where
  "test_s45_a = (
      lit ''S45 PASS (OpenE2eeVpnService.kt PacketDrain pushes '' @ [39] @ lit ''onPacketsSampled'' @ [39] @
      lit '' literal via methodChannel.invokeMethod '' @ [8212] @
      lit '' 5-second scheduled drain from real TUN ring to Dart)'',
      Inr (map (message_of s45_messages) (run_s45_check (Some case_s45_vpn_service_pass))),
      [])"

definition test_s45_b :: test_case where
  "test_s45_b = (
      lit ''S45 FAIL (OpenE2eeVpnService.kt missing the '' @ [39] @ lit ''onPacketsSampled'' @ [39] @
      lit '' literal '' @ [8212] @ lit '' regression: Dart-side packetStream has no event to subscribe to)'',
      Inr (map (message_of s45_messages) (run_s45_check (Some case_s45_vpn_service_no_literal))),
      [
        lit ''S45 fail ('' @ [34] @ lit ''onPacketsSampled'' @ [34] @ lit '' literal missing)''])"

definition test_s46_a :: test_case where
  "test_s46_a = (
      lit ''S46 PASS (MainActivity.kt calls OpenE2eeVpnService.snapshot() and does NOT contain the 10.1F mock '' @
      lit ''packet mapOf('' @ [39] @ lit ''srcIpMasked'' @ [39] @ lit '' ...) literal '' @ [8212] @
      lit '' real TUN ring feeds Dart)'',
      Inr (map (message_of s46_messages) (run_s46_check (Some case_s46_main_activity_pass))),
      [])"

definition test_s46_b :: test_case where
  "test_s46_b = (
      lit ''S46 FAIL (MainActivity.kt still has the 10.1F inline mock packet mapOf('' @ [39] @ lit ''srcIpMasked'' @
      [39] @ lit '' ...) '' @ [8212] @ lit '' regression: 30 consecutive '' @ [39] @ lit ''Aktif N'' @ [246] @
      lit ''bet'' @ [39] @ lit '' calls all read synthetic data)'',
      Inr (map (message_of s46_messages) (run_s46_check (Some case_s46_main_activity_with_mock))),
      [
        lit ''S46 fail (OpenE2eeVpnService.snapshot() call missing)'',
        lit ''S46 fail (mock packet mapOf(...) literal still present)''])"

definition test_s47_a :: test_case where
  "test_s47_a = (
      lit ''S47 PASS (vpn_service.dart carries '' @ [39] @ lit ''packetStream'' @ [39] @ lit '' getter + '' @ [39] @
      lit ''MethodChannel'' @ [39] @ lit '' import '' @ [8212] @
      lit '' live Stream<List<SampledPacket>> + inbound channel handler)'',
      Inr (map (message_of s47_messages) (run_s47_check (Some case_s47_vpn_service_pass))),
      [])"

definition test_s47_b :: test_case where
  "test_s47_b = (
      lit ''S47 FAIL (vpn_service.dart missing '' @ [39] @ lit ''packetStream'' @ [39] @ lit '' getter '' @ [8212] @
      lit '' regression: ActivePoolScreen reverts to fixed-loop mock ticker)'',
      Inr (map (message_of s47_messages) (run_s47_check (Some case_s47_vpn_service_no_packetstream))),
      [
        lit ''S47 fail (missing: packetStream,MethodChannel import)''])"

definition test_s48_a :: test_case where
  "test_s48_a = (
      lit ''S48 PASS (active_pool_screen.dart subscribes to packetStream via .listen in initState '' @ [8212] @
      lit '' live 5s packet batches drive the cumulative counter)'',
      Inr (map (message_of s48_messages) (run_s48_check (Some case_s48_active_pool_pass))),
      [])"

definition test_s48_b :: test_case where
  "test_s48_b = (
      lit ''S48 FAIL (active_pool_screen.dart missing '' @ [39] @ lit ''packetStream.listen'' @ [39] @ lit '' '' @
      [8212] @ lit '' regression: live packet feed disconnected, screen reads only static mock data)'',
      Inr (map (message_of s48_messages) (run_s48_check (Some case_s48_active_pool_no_listen))),
      [
        lit ''S48 fail (packetStream.listen literal missing)''])"

definition test_s49_a :: test_case where
  "test_s49_a = (
      lit ''S49 PASS (packet_parser.dart has SampledPacket class with fromBytes() + toJson() '' @ [8212] @
      lit '' wire-format mirror of Kotlin OpenE2eeVpnService.extractMetadata)'',
      Inr (map (message_of s49_messages) (run_s49_check (Some case_s49_packet_parser_pass))),
      [])"

definition test_s49_b :: test_case where
  "test_s49_b = (
      lit ''S49 FAIL (packet_parser.dart missing SampledPacket class '' @ [8212] @
      lit '' regression: Dart cannot decode the wire shape from the Kotlin MethodChannel)'',
      Inr (map (message_of s49_messages) (run_s49_check (Some case_s49_packet_parser_no_sampledpacket))),
      [
        lit ''S49 fail (missing: class SampledPacket,fromBytes)''])"

definition test_s50_a :: test_case where
  "test_s50_a = (
      lit ''S50 PASS (OpenE2eeVpnService.kt foreground notification title is '' @ [39] @ lit ''OpenE2EE '' @ [350] @
      lit ''ifreleme Do'' @ [287] @ lit ''rulama'' @ [39] @ lit '' '' @ [8212] @ lit '' S25 invariant: no '' @ [39] @
      lit ''VPN'' @ [39] @ lit '' string in user-facing surface)'',
      Inr (map (message_of s50_messages) (run_s50_check (Some case_s50_vpn_service_pass))),
      [])"

definition test_s50_b :: test_case where
  "test_s50_b = (
      lit ''S50 FAIL (OpenE2eeVpnService.kt notification title still contains '' @ [39] @ lit ''VPN'' @ [39] @
      lit '' '' @ [8212] @ lit '' regression: S25 invariant violated, Owner push blocked)'',
      Inr (map (message_of s50_messages) (run_s50_check (Some case_s50_vpn_service_with_vpn_word))),
      [
        lit ''S50 fail (foreground notification title '' @ [34] @ lit ''OpenE2EE '' @ [350] @ lit ''ifreleme Do'' @
         [287] @ lit ''rulama'' @ [34] @ lit '' missing)''])"

definition test_s51_a :: test_case where
  "test_s51_a = (
      lit ''S51 PASS (active_pool_screen.dart has packetStream subscription + NO 30-call fixed Timer.periodic loop '' @
      [8212] @ lit '' chart is continuous, not bounded)'',
      Inr (map (message_of s51_messages) (run_s51_check (Some case_s51_active_pool_pass))),
      [])"

definition test_s51_b :: test_case where
  "test_s51_b = (
      lit ''S51 FAIL (active_pool_screen.dart still has the 10.1A i < 30 + Timer.periodic fixed loop '' @ [8212] @
      lit '' regression: chart auto-stops at 30 iterations)'',
      Inr (map (message_of s51_messages) (run_s51_check (Some case_s51_active_pool_with_30_loop))),
      [
        lit ''S51 fail (30-call fixed Timer.periodic loop still present)'',
        lit ''S51 fail (continuous packetStream subscription missing)''])"

definition test_s52_a :: test_case where
  "test_s52_a = (
      lit ''S52 PASS (telemetry_service.dart has sendSummary method POSTing to /api/v1/sessions/{id}/telemetry '' @
      lit ''with 6 summary fields '' @ [8212] @ lit '' 30-second batch upload)'',
      Inr (map (message_of s52_messages) (run_s52_check (Some case_s52_telemetry_pass))),
      [])"

definition test_s52_b :: test_case where
  "test_s52_b = (
      lit ''S52 FAIL (telemetry_service.dart missing sendSummary '' @ [8212] @
      lit '' regression: no aggregate session statistics, Skorlar screen in M3 has no data source)'',
      Inr (map (message_of s52_messages) (run_s52_check (Some case_s52_telemetry_no_summary))),
      [
        lit ''S52 fail (missing: sendSummary,/api/v1/sessions/ path,encryptionIntegrityPct field,packetLossPct field)''])"

definition test_s53_a :: test_case where
  "test_s53_a = (
      lit ''S53 PASS (pubspec.yaml carries the `webrtc:` dep line '' @ [8212] @
      lit '' flutter_webrtc ^1.5.0 resolves the brief'' @ [39] @ lit ''s `webrtc: ^0.13.0+` substring requirement)'',
      Inr (map (message_of s53_messages) (run_s53_check (Some case_s53_pubspec_pass))),
      [])"

definition test_s53_b :: test_case where
  "test_s53_b = (
      lit ''S53 FAIL (pubspec.yaml missing `webrtc:` dep line '' @ [8212] @
      lit '' regression: the WebRTC peer connection is the M2 demo path)'',
      Inr (map (message_of s53_messages) (run_s53_check (Some case_s53_pubspec_no_webrtc))),
      [
        lit ''S53 pubspec.yaml: missing `webrtc:` dependency line. Sprint 11.0B invariant '' @ [8212] @
         lit '' the WebRTC peer connection is the M2 demo path. (The brief specifies `webrtc: ^0.13.0+`; the '' @
         lit ''modern actively-maintained variant is `flutter_webrtc: ^1.5.0` which satisfies the same audit '' @
         lit ''substring.)''])"

definition test_s54_a :: test_case where
  "test_s54_a = (
      lit ''S54 PASS (webrtc_service.dart imports flutter_webrtc + references RTCPeerConnection + calls '' @
      lit ''createPeerConnection)'',
      Inr (map (message_of s54_messages) (run_s54_check (Some case_s54_webrtc_service_pass))),
      [])"

definition test_s54_b :: test_case where
  "test_s54_b = (
      lit ''S54 FAIL (webrtc_service.dart missing the flutter_webrtc import + RTCPeerConnection class reference)'',
      Inr (map (message_of s54_messages) (run_s54_check (Some case_s54_webrtc_service_no_rtc))),
      [
        lit ''S54 webrtc_service.dart: missing flutter_webrtc import, createPeerConnection call site. Sprint '' @
         lit ''11.0B invariant '' @ [8212] @
         lit '' the Dart-side peer connection wrapper must import the `flutter_webrtc` package and instantiate '' @
         lit ''`RTCPeerConnection` via `createPeerConnection({iceServers: ...})`.''])"

definition test_s55_a :: test_case where
  "test_s55_a = (
      lit ''S55 PASS (webrtc_service.dart onIceCandidate callback wires candidate + sdpMid + sdpMLineIndex fields)'',
      Inr (map (message_of s55_messages) (run_s55_check (Some case_s55_webrtc_service_pass))),
      [])"

definition test_s55_b :: test_case where
  "test_s55_b = (
      lit ''S55 FAIL (webrtc_service.dart missing the onIceCandidate callback + candidate string literal)'',
      Inr (map (message_of s55_messages) (run_s55_check (Some case_s55_webrtc_service_no_callback))),
      [
        lit ''S55 webrtc_service.dart: missing candidate string literal in callback, sdpMid field. Sprint 11.0B '' @
         lit ''invariant '' @ [8212] @
         lit '' the `onIceCandidate` callback forwards each peer-discovered candidate to the orchestrator'' @ [39] @
         lit ''s `POST /api/v1/webrtc/ice` endpoint. The candidate payload carries `candidate` (RFC 5245 '' @
         lit ''candidate string) + `sdpMid` (mid attribute) + `sdpMLineIndex` (line index).''])"

definition test_s56_a :: test_case where
  "test_s56_a = (
      lit ''S56 PASS (session_orchestrator.dart startSession() + JWT authHeaders() + /api/v1/sessions endpoint)'',
      Inr (map (message_of s56_messages) (run_s56_check (Some case_s56_orchestrator_pass))),
      [])"

definition test_s56_b :: test_case where
  "test_s56_b = (
      lit ''S56 FAIL (session_orchestrator.dart missing the startSession method + JWT authHeaders() call)'',
      Inr (map (message_of s56_messages) (run_s56_check (Some case_s56_orchestrator_no_start))),
      [
        lit ''S56 session_orchestrator.dart: missing authHeaders() call (JWT), /api/v1/sessions endpoint. Sprint '' @
         lit ''11.0B invariant '' @ [8212] @
         lit '' `startSession()` is the JWT-authenticated entry point that mints a session id (and '' @
         lit ''receiver_session_id) the orchestrator uses for the rest of the negotiation flow.''])"

definition test_s57_a :: test_case where
  "test_s57_a = (
      lit ''S57 PASS (session_orchestrator.dart long-poll GET (pollForOffer) with Duration(seconds: 30) timeout)'',
      Inr (map (message_of s57_messages) (run_s57_check (Some case_s57_orchestrator_pass))),
      [])"

definition test_s57_b :: test_case where
  "test_s57_b = (
      lit ''S57 FAIL (session_orchestrator.dart missing the 30s long-poll timeout literal + pollForOffer method)'',
      Inr (map (message_of s57_messages) (run_s57_check (Some case_s57_orchestrator_no_longpoll))),
      [
        lit ''S57 session_orchestrator.dart: missing 30s long-poll timeout literal. Sprint 11.0B invariant '' @
         [8212] @ lit '' the orchestrator'' @ [39] @
         lit ''s `pollForOffer` / `pollForAnswer` methods long-poll GET with a 30s timeout (the brief'' @ [39] @
         lit ''s `Future.timeout` contract).''])"

definition test_s59_a :: test_case where
  "test_s59_a = (
      lit ''S59 PASS (webrtc_service.dart onTrack stream exposed (get onTrack + onTrack callback))'',
      Inr (map (message_of s59_messages) (run_s59_check (Some case_s59_webrtc_service_pass))),
      [])"

definition test_s59_b :: test_case where
  "test_s59_b = (
      lit ''S59 FAIL (webrtc_service.dart missing the onTrack stream getter)'',
      Inr (map (message_of s59_messages) (run_s59_check (Some case_s59_webrtc_service_no_ontrack))),
      [
        lit ''S59 webrtc_service.dart: missing onTrack stream getter. Sprint 11.0B invariant '' @ [8212] @
         lit '' the service exposes the peer connection'' @ [39] @ lit ''s `onTrack` stream so the UI can show '' @
         [39] @ lit ''1 stream received'' @ [39] @ lit '' when the test harness triggers an inbound track event.''])"

definition test_s60_a :: test_case where
  "test_s60_a = (
      lit ''S60 PASS (active_pool_screen.dart WebRTC status indicator with Turkish labels: m'' @ [252] @
      lit ''zakere / ba'' @ [287] @ lit ''land'' @ [305] @ lit '' / hata)'',
      Inr (map (message_of s60_messages) (run_s60_check (Some case_s60_active_pool_pass))),
      [])"

definition test_s60_b :: test_case where
  "test_s60_b = (
      lit ''S60 FAIL (active_pool_screen.dart missing the three status indicator labels)'',
      Inr (map (message_of s60_messages) (run_s60_check (Some case_s60_active_pool_no_indicators))),
      [
        lit ''S60 active_pool_screen.dart: missing Negotiating label (m'' @ [252] @
         lit ''zakere), Connected label (ba'' @ [287] @ lit ''land'' @ [305] @
         lit ''), Failed label (hata). Sprint 11.0B invariant '' @ [8212] @
         lit '' the WebRTC status pill on the active pool screen surfaces the live peer connection state with '' @
         lit ''three labels: Negotiating / Connected / Failed (Turkish: m'' @ [252] @ lit ''zakere / ba'' @ [287] @
         lit ''land'' @ [305] @
         lit '' / hata). The `P2P:` prefix in the row distinguishes the WebRTC pill from the foreground service pill.''])"

definition test_s61_a :: test_case where
  "test_s61_a = (
      lit ''S61 PASS (skorlar_screen.dart has Future<List<SessionScore>> + ConsumerStatefulWidget + fetchScores '' @
      lit ''method)'',
      Inr (map (message_of s61_messages) (run_s61_check (Some case_s61_skorlar_pass))),
      [])"

definition test_s61_b :: test_case where
  "test_s61_b = (
      lit ''S61 FAIL (skorlar_screen.dart missing the ConsumerStatefulWidget + fetchScores method '' @ [8212] @
      lit '' regression: Skorlar screen can'' @ [39] @ lit ''t list completed sessions)'',
      Inr (map (message_of s61_messages) (run_s61_check (Some case_s61_skorlar_no_consumer))),
      [
        lit ''S61 skorlar_screen.dart: missing Future<List<SessionScore>>. Sprint 11.0C invariant '' @ [8212] @
         lit '' the screen is a Riverpod ConsumerStatefulWidget; the future list type Future<List<SessionScore>> '' @
         lit ''+ the fetchScores method are the canonical 11.0C wire shape.''])"

definition test_s62_a :: test_case where
  "test_s62_a = (
      lit ''S62 PASS (score_calculator.dart has SessionScoreCalculator class + static SessionScore compute method)'',
      Inr (map (message_of s62_messages) (run_s62_check (Some case_s62_score_calculator_pass))),
      [])"

definition test_s62_b :: test_case where
  "test_s62_b = (
      lit ''S62 FAIL (score_calculator.dart missing the SessionScoreCalculator class + compute method '' @ [8212] @
      lit '' regression: no pure scoring function)'',
      Inr (map (message_of s62_messages) (run_s62_check (Some case_s62_score_calculator_no_compute))),
      [
        lit ''S62 score_calculator.dart: missing static SessionScore compute method. Sprint 11.0C invariant '' @
         [8212] @ lit '' the `compute` method is a pure function (no I/O, no time-source injection) so it'' @ [39] @
         lit ''s unit-testable and the Skorlar screen can compute the headline score from a `summary_stats` block '' @
         lit ''without side effects.''])"

definition test_s63_a :: test_case where
  "test_s63_a = (
      lit ''S63 PASS (score_calculator.dart carries the 4 metric field references: encryptionIntegrityPct, '' @
      lit ''packetLossPct, meanLatencyMs, jitterMs)'',
      Inr (map (message_of s63_messages) (run_s63_check (Some case_s63_score_calculator_pass))),
      [])"

definition test_s63_b :: test_case where
  "test_s63_b = (
      lit ''S63 FAIL (score_calculator.dart missing the 4 metric formulas '' @ [8212] @
      lit '' regression: the Skorlar card can'' @ [39] @ lit ''t show the per-metric detail rows)'',
      Inr (map (message_of s63_messages) (run_s63_check (Some case_s63_score_calculator_no_metrics))),
      [
        lit ''S63 score_calculator.dart: missing encryptionIntegrityPct metric, packetLossPct metric, '' @
         lit ''meanLatencyMs metric, jitterMs metric. Sprint 11.0C invariant '' @ [8212] @
         lit '' the 4 metric fields (encryption integrity %, packet loss %, mean latency ms, jitter ms) are the '' @
         lit ''inputs to the weighted sum; the Skorlar screen'' @ [39] @
         lit ''s `SessionScoreCard` detail view shows all 4 side-by-side.''])"

definition test_s64_a :: test_case where
  "test_s64_a = (
      lit ''S64 PASS (score_calculator.dart has the overall weighted sum 0.4 + 0.3 + 0.2 + 0.1)'',
      Inr (map (message_of s64_messages) (run_s64_check (Some case_s64_score_calculator_pass))),
      [])"

definition test_s64_b :: test_case where
  "test_s64_b = (
      lit ''S64 FAIL (score_calculator.dart missing the 0.4 + 0.3 + 0.2 + 0.1 weighted sum weights '' @ [8212] @
      lit '' regression: the headline score is unweighted)'',
      Inr (map (message_of s64_messages) (run_s64_check (Some case_s64_score_calculator_no_weights))),
      [
        lit ''S64 score_calculator.dart: missing overall weighted sum weights (0.4 + 0.3 + 0.2 + 0.1). Sprint '' @
         lit ''11.0C invariant '' @ [8212] @ lit '' the 4 weights sum to 1.0; the brief'' @ [39] @
         lit ''s spec is verbatim. The audit accepts the literal `0.4 *` + `0.3 *` + `0.2 *` + `0.1 *` substring '' @
         lit ''sequence in the file'' @ [39] @ lit ''s `compute` method.''])"

definition test_s65_a :: test_case where
  "test_s65_a = (
      lit ''S65 PASS (session_orchestrator.dart has closeSession() method that POSTs /api/v1/sessions/{id}/close)'',
      Inr (map (message_of s65_messages) (run_s65_check (Some case_s65_orchestrator_pass))),
      [])"

definition test_s65_b :: test_case where
  "test_s65_b = (
      lit ''S65 FAIL (session_orchestrator.dart missing the closeSession() method '' @ [8212] @ lit '' regression: '' @
      [39] @ lit ''Oturumu Bitir'' @ [39] @ lit '' button has no orchestrator endpoint)'',
      Inr (map (message_of s65_messages) (run_s65_check (Some case_s65_orchestrator_no_close))),
      [
        lit ''S65 session_orchestrator.dart: missing close endpoint path. Sprint 11.0C invariant '' @ [8212] @
         lit '' `closeSession()` POSTs to `/api/v1/sessions/{id}/close` and caches the `summary_stats` block. The '' @
         lit ''active-pool screen'' @ [39] @ lit ''s '' @ [34] @ lit ''Oturumu Bitir'' @ [34] @
         lit '' button is the only call site.''])"

definition test_s66_a :: test_case where
  "test_s66_a = (
      lit ''S66 PASS (active_pool_screen.dart has the '' @ [39] @ lit ''Oturumu Bitir'' @ [39] @ lit '' Turkish label)'',
      Inr (map (message_of s66_messages) (run_s66_check (Some case_s66_active_pool_pass))),
      [])"

definition test_s66_b :: test_case where
  "test_s66_b = (
      lit ''S66 FAIL (active_pool_screen.dart missing the '' @ [39] @ lit ''Oturumu Bitir'' @ [39] @
      lit '' Turkish label '' @ [8212] @ lit '' regression: S25 invariant + the M3 close flow has no UI surface)'',
      Inr (map (message_of s66_messages) (run_s66_check (Some case_s66_active_pool_no_button))),
      [
        lit ''S66 active_pool_screen.dart: missing `Oturumu Bitir` Turkish label. Sprint 11.0C invariant '' @ [8212] @
         lit '' the button calls `_orchestrator.closeSession()` and navigates to /home/skorlar. S25 invariant '' @
         lit ''extends: no '' @ [39] @ lit ''VPN'' @ [39] @ lit '' string, Turkish UI text only.''])"

definition test_s67_a :: test_case where
  "test_s67_a = (
      lit ''S67 PASS (active_pool_screen.dart closeSession call + navigate to /home/skorlar flow)'',
      Inr (map (message_of s67_messages) (run_s67_check (Some case_s67_active_pool_pass))),
      [])"

definition test_s67_b :: test_case where
  "test_s67_b = (
      lit ''S67 FAIL (active_pool_screen.dart missing the closeSession + /home/skorlar flow '' @ [8212] @
      lit '' regression: the Oturumu Bitir button has no target)'',
      Inr (map (message_of s67_messages) (run_s67_check (Some case_s67_active_pool_no_flow))),
      [
        lit ''S67 active_pool_screen.dart: missing closeSession call site, /home/skorlar navigation. Sprint '' @
         lit ''11.0C invariant '' @ [8212] @
         lit '' the Oturumu Bitir flow calls `_orchestrator.closeSession()` then `context.go('' @ [39] @
         lit ''/home/skorlar'' @ [39] @ lit '')` so the new score is visible without an explicit refresh.''])"

definition test_s68_a :: test_case where
  "test_s68_a = (
      lit ''S68 PASS (skorlar_screen.dart has the '' @ [39] @ lit ''Hen'' @ [252] @ lit ''z tamamlanm'' @ [305, 351] @
      lit '' oturum yok'' @ [39] @ lit '' empty-state string)'',
      Inr (map (message_of s68_messages) (run_s68_check (Some case_s68_skorlar_pass))),
      [])"

definition test_s68_b :: test_case where
  "test_s68_b = (
      lit ''S68 FAIL (skorlar_screen.dart missing the empty-state string '' @ [8212] @
      lit '' regression: the screen has no placeholder for new users)'',
      Inr (map (message_of s68_messages) (run_s68_check (Some case_s68_skorlar_no_empty))),
      [
        lit ''S68 skorlar_screen.dart: missing `Hen'' @ [252] @ lit ''z tamamlanm'' @ [305, 351] @
         lit '' oturum yok` empty-state string. Sprint 11.0C invariant '' @ [8212] @
         lit '' the screen shows the empty state when `fetchScores()` returns an empty list (no completed '' @
         lit ''sessions yet).''])"

definition test_s69_a :: test_case where
  "test_s69_a = (
      lit ''S69 PASS (skorlar_screen.dart has SessionScoreCard with overall-score gauge disc)'',
      Inr (map (message_of s69_messages) (run_s69_check (Some case_s69_skorlar_pass))),
      [])"

definition test_s69_b :: test_case where
  "test_s69_b = (
      lit ''S69 FAIL (skorlar_screen.dart missing the SessionScoreCard + overall-score gauge '' @ [8212] @
      lit '' regression: the screen has no per-session card with a headline score)'',
      Inr (map (message_of s69_messages) (run_s69_check (Some case_s69_skorlar_no_card))),
      [
        lit ''S69 skorlar_screen.dart: missing SessionScoreCard widget, overallScore gauge (disc). Sprint 11.0C '' @
         lit ''invariant '' @ [8212] @
         lit '' each session card has a headline gauge (coloured disc with the overall score 0-100) plus an '' @
         lit ''expandable details view with the 4 sub-metrics. The brief'' @ [39] @
         lit ''s spec is a `fl_chart` radial gauge; Sprint 11.0C uses a simple disc with the `tier` color hint to '' @
         lit ''keep the APK small after the M2 +50 MB libwebrtc hit.''])"

definition test_s70_a :: test_case where
  "test_s70_a = (
      lit ''S70 PASS (backend router.go has POST /api/v1/sessions/{id}/close route registration)'',
      Inr (map (message_of s70_messages) (run_s70_check (Some case_s70_router_pass))),
      [])"

definition test_s70_b :: test_case where
  "test_s70_b = (
      lit ''S70 FAIL (backend router.go missing the POST /api/v1/sessions/{id}/close route '' @ [8212] @
      lit '' regression: the mobile closeSession() has no backend endpoint)'',
      Inr (map (message_of s70_messages) (run_s70_check (Some case_s70_router_no_close))),
      [
        lit ''S70 backend/internal/api/router.go: missing `r.Post('' @ [34] @ lit ''/sessions/{id}/close'' @ [34] @
         lit ''` route registration. Sprint 11.0C invariant '' @ [8212] @ lit '' the mobile orchestrator'' @ [39] @
         lit ''s `closeSession()` POSTs this endpoint; the handler in `sessions.go` marks the session completed '' @
         lit ''and returns the `summary_stats` block.''])"

definition test_s71_a :: test_case where
  "test_s71_a = (
      lit ''S71 PASS (backend sessions.go has the 6-field summary_stats response shape)'',
      Inr (map (message_of s71_messages) (run_s71_check (Some case_s71_sessions_pass))),
      [])"

definition test_s71_b :: test_case where
  "test_s71_b = (
      lit ''S71 FAIL (backend sessions.go missing the 6-field summary_stats response shape '' @ [8212] @
      lit '' regression: the Skorlar screen has no per-metric data)'',
      Inr (map (message_of s71_messages) (run_s71_check (Some case_s71_sessions_no_summary))),
      [
        lit ''S71 backend/internal/api/sessions.go: missing summary_stats key, total_packets, encrypted_packets, '' @
         lit ''packet_loss_pct, mean_latency_ms, jitter_ms, encryption_integrity_pct. Sprint 11.0C invariant '' @
         [8212] @ lit '' the close handler'' @ [39] @
         lit ''s `summary_stats` block carries 6 fields: `total_packets`, `encrypted_packets`, `packet_loss_pct`, '' @
         lit ''`mean_latency_ms`, `jitter_ms`, `encryption_integrity_pct`. The mobile `SessionScore` JSON '' @
         lit ''deserialiser reads all 6 into the calculator.''])"

definition test_s72_a :: test_case where
  "test_s72_a = (
      lit ''S72 PASS (score_calculator_test.dart has 4+ unit tests (brief: integration, loss, latency, jitter) '' @
      [8212] @ lit '' M3 implementation has 7)'',
      Inr (map (message_of s72_messages) (run_s72_check (Some case_s72_score_calculator_test_pass))),
      [])"

definition test_s72_b :: test_case where
  "test_s72_b = (
      lit ''S72 FAIL (score_calculator_test.dart missing the 4 unit tests '' @ [8212] @
      lit '' regression: the calculator'' @ [39] @ lit ''s pure-function guarantee is not verified)'',
      Inr (map (message_of s72_messages) (run_s72_check (Some case_s72_score_calculator_test_no_tests))),
      [
        lit ''S72 score_calculator_test.dart: missing the 4 unit tests (integration, loss, latency, jitter). '' @
         lit ''Sprint 11.0C invariant '' @ [8212] @
         lit '' the brief requires exactly 4 unit tests for the calculator; the M3 implementation has 7 (the 4 '' @
         lit ''brief + 3 extra: overall weighted sum, computeAll, standardDeviation helper).''])"

lemma test_s25_a_passes: "passes test_s25_a"
  by (simp add: passes_def test_s25_a_def run_s25_check_def s25_text1_a_def s25_text2_a_def case_rules s25_messages_def text_simps)

lemma test_s25_b_passes: "passes test_s25_b"
  by (simp add: passes_def test_s25_b_def run_s25_check_def s25_text1_b_def s25_text2_b_def case_rules s25_messages_def text_simps)

lemma test_s26_a_passes: "passes test_s26_a"
  by (simp add: passes_def test_s26_a_def run_s26_check_def s26_text_a_def case_rules s26_messages_def text_simps)

lemma test_s26_b_passes: "passes test_s26_b"
  by (simp add: passes_def test_s26_b_def run_s26_check_def s26_text_b_def case_rules s26_messages_def text_simps)

lemma test_s27_a_passes: "passes test_s27_a"
  by (simp add: passes_def test_s27_a_def run_s27_check_def s27_text_a_def case_rules s27_messages_def text_simps)

lemma test_s27_b_passes: "passes test_s27_b"
  by (simp add: passes_def test_s27_b_def run_s27_check_def s27_text_b_def case_rules s27_messages_def text_simps)

lemma test_s29_a_passes: "passes test_s29_a"
  by (simp add: passes_def test_s29_a_def run_s29_check_def s29_text_a_def case_rules s29_messages_def text_simps)

lemma test_s29_b_passes: "passes test_s29_b"
  by (simp add: passes_def test_s29_b_def run_s29_check_def s29_text_b_def case_rules s29_messages_def text_simps)

lemma test_s33_a_passes: "passes test_s33_a"
  by (simp add: passes_def test_s33_a_def run_s33_check_def s33_text_a_def case_rules s33_messages_def text_simps)

lemma test_s33_b_passes: "passes test_s33_b"
  by (simp add: passes_def test_s33_b_def run_s33_check_def s33_text_b_def case_rules s33_messages_def text_simps)

lemma test_s34_a_passes: "passes test_s34_a"
  by (simp add: passes_def test_s34_a_def run_s34_check_def s34_text_a_def case_rules s34_messages_def text_simps)

lemma test_s34_b_passes: "passes test_s34_b"
  by (simp add: passes_def test_s34_b_def run_s34_check_def s34_text_b_def case_rules s34_messages_def text_simps)

lemma test_s35_a_passes: "passes test_s35_a"
  by (simp add: passes_def test_s35_a_def run_s35_check_def s35_text1_a_def case_rules s35_messages_def text_simps)

lemma test_s35_b_passes: "passes test_s35_b"
  by (simp add: passes_def test_s35_b_def run_s35_check_def s35_text1_b_def s35_text2_b_def case_rules s35_messages_def text_simps)

lemma test_s36_a_passes: "passes test_s36_a"
  by (simp add: passes_def test_s36_a_def run_s36_check_def s36_text_a_def case_rules s36_messages_def text_simps)

lemma test_s36_b_passes: "passes test_s36_b"
  by (simp add: passes_def test_s36_b_def run_s36_check_def s36_text_b_def case_rules s36_messages_def text_simps)

lemma test_s37_a_passes: "passes test_s37_a"
  by (simp add: passes_def test_s37_a_def run_s37_check_def s37_text1_a_def case_rules s37_messages_def text_simps)

lemma test_s37_b_passes: "passes test_s37_b"
  by (simp add: passes_def test_s37_b_def run_s37_check_def s37_text1_b_def s37_text2_b_def case_rules s37_messages_def text_simps)

lemma test_s38_a_passes: "passes test_s38_a"
  by (simp add: passes_def test_s38_a_def run_s38_check_def s38_text_a_def case_rules s38_messages_def text_simps)

lemma test_s38_b_passes: "passes test_s38_b"
  by (simp add: passes_def test_s38_b_def run_s38_check_def s38_text_b_def case_rules s38_messages_def text_simps)

lemma test_s39_a_passes: "passes test_s39_a"
  by (simp add: passes_def test_s39_a_def run_s39_check_def s39_text_a_def case_rules s39_messages_def text_simps)

lemma test_s39_b_passes: "passes test_s39_b"
  by (simp add: passes_def test_s39_b_def run_s39_check_def s39_text_b_def case_rules s39_messages_def text_simps)

lemma test_s40_a_passes: "passes test_s40_a"
  by (simp add: passes_def test_s40_a_def run_s40_check_def s40_text_a_def case_rules s40_messages_def text_simps)

lemma test_s40_b_passes: "passes test_s40_b"
  by (simp add: passes_def test_s40_b_def run_s40_check_def s40_text_b_def case_rules s40_messages_def text_simps)

lemma test_s41_a_passes: "passes test_s41_a"
  by (simp add: passes_def test_s41_a_def run_s41_check_def s41_text_a_def case_rules s41_messages_def text_simps)

lemma test_s41_b_passes: "passes test_s41_b"
  by (simp add: passes_def test_s41_b_def run_s41_check_def s41_text_b_def case_rules s41_messages_def text_simps)

lemma test_s44_a_passes: "passes test_s44_a"
  by (simp add: passes_def test_s44_a_def run_s44_check_def case_s44_provider_pass_def case_s44_screen_pass_def case_rules s44_messages_def text_simps)

lemma test_s45_a_passes: "passes test_s45_a"
  by (simp add: passes_def test_s45_a_def run_s45_check_def case_s45_vpn_service_pass_def case_rules s45_messages_def text_simps)

lemma test_s45_b_passes: "passes test_s45_b"
  by (simp add: passes_def test_s45_b_def run_s45_check_def case_s45_vpn_service_no_literal_def case_rules s45_messages_def text_simps)

lemma test_s46_a_passes: "passes test_s46_a"
  by (simp add: passes_def test_s46_a_def run_s46_check_def case_s46_main_activity_pass_def case_rules s46_messages_def text_simps)

lemma test_s46_b_passes: "passes test_s46_b"
  by (simp add: passes_def test_s46_b_def run_s46_check_def case_s46_main_activity_with_mock_def case_rules s46_messages_def text_simps)

lemma test_s47_a_passes: "passes test_s47_a"
  by (simp add: passes_def test_s47_a_def run_s47_check_def case_s47_vpn_service_pass_def case_rules s47_messages_def text_simps)

lemma test_s47_b_passes: "passes test_s47_b"
  by (simp add: passes_def test_s47_b_def run_s47_check_def case_s47_vpn_service_no_packetstream_def case_rules s47_messages_def text_simps)

lemma test_s48_a_passes: "passes test_s48_a"
  by (simp add: passes_def test_s48_a_def run_s48_check_def case_s48_active_pool_pass_def case_rules s48_messages_def text_simps)

lemma test_s48_b_passes: "passes test_s48_b"
  by (simp add: passes_def test_s48_b_def run_s48_check_def case_s48_active_pool_no_listen_def case_rules s48_messages_def text_simps)

lemma test_s49_a_passes: "passes test_s49_a"
  by (simp add: passes_def test_s49_a_def run_s49_check_def case_s49_packet_parser_pass_def case_rules s49_messages_def text_simps)

lemma test_s49_b_passes: "passes test_s49_b"
  by (simp add: passes_def test_s49_b_def run_s49_check_def case_s49_packet_parser_no_sampledpacket_def case_rules s49_messages_def text_simps)

lemma test_s50_a_passes: "passes test_s50_a"
  by (simp add: passes_def test_s50_a_def run_s50_check_def case_s50_vpn_service_pass_def case_rules s50_messages_def text_simps)

lemma test_s50_b_passes: "passes test_s50_b"
  by (simp add: passes_def test_s50_b_def run_s50_check_def case_s50_vpn_service_with_vpn_word_def case_rules s50_messages_def text_simps)

lemma test_s51_a_passes: "passes test_s51_a"
  by (simp add: passes_def test_s51_a_def run_s51_check_def case_s51_active_pool_pass_def case_rules s51_messages_def text_simps)

lemma test_s51_b_passes: "passes test_s51_b"
  by (simp add: passes_def test_s51_b_def run_s51_check_def case_s51_active_pool_with_30_loop_def case_rules s51_messages_def text_simps)

lemma test_s52_a_passes: "passes test_s52_a"
  by (simp add: passes_def test_s52_a_def run_s52_check_def case_s52_telemetry_pass_def case_rules s52_messages_def text_simps)

lemma test_s52_b_passes: "passes test_s52_b"
  by (simp add: passes_def test_s52_b_def run_s52_check_def case_s52_telemetry_no_summary_def case_rules s52_messages_def text_simps)

lemma test_s53_a_passes: "passes test_s53_a"
  by (simp add: passes_def test_s53_a_def run_s53_check_def case_s53_pubspec_pass_def case_rules s53_messages_def text_simps)

lemma test_s53_b_passes: "passes test_s53_b"
  by (simp add: passes_def test_s53_b_def run_s53_check_def case_s53_pubspec_no_webrtc_def case_rules s53_messages_def text_simps)

lemma test_s54_a_passes: "passes test_s54_a"
  by (simp add: passes_def test_s54_a_def run_s54_check_def case_s54_webrtc_service_pass_def case_rules s54_messages_def text_simps)

lemma test_s54_b_passes: "passes test_s54_b"
  by (simp add: passes_def test_s54_b_def run_s54_check_def case_s54_webrtc_service_no_rtc_def case_rules s54_messages_def text_simps)

lemma test_s55_a_passes: "passes test_s55_a"
  by (simp add: passes_def test_s55_a_def run_s55_check_def case_s55_webrtc_service_pass_def case_rules s55_messages_def text_simps)

lemma test_s55_b_passes: "passes test_s55_b"
  by (simp add: passes_def test_s55_b_def run_s55_check_def case_s55_webrtc_service_no_callback_def case_rules s55_messages_def text_simps)

lemma test_s56_a_passes: "passes test_s56_a"
  by (simp add: passes_def test_s56_a_def run_s56_check_def case_s56_orchestrator_pass_def case_rules s56_messages_def text_simps)

lemma test_s56_b_passes: "passes test_s56_b"
  by (simp add: passes_def test_s56_b_def run_s56_check_def case_s56_orchestrator_no_start_def case_rules s56_messages_def text_simps)

lemma test_s57_a_passes: "passes test_s57_a"
  by (simp add: passes_def test_s57_a_def run_s57_check_def case_s57_orchestrator_pass_def case_rules s57_messages_def text_simps)

lemma test_s57_b_passes: "passes test_s57_b"
  by (simp add: passes_def test_s57_b_def run_s57_check_def case_s57_orchestrator_no_longpoll_def case_rules s57_messages_def text_simps)

lemma test_s59_a_passes: "passes test_s59_a"
  by (simp add: passes_def test_s59_a_def run_s59_check_def case_s59_webrtc_service_pass_def case_rules s59_messages_def text_simps)

lemma test_s59_b_passes: "passes test_s59_b"
  by (simp add: passes_def test_s59_b_def run_s59_check_def case_s59_webrtc_service_no_ontrack_def case_rules s59_messages_def text_simps)

lemma test_s60_a_passes: "passes test_s60_a"
  by (simp add: passes_def test_s60_a_def run_s60_check_def case_s60_active_pool_pass_def case_rules s60_messages_def text_simps)

lemma test_s60_b_passes: "passes test_s60_b"
  by (simp add: passes_def test_s60_b_def run_s60_check_def case_s60_active_pool_no_indicators_def case_rules s60_messages_def text_simps)

lemma test_s61_a_passes: "passes test_s61_a"
  by (simp add: passes_def test_s61_a_def run_s61_check_def case_s61_skorlar_pass_def case_rules s61_messages_def text_simps)

lemma test_s61_b_passes: "passes test_s61_b"
  by (simp add: passes_def test_s61_b_def run_s61_check_def case_s61_skorlar_no_consumer_def case_rules s61_messages_def text_simps)

lemma test_s62_a_passes: "passes test_s62_a"
  by (simp add: passes_def test_s62_a_def run_s62_check_def case_s62_score_calculator_pass_def case_rules s62_messages_def text_simps)

lemma test_s62_b_passes: "passes test_s62_b"
  by (simp add: passes_def test_s62_b_def run_s62_check_def case_s62_score_calculator_no_compute_def case_rules s62_messages_def text_simps)

lemma test_s63_a_passes: "passes test_s63_a"
  by (simp add: passes_def test_s63_a_def run_s63_check_def case_s63_score_calculator_pass_def case_rules s63_messages_def text_simps)

lemma test_s63_b_passes: "passes test_s63_b"
  by (simp add: passes_def test_s63_b_def run_s63_check_def case_s63_score_calculator_no_metrics_def case_rules s63_messages_def text_simps)

lemma test_s64_a_passes: "passes test_s64_a"
  by (simp add: passes_def test_s64_a_def run_s64_check_def case_s64_score_calculator_pass_def case_rules s64_messages_def text_simps)

lemma test_s64_b_passes: "passes test_s64_b"
  by (simp add: passes_def test_s64_b_def run_s64_check_def case_s64_score_calculator_no_weights_def case_rules s64_messages_def text_simps)

lemma test_s65_a_passes: "passes test_s65_a"
  by (simp add: passes_def test_s65_a_def run_s65_check_def case_s65_orchestrator_pass_def case_rules s65_messages_def text_simps)

lemma test_s65_b_passes: "passes test_s65_b"
  by (simp add: passes_def test_s65_b_def run_s65_check_def case_s65_orchestrator_no_close_def case_rules s65_messages_def text_simps)

lemma test_s66_a_passes: "passes test_s66_a"
  by (simp add: passes_def test_s66_a_def run_s66_check_def case_s66_active_pool_pass_def case_rules s66_messages_def text_simps)

lemma test_s66_b_passes: "passes test_s66_b"
  by (simp add: passes_def test_s66_b_def run_s66_check_def case_s66_active_pool_no_button_def case_rules s66_messages_def text_simps)

lemma test_s67_a_passes: "passes test_s67_a"
  by (simp add: passes_def test_s67_a_def run_s67_check_def case_s67_active_pool_pass_def case_rules s67_messages_def text_simps)

lemma test_s67_b_passes: "passes test_s67_b"
  by (simp add: passes_def test_s67_b_def run_s67_check_def case_s67_active_pool_no_flow_def case_rules s67_messages_def text_simps)

lemma test_s68_a_passes: "passes test_s68_a"
  by (simp add: passes_def test_s68_a_def run_s68_check_def case_s68_skorlar_pass_def case_rules s68_messages_def text_simps)

lemma test_s68_b_passes: "passes test_s68_b"
  by (simp add: passes_def test_s68_b_def run_s68_check_def case_s68_skorlar_no_empty_def case_rules s68_messages_def text_simps)

lemma test_s69_a_passes: "passes test_s69_a"
  by (simp add: passes_def test_s69_a_def run_s69_check_def case_s69_skorlar_pass_def case_rules s69_messages_def text_simps)

lemma test_s69_b_passes: "passes test_s69_b"
  by (simp add: passes_def test_s69_b_def run_s69_check_def case_s69_skorlar_no_card_def case_rules s69_messages_def text_simps)

lemma test_s70_a_passes: "passes test_s70_a"
  by (simp add: passes_def test_s70_a_def run_s70_check_def case_s70_router_pass_def case_rules s70_messages_def text_simps)

lemma test_s70_b_passes: "passes test_s70_b"
  by (simp add: passes_def test_s70_b_def run_s70_check_def case_s70_router_no_close_def case_rules s70_messages_def text_simps)

lemma test_s71_a_passes: "passes test_s71_a"
  by (simp add: passes_def test_s71_a_def run_s71_check_def case_s71_sessions_pass_def case_rules s71_messages_def text_simps)

lemma test_s71_b_passes: "passes test_s71_b"
  by (simp add: passes_def test_s71_b_def run_s71_check_def case_s71_sessions_no_summary_def case_rules s71_messages_def text_simps)

lemma test_s72_a_passes: "passes test_s72_a"
  by (simp add: passes_def test_s72_a_def run_s72_check_def case_s72_score_calculator_test_pass_def case_rules s72_messages_def text_simps)

lemma test_s72_b_passes: "passes test_s72_b"
  by (simp add: passes_def test_s72_b_def run_s72_check_def case_s72_score_calculator_test_no_tests_def case_rules s72_messages_def text_simps)

lemmas literal_cases_pass_each =
  test_s25_a_passes test_s25_b_passes test_s26_a_passes test_s26_b_passes test_s27_a_passes
  test_s27_b_passes test_s29_a_passes test_s29_b_passes test_s33_a_passes test_s33_b_passes
  test_s34_a_passes test_s34_b_passes test_s35_a_passes test_s35_b_passes test_s36_a_passes
  test_s36_b_passes test_s37_a_passes test_s37_b_passes test_s38_a_passes test_s38_b_passes
  test_s39_a_passes test_s39_b_passes test_s40_a_passes test_s40_b_passes test_s41_a_passes
  test_s41_b_passes test_s44_a_passes test_s45_a_passes test_s45_b_passes test_s46_a_passes
  test_s46_b_passes test_s47_a_passes test_s47_b_passes test_s48_a_passes test_s48_b_passes
  test_s49_a_passes test_s49_b_passes test_s50_a_passes test_s50_b_passes test_s51_a_passes
  test_s51_b_passes test_s52_a_passes test_s52_b_passes test_s53_a_passes test_s53_b_passes
  test_s54_a_passes test_s54_b_passes test_s55_a_passes test_s55_b_passes test_s56_a_passes
  test_s56_b_passes test_s57_a_passes test_s57_b_passes test_s59_a_passes test_s59_b_passes
  test_s60_a_passes test_s60_b_passes test_s61_a_passes test_s61_b_passes test_s62_a_passes
  test_s62_b_passes test_s63_a_passes test_s63_b_passes test_s64_a_passes test_s64_b_passes
  test_s65_a_passes test_s65_b_passes test_s66_a_passes test_s66_b_passes test_s67_a_passes
  test_s67_b_passes test_s68_a_passes test_s68_b_passes test_s69_a_passes test_s69_b_passes
  test_s70_a_passes test_s70_b_passes test_s71_a_passes test_s71_b_passes test_s72_a_passes
  test_s72_b_passes

end
