(* ===== verification/Build_Cases.thy ===== *)
theory Build_Cases
  imports Text_Lines Literal_Cases Self_Test
begin

section \<open>The cases of the self-test on the build files\<close>

text \<open>
  The cases that tools/audit-self-test.py has for S1 to S20, S28, S42 and S43. Many of their texts are YAML, JSON or XML, which the
  replicas parse with PyYAML, \<open>json\<close> and ElementTree. What these return on the texts is written down here, document by
  document, as the hypothesis \<open>parses_fixtures\<close>.
\<close>

subsection \<open>The texts\<close>

definition case_pass :: "pystr list" where
  "case_pass = [
     [],
     lit ''import java.util.Properties'',
     lit ''import org.jetbrains.kotlin.gradle.dsl.JvmTarget'',
     [],
     lit ''android {'',
     lit ''    namespace = '' @ [34] @ lit ''x'' @ [34],
     lit ''    compileOptions { sourceCompatibility = JavaVersion.VERSION_17 }'',
     lit ''}'',
     [],
     lit ''flutter { source = '' @ [34] @ lit ''.'' @ [34] @ lit '' }'',
     [],
     lit ''kotlin {'',
     lit ''    compilerOptions { jvmTarget.set(JvmTarget.JVM_17) }'',
     lit ''}'',
     [],
     lit ''dependencies {}'',
     [],
     lit ''create('' @ [34] @ lit ''release'' @ [34] @ lit '') {'',
     lit ''    val keyPropsFile = rootProject.file('' @ [34] @ lit ''k'' @ [34] @ lit '')'',
     lit ''    if (keyPropsFile.exists()) {'',
     lit ''        val keyProps = Properties().apply { load(keyPropsFile.inputStream()) }'',
     lit ''    }'',
     lit ''}'']"

definition case_s1_fail :: "pystr list" where
  "case_s1_fail = [
     [],
     lit ''import org.jetbrains.kotlin.gradle.dsl.JvmTarget'',
     [],
     lit ''android {'',
     lit ''    compileOptions { sourceCompatibility = JavaVersion.VERSION_17 }'',
     lit ''}'',
     [],
     lit ''flutter { source = '' @ [34] @ lit ''.'' @ [34] @ lit '' }'',
     [],
     lit ''kotlin {'',
     lit ''    compilerOptions { jvmTarget.set(JvmTarget.JVM_17) }'',
     lit ''}'',
     [],
     lit ''dependencies {}'',
     [],
     lit ''create('' @ [34] @ lit ''release'' @ [34] @ lit '') {'',
     lit ''    val keyPropsFile = rootProject.file('' @ [34] @ lit ''k'' @ [34] @ lit '')'',
     lit ''    if (keyPropsFile.exists()) {'',
     lit ''        // explicit `import java.util.Properties` (Kotlin 2.0+ stricter...)'',
     lit ''        val keyProps = java.util.Properties().apply { load(keyPropsFile.inputStream()) }'',
     lit ''    }'',
     lit ''}'']"

definition case_s2_fail :: "pystr list" where
  "case_s2_fail = [
     [],
     lit ''import java.util.Properties'',
     [],
     lit ''android {'',
     lit ''    compileOptions { sourceCompatibility = JavaVersion.VERSION_17 }'',
     lit ''}'',
     [],
     lit ''flutter { source = '' @ [34] @ lit ''.'' @ [34] @ lit '' }'',
     [],
     lit ''kotlin {'',
     lit ''    compilerOptions { jvmTarget.set(JvmTarget.JVM_17) }'',
     lit ''}'',
     [],
     lit ''dependencies {}'',
     [],
     lit ''create('' @ [34] @ lit ''release'' @ [34] @ lit '') {'',
     lit ''    val keyProps = Properties().apply { load(keyPropsFile.inputStream()) }'',
     lit ''}'']"

definition case_s3_fail :: "pystr list" where
  "case_s3_fail = [
     [],
     lit ''import java.util.Properties'',
     lit ''import org.jetbrains.kotlin.gradle.dsl.JvmTarget'',
     [],
     lit ''android {'',
     lit ''    compileOptions { sourceCompatibility = JavaVersion.VERSION_17 }'',
     lit ''    kotlinOptions { jvmTarget = '' @ [34] @ lit ''17'' @ [34] @ lit '' }'',
     lit ''}'',
     [],
     lit ''flutter { source = '' @ [34] @ lit ''.'' @ [34] @ lit '' }'',
     [],
     lit ''kotlin {'',
     lit ''    compilerOptions { jvmTarget.set(JvmTarget.JVM_17) }'',
     lit ''}'',
     [],
     lit ''dependencies {}'',
     [],
     lit ''create('' @ [34] @ lit ''release'' @ [34] @ lit '') {'',
     lit ''    val keyProps = Properties().apply { load(keyPropsFile.inputStream()) }'',
     lit ''}'']"

definition case_s4_fail :: "pystr list" where
  "case_s4_fail = [
     [],
     lit ''import java.util.Properties'',
     lit ''import org.jetbrains.kotlin.gradle.dsl.JvmTarget'',
     [],
     lit ''android {'',
     lit ''    compileOptions { sourceCompatibility = JavaVersion.VERSION_17 }'',
     lit ''}'',
     [],
     lit ''flutter { source = '' @ [34] @ lit ''.'' @ [34] @ lit '' }'',
     [],
     lit ''dependencies {}'',
     [],
     lit ''create('' @ [34] @ lit ''release'' @ [34] @ lit '') {'',
     lit ''    val keyProps = Properties().apply { load(keyPropsFile.inputStream()) }'',
     lit ''}'']"

definition case_s5_fail :: "pystr list" where
  "case_s5_fail = [
     [],
     lit ''import java.util.Properties'',
     lit ''import org.jetbrains.kotlin.gradle.dsl.JvmTarget'',
     [],
     lit ''android {'',
     lit ''    compileOptions { sourceCompatibility = JavaVersion.VERSION_17 }'',
     lit ''}'',
     [],
     lit ''flutter { source = '' @ [34] @ lit ''.'' @ [34] @ lit '' }'',
     [],
     lit ''kotlin {'',
     lit ''    compilerOptions { jvmTarget.set(JvmTarget.JVM_17) }'',
     lit ''}'',
     [],
     lit ''dependencies {}'',
     [],
     lit ''create('' @ [34] @ lit ''release'' @ [34] @ lit '') {'',
     lit ''    val keyProps = java.util.Properties().apply { load(keyPropsFile.inputStream()) }'',
     lit ''}'']"

definition case_s6_pass :: "pystr list" where
  "case_s6_pass = [
     [],
     lit ''name: Android Debug APK'',
     lit ''on:'',
     lit ''  workflow_dispatch:'',
     lit ''jobs:'',
     lit ''  android-debug:'',
     lit ''    runs-on: ubuntu-latest'',
     lit ''    steps:'',
     lit ''      - name: Checkout'',
     lit ''        uses: actions/checkout@v4'',
     lit ''      - name: Setup Flutter'',
     lit ''        uses: subosito/flutter-action@v2'',
     lit ''        with:'',
     lit ''          flutter-version: '' @ [39] @ lit ''3.44.1'' @ [39],
     lit ''      - name: Install Flutter dependencies'',
     lit ''        working-directory: ./mobile'',
     lit ''        run: flutter pub get'',
     lit ''      - name: Build Debug APK'',
     lit ''        working-directory: ./mobile/android'',
     lit ''        run: ./gradlew assembleDebug'']"

definition case_s6_step_missing :: "pystr list" where
  "case_s6_step_missing = [
     [],
     lit ''name: Android Debug APK'',
     lit ''on:'',
     lit ''  workflow_dispatch:'',
     lit ''jobs:'',
     lit ''  android-debug:'',
     lit ''    runs-on: ubuntu-latest'',
     lit ''    steps:'',
     lit ''      - name: Checkout'',
     lit ''        uses: actions/checkout@v4'',
     lit ''      - name: Setup Flutter'',
     lit ''        uses: subosito/flutter-action@v2'',
     lit ''        with:'',
     lit ''          flutter-version: '' @ [39] @ lit ''3.44.1'' @ [39],
     lit ''      - name: Verify Flutter dependency cache'',
     lit ''        run: flutter --version'',
     lit ''      - name: Build Debug APK'',
     lit ''        working-directory: ./mobile/android'',
     lit ''        run: ./gradlew assembleDebug'']"

definition case_s6_wrong_wd :: "pystr list" where
  "case_s6_wrong_wd = [
     [],
     lit ''name: Android Debug APK'',
     lit ''on:'',
     lit ''  workflow_dispatch:'',
     lit ''jobs:'',
     lit ''  android-debug:'',
     lit ''    runs-on: ubuntu-latest'',
     lit ''    steps:'',
     lit ''      - name: Checkout'',
     lit ''        uses: actions/checkout@v4'',
     lit ''      - name: Install Flutter dependencies'',
     lit ''        working-directory: ./mobile/android'',
     lit ''        run: flutter pub get'',
     lit ''      - name: Build Debug APK'',
     lit ''        working-directory: ./mobile/android'',
     lit ''        run: ./gradlew assembleDebug'']"

definition case_s6_wrong_run :: "pystr list" where
  "case_s6_wrong_run = [
     [],
     lit ''name: Android Debug APK'',
     lit ''on:'',
     lit ''  workflow_dispatch:'',
     lit ''jobs:'',
     lit ''  android-debug:'',
     lit ''    runs-on: ubuntu-latest'',
     lit ''    steps:'',
     lit ''      - name: Checkout'',
     lit ''        uses: actions/checkout@v4'',
     lit ''      - name: Install Flutter dependencies'',
     lit ''        working-directory: ./mobile'',
     lit ''        run: echo hello'',
     lit ''      - name: Build Debug APK'',
     lit ''        working-directory: ./mobile/android'',
     lit ''        run: ./gradlew assembleDebug'']"

definition case_s7_main_pass :: "pystr list" where
  "case_s7_main_pass = [
     [],
     lit ''import '' @ [39] @ lit ''package:flutter/material.dart'' @ [39] @ lit '';'',
     lit ''import '' @ [39] @ lit ''package:flutter_riverpod/flutter_riverpod.dart'' @ [39] @ lit '';'',
     lit ''import '' @ [39] @ lit ''app.dart'' @ [39] @ lit '';'',
     [],
     lit ''void main() {'',
     lit ''  runApp(const ProviderScope(child: MyApp()));'',
     lit ''}'']"

definition case_s7_pubspec_pass :: "pystr list" where
  "case_s7_pubspec_pass = [
     [],
     lit ''name: opene2ee'',
     lit ''description: OpenE2EE'',
     lit ''version: 1.0.0+1'',
     lit ''environment:'',
     lit ''  sdk: ^3.12.1'',
     lit ''dependencies:'',
     lit ''  flutter:'',
     lit ''    sdk: flutter'',
     lit ''  cupertino_icons: ^1.0.8'',
     lit ''  flutter_riverpod: ^2.5.1'',
     lit ''  go_router: ^14.2.7'',
     lit ''dev_dependencies:'',
     lit ''  flutter_test:'',
     lit ''    sdk: flutter'']"

definition case_s7_no_providerscope :: "pystr list" where
  "case_s7_no_providerscope = [
     [],
     lit ''import '' @ [39] @ lit ''package:flutter/material.dart'' @ [39] @ lit '';'',
     [],
     lit ''void main() {'',
     lit ''  runApp(const MyApp());'',
     lit ''}'']"

definition case_s7_pubspec_no_riverpod :: "pystr list" where
  "case_s7_pubspec_no_riverpod = [
     [],
     lit ''name: opene2ee'',
     lit ''version: 1.0.0+1'',
     lit ''dependencies:'',
     lit ''  flutter:'',
     lit ''    sdk: flutter'',
     lit ''  go_router: ^14.2.7'']"

definition case_s8_xml_pass :: "pystr list" where
  "case_s8_xml_pass = [
     lit ''<?xml version='' @ [34] @ lit ''1.0'' @ [34] @ lit '' encoding='' @ [34] @ lit ''utf-8'' @ [34] @ lit ''?>'',
     lit ''<!--'',
     lit ''  mobile/android/app/src/main/res/xml/network_security_config.xml'',
     [],
     lit ''  PR-39 (Sprint 6) '' @ [8212] @ lit '' Network Security Configuration for the OpenE2EE Android'',
     lit ''  app.'',
     [],
     lit ''  Why this exists'',
     lit ''  ==============='',
     lit ''  Addresses cyber-security Sprint 6 findings MOB-1 + MOB-2.'',
     [],
     lit ''  Trust anchors'',
     lit ''  ============='',
     lit ''  <trust-anchors> references ONLY system. User-installed CAs are NOT trusted.'',
     [],
     lit ''  Production CA pin'',
     lit ''  ================='',
     lit ''  A <domain-config> block pins the production CA'' @ [39] @ lit ''s SPKI hash.'',
     [],
     lit ''  Dev exception'',
     lit ''  ============='',
     lit ''  The 10.0.2.2 cleartext allowance is currently COMMENTED OUT.'',
     lit ''-->'',
     lit ''<network-security-config>'',
     lit ''    <base-config cleartextTrafficPermitted='' @ [34] @ lit ''false'' @ [34] @ lit ''>'',
     lit ''        <trust-anchors>'',
     lit ''            <certificates src='' @ [34] @ lit ''system'' @ [34] @ lit '' />'',
     lit ''        </trust-anchors>'',
     lit ''    </base-config>'',
     lit ''    <domain-config>'',
     lit ''        <domain includeSubdomains='' @ [34] @ lit ''true'' @ [34] @ lit ''>api.opene2ee.com</domain>'',
     lit ''        <pin-set expiration='' @ [34] @ lit ''2027-07-07'' @ [34] @ lit ''>'',
     lit ''            <pin digest='' @ [34] @ lit ''SHA-256'' @ [34] @ lit ''>PLACEHOLDER_PRODUCTION_SPKI==</pin>'',
     lit ''        </pin-set>'',
     lit ''    </domain-config>'',
     lit ''</network-security-config>'']"

definition case_s8_xml_bad :: "pystr list" where
  "case_s8_xml_bad = [
     lit ''<?xml version='' @ [34] @ lit ''1.0'' @ [34] @ lit '' encoding='' @ [34] @ lit ''utf-8'' @ [34] @ lit ''?>'',
     lit ''<!--'',
     lit ''  PR-39 '' @ [8212] @ lit '' Network Security Configuration.'',
     [],
     lit ''  Why this exists'',
     lit ''  ---------------'',
     lit ''  Addresses cyber-security Sprint 6 findings.'',
     [],
     lit ''  Trust anchors'',
     lit ''  -------------'',
     lit ''  System-only.'',
     lit ''-->'',
     lit ''<network-security-config>'',
     lit ''    <base-config cleartextTrafficPermitted='' @ [34] @ lit ''false'' @ [34] @ lit ''>'',
     lit ''        <trust-anchors>'',
     lit ''            <certificates src='' @ [34] @ lit ''system'' @ [34] @ lit '' />'',
     lit ''        </trust-anchors>'',
     lit ''    </base-config>'',
     lit ''</network-security-config>'']"

definition case_s9_manifest_pass :: "pystr list" where
  "case_s9_manifest_pass = [
     lit ''<?xml version='' @ [34] @ lit ''1.0'' @ [34] @ lit '' encoding='' @ [34] @ lit ''utf-8'' @ [34] @ lit ''?>'',
     lit ''<manifest xmlns:android='' @ [34] @ lit ''http://schemas.android.com/apk/res/android'' @ [34],
     lit ''          xmlns:tools='' @ [34] @ lit ''http://schemas.android.com/tools'' @ [34] @ lit ''>'',
     lit ''    <application'',
     lit ''        android:label='' @ [34] @ lit ''OpenE2EE'' @ [34],
     lit ''        android:usesCleartextTraffic='' @ [34] @ lit ''false'' @ [34],
     lit ''        tools:replace='' @ [34] @ lit ''android:usesCleartextTraffic'' @ [34],
     lit ''        android:networkSecurityConfig='' @ [34] @ lit ''@xml/network_security_config'' @ [34] @ lit ''>'',
     lit ''    </application>'',
     lit ''</manifest>'']"

definition case_s9_gradle_pass :: "pystr list" where
  "case_s9_gradle_pass = [
     [],
     lit ''plugins {'',
     lit ''    id('' @ [34] @ lit ''com.android.application'' @ [34] @ lit '')'',
     lit ''    id('' @ [34] @ lit ''org.jetbrains.kotlin.android'' @ [34] @ lit '')'',
     lit ''    id('' @ [34] @ lit ''dev.flutter.flutter-gradle-plugin'' @ [34] @ lit '')'',
     lit ''}'',
     [],
     lit ''android {'',
     lit ''    namespace = '' @ [34] @ lit ''com.opene2ee.opene2ee'' @ [34],
     lit ''    compileSdk = 34'',
     lit ''}'']"

definition case_s9_manifest_package :: "pystr list" where
  "case_s9_manifest_package = [
     lit ''<?xml version='' @ [34] @ lit ''1.0'' @ [34] @ lit '' encoding='' @ [34] @ lit ''utf-8'' @ [34] @ lit ''?>'',
     lit ''<manifest xmlns:android='' @ [34] @ lit ''http://schemas.android.com/apk/res/android'' @ [34],
     lit ''          xmlns:tools='' @ [34] @ lit ''http://schemas.android.com/tools'' @ [34],
     lit ''          package='' @ [34] @ lit ''com.opene2ee.opene2ee'' @ [34] @ lit ''>'',
     lit ''    <application'',
     lit ''        android:label='' @ [34] @ lit ''OpenE2EE'' @ [34],
     lit ''        android:usesCleartextTraffic='' @ [34] @ lit ''false'' @ [34],
     lit ''        tools:replace='' @ [34] @ lit ''android:usesCleartextTraffic'' @ [34] @ lit ''>'',
     lit ''    </application>'',
     lit ''</manifest>'']"

definition case_s9_manifest_tools_remove :: "pystr list" where
  "case_s9_manifest_tools_remove = [
     lit ''<?xml version='' @ [34] @ lit ''1.0'' @ [34] @ lit '' encoding='' @ [34] @ lit ''utf-8'' @ [34] @ lit ''?>'',
     lit ''<manifest xmlns:android='' @ [34] @ lit ''http://schemas.android.com/apk/res/android'' @ [34],
     lit ''          xmlns:tools='' @ [34] @ lit ''http://schemas.android.com/tools'' @ [34] @ lit ''>'',
     lit ''    <application'',
     lit ''        android:label='' @ [34] @ lit ''OpenE2EE'' @ [34],
     lit ''        android:usesCleartextTraffic='' @ [34] @ lit ''false'' @ [34],
     lit ''        tools:remove='' @ [34] @ lit ''android:usesCleartextTraffic'' @ [34] @ lit ''>'',
     lit ''    </application>'',
     lit ''</manifest>'']"

definition case_s10_styles_pass :: "pystr list" where
  "case_s10_styles_pass = [
     lit ''<?xml version='' @ [34] @ lit ''1.0'' @ [34] @ lit '' encoding='' @ [34] @ lit ''utf-8'' @ [34] @ lit ''?>'',
     lit ''<resources>'',
     lit ''    <style name='' @ [34] @ lit ''LaunchTheme'' @ [34] @ lit '' parent='' @ [34] @
       lit ''@android:style/Theme.Light.NoTitleBar'' @ [34] @ lit ''>'',
     lit ''        <item name='' @ [34] @ lit ''android:windowBackground'' @ [34] @ lit ''>@drawable/launch_background</item>'',
     lit ''    </style>'',
     lit ''    <style name='' @ [34] @ lit ''NormalTheme'' @ [34] @ lit '' parent='' @ [34] @
       lit ''@android:style/Theme.Light.NoTitleBar'' @ [34] @ lit ''>'',
     lit ''        <item name='' @ [34] @ lit ''android:windowBackground'' @ [34] @ lit ''>?android:colorBackground</item>'',
     lit ''    </style>'',
     lit ''</resources>'']"

definition case_s10_styles_no_launch :: "pystr list" where
  "case_s10_styles_no_launch = [
     lit ''<?xml version='' @ [34] @ lit ''1.0'' @ [34] @ lit '' encoding='' @ [34] @ lit ''utf-8'' @ [34] @ lit ''?>'',
     lit ''<resources>'',
     lit ''    <style name='' @ [34] @ lit ''SomeOther'' @ [34] @ lit '' parent='' @ [34] @
       lit ''@android:style/Theme.Light.NoTitleBar'' @ [34] @ lit ''/>'',
     lit ''    <style name='' @ [34] @ lit ''NormalTheme'' @ [34] @ lit '' parent='' @ [34] @
       lit ''@android:style/Theme.Light.NoTitleBar'' @ [34] @ lit ''/>'',
     lit ''</resources>'']"

definition case_s11_fpd_pass :: "pystr list" where
  "case_s11_fpd_pass = [
     lit ''{'',
     lit ''    '' @ [34] @ lit ''info'' @ [34] @ lit '': '' @ [34] @
       lit ''This is a generated file; do not edit or check into version control.'' @ [34] @ lit '','',
     lit ''    '' @ [34] @ lit ''plugins'' @ [34] @ lit '': {'',
     lit ''        '' @ [34] @ lit ''android'' @ [34] @ lit '': ['',
     lit ''            {'' @ [34] @ lit ''name'' @ [34] @ lit '': '' @ [34] @ lit ''flutter_plugin_android_lifecycle'' @ [34] @
       lit '', '' @ [34] @ lit ''path'' @ [34] @ lit '': '' @ [34] @
       lit ''C:/Users/User/AppData/Local/Pub/Cache/hosted/pub.dev/flutter_plugin_android_lifecycle-2.0.35/'' @ [34] @ lit '', '' @
       [34] @ lit ''native_build'' @ [34] @ lit '': true, '' @ [34] @ lit ''dependencies'' @ [34] @ lit '': [], '' @ [34] @
       lit ''dev_dependency'' @ [34] @ lit '': false},'',
     lit ''            {'' @ [34] @ lit ''name'' @ [34] @ lit '': '' @ [34] @ lit ''flutter_secure_storage'' @ [34] @
       lit '', '' @ [34] @ lit ''path'' @ [34] @ lit '': '' @ [34] @
       lit ''C:/Users/User/AppData/Local/Pub/Cache/hosted/pub.dev/flutter_secure_storage-9.2.4/'' @ [34] @ lit '', '' @ [34] @
       lit ''native_build'' @ [34] @ lit '': true, '' @ [34] @ lit ''dependencies'' @ [34] @ lit '': [], '' @ [34] @
       lit ''dev_dependency'' @ [34] @ lit '': false},'',
     lit ''            {'' @ [34] @ lit ''name'' @ [34] @ lit '': '' @ [34] @ lit ''flutter_webrtc'' @ [34] @ lit '', '' @
       [34] @ lit ''path'' @ [34] @ lit '': '' @ [34] @
       lit ''C:/Users/User/AppData/Local/Pub/Cache/hosted/pub.dev/flutter_webrtc-1.5.2/'' @ [34] @ lit '', '' @ [34] @
       lit ''native_build'' @ [34] @ lit '': true, '' @ [34] @ lit ''dependencies'' @ [34] @ lit '': [], '' @ [34] @
       lit ''dev_dependency'' @ [34] @ lit '': false},'',
     lit ''            {'' @ [34] @ lit ''name'' @ [34] @ lit '': '' @ [34] @ lit ''jni'' @ [34] @ lit '', '' @ [34] @
       lit ''path'' @ [34] @ lit '': '' @ [34] @ lit ''C:/Users/User/AppData/Local/Pub/Cache/hosted/pub.dev/jni-1.0.0/'' @ [34] @
       lit '', '' @ [34] @ lit ''native_build'' @ [34] @ lit '': true, '' @ [34] @ lit ''dependencies'' @ [34] @ lit '': [], '' @
       [34] @ lit ''dev_dependency'' @ [34] @ lit '': false},'',
     lit ''            {'' @ [34] @ lit ''name'' @ [34] @ lit '': '' @ [34] @ lit ''jni_flutter'' @ [34] @ lit '', '' @ [34] @
       lit ''path'' @ [34] @ lit '': '' @ [34] @ lit ''C:/Users/User/AppData/Local/Pub/Cache/hosted/pub.dev/jni_flutter-1.0.1/'' @
       [34] @ lit '', '' @ [34] @ lit ''native_build'' @ [34] @ lit '': true, '' @ [34] @ lit ''dependencies'' @ [34] @
       lit '': ['' @ [34] @ lit ''jni'' @ [34] @ lit ''], '' @ [34] @ lit ''dev_dependency'' @ [34] @ lit '': false},'',
     lit ''            {'' @ [34] @ lit ''name'' @ [34] @ lit '': '' @ [34] @ lit ''local_auth_android'' @ [34] @ lit '', '' @
       [34] @ lit ''path'' @ [34] @ lit '': '' @ [34] @
       lit ''C:/Users/User/AppData/Local/Pub/Cache/hosted/pub.dev/local_auth_android-1.0.46/'' @ [34] @ lit '', '' @ [34] @
       lit ''native_build'' @ [34] @ lit '': true, '' @ [34] @ lit ''dependencies'' @ [34] @ lit '': [], '' @ [34] @
       lit ''dev_dependency'' @ [34] @ lit '': false},'',
     lit ''            {'' @ [34] @ lit ''name'' @ [34] @ lit '': '' @ [34] @ lit ''path_provider_android'' @ [34] @
       lit '', '' @ [34] @ lit ''path'' @ [34] @ lit '': '' @ [34] @
       lit ''C:/Users/User/AppData/Local/Pub/Cache/hosted/pub.dev/path_provider_android-2.2.10/'' @ [34] @ lit '', '' @ [34] @
       lit ''native_build'' @ [34] @ lit '': false, '' @ [34] @ lit ''dependencies'' @ [34] @ lit '': [], '' @ [34] @
       lit ''dev_dependency'' @ [34] @ lit '': false}'',
     lit ''        ]'',
     lit ''    }'',
     lit ''}'']"

definition case_s11_fpd_empty_android :: "pystr list" where
  "case_s11_fpd_empty_android = [
     lit ''{'',
     lit ''    '' @ [34] @ lit ''info'' @ [34] @ lit '': '' @ [34] @
       lit ''This is a generated file; do not edit or check into version control.'' @ [34] @ lit '','',
     lit ''    '' @ [34] @ lit ''plugins'' @ [34] @ lit '': {'',
     lit ''        '' @ [34] @ lit ''android'' @ [34] @ lit '': []'',
     lit ''    }'',
     lit ''}'']"

definition case_s12_gradle_pass :: "pystr list" where
  "case_s12_gradle_pass = [
     lit ''plugins {'',
     lit ''    id('' @ [34] @ lit ''com.android.application'' @ [34] @ lit '')'',
     lit ''    id('' @ [34] @ lit ''org.jetbrains.kotlin.android'' @ [34] @ lit '')'',
     lit ''    id('' @ [34] @ lit ''dev.flutter.flutter-gradle-plugin'' @ [34] @ lit '')'',
     lit ''}'',
     [],
     lit ''android {'',
     lit ''    namespace = '' @ [34] @ lit ''com.opene2ee.opene2ee'' @ [34],
     lit ''    compileSdk = 34'',
     lit ''}'',
     [],
     lit ''dependencies {'',
     lit ''    implementation('' @ [34] @ lit ''androidx.core:core-ktx:1.12.0'' @ [34] @ lit '')'',
     lit ''    implementation('' @ [34] @ lit ''androidx.annotation:annotation:1.7.1'' @ [34] @ lit '')'',
     lit ''    implementation('' @ [34] @ lit ''org.jetbrains.kotlinx:kotlinx-coroutines-android:1.7.3'' @ [34] @ lit '')'',
     lit ''    implementation('' @ [34] @
       lit ''io.flutter:flutter_embedding_ktx:1.0.0-c416acfeb8126e097f758c664aaa3da929e27da0'' @ [34] @ lit '')'',
     lit ''}'']"

definition S12_ENGINE_VERSION :: pystr where
  "S12_ENGINE_VERSION = lit ''c416acfeb8126e097f758c664aaa3da929e27da0''"

definition case_s12_gradle_no_embedding :: "pystr list" where
  "case_s12_gradle_no_embedding = [
     lit ''plugins {'',
     lit ''    id('' @ [34] @ lit ''com.android.application'' @ [34] @ lit '')'',
     lit ''    id('' @ [34] @ lit ''org.jetbrains.kotlin.android'' @ [34] @ lit '')'',
     lit ''    id('' @ [34] @ lit ''dev.flutter.flutter-gradle-plugin'' @ [34] @ lit '')'',
     lit ''}'',
     [],
     lit ''android {'',
     lit ''    namespace = '' @ [34] @ lit ''com.opene2ee.opene2ee'' @ [34],
     lit ''    compileSdk = 34'',
     lit ''}'',
     [],
     lit ''dependencies {'',
     lit ''    implementation('' @ [34] @ lit ''androidx.core:core-ktx:1.12.0'' @ [34] @ lit '')'',
     lit ''    implementation('' @ [34] @ lit ''androidx.annotation:annotation:1.7.1'' @ [34] @ lit '')'',
     lit ''    implementation('' @ [34] @ lit ''org.jetbrains.kotlinx:kotlinx-coroutines-android:1.7.3'' @ [34] @ lit '')'',
     lit ''}'']"

definition case_s12_gradle_wrong_hash :: "pystr list" where
  "case_s12_gradle_wrong_hash = [
     lit ''plugins {'',
     lit ''    id('' @ [34] @ lit ''com.android.application'' @ [34] @ lit '')'',
     lit ''}'',
     [],
     lit ''dependencies {'',
     lit ''    implementation('' @ [34] @ lit ''androidx.core:core-ktx:1.12.0'' @ [34] @ lit '')'',
     lit ''    implementation('' @ [34] @
       lit ''io.flutter:flutter_embedding_ktx:1.0.0-deadbeefdeadbeefdeadbeefdeadbeefdeadbeef'' @ [34] @ lit '')'',
     lit ''}'']"

definition case_s13_settings_pass :: "pystr list" where
  "case_s13_settings_pass = [
     lit ''pluginManagement {'',
     lit ''    repositories {'',
     lit ''        google()'',
     lit ''        mavenCentral()'',
     lit ''        gradlePluginPortal()'',
     lit ''    }'',
     lit ''}'',
     [],
     lit ''dependencyResolutionManagement {'',
     lit ''    repositoriesMode.set(RepositoriesMode.PREFER_SETTINGS)'',
     lit ''    repositories {'',
     lit ''        google()'',
     lit ''        mavenCentral()'',
     lit ''        maven { url = uri('' @ [34] @ lit ''https://storage.googleapis.com/download.flutter.io'' @ [34] @ lit '') }'',
     lit ''        gradlePluginPortal()'',
     lit ''    }'',
     lit ''}'',
     [],
     lit ''include('' @ [34] @ lit '':app'' @ [34] @ lit '')'']"

definition case_s13_settings_no_drm :: "pystr list" where
  "case_s13_settings_no_drm = [
     lit ''pluginManagement {'',
     lit ''    repositories {'',
     lit ''        google()'',
     lit ''        mavenCentral()'',
     lit ''        gradlePluginPortal()'',
     lit ''    }'',
     lit ''}'',
     [],
     lit ''include('' @ [34] @ lit '':app'' @ [34] @ lit '')'']"

definition case_s13_settings_no_url :: "pystr list" where
  "case_s13_settings_no_url = [
     lit ''pluginManagement {'',
     lit ''    repositories {'',
     lit ''        google()'',
     lit ''        mavenCentral()'',
     lit ''        gradlePluginPortal()'',
     lit ''    }'',
     lit ''}'',
     [],
     lit ''dependencyResolutionManagement {'',
     lit ''    repositoriesMode.set(RepositoriesMode.PREFER_SETTINGS)'',
     lit ''    repositories {'',
     lit ''        google()'',
     lit ''        mavenCentral()'',
     lit ''        gradlePluginPortal()'',
     lit ''    }'',
     lit ''}'',
     [],
     lit ''include('' @ [34] @ lit '':app'' @ [34] @ lit '')'']"

definition case_s17_gitignore_pass :: "pystr list" where
  "case_s17_gitignore_pass = [
     [],
     lit ''**/android/.gradle/**'',
     lit ''**/android/gradlew'',
     lit ''**/android/gradlew.bat'',
     lit ''**/android/local.properties'',
     lit ''**/.dart_tool/'',
     lit ''**/.flutter-plugins-dependencies'',
     lit ''!**/android/gradlew'',
     lit ''!**/android/gradlew.bat'',
     lit ''!**/android/gradle/wrapper/gradle-wrapper.jar'']"

definition case_s18_pubspec_lock_pass :: "pystr list" where
  "case_s18_pubspec_lock_pass = [
     lit ''packages:'',
     lit ''  async:'',
     lit ''    dependency: transitive'',
     lit ''    description:'',
     lit ''      name: async'',
     lit ''      sha256: e2eb0491ba5ddb6177742d2da23904574082139b07c1e33b8503b9f46f3e1a37'',
     lit ''      url: '' @ [34] @ lit ''https://pub.dev'' @ [34],
     lit ''    source: hosted'',
     lit ''    version: '' @ [34] @ lit ''2.13.1'' @ [34],
     lit ''  flutter:'',
     lit ''    dependency: '' @ [34] @ lit ''direct main'' @ [34],
     lit ''    description: flutter'',
     lit ''    source: sdk'',
     lit ''    version: '' @ [34] @ lit ''0.0.0'' @ [34],
     lit ''  flutter_test:'',
     lit ''    dependency: '' @ [34] @ lit ''direct dev'' @ [34],
     lit ''    description: flutter'',
     lit ''    source: sdk'',
     lit ''    version: '' @ [34] @ lit ''0.0.0'' @ [34]]"

definition case_s20_pubspec_pass :: "pystr list" where
  "case_s20_pubspec_pass = [
     lit ''name: opene2ee'',
     lit ''description: OpenE2EE'',
     lit ''version: 1.0.0+1'',
     lit ''environment:'',
     lit ''  sdk: ^3.12.1'',
     lit ''dependencies:'',
     lit ''  flutter:'',
     lit ''    sdk: flutter'',
     lit ''  cupertino_icons: ^1.0.8'',
     lit ''dev_dependencies:'',
     lit ''  flutter_test:'',
     lit ''    sdk: flutter'',
     lit ''  flutter_lints: ^6.0.0'']"

definition case_s20_pubspec_no_name :: "pystr list" where
  "case_s20_pubspec_no_name = [
     lit ''description: OpenE2EE'',
     lit ''environment:'',
     lit ''  sdk: ^3.12.1'',
     lit ''dependencies:'',
     lit ''  flutter:'',
     lit ''    sdk: flutter'',
     lit ''dev_dependencies:'',
     lit ''  flutter_test:'',
     lit ''    sdk: flutter'']"

definition s28_lines_a :: "pystr list" where
  "s28_lines_a = [
     lit ''_pollTimer = Timer.periodic(_pollPeriod, (_) => _apiTick());'']"

definition s28_lines_b :: "pystr list" where
  "s28_lines_b = [
     lit ''_mockTimer = Timer.periodic(_mockTickPeriod, (_) => _mockTick());'']"

definition case_s42_manifest_pass :: "pystr list" where
  "case_s42_manifest_pass = [
     lit ''<?xml version='' @ [34] @ lit ''1.0'' @ [34] @ lit '' encoding='' @ [34] @ lit ''utf-8'' @ [34] @ lit ''?>'',
     lit ''<manifest xmlns:android='' @ [34] @ lit ''http://schemas.android.com/apk/res/android'' @ [34],
     lit ''          xmlns:tools='' @ [34] @ lit ''http://schemas.android.com/tools'' @ [34] @ lit ''>'',
     [],
     lit ''    <uses-permission android:name='' @ [34] @ lit ''android.permission.INTERNET'' @ [34] @ lit '' />'',
     [],
     lit ''    <application'',
     lit ''        android:label='' @ [34] @ lit ''OpenE2EE'' @ [34],
     lit ''        android:usesCleartextTraffic='' @ [34] @ lit ''false'' @ [34],
     lit ''        tools:replace='' @ [34] @ lit ''android:usesCleartextTraffic'' @ [34] @ lit ''>'',
     lit ''        <activity android:name='' @ [34] @ lit ''.MainActivity'' @ [34] @ lit '' />'',
     lit ''    </application>'',
     [],
     lit ''    <queries>'',
     lit ''        <intent>'',
     lit ''            <action android:name='' @ [34] @ lit ''android.net.VpnService'' @ [34] @ lit '' />'',
     lit ''        </intent>'',
     lit ''        <package android:name='' @ [34] @ lit ''com.whatsapp'' @ [34] @ lit '' />'',
     lit ''        <package android:name='' @ [34] @ lit ''com.whatsapp.w4b'' @ [34] @ lit '' />'',
     lit ''    </queries>'',
     lit ''</manifest>'']"

definition case_s42_manifest_no_package :: "pystr list" where
  "case_s42_manifest_no_package = [
     lit ''<?xml version='' @ [34] @ lit ''1.0'' @ [34] @ lit '' encoding='' @ [34] @ lit ''utf-8'' @ [34] @ lit ''?>'',
     lit ''<manifest xmlns:android='' @ [34] @ lit ''http://schemas.android.com/apk/res/android'' @ [34],
     lit ''          xmlns:tools='' @ [34] @ lit ''http://schemas.android.com/tools'' @ [34] @ lit ''>'',
     [],
     lit ''    <application android:label='' @ [34] @ lit ''OpenE2EE'' @ [34] @ lit '' />'',
     [],
     lit ''    <queries>'',
     lit ''        <intent>'',
     lit ''            <action android:name='' @ [34] @ lit ''android.net.VpnService'' @ [34] @ lit '' />'',
     lit ''        </intent>'',
     lit ''        <!--'',
     lit ''          Sprint 10.1E: we handle WhatsApp via the intent://send?'',
     lit ''          scheme. No need to declare the package in <queries>'',
     lit ''          (will revisit).'',
     lit ''        -->'',
     lit ''    </queries>'',
     lit ''</manifest>'']"

definition case_s43_main_activity_pass :: "pystr list" where
  "case_s43_main_activity_pass = [
     lit ''package com.opene2ee.opene2ee'',
     [],
     lit ''import io.flutter.embedding.android.FlutterActivity'',
     lit ''import io.flutter.embedding.engine.FlutterEngine'',
     lit ''import io.flutter.plugin.common.MethodCall'',
     lit ''import io.flutter.plugin.common.MethodChannel'',
     [],
     lit ''class MainActivity : FlutterActivity() {'',
     lit ''    override fun configureFlutterEngine(flutterEngine: FlutterEngine) {'',
     lit ''        super.configureFlutterEngine(flutterEngine)'',
     lit ''        MethodChannel(flutterEngine.dartExecutor.binaryMessenger, '' @ [34] @ lit ''opene2ee/vpn'' @ [34] @ lit '')'',
     lit ''            .setMethodCallHandler { call, result ->'',
     lit ''                when (call.method) {'',
     lit ''                    '' @ [34] @ lit ''start'' @ [34] @ lit '' -> result.success('' @ [34] @ lit ''started'' @ [34] @
       lit '')'',
     lit ''                    '' @ [34] @ lit ''stop'' @ [34] @ lit '' -> result.success('' @ [34] @ lit ''stopped'' @ [34] @
       lit '')'',
     lit ''                    '' @ [34] @ lit ''status'' @ [34] @ lit '' -> result.success('' @ [34] @ lit ''idle'' @ [34] @
       lit '')'',
     lit ''                    '' @ [34] @ lit ''getSampledPackets'' @ [34] @ lit '' -> {'',
     lit ''                        val mockPackets = listOf('',
     lit ''                            mapOf('' @ [34] @ lit ''version'' @ [34] @ lit '' to 4, '' @ [34] @ lit ''protocol'' @
       [34] @ lit '' to 6)'',
     lit ''                        )'',
     lit ''                        result.success(mockPackets)'',
     lit ''                    }'',
     lit ''                    else -> result.notImplemented()'',
     lit ''                }'',
     lit ''            }'',
     lit ''    }'',
     lit ''}'']"

definition case_s43_main_activity_no_handler :: "pystr list" where
  "case_s43_main_activity_no_handler = [
     lit ''package com.opene2ee.opene2ee'',
     [],
     lit ''import io.flutter.embedding.android.FlutterActivity'',
     lit ''import io.flutter.embedding.engine.FlutterEngine'',
     lit ''import io.flutter.plugin.common.MethodCall'',
     lit ''import io.flutter.plugin.common.MethodChannel'',
     [],
     lit ''class MainActivity : FlutterActivity() {'',
     lit ''    // TODO(port-vpn-service): OpenE2eeVpnService.attachFlutterEngine'',
     lit ''    // will be uncommented in Sprint 10.2 '' @ [8212] @ lit '' it will own the'',
     lit ''    // `opene2ee/vpn` channel. For now we only have the'',
     lit ''    // `opene2ee/vpn_permissions` channel wired in this activity.'',
     lit ''    //'',
     lit ''    // The `getSampledPackets` handler is the responsibility of'',
     lit ''    // the (not-yet-ported) OpenE2eeVpnService class.'',
     [],
     lit ''    override fun configureFlutterEngine(flutterEngine: FlutterEngine) {'',
     lit ''        super.configureFlutterEngine(flutterEngine)'',
     lit ''        MethodChannel(flutterEngine.dartExecutor.binaryMessenger, '' @ [34] @ lit ''opene2ee/vpn_permissions'' @
       [34] @ lit '')'',
     lit ''            .setMethodCallHandler { call, result ->'',
     lit ''                when (call.method) {'',
     lit ''                    '' @ [34] @ lit ''requestVpnPermission'' @ [34] @ lit '' -> result.success(true)'',
     lit ''                    '' @ [34] @ lit ''isVpnPrepared'' @ [34] @ lit '' -> result.success(false)'',
     lit ''                    else -> result.notImplemented()'',
     lit ''                }'',
     lit ''            }'',
     lit ''    }'',
     lit ''}'']"

subsection \<open>The documents in them\<close>

definition case_s6_pass_doc :: "pyval list res" where
  "case_s6_pass_doc = Inr [PDict [
     (PStr (lit ''name''), PStr (lit ''Android Debug APK'')),
     (PBool True, PDict [
      (PStr (lit ''workflow_dispatch''), PNone)]),
     (PStr (lit ''jobs''), PDict [
      (PStr (lit ''android-debug''), PDict [
       (PStr (lit ''runs-on''), PStr (lit ''ubuntu-latest'')),
       (PStr (lit ''steps''), PList [
        PDict [
         (PStr (lit ''name''), PStr (lit ''Checkout'')),
         (PStr (lit ''uses''), PStr (lit ''actions/checkout@v4''))],
        PDict [
         (PStr (lit ''name''), PStr (lit ''Setup Flutter'')),
         (PStr (lit ''uses''), PStr (lit ''subosito/flutter-action@v2'')),
         (PStr (lit ''with''), PDict [
          (PStr (lit ''flutter-version''), PStr (lit ''3.44.1''))])],
        PDict [
         (PStr (lit ''name''), PStr (lit ''Install Flutter dependencies'')),
         (PStr (lit ''working-directory''), PStr (lit ''./mobile'')),
         (PStr (lit ''run''), PStr (lit ''flutter pub get''))],
        PDict [
         (PStr (lit ''name''), PStr (lit ''Build Debug APK'')),
         (PStr (lit ''working-directory''), PStr (lit ''./mobile/android'')),
         (PStr (lit ''run''), PStr (lit ''./gradlew assembleDebug''))]])])])]]"

definition case_s6_step_missing_doc :: "pyval list res" where
  "case_s6_step_missing_doc = Inr [PDict [
     (PStr (lit ''name''), PStr (lit ''Android Debug APK'')),
     (PBool True, PDict [
      (PStr (lit ''workflow_dispatch''), PNone)]),
     (PStr (lit ''jobs''), PDict [
      (PStr (lit ''android-debug''), PDict [
       (PStr (lit ''runs-on''), PStr (lit ''ubuntu-latest'')),
       (PStr (lit ''steps''), PList [
        PDict [
         (PStr (lit ''name''), PStr (lit ''Checkout'')),
         (PStr (lit ''uses''), PStr (lit ''actions/checkout@v4''))],
        PDict [
         (PStr (lit ''name''), PStr (lit ''Setup Flutter'')),
         (PStr (lit ''uses''), PStr (lit ''subosito/flutter-action@v2'')),
         (PStr (lit ''with''), PDict [
          (PStr (lit ''flutter-version''), PStr (lit ''3.44.1''))])],
        PDict [
         (PStr (lit ''name''), PStr (lit ''Verify Flutter dependency cache'')),
         (PStr (lit ''run''), PStr (lit ''flutter --version''))],
        PDict [
         (PStr (lit ''name''), PStr (lit ''Build Debug APK'')),
         (PStr (lit ''working-directory''), PStr (lit ''./mobile/android'')),
         (PStr (lit ''run''), PStr (lit ''./gradlew assembleDebug''))]])])])]]"

definition case_s6_wrong_wd_doc :: "pyval list res" where
  "case_s6_wrong_wd_doc = Inr [PDict [
     (PStr (lit ''name''), PStr (lit ''Android Debug APK'')),
     (PBool True, PDict [
      (PStr (lit ''workflow_dispatch''), PNone)]),
     (PStr (lit ''jobs''), PDict [
      (PStr (lit ''android-debug''), PDict [
       (PStr (lit ''runs-on''), PStr (lit ''ubuntu-latest'')),
       (PStr (lit ''steps''), PList [
        PDict [
         (PStr (lit ''name''), PStr (lit ''Checkout'')),
         (PStr (lit ''uses''), PStr (lit ''actions/checkout@v4''))],
        PDict [
         (PStr (lit ''name''), PStr (lit ''Install Flutter dependencies'')),
         (PStr (lit ''working-directory''), PStr (lit ''./mobile/android'')),
         (PStr (lit ''run''), PStr (lit ''flutter pub get''))],
        PDict [
         (PStr (lit ''name''), PStr (lit ''Build Debug APK'')),
         (PStr (lit ''working-directory''), PStr (lit ''./mobile/android'')),
         (PStr (lit ''run''), PStr (lit ''./gradlew assembleDebug''))]])])])]]"

definition case_s6_wrong_run_doc :: "pyval list res" where
  "case_s6_wrong_run_doc = Inr [PDict [
     (PStr (lit ''name''), PStr (lit ''Android Debug APK'')),
     (PBool True, PDict [
      (PStr (lit ''workflow_dispatch''), PNone)]),
     (PStr (lit ''jobs''), PDict [
      (PStr (lit ''android-debug''), PDict [
       (PStr (lit ''runs-on''), PStr (lit ''ubuntu-latest'')),
       (PStr (lit ''steps''), PList [
        PDict [
         (PStr (lit ''name''), PStr (lit ''Checkout'')),
         (PStr (lit ''uses''), PStr (lit ''actions/checkout@v4''))],
        PDict [
         (PStr (lit ''name''), PStr (lit ''Install Flutter dependencies'')),
         (PStr (lit ''working-directory''), PStr (lit ''./mobile'')),
         (PStr (lit ''run''), PStr (lit ''echo hello''))],
        PDict [
         (PStr (lit ''name''), PStr (lit ''Build Debug APK'')),
         (PStr (lit ''working-directory''), PStr (lit ''./mobile/android'')),
         (PStr (lit ''run''), PStr (lit ''./gradlew assembleDebug''))]])])])]]"

definition case_s7_pubspec_pass_doc :: "pyval res" where
  "case_s7_pubspec_pass_doc = Inr (PDict [
     (PStr (lit ''name''), PStr (lit ''opene2ee'')),
     (PStr (lit ''description''), PStr (lit ''OpenE2EE'')),
     (PStr (lit ''version''), PStr (lit ''1.0.0+1'')),
     (PStr (lit ''environment''), PDict [
      (PStr (lit ''sdk''), PStr (lit ''^3.12.1''))]),
     (PStr (lit ''dependencies''), PDict [
      (PStr (lit ''flutter''), PDict [
       (PStr (lit ''sdk''), PStr (lit ''flutter''))]),
      (PStr (lit ''cupertino_icons''), PStr (lit ''^1.0.8'')),
      (PStr (lit ''flutter_riverpod''), PStr (lit ''^2.5.1'')),
      (PStr (lit ''go_router''), PStr (lit ''^14.2.7''))]),
     (PStr (lit ''dev_dependencies''), PDict [
      (PStr (lit ''flutter_test''), PDict [
       (PStr (lit ''sdk''), PStr (lit ''flutter''))])])])"

definition case_s7_pubspec_no_riverpod_doc :: "pyval res" where
  "case_s7_pubspec_no_riverpod_doc = Inr (PDict [
     (PStr (lit ''name''), PStr (lit ''opene2ee'')),
     (PStr (lit ''version''), PStr (lit ''1.0.0+1'')),
     (PStr (lit ''dependencies''), PDict [
      (PStr (lit ''flutter''), PDict [
       (PStr (lit ''sdk''), PStr (lit ''flutter''))]),
      (PStr (lit ''go_router''), PStr (lit ''^14.2.7''))])])"

definition case_s8_xml_pass_doc :: "xml res" where
  "case_s8_xml_pass_doc = Inr (Elem (lit ''network-security-config'')
     []
     [
     Elem (lit ''base-config'')
      [(lit ''cleartextTrafficPermitted'', lit ''false'')]
      [
      Elem (lit ''trust-anchors'')
       []
       [
       Elem (lit ''certificates'')
        [(lit ''src'', lit ''system'')]
        []]],
     Elem (lit ''domain-config'')
      []
      [
      Elem (lit ''domain'')
       [(lit ''includeSubdomains'', lit ''true'')]
       [],
      Elem (lit ''pin-set'')
       [(lit ''expiration'', lit ''2027-07-07'')]
       [
       Elem (lit ''pin'')
        [(lit ''digest'', lit ''SHA-256'')]
        []]]])"

definition case_s8_xml_bad_doc :: "xml res" where
  "case_s8_xml_bad_doc = Inl ParseError"

definition case_s9_manifest_pass_doc :: "xml res" where
  "case_s9_manifest_pass_doc = Inr (Elem (lit ''manifest'')
     []
     [
     Elem (lit ''application'')
      [(lit ''{http://schemas.android.com/apk/res/android}label'', lit ''OpenE2EE''),(lit ''{http://schemas.android.com/apk/res/android}usesCleartextTraffic'', lit ''false''),(lit ''{http://schemas.android.com/tools}replace'', lit ''android:usesCleartextTraffic''),(lit ''{http://schemas.android.com/apk/res/android}networkSecurityConfig'', lit ''@xml/network_security_config'')]
      []])"

definition case_s9_manifest_package_doc :: "xml res" where
  "case_s9_manifest_package_doc = Inr (Elem (lit ''manifest'')
     [(lit ''package'', lit ''com.opene2ee.opene2ee'')]
     [
     Elem (lit ''application'')
      [(lit ''{http://schemas.android.com/apk/res/android}label'', lit ''OpenE2EE''),(lit ''{http://schemas.android.com/apk/res/android}usesCleartextTraffic'', lit ''false''),(lit ''{http://schemas.android.com/tools}replace'', lit ''android:usesCleartextTraffic'')]
      []])"

definition case_s9_manifest_tools_remove_doc :: "xml res" where
  "case_s9_manifest_tools_remove_doc = Inr (Elem (lit ''manifest'')
     []
     [
     Elem (lit ''application'')
      [(lit ''{http://schemas.android.com/apk/res/android}label'', lit ''OpenE2EE''),(lit ''{http://schemas.android.com/apk/res/android}usesCleartextTraffic'', lit ''false''),(lit ''{http://schemas.android.com/tools}remove'', lit ''android:usesCleartextTraffic'')]
      []])"

definition case_s10_styles_pass_doc :: "xml res" where
  "case_s10_styles_pass_doc = Inr (Elem (lit ''resources'')
     []
     [
     Elem (lit ''style'')
      [(lit ''name'', lit ''LaunchTheme''),(lit ''parent'', lit ''@android:style/Theme.Light.NoTitleBar'')]
      [
      Elem (lit ''item'')
       [(lit ''name'', lit ''android:windowBackground'')]
       []],
     Elem (lit ''style'')
      [(lit ''name'', lit ''NormalTheme''),(lit ''parent'', lit ''@android:style/Theme.Light.NoTitleBar'')]
      [
      Elem (lit ''item'')
       [(lit ''name'', lit ''android:windowBackground'')]
       []]])"

definition case_s10_styles_no_launch_doc :: "xml res" where
  "case_s10_styles_no_launch_doc = Inr (Elem (lit ''resources'')
     []
     [
     Elem (lit ''style'')
      [(lit ''name'', lit ''SomeOther''),(lit ''parent'', lit ''@android:style/Theme.Light.NoTitleBar'')]
      [],
     Elem (lit ''style'')
      [(lit ''name'', lit ''NormalTheme''),(lit ''parent'', lit ''@android:style/Theme.Light.NoTitleBar'')]
      []])"

definition case_s11_fpd_pass_doc :: "pyval res" where
  "case_s11_fpd_pass_doc = Inr (PDict [
     (PStr (lit ''info''), PStr (lit ''This is a generated file; do not edit or check into version control.'')),
     (PStr (lit ''plugins''), PDict [
      (PStr (lit ''android''), PList [
       PDict [
        (PStr (lit ''name''), PStr (lit ''flutter_plugin_android_lifecycle'')),
        (PStr (lit ''path''), PStr (lit ''C:/Users/User/AppData/Local/Pub/Cache/hosted/pub.dev/flutter_plugin_android_lifecycle-2.0.35/'')),
        (PStr (lit ''native_build''), PBool True),
        (PStr (lit ''dependencies''), PList []),
        (PStr (lit ''dev_dependency''), PBool False)],
       PDict [
        (PStr (lit ''name''), PStr (lit ''flutter_secure_storage'')),
        (PStr (lit ''path''), PStr (lit ''C:/Users/User/AppData/Local/Pub/Cache/hosted/pub.dev/flutter_secure_storage-9.2.4/'')),
        (PStr (lit ''native_build''), PBool True),
        (PStr (lit ''dependencies''), PList []),
        (PStr (lit ''dev_dependency''), PBool False)],
       PDict [
        (PStr (lit ''name''), PStr (lit ''flutter_webrtc'')),
        (PStr (lit ''path''), PStr (lit ''C:/Users/User/AppData/Local/Pub/Cache/hosted/pub.dev/flutter_webrtc-1.5.2/'')),
        (PStr (lit ''native_build''), PBool True),
        (PStr (lit ''dependencies''), PList []),
        (PStr (lit ''dev_dependency''), PBool False)],
       PDict [
        (PStr (lit ''name''), PStr (lit ''jni'')),
        (PStr (lit ''path''), PStr (lit ''C:/Users/User/AppData/Local/Pub/Cache/hosted/pub.dev/jni-1.0.0/'')),
        (PStr (lit ''native_build''), PBool True),
        (PStr (lit ''dependencies''), PList []),
        (PStr (lit ''dev_dependency''), PBool False)],
       PDict [
        (PStr (lit ''name''), PStr (lit ''jni_flutter'')),
        (PStr (lit ''path''), PStr (lit ''C:/Users/User/AppData/Local/Pub/Cache/hosted/pub.dev/jni_flutter-1.0.1/'')),
        (PStr (lit ''native_build''), PBool True),
        (PStr (lit ''dependencies''), PList [
         PStr (lit ''jni'')]),
        (PStr (lit ''dev_dependency''), PBool False)],
       PDict [
        (PStr (lit ''name''), PStr (lit ''local_auth_android'')),
        (PStr (lit ''path''), PStr (lit ''C:/Users/User/AppData/Local/Pub/Cache/hosted/pub.dev/local_auth_android-1.0.46/'')),
        (PStr (lit ''native_build''), PBool True),
        (PStr (lit ''dependencies''), PList []),
        (PStr (lit ''dev_dependency''), PBool False)],
       PDict [
        (PStr (lit ''name''), PStr (lit ''path_provider_android'')),
        (PStr (lit ''path''), PStr (lit ''C:/Users/User/AppData/Local/Pub/Cache/hosted/pub.dev/path_provider_android-2.2.10/'')),
        (PStr (lit ''native_build''), PBool False),
        (PStr (lit ''dependencies''), PList []),
        (PStr (lit ''dev_dependency''), PBool False)]])])])"

definition case_s11_fpd_empty_android_doc :: "pyval res" where
  "case_s11_fpd_empty_android_doc = Inr (PDict [
     (PStr (lit ''info''), PStr (lit ''This is a generated file; do not edit or check into version control.'')),
     (PStr (lit ''plugins''), PDict [
      (PStr (lit ''android''), PList [])])])"

definition case_s18_pubspec_lock_pass_doc :: "pyval res" where
  "case_s18_pubspec_lock_pass_doc = Inr (PDict [
     (PStr (lit ''packages''), PDict [
      (PStr (lit ''async''), PDict [
       (PStr (lit ''dependency''), PStr (lit ''transitive'')),
       (PStr (lit ''description''), PDict [
        (PStr (lit ''name''), PStr (lit ''async'')),
        (PStr (lit ''sha256''), PStr (lit ''e2eb0491ba5ddb6177742d2da23904574082139b07c1e33b8503b9f46f3e1a37'')),
        (PStr (lit ''url''), PStr (lit ''https://pub.dev''))]),
       (PStr (lit ''source''), PStr (lit ''hosted'')),
       (PStr (lit ''version''), PStr (lit ''2.13.1''))]),
      (PStr (lit ''flutter''), PDict [
       (PStr (lit ''dependency''), PStr (lit ''direct main'')),
       (PStr (lit ''description''), PStr (lit ''flutter'')),
       (PStr (lit ''source''), PStr (lit ''sdk'')),
       (PStr (lit ''version''), PStr (lit ''0.0.0''))]),
      (PStr (lit ''flutter_test''), PDict [
       (PStr (lit ''dependency''), PStr (lit ''direct dev'')),
       (PStr (lit ''description''), PStr (lit ''flutter'')),
       (PStr (lit ''source''), PStr (lit ''sdk'')),
       (PStr (lit ''version''), PStr (lit ''0.0.0''))])])])"

definition case_s20_pubspec_pass_doc :: "pyval res" where
  "case_s20_pubspec_pass_doc = Inr (PDict [
     (PStr (lit ''name''), PStr (lit ''opene2ee'')),
     (PStr (lit ''description''), PStr (lit ''OpenE2EE'')),
     (PStr (lit ''version''), PStr (lit ''1.0.0+1'')),
     (PStr (lit ''environment''), PDict [
      (PStr (lit ''sdk''), PStr (lit ''^3.12.1''))]),
     (PStr (lit ''dependencies''), PDict [
      (PStr (lit ''flutter''), PDict [
       (PStr (lit ''sdk''), PStr (lit ''flutter''))]),
      (PStr (lit ''cupertino_icons''), PStr (lit ''^1.0.8''))]),
     (PStr (lit ''dev_dependencies''), PDict [
      (PStr (lit ''flutter_test''), PDict [
       (PStr (lit ''sdk''), PStr (lit ''flutter''))]),
      (PStr (lit ''flutter_lints''), PStr (lit ''^6.0.0''))])])"

definition case_s20_pubspec_no_name_doc :: "pyval res" where
  "case_s20_pubspec_no_name_doc = Inr (PDict [
     (PStr (lit ''description''), PStr (lit ''OpenE2EE'')),
     (PStr (lit ''environment''), PDict [
      (PStr (lit ''sdk''), PStr (lit ''^3.12.1''))]),
     (PStr (lit ''dependencies''), PDict [
      (PStr (lit ''flutter''), PDict [
       (PStr (lit ''sdk''), PStr (lit ''flutter''))])]),
     (PStr (lit ''dev_dependencies''), PDict [
      (PStr (lit ''flutter_test''), PDict [
       (PStr (lit ''sdk''), PStr (lit ''flutter''))])])])"

definition yaml_texts :: "(pystr \<times> pyval res) list" where
  "yaml_texts = [
     (text_lines case_s7_pubspec_pass, case_s7_pubspec_pass_doc),
     (text_lines case_s7_pubspec_no_riverpod, case_s7_pubspec_no_riverpod_doc),
     (text_lines case_s18_pubspec_lock_pass, case_s18_pubspec_lock_pass_doc),
     (text_lines case_s20_pubspec_pass, case_s20_pubspec_pass_doc),
     (text_lines case_s20_pubspec_no_name, case_s20_pubspec_no_name_doc)]"

definition yaml_streams :: "(pystr \<times> pyval list res) list" where
  "yaml_streams = [
     (text_lines case_s6_pass, case_s6_pass_doc),
     (text_lines case_s6_step_missing, case_s6_step_missing_doc),
     (text_lines case_s6_wrong_wd, case_s6_wrong_wd_doc),
     (text_lines case_s6_wrong_run, case_s6_wrong_run_doc)]"

definition json_texts :: "(pystr \<times> pyval res) list" where
  "json_texts = [
     (py_join [NL] case_s11_fpd_pass, case_s11_fpd_pass_doc),
     (py_join [NL] case_s11_fpd_empty_android, case_s11_fpd_empty_android_doc)]"

definition xml_texts :: "(pystr \<times> xml res) list" where
  "xml_texts = [
     (text_lines case_s8_xml_pass, case_s8_xml_pass_doc),
     (text_lines case_s8_xml_bad, case_s8_xml_bad_doc),
     (text_lines case_s9_manifest_pass, case_s9_manifest_pass_doc),
     (text_lines case_s9_manifest_package, case_s9_manifest_package_doc),
     (text_lines case_s9_manifest_tools_remove, case_s9_manifest_tools_remove_doc),
     (text_lines case_s10_styles_pass, case_s10_styles_pass_doc),
     (text_lines case_s10_styles_no_launch, case_s10_styles_no_launch_doc)]"

text \<open>What the parsers return on the texts.\<close>

definition parses_fixtures :: "world \<Rightarrow> bool" where
  "parses_fixtures w \<longleftrightarrow> list_all (\<lambda>(t, v). yaml_load w t = v) yaml_texts \<and> list_all (\<lambda>(t, v). yaml_load_all w t = v) yaml_streams \<and>
     list_all (\<lambda>(t, v). json_load w t = v) json_texts \<and> list_all (\<lambda>(t, v). xml_parse w t = v) xml_texts"

lemma fixture_docs:
  assumes "parses_fixtures w"
  shows "yaml_load w (text_lines case_s7_pubspec_pass) = case_s7_pubspec_pass_doc"
    "yaml_load w (text_lines case_s7_pubspec_no_riverpod) = case_s7_pubspec_no_riverpod_doc"
    "yaml_load w (text_lines case_s18_pubspec_lock_pass) = case_s18_pubspec_lock_pass_doc"
    "yaml_load w (text_lines case_s20_pubspec_pass) = case_s20_pubspec_pass_doc"
    "yaml_load w (text_lines case_s20_pubspec_no_name) = case_s20_pubspec_no_name_doc"
    "yaml_load_all w (text_lines case_s6_pass) = case_s6_pass_doc"
    "yaml_load_all w (text_lines case_s6_step_missing) = case_s6_step_missing_doc"
    "yaml_load_all w (text_lines case_s6_wrong_wd) = case_s6_wrong_wd_doc"
    "yaml_load_all w (text_lines case_s6_wrong_run) = case_s6_wrong_run_doc"
    "json_load w (py_join [NL] case_s11_fpd_pass) = case_s11_fpd_pass_doc"
    "json_load w (py_join [NL] case_s11_fpd_empty_android) = case_s11_fpd_empty_android_doc"
    "xml_parse w (text_lines case_s8_xml_pass) = case_s8_xml_pass_doc"
    "xml_parse w (text_lines case_s8_xml_bad) = case_s8_xml_bad_doc"
    "xml_parse w (text_lines case_s9_manifest_pass) = case_s9_manifest_pass_doc"
    "xml_parse w (text_lines case_s9_manifest_package) = case_s9_manifest_package_doc"
    "xml_parse w (text_lines case_s9_manifest_tools_remove) = case_s9_manifest_tools_remove_doc"
    "xml_parse w (text_lines case_s10_styles_pass) = case_s10_styles_pass_doc"
    "xml_parse w (text_lines case_s10_styles_no_launch) = case_s10_styles_no_launch_doc"
  using assms by (simp_all add: parses_fixtures_def yaml_texts_def yaml_streams_def json_texts_def xml_texts_def)

text \<open>S1 to S5 on the lines of the stripped code.\<close>

lemma import_on_line: "list_ex (\<lambda>l. l = lit ''import '' @ lit cls) ls \<Longrightarrow> has_import cls (py_join [NL] ls)"
proof -
  have line: "lit ''import '' @ lit cls = lit ''import'' @ [32] @ lit cls" by (simp add: lit_def)
  assume "list_ex (\<lambda>l. l = lit ''import '' @ lit cls) ls"
  then have "lit ''import'' @ [32] @ lit cls \<in> set ls" unfolding line list_ex_iff by blast
  then obtain xs ys where ls: "ls = xs @ (lit ''import'' @ [32] @ lit cls) # ys" by (blast dest: split_list)
  from line_in_join [of xs "lit ''import'' @ [32] @ lit cls" ys] obtain p q where
    "py_join [NL] ls = p @ (lit ''import'' @ [32] @ lit cls) @ q" "p = [] \<or> last p = NL" "q = [] \<or> hd q = NL"
    unfolding ls by blast
  then show ?thesis unfolding has_import_def append_assoc
    by (intro exI [of _ p] exI [of _ "[32]"] exI [of _ "[]"] exI [of _ q]) (simp add: is_space_def)
qed

lemma import_names_class: "has_import cls code \<Longrightarrow> contains code (lit cls)"
  unfolding has_import_def contains_iff by (metis append.assoc)

lemma import_then_space: "has_import cls code \<Longrightarrow> \<exists>c. is_space c \<and> contains (code @ [NL]) (lit cls @ [c])"
proof -
  assume "has_import cls code"
  then obtain p w1 w2 q where code: "code = p @ lit ''import'' @ w1 @ lit cls @ w2 @ q"
    and w: "\<forall>x\<in>set w2. is_space x" and q: "q = [] \<or> hd q = NL" by (auto simp: has_import_def)
  define c where "c = hd (w2 @ q @ [NL])"
  have "w2 @ q @ [NL] = c # tl (w2 @ q @ [NL])" by (simp add: c_def)
  then have "code @ [NL] = (p @ lit ''import'' @ w1) @ (lit cls @ [c]) @ tl (w2 @ q @ [NL])" unfolding code by simp
  then have "contains (code @ [NL]) (lit cls @ [c])" unfolding contains_iff by blast
  moreover have "is_space c" using w q by (cases w2; cases q) (auto simp: c_def is_space_def)
  ultimately show ?thesis by blast
qed

lemma no_import_on_lines:
  assumes "ls \<noteq> []" and "one_line (lit cls)"
    and "\<And>c. is_space c \<Longrightarrow> \<not> list_ex (\<lambda>l. contains (l @ [NL]) (lit cls @ [c])) ls"
  shows "\<not> has_import cls (py_join [NL] ls)"
  using import_then_space [of cls "py_join [NL] ls"] literal_before_char [of "lit cls" ls] assms
  by (auto simp: one_line_def simp flip: text_lines_join)

definition jvm_target_line :: pystr where
  "jvm_target_line = lit ''    compilerOptions { jvmTarget.set(JvmTarget.JVM_17) }''"

lemma compiler_on_lines:
  assumes "ls = xs @ lit ''kotlin {'' # jvm_target_line # ys"
  shows "has_compiler_options (py_join [NL] ls)"
proof -
  have lines: "lit ''kotlin {'' @ NL # jvm_target_line =
      lit ''kotlin'' @ [32] @ lit ''{'' @ (NL # [32, 32, 32, 32]) @ lit ''compilerOptions'' @ [32] @ lit ''{'' @ [32] @
      lit ''jvmTarget.set(JvmTarget.JVM_17)'' @ lit '' }''"
    by (simp add: jvm_target_line_def lit_def)
  obtain p q where "py_join [NL] ls = p @ (lit ''kotlin {'' @ NL # jvm_target_line) @ q"
    using two_lines_in_join [of xs "lit ''kotlin {''" jvm_target_line ys] unfolding assms contains_iff by blast
  then show ?thesis
    unfolding has_compiler_options_def lines append_assoc
    by (intro exI conjI, assumption) (simp_all add: is_space_def)
qed

lemma compiler_needs_name: "has_compiler_options code \<Longrightarrow> contains code (lit ''compilerOptions'')"
  unfolding has_compiler_options_def contains_iff by (metis append.assoc)

lemma kotlin_needs_name: "has_kotlin_options code \<Longrightarrow> contains code (lit ''kotlinOptions'')"
  unfolding has_kotlin_options_def contains_iff by (metis append_Nil)

lemma kotlin_on_line:
  assumes "contains code (lit ''kotlinOptions { jvmTarget = '' @ [34] @ lit ''17'' @ [34])"
  shows "has_kotlin_options code"
proof -
  have line: "lit ''kotlinOptions { jvmTarget = '' @ [34] @ lit ''17'' @ [34] = lit ''kotlinOptions'' @ [32] @ lit ''{'' @ [32] @
      lit ''jvmTarget'' @ [32] @ lit ''='' @ [32] @ [34] @ lit ''17'' @ [34]" by (simp add: lit_def)
  from assms obtain p q where "code = p @ (lit ''kotlinOptions { jvmTarget = '' @ [34] @ lit ''17'' @ [34]) @ q"
    unfolding contains_iff by blast
  then show ?thesis
    unfolding has_kotlin_options_def line append_assoc
    by (intro exI conjI, assumption) (simp_all add: is_space_def lit_def is_digit_def digit_of_ascii)
qed

lemmas syntax_rules = run_check_def Let_def search_import search_kotlin_options search_compiler_options search_Str

text \<open>S12 and S13: a block whose header and closing brace stand on lines of their own.\<close>

lemma block_on_lines:
  fixes xs bs ys name
  defines "t \<equiv> text_lines (xs @ (lit name @ lit '' {'') # bs @ lit ''}'' # ys)"
  assumes "one_line (lit name)" and "\<not> list_ex (\<lambda>l. contains l (lit name)) xs" and "\<not> is_space (hd (lit name))"
    and "balanced (text_lines ([] # bs))"
  shows "\<exists>m. re_search (block_re name) t = Some m \<and> block_from t (m_end m) = Inr (text_lines ([] # bs))"
proof -
  have t: "t = text_lines xs @ lit name @ [32] @ 123 # (text_lines ([] # bs) @ 125 # NL # text_lines ys)"
    by (simp add: t_def text_lines_def lit_def)
  have "text_lines xs = [] \<or> last (text_lines xs) = NL" by (cases xs rule: rev_cases) (simp_all add: text_lines_def)
  moreover have "\<not> contains (text_lines xs @ butlast (lit name)) (lit name)"
    using assms(2,3) by (simp add: contains_after_lines contains_butlast one_line_def)
  ultimately obtain m where m: "re_search (block_re name) t = Some m" and e: "m_end m = length (text_lines xs @ lit name @ [32] @ [123])"
    using block_re_at_name [of "text_lines xs" name "[32]" "text_lines ([] # bs) @ 125 # NL # text_lines ys"] assms(4)
    unfolding t by (auto simp: is_space_def)
  have "drop (m_end m) t = text_lines ([] # bs) @ 125 # NL # text_lines ys" unfolding e t by simp
  with m assms(5) show ?thesis unfolding block_from_spec by blast
qed

lemma balanced_by_counting: "block_from (b @ [125]) 0 = Inr b \<Longrightarrow> balanced b"
  unfolding block_from_spec by auto

text \<open>S8: a text with one comment, whose marks stand on lines of their own.\<close>

lemma one_comment:
  assumes "m \<in> set (re_finditer xml_comment_re t)" and "t = text_lines (xs @ lit ''<!--'' # bs @ lit ''-->'' # ys)"
    and "\<not> list_ex (\<lambda>l. contains l (lit ''<!--'')) (xs @ bs @ lit ''-->'' # ys)" and "\<not> list_ex (\<lambda>l. contains l (lit ''-->'')) (bs @ ys)"
  shows "grp 1 m = text_lines ([] # bs)"
proof -
  from re_finditer_sound [OF assms(1)] obtain u x v where t: "t = u @ x @ v" and L: "lang xml_comment_re u x v [] (m_caps m)" by blast
  from L obtain g where x: "x = lit ''<!--'' @ g @ lit ''-->''" and g: "grp 1 m = g"
    by (auto simp: xml_comment_re_def lang_simps lang.simps(6) cat_simps grp_def group_def)
  have one: "one_line (lit ''<!--'')" "one_line (lit ''-->'')" by (simp_all add: one_line_def NL_in_lit lit_Nil)
  have "g @ lit ''-->'' @ v = text_lines (([] # bs) @ lit ''-->'' # ys)"
    using unique_line [of xs "lit ''<!--''" "bs @ lit ''-->'' # ys" u "g @ lit ''-->'' @ v"] t x assms(2,3) one(1) by simp
  then have "g = text_lines ([] # bs)"
    using unique_line [of "[] # bs" "lit ''-->''" ys g v] assms(4) one(2) by (simp add: lit_Nil)
  with g show ?thesis by simp
qed

lemmas build_rules = contains_text_lines contains_lines try_doc_def Let_def has_key_def dget_def GRADLE_WRAPPER_RE_INCLUDE_PATTERNS_def
  MOBILE_FLUTTER_EXCLUDE_PATTERNS_def s6_job_def s6_step_def s6_initial_def step_str_def bad_sdk_dep_def xmlns_tools_pattern_def
  namespace_line_def ANDROID_TOOLS_NS_def ANDROID_APP_NAMESPACE_def ANDROID_NS_def cleartext_conflict_def xml_iter_def xml_findall_def xml_get_def
  style_names_def ns_attr_def

subsection \<open>The cases\<close>

definition s28_messages :: message_table where
  "s28_messages = [
     (''file missing'', lit ''S28 fail (file missing)'', []),
     (''mock callback'', lit ''S28 fail (mock Timer.periodic callback '', lit '')'')]"

definition s42_messages :: message_table where
  "s42_messages = [
     (''file missing'', lit ''S42 fail (manifest missing)'', []),
     (''<queries> missing'', lit ''S42 fail (<queries> block missing)'', []),
     (''package missing'', lit ''S42 fail (<package android:name='' @ [34] @ lit ''com.whatsapp'' @ [34] @ lit '' /> missing)'', [])]"

definition s43_messages :: message_table where
  "s43_messages = [
     (''file missing'', lit ''S43 fail (MainActivity.kt missing)'', []),
     (''when missing'', lit ''S43 fail (when (call.method) block missing)'', []),
     (''case missing'', lit ''S43 fail ('' @ [34] @ lit ''getSampledPackets'' @ [34] @ lit '' case missing)'', [])]"

definition test_s1_a :: "test_case" where
  "test_s1_a = (
      lit ''PASS (Sprint 9.6.6 fixed file)'',
      Inr (map lit (run_check (text_lines case_pass))),
      [])"

definition test_s1_b :: "test_case" where
  "test_s1_b = (
      lit ''S1+S5 fail (Sprint 9.6.5 broken state: no real import + fully-qualified usage)'',
      Inr (map lit (run_check (text_lines case_s1_fail))),
      [lit ''S1 fail'', lit ''S5 fail''])"

definition test_s1_c :: "test_case" where
  "test_s1_c = (
      lit ''S2 fail (missing JvmTarget import)'',
      Inr (map lit (run_check (text_lines case_s2_fail))),
      [lit ''S2 fail''])"

definition test_s1_d :: "test_case" where
  "test_s1_d = (
      lit ''S3 fail (deprecated kotlinOptions present)'',
      Inr (map lit (run_check (text_lines case_s3_fail))),
      [lit ''S3 fail''])"

definition test_s1_e :: "test_case" where
  "test_s1_e = (
      lit ''S4 fail (missing new kotlin compilerOptions block)'',
      Inr (map lit (run_check (text_lines case_s4_fail))),
      [lit ''S4 fail''])"

definition test_s1_f :: "test_case" where
  "test_s1_f = (
      lit ''S5 fail (fully-qualified java.util.Properties())'',
      Inr (map lit (run_check (text_lines case_s5_fail))),
      [lit ''S5 fail''])"

definition test_s6_a :: "world \<Rightarrow> test_case" where
  "test_s6_a w = (
      lit ''S6 PASS (Install Flutter dependencies step with working-directory=./mobile + flutter pub get)'',
      bindE (run_s6_check w (text_lines case_s6_pass)) (\<lambda>messages. Inr (map lit messages)),
      [])"

definition test_s6_b :: "world \<Rightarrow> test_case" where
  "test_s6_b w = (
      lit ''S6 FAIL (step missing entirely)'',
      bindE (run_s6_check w (text_lines case_s6_step_missing)) (\<lambda>messages. Inr (map lit messages)),
      [lit ''S6 fail''])"

definition test_s6_c :: "world \<Rightarrow> test_case" where
  "test_s6_c w = (
      lit ''S6 FAIL (working-directory=./mobile/android '' @ [8212] @ lit '' wrong Dart project root)'',
      bindE (run_s6_check w (text_lines case_s6_wrong_wd)) (\<lambda>messages. Inr (map lit messages)),
      [lit ''S6 fail''])"

definition test_s6_d :: "world \<Rightarrow> test_case" where
  "test_s6_d w = (
      lit ''S6 FAIL (run=echo hello '' @ [8212] @ lit '' not flutter pub get)'',
      bindE (run_s6_check w (text_lines case_s6_wrong_run)) (\<lambda>messages. Inr (map lit messages)),
      [lit ''S6 fail''])"

definition test_s7_a :: "world \<Rightarrow> test_case" where
  "test_s7_a w = (
      lit ''S7 PASS (lib/main.dart + runApp( + ProviderScope + pubspec flutter_riverpod + go_router)'',
      Inr (map lit (run_s7_check w (Some (text_lines case_s7_main_pass)) (Some (text_lines case_s7_pubspec_pass)))),
      [])"

definition test_s7_b :: "world \<Rightarrow> test_case" where
  "test_s7_b w = (
      lit ''S7 FAIL (lib/main.dart missing entirely)'',
      Inr (map lit (run_s7_check w None (Some (text_lines case_s7_pubspec_pass)))),
      [lit ''S7 fail''])"

definition test_s7_c :: "world \<Rightarrow> test_case" where
  "test_s7_c w = (
      lit ''S7 FAIL (lib/main.dart exists but no ProviderScope '' @ [8212] @ lit '' only runApp())'',
      Inr (map lit (run_s7_check w (Some (text_lines case_s7_no_providerscope)) (Some (text_lines case_s7_pubspec_pass)))),
      [lit ''S7 fail''])"

definition test_s7_d :: "world \<Rightarrow> test_case" where
  "test_s7_d w = (
      lit ''S7 FAIL (pubspec.yaml missing flutter_riverpod: dependency)'',
      Inr (map lit (run_s7_check w (Some (text_lines case_s7_main_pass)) (Some (text_lines case_s7_pubspec_no_riverpod)))),
      [lit ''S7 fail''])"

definition test_s8_a :: "world \<Rightarrow> test_case" where
  "test_s8_a w = (
      lit ''S8 PASS (Android XML well-formed; no `--` inside `<!-- -->`)'',
      Inr (map lit (run_s8_check w (Some (text_lines case_s8_xml_pass)))),
      [])"

definition test_s8_b :: "world \<Rightarrow> test_case" where
  "test_s8_b w = (
      lit ''S8 FAIL (comment contains `--` run '' @ [8212] @ lit '' Sprint 9.6.9 broken state)'',
      Inr (map lit (run_s8_check w (Some (text_lines case_s8_xml_bad)))),
      [lit ''S8 fail''])"

definition test_s9_a :: "world \<Rightarrow> test_case" where
  "test_s9_a w = (
      lit ''S9 PASS (manifest well-formed, no package attr, tools:replace, gradle namespace present)'',
      Inr (map lit (run_s9_check w (Some (text_lines case_s9_manifest_pass)) (Some (text_lines case_s9_gradle_pass)))),
      [])"

definition test_s9_b :: "world \<Rightarrow> test_case" where
  "test_s9_b w = (
      lit ''S9 FAIL (manifest has package= attribute '' @ [8212] @ lit '' Sprint 9.6.10 broken state)'',
      Inr (map lit (run_s9_check w (Some (text_lines case_s9_manifest_package)) (Some (text_lines case_s9_gradle_pass)))),
      [lit ''S9 fail''])"

definition test_s9_c :: "world \<Rightarrow> test_case" where
  "test_s9_c w = (
      lit ''S9 FAIL (tools:remove co-exists with android:usesCleartextTraffic '' @ [8212] @ lit '' MOB-1 broken state)'',
      Inr (map lit (run_s9_check w (Some (text_lines case_s9_manifest_tools_remove)) (Some (text_lines case_s9_gradle_pass)))),
      [lit ''S9 fail''])"

definition test_s10_a :: "world \<Rightarrow> test_case" where
  "test_s10_a w = (
      lit ''S10 PASS (values/styles.xml has LaunchTheme + NormalTheme + mipmap + launch_background)'',
      Inr (map lit (run_s10_check w (Some (text_lines case_s10_styles_pass)) True True)),
      [])"

definition test_s10_b :: "world \<Rightarrow> test_case" where
  "test_s10_b w = (
      lit ''S10 FAIL (values/styles.xml missing LaunchTheme)'',
      Inr (map lit (run_s10_check w (Some (text_lines case_s10_styles_no_launch)) True True)),
      [lit ''S10 fail''])"

definition test_s10_c :: "world \<Rightarrow> test_case" where
  "test_s10_c w = (
      lit ''S10 FAIL (no mipmap/ic_launcher representation)'',
      Inr (map lit (run_s10_check w (Some (text_lines case_s10_styles_pass)) False True)),
      [lit ''S10 fail''])"

definition test_s11_a :: "world \<Rightarrow> test_case" where
  "test_s11_a w = (
      lit ''S11 PASS (mobile/.flutter-plugins-dependencies exists with non-empty plugins.android[] + '' @
      lit ''name+native_build per entry)'',
      Inr (map lit (run_s11_check w (Some (py_join [NL] case_s11_fpd_pass)))),
      [])"

definition test_s11_b :: "world \<Rightarrow> test_case" where
  "test_s11_b w = (
      lit ''S11 FAIL (.flutter-plugins-dependencies file missing entirely '' @ [8212] @
      lit '' Sprint 9.6.12 broken state)'',
      Inr (map lit (run_s11_check w None)),
      [lit ''S11 fail''])"

definition test_s11_c :: "world \<Rightarrow> test_case" where
  "test_s11_c w = (
      lit ''S11 FAIL (file exists but plugins.android[] is empty array '' @ [8212] @
      lit '' no Android plugins declared)'',
      Inr (map lit (run_s11_check w (Some (py_join [NL] case_s11_fpd_empty_android)))),
      [lit ''S11 fail''])"

definition test_s12_a :: "test_case" where
  "test_s12_a = (
      lit ''S12 PASS (app/build.gradle.kts declares io.flutter:flutter_embedding_ktx:1.0.0-<engine_commit> '' @
      lit ''matching engine.version)'',
      Inr (map lit (run_s12_check (Some (text_lines case_s12_gradle_pass)) (Some S12_ENGINE_VERSION))),
      [])"

definition test_s12_b :: "test_case" where
  "test_s12_b = (
      lit ''S12 FAIL (dependency missing entirely from dependencies block '' @ [8212] @
      lit '' Sprint 9.6.12 broken state, missing since PR-3)'',
      Inr (map lit (run_s12_check (Some (text_lines case_s12_gradle_no_embedding)) (Some S12_ENGINE_VERSION))),
      [lit ''S12 fail''])"

definition test_s12_c :: "test_case" where
  "test_s12_c = (
      lit ''S12 FAIL (dependency declared with wrong hash '' @ [8212] @
      lit '' does not match Flutter SDK engine.version)'',
      Inr (map lit (run_s12_check (Some (text_lines case_s12_gradle_wrong_hash)) (Some S12_ENGINE_VERSION))),
      [lit ''S12 fail''])"

definition test_s13_a :: "test_case" where
  "test_s13_a = (
      lit ''S13 PASS (settings.gradle.kts dependencyResolutionManagement block contains Flutter storage URL)'',
      Inr (map lit (run_s13_check (Some (text_lines case_s13_settings_pass)) (Some []))),
      [])"

definition test_s13_b :: "test_case" where
  "test_s13_b = (
      lit ''S13 FAIL (settings.gradle.kts missing dependencyResolutionManagement block - Sprint 9.6.14 broken state)'',
      Inr (map lit (run_s13_check (Some (text_lines case_s13_settings_no_drm)) (Some []))),
      [lit ''S13 fail''])"

definition test_s13_c :: "test_case" where
  "test_s13_c = (
      lit ''S13 FAIL (DRM block present but Flutter storage URL not declared - missing since PR-28 Sprint 5)'',
      Inr (map lit (run_s13_check (Some (text_lines case_s13_settings_no_url)) (Some []))),
      [lit ''S13 fail''])"

definition test_s17_a :: "test_case" where
  "test_s17_a = (
      lit ''S17 PASS (gradle wrapper tracked by git + repo-root .gitignore has matching `!**/android/...` '' @
      lit ''re-include patterns)'',
      Inr (map lit (run_s17_check (text_lines case_s17_gitignore_pass) True True True)),
      [])"

definition test_s17_b :: "test_case" where
  "test_s17_b = (
      lit ''S17 FAIL (gradlew not tracked by git - regression: future `flutter create` re-run dropped force-include)'',
      Inr (map lit (run_s17_check (text_lines case_s17_gitignore_pass) False True True)),
      [lit ''S17 fail''])"

definition test_s18_a :: "world \<Rightarrow> test_case" where
  "test_s18_a w = (
      lit ''S18 PASS (mobile/pubspec.lock tracked + parses as YAML + packages.flutter source: sdk + repo-root '' @
      lit ''.gitignore has mobile-specific Flutter exclusion patterns)'',
      Inr (map lit (run_s18_check w (text_lines case_s17_gitignore_pass) (Some (text_lines case_s18_pubspec_lock_pass)))),
      [])"

definition test_s18_b :: "world \<Rightarrow> test_case" where
  "test_s18_b w = (
      lit ''S18 FAIL (mobile/pubspec.lock not tracked - regression: future `flutter create` re-run dropped '' @
      lit ''lockfile from index)'',
      Inr (map lit (run_s18_check w (text_lines case_s17_gitignore_pass) None)),
      [lit ''S18 fail''])"

definition test_s19_a :: "test_case" where
  "test_s19_a = (
      lit ''S19 PASS (mobile/.metadata + mobile/android/.gitignore tracked by git)'',
      Inr (map lit (run_s19_check True True)),
      [])"

definition test_s19_b :: "test_case" where
  "test_s19_b = (
      lit ''S19 FAIL (mobile/.metadata not tracked - regression: future `flutter create` re-run dropped local '' @
      lit ''metadata)'',
      Inr (map lit (run_s19_check False True)),
      [lit ''S19 fail''])"

definition test_s20_a :: "world \<Rightarrow> test_case" where
  "test_s20_a w = (
      lit ''S20 PASS (mobile/pubspec.yaml parses + name + environment.sdk + dependencies.flutter.sdk + '' @
      lit ''dev_dependencies.flutter_test.sdk)'',
      Inr (map lit (run_s20_check w (Some (text_lines case_s20_pubspec_pass)))),
      [])"

definition test_s20_b :: "world \<Rightarrow> test_case" where
  "test_s20_b w = (
      lit ''S20 FAIL (mobile/pubspec.yaml missing `name:` key - regression: future edit dropped Dart pub project '' @
      lit ''identifier)'',
      Inr (map lit (run_s20_check w (Some (text_lines case_s20_pubspec_no_name)))),
      [lit ''S20 fail''])"

definition test_s28_a :: "world \<Rightarrow> test_case" where
  "test_s28_a w = (
      lit ''S28 PASS (pool_provider.dart has NO mock Timer.periodic - only the legitimate _apiTick poll - Sprint '' @
      lit ''11.0O inverted)'',
      Inr (map (message_of s28_messages) (run_s28_check w (Some (text_lines s28_lines_a)))),
      [])"

definition test_s28_b :: "world \<Rightarrow> test_case" where
  "test_s28_b w = (
      lit ''S28 FAIL (pool_provider.dart has the forbidden mock Timer.periodic with _mockTick callback - '' @
      lit ''regression: Sprint 10.1A mock ticker not removed)'',
      Inr (map (message_of s28_messages) (run_s28_check w (Some (text_lines s28_lines_b)))),
      [lit ''S28 fail (mock Timer.periodic callback _mockTick)''])"

definition test_s42_a :: "test_case" where
  "test_s42_a = (
      lit ''S42 PASS (AndroidManifest.xml <queries> block carries <package android:name='' @ [34] @
      lit ''com.whatsapp'' @ [34] @ lit '' /> + com.whatsapp.w4b '' @ [8212] @ lit '' Android 11+ package visibility)'',
      Inr (map (message_of s42_messages) (run_s42_check (Some (text_lines case_s42_manifest_pass)))),
      [])"

definition test_s42_b :: "test_case" where
  "test_s42_b = (
      lit ''S42 FAIL (AndroidManifest.xml <queries> block present but <package android:name='' @ [34] @
      lit ''com.whatsapp'' @ [34] @ lit '' /> missing '' @ [8212] @ lit '' Owner report 10.07.2026 23:29: '' @ [39] @
      lit ''whatsapp y'' @ [252] @ lit ''kl'' @ [252] @ lit '' de'' @ [287] @
      lit ''il diyor hala deeplink yine hatal'' @ [305, 39] @ lit '')'',
      Inr (map (message_of s42_messages) (run_s42_check (Some (text_lines case_s42_manifest_no_package)))),
      [lit ''S42 fail (<package android:name='' @ [34] @ lit ''com.whatsapp'' @ [34] @ lit '' /> missing)''])"

definition test_s43_a :: "test_case" where
  "test_s43_a = (
      lit ''S43 PASS (MainActivity.kt wires `when (call.method)` dispatch with `'' @ [34] @ lit ''getSampledPackets'' @
      [34] @ lit ''` case on the `opene2ee/vpn` MethodChannel '' @ [8212] @
      lit '' Kotlin mock packet for 10.1F; real OpenE2eeVpnService integration lands in Sprint 10.2)'',
      Inr (map (message_of s43_messages) (run_s43_check (Some (text_lines case_s43_main_activity_pass)))),
      [])"

definition test_s43_b :: "test_case" where
  "test_s43_b = (
      lit ''S43 FAIL (MainActivity.kt has a `when (call.method)` block on `opene2ee/vpn_permissions` but the `'' @
      [34] @ lit ''getSampledPackets'' @ [34] @ lit ''` case is missing on the `opene2ee/vpn` channel '' @ [8212] @
      lit '' Owner report 10.07.2026 23:29: 30 consecutive '' @ [39] @ lit ''Aktif N'' @ [246] @ lit ''bet'' @ [39] @
      lit '' calls all failed with MissingPluginException)'',
      Inr (map (message_of s43_messages) (run_s43_check (Some (text_lines case_s43_main_activity_no_handler)))),
      [lit ''S43 fail ('' @ [34] @ lit ''getSampledPackets'' @ [34] @ lit '' case missing)''])"

lemma test_s1_a_lines: "no_comment_block case_pass" "map cut_line case_pass = [
     [],
     lit ''import java.util.Properties'',
     lit ''import org.jetbrains.kotlin.gradle.dsl.JvmTarget'',
     [],
     lit ''android {'',
     lit ''    namespace = '' @ [34] @ lit ''x'' @ [34],
     lit ''    compileOptions { sourceCompatibility = JavaVersion.VERSION_17 }'',
     lit ''}'',
     [],
     lit ''flutter { source = '' @ [34] @ lit ''.'' @ [34] @ lit '' }'',
     [],
     lit ''kotlin {'',
     lit ''    compilerOptions { jvmTarget.set(JvmTarget.JVM_17) }'',
     lit ''}'',
     [],
     lit ''dependencies {}'',
     [],
     lit ''create('' @ [34] @ lit ''release'' @ [34] @ lit '') {'',
     lit ''    val keyPropsFile = rootProject.file('' @ [34] @ lit ''k'' @ [34] @ lit '')'',
     lit ''    if (keyPropsFile.exists()) {'',
     lit ''        val keyProps = Properties().apply { load(keyPropsFile.inputStream()) }'',
     lit ''    }'',
     lit ''}'']"
  by (simp_all add: no_comment_block_def cut_line_def case_pass_def text_simps)

lemma test_s1_a_import1: "has_import ''java.util.Properties'' (py_join [NL] (map cut_line case_pass))"
  by (rule import_on_line) (simp add: test_s1_a_lines(2) text_simps)

lemma test_s1_a_import2: "has_import ''org.jetbrains.kotlin.gradle.dsl.JvmTarget'' (py_join [NL] (map cut_line case_pass))"
  by (rule import_on_line) (simp add: test_s1_a_lines(2) text_simps)

lemma test_s1_a_kotlin: "\<not> has_kotlin_options (py_join [NL] (map cut_line case_pass))"
proof
  assume "has_kotlin_options (py_join [NL] (map cut_line case_pass))"
  from kotlin_needs_name [OF this] show False
    by (simp add: test_s1_a_lines(2) contains_lines text_simps del: py_join.simps)
qed

lemma test_s1_a_compiler: "has_compiler_options (py_join [NL] (map cut_line case_pass))"
  by (rule compiler_on_lines [of _ "take 11 (map cut_line case_pass)" "drop 13 (map cut_line case_pass)"])
    (simp add: test_s1_a_lines(2) jvm_target_line_def text_simps)

lemma test_s1_a_full: "\<not> contains (py_join [NL] (map cut_line case_pass)) (lit ''java.util.Properties()'')"
  by (simp add: test_s1_a_lines(2) contains_lines text_simps del: py_join.simps)

lemma test_s1_a_passes: "passes test_s1_a"
  using test_s1_a_import1 test_s1_a_import2 test_s1_a_kotlin test_s1_a_compiler test_s1_a_full
  by (simp add: passes_def test_s1_a_def syntax_rules strip_audit_lines [OF test_s1_a_lines(1)] del: not_None_eq py_join.simps)

lemma test_s1_b_lines: "no_comment_block case_s1_fail" "map cut_line case_s1_fail = [
     [],
     lit ''import org.jetbrains.kotlin.gradle.dsl.JvmTarget'',
     [],
     lit ''android {'',
     lit ''    compileOptions { sourceCompatibility = JavaVersion.VERSION_17 }'',
     lit ''}'',
     [],
     lit ''flutter { source = '' @ [34] @ lit ''.'' @ [34] @ lit '' }'',
     [],
     lit ''kotlin {'',
     lit ''    compilerOptions { jvmTarget.set(JvmTarget.JVM_17) }'',
     lit ''}'',
     [],
     lit ''dependencies {}'',
     [],
     lit ''create('' @ [34] @ lit ''release'' @ [34] @ lit '') {'',
     lit ''    val keyPropsFile = rootProject.file('' @ [34] @ lit ''k'' @ [34] @ lit '')'',
     lit ''    if (keyPropsFile.exists()) {'',
     lit ''        '',
     lit ''        val keyProps = java.util.Properties().apply { load(keyPropsFile.inputStream()) }'',
     lit ''    }'',
     lit ''}'']"
  by (simp_all add: no_comment_block_def cut_line_def case_s1_fail_def text_simps)

lemma test_s1_b_import1: "\<not> has_import ''java.util.Properties'' (py_join [NL] (map cut_line case_s1_fail))"
  by (rule no_import_on_lines) (auto simp: test_s1_b_lines(2) one_line_def NL_in_lit lit_Nil text_simps)

lemma test_s1_b_import2: "has_import ''org.jetbrains.kotlin.gradle.dsl.JvmTarget'' (py_join [NL] (map cut_line case_s1_fail))"
  by (rule import_on_line) (simp add: test_s1_b_lines(2) text_simps)

lemma test_s1_b_kotlin: "\<not> has_kotlin_options (py_join [NL] (map cut_line case_s1_fail))"
proof
  assume "has_kotlin_options (py_join [NL] (map cut_line case_s1_fail))"
  from kotlin_needs_name [OF this] show False
    by (simp add: test_s1_b_lines(2) contains_lines text_simps del: py_join.simps)
qed

lemma test_s1_b_compiler: "has_compiler_options (py_join [NL] (map cut_line case_s1_fail))"
  by (rule compiler_on_lines [of _ "take 9 (map cut_line case_s1_fail)" "drop 11 (map cut_line case_s1_fail)"])
    (simp add: test_s1_b_lines(2) jvm_target_line_def text_simps)

lemma test_s1_b_full: "contains (py_join [NL] (map cut_line case_s1_fail)) (lit ''java.util.Properties()'')"
  by (simp add: test_s1_b_lines(2) contains_lines text_simps del: py_join.simps)

lemma test_s1_b_passes: "passes test_s1_b"
  using test_s1_b_import1 test_s1_b_import2 test_s1_b_kotlin test_s1_b_compiler test_s1_b_full
  by (simp add: passes_def test_s1_b_def syntax_rules strip_audit_lines [OF test_s1_b_lines(1)] del: not_None_eq py_join.simps)

lemma test_s1_c_lines: "no_comment_block case_s2_fail" "map cut_line case_s2_fail = [
     [],
     lit ''import java.util.Properties'',
     [],
     lit ''android {'',
     lit ''    compileOptions { sourceCompatibility = JavaVersion.VERSION_17 }'',
     lit ''}'',
     [],
     lit ''flutter { source = '' @ [34] @ lit ''.'' @ [34] @ lit '' }'',
     [],
     lit ''kotlin {'',
     lit ''    compilerOptions { jvmTarget.set(JvmTarget.JVM_17) }'',
     lit ''}'',
     [],
     lit ''dependencies {}'',
     [],
     lit ''create('' @ [34] @ lit ''release'' @ [34] @ lit '') {'',
     lit ''    val keyProps = Properties().apply { load(keyPropsFile.inputStream()) }'',
     lit ''}'']"
  by (simp_all add: no_comment_block_def cut_line_def case_s2_fail_def text_simps)

lemma test_s1_c_import1: "has_import ''java.util.Properties'' (py_join [NL] (map cut_line case_s2_fail))"
  by (rule import_on_line) (simp add: test_s1_c_lines(2) text_simps)

lemma test_s1_c_import2: "\<not> has_import ''org.jetbrains.kotlin.gradle.dsl.JvmTarget'' (py_join [NL] (map cut_line case_s2_fail))"
proof
  assume "has_import ''org.jetbrains.kotlin.gradle.dsl.JvmTarget'' (py_join [NL] (map cut_line case_s2_fail))"
  from import_names_class [OF this] show False
    by (simp add: test_s1_c_lines(2) contains_lines text_simps del: py_join.simps)
qed

lemma test_s1_c_kotlin: "\<not> has_kotlin_options (py_join [NL] (map cut_line case_s2_fail))"
proof
  assume "has_kotlin_options (py_join [NL] (map cut_line case_s2_fail))"
  from kotlin_needs_name [OF this] show False
    by (simp add: test_s1_c_lines(2) contains_lines text_simps del: py_join.simps)
qed

lemma test_s1_c_compiler: "has_compiler_options (py_join [NL] (map cut_line case_s2_fail))"
  by (rule compiler_on_lines [of _ "take 9 (map cut_line case_s2_fail)" "drop 11 (map cut_line case_s2_fail)"])
    (simp add: test_s1_c_lines(2) jvm_target_line_def text_simps)

lemma test_s1_c_full: "\<not> contains (py_join [NL] (map cut_line case_s2_fail)) (lit ''java.util.Properties()'')"
  by (simp add: test_s1_c_lines(2) contains_lines text_simps del: py_join.simps)

lemma test_s1_c_passes: "passes test_s1_c"
  using test_s1_c_import1 test_s1_c_import2 test_s1_c_kotlin test_s1_c_compiler test_s1_c_full
  by (simp add: passes_def test_s1_c_def syntax_rules strip_audit_lines [OF test_s1_c_lines(1)] del: not_None_eq py_join.simps)

lemma test_s1_d_lines: "no_comment_block case_s3_fail" "map cut_line case_s3_fail = [
     [],
     lit ''import java.util.Properties'',
     lit ''import org.jetbrains.kotlin.gradle.dsl.JvmTarget'',
     [],
     lit ''android {'',
     lit ''    compileOptions { sourceCompatibility = JavaVersion.VERSION_17 }'',
     lit ''    kotlinOptions { jvmTarget = '' @ [34] @ lit ''17'' @ [34] @ lit '' }'',
     lit ''}'',
     [],
     lit ''flutter { source = '' @ [34] @ lit ''.'' @ [34] @ lit '' }'',
     [],
     lit ''kotlin {'',
     lit ''    compilerOptions { jvmTarget.set(JvmTarget.JVM_17) }'',
     lit ''}'',
     [],
     lit ''dependencies {}'',
     [],
     lit ''create('' @ [34] @ lit ''release'' @ [34] @ lit '') {'',
     lit ''    val keyProps = Properties().apply { load(keyPropsFile.inputStream()) }'',
     lit ''}'']"
  by (simp_all add: no_comment_block_def cut_line_def case_s3_fail_def text_simps)

lemma test_s1_d_import1: "has_import ''java.util.Properties'' (py_join [NL] (map cut_line case_s3_fail))"
  by (rule import_on_line) (simp add: test_s1_d_lines(2) text_simps)

lemma test_s1_d_import2: "has_import ''org.jetbrains.kotlin.gradle.dsl.JvmTarget'' (py_join [NL] (map cut_line case_s3_fail))"
  by (rule import_on_line) (simp add: test_s1_d_lines(2) text_simps)

lemma test_s1_d_kotlin: "has_kotlin_options (py_join [NL] (map cut_line case_s3_fail))"
  by (rule kotlin_on_line) (simp add: test_s1_d_lines(2) contains_lines text_simps del: py_join.simps)

lemma test_s1_d_compiler: "has_compiler_options (py_join [NL] (map cut_line case_s3_fail))"
  by (rule compiler_on_lines [of _ "take 11 (map cut_line case_s3_fail)" "drop 13 (map cut_line case_s3_fail)"])
    (simp add: test_s1_d_lines(2) jvm_target_line_def text_simps)

lemma test_s1_d_full: "\<not> contains (py_join [NL] (map cut_line case_s3_fail)) (lit ''java.util.Properties()'')"
  by (simp add: test_s1_d_lines(2) contains_lines text_simps del: py_join.simps)

lemma test_s1_d_passes: "passes test_s1_d"
  using test_s1_d_import1 test_s1_d_import2 test_s1_d_kotlin test_s1_d_compiler test_s1_d_full
  by (simp add: passes_def test_s1_d_def syntax_rules strip_audit_lines [OF test_s1_d_lines(1)] del: not_None_eq py_join.simps)

lemma test_s1_e_lines: "no_comment_block case_s4_fail" "map cut_line case_s4_fail = [
     [],
     lit ''import java.util.Properties'',
     lit ''import org.jetbrains.kotlin.gradle.dsl.JvmTarget'',
     [],
     lit ''android {'',
     lit ''    compileOptions { sourceCompatibility = JavaVersion.VERSION_17 }'',
     lit ''}'',
     [],
     lit ''flutter { source = '' @ [34] @ lit ''.'' @ [34] @ lit '' }'',
     [],
     lit ''dependencies {}'',
     [],
     lit ''create('' @ [34] @ lit ''release'' @ [34] @ lit '') {'',
     lit ''    val keyProps = Properties().apply { load(keyPropsFile.inputStream()) }'',
     lit ''}'']"
  by (simp_all add: no_comment_block_def cut_line_def case_s4_fail_def text_simps)

lemma test_s1_e_import1: "has_import ''java.util.Properties'' (py_join [NL] (map cut_line case_s4_fail))"
  by (rule import_on_line) (simp add: test_s1_e_lines(2) text_simps)

lemma test_s1_e_import2: "has_import ''org.jetbrains.kotlin.gradle.dsl.JvmTarget'' (py_join [NL] (map cut_line case_s4_fail))"
  by (rule import_on_line) (simp add: test_s1_e_lines(2) text_simps)

lemma test_s1_e_kotlin: "\<not> has_kotlin_options (py_join [NL] (map cut_line case_s4_fail))"
proof
  assume "has_kotlin_options (py_join [NL] (map cut_line case_s4_fail))"
  from kotlin_needs_name [OF this] show False
    by (simp add: test_s1_e_lines(2) contains_lines text_simps del: py_join.simps)
qed

lemma test_s1_e_compiler: "\<not> has_compiler_options (py_join [NL] (map cut_line case_s4_fail))"
proof
  assume "has_compiler_options (py_join [NL] (map cut_line case_s4_fail))"
  from compiler_needs_name [OF this] show False
    by (simp add: test_s1_e_lines(2) contains_lines text_simps del: py_join.simps)
qed

lemma test_s1_e_full: "\<not> contains (py_join [NL] (map cut_line case_s4_fail)) (lit ''java.util.Properties()'')"
  by (simp add: test_s1_e_lines(2) contains_lines text_simps del: py_join.simps)

lemma test_s1_e_passes: "passes test_s1_e"
  using test_s1_e_import1 test_s1_e_import2 test_s1_e_kotlin test_s1_e_compiler test_s1_e_full
  by (simp add: passes_def test_s1_e_def syntax_rules strip_audit_lines [OF test_s1_e_lines(1)] del: not_None_eq py_join.simps)

lemma test_s1_f_lines: "no_comment_block case_s5_fail" "map cut_line case_s5_fail = [
     [],
     lit ''import java.util.Properties'',
     lit ''import org.jetbrains.kotlin.gradle.dsl.JvmTarget'',
     [],
     lit ''android {'',
     lit ''    compileOptions { sourceCompatibility = JavaVersion.VERSION_17 }'',
     lit ''}'',
     [],
     lit ''flutter { source = '' @ [34] @ lit ''.'' @ [34] @ lit '' }'',
     [],
     lit ''kotlin {'',
     lit ''    compilerOptions { jvmTarget.set(JvmTarget.JVM_17) }'',
     lit ''}'',
     [],
     lit ''dependencies {}'',
     [],
     lit ''create('' @ [34] @ lit ''release'' @ [34] @ lit '') {'',
     lit ''    val keyProps = java.util.Properties().apply { load(keyPropsFile.inputStream()) }'',
     lit ''}'']"
  by (simp_all add: no_comment_block_def cut_line_def case_s5_fail_def text_simps)

lemma test_s1_f_import1: "has_import ''java.util.Properties'' (py_join [NL] (map cut_line case_s5_fail))"
  by (rule import_on_line) (simp add: test_s1_f_lines(2) text_simps)

lemma test_s1_f_import2: "has_import ''org.jetbrains.kotlin.gradle.dsl.JvmTarget'' (py_join [NL] (map cut_line case_s5_fail))"
  by (rule import_on_line) (simp add: test_s1_f_lines(2) text_simps)

lemma test_s1_f_kotlin: "\<not> has_kotlin_options (py_join [NL] (map cut_line case_s5_fail))"
proof
  assume "has_kotlin_options (py_join [NL] (map cut_line case_s5_fail))"
  from kotlin_needs_name [OF this] show False
    by (simp add: test_s1_f_lines(2) contains_lines text_simps del: py_join.simps)
qed

lemma test_s1_f_compiler: "has_compiler_options (py_join [NL] (map cut_line case_s5_fail))"
  by (rule compiler_on_lines [of _ "take 10 (map cut_line case_s5_fail)" "drop 12 (map cut_line case_s5_fail)"])
    (simp add: test_s1_f_lines(2) jvm_target_line_def text_simps)

lemma test_s1_f_full: "contains (py_join [NL] (map cut_line case_s5_fail)) (lit ''java.util.Properties()'')"
  by (simp add: test_s1_f_lines(2) contains_lines text_simps del: py_join.simps)

lemma test_s1_f_passes: "passes test_s1_f"
  using test_s1_f_import1 test_s1_f_import2 test_s1_f_kotlin test_s1_f_compiler test_s1_f_full
  by (simp add: passes_def test_s1_f_def syntax_rules strip_audit_lines [OF test_s1_f_lines(1)] del: not_None_eq py_join.simps)

lemma test_s6_a_passes: "parses_fixtures w \<Longrightarrow> passes (test_s6_a w)"
  by (simp add: passes_def test_s6_a_def run_s6_check_def fixture_docs try_doc_def; simp add: case_s6_pass_doc_def build_rules case_s6_pass_def text_simps)

lemma test_s6_b_passes: "parses_fixtures w \<Longrightarrow> passes (test_s6_b w)"
  by (simp add: passes_def test_s6_b_def run_s6_check_def fixture_docs try_doc_def; simp add: case_s6_step_missing_doc_def build_rules case_s6_step_missing_def text_simps)

lemma test_s6_c_passes: "parses_fixtures w \<Longrightarrow> passes (test_s6_c w)"
  by (simp add: passes_def test_s6_c_def run_s6_check_def fixture_docs try_doc_def; simp add: case_s6_wrong_wd_doc_def build_rules case_s6_wrong_wd_def text_simps)

lemma test_s6_d_passes: "parses_fixtures w \<Longrightarrow> passes (test_s6_d w)"
  by (simp add: passes_def test_s6_d_def run_s6_check_def fixture_docs try_doc_def; simp add: case_s6_wrong_run_doc_def build_rules case_s6_wrong_run_def text_simps)

lemma test_s7_a_passes: "parses_fixtures w \<Longrightarrow> passes (test_s7_a w)"
  by (simp add: passes_def test_s7_a_def run_s7_check_def fixture_docs try_doc_def; simp add: case_s7_pubspec_pass_doc_def build_rules case_s7_main_pass_def case_s7_pubspec_pass_def text_simps)

lemma test_s7_b_passes: "parses_fixtures w \<Longrightarrow> passes (test_s7_b w)"
  by (simp add: passes_def test_s7_b_def run_s7_check_def fixture_docs try_doc_def; simp add: case_s7_pubspec_pass_doc_def build_rules case_s7_pubspec_pass_def text_simps)

lemma test_s7_c_passes: "parses_fixtures w \<Longrightarrow> passes (test_s7_c w)"
  by (simp add: passes_def test_s7_c_def run_s7_check_def fixture_docs try_doc_def; simp add: case_s7_pubspec_pass_doc_def build_rules case_s7_no_providerscope_def case_s7_pubspec_pass_def text_simps)

lemma test_s7_d_passes: "parses_fixtures w \<Longrightarrow> passes (test_s7_d w)"
  by (simp add: passes_def test_s7_d_def run_s7_check_def fixture_docs try_doc_def; simp add: case_s7_pubspec_no_riverpod_doc_def build_rules case_s7_main_pass_def case_s7_pubspec_no_riverpod_def text_simps)

lemma test_s8_a_passes: "parses_fixtures w \<Longrightarrow> passes (test_s8_a w)"
proof -
  have "\<not> contains (grp 1 m) (lit ''--'')" if "m \<in> set (re_finditer xml_comment_re (text_lines case_s8_xml_pass))" for m
  proof -
    have "grp 1 m = text_lines ([] # take 20 (drop 2 case_s8_xml_pass))"
      by (rule one_comment [OF that, of "take 1 case_s8_xml_pass" _ "drop 23 case_s8_xml_pass"]) (simp_all add: case_s8_xml_pass_def text_simps)
    then show ?thesis by (simp add: contains_text_lines case_s8_xml_pass_def text_simps)
  qed
  then show "parses_fixtures w \<Longrightarrow> passes (test_s8_a w)"
    by (auto simp: passes_def test_s8_a_def run_s8_check_def fixture_docs case_s8_xml_pass_doc_def)
qed

lemma test_s8_b_passes: "parses_fixtures w \<Longrightarrow> passes (test_s8_b w)"
  by (simp add: passes_def test_s8_b_def run_s8_check_def fixture_docs try_doc_def; simp add: case_s8_xml_bad_doc_def build_rules case_s8_xml_bad_def text_simps)

lemma test_s9_a_passes: "parses_fixtures w \<Longrightarrow> passes (test_s9_a w)"
  by (simp add: passes_def test_s9_a_def run_s9_check_def fixture_docs try_doc_def; simp add: case_s9_manifest_pass_doc_def build_rules case_s9_manifest_pass_def case_s9_gradle_pass_def text_simps)

lemma test_s9_b_passes: "parses_fixtures w \<Longrightarrow> passes (test_s9_b w)"
  by (simp add: passes_def test_s9_b_def run_s9_check_def fixture_docs try_doc_def; simp add: case_s9_manifest_package_doc_def build_rules case_s9_manifest_package_def case_s9_gradle_pass_def text_simps)

lemma test_s9_c_passes: "parses_fixtures w \<Longrightarrow> passes (test_s9_c w)"
  by (simp add: passes_def test_s9_c_def run_s9_check_def fixture_docs try_doc_def; simp add: case_s9_manifest_tools_remove_doc_def build_rules case_s9_manifest_tools_remove_def case_s9_gradle_pass_def text_simps)

lemma test_s10_a_passes: "parses_fixtures w \<Longrightarrow> passes (test_s10_a w)"
  by (simp add: passes_def test_s10_a_def run_s10_check_def fixture_docs try_doc_def; simp add: case_s10_styles_pass_doc_def build_rules case_s10_styles_pass_def text_simps)

lemma test_s10_b_passes: "parses_fixtures w \<Longrightarrow> passes (test_s10_b w)"
  by (simp add: passes_def test_s10_b_def run_s10_check_def fixture_docs try_doc_def; simp add: case_s10_styles_no_launch_doc_def build_rules case_s10_styles_no_launch_def text_simps)

lemma test_s10_c_passes: "parses_fixtures w \<Longrightarrow> passes (test_s10_c w)"
  by (simp add: passes_def test_s10_c_def run_s10_check_def fixture_docs try_doc_def; simp add: case_s10_styles_pass_doc_def build_rules case_s10_styles_pass_def text_simps)

lemma test_s11_a_passes: "parses_fixtures w \<Longrightarrow> passes (test_s11_a w)"
  by (simp add: passes_def test_s11_a_def run_s11_check_def fixture_docs try_doc_def; simp add: case_s11_fpd_pass_doc_def build_rules case_s11_fpd_pass_def text_simps)

lemma test_s11_b_passes: "passes (test_s11_b w)"
  by (simp add: passes_def test_s11_b_def run_s11_check_def build_rules  text_simps)

lemma test_s11_c_passes: "parses_fixtures w \<Longrightarrow> passes (test_s11_c w)"
  by (simp add: passes_def test_s11_c_def run_s11_check_def fixture_docs try_doc_def; simp add: case_s11_fpd_empty_android_doc_def build_rules case_s11_fpd_empty_android_def text_simps)

lemma hex40_engine_version: "re_match_at_start hex40_re S12_ENGINE_VERSION \<noteq> None"
proof -
  have "is_hash S12_ENGINE_VERSION" by (simp add: S12_ENGINE_VERSION_def is_hash_def is_hex_def text_simps)
  then show ?thesis using hex40_stripped [of S12_ENGINE_VERSION] by (simp add: py_strip_id_hash)
qed

lemma s12_a_block:
  "\<exists>m. re_search (block_re ''dependencies'') (text_lines case_s12_gradle_pass) = Some m \<and>
    block_from (text_lines case_s12_gradle_pass) (m_end m) = Inr (text_lines ([] # take 4 (drop 12 case_s12_gradle_pass)))"
proof -
  have lines: "case_s12_gradle_pass = take 11 case_s12_gradle_pass @ (lit ''dependencies'' @ lit '' {'') # take 4 (drop 12 case_s12_gradle_pass) @ lit ''}'' # drop 17 case_s12_gradle_pass"
    by (simp add: case_s12_gradle_pass_def) (simp add: lit_def)
  have "balanced (text_lines ([] # take 4 (drop 12 case_s12_gradle_pass)))"
    by (rule balanced_no_braces) (simp add: case_s12_gradle_pass_def text_lines_def text_simps)
  then show ?thesis
    by (subst (1 2) lines, intro block_on_lines) (simp_all add: case_s12_gradle_pass_def one_line_def NL_in_lit lit_Nil text_simps)
qed

lemma s12_a_hash:
  "contains (text_lines ([] # take 4 (drop 12 case_s12_gradle_pass))) embedding_substr \<and>
   (\<exists>m. re_search replica_version_re (text_lines ([] # take 4 (drop 12 case_s12_gradle_pass))) = Some m \<and> grp 1 m = lit ''c416acfeb8126e097f758c664aaa3da929e27da0'')"
proof -
  let ?b1 = "text_lines ([] # take 3 (drop 12 case_s12_gradle_pass)) @ lit ''    implementation('' @ [34]"
  let ?H = "embedding_substr @ lit '':1.0.0-''" and ?h = "lit ''c416acfeb8126e097f758c664aaa3da929e27da0''"
  have whole: "text_lines ([] # take 4 (drop 12 case_s12_gradle_pass)) = ?b1 @ ?H @ ?h @ [34] @ lit '')'' @ [NL]"
    by (simp add: case_s12_gradle_pass_def text_lines_def embedding_substr_def FLUTTER_EMBEDDING_GROUP_def FLUTTER_EMBEDDING_ARTIFACT_def) (simp add: lit_def)
  have "one_line ?H" by (simp add: one_line_def NL_in_lit lit_Nil embedding_substr_def FLUTTER_EMBEDDING_GROUP_def FLUTTER_EMBEDDING_ARTIFACT_def)
  then have "\<not> contains (?b1 @ butlast ?H) ?H" unfolding append_assoc
    by (simp add: contains_after_lines) (simp add: case_s12_gradle_pass_def embedding_substr_def FLUTTER_EMBEDDING_GROUP_def FLUTTER_EMBEDDING_ARTIFACT_def text_simps)
  moreover have "is_hash ?h" by (simp add: is_hash_def is_hex_def text_simps)
  ultimately have "\<exists>m. re_search replica_version_re (text_lines ([] # take 4 (drop 12 case_s12_gradle_pass))) = Some m \<and> grp 1 m = ?h"
    unfolding whole by (rule replica_hash)
  moreover have "contains (text_lines ([] # take 4 (drop 12 case_s12_gradle_pass))) embedding_substr"
    unfolding whole contains_iff append_assoc by (rule exI [of _ ?b1], rule exI) (simp only: append_assoc)
  ultimately show ?thesis by blast
qed

lemma test_s12_a_passes: "passes test_s12_a"
  using s12_a_block s12_a_hash hex40_engine_version
  by (auto simp: passes_def test_s12_a_def run_s12_check_def) (simp_all add: S12_ENGINE_VERSION_def text_simps)

lemma s12_b_block:
  "\<exists>m. re_search (block_re ''dependencies'') (text_lines case_s12_gradle_no_embedding) = Some m \<and>
    block_from (text_lines case_s12_gradle_no_embedding) (m_end m) = Inr (text_lines ([] # take 3 (drop 12 case_s12_gradle_no_embedding)))"
proof -
  have lines: "case_s12_gradle_no_embedding = take 11 case_s12_gradle_no_embedding @ (lit ''dependencies'' @ lit '' {'') # take 3 (drop 12 case_s12_gradle_no_embedding) @ lit ''}'' # drop 16 case_s12_gradle_no_embedding"
    by (simp add: case_s12_gradle_no_embedding_def) (simp add: lit_def)
  have "balanced (text_lines ([] # take 3 (drop 12 case_s12_gradle_no_embedding)))"
    by (rule balanced_no_braces) (simp add: case_s12_gradle_no_embedding_def text_lines_def text_simps)
  then show ?thesis
    by (subst (1 2) lines, intro block_on_lines) (simp_all add: case_s12_gradle_no_embedding_def one_line_def NL_in_lit lit_Nil text_simps)
qed

lemma test_s12_b_passes: "passes test_s12_b"
  using s12_b_block
  by (auto simp: passes_def test_s12_b_def run_s12_check_def ) (simp_all add: case_s12_gradle_no_embedding_def contains_text_lines embedding_substr_def FLUTTER_EMBEDDING_GROUP_def FLUTTER_EMBEDDING_ARTIFACT_def text_simps)

lemma s12_c_block:
  "\<exists>m. re_search (block_re ''dependencies'') (text_lines case_s12_gradle_wrong_hash) = Some m \<and>
    block_from (text_lines case_s12_gradle_wrong_hash) (m_end m) = Inr (text_lines ([] # take 2 (drop 5 case_s12_gradle_wrong_hash)))"
proof -
  have lines: "case_s12_gradle_wrong_hash = take 4 case_s12_gradle_wrong_hash @ (lit ''dependencies'' @ lit '' {'') # take 2 (drop 5 case_s12_gradle_wrong_hash) @ lit ''}'' # drop 8 case_s12_gradle_wrong_hash"
    by (simp add: case_s12_gradle_wrong_hash_def) (simp add: lit_def)
  have "balanced (text_lines ([] # take 2 (drop 5 case_s12_gradle_wrong_hash)))"
    by (rule balanced_no_braces) (simp add: case_s12_gradle_wrong_hash_def text_lines_def text_simps)
  then show ?thesis
    by (subst (1 2) lines, intro block_on_lines) (simp_all add: case_s12_gradle_wrong_hash_def one_line_def NL_in_lit lit_Nil text_simps)
qed

lemma s12_c_hash:
  "contains (text_lines ([] # take 2 (drop 5 case_s12_gradle_wrong_hash))) embedding_substr \<and>
   (\<exists>m. re_search replica_version_re (text_lines ([] # take 2 (drop 5 case_s12_gradle_wrong_hash))) = Some m \<and> grp 1 m = lit ''deadbeefdeadbeefdeadbeefdeadbeefdeadbeef'')"
proof -
  let ?b1 = "text_lines ([] # take 1 (drop 5 case_s12_gradle_wrong_hash)) @ lit ''    implementation('' @ [34]"
  let ?H = "embedding_substr @ lit '':1.0.0-''" and ?h = "lit ''deadbeefdeadbeefdeadbeefdeadbeefdeadbeef''"
  have whole: "text_lines ([] # take 2 (drop 5 case_s12_gradle_wrong_hash)) = ?b1 @ ?H @ ?h @ [34] @ lit '')'' @ [NL]"
    by (simp add: case_s12_gradle_wrong_hash_def text_lines_def embedding_substr_def FLUTTER_EMBEDDING_GROUP_def FLUTTER_EMBEDDING_ARTIFACT_def) (simp add: lit_def)
  have "one_line ?H" by (simp add: one_line_def NL_in_lit lit_Nil embedding_substr_def FLUTTER_EMBEDDING_GROUP_def FLUTTER_EMBEDDING_ARTIFACT_def)
  then have "\<not> contains (?b1 @ butlast ?H) ?H" unfolding append_assoc
    by (simp add: contains_after_lines) (simp add: case_s12_gradle_wrong_hash_def embedding_substr_def FLUTTER_EMBEDDING_GROUP_def FLUTTER_EMBEDDING_ARTIFACT_def text_simps)
  moreover have "is_hash ?h" by (simp add: is_hash_def is_hex_def text_simps)
  ultimately have "\<exists>m. re_search replica_version_re (text_lines ([] # take 2 (drop 5 case_s12_gradle_wrong_hash))) = Some m \<and> grp 1 m = ?h"
    unfolding whole by (rule replica_hash)
  moreover have "contains (text_lines ([] # take 2 (drop 5 case_s12_gradle_wrong_hash))) embedding_substr"
    unfolding whole contains_iff append_assoc by (rule exI [of _ ?b1], rule exI) (simp only: append_assoc)
  ultimately show ?thesis by blast
qed

lemma test_s12_c_passes: "passes test_s12_c"
  using s12_c_block s12_c_hash hex40_engine_version
  by (auto simp: passes_def test_s12_c_def run_s12_check_def) (simp_all add: S12_ENGINE_VERSION_def text_simps)

lemma no_repositories: "re_finditer repositories_re [] = []"
proof -
  have "headed repositories_re (lit ''repositories'')"
    unfolding headed_def repositories_re_def Seq.simps cat_simps by auto
  then show ?thesis unfolding re_finditer_Nil by (rule re_search_None_headed) (simp add: lit_def)
qed

lemma s13_a_block:
  "\<exists>m. re_search (block_re ''dependencyResolutionManagement'') (text_lines case_s13_settings_pass) = Some m \<and>
    block_from (text_lines case_s13_settings_pass) (m_end m) = Inr (text_lines ([] # take 7 (drop 9 case_s13_settings_pass)))"
proof -
  have lines: "case_s13_settings_pass = take 8 case_s13_settings_pass @ (lit ''dependencyResolutionManagement'' @ lit '' {'') # take 7 (drop 9 case_s13_settings_pass) @ lit ''}'' # drop 17 case_s13_settings_pass"
    by (simp add: case_s13_settings_pass_def) (simp add: lit_def)
  have "balanced (text_lines ([] # take 7 (drop 9 case_s13_settings_pass)))"
    by (rule balanced_by_counting) (simp add: case_s13_settings_pass_def text_lines_def text_simps block_from_def)
  then show ?thesis
    by (subst (1 2) lines, intro block_on_lines) (simp_all add: case_s13_settings_pass_def one_line_def NL_in_lit lit_Nil text_simps)
qed

lemma test_s13_a_passes: "passes test_s13_a"
proof -
  have "contains (text_lines ([] # take 7 (drop 9 case_s13_settings_pass))) FLUTTER_STORAGE_URL"
    by (simp add: case_s13_settings_pass_def contains_text_lines FLUTTER_STORAGE_URL_def text_simps)
  with s13_a_block show ?thesis
    by (auto simp: passes_def test_s13_a_def run_s13_check_def url_block_def)
qed

lemma test_s13_b_passes: "passes test_s13_b"
proof -
  have "\<not> contains (text_lines case_s13_settings_no_drm) (lit ''dependencyResolutionManagement'')"
    by (simp add: case_s13_settings_no_drm_def contains_text_lines text_simps)
  from block_re_None [OF this] no_repositories show ?thesis
    by (simp add: passes_def test_s13_b_def run_s13_check_def)
qed

lemma s13_c_block:
  "\<exists>m. re_search (block_re ''dependencyResolutionManagement'') (text_lines case_s13_settings_no_url) = Some m \<and>
    block_from (text_lines case_s13_settings_no_url) (m_end m) = Inr (text_lines ([] # take 6 (drop 9 case_s13_settings_no_url)))"
proof -
  have lines: "case_s13_settings_no_url = take 8 case_s13_settings_no_url @ (lit ''dependencyResolutionManagement'' @ lit '' {'') # take 6 (drop 9 case_s13_settings_no_url) @ lit ''}'' # drop 16 case_s13_settings_no_url"
    by (simp add: case_s13_settings_no_url_def) (simp add: lit_def)
  have "balanced (text_lines ([] # take 6 (drop 9 case_s13_settings_no_url)))"
    by (rule balanced_by_counting) (simp add: case_s13_settings_no_url_def text_lines_def text_simps block_from_def)
  then show ?thesis
    by (subst (1 2) lines, intro block_on_lines) (simp_all add: case_s13_settings_no_url_def one_line_def NL_in_lit lit_Nil text_simps)
qed

lemma test_s13_c_passes: "passes test_s13_c"
proof -
  have "\<not> contains (text_lines ([] # take 6 (drop 9 case_s13_settings_no_url))) FLUTTER_STORAGE_URL"
    by (simp add: case_s13_settings_no_url_def contains_text_lines FLUTTER_STORAGE_URL_def text_simps)
  with s13_c_block show ?thesis using no_repositories
    by (auto simp: passes_def test_s13_c_def run_s13_check_def url_block_def)
qed

lemma test_s17_a_passes: "passes (test_s17_a)"
  by (simp add: passes_def test_s17_a_def run_s17_check_def build_rules case_s17_gitignore_pass_def text_simps)

lemma test_s17_b_passes: "passes (test_s17_b)"
  by (simp add: passes_def test_s17_b_def run_s17_check_def build_rules case_s17_gitignore_pass_def text_simps)

lemma test_s18_a_passes: "parses_fixtures w \<Longrightarrow> passes (test_s18_a w)"
  by (simp add: passes_def test_s18_a_def run_s18_check_def fixture_docs try_doc_def; simp add: case_s18_pubspec_lock_pass_doc_def build_rules case_s17_gitignore_pass_def case_s18_pubspec_lock_pass_def text_simps)

lemma test_s18_b_passes: "passes (test_s18_b w)"
  by (simp add: passes_def test_s18_b_def run_s18_check_def build_rules case_s17_gitignore_pass_def text_simps)

lemma test_s19_a_passes: "passes (test_s19_a)"
  by (simp add: passes_def test_s19_a_def run_s19_check_def build_rules  text_simps)

lemma test_s19_b_passes: "passes (test_s19_b)"
  by (simp add: passes_def test_s19_b_def run_s19_check_def build_rules  text_simps)

lemma test_s20_a_passes: "parses_fixtures w \<Longrightarrow> passes (test_s20_a w)"
  by (simp add: passes_def test_s20_a_def run_s20_check_def fixture_docs try_doc_def; simp add: case_s20_pubspec_pass_doc_def build_rules case_s20_pubspec_pass_def text_simps)

lemma test_s20_b_passes: "parses_fixtures w \<Longrightarrow> passes (test_s20_b w)"
  by (simp add: passes_def test_s20_b_def run_s20_check_def fixture_docs try_doc_def; simp add: case_s20_pubspec_no_name_doc_def build_rules case_s20_pubspec_no_name_def text_simps)

lemma test_s28_a_plain: "plain s28_lines_a"
  by (simp add: plain_def s28_lines_a_def text_simps)

lemma test_s28_a_passes: "passes (test_s28_a w)"
proof -
  let ?T = "lit ''Timer.periodic''" and ?rest = "lit ''_pollPeriod, (_) '' @ lit ''=>'' @ 32 # lit ''_apiTick'' @ 40 # lit ''));''"
  have code: "py_join [NL] s28_lines_a = lit ''_pollTimer = '' @ ?T @ 40 # ?rest" by (simp add: s28_lines_a_def) (simp add: lit_def)
  obtain m where m: "re_finditer timer_periodic_re (lit ''_pollTimer = '' @ ?T @ 40 # ?rest) = [m]" "m_end m = length (lit ''_pollTimer = '' @ ?T @ [40])"
    by (rule timer_once [of "lit ''_pollTimer = ''" ?rest]) (simp_all add: text_simps)
  have "take 200 ?rest = ?rest" by (rule take_all) (simp add: lit_def)
  moreover have "callback_name w ?rest = lit ''_apiTick''"
    by (rule arrow_callback) (auto simp: is_word_def is_space_def text_simps)
  ultimately have "mock_timers w (py_join [NL] s28_lines_a) = (if is_mock_callback (lit ''_apiTick'') then [(m, lit ''_apiTick'')] else [])"
    unfolding mock_timers_def code m(1) by (simp add: m(2))
  then show ?thesis
    by (simp add: passes_def test_s28_a_def run_s28_check_def on_text_def plain_code [OF test_s28_a_plain] del: py_join.simps)
      (simp add: is_mock_callback_def message_of_def s28_messages_def Let_def text_simps)
qed

lemma test_s28_b_plain: "plain s28_lines_b"
  by (simp add: plain_def s28_lines_b_def text_simps)

lemma test_s28_b_passes: "passes (test_s28_b w)"
proof -
  let ?T = "lit ''Timer.periodic''" and ?rest = "lit ''_mockTickPeriod, (_) '' @ lit ''=>'' @ 32 # lit ''_mockTick'' @ 40 # lit ''));''"
  have code: "py_join [NL] s28_lines_b = lit ''_mockTimer = '' @ ?T @ 40 # ?rest" by (simp add: s28_lines_b_def) (simp add: lit_def)
  obtain m where m: "re_finditer timer_periodic_re (lit ''_mockTimer = '' @ ?T @ 40 # ?rest) = [m]" "m_end m = length (lit ''_mockTimer = '' @ ?T @ [40])"
    by (rule timer_once [of "lit ''_mockTimer = ''" ?rest]) (simp_all add: text_simps)
  have "take 200 ?rest = ?rest" by (rule take_all) (simp add: lit_def)
  moreover have "callback_name w ?rest = lit ''_mockTick''"
    by (rule arrow_callback) (auto simp: is_word_def is_space_def text_simps)
  ultimately have "mock_timers w (py_join [NL] s28_lines_b) = (if is_mock_callback (lit ''_mockTick'') then [(m, lit ''_mockTick'')] else [])"
    unfolding mock_timers_def code m(1) by (simp add: m(2))
  then show ?thesis
    by (simp add: passes_def test_s28_b_def run_s28_check_def on_text_def plain_code [OF test_s28_b_plain] del: py_join.simps)
      (simp add: is_mock_callback_def message_of_def s28_messages_def Let_def text_simps)
qed

lemma xml_comments_stripped: "re_sub xml_comment_strip_re [] t = strip_delim (lit ''<!--'') (lit ''-->'') t"
  using re_sub_delim [of "lit ''<!--''" "lit ''-->''" t] by (simp add: xml_comment_strip_re_def delim_re_def lit_Nil)

lemma test_s42_a_passes: "passes test_s42_a"
proof -
  have "\<not> contains (text_lines case_s42_manifest_pass) (lit ''<!--'')" by (simp add: case_s42_manifest_pass_def contains_text_lines text_simps)
  then have "re_sub xml_comment_strip_re [] (text_lines case_s42_manifest_pass) = text_lines case_s42_manifest_pass"
    unfolding xml_comments_stripped by (subst strip_delim.simps) (simp add: find_sub_None [symmetric])
  then show ?thesis
    by (simp add: passes_def test_s42_a_def run_s42_check_def on_text_def)
      (simp add: case_s42_manifest_pass_def package_needle_def dq_def contains_text_lines text_simps)
qed

lemma test_s42_b_passes: "passes test_s42_b"
proof -
  let ?p = "text_lines (take 10 case_s42_manifest_no_package) @ lit ''        ''" and ?mid = "text_lines ([] # take 3 (drop 11 case_s42_manifest_no_package)) @ lit ''        ''"
    and ?q = "text_lines ([] # drop 15 case_s42_manifest_no_package)"
  have one: "one_line (lit ''<!--'')" "one_line (lit ''-->'')" "one_line package_needle"
    by (simp_all add: one_line_def NL_in_lit lit_Nil package_needle_def dq_def)
  have "text_lines case_s42_manifest_no_package = ?p @ lit ''<!--'' @ ?mid @ lit ''-->'' @ ?q"
    by (simp add: case_s42_manifest_no_package_def text_lines_def) (simp add: lit_def)
  moreover have "strip_delim (lit ''<!--'') (lit ''-->'') (?p @ lit ''<!--'' @ ?mid @ lit ''-->'' @ ?q) = ?p @ ?q"
    by (rule strip_one_block; use one in \<open>simp add: contains_after_lines contains_text_lines one_line_def del: text_lines_def\<close>)
      (simp_all add: case_s42_manifest_no_package_def text_simps)
  moreover have "\<not> contains (?p @ ?q) package_needle" using one(3)
    by (simp add: contains_after_lines del: text_lines_def) (simp add: case_s42_manifest_no_package_def one_line_def contains_text_lines package_needle_def dq_def text_simps)
  ultimately have "\<not> contains (strip_delim (lit ''<!--'') (lit ''-->'') (text_lines case_s42_manifest_no_package)) package_needle" by simp
  then show ?thesis
    by (simp add: passes_def test_s42_b_def run_s42_check_def on_text_def xml_comments_stripped)
      (simp add: case_s42_manifest_no_package_def contains_text_lines message_of_def s42_messages_def text_simps)
qed

lemma when_on_line: "contains code (lit ''when (call.method)'') \<Longrightarrow> has_when code"
proof -
  have "lang when_call_method_re u (lit ''when'' @ [32] @ lit ''('' @ [] @ lit ''call.method'' @ [] @ lit '')'') v [] []" for u v
    unfolding when_call_method_re_def Seq.simps by (intro lang_CatI; simp add: lang_simps is_space_def)
  moreover have "lit ''when (call.method)'' = lit ''when'' @ [32] @ lit ''('' @ [] @ lit ''call.method'' @ [] @ lit '')''"
    by (simp add: lit_def)
  moreover assume "contains code (lit ''when (call.method)'')"
  ultimately show ?thesis unfolding has_when_def by (intro re_found_in [of code "lit ''when (call.method)''"]) auto
qed

lemma test_s43_a_lines: "no_comment_block case_s43_main_activity_pass" "map cut_line_dart case_s43_main_activity_pass = [
     lit ''package com.opene2ee.opene2ee'',
     [],
     lit ''import io.flutter.embedding.android.FlutterActivity'',
     lit ''import io.flutter.embedding.engine.FlutterEngine'',
     lit ''import io.flutter.plugin.common.MethodCall'',
     lit ''import io.flutter.plugin.common.MethodChannel'',
     [],
     lit ''class MainActivity : FlutterActivity() {'',
     lit ''    override fun configureFlutterEngine(flutterEngine: FlutterEngine) {'',
     lit ''        super.configureFlutterEngine(flutterEngine)'',
     lit ''        MethodChannel(flutterEngine.dartExecutor.binaryMessenger, '' @ [34] @ lit ''opene2ee/vpn'' @ [34] @ lit '')'',
     lit ''            .setMethodCallHandler { call, result ->'',
     lit ''                when (call.method) {'',
     lit ''                    '' @ [34] @ lit ''start'' @ [34] @ lit '' -> result.success('' @ [34] @ lit ''started'' @ [34] @
       lit '')'',
     lit ''                    '' @ [34] @ lit ''stop'' @ [34] @ lit '' -> result.success('' @ [34] @ lit ''stopped'' @ [34] @
       lit '')'',
     lit ''                    '' @ [34] @ lit ''status'' @ [34] @ lit '' -> result.success('' @ [34] @ lit ''idle'' @ [34] @
       lit '')'',
     lit ''                    '' @ [34] @ lit ''getSampledPackets'' @ [34] @ lit '' -> {'',
     lit ''                        val mockPackets = listOf('',
     lit ''                            mapOf('' @ [34] @ lit ''version'' @ [34] @ lit '' to 4, '' @ [34] @ lit ''protocol'' @
       [34] @ lit '' to 6)'',
     lit ''                        )'',
     lit ''                        result.success(mockPackets)'',
     lit ''                    }'',
     lit ''                    else -> result.notImplemented()'',
     lit ''                }'',
     lit ''            }'',
     lit ''    }'',
     lit ''}'']"
  by (simp_all add: no_comment_block_def cut_line_dart_def case_s43_main_activity_pass_def text_simps)

lemma test_s43_a_passes: "passes test_s43_a"
proof -
  let ?code = "py_join [NL] (map cut_line_dart case_s43_main_activity_pass)"
  have "has_when ?code"
    by (rule when_on_line) (simp add: test_s43_a_lines(2) contains_lines text_simps del: py_join.simps)
  moreover have "has_sampled_literal ?code"
    by (simp add: has_sampled_literal_def test_s43_a_lines(2) dq_def sq_def contains_lines text_simps del: py_join.simps)
  ultimately show ?thesis
    by (simp add: passes_def test_s43_a_def run_s43_check_def on_text_def strip_code_lines [OF test_s43_a_lines(1)] del: py_join.simps)
qed

lemma test_s43_b_lines: "no_comment_block case_s43_main_activity_no_handler" "map cut_line_dart case_s43_main_activity_no_handler = [
     lit ''package com.opene2ee.opene2ee'',
     [],
     lit ''import io.flutter.embedding.android.FlutterActivity'',
     lit ''import io.flutter.embedding.engine.FlutterEngine'',
     lit ''import io.flutter.plugin.common.MethodCall'',
     lit ''import io.flutter.plugin.common.MethodChannel'',
     [],
     lit ''class MainActivity : FlutterActivity() {'',
     lit ''    '',
     lit ''    '',
     lit ''    '',
     lit ''    '',
     lit ''    '',
     lit ''    '',
     lit ''    '',
     [],
     lit ''    override fun configureFlutterEngine(flutterEngine: FlutterEngine) {'',
     lit ''        super.configureFlutterEngine(flutterEngine)'',
     lit ''        MethodChannel(flutterEngine.dartExecutor.binaryMessenger, '' @ [34] @ lit ''opene2ee/vpn_permissions'' @
       [34] @ lit '')'',
     lit ''            .setMethodCallHandler { call, result ->'',
     lit ''                when (call.method) {'',
     lit ''                    '' @ [34] @ lit ''requestVpnPermission'' @ [34] @ lit '' -> result.success(true)'',
     lit ''                    '' @ [34] @ lit ''isVpnPrepared'' @ [34] @ lit '' -> result.success(false)'',
     lit ''                    else -> result.notImplemented()'',
     lit ''                }'',
     lit ''            }'',
     lit ''    }'',
     lit ''}'']"
  by (simp_all add: no_comment_block_def cut_line_dart_def case_s43_main_activity_no_handler_def text_simps)

lemma test_s43_b_passes: "passes test_s43_b"
proof -
  let ?code = "py_join [NL] (map cut_line_dart case_s43_main_activity_no_handler)"
  have "has_when ?code"
    by (rule when_on_line) (simp add: test_s43_b_lines(2) contains_lines text_simps del: py_join.simps)
  moreover have "\<not> has_sampled_literal ?code"
    by (simp add: has_sampled_literal_def test_s43_b_lines(2) dq_def sq_def contains_lines text_simps del: py_join.simps)
  ultimately show ?thesis
    by (simp add: passes_def test_s43_b_def run_s43_check_def on_text_def strip_code_lines [OF test_s43_b_lines(1)] del: py_join.simps)
      (simp add: message_of_def s43_messages_def text_simps)
qed

lemmas build_cases_pass_each =
  test_s1_a_passes test_s1_b_passes test_s1_c_passes test_s1_d_passes test_s1_e_passes test_s1_f_passes
  test_s6_a_passes test_s6_b_passes test_s6_c_passes test_s6_d_passes test_s7_a_passes test_s7_b_passes
  test_s7_c_passes test_s7_d_passes test_s8_a_passes test_s8_b_passes test_s9_a_passes test_s9_b_passes
  test_s9_c_passes test_s10_a_passes test_s10_b_passes test_s10_c_passes test_s11_a_passes test_s11_b_passes
  test_s11_c_passes test_s12_a_passes test_s12_b_passes test_s12_c_passes test_s13_a_passes test_s13_b_passes
  test_s13_c_passes test_s17_a_passes test_s17_b_passes test_s18_a_passes test_s18_b_passes test_s19_a_passes
  test_s19_b_passes test_s20_a_passes test_s20_b_passes test_s28_a_passes test_s28_b_passes test_s42_a_passes
  test_s42_b_passes test_s43_a_passes test_s43_b_passes

end
