(* ===== verification/Vpn_Cases.thy ===== *)
theory Vpn_Cases
  imports Text_Lines Literal_Cases
begin

section \<open>The cases of the self-test on the VPN service\<close>

text \<open>
  The cases that tools/audit-self-test.py has for S73 to S124, as far as their replicas search without patterns and without comparing places. All of them are
  texts that must pass, so that no message is made: the message of a finding is a parameter. Most texts hold neither a
  comment nor an odd line break; for them the stripped code is the text without its last line feed (\<open>plain\<close>).
\<close>

text \<open>What unfolds a replica, and what evaluates its questions on the lines.\<close>

lemmas code_rules = on_text_def Let_def need_def forbid_def sq_def dq_def missing_tokens_def s96_tokens_def s97_tokens_def
  one_line_def NL_in_lit lit_Nil

lemmas line_rules = contains_text_lines contains_lines py_count_text_lines find_sub_text_lines drop_text_lines one_line_sep one_line_def
  cut_line_dart_def missing_texts_def s121_order_def find_after_def handled_pos_def s98_call_def tcp_states_def

subsection \<open>The texts\<close>

definition s94_lines_a :: "pystr list" where
  "s94_lines_a = [
     lit ''<manifest xmlns:android='' @ [34] @ lit ''http://schemas.android.com/apk/res/android'' @ [34] @ lit ''>'',
     lit ''    <uses-permission android:name='' @ [34] @ lit ''android.permission.INTERNET'' @ [34] @ lit '' />'',
     lit ''    <uses-permission android:name='' @ [34] @ lit ''android.permission.ACCESS_NETWORK_STATE'' @ [34] @ lit '' />'',
     lit ''    <uses-permission android:name='' @ [34] @ lit ''android.permission.CHANGE_NETWORK_STATE'' @ [34] @ lit '' />'',
     lit ''    <uses-permission android:name='' @ [34] @ lit ''android.permission.FOREGROUND_SERVICE'' @ [34] @ lit '' />'',
     lit ''    <application>'',
     lit ''        <service android:name='' @ [34] @ lit ''.vpn.OpenE2eeVpnService'' @ [34],
     lit ''                 android:permission='' @ [34] @ lit ''android.permission.BIND_VPN_SERVICE'' @ [34] @ lit '' />'',
     lit ''    </application>'',
     lit ''</manifest>'']"

definition s96_lines_a :: "pystr list" where
  "s96_lines_a = [
     lit ''package com.opene2ee.opene2ee.vpn'',
     lit ''import android.net.ConnectivityManager'',
     lit ''import android.net.LinkProperties'',
     lit ''import android.net.Network'',
     lit ''import android.net.NetworkCapabilities'',
     lit ''import android.net.NetworkRequest'',
     lit ''import android.util.Log'',
     lit ''class OpenE2eeVpnService {'',
     lit ''    private fun checkPrivateDnsAndBindToVpn() {'',
     lit ''        try {'',
     lit ''            // (1) ENTRY breadcrumb.'',
     lit ''            Log.d(TAG, '' @ [34] @ lit ''DNS: checkPrivateDnsAndBindToVpn: ENTRY'' @ [34] @ lit '')'',
     lit ''            val cm = getSystemService(android.content.Context.CONNECTIVITY_SERVICE) as ConnectivityManager'',
     lit ''            val activeNet = cm.activeNetwork'',
     lit ''            if (activeNet != null) {'',
     lit ''                val lp: LinkProperties? = cm.getLinkProperties(activeNet)'',
     lit ''                if (lp != null) {'',
     lit ''                    val serverName = try { lp.privateDnsServerName ?: '' @ [34] @ lit ''automatic'' @ [34] @
       lit '' } catch (e: Throwable) { '' @ [34] @ lit ''unknown'' @ [34] @ lit '' }'',
     lit ''                    // (2) isPrivateDnsActive breadcrumb.'',
     lit ''                    Log.d(TAG, '' @ [34] @
       lit ''DNS: LinkProperties.isPrivateDnsActive=${lp.isPrivateDnsActive}, privateDnsServerName=$serverName'' @ [34] @
       lit '')'',
     lit ''                }'',
     lit ''            }'',
     lit ''            val request = NetworkRequest.Builder()'',
     lit ''                .addTransportType(NetworkCapabilities.TRANSPORT_VPN)'',
     lit ''                .build()'',
     lit ''            // (3) requestNetwork start breadcrumb.'',
     lit ''            Log.d(TAG, '' @ [34] @ lit ''DNS: ConnectivityManager.requestNetwork(TRANSPORT_VPN) start'' @ [34] @
       lit '')'',
     lit ''            cm.requestNetwork(request, object : ConnectivityManager.NetworkCallback() {'',
     lit ''                override fun onAvailable(network: Network) {'',
     lit ''                    // (4a) onAvailable breadcrumb.'',
     lit ''                    Log.d(TAG, '' @ [34] @
       lit ''DNS: NetworkCallback.onAvailable (VPN network up), attempting bindProcessToNetwork'' @ [34] @ lit '')'',
     lit ''                    try {'',
     lit ''                        // (5) bindProcessToNetwork result breadcrumb.'',
     lit ''                        val bindResult = cm.bindProcessToNetwork(network)'',
     lit ''                        Log.d(TAG, '' @ [34] @ lit ''DNS: bindProcessToNetwork(vpn) result=$bindResult'' @ [34] @
       lit '')'',
     lit ''                    } catch (e: Throwable) {'',
     lit ''                        Log.w(TAG, '' @ [34] @ lit ''DNS: bindProcessToNetwork(vpn) failed: ${e.message}'' @ [34] @
       lit '')'',
     lit ''                    } finally {'',
     lit ''                        try { cm.unregisterNetworkCallback(this) } catch (_: Throwable) {}'',
     lit ''                    }'',
     lit ''                }'',
     lit ''                override fun onUnavailable() {'',
     lit ''                    // (4b) onUnavailable breadcrumb.'',
     lit ''                    Log.d(TAG, '' @ [34] @
       lit ''DNS: NetworkCallback.onUnavailable (no VPN network for bindProcessToNetwork)'' @ [34] @ lit '')'',
     lit ''                    try { cm.unregisterNetworkCallback(this) } catch (_: Throwable) {}'',
     lit ''                }'',
     lit ''            })'',
     lit ''        } catch (e: Throwable) {'',
     lit ''            Log.w(TAG, '' @ [34] @ lit ''DNS: checkPrivateDnsAndBindToVpn failed: ${e.message}'' @ [34] @ lit '')'',
     lit ''        }'',
     lit ''    }'',
     lit ''}'']"

definition s97_lines_a :: "pystr list" where
  "s97_lines_a = [
     lit ''package com.opene2ee.opene2ee.vpn'',
     lit ''import android.net.ConnectivityManager'',
     lit ''import android.net.LinkProperties'',
     lit ''import android.net.Network'',
     lit ''import android.net.NetworkCapabilities'',
     lit ''import android.net.NetworkRequest'',
     lit ''import android.os.Handler'',
     lit ''import android.os.Looper'',
     lit ''import android.util.Log'',
     lit ''class OpenE2eeVpnService {'',
     lit ''    private fun checkPrivateDnsAndBindToVpn() {'',
     lit ''        try {'',
     lit ''            Log.d(TAG, '' @ [34] @ lit ''DNS: checkPrivateDnsAndBindToVpn: ENTRY'' @ [34] @ lit '')'',
     lit ''            val cm = getSystemService(android.content.Context.CONNECTIVITY_SERVICE) as ConnectivityManager'',
     lit ''            val request = NetworkRequest.Builder()'',
     lit ''                .addTransportType(NetworkCapabilities.TRANSPORT_VPN)'',
     lit ''                .build()'',
     lit ''            Log.d(TAG, '' @ [34] @ lit ''DNS: ConnectivityManager.requestNetwork(TRANSPORT_VPN) start'' @ [34] @
       lit '')'',
     lit ''            val callbackFired = java.util.concurrent.atomic.AtomicBoolean(false)'',
     lit ''            val fallbackHandler = Handler(Looper.getMainLooper())'',
     lit ''            val fallbackRunnable = Runnable {'',
     lit ''                if (!callbackFired.get()) {'',
     lit ''                    Log.d(TAG, '' @ [34] @
       lit ''DNS: NetworkCallback TIMEOUT (5s) - attempting activeNetwork fallback'' @ [34] @ lit '')'',
     lit ''                    val activeNet = cm.activeNetwork'',
     lit ''                    if (activeNet != null) {'',
     lit ''                        val nc = cm.getNetworkCapabilities(activeNet)'',
     lit ''                        if (nc != null && nc.hasTransport(NetworkCapabilities.TRANSPORT_VPN)) {'',
     lit ''                            val bindResult = cm.bindProcessToNetwork(activeNet)'',
     lit ''                            Log.d(TAG, '' @ [34] @
       lit ''DNS: FALLBACK bindProcessToNetwork(activeNetwork) result=$bindResult'' @ [34] @ lit '')'',
     lit ''                        } else {'',
     lit ''                            Log.e(TAG, '' @ [34] @
       lit ''DNS: FALLBACK activeNetwork has NO TRANSPORT_VPN. Check Magisk DenyList.'' @ [34] @ lit '')'',
     lit ''                        }'',
     lit ''                    }'',
     lit ''                }'',
     lit ''            }'',
     lit ''            fallbackHandler.postDelayed(fallbackRunnable, 5_000L)'',
     lit ''            cm.requestNetwork(request, object : ConnectivityManager.NetworkCallback() {'',
     lit ''                override fun onAvailable(network: Network) {'',
     lit ''                    callbackFired.set(true)'',
     lit ''                    fallbackHandler.removeCallbacks(fallbackRunnable)'',
     lit ''                    Log.d(TAG, '' @ [34] @ lit ''DNS: NetworkCallback.onAvailable (VPN network up)'' @ [34] @
       lit '')'',
     lit ''                    val bindResult = cm.bindProcessToNetwork(network)'',
     lit ''                    Log.d(TAG, '' @ [34] @ lit ''DNS: bindProcessToNetwork(vpn) result=$bindResult'' @ [34] @
       lit '')'',
     lit ''                }'',
     lit ''                override fun onUnavailable() {'',
     lit ''                    callbackFired.set(true)'',
     lit ''                    fallbackHandler.removeCallbacks(fallbackRunnable)'',
     lit ''                    Log.d(TAG, '' @ [34] @ lit ''DNS: NetworkCallback.onUnavailable (no VPN network)'' @ [34] @
       lit '')'',
     lit ''                }'',
     lit ''            })'',
     lit ''        } catch (e: Throwable) {'',
     lit ''            Log.w(TAG, '' @ [34] @ lit ''DNS: checkPrivateDnsAndBindToVpn failed: ${e.message}'' @ [34] @ lit '')'',
     lit ''        }'',
     lit ''    }'',
     lit ''}'']"

definition s99_lines1_a :: "pystr list" where
  "s99_lines1_a = [
     lit ''// OpenE2eeVpnService.kt stub for S99'',
     lit ''// Sprint 11.0Z - user-space routing via NettyChannelClient.'',
     lit ''// The startReaderThread now parses IP packets and dispatches to'',
     lit ''// nettyClient.protectAndConnect for outbound sockets.'',
     lit ''class OpenE2eeVpnService { }'']"

definition s99_lines2_a :: "pystr list" where
  "s99_lines2_a = [
     lit ''// build.gradle.kts stub for S99'',
     lit ''dependencies {'',
     lit ''    implementation('' @ [34] @ lit ''io.netty:netty-all:4.1.107.Final'' @ [34] @ lit '')'',
     lit ''}'']"

definition s99_lines3_a :: "pystr list" where
  "s99_lines3_a = [
     lit ''// NettyChannelClient.kt stub for S99'',
     lit ''package com.opene2ee.opene2ee.vpn'',
     lit ''class NettyChannelClient(private val service: OpenE2eeVpnService) {'',
     lit ''    fun protectAndConnect(dstAddr: java.net.InetAddress, dstPort: Int, flowKey: String): java.net.Socket? {'',
     lit ''        val socket = java.net.Socket()'',
     lit ''        val protected = service.VpnService.protect(socket)'',
     lit ''        return socket'',
     lit ''    }'',
     lit ''}'']"

definition s91_lines1_a :: "pystr list" where
  "s91_lines1_a = [
     lit ''package com.opene2ee.opene2ee.vpn'',
     lit ''import android.net.ConnectivityManager'',
     lit ''import android.net.LinkProperties'',
     lit ''import android.net.Network'',
     lit ''import android.net.NetworkCapabilities'',
     lit ''import android.net.NetworkRequest'',
     lit ''class OpenE2eeVpnService {'',
     lit ''    private fun checkPrivateDnsAndBindToVpn() {'',
     lit ''        val cm = getSystemService(...) as ConnectivityManager'',
     lit ''        val lp: LinkProperties? = cm.getLinkProperties(cm.activeNetwork)'',
     lit ''        if (lp != null && lp.isPrivateDnsActive) {'',
     lit ''            lastError = '' @ [34] @ lit ''private_dns_active: VPN DNS bypassed'' @ [34],
     lit ''        }'',
     lit ''        val request = NetworkRequest.Builder()'',
     lit ''            .addTransportType(NetworkCapabilities.TRANSPORT_VPN)'',
     lit ''            .build()'',
     lit ''        cm.requestNetwork(request, object : ConnectivityManager.NetworkCallback() {'',
     lit ''            override fun onAvailable(network: Network) {'',
     lit ''                cm.bindProcessToNetwork(network)'',
     lit ''            }'',
     lit ''        })'',
     lit ''    }'',
     lit ''}'']"

definition s91_lines2_a :: "pystr list" where
  "s91_lines2_a = [
     lit ''class _S {'',
     lit ''  Future<void> _onStart() async {'',
     lit ''    final status = await _vpn.status();'',
     lit ''    final lastError = status['' @ [39] @ lit ''lastError'' @ [39] @ lit ''] as String?;'',
     lit ''    if (lastError != null && lastError.startsWith('' @ [39] @ lit ''private_dns_active'' @ [39] @ lit '')) {'',
     lit ''      ScaffoldMessenger.of(context).showSnackBar('',
     lit ''        SnackBar('',
     lit ''          content: Text('' @ [39] @ lit ''Chrome: chrome://flags/#dns-httpssvc > Disabled. '' @ [39] @ lit ''),'',
     lit ''        ),'',
     lit ''      );'',
     lit ''    }'',
     lit ''  }'',
     lit ''}'']"

definition s94_lines_b :: "pystr list" where
  "s94_lines_b = [
     lit ''<manifest xmlns:android='' @ [34] @ lit ''http://schemas.android.com/apk/res/android'' @ [34] @ lit ''>'',
     lit ''    <uses-permission android:name='' @ [34] @ lit ''android.permission.INTERNET'' @ [34] @ lit '' />'',
     lit ''    <uses-permission android:name='' @ [34] @ lit ''android.permission.ACCESS_NETWORK_STATE'' @ [34] @ lit '' />'',
     lit ''    <uses-permission android:name='' @ [34] @ lit ''android.permission.CHANGE_NETWORK_STATE'' @ [34] @ lit '' />'',
     lit ''    <uses-permission android:name='' @ [34] @ lit ''android.permission.FOREGROUND_SERVICE'' @ [34] @ lit '' />'',
     lit ''    <application>'',
     lit ''        <service android:name='' @ [34] @ lit ''.vpn.OpenE2eeVpnService'' @ [34],
     lit ''                 android:permission='' @ [34] @ lit ''android.permission.BIND_VPN_SERVICE'' @ [34] @ lit '' />'',
     lit ''    </application>'',
     lit ''</manifest>'']"

definition s92_lines_a :: "pystr list" where
  "s92_lines_a = [
     lit ''package com.opene2ee.opene2ee.vpn'',
     lit ''import android.os.Handler'',
     lit ''import android.os.Looper'',
     lit ''class OpenE2eeVpnService {'',
     lit ''    companion object {'',
     lit ''        const val COUNTDOWN_TOTAL_MS = 15L * 60L * 1000L'',
     lit ''    }'',
     lit ''    private val mainHandler: Handler = Handler(Looper.getMainLooper())'',
     lit ''    private var countdownAutoStopRunnable: Runnable? = null'',
     lit ''    private fun buildForegroundNotification(): android.app.Notification {'',
     lit ''        val endTimeMs = System.currentTimeMillis() + COUNTDOWN_TOTAL_MS'',
     lit ''        return androidx.core.app.NotificationCompat.Builder(this, '' @ [34] @ lit ''chan'' @ [34] @ lit '')'',
     lit ''            .setContentTitle('' @ [34] @ lit ''test'' @ [34] @ lit '')'',
     lit ''            .setOngoing(true)'',
     lit ''            .setUsesChronometer(true)'',
     lit ''            .setWhen(endTimeMs)'',
     lit ''            .setShowWhen(true)'',
     lit ''            .build()'',
     lit ''    }'',
     lit ''    private fun scheduleCountdownAutoStop() {'',
     lit ''        countdownAutoStopRunnable?.let { mainHandler.removeCallbacks(it) }'',
     lit ''        val runnable = Runnable {'',
     lit ''            try { stopCapture(graceful = true) } catch (e: Throwable) {}'',
     lit ''            countdownAutoStopRunnable = null'',
     lit ''        }'',
     lit ''        countdownAutoStopRunnable = runnable'',
     lit ''        mainHandler.postDelayed(runnable, COUNTDOWN_TOTAL_MS)'',
     lit ''    }'',
     lit ''    private fun stopCapture(graceful: Boolean): State {'',
     lit ''        countdownAutoStopRunnable?.let { mainHandler.removeCallbacks(it) }'',
     lit ''        countdownAutoStopRunnable = null'',
     lit ''        return State.STOPPED'',
     lit ''    }'',
     lit ''}'']"

definition case_s73_main_activity_pass :: "pystr list" where
  "case_s73_main_activity_pass = [
     lit ''package com.opene2ee.opene2ee'',
     lit ''import io.flutter.embedding.android.FlutterActivity'',
     lit ''import io.flutter.plugin.common.MethodChannel'',
     lit ''import com.opene2ee.opene2ee.vpn.OpenE2eeVpnService'',
     [],
     lit ''class MainActivity : FlutterActivity() {'',
     lit ''    private var vpnChannel: MethodChannel? = null'',
     lit ''    override fun configureFlutterEngine(flutterEngine: FlutterEngine) {'',
     lit ''        super.configureFlutterEngine(flutterEngine)'',
     lit ''        val vpnChannel = MethodChannel('',
     lit ''            flutterEngine.dartExecutor.binaryMessenger,'',
     lit ''            OpenE2eeVpnService.METHOD_CHANNEL,'',
     lit ''        ).apply {'',
     lit ''            setMethodCallHandler { call, result ->'',
     lit ''                OpenE2eeVpnService.dispatch(this@MainActivity, call, result)'',
     lit ''            }'',
     lit ''        }'',
     lit ''    }'',
     lit ''}'']"

definition case_s77_active_pool_screen_pass :: "pystr list" where
  "case_s77_active_pool_screen_pass = [
     lit ''import '' @ [39] @ lit ''package:flutter/material.dart'' @ [39] @ lit '';'',
     lit ''import '' @ [39] @ lit ''package:flutter_riverpod/flutter_riverpod.dart'' @ [39] @ lit '';'',
     lit ''import '' @ [39] @ lit ''package:opene2ee/services/vpn_service.dart'' @ [39] @ lit '';'',
     [],
     lit ''class ActivePoolScreen extends ConsumerStatefulWidget {'',
     lit ''  const ActivePoolScreen({super.key});'',
     lit ''  @override'',
     lit ''  ConsumerState<ActivePoolScreen> createState() =>'',
     lit ''      _ActivePoolScreenState();'',
     lit ''}'',
     [],
     lit ''class _ActivePoolScreenState extends ConsumerState<ActivePoolScreen> {'',
     lit ''  VpnLifecycleState _vpnState = VpnLifecycleState.idle;'',
     lit ''  @override'',
     lit ''  void initState() {'',
     lit ''    super.initState();'',
     lit ''    // Sprint 11.0G '' @ [8212] @ lit '' explicit `VpnService.instance` form'',
     lit ''    // (NOT `VpnService()`).'',
     lit ''    final vpn = VpnService.instance;'',
     lit ''    vpn.stateStream.listen((s) {'',
     lit ''      if (mounted) {'',
     lit ''        setState(() => _vpnState = s);'',
     lit ''      }'',
     lit ''    });'',
     lit ''  }'',
     lit ''}'']"

definition case_s78_vpn_service_state_transitions_pass :: "pystr list" where
  "case_s78_vpn_service_state_transitions_pass = [
     lit ''package com.opene2ee.opene2ee.vpn'',
     lit ''import android.util.Log'',
     lit ''class OpenE2eeVpnService {'',
     lit ''    companion object {'',
     lit ''        @JvmField val stateLock: Any = Any()'',
     lit ''    }'',
     lit ''    private fun startCapture(): State {'',
     lit ''        return synchronized(stateLock) {'',
     lit ''            Log.d(TAG, '' @ [34] @
       lit ''startCapture: SAMPLING started, pfd=$pfd, state transition $prevState -> $state'' @ [34] @ lit '')'',
     lit ''            return@synchronized state'',
     lit ''        }'',
     lit ''    }'',
     lit ''    private fun stopCapture(graceful: Boolean): State {'',
     lit ''        return synchronized(stateLock) {'',
     lit ''            Log.d(TAG, '' @ [34] @ lit ''stopCapture: called, graceful=$graceful, prevState=$prevState'' @ [34] @
       lit '')'',
     lit ''            return@synchronized state'',
     lit ''        }'',
     lit ''    }'',
     lit ''    override fun onRevoke() {'',
     lit ''        Log.w(TAG, '' @ [34] @ lit ''onRevoke: VPN profile revoked by system'' @ [34] @ lit '')'',
     lit ''    }'',
     lit ''}'']"

definition s100_lines_a :: "pystr list" where
  "s100_lines_a = [
     lit ''package com.opene2ee.opene2ee.vpn'',
     lit ''import android.util.Log'',
     lit ''import java.net.InetAddress'',
     lit ''import java.net.Socket'',
     lit ''import java.util.concurrent.ConcurrentHashMap'',
     lit ''import java.util.concurrent.atomic.AtomicLong'',
     lit ''import java.io.OutputStream'',
     lit ''import java.nio.ByteBuffer'',
     lit ''import java.nio.ByteOrder'',
     [],
     lit ''class NettyChannelClient(private val service: OpenE2eeVpnService) {'',
     lit ''    enum class TcpState {'',
     lit ''        LISTEN, SYN_SENT, ESTABLISHED, FIN_WAIT_1, FIN_WAIT_2,'',
     lit ''        CLOSE_WAIT, LAST_ACK, TIME_WAIT, CLOSED'',
     lit ''    }'',
     lit ''    data class TcpConnection('',
     lit ''        var state: TcpState = TcpState.LISTEN,'',
     lit ''        var seqNum: Long = 0L,'',
     lit ''        var ackNum: Long = 0L,'',
     lit ''        var receiveWindow: Int = 1460,'',
     lit ''        var socket: Socket? = null,'',
     lit ''        var readerThread: Thread? = null,'',
     lit ''    )'',
     lit ''    private val tcpConnectionMap: MutableMap<String, TcpConnection> = ConcurrentHashMap()'',
     lit ''    private val connectionSeq = AtomicLong(0L)'',
     lit ''    @Volatile private var tunOutputStream: OutputStream? = null'',
     lit ''    fun setTunOutputStream(output: OutputStream?) { tunOutputStream = output }'',
     lit ''    // Sprint 12.0A - TCP state machine MVP. 3-way handshake + data flow + FIN.'',
     lit ''    fun handleTcpPacket('',
     lit ''        ipPacket: ByteArray,'',
     lit ''        offset: Int,'',
     lit ''        length: Int,'',
     lit ''        srcIp: String,'',
     lit ''        dstIp: String,'',
     lit ''        srcPort: Int,'',
     lit ''        dstPort: Int'',
     lit ''    ) {'',
     lit ''        // dispatch on flags (SYN / SYN+ACK / ACK / PSH+ACK / FIN+ACK / RST)'',
     lit ''        val flowKey = '' @ [34] @ lit ''$srcIp:$srcPort-$dstIp:$dstPort'' @ [34],
     lit ''        val tcp = parseTcpHeader(ipPacket, length, offset) ?: return'',
     lit ''        val flags = tcp.flags'',
     lit ''        when {'',
     lit ''            (flags and 0x02) != 0 && (flags and 0x10) == 0 -> {'',
     lit ''                val conn = TcpConnection()'',
     lit ''                conn.state = TcpState.LISTEN'',
     lit ''                conn.seqNum = (System.nanoTime() and 0xFFFFFFFFL)'',
     lit ''                conn.ackNum = tcp.seqNum + 1'',
     lit ''                Log.d('' @ [34] @ lit ''NettyChannelClient'' @ [34] @ lit '', '' @ [34] @
       lit ''handleTcpPacket: SYN, flow $flowKey, state=LISTEN -> SYN_SENT'' @ [34] @ lit '')'',
     lit ''                val sock = protectAndConnect(InetAddress.getByName(dstIp), dstPort, flowKey)'',
     lit ''                if (sock == null) { conn.state = TcpState.CLOSED; return }'',
     lit ''                conn.socket = sock'',
     lit ''                conn.state = TcpState.ESTABLISHED'',
     lit ''                Log.d('' @ [34] @ lit ''NettyChannelClient'' @ [34] @ lit '', '' @ [34] @
       lit ''handleTcpPacket: SYN+ACK received, state=SYN_SENT -> ESTABLISHED for flow $flowKey'' @ [34] @ lit '')'',
     lit ''                tcpConnectionMap[flowKey] = conn'',
     lit ''            }'',
     lit ''            (flags and 0x10) != 0 -> {'',
     lit ''                val conn = tcpConnectionMap[flowKey]'',
     lit ''                if (conn != null) {'',
     lit ''                    conn.lastAckSent = tcp.ackNum'',
     lit ''                    Log.d('' @ [34] @ lit ''NettyChannelClient'' @ [34] @ lit '', '' @ [34] @
       lit ''handleTcpPacket: ACK, flow $flowKey, ackNum=${tcp.ackNum} (state=${conn.state})'' @ [34] @ lit '')'',
     lit ''                }'',
     lit ''            }'',
     lit ''        }'',
     lit ''    }'',
     lit ''    private fun parseTcpHeader(buf: ByteArray, len: Int, ipHeaderLen: Int) = null'',
     lit ''    private fun protectAndConnect(dst: InetAddress, port: Int, flowKey: String): Socket? = null'',
     lit ''}'']"

definition s101_lines_a :: "pystr list" where
  "s101_lines_a = [
     lit ''package com.opene2ee.opene2ee.vpn'',
     lit ''import java.net.Socket'',
     lit ''import java.util.concurrent.atomic.AtomicLong'',
     lit ''import java.util.concurrent.ConcurrentHashMap'',
     lit ''class NettyChannelClient(private val service: OpenE2eeVpnService) {'',
     lit ''    enum class TcpState {'',
     lit ''        LISTEN,'',
     lit ''        SYN_SENT,'',
     lit ''        ESTABLISHED,'',
     lit ''        FIN_WAIT_1,'',
     lit ''        FIN_WAIT_2,'',
     lit ''        CLOSE_WAIT,'',
     lit ''        LAST_ACK,'',
     lit ''        TIME_WAIT,'',
     lit ''        CLOSED'',
     lit ''    }'',
     lit ''    data class TcpConnection('',
     lit ''        var state: TcpState = TcpState.LISTEN,'',
     lit ''        var seqNum: Long = 0L,'',
     lit ''        var ackNum: Long = 0L,'',
     lit ''        var receiveWindow: Int = 1460,'',
     lit ''        var socket: Socket? = null,'',
     lit ''    )'',
     lit ''}'']"

definition s102_lines_a :: "pystr list" where
  "s102_lines_a = [
     lit ''package com.opene2ee.opene2ee.vpn'',
     lit ''import android.util.Log'',
     lit ''import java.net.InetAddress'',
     lit ''import java.net.Socket'',
     lit ''class NettyChannelClient(private val service: OpenE2eeVpnService) {'',
     lit ''    fun handleTcpPacket('',
     lit ''        ipPacket: ByteArray,'',
     lit ''        offset: Int,'',
     lit ''        length: Int,'',
     lit ''        srcIp: String,'',
     lit ''        dstIp: String,'',
     lit ''        srcPort: Int,'',
     lit ''        dstPort: Int'',
     lit ''    ) {'',
     lit ''        val flowKey = '' @ [34] @ lit ''$srcIp:$srcPort-$dstIp:$dstPort'' @ [34],
     lit ''        val tcp = parseTcpHeader(ipPacket, length, offset) ?: return'',
     lit ''        val flags = tcp.flags'',
     lit ''        when {'',
     lit ''            (flags and 0x02) != 0 && (flags and 0x10) == 0 -> {'',
     lit ''                Log.d('' @ [34] @ lit ''NettyChannelClient'' @ [34] @ lit '', '' @ [34] @
       lit ''handleTcpPacket: SYN, flow $flowKey, state=LISTEN -> SYN_SENT'' @ [34] @ lit '')'',
     lit ''                Log.d('' @ [34] @ lit ''NettyChannelClient'' @ [34] @ lit '', '' @ [34] @
       lit ''handleTcpPacket: SYN+ACK received, state=SYN_SENT -> ESTABLISHED for flow $flowKey'' @ [34] @ lit '')'',
     lit ''            }'',
     lit ''            (flags and 0x10) != 0 -> {'',
     lit ''                Log.d('' @ [34] @ lit ''NettyChannelClient'' @ [34] @ lit '', '' @ [34] @
       lit ''handleTcpPacket: ACK, flow $flowKey, ackNum=${tcp.ackNum} (state=ESTABLISHED)'' @ [34] @ lit '')'',
     lit ''            }'',
     lit ''        }'',
     lit ''    }'',
     lit ''    private fun parseTcpHeader(buf: ByteArray, len: Int, ipHeaderLen: Int) = null'',
     lit ''}'']"

definition s103_lines_a :: "pystr list" where
  "s103_lines_a = [
     lit ''package com.opene2ee.opene2ee.vpn'',
     lit ''import android.util.Log'',
     lit ''import java.net.DatagramPacket'',
     lit ''import java.net.DatagramSocket'',
     lit ''import java.net.InetAddress'',
     lit ''class NettyChannelClient(private val service: OpenE2eeVpnService) {'',
     lit ''    fun handleUdpPacket('',
     lit ''        srcIp: String,'',
     lit ''        srcPort: Int,'',
     lit ''        dstIp: String,'',
     lit ''        dstPort: Int,'',
     lit ''        payload: ByteArray'',
     lit ''    ) {'',
     lit ''        val flowKey = '' @ [34] @ lit ''$srcIp:$srcPort-$dstIp:$dstPort'' @ [34],
     lit ''        Log.d('' @ [34] @ lit ''NettyChannelClient'' @ [34] @ lit '', '' @ [34] @
       lit ''handleUdpPacket: forward ${payload.size}B from $flowKey'' @ [34] @ lit '')'',
     lit ''    }'',
     lit ''}'']"

definition s104_lines_a :: "pystr list" where
  "s104_lines_a = [
     lit ''package com.opene2ee.opene2ee.vpn'',
     lit ''import android.util.Log'',
     lit ''import java.net.DatagramPacket'',
     lit ''import java.net.DatagramSocket'',
     lit ''import java.net.InetAddress'',
     lit ''class NettyChannelClient(private val service: OpenE2eeVpnService) {'',
     lit ''    fun handleUdpPacket(srcIp: String, srcPort: Int, dstIp: String, dstPort: Int, payload: ByteArray) {'',
     lit ''        val udpSocket = DatagramSocket()'',
     lit ''        Log.d('' @ [34] @ lit ''NettyChannelClient'' @ [34] @ lit '', '' @ [34] @
       lit ''handleUdpPacket: created DatagramSocket for UDP forwarder'' @ [34] @ lit '')'',
     lit ''    }'',
     lit ''}'']"

definition s106_lines1_a :: "pystr list" where
  "s106_lines1_a = [
     lit ''package com.opene2ee.opene2ee.vpn'',
     lit ''import android.util.Log'',
     lit ''class OpenE2eeVpnService {'',
     lit ''    private fun startReaderThread() {'',
     lit ''        Log.d('' @ [34] @ lit ''OpenE2eeVpn'' @ [34] @ lit '', '' @ [34] @
       lit ''startReaderThread: TCP packet ENTRY (src=10.42.0.2, dst=212.64.210.85)'' @ [34] @ lit '')'',
     lit ''        Log.d('' @ [34] @ lit ''OpenE2eeVpn'' @ [34] @ lit '', '' @ [34] @
       lit ''startReaderThread: parseTcpHeader dstPort=80 srcPort=12345 flags=0x02'' @ [34] @ lit '')'',
     lit ''        Log.d('' @ [34] @ lit ''OpenE2eeVpn'' @ [34] @ lit '', '' @ [34] @
       lit ''startReaderThread: handleTcpPacket dispatch (flowKey=10.42.0.2:12345-212.64.210.85:80)'' @ [34] @ lit '')'',
     lit ''    }'',
     lit ''}'']"

definition s106_lines2_a :: "pystr list" where
  "s106_lines2_a = [
     lit ''package com.opene2ee.opene2ee.vpn'',
     lit ''import android.util.Log'',
     lit ''class NettyChannelClient {'',
     lit ''    private fun handleSyn() {'',
     lit ''        val conn = TcpConnection()'',
     lit ''        Log.d('' @ [34] @ lit ''NettyChannelClient'' @ [34] @ lit '', '' @ [34] @ lit ''new TcpConnection #1'' @
       [34] @ lit '')'',
     lit ''        Log.d('' @ [34] @ lit ''NettyChannelClient'' @ [34] @ lit '', '' @ [34] @
       lit ''handleTcpPacket: state=LISTEN -> SYN_SENT'' @ [34] @ lit '')'',
     lit ''    }'',
     lit ''}'']"

definition s108_lines_a :: "pystr list" where
  "s108_lines_a = [
     lit ''package com.opene2ee.opene2ee.vpn'',
     lit ''import android.util.Log'',
     lit ''import java.net.InetAddress'',
     lit ''import java.util.concurrent.ConcurrentHashMap'',
     lit ''class NettyChannelClient {'',
     lit ''    fun handleTcpPacket('',
     lit ''        ipPacket: ByteArray,'',
     lit ''        offset: Int,'',
     lit ''        length: Int,'',
     lit ''        srcIp: String,'',
     lit ''        dstIp: String,'',
     lit ''        srcPort: Int,'',
     lit ''        dstPort: Int'',
     lit ''    ) {'',
     lit ''        val primaryFlowKey = flowKey(InetAddress.getByName(srcIp), srcPort, InetAddress.getByName(dstIp), '' @
       lit ''dstPort, 6)'',
     lit ''        val reverseFlowKey = flowKey(InetAddress.getByName(dstIp), dstPort, InetAddress.getByName(srcIp), '' @
       lit ''srcPort, 6)'',
     lit ''        val conn = tcpConnectionMap[primaryFlowKey] ?: tcpConnectionMap[reverseFlowKey]'',
     lit ''    }'',
     lit ''    private fun flowKey(a: InetAddress, p: Int, b: InetAddress, q: Int, proto: Byte) = '' @ [34, 34],
     lit ''    private val tcpConnectionMap: MutableMap<String, Any> = ConcurrentHashMap()'',
     lit ''}'']"

definition s109_lines_a :: "pystr list" where
  "s109_lines_a = [
     lit ''package com.opene2ee.opene2ee.vpn'',
     lit ''import android.util.Log'',
     lit ''class NettyChannelClient {'',
     lit ''    private fun handleData() {'',
     lit ''        Log.d('' @ [34] @ lit ''NettyChannelClient'' @ [34] @ lit '', '' @ [34] @
       lit ''handleTcpPacket: PSH+ACK data, forward 500 bytes from flow ...'' @ [34] @ lit '')'',
     lit ''        Log.d('' @ [34] @ lit ''NettyChannelClient'' @ [34] @ lit '', '' @ [34] @
       lit ''sendHttpRequest: 500 bytes written to real socket for flow ...'' @ [34] @ lit '')'',
     lit ''    }'',
     lit ''    private fun startSocketReader() {'',
     lit ''        val n = 1024'',
     lit ''        Log.d('' @ [34] @ lit ''NettyChannelClient'' @ [34] @ lit '', '' @ [34] @
       lit ''recvHttpResponse: 1024 bytes read from real socket for flow ...'' @ [34] @ lit '')'',
     lit ''        Log.d('' @ [34] @ lit ''NettyChannelClient'' @ [34] @ lit '', '' @ [34] @
       lit ''responsePayload: 1024 bytes written to TUN for flow ...'' @ [34] @ lit '')'',
     lit ''    }'',
     lit ''}'']"

definition s110_lines_a :: "pystr list" where
  "s110_lines_a = [
     lit ''package com.opene2ee.opene2ee.vpn'',
     lit ''import android.util.Log'',
     lit ''class NettyChannelClient {'',
     lit ''    private fun handleSyn() {'',
     lit ''        tcpConnectionMap[flowKey] = conn'',
     lit ''        Log.d('' @ [34] @ lit ''NettyChannelClient'' @ [34] @ lit '', '' @ [34] @
       lit ''tcpConnectionMap.put primary flow: $flowKey (state=ESTABLISHED, conn #1, 1 entries in map)'' @ [34] @ lit '')'',
     lit ''    }'',
     lit ''    private fun handleTcpPacket() {'',
     lit ''        if (conn == null) {'',
     lit ''            Log.d('' @ [34] @ lit ''NettyChannelClient'' @ [34] @ lit '', '' @ [34] @
       lit ''handleTcpPacket: late ACK (no conn found, both keys miss) - flowKey=... flags=0x10'' @ [34] @ lit '')'',
     lit ''        }'',
     lit ''    }'',
     lit ''    private val tcpConnectionMap: MutableMap<String, Any> = mutableMapOf()'',
     lit ''    private val conn: Any? = null'',
     lit ''    private val flowKey: String = '' @ [34, 34],
     lit ''}'']"

definition s111_lines_a :: "pystr list" where
  "s111_lines_a = [
     lit ''package com.opene2ee.opene2ee.vpn'',
     lit ''import android.util.Log'',
     lit ''class NettyChannelClient {'',
     lit ''    data class TcpConnection('',
     lit ''        @Volatile var state: Any = Any(),'',
     lit ''        @Volatile var seqNum: Long = 0L,'',
     lit ''        @Volatile var ackNum: Long = 0L,'',
     lit ''        @Volatile var receiveWindow: Int = 1460,'',
     lit ''        @Volatile var socket: Any? = null,'',
     lit ''        val outputBuffer: ByteArray = ByteArray(0),'',
     lit ''        @Volatile var lastAckSent: Long = 0L,'',
     lit ''        @Volatile var retransmissionTimer: Any? = null,'',
     lit ''        @Volatile var readerThread: Thread? = null,'',
     lit ''    )'',
     lit ''}'']"

definition s115_lines_a :: "pystr list" where
  "s115_lines_a = [
     lit ''package com.opene2ee.opene2ee.vpn'',
     lit ''import android.util.Log'',
     lit ''import java.net.DatagramSocket'',
     lit ''import java.util.concurrent.ExecutorService'',
     lit ''import java.util.concurrent.Executors'',
     lit ''import java.util.concurrent.TimeUnit'',
     lit ''import io.netty.channel.EventLoopGroup'',
     lit ''import io.netty.channel.nio.NioEventLoopGroup'',
     lit ''class NettyChannelClient {'',
     lit ''    private val workerGroup: EventLoopGroup = NioEventLoopGroup(2)'',
     lit ''    private val backgroundExecutor: ExecutorService = Executors.newCachedThreadPool()'',
     lit ''    fun shutdown() {'',
     lit ''        // step 1: flowMap closed'',
     lit ''        flowMap.values.forEach { it.close() }'',
     lit ''        flowMap.clear()'',
     lit ''        // step 2: tcpConnectionMap cleared + reader threads joined'',
     lit ''        tcpConnectionMap.values.forEach { conn ->'',
     lit ''            try { conn.readerFuture?.cancel(true) } catch (_: Throwable) {}'',
     lit ''            try { conn.socket?.close() } catch (_: Throwable) {}'',
     lit ''            try { conn.readerThread?.interrupt() } catch (_: Throwable) {}'',
     lit ''        }'',
     lit ''        tcpConnectionMap.clear()'',
     lit ''        // step 3: udpSocketMap closed + udpReaderFutures cancelled'',
     lit ''        udpReaderFutures.values.forEach { f -> try { f?.cancel(true) } catch (_: Throwable) {} }'',
     lit ''        udpSocketMap.values.forEach { sock ->'',
     lit ''            try { sock.soTimeout = 0 } catch (_: Throwable) {}'',
     lit ''            try { sock.close() } catch (_: Throwable) {}'',
     lit ''        }'',
     lit ''        udpSocketMap.clear()'',
     lit ''        // step 4: tunOutputStream nulled'',
     lit ''        tunOutputStream = null'',
     lit ''        // step 5: workerGroup shutdownGracefully awaited'',
     lit ''        workerGroup.shutdownGracefully().await(1, TimeUnit.SECONDS)'',
     lit ''        // step 6: backgroundExecutor shutdownNow + awaitTermination'',
     lit ''        backgroundExecutor.shutdownNow()'',
     lit ''        backgroundExecutor.awaitTermination(1, TimeUnit.SECONDS)'',
     lit ''    }'',
     lit ''    data class TcpConnection(val socket: java.net.Socket? = null, val readerThread: Thread? = null, val '' @
       lit ''readerFuture: java.util.concurrent.Future<*>? = null)'',
     lit ''    private val flowMap: MutableMap<String, Any> = java.util.concurrent.ConcurrentHashMap()'',
     lit ''    private val tcpConnectionMap: MutableMap<String, TcpConnection> = java.util.concurrent.ConcurrentHashMap()'',
     lit ''    private val udpSocketMap: MutableMap<String, DatagramSocket> = java.util.concurrent.ConcurrentHashMap()'',
     lit ''    private val udpReaderFutures: MutableMap<String, java.util.concurrent.Future<*>?> = '' @
       lit ''java.util.concurrent.ConcurrentHashMap()'',
     lit ''    @Volatile private var tunOutputStream: java.io.OutputStream? = null'',
     lit ''}'']"

definition s116_lines_a :: "pystr list" where
  "s116_lines_a = [
     lit ''package com.opene2ee.opene2ee.vpn'',
     lit ''import android.util.Log'',
     lit ''import java.net.DatagramSocket'',
     lit ''import java.util.concurrent.Executors'',
     lit ''import java.util.concurrent.ThreadPoolExecutor'',
     lit ''import java.util.concurrent.TimeUnit'',
     lit ''class OpenE2eeVpnService : android.net.VpnService() {'',
     lit ''    private val udpForwarder = UdpForwarder(this)'',
     lit ''    private fun startReaderThread(pfd: android.os.ParcelFileDescriptor) {'',
     lit ''        val output = android.os.ParcelFileDescriptor.AutoCloseOutputStream(pfd)'',
     lit ''        udpForwarder.setTunOutputStream(output)'',
     lit ''    }'',
     lit ''    private fun stopCapture(graceful: Boolean): State {'',
     lit ''        udpForwarder.tearDown()'',
     lit ''        nettyClient?.shutdown()'',
     lit ''    }'',
     lit ''}'',
     lit ''internal class UdpForwarder(private val service: OpenE2eeVpnService) {'',
     lit ''    private val udpSocketMap: MutableMap<String, DatagramSocket> = java.util.concurrent.ConcurrentHashMap()'',
     lit ''    private val udpReaderFutures: MutableMap<String, java.util.concurrent.Future<*>?> = '' @
       lit ''java.util.concurrent.ConcurrentHashMap()'',
     lit ''    private val backgroundExecutor: ThreadPoolExecutor = Executors.newCachedThreadPool() as ThreadPoolExecutor'',
     lit ''    fun handleUdpPacket(srcIp: String, srcPort: Int, dstIp: String, dstPort: Int, payload: ByteArray) {'',
     lit ''        val flowKey = '' @ [34] @ lit ''$srcIp:$srcPort-$dstIp:$dstPort'' @ [34],
     lit ''        val s = DatagramSocket()'',
     lit ''        val protected = service.protect(s)'',
     lit ''        if (protected) udpSocketMap[flowKey] = s'',
     lit ''    }'',
     lit ''    fun tearDown() {'',
     lit ''        synchronized(udpReaderFutures) {'',
     lit ''            udpReaderFutures.values.forEach { f -> try { f?.cancel(true) } catch (_: Throwable) {} }'',
     lit ''        }'',
     lit ''        udpSocketMap.values.forEach { sock -> try { sock.close() } catch (_: Throwable) {} }'',
     lit ''        udpSocketMap.clear()'',
     lit ''        backgroundExecutor.shutdownNow()'',
     lit ''        backgroundExecutor.awaitTermination(1, TimeUnit.SECONDS)'',
     lit ''    }'',
     lit ''}'']"

definition s117_lines_a :: "pystr list" where
  "s117_lines_a = [
     lit ''package com.opene2ee.opene2ee.vpn'',
     lit ''import android.util.Log'',
     lit ''import java.net.Socket'',
     lit ''import java.util.concurrent.Executors'',
     lit ''import java.util.concurrent.ThreadPoolExecutor'',
     lit ''import java.util.concurrent.TimeUnit'',
     lit ''class OpenE2eeVpnService : android.net.VpnService() {'',
     lit ''    private val tcpForwarder = TcpForwarder(this)'',
     lit ''    private fun startReaderThread(pfd: android.os.ParcelFileDescriptor) {'',
     lit ''        val output = android.os.ParcelFileDescriptor.AutoCloseOutputStream(pfd)'',
     lit ''        tcpForwarder.setTunOutputStream(output)'',
     lit ''    }'',
     lit ''    private fun stopCapture(graceful: Boolean): State {'',
     lit ''        tcpForwarder.tearDown()'',
     lit ''        nettyClient?.shutdown()'',
     lit ''    }'',
     lit ''}'',
     lit ''internal class TcpForwarder(private val service: OpenE2eeVpnService) {'',
     lit ''    private val tcpConnectionMap: MutableMap<String, Any> = java.util.concurrent.ConcurrentHashMap()'',
     lit ''    private val tcpReaderFutures: MutableMap<String, java.util.concurrent.Future<*>?> = '' @
       lit ''java.util.concurrent.ConcurrentHashMap()'',
     lit ''    private val backgroundExecutor: ThreadPoolExecutor = Executors.newCachedThreadPool() as ThreadPoolExecutor'',
     lit ''    fun handleSyn(flowKey: String, dstIp: String, dstPort: Int) {'',
     lit ''        val sock = Socket()'',
     lit ''        val protected = service.protect(sock)'',
     lit ''        if (protected) sock.connect(java.net.InetSocketAddress(dstIp, dstPort), 5_000)'',
     lit ''    }'',
     lit ''    fun tearDown() {'',
     lit ''        synchronized(tcpReaderFutures) {'',
     lit ''            tcpReaderFutures.values.forEach { f -> try { f?.cancel(true) } catch (_: Throwable) {} }'',
     lit ''        }'',
     lit ''        for (conn in tcpConnectionMap.values) {'',
     lit ''            try { conn.socket?.close() } catch (_: Throwable) {}'',
     lit ''            try { conn.readerThread?.interrupt() } catch (_: Throwable) {}'',
     lit ''            try { conn.readerThread?.join(1_000L) } catch (_: Throwable) {}'',
     lit ''        }'',
     lit ''        tcpConnectionMap.clear()'',
     lit ''        backgroundExecutor.shutdownNow()'',
     lit ''        backgroundExecutor.awaitTermination(1, TimeUnit.SECONDS)'',
     lit ''    }'',
     lit ''    data class TcpConnection('',
     lit ''        @Volatile var socket: Socket? = null,'',
     lit ''        @Volatile var readerThread: Thread? = null'',
     lit ''    )'',
     lit ''}'']"

definition s118_lines_a :: "pystr list" where
  "s118_lines_a = [
     lit ''package com.opene2ee.opene2ee.vpn'',
     lit ''import android.util.Log'',
     lit ''import java.net.Socket'',
     lit ''internal class TcpForwarder(private val service: OpenE2eeVpnService) {'',
     lit ''    fun handleTcpPacket(srcIp: String, dstIp: String, srcPort: Int, dstPort: Int) {'',
     lit ''        val primaryFlowKey = '' @ [34] @ lit ''$srcIp:$srcPort-$dstIp:$dstPort'' @ [34],
     lit ''        val reverseFlowKey = '' @ [34] @ lit ''$dstIp:$dstPort-$srcIp:$srcPort'' @ [34],
     lit ''        val foundViaReverseKey = !tcpConnectionMap.containsKey(primaryFlowKey) &&'',
     lit ''                                  tcpConnectionMap.containsKey(reverseFlowKey)'',
     lit ''        if (foundViaReverseKey) {'',
     lit ''            Log.d('' @ [34] @ lit ''TcpForwarder'' @ [34] @ lit '', '' @ [34] @
       lit ''forwarded via reverseKey: $reverseFlowKey'' @ [34] @ lit '')'',
     lit ''        }'',
     lit ''    }'',
     lit ''    fun startSocketReader() {'',
     lit ''        val input: java.io.InputStream = java.net.Socket().getInputStream()'',
     lit ''        val buf = ByteArray(1460)'',
     lit ''        val n = input.read(buf)'',
     lit ''        Log.d('' @ [34] @ lit ''TcpForwarder'' @ [34] @ lit '', '' @ [34] @
       lit ''recvHttpResponse: $n bytes read from real socket for flow X, status=200, content-type=text/plain, content-length=42'' @
       [34] @ lit '')'',
     lit ''        Log.w('' @ [34] @ lit ''TcpForwarder'' @ [34] @ lit '', '' @ [34] @
       lit ''recvHttpResponse: SUSPECT response for flow X (status=502, content-type=text/html, content-length=42, '' @
       lit ''expected=application/json OR text/)'' @ [34] @ lit '')'',
     lit ''        Log.d('' @ [34] @ lit ''TcpForwarder'' @ [34] @ lit '', '' @ [34] @
       lit ''recvHttpResponse: bodyFirst100 (flow X, $n bytes): hex=[...] ascii=[...]'' @ [34] @ lit '')'',
     lit ''        Log.d('' @ [34] @ lit ''TcpForwarder'' @ [34] @ lit '', '' @ [34] @
       lit ''responsePayload: $n bytes written to TUN for flow X, bodyBytes=42, ack=100, status=200, content-type=text/plain'' @
       [34] @ lit '')'',
     lit ''        Log.w('' @ [34] @ lit ''TcpForwarder'' @ [34] @ lit '', '' @ [34] @
       lit ''recvHttpResponse: MISMATCH for status=200 + content-type=text/plain (flow X, bodyBytes=42 != content-length=43)'' @
       [34] @ lit '')'',
     lit ''    }'',
     lit ''    fun handleData() {'',
     lit ''        Log.d('' @ [34] @ lit ''TcpForwarder'' @ [34] @ lit '', '' @ [34] @
       lit ''sendHttpRequest: request line [GET /healthz HTTP/1.1] Host=212.64.210.85 for flow X'' @ [34] @ lit '')'',
     lit ''    }'',
     lit ''    fun handleTcpPacket() {'',
     lit ''        Log.d('' @ [34] @ lit ''TcpForwarder'' @ [34] @ lit '', '' @ [34] @
       lit ''flow forward: primary key X (flags=0x10, state=ESTABLISHED)'' @ [34] @ lit '')'',
     lit ''    }'',
     lit ''    private val tcpConnectionMap: MutableMap<String, Any> = java.util.concurrent.ConcurrentHashMap()'',
     lit ''}'']"

definition s119_lines_a :: "pystr list" where
  "s119_lines_a = [
     lit ''package com.opene2ee.opene2ee.vpn'',
     lit ''import android.util.Log'',
     lit ''internal class TcpForwarder(private val service: OpenE2eeVpnService) {'',
     lit ''    fun handleTcpPacket() {'',
     lit ''        Log.d('' @ [34] @ lit ''TcpForwarder'' @ [34] @ lit '', '' @ [34] @
       lit ''flow forward: primary key X (flags=0x10, state=ESTABLISHED)'' @ [34] @ lit '')'',
     lit ''    }'',
     lit ''    fun handleData() {'',
     lit ''        Log.d('' @ [34] @ lit ''TcpForwarder'' @ [34] @ lit '', '' @ [34] @
       lit ''sendHttpRequest: request line [GET /healthz HTTP/1.1] Host=212.64.210.85 for flow X (app=10.42.0.2:12345 -> '' @
       lit ''realDest=212.64.210.85:80)'' @ [34] @ lit '')'',
     lit ''    }'',
     lit ''    fun startSocketReader() {'',
     lit ''        val input: java.io.InputStream = java.net.Socket().getInputStream()'',
     lit ''        val buf = ByteArray(1460)'',
     lit ''        val n = input.read(buf)'',
     lit ''        Log.w('' @ [34] @ lit ''TcpForwarder'' @ [34] @ lit '', '' @ [34] @
       lit ''recvHttpResponse: SUSPECT response for flow X (status=502, content-type=text/html, content-length=42, '' @
       lit ''expected=application/json OR text/, n=42) '' @ [8212] @ lit '' app may not parse this'' @ [34] @ lit '')'',
     lit ''        Log.d('' @ [34] @ lit ''TcpForwarder'' @ [34] @ lit '', '' @ [34] @
       lit ''recvHttpResponse: bodyFirst100 (flow X, 42 bytes): hex=[...] ascii=[...]'' @ [34] @ lit '')'',
     lit ''        Log.w('' @ [34] @ lit ''TcpForwarder'' @ [34] @ lit '', '' @ [34] @
       lit ''recvHttpResponse: MISMATCH for status=200 + content-type=text/plain (flow X, bodyBytes=42 != content-length=43) '' @
       [8212] @ lit '' text/plain body does not match declared length'' @ [34] @ lit '')'',
     lit ''    }'',
     lit ''}'']"

definition s120_lines1_a :: "pystr list" where
  "s120_lines1_a = [
     lit ''import '' @ [39] @ lit ''package:flutter/foundation.dart'' @ [39] @ lit '';'',
     lit ''class AppConfig {'',
     lit ''  AppConfig._();'',
     lit ''  static const String versionName = String.fromEnvironment('' @ [39] @ lit ''VERSION_NAME'' @ [39] @
       lit '', defaultValue: '' @ [39] @ lit ''12.0E'' @ [39] @ lit '');'',
     lit ''  static const String versionCode = String.fromEnvironment('' @ [39] @ lit ''VERSION_CODE'' @ [39] @
       lit '', defaultValue: '' @ [39] @ lit ''06bd4d7'' @ [39] @ lit '');'',
     lit ''  static const String deviceId = String.fromEnvironment('' @ [39] @ lit ''DEVICE_ID'' @ [39] @
       lit '', defaultValue: '' @ [39] @ lit ''a1b2c3d4e5f60718a1b2c3d4'' @ [39] @ lit '');'',
     lit ''}'',
     lit ''const String kDeviceId = AppConfig.deviceId;'',
     lit ''const String kVersionName = AppConfig.versionName;'',
     lit ''const String kVersionCode = AppConfig.versionCode;'']"

definition s120_lines2_a :: "pystr list" where
  "s120_lines2_a = [
     lit ''import '' @ [39] @ lit ''package:flutter/material.dart'' @ [39] @ lit '';'',
     lit ''import '' @ [39] @ lit ''../config.dart'' @ [39] @ lit '';'',
     lit ''Widget build() {'',
     lit ''  return Scaffold('',
     lit ''    appBar: AppBar('',
     lit ''      title: const Text('' @ [39] @ lit ''Aktif N'' @ [246] @ lit ''bet'' @ [39] @ lit ''),'',
     lit ''      actions: ['',
     lit ''        Center('',
     lit ''          child: Padding('',
     lit ''            padding: const EdgeInsets.symmetric(horizontal: 12),'',
     lit ''            child: Text('',
     lit ''              '' @ [39] @ lit ''v${kVersionName} (${kVersionCode})'' @ [39] @ lit '','',
     lit ''              style: const TextStyle(fontSize: 12, color: Colors.white70),'',
     lit ''            ),'',
     lit ''          ),'',
     lit ''        ),'',
     lit ''      ],'',
     lit ''    ),'',
     lit ''  );'',
     lit ''}'']"

definition s124_lines1_a :: "pystr list" where
  "s124_lines1_a = [
     lit ''package com.opene2ee.opene2ee.vpn'',
     lit ''import android.util.Log'',
     lit ''class OpenE2eeVpnService {'',
     lit ''    companion object { const val TAG = '' @ [34] @ lit ''OpenE2eeVpn'' @ [34] @ lit '' }'',
     lit ''    fun attachFlutterEngine(engine: io.flutter.embedding.engine.FlutterEngine) {'',
     lit ''        Log.d(TAG, '' @ [34] @
       lit ''attachFlutterEngine: ENTER, prev Companion.methodChannel=${Companion.methodChannel}, engine=${engine.hashCode()}'' @
       [34] @ lit '')'',
     lit ''        val ch = io.flutter.plugin.common.MethodChannel(engine.dartExecutor.binaryMessenger, '' @ [34] @
       lit ''opene2ee/vpn'' @ [34] @ lit '')'',
     lit ''        Companion.methodChannel = ch'',
     lit ''        Log.d(TAG, '' @ [34] @ lit ''attachFlutterEngine: DONE, Companion.methodChannel=$ch'' @ [34] @ lit '')'',
     lit ''    }'',
     lit ''    fun detachFlutterEngine() {'',
     lit ''        Log.d(TAG, '' @ [34] @ lit ''detachFlutterEngine: ENTER, prev methodChannel=$methodChannel'' @ [34] @
       lit '')'',
     lit ''        methodChannel?.setMethodCallHandler(null)'',
     lit ''        methodChannel = null'',
     lit ''        Log.d(TAG, '' @ [34] @ lit ''detachFlutterEngine: DONE'' @ [34] @ lit '')'',
     lit ''    }'',
     lit ''    private fun onMethodCall(call: io.flutter.plugin.common.MethodCall, result: '' @
       lit ''io.flutter.plugin.common.MethodChannel.Result) {'',
     lit ''        Log.d(TAG, '' @ [34] @ lit ''onMethodCall: received method='' @ [39] @ lit ''${call.method}'' @ [39] @
       lit '', running=${running.get()}, state=$state, args=${call.arguments}'' @ [34] @ lit '')'',
     lit ''        try {'',
     lit ''            when (call.method) {'',
     lit ''                '' @ [34] @ lit ''start'' @ [34] @ lit '' -> {'',
     lit ''                    Log.d(TAG, '' @ [34] @ lit ''onMethodCall: '' @ [39] @ lit ''start'' @ [39] @
       lit '' branch ENTERED, calling startCapture()'' @ [34] @ lit '')'',
     lit ''                    val newState = startCapture()'',
     lit ''                    Log.d(TAG, '' @ [34] @ lit ''onMethodCall: '' @ [39] @ lit ''start'' @ [39] @
       lit '' branch DONE, newState=$newState'' @ [34] @ lit '')'',
     lit ''                    result.success(stateToMap(newState))'',
     lit ''                }'',
     lit ''                else -> result.notImplemented()'',
     lit ''            }'',
     lit ''        } catch (t: Throwable) {'',
     lit ''            Log.e(TAG, '' @ [34] @ lit ''onMethodCall: method='' @ [39] @ lit ''${call.method}'' @ [39] @
       lit '' THREW'' @ [34] @ lit '', t)'',
     lit ''            result.error('' @ [34] @ lit ''vpn_method_error'' @ [34] @ lit '', t.message, null)'',
     lit ''        }'',
     lit ''    }'',
     lit ''}'']"

definition s124_lines2_a :: "pystr list" where
  "s124_lines2_a = [
     lit ''package com.opene2ee.opene2ee'',
     lit ''import io.flutter.embedding.engine.FlutterEngine'',
     lit ''import io.flutter.plugin.common.MethodChannel'',
     lit ''class MainActivity : io.flutter.embedding.android.FlutterActivity() {'',
     lit ''    companion object { private const val TAG = '' @ [34] @ lit ''MainActivity'' @ [34] @ lit '' }'',
     lit ''    private var vpnChannel: MethodChannel? = null'',
     lit ''    override fun configureFlutterEngine(flutterEngine: FlutterEngine) {'',
     lit ''        super.configureFlutterEngine(flutterEngine)'',
     lit ''        android.util.Log.d(TAG, '' @ [34] @
       lit ''configureFlutterEngine: ENTER, registering opene2ee/vpn MethodChannel handler'' @ [34] @ lit '')'',
     lit ''        vpnChannel = MethodChannel(flutterEngine.dartExecutor.binaryMessenger, '' @ [34] @ lit ''opene2ee/vpn'' @
       [34] @ lit '').apply {'',
     lit ''            setMethodCallHandler { call, result ->'',
     lit ''                android.util.Log.d(TAG, '' @ [34] @ lit ''MethodChannel handler: received method='' @ [39] @
       lit ''${call.method}'' @ [39] @ lit '', delegating to OpenE2eeVpnService.dispatch'' @ [34] @ lit '')'',
     lit ''                com.opene2ee.opene2ee.vpn.OpenE2eeVpnService.dispatch(this@MainActivity, call, result)'',
     lit ''            }'',
     lit ''        }'',
     lit ''        android.util.Log.d(TAG, '' @ [34] @ lit ''configureFlutterEngine: DONE, opene2ee/vpn handler registered'' @
       [34] @ lit '')'',
     lit ''    }'',
     lit ''}'']"

definition s124_lines3_a :: "pystr list" where
  "s124_lines3_a = [
     lit ''import '' @ [39] @ lit ''package:flutter/services.dart'' @ [39] @ lit '';'',
     lit ''class VpnService {'',
     lit ''  final MethodChannel _channel = const MethodChannel('' @ [39] @ lit ''opene2ee/vpn'' @ [39] @ lit '');'',
     lit ''  Future<Map<String, Object?>> start() async {'',
     lit ''    // ignore: avoid_print'',
     lit ''    print('' @ [39] @ lit ''vpn_service.dart: start() ENTERED, invoking MethodChannel(START)'' @ [39] @ lit '');'',
     lit ''    try {'',
     lit ''      final r = await _channel.invokeMethod<Map<Object?, Object?>>('' @ [39] @ lit ''start'' @ [39] @ lit '');'',
     lit ''      // ignore: avoid_print'',
     lit ''      print('' @ [39] @ lit ''vpn_service.dart: start() invokeMethod returned: $r'' @ [39] @ lit '');'',
     lit ''      return (r ?? const {}).cast<String, Object?>();'',
     lit ''    } catch (e, st) {'',
     lit ''      // ignore: avoid_print'',
     lit ''      print('' @ [39] @ lit ''vpn_service.dart: start() THREW: $e'' @ [92] @ lit ''n$st'' @ [39] @ lit '');'',
     lit ''      rethrow;'',
     lit ''    }'',
     lit ''  }'',
     lit ''}'']"

lemma s96_lines_a_no_comment_block: "no_comment_block s96_lines_a"
  by (simp add: no_comment_block_def s96_lines_a_def text_simps)

lemma s97_lines_a_plain: "plain s97_lines_a"
  by (simp add: plain_def s97_lines_a_def text_simps)

lemma case_s73_main_activity_pass_plain: "plain case_s73_main_activity_pass"
  by (simp add: plain_def case_s73_main_activity_pass_def text_simps)

lemma case_s78_vpn_service_state_transitions_pass_plain: "plain case_s78_vpn_service_state_transitions_pass"
  by (simp add: plain_def case_s78_vpn_service_state_transitions_pass_def text_simps)

lemma s100_lines_a_no_comment_block: "no_comment_block s100_lines_a"
  by (simp add: no_comment_block_def s100_lines_a_def text_simps)

lemma s101_lines_a_plain: "plain s101_lines_a"
  by (simp add: plain_def s101_lines_a_def text_simps)

lemma s102_lines_a_plain: "plain s102_lines_a"
  by (simp add: plain_def s102_lines_a_def text_simps)

lemma s103_lines_a_plain: "plain s103_lines_a"
  by (simp add: plain_def s103_lines_a_def text_simps)

lemma s104_lines_a_plain: "plain s104_lines_a"
  by (simp add: plain_def s104_lines_a_def text_simps)

lemma s106_lines1_a_plain: "plain s106_lines1_a"
  by (simp add: plain_def s106_lines1_a_def text_simps)

lemma s106_lines2_a_plain: "plain s106_lines2_a"
  by (simp add: plain_def s106_lines2_a_def text_simps)

lemma s108_lines_a_plain: "plain s108_lines_a"
  by (simp add: plain_def s108_lines_a_def text_simps)

lemma s109_lines_a_plain: "plain s109_lines_a"
  by (simp add: plain_def s109_lines_a_def text_simps)

lemma s110_lines_a_plain: "plain s110_lines_a"
  by (simp add: plain_def s110_lines_a_def text_simps)

lemma s111_lines_a_plain: "plain s111_lines_a"
  by (simp add: plain_def s111_lines_a_def text_simps)

lemma s115_lines_a_no_comment_block: "no_comment_block s115_lines_a"
  by (simp add: no_comment_block_def s115_lines_a_def text_simps)

lemma s116_lines_a_plain: "plain s116_lines_a"
  by (simp add: plain_def s116_lines_a_def text_simps)

lemma s117_lines_a_plain: "plain s117_lines_a"
  by (simp add: plain_def s117_lines_a_def text_simps)

lemma s118_lines_a_plain: "plain s118_lines_a"
  by (simp add: plain_def s118_lines_a_def text_simps)

lemma s119_lines_a_plain: "plain s119_lines_a"
  by (simp add: plain_def s119_lines_a_def text_simps)

lemma s120_lines1_a_plain: "plain s120_lines1_a"
  by (simp add: plain_def s120_lines1_a_def text_simps)

lemma s120_lines2_a_plain: "plain s120_lines2_a"
  by (simp add: plain_def s120_lines2_a_def text_simps)

subsection \<open>The cases\<close>

definition test_s94_a :: "(finding \<Rightarrow> pystr) \<Rightarrow> test_case" where
  "test_s94_a message = (
      lit ''S94 PASS (AndroidManifest.xml declares android.permission.CHANGE_NETWORK_STATE - required by '' @
      lit ''bindProcessToNetwork)'',
      Inr (map message (run_s94_check (Some (text_lines s94_lines_a)))),
      [])"

definition test_s96_a :: "(finding \<Rightarrow> pystr) \<Rightarrow> test_case" where
  "test_s96_a message = (
      lit ''S96 PASS (OpenE2eeVpnService.kt checkPrivateDnsAndBindToVpn has 5 Log.d breadcrumbs - regression '' @
      lit ''guard for OnePlus 9 Pro OxygenOS '' @ [39] @ lit ''function silently returned early'' @ [39] @
      lit '' symptom)'',
      Inr (map message (run_s96_check (Some (text_lines s96_lines_a)))),
      [])"

definition test_s97_a :: "(finding \<Rightarrow> pystr) \<Rightarrow> test_case" where
  "test_s97_a message = (
      lit ''S97 PASS (OpenE2eeVpnService.kt checkPrivateDnsAndBindToVpn has 5s activeNetwork fallback - '' @
      lit ''regression guard for OnePlus 9 Pro OxygenOS '' @ [39] @ lit ''callback never fires'' @ [39] @
      lit '' symptom)'',
      Inr (map message (run_s97_check (Some (text_lines s97_lines_a)))),
      [])"

definition test_s99_a :: "(finding \<Rightarrow> pystr) \<Rightarrow> test_case" where
  "test_s99_a message = (
      lit ''S99 PASS (user-space TCP/IP stack via Netty + VpnService.protect() - regression guard for Owner 22:08 '' @
      lit ''VPN blackhole symptom)'',
      Inr (map message (run_s99_check (Some (text_lines s99_lines1_a)) (Some (text_lines s99_lines2_a)) (Some (text_lines s99_lines3_a)))),
      [])"

definition test_s91_a :: "(finding \<Rightarrow> pystr) \<Rightarrow> test_case" where
  "test_s91_a message = (
      lit ''S91 PASS (OpenE2eeVpnService.kt has isPrivateDnsActive + bindProcessToNetwork + '' @
      lit ''active_pool_screen.dart has private_dns_active check + chrome://flags/#dns-httpssvc snackbar)'',
      Inr (map message (run_s91_check (Some (text_lines s91_lines1_a)) (Some (text_lines s91_lines2_a)))),
      [])"

definition test_s94_b :: "(finding \<Rightarrow> pystr) \<Rightarrow> test_case" where
  "test_s94_b message = (
      lit ''S94 PASS (AndroidManifest.xml declares android.permission.CHANGE_NETWORK_STATE - required by '' @
      lit ''bindProcessToNetwork)'',
      Inr (map message (run_s94_check (Some (text_lines s94_lines_b)))),
      [])"

definition test_s92_a :: "(finding \<Rightarrow> pystr) \<Rightarrow> test_case" where
  "test_s92_a message = (
      lit ''S92 PASS (OpenE2eeVpnService.kt has COUNTDOWN_TOTAL_MS + setUsesChronometer + setWhen + '' @
      lit ''scheduleCountdownAutoStop + mainHandler.postDelayed + stopCapture(graceful=true))'',
      Inr (map message (run_s92_check (Some (text_lines s92_lines_a)))),
      [])"

definition test_s73_a :: "(finding \<Rightarrow> pystr) \<Rightarrow> test_case" where
  "test_s73_a message = (
      lit ''S73 PASS (MainActivity.kt owns the `opene2ee/vpn` MethodChannel '' @ [8212] @
      lit '' MethodChannel ctor + METHOD_CHANNEL constant + setMethodCallHandler + OpenE2eeVpnService.dispatch call)'',
      Inr (map message (run_s73_check (Some (text_lines case_s73_main_activity_pass)))),
      [])"

definition test_s77_a :: "(finding \<Rightarrow> pystr) \<Rightarrow> test_case" where
  "test_s77_a message = (
      lit ''S77 PASS (active_pool_screen.dart is ConsumerStatefulWidget + stateStream.listen with setState + '' @
      lit ''VpnService.instance reference '' @ [8212] @ lit '' regression guard for OnePlus 9 Pro UI propagation gap)'',
      Inr (map message (run_s77_check (Some (text_lines case_s77_active_pool_screen_pass)))),
      [])"

definition test_s78_a :: "(finding \<Rightarrow> pystr) \<Rightarrow> test_case" where
  "test_s78_a message = (
      lit ''S78 PASS (OpenE2eeVpnService.kt has state-transition Log.d breadcrumbs + synchronized(stateLock) '' @
      lit ''TOCTOU guard '' @ [8212] @ lit '' regression guard for OnePlus 9 Pro start->DRAINING race)'',
      Inr (map message (run_s78_check (Some (text_lines case_s78_vpn_service_state_transitions_pass)))),
      [])"

definition test_s100_a :: "(finding \<Rightarrow> pystr) \<Rightarrow> test_case" where
  "test_s100_a message = (
      lit ''S100 PASS (NettyChannelClient.kt has `fun handleTcpPacket(` method + `data class TcpConnection` '' @
      lit ''declaration - regression guard for the Sprint 12.0A TCP state machine MVP)'',
      Inr (map message (run_s100_check (Some (text_lines s100_lines_a)))),
      [])"

definition test_s101_a :: "(finding \<Rightarrow> pystr) \<Rightarrow> test_case" where
  "test_s101_a message = (
      lit ''S101 PASS (NettyChannelClient.kt has the 9-state TcpState enum - regression guard for the Sprint '' @
      lit ''12.0A TCP state machine MVP)'',
      Inr (map message (run_s101_check (Some (text_lines s101_lines_a)))),
      [])"

definition test_s102_a :: "(finding \<Rightarrow> pystr) \<Rightarrow> test_case" where
  "test_s102_a message = (
      lit ''S102 PASS (NettyChannelClient.kt has 3-way handshake log breadcrumbs (SYN / SYN+ACK / ACK) + '' @
      lit ''ESTABLISHED transition - regression guard for the Sprint 12.0A TCP state machine MVP)'',
      Inr (map message (run_s102_check (Some (text_lines s102_lines_a)))),
      [])"

definition test_s103_a :: "(finding \<Rightarrow> pystr) \<Rightarrow> test_case" where
  "test_s103_a message = (
      lit ''S103 PASS (NettyChannelClient.kt has `fun handleUdpPacket(` method - regression guard for the Sprint '' @
      lit ''12.0A.5 UDP forwarder / DNS resolver path)'',
      Inr (map message (run_s103_check (Some (text_lines s103_lines_a)))),
      [])"

definition test_s104_a :: "(finding \<Rightarrow> pystr) \<Rightarrow> test_case" where
  "test_s104_a message = (
      lit ''S104 PASS (NettyChannelClient.kt has `DatagramSocket` literal in the handleUdpPacket code path - '' @
      lit ''regression guard for the Sprint 12.0A.5 UDP forwarder)'',
      Inr (map message (run_s104_check (Some (text_lines s104_lines_a)))),
      [])"

definition test_s106_a :: "(finding \<Rightarrow> pystr) \<Rightarrow> test_case" where
  "test_s106_a message = (
      lit ''S106 PASS (5 breadcrumb tokens for TCP dispatch path: TCP packet ENTRY, parseTcpHeader dstPort, '' @
      lit ''handleTcpPacket dispatch, new TcpConnection, state transition - regression guard for Sprint 12.0A.6)'',
      Inr (map message (run_s106_check (Some (text_lines s106_lines1_a)) (Some (text_lines s106_lines2_a)))),
      [])"

definition test_s108_a :: "(finding \<Rightarrow> pystr) \<Rightarrow> test_case" where
  "test_s108_a message = (
      lit ''S108 PASS (NettyChannelClient.kt has primaryFlowKey + reverseFlowKey declarations for 5-tuple '' @
      lit ''normalization - regression guard for Owner 11:08 INCOMING packets dropped)'',
      Inr (map message (run_s108_check (Some (text_lines s108_lines_a)))),
      [])"

definition test_s109_a :: "(finding \<Rightarrow> pystr) \<Rightarrow> test_case" where
  "test_s109_a message = (
      lit ''S109 PASS (4 HTTP data flow breadcrumb tokens: sendHttpRequest, recvHttpResponse, responsePayload, '' @
      lit ''bytes read from real socket - regression guard for Sprint 12.0A.7)'',
      Inr (map message (run_s109_check (Some (text_lines s109_lines_a)))),
      [])"

definition test_s110_a :: "(finding \<Rightarrow> pystr) \<Rightarrow> test_case" where
  "test_s110_a message = (
      lit ''S110 PASS (tcpConnectionMap.put primary flow log + late ACK debug log for connection-registration '' @
      lit ''diagnostics - regression guard for Sprint 12.0A.7/12.0A.8)'',
      Inr (map message (run_s110_check (Some (text_lines s110_lines_a)))),
      [])"

definition test_s111_a :: "(finding \<Rightarrow> pystr) \<Rightarrow> test_case" where
  "test_s111_a message = (
      lit ''S111 PASS (8+ @Volatile annotations on TcpConnection var fields - cross-thread visibility fix for '' @
      lit ''Sprint 12.0A.7)'',
      Inr (map message (run_s111_check (Some (text_lines s111_lines_a)))),
      [])"

definition test_s115_a :: "(finding \<Rightarrow> pystr) \<Rightarrow> test_case" where
  "test_s115_a message = (
      lit ''S115 PASS (comprehensive teardown in NettyChannelClient.shutdown - 6 steps covering flowMap, '' @
      lit ''tcpConnectionMap, udpSocketMap, tunOutputStream, workerGroup, backgroundExecutor - regression guard '' @
      lit ''for Sprint 12.0X)'',
      Inr (map message (run_s115_check (Some (text_lines s115_lines_a)))),
      [])"

definition test_s116_a :: "(finding \<Rightarrow> pystr) \<Rightarrow> test_case" where
  "test_s116_a message = (
      lit ''S116 PASS (UdpForwarder teardown in OpenE2eeVpnService.kt - class + udpSocketMap + udpReaderFutures + '' @
      lit ''tearDown + cancel(true) + sock.close() + shutdownNow() + awaitTermination + protect( + '' @
      lit ''udpForwarder.tearDown() caller + udpForwarder.setTunOutputStream caller - regression guard for Sprint '' @
      lit ''12.0B)'',
      Inr (map message (run_s116_check (Some (text_lines s116_lines_a)))),
      [])"

definition test_s117_a :: "(finding \<Rightarrow> pystr) \<Rightarrow> test_case" where
  "test_s117_a message = (
      lit ''S117 PASS (TcpForwarder teardown in OpenE2eeVpnService.kt - class + tcpConnectionMap + '' @
      lit ''tcpReaderFutures + tearDown + cancel(true) + conn.socket.close() + conn.readerThread.interrupt() + '' @
      lit ''conn.readerThread.join + shutdownNow() + awaitTermination + service.protect( + '' @
      lit ''tcpForwarder.tearDown() caller + tcpForwarder.setTunOutputStream caller - regression guard for Sprint '' @
      lit ''12.0C, 10x VPN kapa/ac Owner-mandated test)'',
      Inr (map message (run_s117_check (Some (text_lines s117_lines_a)))),
      [])"

definition test_s118_a :: "(finding \<Rightarrow> pystr) \<Rightarrow> test_case" where
  "test_s118_a message = (
      lit ''S118 PASS (TcpForwarder response content debug - recvHttpResponse with status + content-type + '' @
      lit ''content-length + bytes + SUSPECT response Log.w + forwarded via reverseKey + responsePayload with '' @
      lit ''bodyBytes - regression guard for Sprint 12.0D, Owner 14:06 UNKNOWN FLOW 7 + Chrome page not opening)'',
      Inr (map message (run_s118_check (Some (text_lines s118_lines_a)))),
      [])"

definition test_s119_a :: "(finding \<Rightarrow> pystr) \<Rightarrow> test_case" where
  "test_s119_a message = (
      lit ''S119 PASS (SUSPECT response content debug - expected=application/json in SUSPECT log + Host= in '' @
      lit ''sendHttpRequest log + bodyFirst100 in response body fingerprint log + MISMATCH for status=200 + '' @
      lit ''text/plain body length check + flow forward positive signal replacing UNKNOWN FLOW concept - '' @
      lit ''regression guard for Sprint 12.0E, Owner 14:19 SUSPECT 10 + UNKNOWN FLOW 10)'',
      Inr (map message (run_s119_check (Some (text_lines s119_lines_a)))),
      [])"

definition test_s120_a :: "(finding \<Rightarrow> pystr) \<Rightarrow> test_case" where
  "test_s120_a message = (
      lit ''S120 PASS (version display in AppBar - versionName + versionCode in AppConfig + kVersionName + '' @
      lit ''kVersionCode file-scope aliases + v${kVersionName} + (${kVersionCode}) in AppBar actions - regression '' @
      lit ''guard for Sprint 12.0F, Owner 15:04 install-confirmation screenshot)'',
      Inr (map message (run_s120_check (Some (text_lines s120_lines1_a)) (Some (text_lines s120_lines2_a)))),
      [])"

definition test_s124_a :: "(finding \<Rightarrow> pystr) \<Rightarrow> test_case" where
  "test_s124_a message = (
      lit ''S124 PASS (MethodChannel call-chain debug - onMethodCall: received method= + attachFlutterEngine: '' @
      lit ''ENTER, prev + vpn_service.dart: start print + MainActivity: configureFlutterEngine: ENTER - '' @
      lit ''regression guard for Sprint 12.0F+4, Owner 12.0F+3 1387 sat'' @ [305] @ lit ''r release + 767 sat'' @
      [305] @ lit ''r debug '' @ [39] @ lit ''durum de'' @ [287] @ lit ''i'' @ [351] @ lit ''medi'' @ [39] @
      lit '' + 0 breadcrumbs)'',
      Inr (map message (run_s124_check (Some (text_lines s124_lines1_a)) (Some (text_lines s124_lines2_a)) (Some (text_lines s124_lines3_a)))),
      [])"

lemma test_s94_a_found:
  "found_at s94_lines_a (lit ''CHANGE_NETWORK_STATE'') 3 54"
  by (simp_all add: found_at_def one_line_def NL_in_lit lit_Nil s94_lines_a_def, simp_all add: text_simps)

lemma test_s94_a_passes: "passes (test_s94_a message)"
  by (simp add: passes_def test_s94_a_def run_s94_check_def code_rules  test_s94_a_found [THEN found_at_lines]; simp add: s94_lines_a_def line_rules text_simps del: py_join.simps)

lemma test_s96_a_found:
  "found_at (map cut_at_slashes s96_lines_a) (lit ''DNS: checkPrivateDnsAndBindToVpn: ENTRY'') 11 24"
  "found_at (map cut_at_slashes s96_lines_a) (lit ''isPrivateDnsActive='') 19 52"
  "found_at (map cut_at_slashes s96_lines_a) (lit ''ConnectivityManager.requestNetwork(TRANSPORT_VPN) start'') 26 29"
  "found_at (map cut_at_slashes s96_lines_a) (lit ''NetworkCallback.onAvailable'') 30 37"
  "found_at (map cut_at_slashes s96_lines_a) (lit ''NetworkCallback.onUnavailable'') 43 37"
  "found_at (map cut_at_slashes s96_lines_a) (lit ''bindProcessToNetwork(vpn) result='') 34 41"
  by (simp_all add: found_at_def one_line_def NL_in_lit lit_Nil s96_lines_a_def, simp_all add: text_simps cut_line_dart_def)

lemma test_s96_a_passes: "passes (test_s96_a message)"
  by (simp add: passes_def test_s96_a_def run_s96_check_def code_rules strip_code_lines [OF s96_lines_a_no_comment_block] strip_sub_text_lines [OF s96_lines_a_no_comment_block] test_s96_a_found [THEN found_at_sub]; simp add: s96_lines_a_def line_rules text_simps del: py_join.simps)

lemma test_s97_a_found:
  "found_at s97_lines_a (lit ''callbackFired'') 18 16"
  "found_at s97_lines_a (lit ''Handler(Looper.getMainLooper())'') 19 34"
  "found_at s97_lines_a (lit ''postDelayed('') 35 28"
  "found_at s97_lines_a (lit ''NetworkCallback TIMEOUT'') 22 37"
  "found_at s97_lines_a (lit ''FALLBACK bindProcessToNetwork(activeNetwork)'') 28 45"
  "found_at s97_lines_a (lit ''hasTransport(NetworkCapabilities.TRANSPORT_VPN)'') 26 45"
  "found_at s97_lines_a (lit ''Magisk DenyList'') 30 96"
  "found_at s97_lines_a (lit ''removeCallbacks(fallbackRunnable)'') 39 36"
  by (simp_all add: found_at_def one_line_def NL_in_lit lit_Nil s97_lines_a_def, simp_all add: text_simps)

lemma test_s97_a_passes: "passes (test_s97_a message)"
  by (simp add: passes_def test_s97_a_def run_s97_check_def code_rules plain_rules [OF refl s97_lines_a_plain] plain_sub [OF s97_lines_a_plain] test_s97_a_found [THEN found_at_lines]; simp add: s97_lines_a_def line_rules text_simps del: py_join.simps)

lemma test_s99_a_found:
  "found_at s99_lines2_a (lit ''io.netty:netty-all'') 2 20"
  "found_at s99_lines3_a (lit ''VpnService.protect('') 5 32"
  "found_at s99_lines3_a (lit ''class NettyChannelClient'') 2 0"
  "found_at s99_lines1_a (lit ''user-space'') 1 18"
  by (simp_all add: found_at_def one_line_def NL_in_lit lit_Nil s99_lines1_a_def s99_lines2_a_def s99_lines3_a_def, simp_all add: text_simps)

lemma test_s99_a_passes: "passes (test_s99_a message)"
  by (simp add: passes_def test_s99_a_def run_s99_check_def code_rules  test_s99_a_found [THEN found_at_lines]; simp add: s99_lines1_a_def s99_lines2_a_def s99_lines3_a_def line_rules text_simps del: py_join.simps)

lemma test_s91_a_found:
  "found_at s91_lines1_a (lit ''isPrivateDnsActive'') 10 29"
  "found_at s91_lines1_a (lit ''import android.net.ConnectivityManager'') 1 0"
  "found_at s91_lines1_a (lit ''bindProcessToNetwork'') 18 19"
  "found_at s91_lines2_a (lit ''private_dns_active'') 4 51"
  "found_at s91_lines2_a (lit ''chrome://flags/#dns-httpssvc'') 7 33"
  by (simp_all add: found_at_def one_line_def NL_in_lit lit_Nil s91_lines1_a_def s91_lines2_a_def, simp_all add: text_simps)

lemma test_s91_a_passes: "passes (test_s91_a message)"
  by (simp add: passes_def test_s91_a_def run_s91_check_def code_rules  test_s91_a_found [THEN found_at_lines]; simp add: s91_lines1_a_def s91_lines2_a_def line_rules text_simps del: py_join.simps)

lemma test_s94_b_found:
  "found_at s94_lines_b (lit ''CHANGE_NETWORK_STATE'') 3 54"
  by (simp_all add: found_at_def one_line_def NL_in_lit lit_Nil s94_lines_b_def, simp_all add: text_simps)

lemma test_s94_b_passes: "passes (test_s94_b message)"
  by (simp add: passes_def test_s94_b_def run_s94_check_def code_rules  test_s94_b_found [THEN found_at_lines]; simp add: s94_lines_b_def line_rules text_simps del: py_join.simps)

lemma test_s92_a_found:
  "found_at s92_lines_a (lit ''COUNTDOWN_TOTAL_MS'') 5 18"
  "found_at s92_lines_a (lit ''setUsesChronometer(true)'') 14 13"
  "found_at s92_lines_a (lit ''setWhen('') 15 13"
  "found_at s92_lines_a (lit ''scheduleCountdownAutoStop'') 19 16"
  "found_at s92_lines_a (lit ''mainHandler.postDelayed'') 26 8"
  "found_at s92_lines_a (lit ''stopCapture(graceful = true)'') 22 18"
  "found_at s92_lines_a (lit ''countdownAutoStopRunnable'') 8 16"
  by (simp_all add: found_at_def one_line_def NL_in_lit lit_Nil s92_lines_a_def, simp_all add: text_simps)

lemma test_s92_a_passes: "passes (test_s92_a message)"
  by (simp add: passes_def test_s92_a_def run_s92_check_def code_rules  test_s92_a_found [THEN found_at_lines]; simp add: s92_lines_a_def line_rules text_simps del: py_join.simps)

lemma test_s73_a_found:
  "found_at case_s73_main_activity_pass (lit ''MethodChannel('') 9 25"
  "found_at case_s73_main_activity_pass (lit ''OpenE2eeVpnService.METHOD_CHANNEL'') 11 12"
  "found_at case_s73_main_activity_pass (lit ''setMethodCallHandler'') 13 12"
  "found_at case_s73_main_activity_pass (lit ''OpenE2eeVpnService.dispatch'') 14 16"
  by (simp_all add: found_at_def one_line_def NL_in_lit lit_Nil case_s73_main_activity_pass_def, simp_all add: text_simps)

lemma test_s73_a_passes: "passes (test_s73_a message)"
  by (simp add: passes_def test_s73_a_def run_s73_check_def code_rules plain_rules [OF refl case_s73_main_activity_pass_plain] plain_sub [OF case_s73_main_activity_pass_plain] test_s73_a_found [THEN found_at_lines]; simp add: case_s73_main_activity_pass_def line_rules text_simps del: py_join.simps)

lemma test_s77_a_found:
  "found_at case_s77_active_pool_screen_pass (lit ''ConsumerStatefulWidget'') 4 31"
  "found_at case_s77_active_pool_screen_pass (lit ''setState('') 21 8"
  "found_at case_s77_active_pool_screen_pass (lit ''stateStream.listen'') 19 8"
  "found_at case_s77_active_pool_screen_pass (lit ''.stateStream.listen'') 19 7"
  "found_at case_s77_active_pool_screen_pass (lit ''VpnService.instance'') 16 32"
  by (simp_all add: found_at_def one_line_def NL_in_lit lit_Nil case_s77_active_pool_screen_pass_def, simp_all add: text_simps)

lemma test_s77_a_passes: "passes (test_s77_a message)"
  by (simp add: passes_def test_s77_a_def run_s77_check_def code_rules  test_s77_a_found [THEN found_at_lines]; simp add: case_s77_active_pool_screen_pass_def line_rules text_simps del: py_join.simps)

lemma test_s78_a_found:
  "found_at case_s78_vpn_service_state_transitions_pass (lit ''startCapture: SAMPLING started'') 8 24"
  "found_at case_s78_vpn_service_state_transitions_pass (lit ''stopCapture: called'') 14 24"
  "found_at case_s78_vpn_service_state_transitions_pass (lit ''onRevoke:'') 19 20"
  "found_at case_s78_vpn_service_state_transitions_pass (lit ''synchronized('') 7 15"
  "found_at case_s78_vpn_service_state_transitions_pass (lit ''stateLock'') 4 22"
  by (simp_all add: found_at_def one_line_def NL_in_lit lit_Nil case_s78_vpn_service_state_transitions_pass_def, simp_all add: text_simps)

lemma test_s78_a_passes: "passes (test_s78_a message)"
  by (simp add: passes_def test_s78_a_def run_s78_check_def code_rules plain_rules [OF refl case_s78_vpn_service_state_transitions_pass_plain] plain_sub [OF case_s78_vpn_service_state_transitions_pass_plain] test_s78_a_found [THEN found_at_lines]; simp add: case_s78_vpn_service_state_transitions_pass_def line_rules text_simps del: py_join.simps)

lemma test_s100_a_found:
  "found_at (map cut_line_dart s100_lines_a) (lit ''fun handleTcpPacket('') 28 4"
  "found_at (map cut_line_dart s100_lines_a) (lit ''data class TcpConnection'') 15 4"
  by (simp_all add: found_at_def one_line_def NL_in_lit lit_Nil s100_lines_a_def, simp_all add: text_simps cut_line_dart_def)

lemma test_s100_a_passes: "passes (test_s100_a message)"
  by (simp add: passes_def test_s100_a_def run_s100_check_def code_rules strip_code_lines [OF s100_lines_a_no_comment_block] strip_sub_text_lines [OF s100_lines_a_no_comment_block] test_s100_a_found [THEN found_at_code]; simp add: s100_lines_a_def line_rules text_simps del: py_join.simps)

lemma test_s101_a_found:
  "found_at s101_lines_a (lit ''enum class TcpState'') 5 4"
  "found_at s101_lines_a (lit ''LISTEN'') 6 8"
  "found_at s101_lines_a (lit ''SYN_SENT'') 7 8"
  "found_at s101_lines_a (lit ''ESTABLISHED'') 8 8"
  "found_at s101_lines_a (lit ''FIN_WAIT_1'') 9 8"
  "found_at s101_lines_a (lit ''FIN_WAIT_2'') 10 8"
  "found_at s101_lines_a (lit ''CLOSE_WAIT'') 11 8"
  "found_at s101_lines_a (lit ''LAST_ACK'') 12 8"
  "found_at s101_lines_a (lit ''TIME_WAIT'') 13 8"
  "found_at s101_lines_a (lit ''CLOSED'') 14 8"
  by (simp_all add: found_at_def one_line_def NL_in_lit lit_Nil s101_lines_a_def, simp_all add: text_simps)

lemma test_s101_a_passes: "passes (test_s101_a message)"
  by (simp add: passes_def test_s101_a_def run_s101_check_def code_rules plain_rules [OF refl s101_lines_a_plain] plain_sub [OF s101_lines_a_plain] test_s101_a_found [THEN found_at_lines]; simp add: s101_lines_a_def line_rules text_simps del: py_join.simps)

lemma test_s102_a_found:
  "found_at s102_lines_a (lit ''SYN, flow'') 19 62"
  "found_at s102_lines_a (lit ''SYN+ACK received'') 20 62"
  "found_at s102_lines_a (lit ''-> ESTABLISHED'') 20 95"
  "found_at s102_lines_a (lit ''ACK, flow'') 23 62"
  by (simp_all add: found_at_def one_line_def NL_in_lit lit_Nil s102_lines_a_def, simp_all add: text_simps)

lemma test_s102_a_passes: "passes (test_s102_a message)"
  by (simp add: passes_def test_s102_a_def run_s102_check_def code_rules plain_rules [OF refl s102_lines_a_plain] plain_sub [OF s102_lines_a_plain] test_s102_a_found [THEN found_at_lines]; simp add: s102_lines_a_def line_rules text_simps del: py_join.simps)

lemma test_s103_a_found:
  "found_at s103_lines_a (lit ''fun handleUdpPacket('') 6 4"
  by (simp_all add: found_at_def one_line_def NL_in_lit lit_Nil s103_lines_a_def, simp_all add: text_simps)

lemma test_s103_a_passes: "passes (test_s103_a message)"
  by (simp add: passes_def test_s103_a_def run_s103_check_def code_rules plain_rules [OF refl s103_lines_a_plain] plain_sub [OF s103_lines_a_plain] test_s103_a_found [THEN found_at_lines]; simp add: s103_lines_a_def line_rules text_simps del: py_join.simps)

lemma test_s104_a_found:
  "found_at s104_lines_a (lit ''DatagramSocket'') 3 16"
  by (simp_all add: found_at_def one_line_def NL_in_lit lit_Nil s104_lines_a_def, simp_all add: text_simps)

lemma test_s104_a_passes: "passes (test_s104_a message)"
  by (simp add: passes_def test_s104_a_def run_s104_check_def code_rules plain_rules [OF refl s104_lines_a_plain] plain_sub [OF s104_lines_a_plain] test_s104_a_found [THEN found_at_lines]; simp add: s104_lines_a_def line_rules text_simps del: py_join.simps)

lemma test_s106_a_found:
  "found_at s106_lines1_a (lit ''TCP packet ENTRY'') 4 49"
  "found_at s106_lines1_a (lit ''parseTcpHeader dstPort='') 5 49"
  "found_at s106_lines1_a (lit ''handleTcpPacket dispatch'') 6 49"
  "found_at s106_lines2_a (lit ''new TcpConnection'') 5 37"
  "found_at s106_lines2_a (lit ''TcpConnection()'') 4 19"
  "found_at s106_lines2_a (lit ''-> SYN_SENT'') 6 67"
  by (simp_all add: found_at_def one_line_def NL_in_lit lit_Nil s106_lines1_a_def s106_lines2_a_def, simp_all add: text_simps)

lemma test_s106_a_passes: "passes (test_s106_a message)"
  by (simp add: passes_def test_s106_a_def run_s106_check_def code_rules plain_rules [OF refl s106_lines1_a_plain] plain_sub [OF s106_lines1_a_plain] plain_rules [OF refl s106_lines2_a_plain] plain_sub [OF s106_lines2_a_plain] test_s106_a_found [THEN found_at_lines]; simp add: s106_lines1_a_def s106_lines2_a_def line_rules text_simps del: py_join.simps)

lemma test_s108_a_found:
  "found_at s108_lines_a (lit ''primaryFlowKey'') 14 12"
  "found_at s108_lines_a (lit ''reverseFlowKey'') 15 12"
  by (simp_all add: found_at_def one_line_def NL_in_lit lit_Nil s108_lines_a_def, simp_all add: text_simps)

lemma test_s108_a_passes: "passes (test_s108_a message)"
  by (simp add: passes_def test_s108_a_def run_s108_check_def code_rules plain_rules [OF refl s108_lines_a_plain] plain_sub [OF s108_lines_a_plain] test_s108_a_found [THEN found_at_lines]; simp add: s108_lines_a_def line_rules text_simps del: py_join.simps)

lemma test_s109_a_found:
  "found_at s109_lines_a (lit ''sendHttpRequest:'') 5 37"
  "found_at s109_lines_a (lit ''recvHttpResponse:'') 9 37"
  "found_at s109_lines_a (lit ''responsePayload:'') 10 37"
  "found_at s109_lines_a (lit ''bytes read from real socket'') 9 60"
  by (simp_all add: found_at_def one_line_def NL_in_lit lit_Nil s109_lines_a_def, simp_all add: text_simps)

lemma test_s109_a_passes: "passes (test_s109_a message)"
  by (simp add: passes_def test_s109_a_def run_s109_check_def code_rules plain_rules [OF refl s109_lines_a_plain] plain_sub [OF s109_lines_a_plain] test_s109_a_found [THEN found_at_lines]; simp add: s109_lines_a_def line_rules text_simps del: py_join.simps)

lemma test_s110_a_found:
  "found_at s110_lines_a (lit ''tcpConnectionMap.put primary flow'') 5 37"
  "found_at s110_lines_a (lit ''late ACK'') 9 58"
  by (simp_all add: found_at_def one_line_def NL_in_lit lit_Nil s110_lines_a_def, simp_all add: text_simps)

lemma test_s110_a_passes: "passes (test_s110_a message)"
  by (simp add: passes_def test_s110_a_def run_s110_check_def code_rules plain_rules [OF refl s110_lines_a_plain] plain_sub [OF s110_lines_a_plain] test_s110_a_found [THEN found_at_lines]; simp add: s110_lines_a_def line_rules text_simps del: py_join.simps)

lemma test_s111_a_passes: "passes (test_s111_a message)"
  by (simp add: passes_def test_s111_a_def run_s111_check_def code_rules plain_rules [OF refl s111_lines_a_plain] plain_sub [OF s111_lines_a_plain]; simp add: s111_lines_a_def line_rules text_simps del: py_join.simps)

lemma test_s115_a_found:
  "found_at (map cut_line_dart s115_lines_a) (lit ''flowMap.clear()'') 14 8"
  "found_at (map cut_line_dart s115_lines_a) (lit ''tcpConnectionMap.clear()'') 21 8"
  "found_at (map cut_line_dart s115_lines_a) (lit ''tunOutputStream = null'') 30 8"
  "found_at (map cut_line_dart s115_lines_a) (lit ''workerGroup.shutdownGracefully()'') 32 8"
  "found_at (map cut_line_dart s115_lines_a) (lit ''backgroundExecutor'') 10 16"
  "found_at (map cut_line_dart s115_lines_a) (lit ''readerFuture'') 17 23"
  "found_at (map cut_line_dart s115_lines_a) (lit ''cancel(true)'') 17 37"
  "found_at (map cut_line_dart s115_lines_a) (lit ''udpSocketMap.clear()'') 28 8"
  "found_at (map cut_line_dart s115_lines_a) (lit ''udpReaderFutures'') 23 8"
  "found_at (map cut_line_dart s115_lines_a) (lit ''TimeUnit'') 5 28"
  "found_at (map cut_line_dart s115_lines_a) (lit ''await'') 32 41"
  "found_at (map cut_line_dart s115_lines_a) (lit ''shutdownNow()'') 34 27"
  "found_at (map cut_line_dart s115_lines_a) (lit ''awaitTermination'') 35 27"
  by (simp_all add: found_at_def one_line_def NL_in_lit lit_Nil s115_lines_a_def, simp_all add: text_simps cut_line_dart_def)

lemma test_s115_a_passes: "passes (test_s115_a message)"
  by (simp add: passes_def test_s115_a_def run_s115_check_def code_rules strip_code_lines [OF s115_lines_a_no_comment_block] strip_sub_text_lines [OF s115_lines_a_no_comment_block] test_s115_a_found [THEN found_at_code]; simp add: s115_lines_a_def line_rules text_simps del: py_join.simps)

lemma test_s116_a_found:
  "found_at s116_lines_a (lit ''class UdpForwarder'') 17 9"
  "found_at s116_lines_a (lit ''udpSocketMap'') 18 16"
  "found_at s116_lines_a (lit ''udpReaderFutures'') 19 16"
  "found_at s116_lines_a (lit ''fun tearDown()'') 27 4"
  "found_at s116_lines_a (lit ''cancel(true)'') 29 60"
  "found_at s116_lines_a (lit ''shutdownNow()'') 33 27"
  "found_at s116_lines_a (lit ''awaitTermination'') 34 27"
  "found_at s116_lines_a (lit ''protect('') 24 32"
  "found_at s116_lines_a (lit ''udpForwarder.tearDown()'') 13 8"
  "found_at s116_lines_a (lit ''udpForwarder.setTunOutputStream'') 10 8"
  "found_at s116_lines_a (lit ''sock.close()'') 31 52"
  by (simp_all add: found_at_def one_line_def NL_in_lit lit_Nil s116_lines_a_def, simp_all add: text_simps)

lemma test_s116_a_passes: "passes (test_s116_a message)"
  by (simp add: passes_def test_s116_a_def run_s116_check_def code_rules plain_rules [OF refl s116_lines_a_plain] plain_sub [OF s116_lines_a_plain] test_s116_a_found [THEN found_at_lines]; simp add: s116_lines_a_def line_rules text_simps del: py_join.simps)

lemma test_s117_a_found:
  "found_at s117_lines_a (lit ''class TcpForwarder'') 17 9"
  "found_at s117_lines_a (lit ''tcpConnectionMap'') 18 16"
  "found_at s117_lines_a (lit ''tcpReaderFutures'') 19 16"
  "found_at s117_lines_a (lit ''fun tearDown()'') 26 4"
  "found_at s117_lines_a (lit ''cancel(true)'') 28 60"
  "found_at s117_lines_a (lit ''conn.readerThread?.interrupt()'') 32 18"
  "found_at s117_lines_a (lit ''conn.readerThread?.join'') 33 18"
  "found_at s117_lines_a (lit ''shutdownNow()'') 36 27"
  "found_at s117_lines_a (lit ''awaitTermination'') 37 27"
  "found_at s117_lines_a (lit ''service.protect('') 23 24"
  "found_at s117_lines_a (lit ''tcpForwarder.tearDown()'') 13 8"
  "found_at s117_lines_a (lit ''tcpForwarder.setTunOutputStream'') 10 8"
  "found_at s117_lines_a (lit ''conn.socket?.close()'') 31 18"
  by (simp_all add: found_at_def one_line_def NL_in_lit lit_Nil s117_lines_a_def, simp_all add: text_simps)

lemma test_s117_a_passes: "passes (test_s117_a message)"
  by (simp add: passes_def test_s117_a_def run_s117_check_def code_rules plain_rules [OF refl s117_lines_a_plain] plain_sub [OF s117_lines_a_plain] test_s117_a_found [THEN found_at_lines]; simp add: s117_lines_a_def line_rules text_simps del: py_join.simps)

lemma test_s118_a_found:
  "found_at s118_lines_a (lit ''recvHttpResponse:'') 17 31"
  "found_at s118_lines_a (lit ''status='') 17 92"
  "found_at s118_lines_a (lit ''content-type='') 17 104"
  "found_at s118_lines_a (lit ''content-length='') 17 129"
  "found_at s118_lines_a (lit ''SUSPECT response'') 18 49"
  "found_at s118_lines_a (lit ''forwarded via reverseKey'') 10 35"
  "found_at s118_lines_a (lit ''responsePayload:'') 20 31"
  "found_at s118_lines_a (lit ''bodyBytes='') 20 84"
  by (simp_all add: found_at_def one_line_def NL_in_lit lit_Nil s118_lines_a_def, simp_all add: text_simps)

lemma test_s118_a_passes: "passes (test_s118_a message)"
  by (simp add: passes_def test_s118_a_def run_s118_check_def code_rules plain_rules [OF refl s118_lines_a_plain] plain_sub [OF s118_lines_a_plain] test_s118_a_found [THEN found_at_lines]; simp add: s118_lines_a_def line_rules text_simps del: py_join.simps)

lemma test_s119_a_found:
  "found_at s119_lines_a (lit ''expected=application/json'') 13 133"
  "found_at s119_lines_a (lit ''Host='') 7 85"
  "found_at s119_lines_a (lit ''bodyFirst100'') 14 49"
  "found_at s119_lines_a (lit ''MISMATCH'') 15 49"
  "found_at s119_lines_a (lit ''flow forward'') 4 31"
  by (simp_all add: found_at_def one_line_def NL_in_lit lit_Nil s119_lines_a_def, simp_all add: text_simps)

lemma test_s119_a_passes: "passes (test_s119_a message)"
  by (simp add: passes_def test_s119_a_def run_s119_check_def code_rules plain_rules [OF refl s119_lines_a_plain] plain_sub [OF s119_lines_a_plain] test_s119_a_found [THEN found_at_lines]; simp add: s119_lines_a_def line_rules text_simps del: py_join.simps)

lemma test_s120_a_found:
  "found_at s120_lines1_a (lit ''versionName'') 3 22"
  "found_at s120_lines1_a (lit ''versionCode'') 4 22"
  "found_at s120_lines1_a (lit ''kVersionName'') 8 13"
  "found_at s120_lines1_a (lit ''kVersionCode'') 9 13"
  "found_at s120_lines2_a (lit ''v${kVersionName}'') 11 15"
  "found_at s120_lines2_a (lit ''(${kVersionCode})'') 11 32"
  by (simp_all add: found_at_def one_line_def NL_in_lit lit_Nil s120_lines1_a_def s120_lines2_a_def, simp_all add: text_simps)

lemma test_s120_a_passes: "passes (test_s120_a message)"
  by (simp add: passes_def test_s120_a_def run_s120_check_def code_rules plain_rules [OF refl s120_lines1_a_plain] plain_sub [OF s120_lines1_a_plain] plain_rules [OF refl s120_lines2_a_plain] plain_sub [OF s120_lines2_a_plain] test_s120_a_found [THEN found_at_lines]; simp add: s120_lines1_a_def s120_lines2_a_def line_rules text_simps del: py_join.simps)

lemma test_s124_a_found:
  "found_at s124_lines1_a (lit ''onMethodCall: received method='') 17 20"
  "found_at s124_lines1_a (lit ''attachFlutterEngine: ENTER, prev Companion.methodChannel='') 5 20"
  "found_at s124_lines3_a (lit ''vpn_service.dart: start'') 5 11"
  "found_at s124_lines2_a (lit ''configureFlutterEngine: ENTER'') 8 33"
  by (simp_all add: found_at_def one_line_def NL_in_lit lit_Nil s124_lines1_a_def s124_lines2_a_def s124_lines3_a_def, simp_all add: text_simps)

lemma test_s124_a_passes: "passes (test_s124_a message)"
  by (simp add: passes_def test_s124_a_def run_s124_check_def code_rules  test_s124_a_found [THEN found_at_lines]; simp add: s124_lines1_a_def s124_lines2_a_def s124_lines3_a_def line_rules text_simps del: py_join.simps)

lemmas vpn_cases_pass_each =
  test_s94_a_passes test_s96_a_passes test_s97_a_passes test_s99_a_passes test_s91_a_passes
  test_s94_b_passes test_s92_a_passes test_s73_a_passes test_s77_a_passes test_s78_a_passes
  test_s100_a_passes test_s101_a_passes test_s102_a_passes test_s103_a_passes test_s104_a_passes
  test_s106_a_passes test_s108_a_passes test_s109_a_passes test_s110_a_passes test_s111_a_passes
  test_s115_a_passes test_s116_a_passes test_s117_a_passes test_s118_a_passes test_s119_a_passes
  test_s120_a_passes test_s124_a_passes

end
