(* ===== verification/Dex_Tokens.thy ===== *)
theory Dex_Tokens
  imports Py_Prelude "HOL-Library.List_Lexorder"
begin

section \<open>The DEX token checks (tools/check_dex_tokens.py, tools/check_dex_tokens_12fplus4.py)\<close>

text \<open>
  Both scripts pull the printable strings out of a DEX file and of the Dart snapshot and count literals in them. A file is
  the list of its bytes, below 256; the disassembly is read as text. The fixed description of a check is left out of its
  tuple: it is only printed.
\<close>

subsection \<open>\<open>extract_ascii_strings\<close>\<close>

definition printable :: "nat \<Rightarrow> bool" where
  "printable c \<longleftrightarrow> 32 \<le> c \<and> c < 127"

text \<open>The inner loop: from \<open>j\<close>, what it has appended to \<open>s\<close> and the bytes that are left.\<close>

fun take_run :: "nat list \<Rightarrow> nat list \<Rightarrow> nat list \<times> nat list" where
  "take_run s [] = (s, [])"
| "take_run s (x # data) = (if printable x then take_run (s @ [x]) data else (s, x # data))"

lemma take_run_eq: "take_run s data = (s @ takeWhile printable data, dropWhile printable data)"
  by (induction s data rule: take_run.induct) auto

function extract_ascii_strings :: "nat list \<Rightarrow> nat \<Rightarrow> pystr list" where
  "extract_ascii_strings [] min_len = []"
| "extract_ascii_strings (x # data) min_len =
     (if printable x then
        case take_run [] (x # data) of (s, rest) \<Rightarrow>
          (if min_len \<le> length s then [s] else []) @ extract_ascii_strings rest min_len
      else extract_ascii_strings data min_len)"
  by pat_completeness auto
termination
  by (relation "measure (\<lambda>(data, m). length data)")
     (auto simp: take_run_eq less_Suc_eq_le length_dropWhile_le)

subsection \<open>\<open>check_dex_tokens.main\<close>\<close>

datatype source = Dex | Dexdis

type_synonym token_check = "pystr \<times> nat \<times> source"

definition s121_breadcrumbs :: "token_check list" where
  "s121_breadcrumbs = [(lit ''handleTcpPacket: dispatching flags=0x'', 1, Dex),
     (lit ''buildVpnBuilder: allowedApps='', 1, Dex), (lit ''checkPrivateDnsAndBindToVpn'', 1, Dex)]"

definition s122_checks :: "token_check list" where
  "s122_checks = [(lit ''writeTcpRstToTun'', 1, Dex), (lit ''writeTcpRstToTun'', 5, Dexdis),
     (lit ''writeTcpRstToTun: dispatching RST'', 1, Dex), (lit ''kernel-bypass recovery'', 1, Dex),
     (lit ''OpenE2eeVpn'', 1, Dex), (lit ''TcpForwarder'', 1, Dex), (lit ''UdpForwarder'', 1, Dex),
     (lit ''NettyChannelClient'', 1, Dex)]"

definition s123_checks :: "token_check list" where
  "s123_checks = [(lit ''rebindProcessToNetworkWithRetry'', 1, Dex), (lit ''rebindProcessToNetworkWithRetry'', 2, Dexdis),
     (lit ''rebindProcessToNetworkWithRetry: starting'', 1, Dex),
     (lit ''rebindProcessToNetworkWithRetry: 1s elapsed'', 1, Dex),
     (lit ''rebindProcessToNetworkWithRetry: 3s elapsed'', 1, Dex),
     (lit ''vpnRoutingState: starting ip rule'', 1, Dex), (lit ''vpnRoutingState: ip rule'', 1, Dex),
     (lit ''vpnRoutingState: ip route'', 1, Dex), (lit ''vpnRoutingState: ip addr show tun0'', 1, Dex),
     (lit ''DEBUG_MODE all traffic'', 1, Dex)]"

type_synonym tally = "nat \<times> (pystr \<times> nat \<times> nat) list"

definition count_token :: "pystr \<Rightarrow> pystr \<Rightarrow> token_check \<Rightarrow> tally \<Rightarrow> tally" where
  "count_token dex_strings dexdump_text check tally = (case check of (substr, min_count, src) \<Rightarrow>
     (case tally of (passes, failures) \<Rightarrow>
       let count = (case src of Dexdis \<Rightarrow> py_count dexdump_text substr | Dex \<Rightarrow> py_count dex_strings substr) in
       if min_count \<le> count then (passes + 1, failures) else (passes, failures @ [(substr, count, min_count)])))"

text \<open>The lines that count the version string in the Dart snapshot; \<open>lib_strings\<close> is empty when it is missing.\<close>

definition count_version :: "pystr \<Rightarrow> pystr \<Rightarrow> tally \<Rightarrow> tally" where
  "count_version lib_strings version tally = (case tally of (passes, failures) \<Rightarrow>
     if contains lib_strings version then (passes + 1, failures) else (passes, failures @ [(version, 0, 1)]))"

definition lib_text :: "nat list option \<Rightarrow> pystr" where
  "lib_text libapp = (case libapp of Some d \<Rightarrow> py_join [NL] (extract_ascii_strings d 4) | None \<Rightarrow> [])"

definition dex_main :: "nat list option \<Rightarrow> pystr option \<Rightarrow> nat list option \<Rightarrow> nat res" where
  "dex_main dex dexdis libapp = (case dex of None \<Rightarrow> Inl OSError
     | Some dex_data \<Rightarrow>
         let dex_strings = py_join [NL] (extract_ascii_strings dex_data 6) in
         case dexdis of None \<Rightarrow> Inl OSError
         | Some dexdump_text \<Rightarrow>
             let tally = fold (count_token dex_strings dexdump_text) s121_breadcrumbs (0, []);
                 tally = fold (count_token dex_strings dexdump_text) s122_checks tally;
                 tally = fold (count_token dex_strings dexdump_text) s123_checks tally;
                 (passes, failures) = count_version (lib_text libapp) (lit ''12.0F+3'') tally
             in Inl (SystemExit (if failures \<noteq> [] then 1 else 0)))"

subsection \<open>\<open>check_dex_tokens_12fplus4\<close>\<close>

text \<open>What is read of an unpacked APK: the files of its root directory and \<open>lib/arm64-v8a/libapp.so\<close>.\<close>

record apk =
  root_files :: "(pystr \<times> nat list) list"
  apk_libapp :: "nat list option"

definition regression_checks :: "token_check list" where
  "regression_checks = [(lit ''handleTcpPacket: dispatching flags=0x'', 1, Dex), (lit ''writeTcpRstToTun: dispatching RST'', 1, Dex),
     (lit ''vpnRoutingState: ip route'', 1, Dex), (lit ''OpenE2eeVpn'', 1, Dex), (lit ''MainActivity'', 1, Dex)]"

definition s124_checks :: "token_check list" where
  "s124_checks = [(lit ''onMethodCall: received method='', 1, Dex), (lit ''attachFlutterEngine: ENTER, prev'', 1, Dex),
     (lit ''onMethodCall: '' @ [39] @ lit ''start'' @ [39] @ lit '' branch ENTERED'', 1, Dex),
     (lit ''onMethodCall: '' @ [39] @ lit ''stop'' @ [39] @ lit '' branch ENTERED'', 1, Dex),
     (lit ''onMethodCall: unknown method='', 1, Dex), (lit ''configureFlutterEngine: ENTER'', 1, Dex),
     (lit ''configureFlutterEngine: DONE'', 1, Dex), (lit ''MethodChannel handler: received method='', 1, Dex)]"

text \<open>The tuple \<open>verify_apk\<close> returns: two numbers on the early returns, else three values.\<close>

datatype verdict = Two nat nat | Three nat nat "(pystr \<times> nat \<times> nat) list"

definition dex_files :: "apk \<Rightarrow> nat list list" where
  "dex_files a = map snd (sort_key fst (filter (\<lambda>(f, d). prefix (lit ''classes'') f \<and> suffix (lit ''.dex'') f) (root_files a)))"

definition verify_apk :: "apk option \<Rightarrow> verdict" where
  "verify_apk apk = (case apk of None \<Rightarrow> Two 0 1
     | Some a \<Rightarrow>
         if dex_files a = [] then Two 0 1
         else let dex_strings = py_join [NL] (concat (map (\<lambda>d. extract_ascii_strings d 6) (dex_files a)));
                  tally = fold (count_token dex_strings []) regression_checks (0, []);
                  tally = fold (count_token dex_strings []) s124_checks tally;
                  (passes, failures) = count_version (lib_text (apk_libapp a)) (lit ''12.0F+4'') tally
              in Three passes (length failures) failures)"

text \<open>\<open>p1, f1, fs1 = verify_apk(...)\<close>: unpacking a pair into three names raises.\<close>

fun unpack3 :: "verdict \<Rightarrow> (nat \<times> nat \<times> (pystr \<times> nat \<times> nat) list) res" where
  "unpack3 (Three p f fs) = Inr (p, f, fs)"
| "unpack3 (Two p f) = Inl (ValueError (lit ''not enough values to unpack''))"

definition dex4_main :: "apk option \<Rightarrow> apk option \<Rightarrow> nat res" where
  "dex4_main debug_apk release_apk =
     bindE (unpack3 (verify_apk debug_apk)) (\<lambda>(p1, f1, fs1).
     bindE (unpack3 (verify_apk release_apk)) (\<lambda>(p2, f2, fs2).
       if f1 + f2 = 0 then Inl (SystemExit 0) else Inl (SystemExit 1)))"

subsection \<open>Printable runs\<close>

text \<open>A maximal run of printable bytes.\<close>

definition printable_run :: "nat list \<Rightarrow> pystr \<Rightarrow> bool" where
  "printable_run data s \<longleftrightarrow> (\<exists>p q. data = p @ s @ q \<and> s \<noteq> [] \<and> (\<forall>c\<in>set s. printable c) \<and>
     (p = [] \<or> \<not> printable (last p)) \<and> (q = [] \<or> \<not> printable (hd q)))"

lemma run_step_stop: "\<not> printable x \<Longrightarrow> printable_run (x # data) s \<longleftrightarrow> printable_run data s"
proof
  assume x: "\<not> printable x" and "printable_run (x # data) s"
  then obtain p q where pq: "x # data = p @ s @ q" "s \<noteq> []" "\<forall>c\<in>set s. printable c"
    "p = [] \<or> \<not> printable (last p)" "q = [] \<or> \<not> printable (hd q)" by (auto simp: printable_run_def)
  with x obtain p' where "p = x # p'" by (cases p) (auto simp: append_eq_Cons_conv Cons_eq_append_conv)
  with pq show "printable_run data s" unfolding printable_run_def by (intro exI [of _ p'] exI [of _ q]) (auto split: if_splits)
next
  assume x: "\<not> printable x" and "printable_run data s"
  then obtain p q where "data = p @ s @ q" "s \<noteq> []" "\<forall>c\<in>set s. printable c"
    "p = [] \<or> \<not> printable (last p)" "q = [] \<or> \<not> printable (hd q)" by (auto simp: printable_run_def)
  with x show "printable_run (x # data) s" unfolding printable_run_def by (intro exI [of _ "x # p"] exI [of _ q]) auto
qed

lemma run_split:
  assumes "\<forall>c\<in>set r. printable c" "r \<noteq> []" "rest = [] \<or> \<not> printable (hd rest)"
  shows "printable_run (r @ rest) s \<longleftrightarrow> s = r \<or> printable_run rest s"
proof
  assume "printable_run (r @ rest) s"
  then obtain p q where pq: "r @ rest = p @ s @ q" "s \<noteq> []" "\<forall>c\<in>set s. printable c"
    "p = [] \<or> \<not> printable (last p)" "q = [] \<or> \<not> printable (hd q)" by (auto simp: printable_run_def)
  show "s = r \<or> printable_run rest s"
  proof (cases "p = []")
    case True
    with pq(1) have "takeWhile printable (r @ rest) = takeWhile printable (s @ q)" by simp
    moreover have "takeWhile printable q = []" "takeWhile printable rest = []"
      using pq(5) assms(3) by (cases q; auto) (cases rest; use assms(3) in auto)
    ultimately show ?thesis using assms(1) pq(3) by (simp add: takeWhile_append)
  next
    case False
    with pq(4) have last: "\<not> printable (last p)" by simp
    have "length r < length p"
    proof (rule ccontr)
      assume "\<not> length r < length p"
      with pq(1) have "prefix p r" by (metis not_less prefix_length_prefix prefixI)
      with False assms(1) last show False by (auto simp: prefix_def)
    qed
    with pq(1) obtain p' where p': "p = r @ p'" "p' \<noteq> []"
      by (metis append_eq_append_conv_if append_Nil2 drop_eq_Nil le_eq_less_or_eq not_less append_take_drop_id)
    with pq have "rest = p' @ s @ q" "p' = [] \<or> \<not> printable (last p')" by auto
    with pq show ?thesis unfolding printable_run_def by blast
  qed
next
  assume "s = r \<or> printable_run rest s"
  then show "printable_run (r @ rest) s"
  proof
    assume "s = r"
    with assms show ?thesis unfolding printable_run_def by (intro exI [of _ "[]"] exI [of _ rest]) auto
  next
    assume "printable_run rest s"
    then obtain p q where pq: "rest = p @ s @ q" "s \<noteq> []" "\<forall>c\<in>set s. printable c"
      "p = [] \<or> \<not> printable (last p)" "q = [] \<or> \<not> printable (hd q)" by (auto simp: printable_run_def)
    with assms(3) have "p \<noteq> []" by (cases s) auto
    with pq show ?thesis unfolding printable_run_def by (intro exI [of _ "r @ p"] exI [of _ q]) auto
  qed
qed

lemma extract_step:
  assumes "take_run [] (x # data) = (r, rest)" and "printable x"
  shows "x # data = r @ rest" "r \<noteq> []" "\<forall>c\<in>set r. printable c" "rest = [] \<or> \<not> printable (hd rest)"
proof -
  from assms(1) have r: "r = takeWhile printable (x # data)" "rest = dropWhile printable (x # data)"
    unfolding take_run_eq append_Nil by blast+
  show "x # data = r @ rest" unfolding r by (rule takeWhile_dropWhile_id [symmetric])
  show "r \<noteq> []" using assms(2) by (simp add: r(1))
  show "\<forall>c\<in>set r. printable c" unfolding r(1) by (blast dest: set_takeWhileD)
  show "rest = [] \<or> \<not> printable (hd rest)" unfolding r(2) using hd_dropWhile by blast
qed

subsection \<open>Counting\<close>

lemma prefix_before: "x \<notin> set n \<Longrightarrow> prefix n (s @ x # t) \<longleftrightarrow> prefix n s"
  by (induction s arbitrary: n) (auto simp: prefix_Cons)

lemma count_from_Nil: "count_from n [] = 0"
  by (subst count_from.simps) simp

lemma count_from_app: "n \<noteq> [] \<Longrightarrow> count_from n (n @ s) = Suc (count_from n s)"
  by (subst count_from.simps) simp

lemma count_from_skip: "\<not> prefix n (x # s) \<Longrightarrow> count_from n (x # s) = count_from n s"
  by (subst count_from.simps) (auto simp: count_from.simps)

lemma count_from_split: "x \<notin> set n \<Longrightarrow> n \<noteq> [] \<Longrightarrow> count_from n (s @ x # t) = count_from n s + count_from n t"
proof (induction s rule: length_induct)
  case (1 s)
  show ?case
  proof (cases "prefix n s")
    case True
    then obtain s' where s: "s = n @ s'" by (auto simp: prefix_def)
    with 1 have "count_from n (s' @ x # t) = count_from n s' + count_from n t" by simp
    with 1 s show ?thesis by (simp add: count_from_app)
  next
    case False
    with 1(2) have no: "\<not> prefix n (s @ x # t)" by (simp add: prefix_before)
    show ?thesis
    proof (cases s)
      case Nil
      with no show ?thesis by (simp add: count_from_skip count_from_Nil)
    next
      case (Cons a s')
      with 1 have "count_from n (s' @ x # t) = count_from n s' + count_from n t" by simp
      with Cons False no show ?thesis by (simp add: count_from_skip)
    qed
  qed
qed

lemma count_from_short: "length s < length n \<Longrightarrow> count_from n s = 0"
proof (induction s)
  case Nil
  then show ?case by (simp add: count_from_Nil)
next
  case (Cons a s)
  then have "\<not> prefix n (a # s)" by (auto dest: prefix_length_le)
  with Cons show ?case by (simp add: count_from_skip)
qed

lemma count_join:
  "10 \<notin> set n \<Longrightarrow> n \<noteq> [] \<Longrightarrow> py_count (py_join [10] ss) n = sum_list (map (\<lambda>s. py_count s n) ss)"
proof (induction "[10] :: pystr" ss rule: py_join.induct)
  case 1
  then show ?case by (simp add: py_count_def count_from_Nil)
next
  case (3 x y ys)
  then show ?case by (simp add: py_count_def count_from_split)
qed simp

lemma count_extract:
  assumes "\<forall>c\<in>set n. printable c" and "m \<le> length n" and "n \<noteq> []"
  shows "sum_list (map (\<lambda>s. py_count s n) (extract_ascii_strings data m)) = py_count data n"
  using assms
proof (induction data m rule: extract_ascii_strings.induct)
  case (1 m)
  then show ?case by (simp add: py_count_def count_from_Nil)
next
  case (2 x data m)
  show ?case
  proof (cases "printable x")
    case False
    then have "x \<notin> set n" using 2 by auto
    with 2 False count_from_split [of x n "[]" data] show ?thesis
      by (simp add: py_count_def count_from_Nil)
  next
    case True
    obtain r rest where run: "take_run [] (x # data) = (r, rest)" by (cases "take_run [] (x # data)")
    note r = extract_step [OF run True] run
    have IH: "sum_list (map (\<lambda>s. py_count s n) (extract_ascii_strings rest m)) = py_count rest n"
      using 2(1) [OF True r(5) [symmetric]] 2 r(5) by auto
    have "py_count r n = 0" if "length r < m"
      using that 2 by (simp add: py_count_def count_from_short)
    then have "sum_list (map (\<lambda>s. py_count s n) (extract_ascii_strings (x # data) m)) = py_count r n + py_count rest n"
      using True r(5) IH by simp
    also have "\<dots> = py_count (r @ rest) n"
    proof (cases rest)
      case (Cons y rest')
      with r(4) 2 have "y \<notin> set n" by auto
      with 2 Cons count_from_split [of y n r rest'] count_from_split [of y n "[]" rest'] show ?thesis
        by (simp add: py_count_def count_from_Nil)
    qed (use 2 in \<open>simp add: py_count_def count_from_Nil\<close>)
    finally show ?thesis by (simp add: r(1))
  qed
qed

text \<open>Every needle of the scripts.\<close>

definition token :: "nat \<Rightarrow> pystr \<Rightarrow> bool" where
  "token m n \<longleftrightarrow> (\<forall>c\<in>set n. printable c) \<and> m \<le> length n \<and> 0 < m"

lemma token_count:
  assumes "token m n"
  shows "py_count (py_join [NL] (extract_ascii_strings d m)) n = py_count d n"
    "py_count (py_join [NL] (concat (map (\<lambda>d. extract_ascii_strings d m) ds))) n = sum_list (map (\<lambda>d. py_count d n) ds)"
proof -
  from assms have n: "10 \<notin> set n" "n \<noteq> []" by (auto simp: token_def printable_def)
  have one: "sum_list (map (\<lambda>s. py_count s n) (extract_ascii_strings d m)) = py_count d n" for d
    using assms n by (intro count_extract) (auto simp: token_def)
  show "py_count (py_join [NL] (extract_ascii_strings d m)) n = py_count d n"
    using one by (simp add: count_join [OF n])
  show "py_count (py_join [NL] (concat (map (\<lambda>d. extract_ascii_strings d m) ds))) n = sum_list (map (\<lambda>d. py_count d n) ds)"
    unfolding count_join [OF n] by (induction ds) (simp_all add: one)
qed

lemma contains_count: "n \<noteq> [] \<Longrightarrow> contains s n \<longleftrightarrow> 0 < py_count s n"
  unfolding py_count_def by (induction s) (subst count_from.simps, simp)+

subsection \<open>Properties\<close>

text \<open>C32. \<open>extract_ascii_strings\<close> returns exactly the maximal runs of printable bytes that have the minimal length.\<close>

theorem extract_ascii_strings_runs:
  "s \<in> set (extract_ascii_strings data min_len) \<longleftrightarrow> printable_run data s \<and> min_len \<le> length s"
proof (induction data min_len rule: extract_ascii_strings.induct)
  case (1 m)
  show ?case by (simp add: printable_run_def)
next
  case (2 x data m)
  show ?case
  proof (cases "printable x")
    case False
    with 2 show ?thesis by (simp add: run_step_stop)
  next
    case True
    obtain r rest where run: "take_run [] (x # data) = (r, rest)" by (cases "take_run [] (x # data)")
    note r = extract_step [OF run True]
    have "s \<in> set (extract_ascii_strings rest m) \<longleftrightarrow> printable_run rest s \<and> m \<le> length s"
      using 2(1) [OF True run [symmetric]] run by simp
    then show ?thesis unfolding r(1) run_split [OF r(3,2,4)] using True run r(1) [symmetric] by auto
  qed
qed

definition holds :: "(pystr \<Rightarrow> nat) \<Rightarrow> pystr \<Rightarrow> token_check \<Rightarrow> bool" where
  "holds count dump c = (case c of (n, k, Dex) \<Rightarrow> k \<le> count n | (n, k, Dexdis) \<Rightarrow> k \<le> py_count dump n)"

lemma fold_failures:
  "snd (fold (count_token dex_strings dump) cs tally) = [] \<longleftrightarrow>
     snd tally = [] \<and> list_all (holds (py_count dex_strings) dump) cs"
proof (induction cs arbitrary: tally)
  case (Cons c cs)
  have "snd (count_token dex_strings dump c tally) = [] \<longleftrightarrow> snd tally = [] \<and> holds (py_count dex_strings) dump c"
    by (cases c; cases tally) (auto simp: count_token_def holds_def Let_def split: source.splits)
  with Cons show ?case by auto
qed simp

lemma count_version_failures: "snd (count_version lib v tally) = [] \<longleftrightarrow> snd tally = [] \<and> contains lib v"
  by (cases tally) (simp add: count_version_def)

lemma lib_text_contains:
  "token 4 n \<Longrightarrow> contains (lib_text libapp) n \<longleftrightarrow> (case libapp of Some d \<Rightarrow> contains d n | None \<Rightarrow> False)"
proof -
  assume n: "token 4 n"
  then have "n \<noteq> []" by (auto simp: token_def)
  from contains_count [OF this] token_count(1) [OF n] this show ?thesis by (cases libapp) (auto simp: lib_text_def py_count_def count_from_Nil)
qed

definition all_tokens :: "token_check list \<Rightarrow> bool" where
  "all_tokens cs \<longleftrightarrow> list_all (\<lambda>(n, k, src). list_all printable n \<and> 6 \<le> length n) cs"

lemma all_tokens_scripts: "all_tokens s121_breadcrumbs" "all_tokens s122_checks" "all_tokens s123_checks"
  "all_tokens regression_checks" "all_tokens s124_checks"
  by (simp_all add: all_tokens_def s121_breadcrumbs_def s122_checks_def s123_checks_def regression_checks_def
      s124_checks_def lit_def printable_def)

lemma all_tokens_holds:
  "all_tokens cs \<Longrightarrow> (\<And>n. token 6 n \<Longrightarrow> f n = g n) \<Longrightarrow> list_all (holds f dump) cs \<longleftrightarrow> list_all (holds g dump) cs"
  unfolding all_tokens_def by (induction cs) (auto simp: holds_def token_def list_all_iff split: source.splits prod.splits)

text \<open>C7. Extracting the strings neither loses nor invents an occurrence: the script exits with 0 exactly when every
  literal of its three lists occurs often enough in the raw bytes of the DEX file (two of them in the disassembly) and the
  version string occurs in the raw bytes of the Dart snapshot; otherwise it exits with 1.\<close>

theorem dex_main_exit_code:
  "dex_main (Some dex) (Some dump) libapp =
     Inl (SystemExit (if list_all (holds (py_count dex) dump) (s121_breadcrumbs @ s122_checks @ s123_checks) \<and>
       (case libapp of Some d \<Rightarrow> contains d (lit ''12.0F+3'') | None \<Rightarrow> False) then 0 else 1))"
proof -
  let ?strings = "py_join [NL] (extract_ascii_strings dex 6)"
  let ?tally = "fold (count_token ?strings dump) s123_checks (fold (count_token ?strings dump) s122_checks
     (fold (count_token ?strings dump) s121_breadcrumbs (0, [])))"
  let ?fin = "count_version (lib_text libapp) (lit ''12.0F+3'') ?tally"
  have "token 4 (lit ''12.0F+3'')" by (simp add: token_def lit_def printable_def)
  note lib = lib_text_contains [OF this]
  have raw: "list_all (holds (py_count ?strings) dump) cs = list_all (holds (py_count dex) dump) cs" if "all_tokens cs" for cs
    using that token_count(1) by (rule all_tokens_holds)
  have "dex_main (Some dex) (Some dump) libapp = Inl (SystemExit (if snd ?fin \<noteq> [] then 1 else 0))"
    by (cases ?fin) (simp add: dex_main_def Let_def)
  moreover have "snd ?fin = [] \<longleftrightarrow> list_all (holds (py_count dex) dump) (s121_breadcrumbs @ s122_checks @ s123_checks) \<and>
      (case libapp of Some d \<Rightarrow> contains d (lit ''12.0F+3'') | None \<Rightarrow> False)"
    unfolding count_version_failures fold_failures lib list_all_append by (auto simp: raw all_tokens_scripts)
  ultimately show ?thesis by simp
qed

definition apk_ok :: "apk \<Rightarrow> bool" where
  "apk_ok a \<longleftrightarrow> list_all (holds (\<lambda>n. sum_list (map (\<lambda>d. py_count d n) (dex_files a))) []) (regression_checks @ s124_checks) \<and>
     (case apk_libapp a of Some d \<Rightarrow> contains d (lit ''12.0F+4'') | None \<Rightarrow> False)"

definition has_dex :: "apk option \<Rightarrow> bool" where
  "has_dex apk \<longleftrightarrow> (case apk of Some a \<Rightarrow> dex_files a \<noteq> [] | None \<Rightarrow> False)"

lemma verify_apk_cases:
  "\<not> has_dex apk \<Longrightarrow> verify_apk apk = Two 0 1"
  "has_dex (Some a) \<Longrightarrow> \<exists>p fs. verify_apk (Some a) = Three p (length fs) fs \<and> (fs = [] \<longleftrightarrow> apk_ok a)"
proof -
  show "\<not> has_dex apk \<Longrightarrow> verify_apk apk = Two 0 1" by (cases apk) (simp_all add: verify_apk_def has_dex_def)
next
  assume dex: "has_dex (Some a)"
  let ?strings = "py_join [NL] (concat (map (\<lambda>d. extract_ascii_strings d 6) (dex_files a)))"
  let ?fin = "count_version (lib_text (apk_libapp a)) (lit ''12.0F+4'')
    (fold (count_token ?strings []) s124_checks (fold (count_token ?strings []) regression_checks (0, [])))"
  have "token 4 (lit ''12.0F+4'')" by (simp add: token_def lit_def printable_def)
  note lib = lib_text_contains [OF this]
  have raw: "list_all (holds (py_count ?strings) []) cs =
      list_all (holds (\<lambda>n. sum_list (map (\<lambda>d. py_count d n) (dex_files a))) []) cs" if "all_tokens cs" for cs
    using that token_count(2) by (rule all_tokens_holds)
  have "verify_apk (Some a) = Three (fst ?fin) (length (snd ?fin)) (snd ?fin)"
    using dex by (cases ?fin) (simp add: verify_apk_def has_dex_def Let_def)
  moreover have "snd ?fin = [] \<longleftrightarrow> apk_ok a"
    unfolding count_version_failures fold_failures lib apk_ok_def list_all_append by (auto simp: raw all_tokens_scripts)
  ultimately show "\<exists>p fs. verify_apk (Some a) = Three p (length fs) fs \<and> (fs = [] \<longleftrightarrow> apk_ok a)" by blast
qed


end
