(* ===== verification/Text_Patterns.thy ===== *)
theory Text_Patterns
  imports Text_Lines Dex_Tokens
begin

section \<open>Patterns, places and numbers in a text of lines\<close>

text \<open>
  What the replicas ask of a text besides whether a literal stands in it: whether a pattern matches (shown by the literal that it
  matches, on a line; refuted by its first literal, or by a piece of it, that stands on no line), which of two literals comes first, how
  often one occurs at least, and in which function a place stands. The matches of \<open>re.finditer\<close> are shown to miss no place where the
  pattern matches.
\<close>

subsection \<open>Patterns on the lines of a text\<close>

lemma strip_plain_lines: "plain ls \<Longrightarrow> text_of_lines (strip_comments_dart (text_lines ls)) ls"
  by (simp add: text_of_lines_def plain_strip)

lemma strip_cut_lines:
  "no_comment_block ls \<Longrightarrow> ls \<noteq> [] \<Longrightarrow> text_of_lines (strip_comments_dart (text_lines ls)) (map cut_line_dart ls)"
  by (simp add: strip_code_lines text_of_lines_I(2))

lemma text_of_lines_all: "text_of_lines t ls \<Longrightarrow> contains t n \<Longrightarrow> contains (text_lines ls) n"
  unfolding text_of_lines_def by (metis append.assoc contains_iff)

lemma text_of_lines_contains:
  assumes "text_of_lines t ls" and "one_line n"
  shows "contains t n \<longleftrightarrow> list_ex (\<lambda>l. contains l n) ls"
proof -
  have n: "NL \<notin> set n" "n \<noteq> []" using assms(2) by (simp_all add: one_line_def)
  have "contains (t @ [NL]) n = contains t n" using one_line_sep(1) [OF assms(2), of t "[]"] n by simp
  with assms(1) n show ?thesis by (auto simp: text_of_lines_def contains_text_lines)
qed

lemma re_found_on_line:
  assumes "text_of_lines t ls" and "found_at ls x k j" and "\<And>u v. lang r u x v [] []"
  shows "re_found r t"
proof -
  have "contains t x" using text_of_lines_contains [OF assms(1)] found_at_line [OF assms(2)] by blast
  then have "re_search r t \<noteq> None" by (rule re_found_in) (use assms(3) in blast)
  then show ?thesis by (simp add: re_found_def)
qed

lemma re_not_found:
  assumes "text_of_lines t ls" and "headed r h" and "one_line h" and "\<not> list_ex (\<lambda>l. contains l h) ls"
  shows "\<not> re_found r t" and "re_finditer r t = []"
  using re_search_None_headed [OF assms(2)] text_of_lines_contains [OF assms(1,3)] assms(4)
  by (simp_all add: re_found_def re_finditer_Nil)

lemma re_search_Alt_None: "re_search a t = None \<Longrightarrow> re_search b t = None \<Longrightarrow> re_search (Alt a b) t = None"
  unfolding re_search_None by simp

lemma re_not_found_part:
  assumes "text_of_lines t ls" and "\<And>p x q c c'. lang r p x q c c' \<Longrightarrow> contains x n"
    and "one_line n" and "\<not> list_ex (\<lambda>l. contains l n) ls"
  shows "\<not> re_found r t"
proof
  assume "re_found r t"
  then obtain u x v c where "t = u @ x @ v" "lang r u x v [] c" unfolding re_found_def re_search_not_None by blast
  then have "contains t n" using assms(2) by (metis contains_iff append.assoc)
  then show False using text_of_lines_contains [OF assms(1,3)] assms(4) by simp
qed

text \<open>A pattern that begins with a literal and goes on with one of some characters, which stand behind the literal nowhere.\<close>

lemma re_not_found_next:
  assumes "text_of_lines t ls" and "\<And>p x q c c'. lang r p x q c c' \<Longrightarrow> \<exists>ch z. x = h @ ch # z \<and> P ch"
    and "one_line h" and "\<And>ch. P ch \<Longrightarrow> \<not> list_ex (\<lambda>l. contains (l @ [NL]) (h @ [ch])) ls"
  shows "\<not> re_found r t" and "re_finditer r t = []"
proof -
  have False if "re_search r t \<noteq> None"
  proof -
    from that obtain u x v c where t: "t = u @ x @ v" and L: "lang r u x v [] c" unfolding re_search_not_None by blast
    from assms(2) [OF L] obtain ch z where x: "x = h @ ch # z" and ch: "P ch" by blast
    have "contains t (h @ [ch])" unfolding t x contains_iff by (intro exI [of _ u] exI [of _ "z @ v"]) simp
    then have "contains (text_lines ls) (h @ [ch])"
      by (rule text_of_lines_all [OF assms(1)])
    with assms(3) have "list_ex (\<lambda>l. contains (l @ [NL]) (h @ [ch])) ls"
      by (intro literal_before_char) (simp_all add: one_line_def)
    with assms(4) [OF ch] show False by blast
  qed
  then show "\<not> re_found r t" "re_finditer r t = []" by (auto simp: re_found_def re_finditer_Nil simp del: not_None_eq)
qed

lemma lang_CatD:
  "lang (Cat r1 r2) p x q c c' \<Longrightarrow> \<exists>x1 x2 c1. x = x1 @ x2 \<and> lang r1 p x1 (x2 @ q) c c1 \<and> lang r2 (p @ x1) x2 q c1 c'"
  by (simp only: lang.simps)

text \<open>What a pattern contains as a piece stands in every match.\<close>

lemma contains_pieces: "contains x n \<Longrightarrow> contains (x @ y) n" "contains y n \<Longrightarrow> contains (x @ y) n" "contains n n"
proof -
  show "contains x n \<Longrightarrow> contains (x @ y) n" unfolding contains_iff by (metis append.assoc)
  show "contains y n \<Longrightarrow> contains (x @ y) n" unfolding contains_iff by (metis append.assoc)
  show "contains n n" unfolding contains_iff by (metis append.left_neutral append.right_neutral)
qed

lemma lang_Seq_piece: "Str n \<in> set rs \<Longrightarrow> lang (Seq rs) p x q c c' \<Longrightarrow> contains x n"
proof (induction rs arbitrary: p x c rule: Seq.induct)
  case (2 r)
  then have "r = Str n" "lang r p x q c c'" by simp_all
  then show ?case by (simp add: lang_Str contains_pieces(3))
next
  case (3 r r' rs)
  from 3(3) [unfolded Seq.simps, THEN lang_CatD] obtain x1 x2 c1 where x: "x = x1 @ x2"
    and l: "lang r p x1 (x2 @ q) c c1" "lang (Seq (r' # rs)) (p @ x1) x2 q c1 c'" by blast
  show ?case
  proof (cases "r = Str n")
    case True
    with l(1) show ?thesis unfolding x by (intro contains_pieces(1)) (simp add: lang_Str contains_pieces(3))
  next
    case False
    with 3(2) have "Str n \<in> set (r' # rs)" by simp
    from 3(1) [OF this l(2)] show ?thesis unfolding x by (rule contains_pieces(2))
  qed
qed simp

lemma space_run_next: "\<forall>y\<in>set w. P y \<Longrightarrow> \<exists>ch z. w @ b # y = ch # z \<and> (P ch \<or> ch = b)"
  by (cases w) auto

lemma contains_drop: "contains (drop k t) n \<Longrightarrow> contains t n"
  by (metis append.assoc append_take_drop_id contains_iff)

lemma literal_after_char:
  assumes "NL \<notin> set n" and "n \<noteq> []" and "contains (text_lines ls) (c # n)"
  shows "list_ex (\<lambda>l. contains (NL # l) (c # n)) ls"
proof -
  have "contains (NL # text_lines ls) (c # n)" using assms(3) by (metis append_Cons contains_iff)
  then show ?thesis
  proof (induction ls)
    case Nil
    with assms(2) show ?case using contains_length [OF Nil] by (simp add: text_lines_def)
  next
    case (Cons l ls)
    then obtain u v where eq: "(NL # l) @ NL # text_lines ls = u @ c # n @ v" by (auto simp: contains_iff text_lines_def)
    consider "Suc (length u) + length n \<le> length (NL # l)" | "length (NL # l) \<le> length u"
      | "length u < length (NL # l)" "length (NL # l) < Suc (length u) + length n" by linarith
    then show ?case
    proof cases
      case 1
      then have "NL # l = u @ (c # n) @ take (length (NL # l) - (Suc (length u) + length n)) v"
        using arg_cong [OF eq, of "take (length (NL # l))"] by (simp add: Suc_diff_le min_def)
      then show ?thesis by (simp add: contains_iff) blast
    next
      case 2
      then have "NL # text_lines ls = drop (length (NL # l)) u @ (c # n) @ v"
        using arg_cong [OF eq, of "drop (length (NL # l))"] by simp
      then show ?thesis using Cons.IH by (simp add: contains_iff) blast
    next
      case 3
      have "(u @ c # n @ v) ! length (NL # l) = NL" by (simp only: eq [symmetric] nth_append_length)
      moreover have "(u @ c # n @ v) ! length (NL # l) \<in> set n" using 3 assms(2) by (auto simp: nth_append nth_Cons' not_less)
      ultimately show ?thesis using assms(1) by simp
    qed
  qed
qed

lemma py_join_split: "ys \<noteq> [] \<Longrightarrow> py_join [NL] (xs @ l # ys) = text_lines xs @ l @ NL # py_join [NL] ys"
  using text_lines_join [of "xs @ l # ys"] text_lines_join [of ys] by (simp add: text_lines_append) (simp add: text_lines_def)

lemma py_join_hd: "\<exists>r. py_join s (l # ls) = l @ r"
  by (cases ls) auto

lemma scan_body_run: "\<forall>c\<in>set xs. c \<noteq> 123 \<and> c \<noteq> 125 \<Longrightarrow> scan_body d (xs @ ys) = xs @ scan_body d ys"
  by (induction xs) simp_all

subsection \<open>Places and numbers\<close>

lemma text_of_lines_find_sub: "text_of_lines t ls \<Longrightarrow> one_line n \<Longrightarrow> find_sub t n = find_sub (text_lines ls) n"
proof -
  assume t: "text_of_lines t ls" and n: "one_line n"
  have "find_sub (t @ [NL]) n = find_sub t n"
    using one_line_sep(3) [OF n, of t "[]"] n by (simp add: one_line_def split: option.split)
  with t show ?thesis by (auto simp: text_of_lines_def)
qed

lemma text_of_lines_count: "text_of_lines t ls \<Longrightarrow> one_line n \<Longrightarrow> py_count t n = py_count (text_lines ls) n"
proof -
  assume t: "text_of_lines t ls" and n: "one_line n"
  have "count_from n (t @ [NL]) = count_from n t" using one_line_sep(2) [OF n, of t "[]"] by (simp add: count_from_rules)
  with t n show ?thesis by (auto simp: text_of_lines_def py_count_def one_line_def)
qed

lemma found_in_lines:
  assumes "found_at ls n i j" and "ls ! i \<in> set xs"
  shows "contains (text_lines xs) n"
  using found_at_contains [OF assms(1)] assms(2) by (auto simp: one_line_def contains_text_lines list_ex_iff)

lemma text_lines_Cons: "text_lines (l # ls) = l @ NL # text_lines ls"
  by (simp add: text_lines_def)

lemma text_lines_last: "text_lines ls = [] \<or> last (text_lines ls) = NL"
  by (induction ls) (auto simp: text_lines_def)

lemma find_sub_after_lines:
  "one_line n \<Longrightarrow> \<not> list_ex (\<lambda>l. contains l n) xs \<Longrightarrow>
     find_sub (text_lines xs @ r) n = map_option (\<lambda>i. length (text_lines xs) + i) (find_sub r n)"
proof (induction xs)
  case (Cons l xs)
  have eq: "text_lines (l # xs) @ r = l @ NL # (text_lines xs @ r)" by (simp add: text_lines_def)
  have "find_sub l n = None" using Cons.prems(2) by (simp add: find_sub_None)
  with Cons show ?case unfolding eq one_line_sep(3) [OF Cons.prems(1)]
    by (simp add: option.map_comp comp_def text_lines_def add.assoc)
next
  case Nil
  then show ?case by (cases "find_sub r n") (simp_all add: text_lines_def)
qed

lemma first_lines_in_order:
  assumes t: "text_of_lines t ls" and a: "found_at ls a i p" and b: "found_at ls b j q" and "i < j"
    and no: "\<not> list_ex (\<lambda>l. contains l b) (take j ls)"
  shows "\<exists>k m. find_sub t a = Some k \<and> find_sub t b = Some m \<and> k \<le> m"
proof -
  have one: "one_line a" "one_line b" and j: "j < length ls" using found_at_contains [OF a] found_at_contains [OF b] by auto
  let ?x = "text_lines (take j ls)" and ?y = "text_lines (drop j ls)"
  have xy: "text_lines ls = ?x @ ?y" by (simp flip: text_lines_append)
  have "ls ! i \<in> set (take j ls)" "ls ! j \<in> set (drop j ls)"
    using \<open>i < j\<close> j by (auto simp: in_set_conv_nth intro: exI [of _ i] exI [of _ 0])
  then have "contains ?x a" "contains ?y b" using found_in_lines a b by blast+
  then obtain u v m where "?x = u @ a @ v" and m: "find_sub ?y b = Some m" using find_sub_None [of ?y b] by (auto simp: contains_iff)
  then have "length u \<le> length ?x" "text_lines ls = u @ a @ (v @ ?y)" using xy by auto
  with find_sub_le [of a u "v @ ?y"] one obtain k where "find_sub (text_lines ls) a = Some k" "k \<le> length ?x"
    by (auto simp: one_line_def)
  moreover have "find_sub (text_lines ls) b = Some (length ?x + m)" using find_sub_after_lines [OF one(2) no, of ?y] m xy by simp
  ultimately show ?thesis using text_of_lines_find_sub [OF t] one by auto
qed

lemma count_on_lines:
  assumes "text_of_lines t ls" and "list_all (\<lambda>(k, j). found_at ls n k j) places" and "distinct (map fst places)"
    and "places \<noteq> []"
  shows "length places \<le> py_count t n"
proof -
  let ?ks = "map fst places"
  have at: "\<exists>j. found_at ls n k j" if "k \<in> set ?ks" for k
    using assms(2) that by (fastforce simp: list_all_iff)
  from at [of "fst (hd places)"] assms(4) have one: "one_line n" using found_at_contains by auto
  then have n: "NL \<notin> set n" "n \<noteq> []" by (simp_all add: one_line_def)
  have sub: "set ?ks \<subseteq> {..<length ls}" using at found_at_contains by blast
  have pos: "1 \<le> count_from n (ls ! k)" if "k \<in> set ?ks" for k
    using at [OF that] found_at_contains contains_count [OF n(2)] n(2) by (fastforce simp: py_count_def)
  have "length places = (\<Sum>k\<in>set ?ks. 1)" using distinct_card [OF assms(3)] by simp
  also have "\<dots> \<le> (\<Sum>k\<in>set ?ks. count_from n (ls ! k))" by (rule sum_mono) (rule pos)
  also have "\<dots> \<le> (\<Sum>k<length ls. count_from n (ls ! k))" by (rule sum_mono2) (use sub in auto)
  also have "\<dots> = py_count (text_lines ls) n"
    using n by (simp add: py_count_text_lines sum_list_sum_nth atLeast0LessThan)
  also have "\<dots> = py_count t n" by (rule text_of_lines_count [OF assms(1) one, symmetric])
  finally show ?thesis .
qed

subsection \<open>Where all the matches are\<close>

text \<open>No match is missed: where a pattern matches, a match that \<open>finditer\<close> returns starts there or covers the place.\<close>

lemma finditer_pos_complete:
  assumes "\<And>p x q c. lang r p x q [] c \<Longrightarrow> x \<noteq> []"
  shows "a = u @ x @ v \<Longrightarrow> lang r (rev b @ u) x v [] c \<Longrightarrow>
    \<exists>b0 a0 c0 b1 a1 c1. ((b0, a0, c0), (b1, a1, c1)) \<in> set (finditer_pos r b a) \<and> length b0 \<le> length b + length u \<and>
      length b + length u < length b1"
proof (induction a arbitrary: b u rule: measure_induct_rule [where f = length])
  case (less a)
  have "search_pos r b a \<noteq> None" using less.prems unfolding search_pos_None by blast
  then obtain s0 e where se: "search_pos r b a = Some (s0, e)" by auto
  from search_pos_Some [OF se] obtain u0 x0 v0 c0 where s0: "s0 = (rev u0 @ b, x0 @ v0, [])" "e = (rev x0 @ rev u0 @ b, v0, c0)"
    and f: "found r (rev b) a u0 x0 v0 c0" by blast
  then have a: "a = u0 @ x0 @ v0" and x0: "x0 \<noteq> []" using assms by (auto simp: found_def)
  have all: "finditer_pos r b a = (s0, e) # finditer_pos r (rev x0 @ rev u0 @ b) v0"
    using se s0 x0 by (subst finditer_pos.simps) simp
  from less.prems(1) a obtain us where "u0 = u @ us \<and> us @ x0 @ v0 = x @ v \<or> u0 @ us = u \<and> x0 @ v0 = us @ x @ v"
    using append_eq_append_conv2 [of u0 "x0 @ v0" u "x @ v"] by auto
  moreover have "us = []" if "u0 = u @ us" "us @ x0 @ v0 = x @ v"
    using f less.prems(2) that unfolding found_def by blast
  ultimately have u: "u = u0 @ us" and rest: "x0 @ v0 = us @ x @ v" by auto
  show ?case
  proof (cases "length us < length x0")
    case True
    with u s0 all show ?thesis by (intro exI [of _ "rev u0 @ b"] exI) auto
  next
    case False
    from rest obtain u' where u': "us = x0 @ u'" using False by (auto simp: append_eq_append_conv2)
    with rest have v0: "v0 = u' @ x @ v" by simp
    have "length v0 < length a" using a x0 by (cases x0) auto
    from less.IH [OF this v0, of "rev x0 @ rev u0 @ b"] less.prems(2) u u' obtain b0 a0 c0 b1 a1 c1 where
      "((b0, a0, c0), (b1, a1, c1)) \<in> set (finditer_pos r (rev x0 @ rev u0 @ b) v0)"
      "length b0 \<le> length (rev x0 @ rev u0 @ b) + length u'" "length (rev x0 @ rev u0 @ b) + length u' < length b1" by auto
    then show ?thesis unfolding all
      by (intro exI [of _ b0] exI [of _ a0] exI [of _ c0] exI [of _ b1] exI [of _ a1] exI [of _ c1]) (auto simp: u u')
  qed
qed

lemma re_finditer_complete:
  assumes "\<And>p x q c. lang r p x q [] c \<Longrightarrow> x \<noteq> []" and "t = u @ x @ v" and "lang r u x v [] c"
  obtains m where "m \<in> set (re_finditer r t)" "m_start m \<le> length u" "length u < m_end m"
proof -
  have "\<exists>b0 a0 c0 b1 a1 c1. ((b0, a0, c0), (b1, a1, c1)) \<in> set (finditer_pos r [] t) \<and> length b0 \<le> length ([] :: pystr) + length u \<and>
      length ([] :: pystr) + length u < length b1"
    by (rule finditer_pos_complete [of r t u x v "[]" c]) (use assms in simp_all)
  then obtain b0 a0 c0 b1 a1 c1 where
    "((b0, a0, c0), (b1, a1, c1)) \<in> set (finditer_pos r [] t)" "length b0 \<le> length u" "length u < length b1" by auto
  with that [of "mk_match ((b0, a0, c0), (b1, a1, c1))"] show ?thesis
    unfolding re_finditer_def by (force simp: mk_match_def)
qed

text \<open>A pattern all of whose matches start at one place.\<close>

lemma finditer_single:
  assumes "t = pre @ x0 @ v0" and "lang r pre x0 v0 [] c0"
    and "\<And>u x v c. t = u @ x @ v \<Longrightarrow> lang r u x v [] c \<Longrightarrow> u = pre"
  obtains m where "re_finditer r t = [m]" "m_start m = length pre"
proof -
  let ?ms = "re_finditer r t"
  have start: "m_start m = length pre" if "m \<in> set ?ms" for m
  proof -
    from re_finditer_sound [OF that] obtain u x v where "t = u @ x @ v" "m_start m = length u" "lang r u x v [] (m_caps m)" by blast
    with assms(3) [of u x v "m_caps m"] show ?thesis by simp
  qed
  have "re_search r t \<noteq> None" unfolding re_search_not_None using assms(1,2) by blast
  then obtain m ms where ms: "?ms = m # ms" using re_finditer_Nil [of r t] by (cases ?ms) auto
  then have m: "m_start m = length pre" by (intro start) simp
  have "ms = []"
  proof (rule ccontr)
    assume "ms \<noteq> []"
    then obtain m' ms' where "ms = m' # ms'" by (cases ms) auto
    with ms have "m' \<in> set ?ms" "m_start m < m_start m'" using re_finditer_sorted [of r t] by simp_all
    with start [of m'] m show False by simp
  qed
  with ms m show ?thesis by (intro that [of m]) simp_all
qed

lemma two_occurrences:
  assumes "x1 @ h @ x2 @ h @ x3 = u @ h @ v" and "\<not> contains (x1 @ butlast h) h"
    and "\<not> contains (tl h @ x2 @ butlast h) h" and "\<not> contains (tl h @ x3) h"
  shows "u = x1 \<and> v = x2 @ h @ x3 \<or> u = x1 @ h @ x2 \<and> v = x3"
proof -
  obtain h0 hs where h: "h = h0 # hs" using assms(2) by (cases h) auto
  have "length x1 \<le> length u" by (rule occurrence_bound [OF assms(2,1)])
  with assms(1) obtain u2 where u: "u = x1 @ u2" by (metis append_eq_append_conv_if append_take_drop_id)
  with assms(1) have eq: "h @ x2 @ h @ x3 = u2 @ h @ v" by simp
  show ?thesis
  proof (cases u2)
    case Nil
    with eq u show ?thesis by simp
  next
    case (Cons c cs)
    with eq h have c: "c = h0" and tl: "(hs @ x2) @ h @ x3 = cs @ h @ v" by auto
    from occurrence_unique [OF tl] assms(3,4) h have "cs = hs @ x2" "v = x3" by simp_all
    with u Cons c h show ?thesis by simp
  qed
qed

text \<open>The place of a call \<open>object.method\<close> whose method is called once.\<close>

lemma spaces_before_end:
  assumes "xs @ a # ws = ys @ b # vs" and "\<forall>z\<in>set ws. is_space z" "\<forall>z\<in>set vs. is_space z" "\<not> is_space a" "\<not> is_space b"
  shows "xs = ys \<and> a = b \<and> ws = vs"
proof -
  have "rev ws @ a # rev xs = rev vs @ b # rev ys" using arg_cong [OF assms(1), of rev] by simp
  from run_unique [OF this, of is_space] assms(2-5) show ?thesis by simp
qed

lemma member_call_unique:
  assumes "pre @ ob @ 46 # g @ rest = u @ ob @ w @ 46 # w2 @ g @ z" and "\<forall>y\<in>set w. is_space y" "\<forall>y\<in>set w2. is_space y"
    and "ob = ob' @ [d]" "\<not> is_space d"
    and "\<not> contains ((pre @ ob @ [46]) @ butlast g) g" "\<not> contains (tl g @ rest) g"
  shows "u = pre"
proof -
  have "(pre @ ob @ [46]) @ g @ rest = (u @ ob @ w @ 46 # w2) @ g @ z" using assms(1) by simp
  from occurrence_unique [OF this assms(6,7)] have eq: "(u @ ob @ w) @ 46 # w2 = (pre @ ob) @ 46 # []" by simp
  have dot: "\<not> is_space 46" by (simp add: is_space_def)
  from spaces_before_end [OF eq assms(3) _ dot dot] have "(u @ ob') @ d # w = (pre @ ob') @ d # []" using assms(4) by simp
  from spaces_before_end [OF this assms(2) _ assms(5,5)] show ?thesis by simp
qed

text \<open>A text with two functions.\<close>

lemma fun_header_lang:
  assumes "lang (fun_header_re w) p x q [] c"
  obtains pw sp f sp2 where "x = pw @ lit ''fun'' @ sp @ f @ sp2 @ [40]" "pw = [] \<or> (\<exists>s. pw = lit ''private'' @ s \<and> (\<forall>z\<in>set s. is_space z))"
    "sp \<noteq> []" "\<forall>z\<in>set sp. is_space z" "f \<noteq> []" "\<forall>z\<in>set f. is_word w z" "\<forall>z\<in>set sp2. is_space z" "c = [(1, f)]"
proof -
  have op: "lit ''('' = [40]" by (simp add: lit_def)
  from lang_CatD [OF assms [unfolded fun_header_re_def Seq.simps op]] obtain x1 x2 c1 where x: "x = x1 @ x2"
    and opt: "lang (Opt (Cat (Str (lit ''private'')) (Plus Spc))) p x1 (x2 @ q) [] c1"
    and rest: "lang (Cat (Str (lit ''fun'')) (Cat (Plus Spc) (Cat (Grp 1 (Plus (Cls (is_word w)))) (Cat (Star True Spc) (Str [40])))))
      (p @ x1) x2 q c1 c" by blast
  from opt have c1: "c1 = []" and x1: "x1 = [] \<or> (\<exists>s. x1 = lit ''private'' @ s \<and> (\<forall>z\<in>set s. is_space z))"
    unfolding lang_Opt lang_Cat_Str lang_Plus_pats by blast+
  from rest obtain sp f sp2 where x2: "x2 = lit ''fun'' @ sp @ f @ sp2 @ [40]"
    and parts: "sp \<noteq> []" "\<forall>z\<in>set sp. is_space z" "f \<noteq> []" "\<forall>z\<in>set f. is_word w z" "\<forall>z\<in>set sp2. is_space z" and c: "c = [(1, f)]"
    unfolding cat_simps lang_Str lang_Plus_Cls c1 by blast
  show ?thesis by (rule that [OF _ x1 parts c]) (simp only: x x2)
qed

lemma name_of_header:
  assumes "sp @ f @ sp2 @ 40 # v = 32 # n @ 40 # r" and "sp \<noteq> []" "\<forall>z\<in>set sp. is_space z" "f \<noteq> []" "\<forall>z\<in>set f. is_word w z"
    "\<forall>z\<in>set sp2. is_space z" and n: "n \<noteq> []" "\<forall>z\<in>set n. is_word w z \<and> \<not> is_space z"
  shows "f = n \<and> v = r"
proof -
  have paren: "\<not> is_word w 40" "\<not> is_space 40" by (simp_all add: is_word_def is_space_def)
  from assms(1,2) obtain sp' where sp: "sp = 32 # sp'" by (cases sp) auto
  with assms(1) have eq: "(sp' @ f @ sp2) @ 40 # v = n @ 40 # r" by simp
  have no: "\<forall>x\<in>set (sp' @ f @ sp2). x \<noteq> 40" "\<forall>x\<in>set n. x \<noteq> 40" using assms(3,5,6) n sp paren by auto
  from run_unique [OF eq no] have "sp' @ f @ sp2 = n" "v = r" by simp_all
  moreover from this n assms(3,6) sp have "sp' = []" "sp2 = []" by (cases sp'; cases sp2; auto)+
  ultimately show ?thesis by simp
qed

lemma two_functions:
  assumes code: "code = q1 @ lit ''private fun '' @ n1 @ 40 # mid @ lit ''private fun '' @ n2 @ 40 # rest"
    and n1: "n1 \<noteq> []" "\<forall>z\<in>set n1. is_word w z \<and> \<not> is_space z" and n2: "n2 \<noteq> []" "\<forall>z\<in>set n2. is_word w z \<and> \<not> is_space z"
    and occ: "\<not> contains (q1 @ lit ''private fu'') (lit ''fun'')"
      "\<not> contains (lit ''un '' @ n1 @ 40 # mid @ lit ''private fu'') (lit ''fun'')"
      "\<not> contains (lit ''un '' @ n2 @ 40 # rest) (lit ''fun'')"
    and fm: "fm \<in> set (re_finditer (fun_header_re w) code)"
  shows "m_start fm < m_end fm \<and> m_end fm \<le> length q1 + 13 + length n1 + length mid \<and> group 1 fm = Some n1 \<or>
    length q1 + 13 + length n1 + length mid \<le> m_start fm \<and> group 1 fm = Some n2"
proof -
  let ?x1 = "q1 @ lit ''private ''" and ?x2 = "32 # n1 @ 40 # mid @ lit ''private ''" and ?x3 = "32 # n2 @ 40 # rest"
  from re_finditer_sound [OF fm] obtain u x v where t: "code = u @ x @ v" and st: "m_start fm = length u" "m_end fm = length (u @ x)"
    and L: "lang (fun_header_re w) u x v [] (m_caps fm)" by blast
  from fun_header_lang [OF L] obtain pw sp f sp2 where x: "x = pw @ lit ''fun'' @ sp @ f @ sp2 @ [40]"
    and pw: "pw = [] \<or> (\<exists>s. pw = lit ''private'' @ s \<and> (\<forall>z\<in>set s. is_space z))"
    and runs: "sp \<noteq> []" "\<forall>z\<in>set sp. is_space z" "f \<noteq> []" "\<forall>z\<in>set f. is_word w z" "\<forall>z\<in>set sp2. is_space z"
    and caps: "m_caps fm = [(1, f)]" .
  have g: "group 1 fm = Some f" by (simp add: group_def caps)
  have code2: "code = ?x1 @ lit ''fun'' @ ?x2 @ lit ''fun'' @ ?x3" by (simp add: code lit_def)
  have len: "length code = m_end fm + length v" by (simp add: t st)
  have "?x1 @ lit ''fun'' @ ?x2 @ lit ''fun'' @ ?x3 = (u @ pw) @ lit ''fun'' @ (sp @ f @ sp2 @ 40 # v)"
    using t x code2 by simp
  from two_occurrences [OF this] occ consider
      "u @ pw = ?x1" "sp @ f @ sp2 @ 40 # v = 32 # n1 @ 40 # (mid @ lit ''private '' @ lit ''fun'' @ ?x3)"
    | "u @ pw = ?x1 @ lit ''fun'' @ ?x2" "sp @ f @ sp2 @ 40 # v = 32 # n2 @ 40 # rest"
    by (auto simp: lit_def)
  then show ?thesis
  proof cases
    case 1
    from name_of_header [OF 1(2) runs n1] have "f = n1" "v = mid @ lit ''private '' @ lit ''fun'' @ ?x3" by simp_all
    with len g st x show ?thesis by (simp add: code lit_def)
  next
    case 2
    from name_of_header [OF 2(2) runs n2] have f: "f = n2" by simp
    have "length q1 + 13 + length n1 + length mid \<le> length u"
    proof (cases "pw = []")
      case True
      with arg_cong [OF 2(1), of length] show ?thesis by (simp add: lit_def)
    next
      case False
      with pw obtain s where s: "pw = lit ''private'' @ s" "\<forall>z\<in>set s. is_space z" by blast
      have "(u @ lit ''privat'') @ 101 # s = (?x1 @ lit ''fun'' @ 32 # n1 @ 40 # mid @ lit ''privat'') @ 101 # [32]"
        using 2(1) s(1) by (simp add: lit_def)
      from spaces_before_end [OF this s(2)] have "u @ lit ''privat'' = ?x1 @ lit ''fun'' @ 32 # n1 @ 40 # mid @ lit ''privat''"
        by (simp add: is_space_def)
      from arg_cong [OF this, of length] show ?thesis by (simp add: lit_def)
    qed
    with st g f show ?thesis by simp
  qed
qed

text \<open>A place stands in the function whose header is the last before it.\<close>

lemma stands_in_from:
  assumes "m \<in> set (re_finditer (fun_header_re w) code)" "lo \<le> m_start m" "m_start m < pos"
    and "\<And>fm. fm \<in> set (re_finditer (fun_header_re w) code) \<Longrightarrow> lo \<le> m_start fm \<Longrightarrow> m_start fm < pos \<Longrightarrow> group 1 fm = Some f"
  shows "stands_in w code pos f"
proof (cases "enclosing_fun w code pos")
  case None
  then show ?thesis using assms(1,3) unfolding enclosing_fun_None by blast
next
  case (Some fm)
  then have "fm \<in> set (re_finditer (fun_header_re w) code)" "m_start fm < pos"
    and most: "\<forall>fm' \<in> set (re_finditer (fun_header_re w) code). m_start fm' < pos \<longrightarrow> m_start fm' \<le> m_start fm"
    unfolding enclosing_fun_Some by blast+
  moreover from most assms(1-3) have "lo \<le> m_start fm" by fastforce
  ultimately show ?thesis using assms(4) most unfolding stands_in_def by blast
qed

lemma header_at:
  assumes "n \<noteq> []" "\<forall>z\<in>set n. is_word w z" and "code = q @ lit ''private fun '' @ n @ 40 # r"
  obtains m where "m \<in> set (re_finditer (fun_header_re w) code)" "m_start m \<le> length q" "length q < m_end m"
proof (rule re_finditer_complete)
  show "x \<noteq> []" if "lang (fun_header_re w) p x q [] c" for p x q c
    using fun_header_lang [OF that] by auto
  let ?x = "(lit ''private'' @ [32]) @ lit ''fun'' @ [32] @ n @ [] @ lit ''(''"
  show "code = q @ ?x @ r" by (simp add: assms(3) lit_def)
  show "lang (fun_header_re w) q ?x r [] [(1, n)]"
    unfolding fun_header_re_def Seq.simps by (intro lang_CatI; simp add: lang_simps is_space_def assms(1,2))
qed (rule that)

end
