(* ===== verification/Pattern_Cases.thy ===== *)
theory Pattern_Cases
  imports Vpn_Cases Text_Patterns
begin

section \<open>The cases of the self-test whose replicas search with patterns\<close>

text \<open>
  The cases that tools/audit-self-test.py has for the replicas of S74 to S123 that search with patterns, count, or compare places. All of
  them are texts that must pass. Most patterns are decided on the lines of the text; for S74 the body of \<open>onStartCommand\<close> is
  followed to the call it must hold, and for S84 the two calls are shown to stand in the functions in which they must.
\<close>

subsection \<open>The texts\<close>

definition s86_lines_a :: "pystr list" where
  "s86_lines_a = [
     lit ''class ActivePoolScreen extends ConsumerStatefulWidget {'',
     lit ''  @override'',
     lit ''  ConsumerState<ActivePoolScreen> createState() => _S();'',
     lit ''}'',
     lit ''class _S extends ConsumerState<ActivePoolScreen> {'',
     lit ''  late final VpnService _vpn;'',
     lit ''  @override'',
     lit ''  void initState() {'',
     lit ''    super.initState();'',
     lit ''    _vpn = VpnService.instance;'',
     lit ''    _packetSub = _vpn.packetStream.listen(_onPacketsSampled);'',
     lit ''    _stateSub = _vpn.stateStream.listen((s) { setState(() => _vpnState = s); });'',
     lit ''  }'',
     lit ''}'']"

definition s87_lines_a :: "pystr list" where
  "s87_lines_a = [
     lit ''package com.opene2ee.opene2ee.vpn'',
     lit ''import java.util.concurrent.atomic.AtomicLong'',
     lit ''class OpenE2eeVpnService {'',
     lit ''    private val ipFragmentCount = AtomicLong(0)'',
     lit ''    companion object {'',
     lit ''        const val TUN_MTU = 1400'',
     lit ''        val PRIMARY_DNS = java.net.InetAddress.getByName('' @ [34] @ lit ''1.1.1.1'' @ [34] @ lit '')'',
     lit ''    }'',
     lit ''    private fun startReaderThread() {'',
     lit ''        while (true) {'',
     lit ''            val n = 100'',
     lit ''            packetsObserved.incrementAndGet()'',
     lit ''            if (packetsObserved.get() % 1000 == 0) {'',
     lit ''                Log.d(TAG, '' @ [34] @ lit ''startReaderThread: MTU=$TUN_MTU, '' @ [34] @ lit '' +'',
     lit ''                        '' @ [34] @ lit ''ipFragmentCount=${ipFragmentCount.get()}, '' @ [34] @ lit '' +'',
     lit ''                        '' @ [34] @ lit ''fragmentRatePct=0.0'' @ [34] @ lit '')'',
     lit ''            }'',
     lit ''        }'',
     lit ''    }'',
     lit ''    private fun buildVpnBuilder(b: android.net.VpnService.Builder) {'',
     lit ''        b.addDnsServer(PRIMARY_DNS)'',
     lit ''        b.setMtu(TUN_MTU)'',
     lit ''    }'',
     lit ''}'']"

definition s93_lines_a :: "pystr list" where
  "s93_lines_a = [
     lit ''package com.opene2ee.opene2ee.vpn'',
     lit ''import java.util.concurrent.atomic.AtomicLong'',
     lit ''class OpenE2eeVpnService {'',
     lit ''    private val passthroughCount = AtomicLong(0)'',
     lit ''    private fun startCapture() {'',
     lit ''        packetsObserved.set(0)'',
     lit ''        passthroughCount.set(0)'',
     lit ''    }'',
     lit ''    private fun startReaderThread(pfd: android.os.ParcelFileDescriptor) {'',
     lit ''        try {'',
     lit ''            while (true) {'',
     lit ''                val n = 100'',
     lit ''                if (!pfd.fileDescriptor.valid()) break'',
     lit ''                val writeOk = try {'',
     lit ''                    output.write(buf, 0, n)'',
     lit ''                    output.flush()'',
     lit ''                    passthroughCount.incrementAndGet()'',
     lit ''                    true'',
     lit ''                } catch (e: IOException) {'',
     lit ''                    Log.e(TAG, '' @ [34] @ lit ''write failed (IOException)'' @ [34] @ lit '', e)'',
     lit ''                    false'',
     lit ''                } catch (t: Throwable) {'',
     lit ''                    Log.e(TAG, '' @ [34] @ lit ''write failed (Throwable)'' @ [34] @ lit '', t)'',
     lit ''                    false'',
     lit ''                }'',
     lit ''                if (!writeOk) break'',
     lit ''            }'',
     lit ''        } catch (t: Throwable) {}'',
     lit ''    }'',
     lit ''    private fun per1000Breadcrumb() {'',
     lit ''        Log.d(TAG, '' @ [34] @ lit ''startReaderThread: MTU=1400, '' @ [34] @ lit '' +'',
     lit ''            '' @ [34] @ lit ''passthroughCount=${passthroughCount.get()}, '' @ [34] @ lit '' +'',
     lit ''            '' @ [34] @ lit ''passthroughGap=${packetsObserved.get() - passthroughCount.get()}'' @ [34] @ lit '')'',
     lit ''    }'',
     lit ''}'']"

definition s95_lines_a :: "pystr list" where
  "s95_lines_a = [
     lit ''package com.opene2ee.opene2ee.vpn'',
     lit ''import java.util.concurrent.atomic.AtomicLong'',
     lit ''class OpenE2eeVpnService {'',
     lit ''    private val packetsObserved = AtomicLong(0)'',
     lit ''    private val ipFragmentCount = AtomicLong(0)'',
     lit ''    private val passthroughCount = AtomicLong(0)'',
     lit ''    private val ring = ArrayDeque<ByteArray>()'',
     lit ''    private val ringLock = Any()'',
     lit ''    private fun startCapture(): State {'',
     lit ''        packetsObserved.set(0)'',
     lit ''        ipFragmentCount.set(0)'',
     lit ''        passthroughCount.set(0)'',
     lit ''        synchronized(ringLock) { ring.clear() }'',
     lit ''        return State.RUNNING'',
     lit ''    }'',
     lit ''    private fun stopCapture(graceful: Boolean) {'',
     lit ''        return synchronized(stateLock) {'',
     lit ''            val prevState = state'',
     lit ''            if (!running.get() && tunInterface == null) {'',
     lit ''                state = State.STOPPED'',
     lit ''                synchronized(ringLock) { ring.clear() }'',
     lit ''                packetsObserved.set(0)'',
     lit ''                return@synchronized state'',
     lit ''            }'',
     lit ''            state = State.DRAINING'',
     lit ''            tunInterface?.let { it.close() }'',
     lit ''            readerThread?.join(1_000L)'',
     lit ''            stopDrainLoop()'',
     lit ''            synchronized(ringLock) { ring.clear() }'',
     lit ''            packetsObserved.set(0)'',
     lit ''            ipFragmentCount.set(0)'',
     lit ''            passthroughCount.set(0)'',
     lit ''            flushTelemetry()'',
     lit ''            running.set(false)'',
     lit ''            state = State.STOPPED'',
     lit ''            return@synchronized state'',
     lit ''        }'',
     lit ''    }'',
     lit ''}'']"

definition s88_lines1_a :: "pystr list" where
  "s88_lines1_a = [
     lit ''import '' @ [39] @ lit ''package:flutter/services.dart'' @ [39] @ lit '';'',
     lit ''import '' @ [39] @ lit ''dart:async'' @ [39] @ lit '';'',
     lit ''class _S {'',
     lit ''  Future<void> _oturumuBitir() async {'',
     lit ''    final _permissions = MethodChannel('' @ [39] @ lit ''opene2ee/permissions'' @ [39] @ lit '');'',
     lit ''    try {'',
     lit ''      await _vpn.stop().timeout(const Duration(seconds: 3));'',
     lit ''    } on TimeoutException {'',
     lit ''      await _permissions.invokeMethod('' @ [39] @ lit ''disconnectVpn'' @ [39] @ lit '');'',
     lit ''    } catch (e) {'',
     lit ''      await _permissions.invokeMethod('' @ [39] @ lit ''disconnectVpn'' @ [39] @ lit '');'',
     lit ''    }'',
     lit ''  }'',
     lit ''}'']"

definition s88_lines2_a :: "pystr list" where
  "s88_lines2_a = [
     lit ''package com.opene2ee.opene2ee'',
     lit ''import android.content.Intent'',
     lit ''import android.net.VpnService'',
     lit ''import com.opene2ee.opene2ee.vpn.OpenE2eeVpnService'',
     lit ''class MainActivity {'',
     lit ''  private fun onPermissionsCall(call: MethodCall, result: MethodChannel.Result) {'',
     lit ''    when (call.method) {'',
     lit ''      '' @ [34] @ lit ''disconnectVpn'' @ [34] @ lit '' -> disconnectVpn(result)'',
     lit ''    }'',
     lit ''  }'',
     lit ''  private fun disconnectVpn(result: MethodChannel.Result) {'',
     lit ''    val stopIntent = Intent(this, OpenE2eeVpnService::class.java)'',
     lit ''    stopService(stopIntent)'',
     lit ''    VpnService.prepare(this)'',
     lit ''    result.success(true)'',
     lit ''  }'',
     lit ''}'']"

definition s89_lines_a :: "pystr list" where
  "s89_lines_a = [
     lit ''import '' @ [39] @ lit ''dart:async'' @ [39] @ lit '';'',
     lit ''class _S {'',
     lit ''  bool _disconnectInProgress = false;'',
     lit ''  StreamSubscription? _packetSub;'',
     lit ''  StreamSubscription? _stateSub;'',
     lit ''  StreamSubscription? _webrtcStateSub;'',
     lit ''  int _toplamPaket = 0;'',
     lit ''  int _toplamTelemetri = 0;'',
     lit ''  Future<void> _oturumuBitir() async {'',
     lit ''    if (_disconnectInProgress) return;'',
     lit ''    _disconnectInProgress = true;'',
     lit ''    await _packetSub?.cancel();'',
     lit ''    await _stateSub?.cancel();'',
     lit ''    await _webrtcStateSub?.cancel();'',
     lit ''    _packetSub = null;'',
     lit ''    _stateSub = null;'',
     lit ''    _webrtcStateSub = null;'',
     lit ''    setState(() {'',
     lit ''      _toplamPaket = 0;'',
     lit ''      _toplamTelemetri = 0;'',
     lit ''      _vpnState = VpnLifecycleState.idle;'',
     lit ''      _webrtcState = WebRTCState.closed;'',
     lit ''    });'',
     lit ''    context.go('' @ [39] @ lit ''/home/gorevler'' @ [39] @ lit '');'',
     lit ''    _disconnectInProgress = false;'',
     lit ''  }'',
     lit ''}'']"

definition s98_lines_a :: "pystr list" where
  "s98_lines_a = [
     lit ''package com.opene2ee.opene2ee.vpn'',
     lit ''import android.net.VpnService'',
     lit ''import android.os.Handler'',
     lit ''import android.os.Looper'',
     lit ''class OpenE2eeVpnService {'',
     lit ''    private fun startCapture(): State {'',
     lit ''        val builder = Builder()'',
     lit ''            .addAddress(TUN_ADDRESS, TUN_PREFIX_LENGTH)'',
     lit ''            .addRoute(CAPTURED_ROUTE_ADDRESS, CAPTURED_ROUTE_PREFIX)'',
     lit ''            .addDnsServer(PRIMARY_DNS)'',
     lit ''            .setMtu(TUN_MTU)'',
     lit ''        // Sprint 11.0Y: call checkPrivateDnsAndBindToVpn'',
     lit ''        // BEFORE Builder.establish() (call site must be'',
     lit ''        // textually before establish() in startCapture).'',
     lit ''        checkPrivateDnsAndBindToVpn()'',
     lit ''        val pfd = builder.establish()'',
     lit ''        if (pfd == null) return State.ERROR'',
     lit ''        return State.SAMPLING'',
     lit ''    }'',
     lit ''    private fun checkPrivateDnsAndBindToVpn() {'',
     lit ''        val fallbackAttemptCount = intArrayOf(0)'',
     lit ''        val fallbackHandler = Handler(Looper.getMainLooper())'',
     lit ''        lateinit var fallbackRunnable: Runnable'',
     lit ''        fallbackRunnable = Runnable {'',
     lit ''            if (fallbackAttemptCount[0] < 1) {'',
     lit ''                fallbackAttemptCount[0]++'',
     lit ''                Log.d(TAG, '' @ [34] @ lit ''DNS: FALLBACK attempt 1/2 - retrying in 5s'' @ [34] @ lit '')'',
     lit ''                fallbackHandler.postDelayed(fallbackRunnable, 5_000L)'',
     lit ''            }'',
     lit ''        }'',
     lit ''    }'',
     lit ''}'']"

definition case_s74_vpn_service_pass :: "pystr list" where
  "case_s74_vpn_service_pass = [
     lit ''package com.opene2ee.opene2ee.vpn'',
     lit ''import android.app.Notification'',
     lit ''import android.app.NotificationChannel'',
     lit ''import android.app.NotificationManager'',
     lit ''import android.content.Context'',
     lit ''import android.content.pm.ServiceInfo'',
     lit ''import android.net.VpnService'',
     lit ''import android.os.Build'',
     lit ''import androidx.core.app.NotificationCompat'',
     lit ''import androidx.core.app.ServiceCompat'',
     [],
     lit ''class OpenE2eeVpnService : VpnService() {'',
     lit ''    private fun startCapture() {}'',
     lit ''    private fun ensureForegroundService() {'',
     lit ''        if (Build.VERSION.SDK_INT >= Build.VERSION_CODES.O) {'',
     lit ''            val channel = NotificationChannel('',
     lit ''                '' @ [34] @ lit ''opene2ee.vpn.diagnostic'' @ [34] @ lit '','',
     lit ''                '' @ [34] @ lit ''OpenE2EE '' @ [350] @ lit ''ifreleme Do'' @ [287] @ lit ''rulama'' @ [34] @
       lit '','',
     lit ''                NotificationManager.IMPORTANCE_LOW,'',
     lit ''            )'',
     lit ''            getSystemService(NotificationManager::class.java)'',
     lit ''                ?.createNotificationChannel(channel)'',
     lit ''        }'',
     lit ''        val notification: Notification = NotificationCompat.Builder(this, '' @ [34] @
       lit ''opene2ee.vpn.diagnostic'' @ [34] @ lit '')'',
     lit ''            .setContentTitle('' @ [34] @ lit ''OpenE2EE '' @ [350] @ lit ''ifreleme Do'' @ [287] @ lit ''rulama'' @
       [34] @ lit '')'',
     lit ''            .setSmallIcon(android.R.drawable.ic_lock_lock)'',
     lit ''            .setOngoing(true)'',
     lit ''            .build()'',
     lit ''        if (Build.VERSION.SDK_INT >= Build.VERSION_CODES.UPSIDE_DOWN_CAKE) {'',
     lit ''            startForeground('',
     lit ''                0x4F_50_4E_45,'',
     lit ''                notification,'',
     lit ''                ServiceInfo.FOREGROUND_SERVICE_TYPE_SPECIAL_USE,'',
     lit ''            )'',
     lit ''        } else {'',
     lit ''            ServiceCompat.startForeground('',
     lit ''                this, 0x4F_50_4E_45, notification,'',
     lit ''                ServiceInfo.FOREGROUND_SERVICE_TYPE_SPECIAL_USE,'',
     lit ''            )'',
     lit ''        }'',
     lit ''    }'',
     lit ''    override fun onStartCommand(intent: Intent?, flags: Int, startId: Int): Int {'',
     lit ''        // Sprint 11.0E: foreground promotion FIRST (5s rule).'',
     lit ''        ensureForegroundService()'',
     lit ''        if (running.get() == false) startCapture()'',
     lit ''        return START_NOT_STICKY'',
     lit ''    }'',
     lit ''}'']"

definition case_s76_vpn_service_dart_pass :: "pystr list" where
  "case_s76_vpn_service_dart_pass = [
     lit ''import '' @ [39] @ lit ''dart:async'' @ [39] @ lit '';'',
     lit ''import '' @ [39] @ lit ''package:flutter/services.dart'' @ [39] @ lit '';'',
     lit ''class VpnService {'',
     lit ''    // Sprint 11.0G '' @ [8212] @ lit '' private ctor (`VpnService._`). The 11.0F'',
     lit ''    // form was `VpnService._internal(...)`; both are'',
     lit ''    // accepted by the audit. The key invariant is that'',
     lit ''    // the default `VpnService()` is NOT callable.'',
     lit ''    VpnService._({MethodChannel? channel})'',
     lit ''        : _channel = channel ?? const MethodChannel('' @ [39] @ lit ''opene2ee/vpn'' @ [39] @ lit '') {'',
     lit ''        _channel.setMethodCallHandler(_onNativeCall);'',
     lit ''    }'',
     lit ''    static final VpnService _instance = VpnService._();'',
     lit ''    static VpnService get instance => _instance;'',
     lit ''    // NO `factory VpnService()` '' @ [8212] @ lit '' the 11.0F back-compat'',
     lit ''    // factory was REMOVED in 11.0G. The default ctor'',
     lit ''    // doesn'' @ [39] @ lit ''t exist; only `VpnService.instance` and'',
     lit ''    // `VpnService.forTesting(...)` are callable.'',
     lit ''    factory VpnService.forTesting({MethodChannel? channel}) =>'',
     lit ''        VpnService._(channel: channel);'',
     lit ''    final MethodChannel _channel;'',
     lit ''}'']"

definition case_s79_vpn_service_addroute_pass :: "pystr list" where
  "case_s79_vpn_service_addroute_pass = [
     lit ''package com.opene2ee.opene2ee.vpn'',
     lit ''class OpenE2eeVpnService {'',
     lit ''    protected fun buildVpnBuilder(): VpnService.Builder {'',
     lit ''        return Builder()'',
     lit ''            .setSession('' @ [34] @ lit ''OpenE2EE Network Diagnostic'' @ [34] @ lit '')'',
     lit ''            .addAddress(TUN_ADDRESS, 24)'',
     lit ''            .addRoute('' @ [34] @ lit ''0.0.0.0'' @ [34] @ lit '', 0)'',
     lit ''            .addDnsServer(PRIMARY_DNS)'',
     lit ''            .setMtu(1500)'',
     lit ''            .setBlocking(true)'',
     lit ''    }'',
     lit ''}'']"

definition case_s80_vpn_service_tun_passthrough_pass :: "pystr list" where
  "case_s80_vpn_service_tun_passthrough_pass = [
     lit ''package com.opene2ee.opene2ee.vpn'',
     lit ''import android.os.ParcelFileDescriptor'',
     lit ''class OpenE2eeVpnService {'',
     lit ''    private fun startReaderThread(pfd: ParcelFileDescriptor) {'',
     lit ''        val input = ParcelFileDescriptor.AutoCloseInputStream(pfd)'',
     lit ''        val output = ParcelFileDescriptor.AutoCloseOutputStream(pfd)'',
     lit ''        val thread = Thread({'',
     lit ''            val buf = ByteArray(1500)'',
     lit ''            while (true) {'',
     lit ''                val n = input.read(buf)'',
     lit ''                if (n <= 0) break'',
     lit ''                // Sprint 11.0J '' @ [8212] @ lit '' TRANSPARENT PASSTHROUGH.'',
     lit ''                output.write(buf, 0, n)'',
     lit ''                output.flush()'',
     lit ''            }'',
     lit ''        }, '' @ [34] @ lit ''opene2ee-vpn-reader'' @ [34] @ lit '')'',
     lit ''        thread.start()'',
     lit ''    }'',
     lit ''}'']"

definition case_s82_vpn_service_ui_thread_push_pass :: "pystr list" where
  "case_s82_vpn_service_ui_thread_push_pass = [
     lit ''package com.opene2ee.opene2ee.vpn'',
     lit ''import android.os.Handler'',
     lit ''import android.os.Looper'',
     lit ''import android.os.ParcelFileDescriptor'',
     lit ''class OpenE2eeVpnService {'',
     lit ''    companion object {'',
     lit ''        @JvmField'',
     lit ''        val mainHandler: Handler = Handler(Looper.getMainLooper())'',
     lit ''    }'',
     lit ''    private fun flushTelemetry() {'',
     lit ''        val ch = methodChannel'',
     lit ''        mainHandler.post {'',
     lit ''            ch?.invokeMethod('' @ [34] @ lit ''onTelemetry'' @ [34] @ lit '', null)'',
     lit ''        }'',
     lit ''    }'',
     lit ''    private fun notifyError(message: String) {'',
     lit ''        val ch = methodChannel'',
     lit ''        mainHandler.post {'',
     lit ''            ch?.invokeMethod('' @ [34] @ lit ''onError'' @ [34] @ lit '', null)'',
     lit ''        }'',
     lit ''    }'',
     lit ''    private fun pushToDart() {'',
     lit ''        val ch = methodChannel'',
     lit ''        mainHandler.post {'',
     lit ''            ch?.invokeMethod('' @ [34] @ lit ''onPacketsSampled'' @ [34] @ lit '', null)'',
     lit ''        }'',
     lit ''    }'',
     lit ''}'']"

definition case_s84_packets_observed_increment_invariant_pass :: "pystr list" where
  "case_s84_packets_observed_increment_invariant_pass = [
     lit ''package com.opene2ee.opene2ee.vpn'',
     lit ''import java.util.concurrent.atomic.AtomicInteger'',
     lit ''class OpenE2eeVpnService {'',
     lit ''    private val packetsObserved = AtomicInteger(0)'',
     lit ''    private fun startCapture() {'',
     lit ''        packetsObserved.set(0)'',
     lit ''    }'',
     lit ''    private fun startReaderThread() {'',
     lit ''        try {'',
     lit ''            while (true) {'',
     lit ''                val n = input.read(buf)'',
     lit ''                if (n <= 0) break'',
     lit ''                val meta = extractMetadata(packet, n)'',
     lit ''                if (meta != null) {'',
     lit ''                    synchronized(ringLock) {'',
     lit ''                        ring.addLast(meta)'',
     lit ''                    }'',
     lit ''                    packetsObserved.incrementAndGet()'',
     lit ''                }'',
     lit ''            }'',
     lit ''        } catch (t: Throwable) {}'',
     lit ''    }'',
     lit ''}'']"

definition s105_lines_a :: "pystr list" where
  "s105_lines_a = [
     lit ''package com.opene2ee.opene2ee.vpn'',
     lit ''import android.util.Log'',
     lit ''import java.net.DatagramPacket'',
     lit ''import java.net.DatagramSocket'',
     lit ''import java.net.InetAddress'',
     lit ''class NettyChannelClient(private val service: OpenE2eeVpnService) {'',
     lit ''    fun handleUdpPacket(srcIp: String, srcPort: Int, dstIp: String, dstPort: Int, payload: ByteArray) {'',
     lit ''        val udpSocket = DatagramSocket()'',
     lit ''        val protected = service.protect(udpSocket)'',
     lit ''        Log.d('' @ [34] @ lit ''NettyChannelClient'' @ [34] @ lit '', '' @ [34] @
       lit ''handleUdpPacket: protected DatagramSocket'' @ [34] @ lit '')'',
     lit ''    }'',
     lit ''}'']"

definition s107_lines_a :: "pystr list" where
  "s107_lines_a = [
     lit ''package com.opene2ee.opene2ee.vpn'',
     lit ''import android.util.Log'',
     lit ''import java.io.OutputStream'',
     lit ''class OpenE2eeVpnService {'',
     lit ''    private fun startReaderThread(output: OutputStream) {'',
     lit ''        var handled = false'',
     lit ''        Log.d('' @ [34] @ lit ''OpenE2eeVpn'' @ [34] @ lit '', '' @ [34] @
       lit ''startReaderThread: TCP packet ENTRY'' @ [34] @ lit '')'',
     lit ''        if (true) {'',
     lit ''            handled = true'',
     lit ''        }'',
     lit ''        val writeOk = if (handled) {'',
     lit ''            Log.d('' @ [34] @ lit ''OpenE2eeVpn'' @ [34] @ lit '', '' @ [34] @
       lit ''startReaderThread: passthrough SKIPPED (user-space stack handled TCP/UDP packet)'' @ [34] @ lit '')'',
     lit ''            true'',
     lit ''        } else try {'',
     lit ''            output.write(byteArrayOf())'',
     lit ''            true'',
     lit ''        } catch (e: Throwable) { false }'',
     lit ''    }'',
     lit ''}'']"

definition s121_lines1_a :: "pystr list" where
  "s121_lines1_a = [
     lit ''package com.opene2ee.opene2ee.vpn'',
     lit ''import android.util.Log'',
     lit ''import android.net.VpnService'',
     lit ''class OpenE2eeVpnService : VpnService() {'',
     lit ''    fun buildVpnBuilder(): VpnService.Builder {'',
     lit ''        val allowedAppsList = allowedApplications ?: emptyList()'',
     lit ''        val disallowedAppsList = disallowedApplications ?: emptyList()'',
     lit ''        Log.d('' @ [34] @ lit ''OpenE2eeVpn'' @ [34] @ lit '', '' @ [34] @
       lit ''buildVpnBuilder: allowedApps=${allowedAppsList.size} packages=$allowedAppsList, '' @
       lit ''disallowedApps=${disallowedAppsList.size} packages=$disallowedAppsList, addRoute=0.0.0.0/0 (default = all '' @
       lit ''traffic), mtu=1400'' @ [34] @ lit '')'',
     lit ''        val b = Builder()'',
     lit ''        return b'',
     lit ''    }'',
     lit ''    private fun startCapture(): State {'',
     lit ''        checkPrivateDnsAndBindToVpn()'',
     lit ''        val pfd = builder.establish()'',
     lit ''        return State.SAMPLING'',
     lit ''    }'',
     lit ''    internal class TcpForwarder(private val service: OpenE2eeVpnService) {'',
     lit ''        fun handleTcpPacket(srcIp: String, dstIp: String, srcPort: Int, dstPort: Int, flags: Int) {'',
     lit ''            Log.d('' @ [34] @ lit ''TcpForwarder'' @ [34] @ lit '', '' @ [34] @
       lit ''handleTcpPacket: dispatching flags=0x${Integer.toHexString(flags)} (SYN=${(flags and 0x02) != 0}, ACK=${(flags '' @
       lit ''and 0x10) != 0}, PSH=${(flags and 0x08) != 0}, FIN=${(flags and 0x01) != 0}, RST=${(flags and 0x04) != 0}) '' @
       lit ''flowKey=primary'' @ [34] @ lit '')'',
     lit ''        }'',
     lit ''    }'',
     lit ''}'']"

definition s121_lines2_a :: "pystr list" where
  "s121_lines2_a = [
     lit ''# Changelog'',
     lit ''## [Unreleased] - Sprint 12.0F+1 (TCP SYN processing debug)'',
     lit ''### Diagnostics'',
     lit ''- Sprint 12.0F+1 - TCP SYN processing debug breadcrumbs. Owner 12.0F logcat analysis showed 9 dispatch events '' @
       lit ''all PSH+ACK, 0 SYN.'',
     lit ''  1. handleTcpPacket: dispatching flags=0x.. breadcrumb in TcpForwarder.handleTcpPacket (every captured TCP '' @
       lit ''packet).'',
     lit ''  2. buildVpnBuilder: allowedApps=N packages=[...] breadcrumb at buildVpnBuilder entry.'',
     lit ''### Owner'' @ [39] @ lit ''s 6-step test ak'' @ [305, 351, 305] @ lit '' (S121-4)'',
     lit ''  1. VPN KAPALI'',
     lit ''  2. Uygulamay'' @ [305] @ lit '' KAPAT (force-stop com.opene2ee.opene2ee)'',
     lit ''  3. Uygulama i'' @ [231] @ lit ''inden 212.64.210.85:443'' @ [39] @ lit ''e istek g'' @ [246] @ lit ''nder'',
     lit ''  4. VPN A'' @ [199],
     lit ''  5. Uygulama i'' @ [231] @ lit ''inden AYNI adrese yeni istek g'' @ [246] @ lit ''nder'',
     lit ''  6. Log al: adb logcat -d -s '' @ [34] @ lit ''OpenE2eeVpn:V TcpForwarder:V UdpForwarder:V NettyChannelClient:V'' @
       [34] @ lit '' (Tag 4 filter)'',
     lit ''### APK SHA-256 + R8/proguard'',
     lit ''- APK SHA-256: C8B0038684063E7F460E9A5BC600D60CC08D29A7E0F3E26979F71A3B943D90C2 (12.0F release with '' @
       lit ''proguard-rules.pro + proguardFiles; R8 strict mode no missing classes)'',
     lit ''- checkPrivateDnsAndBindToVpn() called BEFORE builder.establish() (11.0Y Sprint 98 invariant)'']"

definition s122_lines1_a :: "pystr list" where
  "s122_lines1_a = [
     lit ''package com.opene2ee.opene2ee.vpn'',
     lit ''import android.util.Log'',
     lit ''import androidx.annotation.Keep'',
     lit ''class OpenE2eeVpnService {'',
     lit ''    internal class TcpForwarder(private val service: OpenE2eeVpnService) {'',
     lit ''        @Keep'',
     lit ''        private fun writeTcpRstToTun(srcIp: String, dstIp: String, srcPort: Int, dstPort: Int, seqNum: Long, '' @
       lit ''ackNum: Long, flowKey: String) {'',
     lit ''            Log.w('' @ [34] @ lit ''TcpForwarder'' @ [34] @ lit '', '' @ [34] @
       lit ''writeTcpRstToTun: dispatching RST for flow $flowKey'' @ [34] @ lit '')'',
     lit ''        }'',
     lit ''        fun handleData(flowKey: String, conn: Any?, srcIp: String, dstIp: String, srcPort: Int, dstPort: Int, '' @
       lit ''seqNum: Long, ackNum: Long) {'',
     lit ''            if (conn == null) {'',
     lit ''                writeTcpRstToTun(srcIp, dstIp, srcPort, dstPort, seqNum, ackNum, flowKey)'',
     lit ''            } else {'',
     lit ''                writeTcpRstToTun(srcIp, dstIp, srcPort, dstPort, seqNum, ackNum, flowKey)'',
     lit ''            }'',
     lit ''        }'',
     lit ''        fun handleAck(flowKey: String, conn: Any?, srcIp: String, dstIp: String, srcPort: Int, dstPort: Int, '' @
       lit ''seqNum: Long, ackNum: Long) {'',
     lit ''            if (conn == null) {'',
     lit ''                writeTcpRstToTun(srcIp, dstIp, srcPort, dstPort, seqNum, ackNum, flowKey)'',
     lit ''            }'',
     lit ''        }'',
     lit ''        fun handleFinAck(flowKey: String, conn: Any?, srcIp: String, dstIp: String, srcPort: Int, dstPort: '' @
       lit ''Int, seqNum: Long, ackNum: Long) {'',
     lit ''            if (conn == null) {'',
     lit ''                writeTcpRstToTun(srcIp, dstIp, srcPort, dstPort, seqNum, ackNum, flowKey)'',
     lit ''            }'',
     lit ''        }'',
     lit ''    }'',
     lit ''}'']"

definition s122_lines2_a :: "pystr list" where
  "s122_lines2_a = [
     lit ''-dontwarn org.apache.log4j.**'',
     lit ''-keepclassmembers,allowobfuscation class * {'',
     lit ''    *** Log*(...);'',
     lit ''}'',
     lit ''-keepclassmembers,allowobfuscation class * {'',
     lit ''    public static final java.lang.String TAG;'',
     lit ''}'',
     lit ''-keep,allowobfuscation @interface androidx.annotation.Keep'',
     lit ''-keep @androidx.annotation.Keep class * { *; }'',
     lit ''-keepclassmembers class * {'',
     lit ''    @androidx.annotation.Keep *;'',
     lit ''}'']"

definition s122_lines3_a :: "pystr list" where
  "s122_lines3_a = [
     lit ''# Changelog'',
     lit ''## [Unreleased] - Sprint 12.0F+2 (TCP SYN RST workaround + R8 keep rules)'',
     lit ''### Owner'' @ [39] @ lit ''s 7-step test ak'' @ [305, 351, 305] @ lit '' (S121-4 / S122-7)'',
     lit ''  1. VPN KAPALI'',
     lit ''  2. Uygulamay'' @ [305] @ lit '' force-stop'',
     lit ''  3. First request (real NIC)'',
     lit ''  4. VPN A'' @ [199],
     lit ''  5. Second request (should trigger RST)'',
     lit ''  6. Wait 10 seconds for timeout'',
     lit ''  7. Expected outcomes (direct response or RST recovery)'',
     lit ''  Log al: adb logcat -d -s '' @ [34] @ lit ''OpenE2eeVpn:V TcpForwarder:V UdpForwarder:V NettyChannelClient:V'' @
       [34] @ lit '' (Tag 4 filter)'',
     lit ''### S122 audit (added in this sprint)'',
     lit ''  S122-1: writeTcpRstToTun function exists in TcpForwarder'',
     lit ''  S122-2: writeTcpRstToTun call in handleData unknown/no-socket flow branch (>=2 calls)'',
     lit ''  S122-3: writeTcpRstToTun call in handleAck OR handleFinAck unknown flow branch (>=4 total)'',
     lit ''  S122-4: proguard-rules.pro contains *** Log*(...) keep rule'',
     lit ''  S122-5: proguard-rules.pro contains String TAG keep rule'',
     lit ''  S122-6: import androidx.annotation.Keep + at least 1 @Keep usage'',
     lit ''  S122-7: CHANGELOG.md has Sprint 12.0F+2 + Tag 4 filter + 7-step'']"

definition s123_lines1_a :: "pystr list" where
  "s123_lines1_a = [
     lit ''package com.opene2ee.opene2ee.vpn'',
     lit ''import android.util.Log'',
     lit ''class OpenE2eeVpnService {'',
     lit ''    private fun buildVpnBuilder(): VpnService.Builder {'',
     lit ''        val b = Builder()'',
     lit ''            .addAddress(TUN_ADDRESS, TUN_PREFIX_LENGTH)'',
     lit ''            .addRoute(CAPTURED_ROUTE_ADDRESS, CAPTURED_ROUTE_PREFIX)'',
     lit ''            .addDnsServer(PRIMARY_DNS)'',
     lit ''            .setMtu(TUN_MTU)'',
     lit ''        Log.d(TAG, '' @ [34] @ lit ''buildVpnBuilder: DEBUG_MODE all traffic (allowedApps removed)'' @ [34] @
       lit '')'',
     lit ''        // builder.addAllowedApplication(pkg)  // COMMENTED OUT in 12.0F+3 - DEBUG_MODE'',
     lit ''        return b'',
     lit ''    }'',
     lit ''    private fun startCapture(): State {'',
     lit ''        val builder = buildVpnBuilder()'',
     lit ''        checkPrivateDnsAndBindToVpn()'',
     lit ''        val pfd = builder.establish()'',
     lit ''        Log.d(TAG, '' @ [34] @ lit ''startCapture: builder.establish() returned pfd='' @ [34] @ lit '' + pfd)'',
     lit ''        tunInterface = pfd'',
     lit ''        rebindProcessToNetworkWithRetry()'',
     lit ''        Handler(Looper.getMainLooper()).postDelayed({'',
     lit ''            dumpVpnRoutingState()'',
     lit ''        }, 500L)'',
     lit ''        running.set(true)'',
     lit ''        return state'',
     lit ''    }'',
     lit ''    private fun rebindProcessToNetworkWithRetry() {'',
     lit ''        Log.d(TAG, '' @ [34] @ lit ''rebindProcessToNetworkWithRetry: starting'' @ [34] @ lit '')'',
     lit ''        checkPrivateDnsAndBindToVpn()'',
     lit ''        val h = Handler(Looper.getMainLooper())'',
     lit ''        h.postDelayed({ checkPrivateDnsAndBindToVpn() }, 1_000L)'',
     lit ''        h.postDelayed({ checkPrivateDnsAndBindToVpn() }, 3_000L)'',
     lit ''    }'',
     lit ''    private fun dumpVpnRoutingState() {'',
     lit ''        Log.d(TAG, '' @ [34] @ lit ''vpnRoutingState: starting dump'' @ [34] @ lit '')'',
     lit ''        val ruleOut = Runtime.getRuntime().exec(arrayOf('' @ [34] @ lit ''sh'' @ [34] @ lit '', '' @ [34] @
       lit ''-c'' @ [34] @ lit '', '' @ [34] @ lit ''ip rule'' @ [34] @ lit '')).inputStream.bufferedReader().readText()'',
     lit ''        Log.d(TAG, '' @ [34] @ lit ''vpnRoutingState: ip rule =>'' @ [92] @ lit ''n'' @ [34] @ lit '' + ruleOut)'',
     lit ''        val routeOut = Runtime.getRuntime().exec(arrayOf('' @ [34] @ lit ''sh'' @ [34] @ lit '', '' @ [34] @
       lit ''-c'' @ [34] @ lit '', '' @ [34] @ lit ''ip route'' @ [34] @ lit '')).inputStream.bufferedReader().readText()'',
     lit ''        Log.d(TAG, '' @ [34] @ lit ''vpnRoutingState: ip route =>'' @ [92] @ lit ''n'' @ [34] @ lit '' + routeOut)'',
     lit ''        val addrOut = Runtime.getRuntime().exec(arrayOf('' @ [34] @ lit ''sh'' @ [34] @ lit '', '' @ [34] @
       lit ''-c'' @ [34] @ lit '', '' @ [34] @ lit ''ip addr show tun0'' @ [34] @
       lit '')).inputStream.bufferedReader().readText()'',
     lit ''        Log.d(TAG, '' @ [34] @ lit ''vpnRoutingState: ip addr show tun0 =>'' @ [92] @ lit ''n'' @ [34] @
       lit '' + addrOut)'',
     lit ''    }'',
     lit ''}'']"

definition s123_lines2_a :: "pystr list" where
  "s123_lines2_a = [
     lit ''# Changelog'',
     lit ''## [Unreleased] - Sprint 12.0F+3 (VPN routing / network fix)'',
     lit ''### Owner'' @ [39] @ lit ''s 8-step test ak'' @ [305, 351, 305] @ lit '' (S123)'',
     lit ''  1. VPN KAPALI'',
     lit ''  2. Uygulamay'' @ [305] @ lit '' force-stop'',
     lit ''  3. First request (real NIC)'',
     lit ''  4. VPN A'' @ [199],
     lit ''  5. Second request (should trigger rebindProcessToNetworkWithRetry)'',
     lit ''  6. Wait 10 seconds for timeout'',
     lit ''  7. New: adb logcat -d -s OpenE2eeVpn:V ... | grep -i '' @ [39] @ lit ''vpnRoutingState: ip route'' @ [39],
     lit ''    Beklenen: ip route '' @ [231, 305] @ lit ''kt'' @ [305] @ lit ''s'' @ [305] @ lit ''nda 0.0.0.0/0 dev tun0 g'' @
       [246] @ lit ''r'' @ [252] @ lit ''nmeli'',
     lit ''  8. Yeni logu Mavis'' @ [39] @ lit ''e g'' @ [246] @ lit ''nder'',
     lit ''### S123 audit (added in this sprint)'',
     lit ''  S123-1: rebindProcessToNetworkWithRetry function exists'',
     lit ''  S123-2: rebindProcessToNetworkWithRetry() call site after Builder.establish()'',
     lit ''  S123-3: addAllowedApplication comment-out'',
     lit ''  S123-4: dumpVpnRoutingState function exists'',
     lit ''  S123-5: vpnRoutingState: ip route in CHANGELOG 8-step test akisi'']"

lemma s86_lines_a_plain: "plain s86_lines_a"
  by (simp add: plain_def s86_lines_a_def text_simps)

lemma s87_lines_a_plain: "plain s87_lines_a"
  by (simp add: plain_def s87_lines_a_def text_simps)

lemma s95_lines_a_plain: "plain s95_lines_a"
  by (simp add: plain_def s95_lines_a_def text_simps)

lemma case_s74_vpn_service_pass_no_comment_block: "no_comment_block case_s74_vpn_service_pass"
  by (simp add: no_comment_block_def case_s74_vpn_service_pass_def text_simps)

lemma case_s76_vpn_service_dart_pass_no_comment_block: "no_comment_block case_s76_vpn_service_dart_pass"
  by (simp add: no_comment_block_def case_s76_vpn_service_dart_pass_def text_simps)

lemma case_s79_vpn_service_addroute_pass_plain: "plain case_s79_vpn_service_addroute_pass"
  by (simp add: plain_def case_s79_vpn_service_addroute_pass_def text_simps)

lemma case_s80_vpn_service_tun_passthrough_pass_no_comment_block: "no_comment_block case_s80_vpn_service_tun_passthrough_pass"
  by (simp add: no_comment_block_def case_s80_vpn_service_tun_passthrough_pass_def text_simps)

lemma case_s82_vpn_service_ui_thread_push_pass_plain: "plain case_s82_vpn_service_ui_thread_push_pass"
  by (simp add: plain_def case_s82_vpn_service_ui_thread_push_pass_def text_simps)

lemma case_s84_packets_observed_increment_invariant_pass_plain: "plain case_s84_packets_observed_increment_invariant_pass"
  by (simp add: plain_def case_s84_packets_observed_increment_invariant_pass_def text_simps)

lemma s105_lines_a_plain: "plain s105_lines_a"
  by (simp add: plain_def s105_lines_a_def text_simps)

lemma s107_lines_a_plain: "plain s107_lines_a"
  by (simp add: plain_def s107_lines_a_def text_simps)

lemma s121_lines1_a_plain: "plain s121_lines1_a"
  by (simp add: plain_def s121_lines1_a_def text_simps)

lemma s121_lines2_a_plain: "plain s121_lines2_a"
  by (simp add: plain_def s121_lines2_a_def text_simps)

lemma s122_lines1_a_plain: "plain s122_lines1_a"
  by (simp add: plain_def s122_lines1_a_def text_simps)

lemma s122_lines2_a_plain: "plain s122_lines2_a"
  by (simp add: plain_def s122_lines2_a_def text_simps)

lemma s122_lines3_a_plain: "plain s122_lines3_a"
  by (simp add: plain_def s122_lines3_a_def text_simps)

lemma s123_lines1_a_no_comment_block: "no_comment_block s123_lines1_a"
  by (simp add: no_comment_block_def s123_lines1_a_def text_simps)

lemma s123_lines2_a_plain: "plain s123_lines2_a"
  by (simp add: plain_def s123_lines2_a_def text_simps)

subsection \<open>The cases\<close>

definition test_s86_a :: "world \<Rightarrow> (finding \<Rightarrow> pystr) \<Rightarrow> test_case" where
  "test_s86_a w message = (
      lit ''S86 PASS (active_pool_screen.dart has NO mock Timer.periodic / setInterval / Future.delayed and DOES '' @
      lit ''subscribe to _vpn.packetStream.listen + _vpn.stateStream.listen - regression guard for OnePlus 9 Pro '' @
      lit ''fake UI animation)'',
      Inr (map message (run_s86_check w (Some (text_lines s86_lines_a)))),
      [])"

definition test_s87_a :: "(finding \<Rightarrow> pystr) \<Rightarrow> test_case" where
  "test_s87_a message = (
      lit ''S87 PASS (OpenE2eeVpnService.kt has TUN_MTU=1400 + addDnsServer(1.1.1.1) + ipFragmentCount + '' @
      lit ''per-1000-packet fragment log - regression guard for OnePlus 9 Pro / Turkcell 4G GTP encapsulation MTU '' @
      lit ''drop)'',
      Inr (map message (run_s87_check (Some (text_lines s87_lines_a)))),
      [])"

definition test_s93_a :: "(finding \<Rightarrow> pystr) \<Rightarrow> test_case" where
  "test_s93_a message = (
      lit ''S93 PASS (OpenE2eeVpnService.kt has passthroughCount AtomicLong + per-write increment + '' @
      lit ''pfd.fileDescriptor.valid check + catch(Throwable) Log.e + passthroughGap in breadcrumb)'',
      Inr (map message (run_s93_check (Some (text_lines s93_lines_a)))),
      [])"

definition test_s95_a :: "(finding \<Rightarrow> pystr) \<Rightarrow> test_case" where
  "test_s95_a message = (
      lit ''S95 PASS (OpenE2eeVpnService.kt stopCapture has ring.clear + packetsObserved.set(0) in BOTH '' @
      lit ''already-idle and normal teardown branches - regression guard for stale ring after VPN stop)'',
      Inr (map message (run_s95_check (Some (text_lines s95_lines_a)))),
      [])"

definition test_s88_a :: "(finding \<Rightarrow> pystr) \<Rightarrow> test_case" where
  "test_s88_a message = (
      lit ''S88 PASS (active_pool_screen.dart has 2-level VPN disconnect fallback + MainActivity.disconnectVpn '' @
      lit ''hard-stop - regression guard for OnePlus 9 Pro '' @ [39] @ lit ''Oturumu Bitir requires app uninstall'' @
      [39] @ lit '')'',
      Inr (map message (run_s88_check (Some (text_lines s88_lines1_a)) (Some (text_lines s88_lines2_a)))),
      [])"

definition test_s89_a :: "(finding \<Rightarrow> pystr) \<Rightarrow> test_case" where
  "test_s89_a message = (
      lit ''S89 PASS (active_pool_screen.dart has full state reset on disconnect - subscriptions cancelled + '' @
      lit ''counters cleared + UI reset + button disabled while in flight + navigation to /home/gorevler)'',
      Inr (map message (run_s89_check (Some (text_lines s89_lines_a)))),
      [])"

definition test_s98_a :: "(finding \<Rightarrow> pystr) \<Rightarrow> test_case" where
  "test_s98_a message = (
      lit ''S98 PASS (OpenE2eeVpnService.kt startCapture calls checkPrivateDnsAndBindToVpn BEFORE '' @
      lit ''Builder.establish() + 5s fallback has 2nd retry - regression guard for OnePlus 9 Pro OxygenOS '' @
      lit ''non-rooted tablet)'',
      Inr (map message (run_s98_check (Some (text_lines s98_lines_a)))),
      [])"

definition test_s74_a :: "(finding \<Rightarrow> pystr) \<Rightarrow> test_case" where
  "test_s74_a message = (
      lit ''S74 PASS (OpenE2eeVpnService.kt onStartCommand calls startForeground( BEFORE startCapture() '' @ [8212] @
      lit '' Android 5-second foreground-service rule, regression guard for OnePlus 9 Pro RemoteServiceException)'',
      Inr (map message (run_s74_check (Some (text_lines case_s74_vpn_service_pass)))),
      [])"

definition test_s76_a :: "(finding \<Rightarrow> pystr) \<Rightarrow> test_case" where
  "test_s76_a message = (
      lit ''S76 PASS (vpn_service.dart exposes VpnService as a Dart singleton '' @ [8212] @
      lit '' regression guard for OnePlus 9 Pro Senaryo D widget-rebuild race; 11.0G form: no public VpnService() '' @
      lit ''ctor, only VpnService._ + VpnService.instance + VpnService.forTesting)'',
      Inr (map message (run_s76_check (Some (text_lines case_s76_vpn_service_dart_pass)))),
      [])"

definition test_s79_a :: "(finding \<Rightarrow> pystr) \<Rightarrow> test_case" where
  "test_s79_a message = (
      lit ''S79 PASS (OpenE2eeVpnService.kt has correct addRoute (0.0.0.0/0) and NO addRoute(TUN_ADDRESS) '' @
      lit ''anti-pattern '' @ [8212] @
      lit '' regression guard for OnePlus 9 Pro IllegalArgumentException: Bad address (Sprint 9.7.0 mirror bug))'',
      Inr (map message (run_s79_check (Some (text_lines case_s79_vpn_service_addroute_pass)))),
      [])"

definition test_s80_a :: "(finding \<Rightarrow> pystr) \<Rightarrow> test_case" where
  "test_s80_a message = (
      lit ''S80 PASS (OpenE2eeVpnService.kt has TUN passthrough (output.write after input.read) and NO '' @
      lit ''protect(Socket()) no-op '' @ [8212] @
      lit '' regression guard for OnePlus 9 Pro internet-killed-by-default-route)'',
      Inr (map message (run_s80_check (Some (text_lines case_s80_vpn_service_tun_passthrough_pass)))),
      [])"

definition test_s82_a :: "(finding \<Rightarrow> pystr) \<Rightarrow> test_case" where
  "test_s82_a message = (
      lit ''S82 PASS (OpenE2eeVpnService.kt dispatches MethodChannel.invokeMethod to the Android main looper via '' @
      lit ''Handler(Looper.getMainLooper()).post { ... } '' @ [8212] @
      lit '' regression guard for OnePlus 9 Pro @UiThread violation on PacketDrain worker)'',
      Inr (map message (run_s82_check (Some (text_lines case_s82_vpn_service_ui_thread_push_pass)))),
      [])"

definition test_s84_a :: "world \<Rightarrow> (finding \<Rightarrow> pystr) \<Rightarrow> test_case" where
  "test_s84_a w message = (
      lit ''S84 PASS (OpenE2eeVpnService.kt has packetsObserved.incrementAndGet EXACTLY ONCE in startReaderThread '' @
      lit ''read branch - regression guard for OnePlus 9 Pro fake-capture accusation)'',
      Inr (map message (run_s84_check w (Some (text_lines case_s84_packets_observed_increment_invariant_pass)))),
      [])"

definition test_s105_a :: "(finding \<Rightarrow> pystr) \<Rightarrow> test_case" where
  "test_s105_a message = (
      lit ''S105 PASS (NettyChannelClient.kt has `protect(udpSocket)` call AFTER `DatagramSocket` literal in the '' @
      lit ''handleUdpPacket code path - regression guard for the Sprint 12.0A.5 UDP forwarder)'',
      Inr (map message (run_s105_check (Some (text_lines s105_lines_a)))),
      [])"

definition test_s107_a :: "(finding \<Rightarrow> pystr) \<Rightarrow> test_case" where
  "test_s107_a message = (
      lit ''S107 PASS (OpenE2eeVpnService.kt passthrough SKIPPED on user-space-handled TCP/UDP via `handled` flag '' @
      lit ''+ `passthrough SKIPPED` log - regression guard for Owner 11:08 BLOCKED)'',
      Inr (map message (run_s107_check (Some (text_lines s107_lines_a)))),
      [])"

definition test_s121_a :: "(finding \<Rightarrow> pystr) \<Rightarrow> test_case" where
  "test_s121_a message = (
      lit ''S121 PASS (TCP SYN processing debug - handleTcpPacket flags=0x breadcrumb with 5 flag names + '' @
      lit ''buildVpnBuilder allowedApps log + checkPrivateDnsAndBindToVpn BEFORE builder.establish + Sprint '' @
      lit ''12.0F+1 CHANGELOG section + R8/proguard + SHA-256 + Tag 4 filter - regression guard for Sprint '' @
      lit ''12.0F+1, Owner 12.0F logcat kernel SYN bypass)'',
      Inr (map message (run_s121_check (Some (text_lines s121_lines1_a)) (Some (text_lines s121_lines2_a)))),
      [])"

definition test_s122_a :: "(finding \<Rightarrow> pystr) \<Rightarrow> test_case" where
  "test_s122_a message = (
      lit ''S122 PASS (TCP SYN RST workaround + R8 keep rules - writeTcpRstToTun function + 4 unknown-flow branch '' @
      lit ''calls + @Keep annotation + 3 R8 keep rules (Log* + String TAG + @Keep) + Sprint 12.0F+2 CHANGELOG '' @
      lit ''section + 7-step test akisi - regression guard for Sprint 12.0F+2, Owner 16:24 10s timeout)'',
      Inr (map message (run_s122_check (Some (text_lines s122_lines1_a)) (Some (text_lines s122_lines2_a)) (Some (text_lines s122_lines3_a)))),
      [])"

definition test_s123_a :: "(finding \<Rightarrow> pystr) \<Rightarrow> test_case" where
  "test_s123_a message = (
      lit ''S123 PASS (VPN routing / network fix - rebindProcessToNetworkWithRetry function + call site after '' @
      lit ''Builder.establish() + addAllowedApplication comment-out + dumpVpnRoutingState function + '' @
      lit ''vpnRoutingState: ip route in CHANGELOG 8-step test akisi - regression guard for Sprint 12.0F+3, Owner '' @
      lit ''logcat120f.txt 1056 sat'' @ [305] @ lit ''r '' @ [39] @ lit ''durum de'' @ [287] @ lit ''i'' @ [351] @
      lit ''medi'' @ [39] @ lit '')'',
      Inr (map message (run_s123_check (Some (text_lines s123_lines1_a)) (Some (text_lines s123_lines2_a)))),
      [])"

lemma test_s86_a_found:
  "found_at s86_lines_a (lit ''_vpn.packetStream.listen'') 10 17"
  "found_at s86_lines_a (lit ''packetStream.listen'') 10 22"
  "found_at s86_lines_a (lit ''_vpn.stateStream.listen'') 11 16"
  "found_at s86_lines_a (lit ''stateStream.listen'') 11 21"
  by (simp_all add: found_at_def one_line_def NL_in_lit lit_Nil s86_lines_a_def, simp_all add: text_simps)

lemma s86_no_timers: "re_finditer timer_periodic_re (strip_comments_dart (text_lines s86_lines_a)) = []"
  unfolding timer_periodic_re_def by (rule re_not_found(2) [OF strip_plain_lines [OF s86_lines_a_plain] headed_Seq])
    (simp_all add: s86_lines_a_def one_line_def text_simps)

lemma s86_no_calls:
  "concat (map (\<lambda>(pat, label, why). forbid ''S86'' ''forbidden call'' (re_found pat (strip_comments_dart (text_lines s86_lines_a)))) forbidden_call_patterns) = []"
proof -
  have "\<not> list_ex (\<lambda>l. contains l (lit ''setInterval'')) s86_lines_a" "\<not> list_ex (\<lambda>l. contains l (lit ''Future.delayed'')) s86_lines_a"
    by (simp_all add: s86_lines_a_def text_simps)
  then show ?thesis unfolding forbidden_call_patterns_def
    by (simp add: forbid_Nil re_not_found(1) [OF strip_plain_lines [OF s86_lines_a_plain] headed_Seq] one_line_def NL_in_lit lit_Nil
        del: Seq.simps)
qed

lemma test_s86_a_passes: "passes (test_s86_a w message)"
  by (simp add: passes_def test_s86_a_def run_s86_check_def on_text_def Let_def s86_no_timers s86_no_calls
      plain_rules [OF refl s86_lines_a_plain] one_line_def NL_in_lit lit_Nil test_s86_a_found [THEN found_at_lines])

lemma test_s87_a_found:
  "found_at s87_lines_a (lit ''ipFragmentCount'') 3 16"
  "found_at s87_lines_a (lit ''fragmentRatePct'') 15 25"
  "found_at s87_lines_a (lit ''addDnsServer(PRIMARY_DNS'') 20 10"
  by (simp_all add: found_at_def one_line_def NL_in_lit lit_Nil s87_lines_a_def, simp_all add: text_simps)

lemma mtu_part: "lang (mtu_re n) p x q c c' \<Longrightarrow> contains x (lit n)"
  unfolding mtu_re_def by (erule lang_Seq_piece [rotated]) simp

lemma no_old_mtu: "\<not> re_found (mtu_re ''1500'') (strip_comments_dart (text_lines s87_lines_a))"
proof (rule re_not_found_part [OF strip_plain_lines [OF s87_lines_a_plain]])
  show "contains x (lit ''1500'')" if "lang (mtu_re ''1500'') p x q c c'" for p x q c c' using that by (rule mtu_part)
qed (simp_all add: one_line_def s87_lines_a_def text_simps)

lemma mtu_there: "re_found (mtu_re ''1400'') (strip_comments_dart (text_lines s87_lines_a))"
proof (rule re_found_on_line [OF strip_plain_lines [OF s87_lines_a_plain]])
  let ?x = "lit ''TUN_MTU'' @ [32] @ lit ''='' @ [32] @ lit ''1400''"
  show "found_at s87_lines_a ?x 5 18" by (simp add: found_at_def one_line_def s87_lines_a_def, simp add: text_simps)
  show "lang (mtu_re ''1400'') u ?x v [] []" for u v
    unfolding mtu_re_def Seq.simps by (intro lang_CatI; simp add: lang_simps is_space_def)
qed

lemma test_s87_a_passes: "passes (test_s87_a message)"
  by (simp add: passes_def test_s87_a_def run_s87_check_def code_rules plain_rules [OF refl s87_lines_a_plain] test_s87_a_found [THEN found_at_lines] mtu_there no_old_mtu; simp add: s87_lines_a_def line_rules text_simps  del: py_join.simps)

lemma test_s93_a_found:
  "found_at s93_lines_a (lit ''passthroughCount.set(0)'') 6 8"
  "found_at s93_lines_a (lit ''pfd.fileDescriptor.valid'') 12 21"
  "found_at s93_lines_a (lit ''passthroughCount.incrementAndGet'') 16 20"
  "found_at s93_lines_a (lit ''passthroughGap'') 32 13"
  by (simp_all add: found_at_def one_line_def NL_in_lit lit_Nil s93_lines_a_def, simp_all add: text_simps)

lemma passthrough_decl_there: "re_found passthrough_decl_re (text_lines s93_lines_a)"
proof (rule re_found_on_line [OF text_of_lines_I(1)])
  let ?x = "lit ''private'' @ [32] @ lit ''val'' @ [32] @ lit ''passthroughCount'' @ [32] @ lit ''='' @ [32] @ lit ''AtomicLong'' @ [] @ lit ''('' @ [] @ lit ''0'' @ [] @ lit '')''"
  show "found_at s93_lines_a ?x 3 4" by (simp add: found_at_def one_line_def s93_lines_a_def, simp add: text_simps)
  show "lang passthrough_decl_re u ?x v [] []" for u v
    unfolding passthrough_decl_re_def Seq.simps by (intro lang_CatI; simp add: lang_simps is_space_def)
qed

lemma throwable_there: "re_found throwable_catch_re (text_lines s93_lines_a)"
proof (rule re_found_on_line [OF text_of_lines_I(1)])
  let ?x = "lit ''catch'' @ [32] @ lit ''('' @ [] @ lit ''t'' @ [] @ lit '':'' @ [32] @ lit ''Throwable'' @ [] @ lit '')''"
  show "found_at s93_lines_a ?x 21 18" by (simp add: found_at_def one_line_def s93_lines_a_def, simp add: text_simps)
  show "lang throwable_catch_re u ?x v [] []" for u v
    unfolding throwable_catch_re_def Seq.simps by (intro lang_CatI; simp add: lang_simps is_space_def)
qed

lemma test_s93_a_passes: "passes (test_s93_a message)"
  by (simp add: passes_def test_s93_a_def run_s93_check_def code_rules  test_s93_a_found [THEN found_at_lines] passthrough_decl_there throwable_there; simp add: s93_lines_a_def line_rules text_simps  del: py_join.simps)

lemma test_s95_a_passes: "passes (test_s95_a message)"
  by (simp add: passes_def test_s95_a_def run_s95_check_def code_rules plain_rules [OF refl s95_lines_a_plain] plain_sub [OF s95_lines_a_plain]; simp add: s95_lines_a_def line_rules text_simps  del: py_join.simps)

lemma test_s88_a_found:
  "found_at s88_lines1_a (lit ''TimeoutException'') 7 9"
  "found_at s88_lines1_a (lit ''opene2ee/permissions'') 4 40"
  "found_at s88_lines1_a (lit ''disconnectVpn'') 8 39"
  "found_at s88_lines2_a (lit ''stopService'') 12 4"
  "found_at s88_lines2_a (lit ''VpnService.prepare'') 13 4"
  "found_at s88_lines2_a (lit ''OpenE2eeVpnService::class.java'') 11 34"
  by (simp_all add: found_at_def one_line_def NL_in_lit lit_Nil s88_lines1_a_def s88_lines2_a_def, simp_all add: text_simps)

lemma stop_timeout_there: "re_found stop_timeout_re (text_lines s88_lines1_a)"
proof (rule re_found_on_line [OF text_of_lines_I(1)])
  let ?x = "lit ''.stop'' @ [] @ lit ''('' @ [] @ lit '')'' @ [] @ lit ''.'' @ [] @ lit ''timeout'' @ [] @ lit ''(''"
  show "found_at s88_lines1_a ?x 6 16" by (simp add: found_at_def one_line_def s88_lines1_a_def, simp add: text_simps)
  show "lang stop_timeout_re u ?x v [] []" for u v
    unfolding stop_timeout_re_def Seq.simps by (intro lang_CatI; simp add: lang_simps is_space_def)
qed

lemma null_session_absent: "\<not> re_found null_session_re (text_lines s88_lines1_a)"
proof (rule re_not_found(1) [OF text_of_lines_I(1)])
  show "headed null_session_re (lit ''if'')" unfolding null_session_re_def by (rule headed_Seq)
qed (simp_all add: s88_lines1_a_def one_line_def text_simps)

lemma disconnect_fun_there: "re_found disconnect_fun_re (text_lines s88_lines2_a)"
proof (rule re_found_on_line [OF text_of_lines_I(1)])
  let ?x = "lit ''fun'' @ [32] @ lit ''disconnectVpn'' @ [] @ lit ''(''"
  show "found_at s88_lines2_a ?x 10 10" by (simp add: found_at_def one_line_def s88_lines2_a_def, simp add: text_simps)
  show "lang disconnect_fun_re u ?x v [] []" for u v
    unfolding disconnect_fun_re_def Seq.simps by (intro lang_CatI; simp add: lang_simps is_space_def)
qed

lemma disconnect_case_there: "re_found disconnect_case_re (text_lines s88_lines2_a)"
proof (rule re_found_on_line [OF text_of_lines_I(1)])
  let ?x = "dq ''disconnectVpn'' @ [32] @ lit ''->'' @ [32] @ lit ''disconnectVpn'' @ [] @ lit ''(''"
  show "found_at s88_lines2_a ?x 7 6" by (simp add: found_at_def one_line_def s88_lines2_a_def, simp add: dq_def text_simps)
  show "lang disconnect_case_re u ?x v [] []" for u v
    unfolding disconnect_case_re_def Seq.simps by (intro lang_CatI; simp add: lang_simps is_space_def)
qed

lemma test_s88_a_passes: "passes (test_s88_a message)"
  by (simp add: passes_def test_s88_a_def run_s88_check_def code_rules  test_s88_a_found [THEN found_at_lines] stop_timeout_there null_session_absent disconnect_fun_there disconnect_case_there; simp add: s88_lines1_a_def s88_lines2_a_def line_rules text_simps  del: py_join.simps)

lemma test_s89_a_found:
  "found_at s89_lines_a (lit ''_toplamPaket = 0'') 6 6"
  "found_at s89_lines_a (lit ''_vpnState = VpnLifecycleState.idle'') 20 6"
  "found_at s89_lines_a (lit ''_disconnectInProgress = true'') 10 4"
  "found_at s89_lines_a (lit ''_disconnectInProgress = false'') 2 7"
  "found_at s89_lines_a (lit ''_packetSub?.cancel()'') 11 10"
  "found_at s89_lines_a (lit ''_stateSub?.cancel()'') 12 10"
  "found_at s89_lines_a (lit ''context.go('' @ [39] @ lit ''/home/gorevler'' @ [39] @ lit '')'') 23 4"
  by (simp_all add: found_at_def one_line_def NL_in_lit lit_Nil s89_lines_a_def, simp_all add: text_simps)

lemma set_state_there: "re_found set_state_re (text_lines s89_lines_a)"
proof (rule re_found_on_line [OF text_of_lines_I(1)])
  let ?x = "lit ''setState'' @ [] @ lit ''('' @ [] @ lit ''('' @ [] @ lit '')'' @ [32] @ lit ''{''"
  show "found_at s89_lines_a ?x 17 4" by (simp add: found_at_def one_line_def s89_lines_a_def, simp add: text_simps)
  show "lang set_state_re u ?x v [] []" for u v
    unfolding set_state_re_def Seq.simps by (intro lang_CatI; simp add: lang_simps is_space_def)
qed

lemma test_s89_a_passes: "passes (test_s89_a message)"
  by (simp add: passes_def test_s89_a_def run_s89_check_def code_rules  test_s89_a_found [THEN found_at_lines] set_state_there; simp add: s89_lines_a_def line_rules text_simps  del: py_join.simps)

lemma test_s98_a_found:
  "found_at s98_lines_a (lit ''fallbackAttemptCount'') 20 12"
  "found_at s98_lines_a (lit ''attempt 1/2'') 26 42"
  "found_at s98_lines_a (lit ''lateinit var fallbackRunnable'') 22 8"
  by (simp_all add: found_at_def one_line_def NL_in_lit lit_Nil s98_lines_a_def, simp_all add: text_simps)

lemma test_s98_a_passes: "passes (test_s98_a message)"
proof -
  let ?t = "text_lines s98_lines_a" and ?e = "lit ''builder.establish()''" and ?u = "text_lines (take 14 s98_lines_a) @ replicate 8 32"
  have lines: "s98_lines_a = take 14 s98_lines_a @ (replicate 8 32 @ lit ''checkPrivateDnsAndBindToVpn()'') # drop 15 s98_lines_a"
    by (simp add: s98_lines_a_def numeral_eq_Suc) (simp add: text_simps)
  have "?t = ?u @ s98_call @ text_lines (drop 15 s98_lines_a)"
    by (subst lines) (simp add: text_lines_append text_lines_def s98_call_def del: take.simps drop.simps)
  moreover have "found_at s98_lines_a ?e 15 18" by (simp add: found_at_def one_line_def s98_lines_a_def text_simps)
  from found_in_lines [OF this, of "drop 15 s98_lines_a"] have "contains (text_lines (drop 15 s98_lines_a)) ?e"
    by (simp add: s98_lines_a_def Cons_nth_drop_Suc [symmetric])
  ultimately obtain k where "find_sub ?t s98_call = Some k" "find_after ?t ?e k \<noteq> None"
    using contains_after_first [of ?t ?u s98_call _ ?e] by (auto simp: s98_call_def)
  moreover from this obtain i where "find_after ?t ?e k = Some (k + i)" by (auto simp: find_after_def split: if_splits)
  ultimately show ?thesis using test_s98_a_found [THEN found_at_lines]
    by (simp add: passes_def test_s98_a_def run_s98_check_def on_text_def Let_def need_def)
qed

lemma test_s74_a_found:
  "found_at (map cut_line_dart case_s74_vpn_service_pass) (lit ''startForeground('') 29 12"
  "found_at (map cut_line_dart case_s74_vpn_service_pass) (lit ''FOREGROUND_SERVICE_TYPE_SPECIAL_USE'') 32 28"
  "found_at (map cut_line_dart case_s74_vpn_service_pass) (lit ''onStartCommand'') 41 17"
  "found_at (map cut_line_dart case_s74_vpn_service_pass) (lit ''createNotificationChannel'') 21 18"
  "found_at (map cut_line_dart case_s74_vpn_service_pass) (lit ''ensureForegroundService'') 13 16"
  by (simp_all add: found_at_def one_line_def NL_in_lit lit_Nil case_s74_vpn_service_pass_def, simp_all add: text_simps cut_line_dart_def)

lemma s74_lines_split:
  "map cut_line_dart case_s74_vpn_service_pass = take 41 (map cut_line_dart case_s74_vpn_service_pass) @
     ([32, 32, 32, 32] @ onstart_shape [32] [32] [] (lit ''intent: Intent?, flags: Int, startId: Int'') (lit '': Int '')) #
     replicate 8 32 # (replicate 8 32 @ lit ''ensureForegroundService()'') # drop 44 (map cut_line_dart case_s74_vpn_service_pass)"
  by (simp add: case_s74_vpn_service_pass_def cut_line_dart_def numeral_eq_Suc) (simp add: onstart_shape_def text_simps)

lemma s74_body:
  obtains m where "re_search onstart_re (py_join [NL] (map cut_line_dart case_s74_vpn_service_pass)) = Some m"
    "contains (onstart_body (py_join [NL] (map cut_line_dart case_s74_vpn_service_pass)) m) (lit ''ensureForegroundService'')"
proof -
  let ?ls = "map cut_line_dart case_s74_vpn_service_pass" and ?ps = "lit ''intent: Intent?, flags: Int, startId: Int''" and ?ret = "lit '': Int ''"
  define code where "code = py_join [NL] ?ls"
  define before where "before = text_lines (take 41 ?ls) @ [32, 32, 32, 32]"
  obtain r where r: "py_join [NL] ((replicate 8 32 @ lit ''ensureForegroundService()'') # drop 44 ?ls) =
      (replicate 8 32 @ lit ''ensureForegroundService()'') @ r" using py_join_hd by blast
  define run where "run = NL # replicate 8 32 @ NL # replicate 8 32 @ lit ''ensureForegroundService()''"
  have code: "code = before @ onstart_shape [32] [32] [] ?ps ?ret @ run @ r"
    unfolding code_def by (subst s74_lines_split, subst py_join_split)
      (simp_all add: before_def run_def del: py_join.simps, simp only: py_join.simps r append.simps append_assoc)
  have one: "one_line (lit ''override'')" by (simp add: one_line_def NL_in_lit lit_Nil)
  have no: "\<not> list_ex (\<lambda>l. contains l (lit ''override'')) (take 41 ?ls)"
    by (simp add: case_s74_vpn_service_pass_def, simp add: cut_line_dart_def text_simps)
  then have "\<not> contains (before @ butlast (lit ''override'')) (lit ''override'')"
    unfolding before_def append_assoc by (subst contains_after_lines [OF one]) (simp add: text_simps)
  from onstart_found [OF _ _ this, of ?ps ?ret "run @ r"] obtain m where
    m: "re_search onstart_re code = Some m" and d: "drop (m_end m) code = run @ r"
    unfolding code [symmetric] by (auto simp: text_simps)
  have "\<forall>c\<in>set run. c \<noteq> 123 \<and> c \<noteq> 125" by (simp add: run_def text_simps)
  then have "onstart_body code m = 123 # run @ scan_body 1 r"
    using onstart_brace [OF m] d by (simp add: onstart_body_def scan_body_run)
  also have "\<dots> = (123 # NL # replicate 8 32 @ NL # replicate 8 32) @ lit ''ensureForegroundService'' @ lit ''()'' @ scan_body 1 r"
    by (simp add: run_def text_simps)
  finally have "contains (onstart_body code m) (lit ''ensureForegroundService'')" unfolding contains_iff by blast
  with m that show ?thesis unfolding code_def by blast
qed

lemma test_s74_a_passes: "passes (test_s74_a message)"
proof -
  obtain m where "re_search onstart_re (py_join [NL] (map cut_line_dart case_s74_vpn_service_pass)) = Some m"
    "contains (onstart_body (py_join [NL] (map cut_line_dart case_s74_vpn_service_pass)) m) (lit ''ensureForegroundService'')"
    by (rule s74_body)
  then show ?thesis
    by (simp add: passes_def test_s74_a_def run_s74_check_def code_rules strip_code_lines [OF case_s74_vpn_service_pass_no_comment_block]
        test_s74_a_found [THEN found_at_code] del: py_join.simps)
qed

lemma test_s76_a_found:
  "found_at case_s76_vpn_service_dart_pass (lit ''static VpnService get instance'') 12 4"
  "found_at case_s76_vpn_service_dart_pass (lit ''static final VpnService _instance'') 11 4"
  by (simp_all add: found_at_def one_line_def NL_in_lit lit_Nil case_s76_vpn_service_dart_pass_def, simp_all add: text_simps)

lemma internal_ctor_there: "re_found internal_ctor_re (text_lines case_s76_vpn_service_dart_pass)"
proof (rule re_found_on_line [OF text_of_lines_I(1)])
  let ?x = "lit ''VpnService._'' @ [] @ [] @ lit ''(''"
  show "found_at case_s76_vpn_service_dart_pass ?x 7 4" by (simp add: found_at_def one_line_def case_s76_vpn_service_dart_pass_def, simp add: text_simps)
  show "lang internal_ctor_re u ?x v [] []" for u v
    unfolding internal_ctor_re_def Seq.simps by (intro lang_CatI; auto simp: lang_simps is_space_def)
qed

lemma s76_code_lines: "map cut_line_dart case_s76_vpn_service_dart_pass = [lit ''import '' @ [39] @ lit ''dart:async'' @ [39] @ lit '';'', lit ''import '' @ [39] @ lit ''package:flutter/services.dart'' @ [39] @ lit '';'', lit ''class VpnService {'', lit ''    '', lit ''    '', lit ''    '', lit ''    '', lit ''    VpnService._({MethodChannel? channel})'', lit ''        : _channel = channel ?? const MethodChannel('' @ [39] @ lit ''opene2ee/vpn'' @ [39] @ lit '') {'', lit ''        _channel.setMethodCallHandler(_onNativeCall);'', lit ''    }'', lit ''    static final VpnService _instance = VpnService._();'', lit ''    static VpnService get instance => _instance;'', lit ''    '', lit ''    '', lit ''    '', lit ''    '', lit ''    factory VpnService.forTesting({MethodChannel? channel}) =>'', lit ''        VpnService._(channel: channel);'', lit ''    final MethodChannel _channel;'', lit ''}'']"
  by (simp add: case_s76_vpn_service_dart_pass_def cut_line_dart_def text_simps)

lemma default_ctor_absent: "\<not> re_found default_ctor_re (py_join [NL] (map cut_line_dart case_s76_vpn_service_dart_pass))"
proof
  let ?ls = "map cut_line_dart case_s76_vpn_service_dart_pass" and ?t = "py_join [NL] (map cut_line_dart case_s76_vpn_service_dart_pass)"
  assume "re_found default_ctor_re ?t"
  then obtain u x v c where t: "?t = u @ x @ v" and L: "lang default_ctor_re u x v [] c" unfolding re_found_def re_search_not_None by blast
  from L obtain w y where x: "x = lit ''VpnService'' @ w @ 40 # y" and w: "\<forall>z\<in>set w. is_space z"
    unfolding default_ctor_re_def Seq.simps cat_simps lang_Str by (auto simp: lit_def)
  have join: "text_of_lines ?t ?ls" by (rule text_of_lines_I(2)) (simp add: case_s76_vpn_service_dart_pass_def)
  note lines = text_of_lines_all [OF join]
  show False
  proof (cases w rule: rev_cases)
    case Nil
    then have "contains ?t (lit ''VpnService'' @ [40])" unfolding t x contains_iff by (intro exI [of _ u] exI [of _ "y @ v"]) simp
    then show False using text_of_lines_contains [OF join, of "lit ''VpnService'' @ [40]"]
      by (simp add: s76_code_lines one_line_def text_simps)
  next
    case (snoc w' z)
    then have "contains ?t [z, 40]" unfolding t x contains_iff by (intro exI [of _ "u @ lit ''VpnService'' @ w'"] exI [of _ "y @ v"]) simp
    from literal_after_char [OF _ _ lines [OF this]] have "list_ex (\<lambda>l. contains (NL # l) [z, 40]) ?ls" by simp
    moreover have "\<not> list_ex (\<lambda>l. contains (NL # l) [z, 40]) ?ls" if "z \<notin> {95, 103, 108, 114}"
      using that by (simp add: s76_code_lines text_simps)
    moreover have "is_space z" using w snoc by simp
    then have "z \<notin> {95, 103, 108, 114}" by (auto simp: is_space_def)
    ultimately show False by blast
  qed
qed

lemma test_s76_a_passes: "passes (test_s76_a message)"
  by (simp add: passes_def test_s76_a_def run_s76_check_def code_rules strip_code_lines [OF case_s76_vpn_service_dart_pass_no_comment_block] test_s76_a_found [THEN found_at_lines] internal_ctor_there default_ctor_absent; simp add: case_s76_vpn_service_dart_pass_def line_rules text_simps  del: py_join.simps)

lemma test_s79_a_found:
  "found_at case_s79_vpn_service_addroute_pass (lit ''.addAddress(TUN_ADDRESS'') 5 12"
  by (simp_all add: found_at_def one_line_def NL_in_lit lit_Nil case_s79_vpn_service_addroute_pass_def, simp_all add: text_simps)

lemma default_route_there: "re_found default_route_re (strip_comments_dart (text_lines case_s79_vpn_service_addroute_pass))"
proof (rule re_found_on_line [OF strip_plain_lines [OF case_s79_vpn_service_addroute_pass_plain]])
  let ?x = "lit ''.addRoute('' @ [] @ dq ''0.0.0.0'' @ [] @ lit '','' @ [32] @ lit ''0'' @ [] @ lit '')''"
  show "found_at case_s79_vpn_service_addroute_pass ?x 6 12"
    by (simp add: found_at_def one_line_def case_s79_vpn_service_addroute_pass_def, simp add: dq_def text_simps)
  show "lang default_route_re u ?x v [] []" for u v
    unfolding default_route_re_def Seq.simps by (intro lang_CatI; simp add: lang_simps is_space_def)
qed

lemma bad_route_not_there: "\<not> re_found bad_route_re (strip_comments_dart (text_lines case_s79_vpn_service_addroute_pass))"
proof (rule re_not_found_next(1) [OF strip_plain_lines [OF case_s79_vpn_service_addroute_pass_plain]])
  show "\<exists>ch z. x = lit ''.addRoute('' @ ch # z \<and> (is_space ch \<or> ch = 84)" if "lang bad_route_re p x q c c'" for p x q c c'
    using that space_run_next [of _ is_space 84]
    unfolding bad_route_re_def Seq.simps cat_simps lang_Str by (auto simp: lit_def)
qed (auto simp: case_s79_vpn_service_addroute_pass_def one_line_def is_space_def text_simps)

lemma test_s79_a_passes: "passes (test_s79_a message)"
  by (simp add: passes_def test_s79_a_def run_s79_check_def code_rules plain_rules [OF refl case_s79_vpn_service_addroute_pass_plain] test_s79_a_found [THEN found_at_lines] default_route_there bad_route_not_there; simp add: case_s79_vpn_service_addroute_pass_def line_rules text_simps  del: py_join.simps)

lemma test_s80_a_found:
  "found_at (map cut_line_dart case_s80_vpn_service_tun_passthrough_pass) (lit ''output.write(buf'') 12 16"
  "found_at (map cut_line_dart case_s80_vpn_service_tun_passthrough_pass) (lit ''input.read(buf'') 9 24"
  by (simp_all add: found_at_def one_line_def NL_in_lit lit_Nil case_s80_vpn_service_tun_passthrough_pass_def, simp_all add: text_simps cut_line_dart_def)

lemma protect_absent: "\<not> re_found protect_socket_re (py_join [NL] (map cut_line_dart case_s80_vpn_service_tun_passthrough_pass))"
proof (rule re_not_found(1) [OF text_of_lines_I(2)])
  show "headed protect_socket_re (lit ''protect'')" unfolding protect_socket_re_def by (rule headed_Seq)
qed (simp_all add: case_s80_vpn_service_tun_passthrough_pass_def one_line_def cut_line_dart_def text_simps)

lemma test_s80_a_passes: "passes (test_s80_a message)"
  by (simp add: passes_def test_s80_a_def run_s80_check_def code_rules strip_code_lines [OF case_s80_vpn_service_tun_passthrough_pass_no_comment_block] test_s80_a_found [THEN found_at_code] protect_absent; simp add: case_s80_vpn_service_tun_passthrough_pass_def line_rules text_simps  del: py_join.simps)

lemma test_s82_a_found:
  "found_at case_s82_vpn_service_ui_thread_push_pass (lit ''import android.os.Handler'') 1 0"
  "found_at case_s82_vpn_service_ui_thread_push_pass (lit ''import android.os.Looper'') 2 0"
  "found_at case_s82_vpn_service_ui_thread_push_pass (lit ''mainHandler.post'') 11 8"
  by (simp_all add: found_at_def one_line_def NL_in_lit lit_Nil case_s82_vpn_service_ui_thread_push_pass_def, simp_all add: text_simps)

lemma main_looper_there: "re_found main_looper_re (strip_comments_dart (text_lines case_s82_vpn_service_ui_thread_push_pass))"
proof (rule re_found_on_line [OF strip_plain_lines [OF case_s82_vpn_service_ui_thread_push_pass_plain]])
  let ?x = "lit ''Handler'' @ [] @ lit ''('' @ [] @ lit ''Looper.getMainLooper'' @ [] @ lit ''('' @ [] @ lit '')'' @ [] @ lit '')''"
  show "found_at case_s82_vpn_service_ui_thread_push_pass ?x 7 35" by (simp add: found_at_def one_line_def case_s82_vpn_service_ui_thread_push_pass_def, simp add: text_simps)
  show "lang main_looper_re u ?x v [] []" for u v
    unfolding main_looper_re_def Seq.simps by (intro lang_CatI; simp add: lang_simps is_space_def)
qed

lemma invoke_absent: "re_finditer invoke_re (strip_comments_dart (text_lines case_s82_vpn_service_ui_thread_push_pass)) = []"
proof -
  have no: "\<not> list_ex (\<lambda>l. contains l (lit ''methodChannel?.invokeMethod'')) case_s82_vpn_service_ui_thread_push_pass" "\<not> list_ex (\<lambda>l. contains l (lit ''ch.invokeMethod'')) case_s82_vpn_service_ui_thread_push_pass"
    by (simp_all add: case_s82_vpn_service_ui_thread_push_pass_def, simp_all add: text_simps)
  note none = re_not_found(2) [OF strip_plain_lines [OF case_s82_vpn_service_ui_thread_push_pass_plain] headed_Seq, unfolded re_finditer_Nil]
  show ?thesis unfolding re_finditer_Nil invoke_re_def
    by (rule re_search_Alt_None; intro none no) (simp_all add: one_line_def NL_in_lit lit_Nil)
qed

lemma test_s82_a_passes: "passes (test_s82_a message)"
  by (simp add: passes_def test_s82_a_def run_s82_check_def code_rules plain_rules [OF refl case_s82_vpn_service_ui_thread_push_pass_plain] test_s82_a_found [THEN found_at_lines] main_looper_there invoke_absent; simp add: case_s82_vpn_service_ui_thread_push_pass_def line_rules text_simps  del: py_join.simps)

lemma test_s84_a_found:
  "found_at case_s84_packets_observed_increment_invariant_pass (lit ''extractMetadata'') 12 27"
  by (simp_all add: found_at_def one_line_def NL_in_lit lit_Nil case_s84_packets_observed_increment_invariant_pass_def, simp_all add: text_simps)

text \<open>The parts of the text between the functions and the calls.\<close>

definition s84_q1 :: pystr where
  "s84_q1 = lit ''package com.opene2ee.opene2ee.vpn'' @ [NL] @ lit ''import java.util.concurrent.atomic.AtomicInteger'' @
      [NL] @ lit ''class OpenE2eeVpnService {'' @ [NL] @ lit ''    private val packetsObserved = AtomicInteger(0)'' @
      [NL] @ lit ''    ''"

definition s84_a :: pystr where
  "s84_a = lit '') {'' @ [NL] @ lit ''        ''"

definition s84_b :: pystr where
  "s84_b = lit ''(0)'' @ [NL] @ lit ''    }'' @ [NL] @ lit ''    ''"

definition s84_d :: pystr where
  "s84_d = lit '') {'' @ [NL] @ lit ''        try {'' @ [NL] @ lit ''            while (true) {'' @ [NL] @
      lit ''                val n = input.read(buf)'' @ [NL] @ lit ''                if (n <= 0) break'' @ [NL] @
      lit ''                val meta = extractMetadata(packet, n)'' @ [NL] @
      lit ''                if (meta != null) {'' @ [NL] @ lit ''                    synchronized(ringLock) {'' @ [NL] @
      lit ''                        ring.addLast(meta)'' @ [NL] @ lit ''                    }'' @ [NL] @
      lit ''                    ''"

definition s84_e :: pystr where
  "s84_e = lit ''()'' @ [NL] @ lit ''                }'' @ [NL] @ lit ''            }'' @ [NL] @
      lit ''        } catch (t: Throwable) {}'' @ [NL] @ lit ''    }'' @ [NL] @ lit ''}''"

lemmas s84_parts = s84_q1_def s84_a_def s84_b_def s84_d_def s84_e_def

abbreviation s84_code :: pystr where
  "s84_code \<equiv> py_join [NL] case_s84_packets_observed_increment_invariant_pass"

lemma s84_code_is: "s84_code = s84_q1 @ lit ''private fun '' @ lit ''startCapture'' @ 40 # (s84_a @ lit ''packetsObserved'' @ 46 # lit ''set'' @ s84_b) @
    lit ''private fun '' @ lit ''startReaderThread'' @ 40 # (s84_d @ lit ''packetsObserved'' @ 46 # lit ''incrementAndGet'' @ s84_e)"
  by (simp add: case_s84_packets_observed_increment_invariant_pass_def s84_parts text_simps)

lemma s84_headers:
  assumes "fm \<in> set (re_finditer (fun_header_re w) s84_code)"
  shows "m_start fm < m_end fm \<and> m_end fm \<le> 235 \<and> group 1 fm = Some (lit ''startCapture'') \<or>
    235 \<le> m_start fm \<and> group 1 fm = Some (lit ''startReaderThread'')"
proof -
  have names: "lit n \<noteq> []" "\<forall>z\<in>set (lit n). is_word w z \<and> \<not> is_space z" if "n \<in> {''startCapture'', ''startReaderThread''}" for n
    using that by (auto simp: is_word_def is_space_def text_simps)
  have len: "length s84_q1 + 13 + length (lit ''startCapture'') + length (s84_a @ lit ''packetsObserved'' @ 46 # lit ''set'' @ s84_b) = 235"
    by (simp add: s84_parts lit_def)
  show ?thesis
    by (rule two_functions [OF s84_code_is names names _ _ _ assms, unfolded len]) (simp_all add: s84_parts text_simps)
qed

lemma s84_set_stands: "stands_in w s84_code 202 (lit ''startCapture'')"
proof -
  have "s84_code = s84_q1 @ lit ''private fun '' @ lit ''startCapture'' @ 40 # drop 190 s84_code"
    by (subst s84_code_is) (simp add: case_s84_packets_observed_increment_invariant_pass_def s84_parts text_simps)
  from header_at [OF _ _ this, of w] obtain m where m: "m \<in> set (re_finditer (fun_header_re w) s84_code)" "m_start m \<le> length s84_q1"
    by (auto simp: is_word_def text_simps)
  have "length s84_q1 < 202" by (simp add: s84_parts lit_def)
  with m s84_headers show ?thesis by (intro stands_in_from [OF m(1), of 0]) fastforce+
qed

lemma s84_increment_stands: "stands_in w s84_code 604 (lit ''startReaderThread'')"
proof -
  have "s84_code = take 235 s84_code @ lit ''private fun '' @ lit ''startReaderThread'' @ 40 # drop 265 s84_code"
    by (subst s84_code_is) (simp add: case_s84_packets_observed_increment_invariant_pass_def s84_parts text_simps)
  moreover have "length (take 235 s84_code) = 235" by (simp add: case_s84_packets_observed_increment_invariant_pass_def text_simps)
  ultimately obtain m where m: "m \<in> set (re_finditer (fun_header_re w) s84_code)" "m_start m \<le> 235" "235 < m_end m"
    using header_at [of "lit ''startReaderThread''" w s84_code "take 235 s84_code" "drop 265 s84_code"] by (auto simp: is_word_def text_simps)
  then have "m_start m = 235" using s84_headers [OF m(1)] by auto
  with m s84_headers show ?thesis by (intro stands_in_from [OF m(1), of 235]) fastforce+
qed

text \<open>The three calls: the increment, the reset, and no assignment of the counter plus one.\<close>

lemma s84_calls:
  obtains mi ms where "re_finditer increment_re s84_code = [mi]" "m_start mi = 604" "re_finditer counter_set_re s84_code = [ms]" "m_start ms = 202"
proof -
  let ?ob = "lit ''packetsObserved''"
  have ob: "?ob = lit ''packetsObserve'' @ [100]" by (simp add: lit_def)
  have d: "\<not> is_space 100" by (simp add: is_space_def)
  define prei where "prei = take 604 s84_code"
  define posti where "posti = drop 635 s84_code"
  have i: "s84_code = prei @ ?ob @ 46 # lit ''incrementAndGet'' @ posti" "length prei = 604"
    "\<not> contains ((prei @ ?ob @ [46]) @ butlast (lit ''incrementAndGet'')) (lit ''incrementAndGet'')"
    "\<not> contains (tl (lit ''incrementAndGet'') @ posti) (lit ''incrementAndGet'')" "prefix (lit ''()'') posti"
    unfolding prei_def posti_def s84_code_is by (simp_all add: s84_parts text_simps)
  define pres where "pres = take 202 s84_code"
  define posts where "posts = drop 221 s84_code"
  have s: "s84_code = pres @ ?ob @ 46 # lit ''set'' @ posts" "length pres = 202"
    "\<not> contains ((pres @ ?ob @ [46]) @ butlast (lit ''set'')) (lit ''set'')" "\<not> contains (tl (lit ''set'') @ posts) (lit ''set'')"
    "prefix (lit ''('') posts"
    unfolding pres_def posts_def s84_code_is by (simp_all add: s84_parts text_simps)
  from i(5) s(5) obtain posti' posts' where post: "posti = lit ''()'' @ posti'" "posts = lit ''('' @ posts'" by (auto simp: prefix_def)
  obtain mi where "re_finditer increment_re s84_code = [mi]" "m_start mi = length prei"
  proof (rule finditer_single)
    let ?x = "?ob @ [] @ lit ''.'' @ [] @ lit ''incrementAndGet'' @ [] @ lit ''('' @ [] @ lit '')''"
    show "s84_code = prei @ ?x @ posti'" by (simp add: i(1) post lit_def)
    show "lang increment_re prei ?x posti' [] []"
      unfolding increment_re_def Seq.simps by (intro lang_CatI; simp add: lang_simps is_space_def)
    show "u = prei" if t: "s84_code = u @ x @ v" and L: "lang increment_re u x v [] c" for u x v c
    proof -
      from L obtain w1 w2 z where x: "x = ?ob @ w1 @ 46 # w2 @ lit ''incrementAndGet'' @ z" and w: "\<forall>y\<in>set w1. is_space y" "\<forall>y\<in>set w2. is_space y"
        unfolding increment_re_def Seq.simps cat_simps lang_Str by (auto simp: lit_def)
      from t have eq: "prei @ ?ob @ 46 # lit ''incrementAndGet'' @ posti = u @ ?ob @ w1 @ 46 # w2 @ lit ''incrementAndGet'' @ (z @ v)" by (simp add: i(1) x)
      show ?thesis by (rule member_call_unique [OF eq w ob d i(3,4)])
    qed
  qed
  moreover obtain ms where "re_finditer counter_set_re s84_code = [ms]" "m_start ms = length pres"
  proof (rule finditer_single)
    let ?x = "?ob @ [] @ lit ''.'' @ [] @ lit ''set'' @ [] @ lit ''(''"
    show "s84_code = pres @ ?x @ posts'" by (simp add: s(1) post lit_def)
    show "lang counter_set_re pres ?x posts' [] []"
      unfolding counter_set_re_def Seq.simps by (intro lang_CatI; simp add: lang_simps is_space_def)
    show "u = pres" if t: "s84_code = u @ x @ v" and L: "lang counter_set_re u x v [] c" for u x v c
    proof -
      from L obtain w1 w2 z where x: "x = ?ob @ w1 @ 46 # w2 @ lit ''set'' @ z" and w: "\<forall>y\<in>set w1. is_space y" "\<forall>y\<in>set w2. is_space y"
        unfolding counter_set_re_def Seq.simps cat_simps lang_Str by (auto simp: lit_def)
      from t have eq: "pres @ ?ob @ 46 # lit ''set'' @ posts = u @ ?ob @ w1 @ 46 # w2 @ lit ''set'' @ (z @ v)" by (simp add: s(1) x)
      show ?thesis by (rule member_call_unique [OF eq w ob d s(3,4)])
    qed
  qed
  ultimately show ?thesis using that i(2) s(2) by auto
qed

lemma s84_no_bump: "\<not> re_found counter_bump_re s84_code"
proof (rule re_not_found_part)
  show "text_of_lines s84_code case_s84_packets_observed_increment_invariant_pass" by (rule text_of_lines_I(2)) (simp add: case_s84_packets_observed_increment_invariant_pass_def)
  show "contains x (lit ''+'')" if "lang counter_bump_re p x q c c'" for p x q c c'
    using that unfolding counter_bump_re_def by (rule lang_Seq_piece [rotated]) simp
qed (simp_all add: case_s84_packets_observed_increment_invariant_pass_def one_line_def text_simps)

text \<open>The text is one that the check itself accepts too.\<close>

theorem s84_silent_iff_witness:
  "check_vpn_service_packets_observed_increment_invariant_v27
     (mk_world (file_at vpn_kt_path (text_lines case_s84_packets_observed_increment_invariant_pass))) = Inr []"
proof -
  obtain mi ms where m: "re_finditer increment_re s84_code = [mi]" "m_start mi = 604" "re_finditer counter_set_re s84_code = [ms]"
    "m_start ms = 202" by (rule s84_calls)
  have "contains (take 600 (drop 4 s84_code)) (lit ''extractMetadata'')" unfolding s84_code_is by (simp add: s84_parts text_simps)
  then show ?thesis using m s84_no_bump s84_increment_stands s84_set_stands
    by (subst s84_silent_iff [OF has_text_file_at])
      (simp add: plain_code [OF case_s84_packets_observed_increment_invariant_pass_plain] re_found_def del: py_join.simps)
qed

lemma test_s84_a_passes: "passes (test_s84_a w message)"
proof -
  obtain mi ms where m: "re_finditer increment_re s84_code = [mi]" "m_start mi = 604" "re_finditer counter_set_re s84_code = [ms]"
    "m_start ms = 202" by (rule s84_calls)
  have names: "lit ''startReaderThread'' \<noteq> lit ''<unknown>''" "lit ''startCapture'' \<noteq> lit ''<unknown>''" by (simp_all add: text_simps)
  have f: "fun_name (enclosing_fun w s84_code 604) = lit ''startReaderThread''" "fun_name (enclosing_fun w s84_code 202) = lit ''startCapture''"
    using fun_name_stands_in names s84_increment_stands s84_set_stands by blast+
  then have "enclosing_fun w s84_code 604 \<noteq> None" using names fun_name_def [of None]
    by (metis option.case(1))
  moreover have "contains (take 600 (drop 4 s84_code)) (lit ''extractMetadata'')" unfolding s84_code_is by (simp add: s84_parts text_simps)
  ultimately show ?thesis using m f s84_no_bump
    by (simp add: passes_def test_s84_a_def run_s84_check_def s84_replica_increment_def on_text_def Let_def need_def forbid_def
        plain_code [OF case_s84_packets_observed_increment_invariant_pass_plain] del: py_join.simps not_None_eq)
qed

lemma test_s105_a_found:
  "found_at s105_lines_a (lit ''DatagramSocket'') 3 16"
  by (simp_all add: found_at_def one_line_def NL_in_lit lit_Nil s105_lines_a_def, simp_all add: text_simps)

lemma test_s105_a_passes: "passes (test_s105_a message)"
proof -
  let ?code = "strip_comments_dart (text_lines s105_lines_a)"
  have "found_at s105_lines_a (lit ''DatagramSocket'') 3 16" "found_at s105_lines_a (lit ''protect('') 8 32"
    by (simp_all add: found_at_def one_line_def s105_lines_a_def text_simps)
  from after_first_line [OF strip_plain_lines [OF s105_lines_a_plain] this] obtain ds where
    "find_sub ?code (lit ''DatagramSocket'') = Some ds" "find_after ?code (lit ''protect('') ds \<noteq> None" by auto
  then show ?thesis by (simp add: passes_def test_s105_a_def run_s105_check_def on_text_def Let_def need_def)
qed

lemma test_s107_a_found:
  "found_at s107_lines_a (lit ''output.write'') 14 12"
  "found_at s107_lines_a (lit ''passthrough SKIPPED'') 11 53"
  "found_at s107_lines_a (lit ''var handled'') 5 8"
  "found_at s107_lines_a (lit ''if (handled)'') 10 22"
  by (simp_all add: found_at_def one_line_def NL_in_lit lit_Nil s107_lines_a_def, simp_all add: text_simps)

lemma test_s107_a_passes: "passes (test_s107_a message)"
proof -
  let ?code = "strip_comments_dart (text_lines s107_lines_a)"
  have start: "found_at s107_lines_a (lit ''var handled'') 5 8"
    by (simp add: found_at_def one_line_def s107_lines_a_def text_simps)
  have "found_at s107_lines_a (lit ''output.write'') 14 12" "found_at s107_lines_a (lit ''if (handled)'') 10 22"
    "found_at s107_lines_a (lit ''passthrough SKIPPED'') 11 53"
    by (simp_all add: found_at_def one_line_def s107_lines_a_def text_simps)
  note after = this [THEN after_first_line [OF strip_plain_lines [OF s107_lines_a_plain] start]]
  then obtain k where "find_sub ?code (lit ''var handled'') = Some k" and k: "contains (drop k ?code) (lit ''output.write'')"
    "contains (drop k ?code) (lit ''if (handled)'')" "contains (drop k ?code) (lit ''passthrough SKIPPED'')" by auto
  then have "handled_pos ?code = Some k" by (simp add: handled_pos_def)
  moreover from k have "contains ?code n" if "n \<in> {lit ''output.write'', lit ''passthrough SKIPPED''}" for n
    using that contains_drop by blast
  moreover from this have "has ?code ''var handled'' \<or> has ?code ''val handled''" using handled_pos_None [of ?code] calculation(1) by auto
  ultimately show ?thesis using k
    by (simp add: passes_def test_s107_a_def run_s107_check_def on_text_def Let_def need_def)
qed

lemma test_s121_a_found:
  "found_at s121_lines1_a (lit ''buildVpnBuilder: allowedApps='') 7 30"
  "found_at s121_lines2_a (lit ''Sprint 12.0F+1'') 1 18"
  "found_at s121_lines1_a (lit ''flags=0x'') 18 64"
  "found_at s121_lines1_a (lit ''SYN='') 18 103"
  "found_at s121_lines1_a (lit ''ACK='') 18 133"
  "found_at s121_lines1_a (lit ''PSH='') 18 163"
  "found_at s121_lines1_a (lit ''FIN='') 18 193"
  "found_at s121_lines1_a (lit ''RST='') 18 223"
  "found_at s121_lines2_a (lit ''Tag 4 filter'') 12 98"
  "found_at s121_lines2_a (lit ''OpenE2eeVpn:V TcpForwarder:V'') 12 31"
  "found_at s121_lines2_a (lit ''R8'') 13 18"
  "found_at s121_lines2_a (lit ''SHA-256'') 13 8"
  "found_at s121_lines2_a (lit ''TcpForwarder:V'') 12 45"
  "found_at s121_lines2_a (lit ''UdpForwarder:V'') 12 60"
  "found_at s121_lines2_a (lit ''NettyChannelClient:V'') 12 75"
  by (simp_all add: found_at_def one_line_def NL_in_lit lit_Nil s121_lines1_a_def s121_lines2_a_def, simp_all add: text_simps)

lemma s121_calls_in_order: "s121_order (strip_comments_dart (text_lines s121_lines1_a)) = []"
proof -
  have "found_at s121_lines1_a (lit ''checkPrivateDnsAndBindToVpn()'') 12 8" "found_at s121_lines1_a (lit ''builder.establish()'') 13 18"
    by (simp_all add: found_at_def one_line_def NL_in_lit lit_Nil s121_lines1_a_def, simp_all add: text_simps)
  moreover have "\<not> list_ex (\<lambda>l. contains l (lit ''builder.establish()'')) (take 13 s121_lines1_a)"
    by (simp add: s121_lines1_a_def, simp add: text_simps)
  ultimately show ?thesis
    using first_lines_in_order [OF strip_plain_lines [OF s121_lines1_a_plain]] by (fastforce simp: s121_order_def)
qed

lemma test_s121_a_passes: "passes (test_s121_a message)"
  by (simp add: passes_def test_s121_a_def run_s121_check_def code_rules plain_rules [OF refl s121_lines1_a_plain] plain_rules [OF refl s121_lines2_a_plain] test_s121_a_found [THEN found_at_lines] s121_calls_in_order; simp add: s121_lines1_a_def s121_lines2_a_def line_rules text_simps  del: py_join.simps)

lemma test_s122_a_found:
  "found_at s122_lines1_a (lit ''fun writeTcpRstToTun('') 6 16"
  "found_at s122_lines2_a (lit ''*** Log*(...)'') 2 4"
  "found_at s122_lines2_a (lit ''public static final java.lang.String TAG'') 5 4"
  "found_at s122_lines1_a (lit ''import androidx.annotation.Keep'') 2 0"
  "found_at s122_lines3_a (lit ''Sprint 12.0F+2'') 1 18"
  "found_at s122_lines3_a (lit ''7-step'') 2 12"
  "found_at s122_lines3_a (lit ''Tag 4 filter'') 10 95"
  "found_at s122_lines3_a (lit ''OpenE2eeVpn:V TcpForwarder:V'') 10 28"
  by (simp_all add: found_at_def one_line_def NL_in_lit lit_Nil s122_lines1_a_def s122_lines2_a_def s122_lines3_a_def, simp_all add: text_simps)

lemma s122_counts:
  "\<not> py_count (text_lines s122_lines1_a) (lit ''writeTcpRstToTun('') < 2"
  "\<not> py_count (text_lines s122_lines1_a) (lit ''writeTcpRstToTun('') < 4"
  "0 < py_count (text_lines s122_lines1_a) (lit ''@Keep'')"
proof -
  have "list_all (\<lambda>(k, j). found_at s122_lines1_a (lit ''writeTcpRstToTun('') k j) [(6, 20), (11, 16), (13, 16), (18, 16)]"
    and "list_all (\<lambda>(k, j). found_at s122_lines1_a (lit ''@Keep'') k j) [(5, 8)]"
    by (simp_all add: found_at_def one_line_def NL_in_lit lit_Nil s122_lines1_a_def, simp_all add: text_simps)
  from this [THEN count_on_lines [OF text_of_lines_I(1)]]
  show "\<not> py_count (text_lines s122_lines1_a) (lit ''writeTcpRstToTun('') < 2"
    "\<not> py_count (text_lines s122_lines1_a) (lit ''writeTcpRstToTun('') < 4"
    "0 < py_count (text_lines s122_lines1_a) (lit ''@Keep'')" by simp_all
qed

lemma test_s122_a_passes: "passes (test_s122_a message)"
  by (simp add: passes_def test_s122_a_def run_s122_check_def code_rules plain_rules [OF refl s122_lines1_a_plain] plain_rules [OF refl s122_lines2_a_plain] plain_rules [OF refl s122_lines3_a_plain] test_s122_a_found [THEN found_at_lines] s122_counts missing_texts_def; simp add: s122_lines1_a_def s122_lines2_a_def s122_lines3_a_def line_rules text_simps  del: py_join.simps)

lemma test_s123_a_found:
  "found_at (map cut_line_dart s123_lines1_a) (lit ''fun rebindProcessToNetworkWithRetry('') 26 12"
  "found_at (map cut_line_dart s123_lines1_a) (lit ''fun dumpVpnRoutingState('') 33 12"
  "found_at (map cut_line_dart s123_lines1_a) (lit ''vpnRoutingState: ip route'') 38 20"
  by (simp_all add: found_at_def one_line_def NL_in_lit lit_Nil s123_lines1_a_def s123_lines2_a_def, simp_all add: text_simps cut_line_dart_def)

lemma s123_calls: "0 < py_count (py_join [NL] (map cut_line_dart s123_lines1_a)) (lit ''rebindProcessToNetworkWithRetry()'')"
proof -
  have "list_all (\<lambda>(k, j). found_at (map cut_line_dart s123_lines1_a) (lit ''rebindProcessToNetworkWithRetry()'') k j) [(19, 8)]"
    by (simp add: found_at_def one_line_def NL_in_lit lit_Nil s123_lines1_a_def, simp add: cut_line_dart_def text_simps)
  from count_on_lines [OF text_of_lines_I(2) this] show ?thesis by (simp add: s123_lines1_a_def)
qed

lemma allow_commented: "re_found commented_allow_re (text_lines s123_lines1_a)"
proof -
  let ?x = "replicate 8 32 @ lit ''//'' @ [32] @ lit ''builder.addAllowedApplication''"
  have "s123_lines1_a = take 10 s123_lines1_a @ (?x @ lit ''(pkg)  // COMMENTED OUT in 12.0F+3 - DEBUG_MODE'') # drop 11 s123_lines1_a"
    by (simp add: s123_lines1_a_def numeral_eq_Suc) (simp add: text_simps)
  then have "text_lines s123_lines1_a = text_lines (take 10 s123_lines1_a @ (?x @ lit ''(pkg)  // COMMENTED OUT in 12.0F+3 - DEBUG_MODE'') # drop 11 s123_lines1_a)"
    by (rule arg_cong)
  also have "\<dots> = text_lines (take 10 s123_lines1_a) @ ?x @
      lit ''(pkg)  // COMMENTED OUT in 12.0F+3 - DEBUG_MODE'' @ NL # text_lines (drop 11 s123_lines1_a)" (is "_ = ?u @ _ @ ?v")
    by (simp only: text_lines_append text_lines_Cons append_assoc)
  finally have "text_lines s123_lines1_a = ?u @ ?x @ ?v" .
  moreover have "lang commented_allow_re ?u ([] @ ?x) ?v [] []"
    unfolding commented_allow_re_def Seq.simps
    by (intro lang_CatI; simp add: lang_simps is_space_def text_lines_last [simplified])
  ultimately show ?thesis unfolding re_found_def re_search_not_None append_Nil by blast
qed

lemma test_s123_a_passes: "passes (test_s123_a message)"
  by (simp add: passes_def test_s123_a_def run_s123_check_def code_rules strip_code_lines [OF s123_lines1_a_no_comment_block] plain_rules [OF refl s123_lines2_a_plain] test_s123_a_found [THEN found_at_code] s123_calls allow_commented missing_texts_def; simp add: s123_lines1_a_def s123_lines2_a_def line_rules text_simps  del: py_join.simps)

lemmas pattern_cases_pass_each =
  test_s86_a_passes test_s87_a_passes test_s93_a_passes test_s95_a_passes test_s88_a_passes
  test_s89_a_passes test_s98_a_passes test_s74_a_passes test_s76_a_passes test_s79_a_passes
  test_s80_a_passes test_s82_a_passes test_s84_a_passes test_s105_a_passes test_s107_a_passes
  test_s121_a_passes test_s122_a_passes test_s123_a_passes

end
