(* ===== verification/Self_Test_Cases.thy ===== *)
theory Self_Test_Cases
  imports Build_Cases Vpn_Cases Pattern_Cases
begin

text \<open>The table of the main block of \<open>tools/audit-self-test.py\<close>, in the order of the code, and what the
  self-test does on it. The world gives the parsers and the class of word characters that the
  replicas use; \<open>message\<close> writes a finding as text, for the replicas of which the table
  expects no message.\<close>

subsection \<open>The table\<close>

definition self_test_cases :: "world \<Rightarrow> (finding \<Rightarrow> pystr) \<Rightarrow> test_case list" where
  "self_test_cases w message = [
     test_s1_a, test_s1_b, test_s1_c, test_s1_d, test_s1_e,
     test_s1_f, test_s6_a w, test_s6_b w, test_s6_c w, test_s6_d w,
     test_s7_a w, test_s7_b w, test_s7_c w, test_s7_d w, test_s8_a w,
     test_s8_b w, test_s9_a w, test_s9_b w, test_s9_c w, test_s10_a w,
     test_s10_b w, test_s10_c w, test_s11_a w, test_s11_b w, test_s11_c w,
     test_s12_a, test_s12_b, test_s12_c, test_s13_a, test_s13_b,
     test_s13_c, test_s17_a, test_s17_b, test_s18_a w, test_s18_b w,
     test_s19_a, test_s19_b, test_s20_a w, test_s20_b w, test_s25_a,
     test_s25_b, test_s26_a, test_s26_b, test_s27_a, test_s27_b,
     test_s28_a w, test_s28_b w, test_s86_a w message, test_s87_a message, test_s93_a message,
     test_s94_a message, test_s95_a message, test_s88_a message, test_s89_a message, test_s96_a message,
     test_s97_a message, test_s98_a message, test_s99_a message, test_s91_a message, test_s94_b message,
     test_s92_a message, test_s29_a, test_s29_b, test_s33_a, test_s33_b,
     test_s34_a, test_s34_b, test_s35_a, test_s35_b, test_s36_a,
     test_s36_b, test_s37_a, test_s37_b, test_s38_a, test_s38_b,
     test_s39_a, test_s39_b, test_s40_a, test_s40_b, test_s41_a,
     test_s41_b, test_s42_a, test_s42_b, test_s43_a, test_s43_b,
     test_s44_a, test_s45_a, test_s45_b, test_s46_a, test_s46_b,
     test_s47_a, test_s47_b, test_s48_a, test_s48_b, test_s49_a,
     test_s49_b, test_s50_a, test_s50_b, test_s51_a, test_s51_b,
     test_s52_a, test_s52_b, test_s53_a, test_s53_b, test_s54_a,
     test_s54_b, test_s55_a, test_s55_b, test_s56_a, test_s56_b,
     test_s57_a, test_s57_b, test_s59_a, test_s59_b, test_s60_a,
     test_s60_b, test_s61_a, test_s61_b, test_s62_a, test_s62_b,
     test_s63_a, test_s63_b, test_s64_a, test_s64_b, test_s65_a,
     test_s65_b, test_s66_a, test_s66_b, test_s67_a, test_s67_b,
     test_s68_a, test_s68_b, test_s69_a, test_s69_b, test_s70_a,
     test_s70_b, test_s71_a, test_s71_b, test_s72_a, test_s72_b,
     test_s73_a message, test_s74_a message, test_s76_a message, test_s77_a message, test_s78_a message,
     test_s79_a message, test_s80_a message, test_s82_a message, test_s84_a w message, test_s100_a message,
     test_s101_a message, test_s102_a message, test_s103_a message, test_s104_a message, test_s105_a message,
     test_s106_a message, test_s107_a message, test_s108_a message, test_s109_a message, test_s110_a message,
     test_s111_a message, test_s115_a message, test_s116_a message, test_s117_a message, test_s118_a message,
     test_s119_a message, test_s120_a message, test_s121_a message, test_s122_a message, test_s123_a message,
     test_s124_a message, case_s129_pass, case_s129_fail, case_s130_pass, case_s130_fail,
     case_s131_pass, case_s131_fail, case_s132_pass, case_s132_fail, case_s133_pass,
     case_s134_pass, case_s134_fail, case_s135_pass, case_s135_fail, case_s136_pass,
     case_s136_fail, case_s137_pass, case_s137_fail]"

lemmas cases_pass_each =
  build_cases_pass_each literal_cases_pass_each vpn_cases_pass_each pattern_cases_pass_each proxy_cases_pass_each

subsection \<open>The self-test on its own table\<close>

text \<open>C14. On its own table the self-test ends with exit code 0 and names no failed case, whatever the wording of the
  findings of the checks may be: each of the hundred and eighty-eight cases returns the expected messages, each as often as expected.
  The parsers of YAML, JSON and XML are asked to read the eighteen documents among the texts as they are written down in \<open>Build_Cases\<close>.\<close>

theorem self_test_cases_pass:
  assumes "parses_fixtures w"
  shows "self_test_main (self_test_cases w message) = Inr (0, [])"
proof (rule self_test_passes)
  show "list_all passes (self_test_cases w message)"
    unfolding self_test_cases_def by (simp only: assms cases_pass_each list.pred_inject simp_thms)
qed

text \<open>Parsers that know these documents and reject every other text.\<close>

definition among :: "(pystr \<times> 'a res) list \<Rightarrow> exn \<Rightarrow> pystr \<Rightarrow> 'a res" where
  "among docs e t = (case map_of docs t of Some v \<Rightarrow> v | None \<Rightarrow> Inl e)"

definition fixture_world :: world where
  "fixture_world = (mk_world (Dir []))\<lparr>yaml_load := among yaml_texts YAMLError, yaml_load_all := among yaml_streams YAMLError,
     json_load := among json_texts JSONDecodeError, xml_parse := among xml_texts ParseError\<rparr>"

lemma among_docs: "distinct (map (length \<circ> fst) docs) \<Longrightarrow> list_all (\<lambda>(t, v). among docs e t = v) docs"
proof -
  assume "distinct (map (length \<circ> fst) docs)"
  then have "distinct (map fst docs)" by (simp add: distinct_map comp_inj_on_iff flip: map_map)
  then show ?thesis by (auto simp: list_all_iff among_def)
qed

lemma length_text_lines: "length (text_lines ls) = sum_list (map (Suc \<circ> length) ls)"
  by (induction ls) (simp_all add: text_lines_def)

lemma length_joined: "length (py_join [NL] ls) = (if ls = [] then 0 else sum_list (map (Suc \<circ> length) ls) - 1)"
  by (cases "ls = []") (simp_all add: text_lines_join flip: length_text_lines)

lemma length_lit: "length (lit s) = length s"
  by (simp add: lit_def)

lemma fixture_lengths:
  "distinct (map (length \<circ> fst) yaml_texts)" "distinct (map (length \<circ> fst) yaml_streams)"
  "distinct (map (length \<circ> fst) json_texts)" "distinct (map (length \<circ> fst) xml_texts)"
  by (simp_all add: yaml_texts_def yaml_streams_def json_texts_def xml_texts_def length_text_lines length_joined; simp add: case_s7_pubspec_pass_def case_s7_pubspec_no_riverpod_def case_s18_pubspec_lock_pass_def case_s20_pubspec_pass_def
      case_s20_pubspec_no_name_def case_s6_pass_def case_s6_step_missing_def case_s6_wrong_wd_def
      case_s6_wrong_run_def case_s11_fpd_pass_def case_s11_fpd_empty_android_def case_s8_xml_pass_def
      case_s8_xml_bad_def case_s9_manifest_pass_def case_s9_manifest_package_def case_s9_manifest_tools_remove_def
      case_s10_styles_pass_def case_s10_styles_no_launch_def length_lit)+

lemma fixture_world_parses: "parses_fixtures fixture_world"
  by (simp add: parses_fixtures_def fixture_world_def mk_world_def among_docs fixture_lengths)

theorem self_test_cases_pass_witness:
  "self_test_main (self_test_cases fixture_world (\<lambda>f. lit (check f))) = Inr (0, [])"
  by (rule self_test_cases_pass [OF fixture_world_parses])

end
