(* ===== verification/Pin_Scanner.thy ===== *)
theory Pin_Scanner
  imports Py_Regex
begin

section \<open>The tool-pin scanner (tools/lib/scanner.py)\<close>

text \<open>
  The helper of ci-tools-pin-check: it strips comments line by line, carrying three block-comment
  flags across lines, and reports the scanned binaries among the tokens of what is left. A file's
  text is what \<open>read_text(encoding='utf-8', errors='replace')\<close> returns; \<open>main\<close> takes the files as a
  function from path strings.
\<close>

subsection \<open>Stripping one line\<close>

record blocks =
  in_block_c :: bool
  in_block_pwsh :: bool
  in_block_xml :: bool

definition no_block :: blocks where
  "no_block = \<lparr>in_block_c = False, in_block_pwsh = False, in_block_xml = False\<rparr>"

definition outside :: "blocks \<Rightarrow> bool" where
  "outside st \<longleftrightarrow> \<not> in_block_c st \<and> \<not> in_block_pwsh st \<and> \<not> in_block_xml st"

text \<open>\<open>^(\s*)#\<close> and \<open>^(\s*)//\<close>\<close>

definition hash_comment_re :: re where
  "hash_comment_re = Seq [Bol False, Grp 1 (Star True Spc), Str (lit ''#'')]"

definition slash_comment_re :: re where
  "slash_comment_re = Seq [Bol False, Grp 1 (Star True Spc), Str (lit ''//'')]"

text \<open>The group 1 of the first of the two patterns that matches at the start of the line.\<close>

definition line_comment_indent :: "pystr \<Rightarrow> pystr option" where
  "line_comment_indent line =
     (case re_match_at_start hash_comment_re line of
        Some m \<Rightarrow> group 1 m
      | None \<Rightarrow> (case re_match_at_start slash_comment_re line of Some m \<Rightarrow> group 1 m | None \<Rightarrow> None))"

text \<open>The \<open>while i < n\<close> loop, on the rest of the line from \<open>i\<close>; \<open>at_start\<close> is \<open>i == 0\<close>. The result is
  \<open>out\<close> and the three flags.\<close>

function strip_from :: "bool \<Rightarrow> pystr \<Rightarrow> blocks \<Rightarrow> pystr \<times> blocks" where
  "strip_from at_start line st =
     (case line of [] \<Rightarrow> ([], st)
      | c # cs \<Rightarrow>
          if outside st then
            if take 2 line = lit ''/*'' then strip_from False (drop 2 line) (st\<lparr>in_block_c := True\<rparr>)
            else if take 2 line = lit ''<#'' then strip_from False (drop 2 line) (st\<lparr>in_block_pwsh := True\<rparr>)
            else if take 4 line = lit ''<!--'' then strip_from False (drop 4 line) (st\<lparr>in_block_xml := True\<rparr>)
            else (case (if at_start then line_comment_indent line else None) of
                    Some indent \<Rightarrow> (indent, st)
                  | None \<Rightarrow> (case strip_from False cs st of (out, st') \<Rightarrow> (c # out, st')))
          else if in_block_c st then
            if take 2 line = lit ''*/'' then strip_from False (drop 2 line) (st\<lparr>in_block_c := False\<rparr>)
            else strip_from False cs st
          else if in_block_pwsh st then
            if take 2 line = lit ''#>'' then strip_from False (drop 2 line) (st\<lparr>in_block_pwsh := False\<rparr>)
            else strip_from False cs st
          else
            if take 3 line = lit ''-->'' then strip_from False (drop 3 line) (st\<lparr>in_block_xml := False\<rparr>)
            else strip_from False cs st)"
  by pat_completeness auto
termination
  by (relation "measure (\<lambda>(s, line, st). length line)") auto

declare strip_from.simps [simp del]

definition strip_comments_line :: "pystr \<Rightarrow> blocks \<Rightarrow> pystr \<times> blocks" where
  "strip_comments_line line st = strip_from True line st"

text \<open>The loop over \<open>text.split('\n')\<close> of both sub-commands.\<close>

fun strip_lines :: "pystr list \<Rightarrow> blocks \<Rightarrow> pystr list" where
  "strip_lines [] st = []"
| "strip_lines (line # ls) st = (case strip_comments_line line st of (out, st') \<Rightarrow> out # strip_lines ls st')"

definition strip_file :: "pystr \<Rightarrow> pystr \<times> nat" where
  "strip_file text = (let out_lines = strip_lines (split_char NL text) no_block
     in (py_join [NL] out_lines, length out_lines))"

subsection \<open>Tokens\<close>

definition SCANNED_BINARIES :: "pystr list" where
  "SCANNED_BINARIES = map lit [''jq'', ''curl'', ''wget'', ''openssl'', ''base64'', ''sha256sum'',
     ''apt-get'', ''apt'', ''brew'', ''pip'', ''pip3'', ''npm'']"

text \<open>The class of \<open>[\s|&;<>()"\`]+\<close>.\<close>

definition is_split :: "nat \<Rightarrow> bool" where
  [text_simps]: "is_split c \<longleftrightarrow> is_space c \<or> c \<in> {124, 38, 59, 60, 62, 40, 41, 34, 96}"

text \<open>The non-empty elements of \<open>_TOKEN_SPLIT_RE.split(s)\<close>: the maximal runs outside the class.\<close>

function token_split :: "pystr \<Rightarrow> pystr list" where
  "token_split s = (let r = dropWhile is_split s in
     if r = [] then [] else takeWhile (\<lambda>c. \<not> is_split c) r # token_split (dropWhile (\<lambda>c. \<not> is_split c) r))"
  by pat_completeness auto
termination
proof (relation "measure length", goal_cases)
  case (2 s r)
  then obtain a xs where r: "r = a # xs" by (meson neq_Nil_conv)
  have "\<not> is_split a" using hd_dropWhile [of is_split s] 2 r by (metis list.sel(1))
  then have "length (dropWhile (\<lambda>c. \<not> is_split c) r) \<le> length xs"
    using r by (simp add: length_dropWhile_le)
  also have "length xs < length r" using r by simp
  also have "length r \<le> length s" using 2 by (simp add: length_dropWhile_le)
  finally show ?case by simp
qed simp

declare token_split.simps [simp del]

text \<open>\<open>tok.rsplit('/', 1)[-1]\<close>\<close>

definition base_name :: "pystr \<Rightarrow> pystr" where
  [text_simps]: "base_name tok = rev (takeWhile (\<lambda>c. c \<noteq> 47) (rev tok))"

definition match_line :: "nat \<Rightarrow> pystr \<Rightarrow> (nat \<times> pystr) list" where
  "match_line lineno stripped =
     (if py_strip stripped = [] then []
      else map (Pair lineno) (filter (\<lambda>base. base \<in> set SCANNED_BINARIES) (map base_name (token_split stripped))))"

fun match_lines :: "nat \<Rightarrow> pystr list \<Rightarrow> blocks \<Rightarrow> (nat \<times> pystr) list" where
  "match_lines lineno [] st = []"
| "match_lines lineno (line # ls) st =
     (case strip_comments_line line st of (stripped, st') \<Rightarrow> match_line lineno stripped @ match_lines (Suc lineno) ls st')"

definition match_file :: "pystr \<Rightarrow> (nat \<times> pystr) list" where
  "match_file text = match_lines 1 (split_char NL text) no_block"

subsection \<open>The command line\<close>

text \<open>The exit code, the lines written to standard output, and the file written.\<close>

record scan_result =
  exit_code :: nat
  stdout_lines :: "pystr list"
  written :: "(string \<times> pystr) option"

definition exit_with :: "nat \<Rightarrow> scan_result" where
  "exit_with n = \<lparr>exit_code = n, stdout_lines = [], written = None\<rparr>"

definition scanner_main :: "(string \<Rightarrow> pystr option) \<Rightarrow> string list \<Rightarrow> scan_result" where
  "scanner_main files argv =
     (if length argv < 2 then exit_with 2
      else if argv ! 1 = ''strip'' then
        if length argv \<noteq> 4 then exit_with 2
        else (case files (argv ! 2) of
                None \<Rightarrow> exit_with 1
              | Some text \<Rightarrow> (exit_with 0)\<lparr>written := Some (argv ! 3, fst (strip_file text))\<rparr>)
      else if argv ! 1 = ''match'' then
        if length argv \<noteq> 3 then exit_with 2
        else (case files (argv ! 2) of
                None \<Rightarrow> exit_with 1
              | Some text \<Rightarrow> (exit_with 0)\<lparr>stdout_lines :=
                  map (\<lambda>(lineno, binary). show_nat lineno @ lit ''|'' @ binary) (match_file text)\<rparr>)
      else exit_with 2)"

subsection \<open>How a line is stripped\<close>

lemma strip_from_Nil [simp]: "strip_from s [] st = ([], st)"
  by (simp add: strip_from.simps)

lemma take_prefix: "length n = k \<Longrightarrow> take k l = n \<longleftrightarrow> prefix n l"
  by (auto simp: prefix_def) (metis append_take_drop_id)

text \<open>A line that opens no block.\<close>

definition plain :: "pystr \<Rightarrow> bool" where
  "plain line \<longleftrightarrow> \<not> contains line (lit ''/*'') \<and> \<not> contains line (lit ''<#'') \<and> \<not> contains line (lit ''<!--'')"

definition comment_line :: "pystr \<Rightarrow> bool" where
  "comment_line line \<longleftrightarrow> prefix (lit ''#'') (dropWhile is_space line) \<or> prefix (lit ''//'') (dropWhile is_space line)"

lemma plain_Cons: "plain (c # cs) \<Longrightarrow> plain cs \<and> take 2 (c # cs) \<noteq> lit ''/*'' \<and> take 2 (c # cs) \<noteq> lit ''<#'' \<and> take 4 (c # cs) \<noteq> lit ''<!--''"
  unfolding plain_def contains.simps by (auto simp: take_prefix lit_def simp del: take_Suc_Cons)

lemma strip_from_plain_char:
  "outside st \<Longrightarrow> plain (c # cs) \<Longrightarrow> (if s then line_comment_indent (c # cs) else None) = None \<Longrightarrow>
     strip_from s (c # cs) st = (c # fst (strip_from False cs st), snd (strip_from False cs st))"
  using plain_Cons by (subst strip_from.simps) (simp split: prod.split del: take_Suc_Cons)

lemma strip_from_plain: "outside st \<Longrightarrow> plain line \<Longrightarrow> strip_from False line st = (line, st)"
proof (induction line)
  case (Cons c cs)
  with plain_Cons have "strip_from False cs st = (cs, st)" by blast
  with Cons.prems show ?case by (simp add: strip_from_plain_char)
qed simp

lemma comment_re_lang:
  "lang (Seq [Bol False, Grp 1 (Star True Spc), Str s]) [] x v [] c \<longleftrightarrow>
     (\<exists>w. x = w @ s \<and> (\<forall>z\<in>set w. is_space z) \<and> c = [(1, w)])"
  unfolding Seq.simps cat_simps lang_simps by auto

lemma comment_re_at_start:
  assumes "s \<noteq> []" and "\<not> is_space (hd s)"
  shows "(case re_match_at_start (Seq [Bol False, Grp 1 (Star True Spc), Str s]) line of Some m \<Rightarrow> group 1 m | None \<Rightarrow> None) =
    (if prefix s (dropWhile is_space line) then Some (takeWhile is_space line) else None)"
proof (cases "re_match_at_start (Seq [Bol False, Grp 1 (Star True Spc), Str s]) line")
  case None
  then have "line \<noteq> (w @ s) @ v" if "\<forall>z\<in>set w. is_space z" for w v
    using that unfolding re_match_at_start_None comment_re_lang by blast
  then have "\<not> prefix s (dropWhile is_space line)"
    unfolding prefix_def by (metis append_assoc set_takeWhileD takeWhile_dropWhile_id)
  with None show ?thesis by simp
next
  case (Some m)
  from re_match_at_start_Some [OF Some] obtain x v where "line = x @ v"
    "lang (Seq [Bol False, Grp 1 (Star True Spc), Str s]) [] x v [] (m_caps m)" by blast
  then obtain w where w: "line = w @ s @ v" "\<forall>z\<in>set w. is_space z" "m_caps m = [(1, w)]"
    unfolding comment_re_lang by auto
  with assms have "takeWhile is_space line = w" "dropWhile is_space line = s @ v"
    by (cases s; simp)+
  with Some w(3) show ?thesis by (simp add: group_def)
qed

lemma line_comment_indent_iff:
  "line_comment_indent line = (if comment_line line then Some (takeWhile is_space line) else None)"
proof -
  have h: "(case re_match_at_start hash_comment_re line of Some m \<Rightarrow> group 1 m | None \<Rightarrow> None) =
      (if prefix (lit ''#'') (dropWhile is_space line) then Some (takeWhile is_space line) else None)"
    unfolding hash_comment_re_def by (rule comment_re_at_start) (simp_all add: lit_def is_space_def)
  have sl: "(case re_match_at_start slash_comment_re line of Some m \<Rightarrow> group 1 m | None \<Rightarrow> None) =
      (if prefix (lit ''//'') (dropWhile is_space line) then Some (takeWhile is_space line) else None)"
    unfolding slash_comment_re_def by (rule comment_re_at_start) (simp_all add: lit_def is_space_def)
  show ?thesis
  proof (cases "re_match_at_start hash_comment_re line")
    case None
    with h sl show ?thesis by (auto simp: line_comment_indent_def comment_line_def split: if_splits)
  next
    case (Some m)
    from re_match_at_start_Some [OF Some] have "group 1 m \<noteq> None"
      unfolding hash_comment_re_def comment_re_lang by (auto simp: group_def)
    with Some h show ?thesis by (auto simp: line_comment_indent_def comment_line_def split: if_splits)
  qed
qed

lemma strip_line_plain:
  assumes "outside st" and "plain line"
  shows "strip_comments_line line st = (if comment_line line then takeWhile is_space line else line, st)"
proof (cases line)
  case Nil
  then show ?thesis by (simp add: strip_comments_line_def)
next
  case (Cons c cs)
  show ?thesis
  proof (cases "comment_line line")
    case True
    with assms plain_Cons Cons show ?thesis
      by (subst strip_comments_line_def, subst strip_from.simps) (simp add: line_comment_indent_iff del: take_Suc_Cons)
  next
    case False
    with assms plain_Cons [of c cs] Cons show ?thesis
      by (simp add: strip_comments_line_def strip_from_plain_char line_comment_indent_iff strip_from_plain)
  qed
qed

subsection \<open>Tokens, declaratively\<close>

text \<open>\<open>tok\<close> stands in \<open>s\<close> between two characters of the class (or the ends).\<close>

definition delimited :: "pystr \<Rightarrow> pystr \<Rightarrow> bool" where
  "delimited s tok \<longleftrightarrow> tok \<noteq> [] \<and> (\<forall>c\<in>set tok. \<not> is_split c) \<and>
     (\<exists>u v. s = u @ tok @ v \<and> (u = [] \<or> is_split (last u)) \<and> (v = [] \<or> is_split (hd v)))"

lemma delimited_Cons_split: "is_split c \<Longrightarrow> delimited (c # cs) tok \<longleftrightarrow> delimited cs tok"
proof
  assume c: "is_split c" and "delimited (c # cs) tok"
  then obtain u v where t: "tok \<noteq> []" "\<forall>c\<in>set tok. \<not> is_split c" and e: "c # cs = u @ tok @ v"
    and u: "u = [] \<or> is_split (last u)" and v: "v = [] \<or> is_split (hd v)" by (auto simp: delimited_def)
  from c t e have "u \<noteq> []" by (cases tok) auto
  then obtain u' where "u = c # u'" using e by (cases u) auto
  with t e u v show "delimited cs tok" by (auto simp: delimited_def split: if_splits)
next
  assume "is_split c" and "delimited cs tok"
  then obtain u v where "tok \<noteq> []" "\<forall>c\<in>set tok. \<not> is_split c" "cs = u @ tok @ v"
    "u = [] \<or> is_split (last u)" "v = [] \<or> is_split (hd v)" by (auto simp: delimited_def)
  with \<open>is_split c\<close> show "delimited (c # cs) tok"
    unfolding delimited_def by (intro conjI exI [of _ "c # u"] exI [of _ v]) auto
qed

lemma delimited_run:
  assumes "w \<noteq> []" "\<forall>c\<in>set w. \<not> is_split c" and "r = [] \<or> is_split (hd r)"
  shows "delimited (w @ r) tok \<longleftrightarrow> tok = w \<or> delimited r tok"
proof
  assume "delimited (w @ r) tok"
  then obtain u v where t: "tok \<noteq> []" "\<forall>c\<in>set tok. \<not> is_split c" and e: "w @ r = u @ tok @ v"
    and u: "u = [] \<or> is_split (last u)" and v: "v = [] \<or> is_split (hd v)" by (auto simp: delimited_def)
  show "tok = w \<or> delimited r tok"
  proof (cases "length w \<le> length u")
    case True
    then obtain u' where u': "u = w @ u'" using e by (metis append_eq_append_conv_if append_take_drop_id)
    with e have r: "r = u' @ tok @ v" by simp
    show ?thesis
    proof (cases "u' = []")
      case True
      with r t assms(3) show ?thesis by (cases tok) auto
    next
      case False
      with u u' have "is_split (last u')" by simp
      with t v r show ?thesis unfolding delimited_def by blast
    qed
  next
    case False
    then obtain w' where w': "w = u @ w'" "w' \<noteq> []" using e
      by (metis append_eq_append_conv_if append_take_drop_id append.right_neutral order_refl linear)
    have "u = []"
    proof (rule ccontr)
      assume "u \<noteq> []"
      with u have "is_split (last u)" "last u \<in> set w" using w' by auto
      with assms(2) show False by blast
    qed
    with e w' have eq: "w @ r = tok @ v" by simp
    have "takeWhile (\<lambda>c. \<not> is_split c) (w @ r) = w" using assms by (cases r) (auto simp: takeWhile_append2)
    moreover have "takeWhile (\<lambda>c. \<not> is_split c) (tok @ v) = tok" using t v by (cases v) (auto simp: takeWhile_append2)
    ultimately show ?thesis using eq by simp
  qed
next
  assume "tok = w \<or> delimited r tok"
  then show "delimited (w @ r) tok"
  proof
    assume "tok = w"
    with assms show ?thesis unfolding delimited_def by (intro conjI exI [of _ "[]"] exI [of _ r]) auto
  next
    assume "delimited r tok"
    then obtain u v where t: "tok \<noteq> []" "\<forall>c\<in>set tok. \<not> is_split c" and e: "r = u @ tok @ v"
      and u: "u = [] \<or> is_split (last u)" and v: "v = [] \<or> is_split (hd v)" by (auto simp: delimited_def)
    have "u \<noteq> []" using e t assms(3) by (cases tok; cases u) auto
    with t e u v show ?thesis unfolding delimited_def by (intro conjI exI [of _ "w @ u"] exI [of _ v]) auto
  qed
qed

lemma delimited_dropWhile: "delimited (dropWhile is_split s) tok \<longleftrightarrow> delimited s tok"
  by (induction s) (auto simp: delimited_Cons_split)

lemma token_split_iff: "tok \<in> set (token_split s) \<longleftrightarrow> delimited s tok"
proof (induction s rule: token_split.induct)
  case (1 s)
  let ?r = "dropWhile is_split s" and ?P = "\<lambda>c. \<not> is_split c"
  show ?case
  proof (cases "?r = []")
    case True
    have "\<not> delimited [] tok" by (auto simp: delimited_def)
    then have "\<not> delimited s tok" using delimited_dropWhile [of s tok] unfolding True by simp
    with True show ?thesis by (subst token_split.simps) simp
  next
    case False
    then have w: "takeWhile ?P ?r \<noteq> []" using hd_dropWhile [of is_split s] by (cases ?r) auto
    have "dropWhile ?P ?r = [] \<or> is_split (hd (dropWhile ?P ?r))" using hd_dropWhile by blast
    from delimited_run [OF w _ this, of tok] have
      "delimited ?r tok \<longleftrightarrow> tok = takeWhile ?P ?r \<or> delimited (dropWhile ?P ?r) tok"
      by (metis set_takeWhileD takeWhile_dropWhile_id)
    with 1 [OF refl False] False delimited_dropWhile [of s tok] show ?thesis
      by (subst token_split.simps) (auto simp: Let_def)
  qed
qed

subsection \<open>Properties\<close>

text \<open>\<open>line\<close> uses the binary \<open>b\<close>: \<open>b\<close>, with or without a path before it, stands between delimiters.\<close>

definition uses_binary :: "pystr \<Rightarrow> pystr \<Rightarrow> bool" where
  "uses_binary line b \<longleftrightarrow> (\<exists>dir. delimited line (dir @ b) \<and> (dir = [] \<or> last dir = 47))"

lemma scanned_no_slash: "b \<in> set SCANNED_BINARIES \<Longrightarrow> b \<noteq> [] \<and> 47 \<notin> set b"
  by (auto simp: SCANNED_BINARIES_def lit_def)

lemma base_name_iff:
  assumes "b \<noteq> []" and "47 \<notin> set b"
  shows "base_name tok = b \<longleftrightarrow> (\<exists>dir. tok = dir @ b \<and> (dir = [] \<or> last dir = 47))"
proof
  assume "base_name tok = b"
  moreover have "rev tok = takeWhile (\<lambda>c. c \<noteq> 47) (rev tok) @ dropWhile (\<lambda>c. c \<noteq> 47) (rev tok)" by simp
  ultimately have "tok = rev (dropWhile (\<lambda>c. c \<noteq> 47) (rev tok)) @ b"
    by (metis base_name_def rev_append rev_rev_ident)
  moreover have "last (rev (dropWhile (\<lambda>c. c \<noteq> 47) (rev tok))) = 47" if "dropWhile (\<lambda>c. c \<noteq> 47) (rev tok) \<noteq> []"
    using hd_dropWhile [OF that] that by (simp add: last_rev)
  ultimately show "\<exists>dir. tok = dir @ b \<and> (dir = [] \<or> last dir = 47)"
    by (metis rev_is_Nil_conv)
next
  assume "\<exists>dir. tok = dir @ b \<and> (dir = [] \<or> last dir = 47)"
  then obtain dir where "tok = dir @ b" "dir = [] \<or> last dir = 47" by blast
  moreover have tw: "takeWhile (\<lambda>c. c \<noteq> 47) (rev b @ r) = rev b @ takeWhile (\<lambda>c. c \<noteq> 47) r" for r
    using assms(2) by (auto intro: takeWhile_append2)
  ultimately show "base_name tok = b"
    using tw [of "[]"]
    by (cases dir rule: rev_cases) (simp_all only: base_name_def append_Nil append_Nil2 takeWhile.simps rev_rev_ident, simp add: tw)
qed

lemma py_strip_Nil: "py_strip s = [] \<longleftrightarrow> (\<forall>c\<in>set s. is_space c)"
proof -
  have "(\<forall>c\<in>set (dropWhile is_space s). is_space c) \<longleftrightarrow> (\<forall>c\<in>set s. is_space c)"
    by (induction s) auto
  then show ?thesis by (simp add: py_strip_def)
qed

lemma match_line_iff:
  "(n, b) \<in> set (match_line m stripped) \<longleftrightarrow> n = m \<and> b \<in> set SCANNED_BINARIES \<and> uses_binary stripped b"
proof -
  have blank: "\<not> delimited stripped tok" if "py_strip stripped = []" for tok
  proof
    assume "delimited stripped tok"
    then have "tok \<noteq> []" "\<forall>c\<in>set tok. \<not> is_split c" "set tok \<subseteq> set stripped"
      by (auto simp: delimited_def)
    then obtain c where "\<not> is_split c" "c \<in> set stripped" by (cases tok) auto
    with that show False by (auto simp: py_strip_Nil is_split_def)
  qed
  have "(n, b) \<in> set (match_line m stripped) \<longleftrightarrow>
      py_strip stripped \<noteq> [] \<and> n = m \<and> b \<in> set SCANNED_BINARIES \<and> (\<exists>tok. delimited stripped tok \<and> base_name tok = b)"
    by (auto simp: match_line_def token_split_iff)
  also have "\<dots> \<longleftrightarrow> n = m \<and> b \<in> set SCANNED_BINARIES \<and> (\<exists>tok. delimited stripped tok \<and> base_name tok = b)"
    using blank by blast
  also have "\<dots> \<longleftrightarrow> n = m \<and> b \<in> set SCANNED_BINARIES \<and> uses_binary stripped b"
    by (cases "b \<in> set SCANNED_BINARIES") (simp_all add: uses_binary_def scanned_no_slash base_name_iff, blast)
  finally show ?thesis .
qed

lemma match_line_indent: "match_line n (takeWhile is_space line) = []"
  using set_takeWhileD by (fastforce simp: match_line_def py_strip_Nil)

lemma match_lines_plain:
  assumes "outside st" and "\<forall>l\<in>set ls. plain l"
  shows "(n, b) \<in> set (match_lines k ls st) \<longleftrightarrow>
    (\<exists>i<length ls. n = k + i \<and> b \<in> set SCANNED_BINARIES \<and> \<not> comment_line (ls ! i) \<and> uses_binary (ls ! i) b)"
  using assms
proof (induction ls arbitrary: k)
  case (Cons l ls)
  have "(n, b) \<in> set (match_lines k (l # ls) st) \<longleftrightarrow>
      n = k \<and> b \<in> set SCANNED_BINARIES \<and> \<not> comment_line l \<and> uses_binary l b \<or> (n, b) \<in> set (match_lines (Suc k) ls st)"
    using Cons.prems match_line_indent [of k l] by (cases "comment_line l") (simp_all add: strip_line_plain match_line_iff)
  also have "\<dots> \<longleftrightarrow> (\<exists>i<length (l # ls). n = k + i \<and> b \<in> set SCANNED_BINARIES \<and>
      \<not> comment_line ((l # ls) ! i) \<and> uses_binary ((l # ls) ! i) b)"
    using Cons.IH [of "Suc k"] Cons.prems by (simp add: Ex_less_Suc2)
  finally show ?case .
qed simp

lemma outside_no_block [simp]: "outside no_block"
  by (simp add: outside_def no_block_def)

text \<open>On a file none of whose lines opens a block comment, the scanner reports binary \<open>b\<close> at line \<open>n\<close>
  exactly when \<open>b\<close> is one of the scanned binaries and line \<open>n\<close> (counted from 1) is no comment line and
  holds \<open>b\<close>, with or without a path, between delimiters: no false negatives and no false positives there.\<close>

lemma match_file_reports_iff:
  assumes "lines \<noteq> []" and "\<forall>l\<in>set lines. NL \<notin> set l \<and> plain l"
  shows "(n, b) \<in> set (match_file (py_join [NL] lines)) \<longleftrightarrow>
    (\<exists>i<length lines. n = Suc i \<and> b \<in> set SCANNED_BINARIES \<and> \<not> comment_line (lines ! i) \<and> uses_binary (lines ! i) b)"
proof -
  have "split_char NL (py_join [NL] lines) = lines" by (rule split_char_join) (use assms in auto)
  with assms(2) show ?thesis by (simp add: match_file_def match_lines_plain)
qed

lemma curl_behind_path_found:
  "(2, lit ''curl'') \<in> set (match_file (py_join [NL] [lit ''# wget'', lit ''x=$(/usr/bin/curl -s url)'']))"
proof -
  have plain: "\<forall>l\<in>set [lit ''# wget'', lit ''x=$(/usr/bin/curl -s url)'']. NL \<notin> set l \<and> plain l"
    by (simp add: plain_def text_simps)
  have del: "delimited (lit ''x=$(/usr/bin/curl -s url)'') (lit ''/usr/bin/'' @ lit ''curl'')"
    unfolding delimited_def
    by (intro conjI exI [of _ "lit ''x=$(''"] exI [of _ "lit '' -s url)''"]) (simp_all add: text_simps)
  then have "uses_binary (lit ''x=$(/usr/bin/curl -s url)'') (lit ''curl'')"
    unfolding uses_binary_def by (intro exI [of _ "lit ''/usr/bin/''"]) (simp add: lit_def)
  then show ?thesis
    unfolding match_file_reports_iff [OF list.distinct(2) plain]
    by (intro exI [of _ 1]) (simp add: SCANNED_BINARIES_def comment_line_def text_simps)
qed

text \<open>Single quotes are not delimiters: a scanned binary directly behind a quote, as in
  \<open>sh -c 'curl ...'\<close>, is never reported, although a quoted string is to be treated as code. Behind a double
  quote it is.\<close>

theorem single_quoted_binary_missed:
  "list_all (\<lambda>b. match_file (lit ''sh -c '' @ [39] @ b @ lit '' url'' @ [39]) = [] \<and>
     match_file (lit ''sh -c '' @ [34] @ b @ lit '' url'' @ [34]) = [(1, b)]) SCANNED_BINARIES"
proof -
  have "match_file line = match_line 1 line" if "plain line" "\<not> comment_line line" "NL \<notin> set line" for line
    using that by (simp add: match_file_def split_char_no_c strip_line_plain)
  then show ?thesis
    by (simp add: SCANNED_BINARIES_def plain_def comment_line_def match_line_def py_strip_def text_simps token_split.simps)
qed

text \<open>The exit codes of the command line: 2 for wrong usage, 1 for a missing input, 0 otherwise, and only
  then anything is written or printed; \<open>match\<close> prints one line per use found.\<close>

theorem scanner_main_exit_code:
  "exit_code (scanner_main files argv) =
     (if argv = [] \<or> tl argv = [] then 2
      else if argv ! 1 = ''strip'' \<and> length argv = 4 \<or> argv ! 1 = ''match'' \<and> length argv = 3
      then (if files (argv ! 2) = None then 1 else 0) else 2) \<and>
   (exit_code (scanner_main files argv) = 0 \<or>
      stdout_lines (scanner_main files argv) = [] \<and> written (scanner_main files argv) = None) \<and>
   length (stdout_lines (scanner_main files [prog, ''match'', f])) =
     (case files f of None \<Rightarrow> 0 | Some text \<Rightarrow> length (match_file text))"
proof -
  have "length argv < 2 \<longleftrightarrow> argv = [] \<or> tl argv = []" by (cases argv; cases "tl argv") auto
  then show ?thesis
    by (auto simp: scanner_main_def exit_with_def split: option.splits)
qed

end
