(* ===== verification/Index_Loops.thy ===== *)
theory Index_Loops
  imports Strip_Comments Flutter_Checks Vpn_Checks Pin_Scanner Dex_Tokens "HOL-Library.While_Combinator"
begin

section \<open>The index loops, as loops\<close>

text \<open>
  The programs walk through a text with an index: \<open>while i < len(text)\<close>. The components model these loops as
  recursions on the rest of the text. Here each of them stands as it is written, with its index, its flags and its \<open>break\<close>, as
  a \<open>while_option\<close>, whose value is \<open>None\<close> when the loop does not end; and each is proved to end on every
  input with the result of the recursion. What such a loop needs is the locale \<open>index_loop\<close>: a body that advances the index or stops
  the loop, and that keeps what the state means.
\<close>

locale index_loop =
  fixes running :: "'s \<Rightarrow> bool" and body :: "'s \<Rightarrow> 's" and index :: "'s \<Rightarrow> nat" and bound :: nat
    and inv :: "'s \<Rightarrow> bool" and meaning :: "'s \<Rightarrow> 'r"
  assumes in_range: "inv s \<Longrightarrow> running s \<Longrightarrow> index s < bound"
    and advances: "inv s \<Longrightarrow> running s \<Longrightarrow> running (body s) \<Longrightarrow> index s < index (body s)"
    and keeps_inv: "inv s \<Longrightarrow> running s \<Longrightarrow> inv (body s)"
    and keeps_meaning: "inv s \<Longrightarrow> running s \<Longrightarrow> meaning (body s) = meaning s"
begin

lemma ends: "inv s \<Longrightarrow> \<exists>t. while_option running body s = Some t"
proof (rule measure_while_option_Some [where P = inv and f = "\<lambda>s. if running s then Suc (bound - index s) else 0"])
  fix s assume s: "inv s" "running s"
  have "bound - index (body s) < bound - index s" if "running (body s)"
    using in_range [OF s] advances [OF s that] by simp
  with keeps_inv [OF s] s(2)
  show "inv (body s) \<and> (if running (body s) then Suc (bound - index (body s)) else 0)
      < (if running s then Suc (bound - index s) else 0)" by simp
qed

lemma computes:
  assumes "inv s"
  obtains t where "while_option running body s = Some t" "inv t" "\<not> running t" "meaning t = meaning s"
proof -
  obtain t where t: "while_option running body s = Some t" using ends [OF assms] by blast
  have "inv t \<and> meaning t = meaning s"
    by (rule while_option_rule [OF _ t, where P = "\<lambda>t. inv t \<and> meaning t = meaning s"])
      (use assms in \<open>auto simp: keeps_inv keeps_meaning\<close>)
  with t while_option_stop [OF t] that show ?thesis by blast
qed

end

lemma drop_at: "i < length t \<Longrightarrow> drop i t = t ! i # drop (Suc i) t"
  by (rule Cons_nth_drop_Suc [symmetric])

subsection \<open>The end of the code of a line\<close>

text \<open>The loop of \<open>strip_comments\<close>; \<open>break\<close> is at the only assignment to \<open>cut_at\<close>.\<close>

record cut_state =
  in_string :: bool
  escape :: bool
  cut_i :: nat
  cut_at :: "nat option"

definition cut_running :: "pystr \<Rightarrow> cut_state \<Rightarrow> bool" where
  "cut_running l s \<longleftrightarrow> cut_at s = None \<and> cut_i s < length l"

definition cut_body :: "pystr \<Rightarrow> cut_state \<Rightarrow> cut_state" where
  "cut_body l s =
     (let i = cut_i s; c = l ! i in
      if escape s then s\<lparr>escape := False, cut_i := i + 1\<rparr>
      else if c = 92 then s\<lparr>escape := True, cut_i := i + 1\<rparr>
      else if c = 34 then s\<lparr>in_string := \<not> in_string s, cut_i := i + 1\<rparr>
      else if c = 47 \<and> i + 1 < length l \<and> l ! (i + 1) = 47 \<and> \<not> in_string s then s\<lparr>cut_at := Some i\<rparr>
      else s\<lparr>cut_i := i + 1\<rparr>)"

definition cut_loop :: "pystr \<Rightarrow> nat option option" where
  "cut_loop l = map_option cut_at
     (while_option (cut_running l) (cut_body l) \<lparr>in_string = False, escape = False, cut_i = 0, cut_at = None\<rparr>)"

definition cut_meaning :: "pystr \<Rightarrow> cut_state \<Rightarrow> nat option" where
  "cut_meaning l s = (case cut_at s of Some k \<Rightarrow> Some k
     | None \<Rightarrow> cut_scan (in_string s) (escape s) (cut_i s) (drop (cut_i s) l))"

interpretation cut: index_loop "cut_running l" "cut_body l" cut_i "length l" "\<lambda>_. True" "cut_meaning l" for l
proof unfold_locales
  fix s assume "cut_running l s"
  then show "cut_meaning l (cut_body l s) = cut_meaning l s" using drop_at [of "cut_i s" l]
    by (auto simp: cut_running_def cut_body_def cut_meaning_def Let_def hd_drop_conv_nth)
qed (auto simp: cut_running_def cut_body_def Let_def split: if_splits)

lemma cut_loop_is: "cut_loop l = Some (cut_scan False False 0 l)"
proof -
  let ?s = "\<lparr>in_string = False, escape = False, cut_i = 0, cut_at = None\<rparr>"
  obtain t where "while_option (cut_running l) (cut_body l) ?s = Some t" "\<not> cut_running l t" "cut_meaning l t = cut_meaning l ?s"
    by (rule cut.computes [OF TrueI])
  then show ?thesis by (auto simp: cut_loop_def cut_running_def cut_meaning_def split: option.splits)
qed

text \<open>The loop of the checks of the Dart and Kotlin sources, which knows no escapes.\<close>

definition dart_body :: "pystr \<Rightarrow> cut_state \<Rightarrow> cut_state" where
  "dart_body l s =
     (let i = cut_i s; c = l ! i in
      if c = 34 then s\<lparr>in_string := \<not> in_string s, cut_i := i + 1\<rparr>
      else if c = 47 \<and> i + 1 < length l \<and> l ! (i + 1) = 47 \<and> \<not> in_string s then s\<lparr>cut_at := Some i\<rparr>
      else s\<lparr>cut_i := i + 1\<rparr>)"

definition dart_loop :: "pystr \<Rightarrow> nat option option" where
  "dart_loop l = map_option cut_at
     (while_option (cut_running l) (dart_body l) \<lparr>in_string = False, escape = False, cut_i = 0, cut_at = None\<rparr>)"

definition dart_meaning :: "pystr \<Rightarrow> cut_state \<Rightarrow> nat option" where
  "dart_meaning l s = (case cut_at s of Some k \<Rightarrow> Some k
     | None \<Rightarrow> cut_scan_dart (in_string s) (cut_i s) (drop (cut_i s) l))"

interpretation dart: index_loop "cut_running l" "dart_body l" cut_i "length l" "\<lambda>_. True" "dart_meaning l" for l
proof unfold_locales
  fix s assume "cut_running l s"
  then show "dart_meaning l (dart_body l s) = dart_meaning l s" using drop_at [of "cut_i s" l]
    by (auto simp: cut_running_def dart_body_def dart_meaning_def Let_def hd_drop_conv_nth)
qed (auto simp: cut_running_def dart_body_def Let_def split: if_splits)

lemma dart_loop_is: "dart_loop l = Some (cut_scan_dart False 0 l)"
proof -
  let ?s = "\<lparr>in_string = False, escape = False, cut_i = 0, cut_at = None\<rparr>"
  obtain t where "while_option (cut_running l) (dart_body l) ?s = Some t" "\<not> cut_running l t" "dart_meaning l t = dart_meaning l ?s"
    by (rule dart.computes [OF TrueI])
  then show ?thesis by (auto simp: dart_loop_def cut_running_def dart_meaning_def split: option.splits)
qed

subsection \<open>The brace counters\<close>

text \<open>S12 and S13: from behind the opening brace, until the depth is 0.\<close>

record brace_state =
  depth :: int
  brace_i :: nat

definition brace_running :: "pystr \<Rightarrow> brace_state \<Rightarrow> bool" where
  "brace_running t s \<longleftrightarrow> brace_i s < length t \<and> depth s > 0"

definition brace_body :: "pystr \<Rightarrow> brace_state \<Rightarrow> brace_state" where
  "brace_body t s =
     (let c = t ! brace_i s;
          s = (if c = 123 then s\<lparr>depth := depth s + 1\<rparr> else if c = 125 then s\<lparr>depth := depth s - 1\<rparr> else s)
      in s\<lparr>brace_i := brace_i s + 1\<rparr>)"

text \<open>What the code does with the final state: the depth of an unbalanced block, or \<open>text[block_start:i - 1]\<close>.\<close>

definition block_loop :: "pystr \<Rightarrow> nat \<Rightarrow> (int + pystr) option" where
  "block_loop t block_start = map_option
     (\<lambda>s. if depth s \<noteq> 0 then Inl (depth s) else Inr (drop block_start (take (brace_i s - 1) t)))
     (while_option (brace_running t) (brace_body t) \<lparr>depth = 1, brace_i = block_start\<rparr>)"

definition brace_meaning :: "pystr \<Rightarrow> brace_state \<Rightarrow> nat \<times> nat" where
  "brace_meaning t s = scan_braces (nat (depth s)) (brace_i s) (drop (brace_i s) t)"

interpretation brace: index_loop "brace_running t" "brace_body t" brace_i "length t" "\<lambda>s. 0 \<le> depth s" "brace_meaning t" for t
proof unfold_locales
  fix s assume s: "0 \<le> depth s" "brace_running t s"
  then have "nat (depth s + 1) = Suc (nat (depth s))" "nat (depth s - 1) = nat (depth s) - 1" "0 < nat (depth s)"
    by (auto simp: brace_running_def)
  with s show "brace_meaning t (brace_body t s) = brace_meaning t s" using drop_at [of "brace_i s" t]
    by (auto simp: brace_running_def brace_body_def brace_meaning_def Let_def)
qed (auto simp: brace_running_def brace_body_def Let_def split: if_splits)

lemma scan_braces_from: "scan_braces d (k + n) t = (case scan_braces d n t of (d', n') \<Rightarrow> (d', k + n'))"
  by (induction t arbitrary: d n) (simp_all flip: add_Suc_right)

lemma block_loop_is:
  "block_loop t block_start = Some (case block_from t block_start of Inl d \<Rightarrow> Inl (int d) | Inr b \<Rightarrow> Inr b)"
proof -
  let ?s = "\<lparr>depth = 1, brace_i = block_start\<rparr>"
  obtain s where s: "while_option (brace_running t) (brace_body t) ?s = Some s" "0 \<le> depth s" "\<not> brace_running t s"
    "brace_meaning t s = brace_meaning t ?s"
    by (rule brace.computes [of ?s]) auto
  have "scan_braces (nat (depth s)) (brace_i s) (drop (brace_i s) t) = (nat (depth s), brace_i s)"
    using s(2,3) by (cases "drop (brace_i s) t") (auto simp: brace_running_def)
  then have "(nat (depth s), brace_i s) = scan_braces 1 (block_start + 0) (drop block_start t)"
    using s(4) by (simp add: brace_meaning_def)
  then have "scan_braces 1 0 (drop block_start t) = (nat (depth s), brace_i s - block_start)" "block_start \<le> brace_i s"
    unfolding scan_braces_from by (auto split: prod.splits)
  with s(1,2) show ?thesis
    by (simp add: block_loop_def block_from_def Let_def drop_take)
qed

text \<open>S74: from the opening brace on, until the depth is 0 again; \<open>break\<close> leaves the index at the closing brace.\<close>

record body_state = brace_state +
  reached_end :: bool

definition onstart_running :: "pystr \<Rightarrow> body_state \<Rightarrow> bool" where
  "onstart_running code s \<longleftrightarrow> brace_i s < length code \<and> \<not> reached_end s"

definition onstart_step :: "pystr \<Rightarrow> body_state \<Rightarrow> body_state" where
  "onstart_step code s =
     (let c = code ! brace_i s in
      if c = 123 then s\<lparr>depth := depth s + 1, brace_i := brace_i s + 1\<rparr>
      else if c = 125 then
        (let s = s\<lparr>depth := depth s - 1\<rparr> in if depth s = 0 then s\<lparr>reached_end := True\<rparr> else s\<lparr>brace_i := brace_i s + 1\<rparr>)
      else s\<lparr>brace_i := brace_i s + 1\<rparr>)"

definition onstart_loop :: "pystr \<Rightarrow> nat \<Rightarrow> pystr option" where
  "onstart_loop code body_start = map_option (\<lambda>s. drop body_start (take (brace_i s + 1) code))
     (while_option (onstart_running code) (onstart_step code) \<lparr>depth = 0, brace_i = body_start, reached_end = False\<rparr>)"

definition onstart_meaning :: "pystr \<Rightarrow> nat \<Rightarrow> body_state \<Rightarrow> pystr" where
  "onstart_meaning code start s = drop start (take (brace_i s) code) @
     (if reached_end s then [code ! brace_i s] else scan_body (depth s) (drop (brace_i s) code))"

definition onstart_inv :: "pystr \<Rightarrow> nat \<Rightarrow> body_state \<Rightarrow> bool" where
  "onstart_inv code start s \<longleftrightarrow> start \<le> brace_i s \<and> (reached_end s \<longrightarrow> brace_i s < length code)"

interpretation onstart: index_loop "onstart_running code" "onstart_step code" brace_i "length code"
    "onstart_inv code start" "onstart_meaning code start" for code start
proof unfold_locales
  fix s assume s: "onstart_inv code start s" "onstart_running code s"
  then have "drop start (take (Suc (brace_i s)) code) = drop start (take (brace_i s) code) @ [code ! brace_i s]"
    by (simp add: take_Suc_conv_app_nth onstart_running_def onstart_inv_def)
  with s show "onstart_meaning code start (onstart_step code s) = onstart_meaning code start s"
    using drop_at [of "brace_i s" code]
    by (auto simp: onstart_running_def onstart_step_def onstart_meaning_def onstart_inv_def Let_def)
qed (auto simp: onstart_running_def onstart_step_def onstart_inv_def Let_def split: if_splits)

lemma onstart_loop_is: "onstart_loop code body_start = Some (scan_body 0 (drop body_start code))"
proof -
  let ?s = "\<lparr>depth = 0, brace_i = body_start, reached_end = False\<rparr>"
  obtain s where s: "while_option (onstart_running code) (onstart_step code) ?s = Some s" "onstart_inv code body_start s"
    "\<not> onstart_running code s" "onstart_meaning code body_start s = onstart_meaning code body_start ?s"
    by (rule onstart.computes [of code body_start ?s]) (simp add: onstart_inv_def)
  have "drop body_start (take (Suc (brace_i s)) code) = onstart_meaning code body_start s"
    using s(2,3) by (auto simp: onstart_running_def onstart_inv_def onstart_meaning_def take_Suc_conv_app_nth)
  with s(1,4) show ?thesis by (simp add: onstart_loop_def onstart_meaning_def)
qed

subsection \<open>The comments of a scanned line\<close>

record scan_state =
  out :: pystr
  scan_i :: nat
  flags :: blocks
  done_with :: bool

definition scan_running :: "pystr \<Rightarrow> scan_state \<Rightarrow> bool" where
  "scan_running line s \<longleftrightarrow> scan_i s < length line \<and> \<not> done_with s"

definition scan_step :: "pystr \<Rightarrow> scan_state \<Rightarrow> scan_state" where
  "scan_step line s =
     (let i = scan_i s; slice = (\<lambda>n. take n (drop i line)); st = flags s in
      if \<not> in_block_c st \<and> \<not> in_block_pwsh st \<and> \<not> in_block_xml st then
        if slice 2 = lit ''/*'' then s\<lparr>flags := st\<lparr>in_block_c := True\<rparr>, scan_i := i + 2\<rparr>
        else if slice 2 = lit ''<#'' then s\<lparr>flags := st\<lparr>in_block_pwsh := True\<rparr>, scan_i := i + 2\<rparr>
        else if slice 4 = lit ''<!--'' then s\<lparr>flags := st\<lparr>in_block_xml := True\<rparr>, scan_i := i + 4\<rparr>
        else (case (if i = 0 then line_comment_indent line else None) of
                Some indent \<Rightarrow> s\<lparr>out := out s @ indent, done_with := True\<rparr>
              | None \<Rightarrow> s\<lparr>out := out s @ [line ! i], scan_i := i + 1\<rparr>)
      else if in_block_c st then
        if slice 2 = lit ''*/'' then s\<lparr>flags := st\<lparr>in_block_c := False\<rparr>, scan_i := i + 2\<rparr> else s\<lparr>scan_i := i + 1\<rparr>
      else if in_block_pwsh st then
        if slice 2 = lit ''#>'' then s\<lparr>flags := st\<lparr>in_block_pwsh := False\<rparr>, scan_i := i + 2\<rparr> else s\<lparr>scan_i := i + 1\<rparr>
      else
        if slice 3 = lit ''-->'' then s\<lparr>flags := st\<lparr>in_block_xml := False\<rparr>, scan_i := i + 3\<rparr> else s\<lparr>scan_i := i + 1\<rparr>)"

definition scan_loop :: "pystr \<Rightarrow> blocks \<Rightarrow> (pystr \<times> blocks) option" where
  "scan_loop line st = map_option (\<lambda>s. (out s, flags s))
     (while_option (scan_running line) (scan_step line) \<lparr>out = [], scan_i = 0, flags = st, done_with = False\<rparr>)"

definition scan_meaning :: "pystr \<Rightarrow> scan_state \<Rightarrow> pystr \<times> blocks" where
  "scan_meaning line s = (if done_with s then (out s, flags s)
     else apfst ((@) (out s)) (strip_from (scan_i s = 0) (drop (scan_i s) line) (flags s)))"

lemma scan_step_means:
  assumes "scan_running line s"
  shows "scan_meaning line (scan_step line s) = scan_meaning line s"
proof -
  obtain c r where r: "drop (scan_i s) line = c # r" "line ! scan_i s = c" "drop (Suc (scan_i s)) line = r" and "\<not> done_with s"
    using assms drop_at [of "scan_i s" line] by (simp add: scan_running_def)
  have skip: "drop (scan_i s + n) line = drop n (c # r)" for n by (simp add: r add.commute flip: drop_drop)
  note facts = \<open>\<not> done_with s\<close> skip [of 2] skip [of 3] skip [of 4] r
  note unfolds = scan_meaning_def scan_step_def Let_def outside_def strip_from.simps [of _ "c # r"] apfst_def map_prod_def
  have start: "scan_i s = 0 \<Longrightarrow> line = c # r" using r(1) by simp
  show ?thesis
  proof (cases "outside (flags s)")
    case True
    with start facts show ?thesis by (cases "scan_i s = 0") (simp_all add: unfolds split: option.split prod.split)
  next
    case False
    with facts show ?thesis
      by (cases "in_block_c (flags s)"; cases "in_block_pwsh (flags s)") (simp_all add: unfolds split: prod.split)
  qed
qed

lemma slice_in_range: "take n (drop i l) = t \<Longrightarrow> length t = n \<Longrightarrow> 0 < n \<Longrightarrow> i + n \<le> length l"
  by (drule arg_cong [where f = length]) simp

text \<open>A step skips characters that belong to a comment, or leaves the line at its line comment, or keeps a character.\<close>

lemma scan_step_cases:
  assumes "scan_running l s"
  obtains (skips) n where "0 < n" "scan_i s + n \<le> length l" "scan_i (scan_step l s) = scan_i s + n" "out (scan_step l s) = out s"
      "done_with (scan_step l s) = done_with s"
    | (leaves) "scan_i s = 0" "scan_i (scan_step l s) = 0" "out (scan_step l s) = out s @ takeWhile is_space l" "done_with (scan_step l s)"
    | (keeps) "scan_i (scan_step l s) = scan_i s + 1" "out (scan_step l s) = out s @ [l ! scan_i s]"
      "done_with (scan_step l s) = done_with s"
proof -
  let ?i = "scan_i s"
  have i: "?i + 1 \<le> length l" using assms by (simp add: scan_running_def)
  show thesis
  proof (cases "outside (flags s)")
    case True
    note outs = True [unfolded outside_def]
    consider "take 2 (drop ?i l) = lit ''/*''" | "take 2 (drop ?i l) = lit ''<#''"
      | "take 2 (drop ?i l) \<noteq> lit ''/*''" "take 2 (drop ?i l) \<noteq> lit ''<#''" "take 4 (drop ?i l) = lit ''<!--''"
      | "take 2 (drop ?i l) \<noteq> lit ''/*''" "take 2 (drop ?i l) \<noteq> lit ''<#''" "take 4 (drop ?i l) \<noteq> lit ''<!--''" by blast
    then show thesis
    proof cases
      case 1
      with outs slice_in_range [OF this] show thesis by (intro skips [of 2]) (simp_all add: scan_step_def Let_def lit_def)
    next
      case 2
      with outs slice_in_range [OF this] show thesis by (intro skips [of 2]) (simp_all add: scan_step_def Let_def lit_def)
    next
      case 3
      with outs slice_in_range [OF this(3)] show thesis by (intro skips [of 4]) (simp_all add: scan_step_def Let_def lit_def)
    next
      case 4
      with outs have "scan_step l s = (if ?i = 0 \<and> comment_line l then s\<lparr>out := out s @ takeWhile is_space l, done_with := True\<rparr>
          else s\<lparr>out := out s @ [l ! ?i], scan_i := ?i + 1\<rparr>)"
        by (simp add: scan_step_def Let_def line_comment_indent_iff)
      with leaves keeps show thesis by (cases "?i = 0 \<and> comment_line l") simp_all
    qed
  next
    case False
    then consider "in_block_c (flags s)" | "\<not> in_block_c (flags s)" "in_block_pwsh (flags s)"
      | "\<not> in_block_c (flags s)" "\<not> in_block_pwsh (flags s)" "in_block_xml (flags s)" by (auto simp: outside_def)
    then obtain n t where "0 < n" "length t = n" "scan_i (scan_step l s) = (if take n (drop ?i l) = t then ?i + n else ?i + 1)"
      "out (scan_step l s) = out s" "done_with (scan_step l s) = done_with s"
    proof cases
      case 1
      then show thesis by (intro that [of 2 "lit ''*/''"]) (simp_all add: scan_step_def Let_def lit_def)
    next
      case 2
      then show thesis by (intro that [of 2 "lit ''#>''"]) (simp_all add: scan_step_def Let_def lit_def)
    next
      case 3
      then show thesis by (intro that [of 3 "lit ''-->''"]) (simp_all add: scan_step_def Let_def lit_def)
    qed
    then show thesis using skips [of n] skips [of 1] slice_in_range [of n ?i l t] i by (cases "take n (drop ?i l) = t") simp_all
  qed
qed

interpretation scan: index_loop "scan_running line" "scan_step line" scan_i "length line" "\<lambda>_. True" "scan_meaning line" for line
proof unfold_locales
  fix s assume s: "scan_running line s" "scan_running line (scan_step line s)"
  from s(1) show "scan_i s < scan_i (scan_step line s)" by (rule scan_step_cases) (use s(2) in \<open>auto simp: scan_running_def\<close>)
qed (auto simp: scan_step_means, simp add: scan_running_def)

text \<open>C15. The loop of \<open>strip_comments_line\<close> ends on every line and from every state of the three flags, with the text and the flags of
  the model.\<close>

theorem scan_loop_ends: "scan_loop line st = Some (strip_comments_line line st)"
proof -
  let ?s = "\<lparr>out = [], scan_i = 0, flags = st, done_with = False\<rparr>"
  obtain s where "while_option (scan_running line) (scan_step line) ?s = Some s" "\<not> scan_running line s"
    "scan_meaning line s = scan_meaning line ?s" by (rule scan.computes [OF TrueI])
  moreover have "scan_meaning line s = (out s, flags s)" if "\<not> scan_running line s" for s
    using that by (auto simp: scan_meaning_def scan_running_def strip_from.simps [of _ "[]"])
  ultimately show ?thesis by (simp add: scan_loop_def scan_meaning_def strip_comments_line_def apfst_def map_prod_def)
qed

subsection \<open>The strings of a DEX file\<close>

text \<open>\<open>extract_ascii_strings\<close>: the inner loop collects a run; where it does not end, neither does the outer one.\<close>

record run_state =
  run_j :: nat
  run :: "nat list"

definition run_running :: "nat list \<Rightarrow> run_state \<Rightarrow> bool" where
  "run_running data s \<longleftrightarrow> run_j s < length data \<and> printable (data ! run_j s)"

definition run_body :: "nat list \<Rightarrow> run_state \<Rightarrow> run_state" where
  "run_body data s = s\<lparr>run := run s @ [data ! run_j s], run_j := run_j s + 1\<rparr>"

definition run_loop :: "nat list \<Rightarrow> nat \<Rightarrow> run_state option" where
  "run_loop data i = while_option (run_running data) (run_body data) \<lparr>run_j = i, run = []\<rparr>"

record extract_state =
  data_i :: nat
  strings :: "pystr list"

definition extract_running :: "nat list \<Rightarrow> extract_state \<Rightarrow> bool" where
  "extract_running data s \<longleftrightarrow> data_i s < length data"

definition extract_body :: "nat list \<Rightarrow> nat \<Rightarrow> extract_state \<Rightarrow> extract_state" where
  "extract_body data min_len s =
     (if printable (data ! data_i s) then
        (case run_loop data (data_i s) of
           None \<Rightarrow> s
         | Some r \<Rightarrow> s\<lparr>strings := strings s @ (if min_len \<le> length (run r) then [run r] else []), data_i := run_j r\<rparr>)
      else s\<lparr>data_i := data_i s + 1\<rparr>)"

definition extract_loop :: "nat list \<Rightarrow> nat \<Rightarrow> pystr list option" where
  "extract_loop data min_len = map_option strings
     (while_option (extract_running data) (extract_body data min_len) \<lparr>data_i = 0, strings = []\<rparr>)"

definition run_meaning :: "nat list \<Rightarrow> run_state \<Rightarrow> nat list \<times> nat list" where
  "run_meaning data s = take_run (run s) (drop (run_j s) data)"

interpretation run: index_loop "run_running data" "run_body data" run_j "length data" "\<lambda>s. start \<le> run_j s" "run_meaning data" for data start
proof unfold_locales
  fix s assume "run_running data s"
  then show "run_meaning data (run_body data s) = run_meaning data s" using drop_at [of "run_j s" data]
    by (simp add: run_running_def run_body_def run_meaning_def)
qed (auto simp: run_running_def run_body_def)

lemma run_loop_is:
  assumes "i < length data" and "printable (data ! i)"
  obtains r where "run_loop data i = Some r" "i < run_j r" "take_run [] (drop i data) = (run r, drop (run_j r) data)"
proof -
  obtain r where r: "run_loop data i = Some r" "i \<le> run_j r" "\<not> run_running data r"
    "run_meaning data r = run_meaning data \<lparr>run_j = i, run = []\<rparr>"
    using run.computes [of i "\<lparr>run_j = i, run = []\<rparr>" data] by (auto simp: run_loop_def)
  have "i < run_j r" using r(2,3) assms by (auto simp: run_running_def le_less)
  moreover have "run_meaning data r = (run r, drop (run_j r) data)"
    using r(3) by (cases "drop (run_j r) data") (auto simp: run_running_def run_meaning_def nth_via_drop)
  ultimately show ?thesis using that r(1,4) by (simp add: run_meaning_def)
qed

definition extract_meaning :: "nat list \<Rightarrow> nat \<Rightarrow> extract_state \<Rightarrow> pystr list" where
  "extract_meaning data min_len s = strings s @ extract_ascii_strings (drop (data_i s) data) min_len"

lemma extract_body_step:
  assumes "extract_running data s"
  shows "data_i s < data_i (extract_body data m s)" "extract_meaning data m (extract_body data m s) = extract_meaning data m s"
proof -
  have d: "drop (data_i s) data = data ! data_i s # drop (Suc (data_i s)) data" "data_i s < length data"
    using assms drop_at [of "data_i s" data] by (simp_all add: extract_running_def)
  have "data_i s < data_i (extract_body data m s) \<and> extract_meaning data m (extract_body data m s) = extract_meaning data m s"
  proof (cases "printable (data ! data_i s)")
    case True
    from run_loop_is [OF d(2) True] obtain r where
      r: "run_loop data (data_i s) = Some r" "data_i s < run_j r" "take_run [] (drop (data_i s) data) = (run r, drop (run_j r) data)" .
    then show ?thesis using True d(1) by (simp add: extract_body_def extract_meaning_def)
  next
    case False
    then show ?thesis using d(1) by (simp add: extract_body_def extract_meaning_def)
  qed
  then show "data_i s < data_i (extract_body data m s)" "extract_meaning data m (extract_body data m s) = extract_meaning data m s" by blast+
qed

interpretation whole: index_loop "extract_running data" "extract_body data m" data_i "length data" "\<lambda>_. True" "extract_meaning data m"
  for data m
  by unfold_locales (use extract_body_step in \<open>auto simp: extract_running_def\<close>)

lemma extract_loop_is: "extract_loop data min_len = Some (extract_ascii_strings data min_len)"
proof -
  let ?s = "\<lparr>data_i = 0, strings = []\<rparr>"
  obtain s where "while_option (extract_running data) (extract_body data min_len) ?s = Some s" "\<not> extract_running data s"
    "extract_meaning data min_len s = extract_meaning data min_len ?s" by (rule whole.computes [OF TrueI])
  then show ?thesis by (simp add: extract_loop_def extract_meaning_def extract_running_def)
qed

subsection \<open>All of them end\<close>

text \<open>C18. The index loops of the programs end on every input. The two comment strippers find the cut of the models in every line; the brace
  counter of S12 and S13 returns, wherever it starts, the block of the model, the slice before the closing brace, or the depth
  at which the text ends, and that of S74 the body of the model; the two nested loops of \<open>extract_ascii_strings\<close> return the strings of the
  model.\<close>

theorem index_loops_end:
  "cut_loop l = Some (cut_scan False False 0 l) \<and> dart_loop l = Some (cut_scan_dart False 0 l) \<and>
   block_loop t start = Some (case block_from t start of Inl d \<Rightarrow> Inl (int d) | Inr b \<Rightarrow> Inr b) \<and>
   onstart_loop t start = Some (scan_body 0 (drop start t)) \<and>
   extract_loop data min_len = Some (extract_ascii_strings data min_len)"
  by (intro conjI cut_loop_is dart_loop_is block_loop_is onstart_loop_is extract_loop_is)

end
