(* ===== verification/Env_Expand.thy ===== *)
theory Env_Expand
  imports Py_World
begin

section \<open>Environment expansion of the Compose file (infra/scripts/validate_env.py)\<close>

text \<open>
  The simulation of Compose's variable substitution: \<open>expand\<close> replaces the placeholders of one
  string, \<open>walk\<close> goes over the parsed document, \<open>load_env_file\<close> reads a .env file, and \<open>main\<close>
  checks that every required variable is really required. An environment is a map from names to
  values.
\<close>

type_synonym env = "pystr \<Rightarrow> pystr option"

subsection \<open>\<open>expand\<close>\<close>

definition is_ident_start :: "nat \<Rightarrow> bool" where
  [text_simps]: "is_ident_start y \<longleftrightarrow> (65 \<le> y \<and> y \<le> 90) \<or> (97 \<le> y \<and> y \<le> 122) \<or> y = 95"

definition is_ident_char :: "nat \<Rightarrow> bool" where
  [text_simps]: "is_ident_char y \<longleftrightarrow> (65 \<le> y \<and> y \<le> 90) \<or> (97 \<le> y \<and> y \<le> 122) \<or> (48 \<le> y \<and> y \<le> 57) \<or> y = 95"

text \<open>\<open>\$\{([A-Za-z_][A-Za-z0-9_]*)((:-|:\\?\?|\+)[^}]*)?\}\<close>\<close>

definition op_re :: re where
  "op_re = Alt (Str (lit '':-'')) (Alt (Seq [Str (lit '':''), Opt (Str [92]), Str (lit ''?'')]) (Str (lit ''+'')))"

definition ident_re :: re where
  "ident_re = Cat (Cls is_ident_start) (Star True (Cls is_ident_char))"

definition op_part_re :: re where
  "op_part_re = Grp 2 (Seq [Grp 3 op_re, Star True (NotIn [125])])"

definition ENV_RE :: re where
  "ENV_RE = Seq [Str (lit ''${''), Grp 1 ident_re, Opt op_part_re, Str (lit ''}'')]"

definition unset_or_empty :: "pystr option \<Rightarrow> bool" where
  "unset_or_empty v \<longleftrightarrow> v = None \<or> v = Some []"

text \<open>The inner function \<open>repl\<close>: \<open>op[1]\<close> is the operator, \<open>op[2:]\<close> its argument.\<close>

definition repl :: "env \<Rightarrow> re_match \<Rightarrow> pystr \<Rightarrow> pystr res" where
  "repl env m group0 =
     (let var = (case group 1 m of Some s \<Rightarrow> s | None \<Rightarrow> []); v = env var in
      case group 2 m of
        None \<Rightarrow> Inr (case v of Some s \<Rightarrow> s | None \<Rightarrow> [])
      | Some op \<Rightarrow>
          let op_kind = take 1 (drop 1 op); arg = drop 2 op in
          if op_kind = lit ''-'' then Inr (if unset_or_empty v then arg else the v)
          else if op_kind = lit ''?'' then
            (if unset_or_empty v
             then Inl (ValueError (lit ''required env var '' @ [39] @ var @ [39] @ lit '' unset: '' @ arg))
             else Inr (the v))
          else if op_kind = lit ''+'' then Inr (if unset_or_empty v then [] else arg)
          else Inr group0)"

definition expand :: "pystr \<Rightarrow> env \<Rightarrow> pystr res" where
  "expand value env = re_subE ENV_RE (repl env) value"

subsection \<open>\<open>walk\<close>\<close>

fun walk :: "env \<Rightarrow> pyval \<Rightarrow> pyval res"
  and walk_list :: "env \<Rightarrow> pyval list \<Rightarrow> pyval list res"
  and walk_items :: "env \<Rightarrow> (pyval \<times> pyval) list \<Rightarrow> (pyval \<times> pyval) list res" where
  "walk env (PDict kvs) = bindE (walk_items env kvs) (\<lambda>kvs'. Inr (PDict kvs'))"
| "walk env (PList vs) = bindE (walk_list env vs) (\<lambda>vs'. Inr (PList vs'))"
| "walk env (PStr s) = bindE (expand s env) (\<lambda>s'. Inr (PStr s'))"
| "walk env PNone = Inr PNone"
| "walk env (PBool b) = Inr (PBool b)"
| "walk env (PInt i) = Inr (PInt i)"
| "walk env (PFloat q) = Inr (PFloat q)"
| "walk_list env [] = Inr []"
| "walk_list env (v # vs) = bindE (walk env v) (\<lambda>v'. bindE (walk_list env vs) (\<lambda>vs'. Inr (v' # vs')))"
| "walk_items env [] = Inr []"
| "walk_items env ((k, v) # kvs) = bindE (walk env v) (\<lambda>v'. bindE (walk_items env kvs) (\<lambda>kvs'. Inr ((k, v') # kvs')))"

subsection \<open>\<open>load_env_file\<close>\<close>

definition env_line :: "pystr \<Rightarrow> env \<Rightarrow> env" where
  "env_line raw env =
     (let line = py_strip raw in
      if line = [] \<or> prefix (lit ''#'') line then env
      else if \<not> contains line (lit ''='') then env
      else let k = py_strip (takeWhile (\<lambda>c. c \<noteq> 61) line);
               v = py_strip (tl (dropWhile (\<lambda>c. c \<noteq> 61) line));
               v = (if 2 \<le> length v \<and> hd v = last v \<and> (hd v = 39 \<or> hd v = 34) then butlast (tl v) else v)
           in env(k \<mapsto> v))"

definition load_env_file :: "node option \<Rightarrow> env res" where
  "load_env_file path = (if \<not> is_file_node path then Inr Map.empty
     else bindE (node_text path) (\<lambda>t. Inr (fold env_line (splitlines t) Map.empty)))"

subsection \<open>\<open>main\<close>\<close>

text \<open>\<open>\$\{([A-Z_][A-Za-z0-9_]*):\?\<close>\<close>

definition required_pattern :: re where
  "required_pattern = Seq [Str (lit ''${''),
     Grp 1 (Cat (Cls (\<lambda>y. (65 \<le> y \<and> y \<le> 90) \<or> y = 95)) (Star True (Cls is_ident_char))), Str (lit '':?'')]"

text \<open>The variables, each once; the order of \<open>sorted\<close> shows in the printed lines only.\<close>

definition required_vars :: "pystr \<Rightarrow> pystr list" where
  "required_vars raw = remdups (map (\<lambda>m. case group 1 m of Some s \<Rightarrow> s | None \<Rightarrow> []) (re_finditer required_pattern raw))"

text \<open>\<open>list(expanded_full['services'].keys())\<close> of the progress line, which raises on other shapes.\<close>

definition services_line :: "pyval \<Rightarrow> unit res" where
  "services_line doc = (case doc of
     PDict kvs \<Rightarrow> (case assoc_get kvs (PStr (lit ''services'')) of
        None \<Rightarrow> Inl KeyError | Some s \<Rightarrow> if is_dict s then Inr () else Inl AttributeError)
   | _ \<Rightarrow> Inl TypeError)"

text \<open>The loop that strips one required variable at a time; only a ValueError is caught.\<close>

fun not_caught :: "pyval \<Rightarrow> env \<Rightarrow> pystr list \<Rightarrow> pystr list res" where
  "not_caught doc env [] = Inr []"
| "not_caught doc env (var # vars) =
     (case walk (env(var := None)) doc of
        Inr _ \<Rightarrow> bindE (not_caught doc env vars) (\<lambda>failures. Inr (var # failures))
      | Inl (ValueError _) \<Rightarrow> not_caught doc env vars
      | Inl e \<Rightarrow> Inl e)"

text \<open>The exit code, from the files docker-compose.yml and .env.example and the process environment.\<close>

definition validate_env_main :: "(pystr \<Rightarrow> pyval res) \<Rightarrow> node option \<Rightarrow> node option \<Rightarrow> env \<Rightarrow> nat res" where
  "validate_env_main safe_load compose env_example environ =
     (if \<not> is_file_node compose then Inr 1
      else bindE (node_text compose) (\<lambda>raw. bindE (safe_load raw) (\<lambda>doc. bindE (load_env_file env_example) (\<lambda>env_file.
          let env_full = env_file ++ environ in
          case walk env_full doc of
            Inl (ValueError msg) \<Rightarrow> Inr 2
          | Inl e \<Rightarrow> Inl e
          | Inr expanded_full \<Rightarrow> bindE (services_line expanded_full) (\<lambda>_.
              if required_vars raw = [] then Inr 0
              else bindE (not_caught doc env_full (required_vars raw)) (\<lambda>failures.
                Inr (if failures \<noteq> [] then 3 else 0)))))))"

subsection \<open>What \<open>ENV_RE\<close> matches\<close>

definition is_ident :: "pystr \<Rightarrow> bool" where
  "is_ident v \<longleftrightarrow> v \<noteq> [] \<and> is_ident_start (hd v) \<and> (\<forall>c\<in>set (tl v). is_ident_char c)"

definition is_op :: "pystr \<Rightarrow> bool" where
  "is_op k \<longleftrightarrow> k = lit '':-'' \<or> k = lit '':?'' \<or> k = lit '':'' @ [92] @ lit ''?'' \<or> k = lit ''+''"

lemma ident_lang:
  "lang ident_re p y q c c' \<longleftrightarrow> is_ident y \<and> c' = c"
  unfolding ident_re_def cat_simps lang_simps is_ident_def by (cases y) auto

lemma op_lang: "lang op_re p y q c c' \<longleftrightarrow> is_op y \<and> c' = c"
proof -
  have mid: "lang (Cat (Opt (Str [92])) (Str (lit ''?''))) p y q c c' \<longleftrightarrow> (y = lit ''?'' \<or> y = [92] @ lit ''?'') \<and> c' = c"
    for p y q c c'
    unfolding lang.simps(3) lang_Opt lang_Str by auto
  show ?thesis
    by (simp only: op_re_def lang.simps(4) Seq.simps lang_Cat_Str lang_Str mid) (auto simp: is_op_def lit_def)
qed

lemma op_part_lang:
  "lang op_part_re p y q c c' \<longleftrightarrow>
     (\<exists>k d. is_op k \<and> 125 \<notin> set d \<and> y = k @ d \<and> c' = (2, k @ d) # (3, k) # c)"
  by (simp only: op_part_re_def lang.simps(6) Seq.simps cat_simps op_lang lang_simps) auto

lemma ENV_RE_lang:
  "lang ENV_RE p y q c c' \<longleftrightarrow> (\<exists>v. is_ident v \<and>
     (y = lit ''${'' @ v @ lit ''}'' \<and> c' = (1, v) # c \<or>
      (\<exists>k d. is_op k \<and> 125 \<notin> set d \<and> y = lit ''${'' @ v @ k @ d @ lit ''}'' \<and> c' = (2, k @ d) # (3, k) # (1, v) # c)))"
proof -
  have opt: "lang (Cat (Opt R) (Str s)) p y q c c' \<longleftrightarrow> (\<exists>z. y = z @ s \<and> (lang R p z (s @ q) c c' \<or> z = [] \<and> c' = c))"
    for R s p y q c c' by (auto simp: lang_simps)
  have "lang ENV_RE p y q c c' \<longleftrightarrow> (\<exists>w z. y = lit ''${'' @ w @ z @ lit ''}'' \<and> is_ident w \<and>
      ((\<exists>k d. is_op k \<and> 125 \<notin> set d \<and> z = k @ d \<and> c' = (2, k @ d) # (3, k) # (1, w) # c) \<or> z = [] \<and> c' = (1, w) # c))"
    by (simp only: ENV_RE_def Seq.simps cat_simps ident_lang opt op_part_lang) blast
  also have "\<dots> \<longleftrightarrow> (\<exists>v. is_ident v \<and>
     (y = lit ''${'' @ v @ lit ''}'' \<and> c' = (1, v) # c \<or>
      (\<exists>k d. is_op k \<and> 125 \<notin> set d \<and> y = lit ''${'' @ v @ k @ d @ lit ''}'' \<and> c' = (2, k @ d) # (3, k) # (1, v) # c)))"
    (is "?A \<longleftrightarrow> ?B")
  proof
    assume ?A
    then show ?B by (elim exE conjE disjE) (hypsubst, unfold append_assoc append_Nil, blast)+
  next
    assume ?B
    then obtain v where v: "is_ident v" and "y = lit ''${'' @ v @ [] @ lit ''}'' \<and> c' = (1, v) # c \<or>
      (\<exists>k d. is_op k \<and> 125 \<notin> set d \<and> y = lit ''${'' @ v @ (k @ d) @ lit ''}'' \<and> c' = (2, k @ d) # (3, k) # (1, v) # c)"
      by auto
    then show ?A by blast
  qed
  finally show ?thesis .
qed

lemma ENV_RE_headed: "headed ENV_RE (lit ''${'')"
  unfolding ENV_RE_def by (rule headed_Seq)

lemma ident_chars: "is_ident v \<Longrightarrow> c \<in> set v \<Longrightarrow> is_ident_char c"
  by (cases v) (auto simp: is_ident_def is_ident_start_def is_ident_char_def)

lemma op_head: "is_op k \<Longrightarrow> \<exists>a k'. k = a # k' \<and> (a = 58 \<or> a = 43)"
  by (auto simp: is_op_def lit_def)

text \<open>A match at a placeholder is the placeholder.\<close>

lemma match_plain:
  assumes "is_ident v" and "lang ENV_RE p (lit ''${'' @ x) q [] c" and "v @ lit ''}'' @ post = x @ q"
  shows "x = v @ lit ''}'' \<and> c = [(1, v)]"
proof -
  have nid: "\<not> is_ident_char 125" "\<not> is_ident_char 58" "\<not> is_ident_char 43" by (simp_all add: is_ident_char_def)
  from assms(2) [unfolded ENV_RE_lang same_append_eq] obtain v' where v': "is_ident v'" and
    cases: "x = v' @ lit ''}'' \<and> c = [(1, v')] \<or>
      (\<exists>k d. is_op k \<and> 125 \<notin> set d \<and> x = v' @ k @ d @ lit ''}'' \<and> c = [(2, k @ d), (3, k), (1, v')])" by blast
  from cases show ?thesis
  proof (elim disjE exE conjE)
    assume x: "x = v' @ lit ''}''" "c = [(1, v')]"
    with assms(3) have "v @ 125 # post = v' @ 125 # q" by (simp add: lit_def)
    from run_unique [OF this, of is_ident_char] ident_chars [OF assms(1)] ident_chars [OF v'] nid x show ?thesis by simp
  next
    fix k d assume k: "is_op k" and x: "x = v' @ k @ d @ lit ''}''"
    from op_head [OF k] obtain a k' where a: "k = a # k'" "a = 58 \<or> a = 43" by blast
    with assms(3) x have "v @ 125 # post = v' @ a # k' @ d @ lit ''}'' @ q" by (simp add: lit_def)
    from run_unique [OF this, of is_ident_char] ident_chars [OF assms(1)] ident_chars [OF v'] nid a(2) show ?thesis by auto
  qed
qed

lemma match_op:
  assumes "is_ident v" and "k = lit '':-'' \<or> k = lit '':?''" and "125 \<notin> set d"
    and "lang ENV_RE p (lit ''${'' @ x) q [] c" and "v @ k @ d @ lit ''}'' @ post = x @ q"
  shows "x = v @ k @ d @ lit ''}'' \<and> c = [(2, k @ d), (3, k), (1, v)]"
proof -
  have nid: "\<not> is_ident_char 125" "\<not> is_ident_char 58" "\<not> is_ident_char 43" by (simp_all add: is_ident_char_def)
  obtain k' where k: "k = 58 # k'" using assms(2) by (auto simp: lit_def)
  from assms(4) [unfolded ENV_RE_lang same_append_eq] obtain v' where v': "is_ident v'" and
    cases: "x = v' @ lit ''}'' \<and> c = [(1, v')] \<or>
      (\<exists>k d. is_op k \<and> 125 \<notin> set d \<and> x = v' @ k @ d @ lit ''}'' \<and> c = [(2, k @ d), (3, k), (1, v')])" by blast
  from cases show ?thesis
  proof (elim disjE exE conjE)
    assume x: "x = v' @ lit ''}''"
    with assms(5) k have "v @ 58 # k' @ d @ lit ''}'' @ post = v' @ 125 # q" by (simp add: lit_def)
    from run_unique [OF this, of is_ident_char] ident_chars [OF assms(1)] ident_chars [OF v'] nid show ?thesis by simp
  next
    fix j e assume j: "is_op j" and e: "125 \<notin> set e" and x: "x = v' @ j @ e @ lit ''}''" and c: "c = [(2, j @ e), (3, j), (1, v')]"
    from op_head [OF j] obtain a j' where a: "j = a # j'" "a = 58 \<or> a = 43" by blast
    with assms(5) k x have eq: "v @ 58 # k' @ d @ lit ''}'' @ post = v' @ a # j' @ e @ lit ''}'' @ q" by simp
    from run_unique [OF this, of is_ident_char] ident_chars [OF assms(1)] ident_chars [OF v'] nid a(2)
    have v: "v' = v" "a = 58" and rest: "k' @ d @ lit ''}'' @ post = j' @ e @ lit ''}'' @ q" by auto
    from rest assms(2) j a v k have "j = k" by (auto simp: is_op_def lit_def)
    with rest a k have "d @ 125 # post = e @ 125 # q" by (simp add: lit_def)
    from run_unique [OF this, of "\<lambda>c. c \<noteq> 125"] assms(3) e have "e = d" by auto
    with x c v \<open>j = k\<close> show ?thesis by simp
  qed
qed

subsection \<open>Replacing one placeholder\<close>

lemma expand_match:
  assumes no: "\<not> contains (pre @ lit ''$'') (lit ''${'')"
    and ex: "lang ENV_RE (rev b @ pre) (lit ''${'' @ y) post [] c"
    and unique: "\<And>x v c'. y @ post = x @ v \<Longrightarrow> lang ENV_RE (rev b @ pre) (lit ''${'' @ x) v [] c' \<Longrightarrow> x = y \<and> c' = c"
    and f: "\<And>m. m_caps m = c \<Longrightarrow> f m (lit ''${'' @ y) = r"
  shows "sub_posE ENV_RE f b (pre @ lit ''${'' @ y @ post) =
    bindE r (\<lambda>new. bindE (sub_posE ENV_RE f (rev (pre @ lit ''${'' @ y) @ b) post) (\<lambda>rest. Inr (pre @ new @ rest)))"
proof -
  have "\<not> contains (pre @ butlast (lit ''${'')) (lit ''${'')" using no by (simp add: lit_def)
  from search_pos_at_head [OF ENV_RE_headed this ex] obtain x v c' where
    s: "search_pos ENV_RE b (pre @ lit ''${'' @ y @ post) =
      Some ((rev pre @ b, lit ''${'' @ y @ post, []), (rev (pre @ lit ''${'' @ x) @ b, v, c'))"
    and xv: "y @ post = x @ v" and L: "lang ENV_RE (rev b @ pre) (lit ''${'' @ x) v [] c'" by blast
  from unique [OF xv L] have x: "x = y" "c' = c" by blast+
  with xv have v: "v = post" by simp
  have len: "length post < length (lit ''${'' @ y @ post)" by (simp add: lit_def)
  have m: "f (mk_match ((rev pre @ b, lit ''${'' @ y @ post, []), (rev (pre @ lit ''${'' @ y) @ b, post, c)))
      (take (length (lit ''${'' @ y @ post) - length post) (lit ''${'' @ y @ post)) = r"
    using f by (simp add: mk_match_def)
  show ?thesis
    by (subst sub_posE.simps) (simp only: s x v option.case prod.case m len if_True, simp)
qed

text \<open>The four forms that the script documents, and what \<open>expand\<close> makes of each: Compose's rules for the first three, while the
  fourth, which the pattern does not know, is left as it stands.\<close>

datatype placeholder = Plain | Default pystr | Required pystr | Alternative pystr

fun placeholder_text :: "pystr \<Rightarrow> placeholder \<Rightarrow> pystr" where
  "placeholder_text v Plain = lit ''${'' @ v @ lit ''}''"
| "placeholder_text v (Default d) = lit ''${'' @ v @ lit '':-'' @ d @ lit ''}''"
| "placeholder_text v (Required msg) = lit ''${'' @ v @ lit '':?'' @ msg @ lit ''}''"
| "placeholder_text v (Alternative alt) = lit ''${'' @ v @ lit '':+'' @ alt @ lit ''}''"

fun placeholder_arg :: "placeholder \<Rightarrow> pystr" where
  "placeholder_arg Plain = []"
| "placeholder_arg (Default d) = d"
| "placeholder_arg (Required msg) = msg"
| "placeholder_arg (Alternative alt) = alt"

fun placeholder_value :: "env \<Rightarrow> pystr \<Rightarrow> placeholder \<Rightarrow> pystr res" where
  "placeholder_value env v Plain = Inr (case env v of Some s \<Rightarrow> s | None \<Rightarrow> [])"
| "placeholder_value env v (Default d) =
     Inr (case env v of Some s \<Rightarrow> if s = [] then d else s | None \<Rightarrow> d)"
| "placeholder_value env v (Required msg) =
     (case env v of Some (c # s) \<Rightarrow> Inr (c # s)
      | _ \<Rightarrow> Inl (ValueError (lit ''required env var '' @ [39] @ v @ [39] @ lit '' unset: '' @ msg)))"
| "placeholder_value env v (Alternative alt) = Inr (placeholder_text v (Alternative alt))"

text \<open>An argument ends at the first closing brace; that of the form which is left alone must not hold a placeholder of its own.\<close>

fun placeholder_ok :: "placeholder \<Rightarrow> bool" where
  "placeholder_ok (Alternative alt) \<longleftrightarrow> 125 \<notin> set alt \<and> \<not> contains alt (lit ''${'')"
| "placeholder_ok ph \<longleftrightarrow> 125 \<notin> set (placeholder_arg ph)"

lemma repl_values:
  "m_caps m = [(1, v)] \<Longrightarrow> repl env m t = placeholder_value env v Plain"
  "m_caps m = [(2, lit '':-'' @ d), (3, k), (1, v)] \<Longrightarrow> repl env m t = placeholder_value env v (Default d)"
  "m_caps m = [(2, lit '':?'' @ d), (3, k), (1, v)] \<Longrightarrow> repl env m t = placeholder_value env v (Required d)"
  by (auto simp: repl_def group_def unset_or_empty_def lit_def Let_def split: option.split list.split)

text \<open>Text in which no match begins is kept.\<close>

lemma sub_posE_skip:
  assumes "matches_of r (b, x # xs, []) = []"
  shows "sub_posE r f b (x # xs) = bindE (sub_posE r f (x # b) xs) (\<lambda>rest. Inr (x # rest))"
proof -
  have s: "search_pos r b (x # xs) = search_pos r (x # b) xs" by (subst search_pos.simps) (simp add: assms)
  show ?thesis
  proof (cases "search_pos r (x # b) xs")
    case None
    then show ?thesis by (simp add: sub_posE.simps [of r f b] sub_posE.simps [of r f "x # b"] s)
  next
    case (Some se)
    obtain b0 a0 c0 b1 a1 c1 where se: "se = ((b0, a0, c0), (b1, a1, c1))" by (metis surj_pair)
    with Some have "length a0 \<le> length xs" using search_pos_length by fastforce
    then have "take (length (x # xs) - length a0) (x # xs) = x # take (length xs - length a0) xs" by (simp add: Suc_diff_le)
    with Some se show ?thesis
      by (simp add: sub_posE.simps [of r f b] sub_posE.simps [of r f "x # b"] s bindE_assoc)
  qed
qed

lemma bindE_Inr: "bindE m Inr = m"
  by (cases m) simp_all

lemma sub_posE_skip_text:
  "(\<And>p q. u = p @ q \<Longrightarrow> q \<noteq> [] \<Longrightarrow> matches_of r (rev p @ b, q @ post, []) = []) \<Longrightarrow>
     sub_posE r f b (u @ post) = bindE (sub_posE r f (rev u @ b) post) (\<lambda>rest. Inr (u @ rest))"
proof (induction u arbitrary: b)
  case (Cons x u)
  have "matches_of r (b, x # u @ post, []) = []" using Cons.prems [of "[]" "x # u"] by simp
  moreover have "sub_posE r f (x # b) (u @ post) = bindE (sub_posE r f (rev u @ x # b) post) (\<lambda>rest. Inr (u @ rest))"
  proof (rule Cons.IH)
    fix p q assume "u = p @ q" "q \<noteq> []"
    with Cons.prems [of "x # p" q] show "matches_of r (rev p @ x # b, q @ post, []) = []" by simp
  qed
  ultimately show ?case by (simp add: sub_posE_skip bindE_assoc)
qed (simp add: bindE_Inr)

lemma alternative_tail:
  assumes "is_ident v" and "\<not> contains alt (lit ''${'')"
  shows "\<not> contains (123 # v @ lit '':+'' @ alt @ [125]) (lit ''${'')"
proof -
  have "\<not> contains (alt @ [125]) (lit ''${'')"
  proof
    assume "contains (alt @ [125]) (lit ''${'')"
    then obtain p q where "alt @ [125] = p @ [36, 123] @ q" by (auto simp: contains_iff lit_def)
    then show False using assms(2) by (cases q rule: rev_cases) (auto simp: contains_iff lit_def)
  qed
  moreover have "contains (xs @ ys) (lit ''${'') \<Longrightarrow> contains ys (lit ''${'')" if "36 \<notin> set xs" for xs ys
    using that by (induction xs) (auto simp: lit_def)
  moreover have "36 \<notin> set (123 # v @ lit '':+'')"
    using ident_chars [OF assms(1), of 36] by (auto simp: is_ident_char_def lit_def)
  ultimately show ?thesis by (metis append_Cons append_assoc)
qed

lemma alternative_no_match:
  assumes "is_ident v" and "v @ lit '':+'' @ alt = x @ w"
  shows "\<not> lang ENV_RE p (lit ''${'' @ x) w [] c"
proof
  have nid: "\<not> is_ident_char 125" "\<not> is_ident_char 58" "\<not> is_ident_char 43" by (simp_all add: is_ident_char_def)
  assume "lang ENV_RE p (lit ''${'' @ x) w [] c"
  then obtain v' where v': "is_ident v'" and
    cases: "x = v' @ lit ''}'' \<or> (\<exists>k d. is_op k \<and> x = v' @ k @ d @ lit ''}'')"
    unfolding ENV_RE_lang same_append_eq by blast
  from cases show False
  proof (elim disjE exE conjE)
    assume "x = v' @ lit ''}''"
    with assms(2) have "v @ 58 # 43 # alt = v' @ 125 # w" by (simp add: lit_def)
    from run_unique [OF this, of is_ident_char] ident_chars [OF assms(1)] ident_chars [OF v'] nid show False by simp
  next
    fix k d assume k: "is_op k" and "x = v' @ k @ d @ lit ''}''"
    moreover from op_head [OF k] obtain a k' where a: "k = a # k'" "a = 58 \<or> a = 43" by blast
    ultimately have "v @ 58 # 43 # alt = v' @ a # k' @ d @ lit ''}'' @ w" using assms(2) by (simp add: lit_def)
    from run_unique [OF this, of is_ident_char] ident_chars [OF assms(1)] ident_chars [OF v'] nid a
    have "a = 58" "k' @ d @ lit ''}'' @ w = 43 # alt" by auto
    with k a(1) show False by (auto simp: is_op_def lit_def)
  qed
qed

lemma alternative_skipped:
  assumes no: "\<not> contains (pre @ lit ''$'') (lit ''${'')" and v: "is_ident v" and alt: "\<not> contains alt (lit ''${'')"
    and u: "pre @ placeholder_text v (Alternative alt) = p @ q" "q \<noteq> []"
  shows "matches_of ENV_RE (rev p @ b, q @ post, []) = []"
proof -
  have "\<exists>y w c. q @ post = y @ w \<and> lang ENV_RE (rev b @ p) y w [] c" if "matches_of ENV_RE (rev p @ b, q @ post, []) \<noteq> []"
    using that unfolding matches_of_Nil by auto
  moreover have False if m: "q @ post = y @ w" "lang ENV_RE (rev b @ p) y w [] c" for y w c
  proof -
    from headed_lang [OF ENV_RE_headed m(2)] obtain z where z: "y = lit ''${'' @ z" by (auto simp: prefix_def)
    from u(1) consider (pre) r where "pre = p @ r" "r \<noteq> []" "q = r @ placeholder_text v (Alternative alt)"
      | (here) "q = placeholder_text v (Alternative alt)"
      | (behind) s where "s @ q = 123 # v @ lit '':+'' @ alt @ [125]"
      by (auto simp: append_eq_append_conv2 lit_def Cons_eq_append_conv) 
    then show False
    proof cases
      case pre
      then show False using no m(1) z by (cases r; cases "tl r") (auto simp: contains_iff lit_def)
    next
      case here
      with m(1) z have "v @ lit '':+'' @ (alt @ lit ''}'' @ post) = z @ w" by simp
      from alternative_no_match [OF v this] m(2) z show False by blast
    next
      case behind
      have "q \<noteq> [36]" using behind by (auto dest: arg_cong [of _ _ last])
      then obtain q' where "q = lit ''${'' @ q'" using m(1) z u(2) by (cases q; cases "tl q") (auto simp: lit_def)
      then have "contains (123 # v @ lit '':+'' @ alt @ [125]) (lit ''${'')" using behind by (auto simp: contains_iff) metis
      with alternative_tail [OF v alt] show False by blast
    qed
  qed
  ultimately show ?thesis by blast
qed

lemma expand_placeholder:
  assumes "\<not> contains (pre @ lit ''$'') (lit ''${'')" and "is_ident v" and "placeholder_ok ph"
  shows "\<exists>b'. sub_posE ENV_RE (repl env) b (pre @ placeholder_text v ph @ post) =
    bindE (placeholder_value env v ph) (\<lambda>new. bindE (sub_posE ENV_RE (repl env) b' post) (\<lambda>rest. Inr (pre @ new @ rest)))"
proof (cases ph)
  case Plain
  have "lang ENV_RE p (lit ''${'' @ v @ lit ''}'') post [] [(1, v)]" for p unfolding ENV_RE_lang using assms(2) by auto
  from expand_match [OF assms(1) this match_plain [OF assms(2) _ ] repl_values(1)] Plain show ?thesis
    by (intro exI) auto
next
  case (Default d)
  have k: "lit '':-'' = lit '':-'' \<or> lit '':-'' = lit '':?''" by simp
  have "lang ENV_RE p (lit ''${'' @ v @ lit '':-'' @ d @ lit ''}'') post [] [(2, lit '':-'' @ d), (3, lit '':-''), (1, v)]" for p
    unfolding ENV_RE_lang using assms(2,3) Default by (auto simp: is_op_def)
  from expand_match [OF assms(1) this match_op [OF assms(2) k _ ] repl_values(2)] Default assms(3) show ?thesis
    by (intro exI) auto
next
  case (Required d)
  have k: "lit '':?'' = lit '':-'' \<or> lit '':?'' = lit '':?''" by simp
  have "lang ENV_RE p (lit ''${'' @ v @ lit '':?'' @ d @ lit ''}'') post [] [(2, lit '':?'' @ d), (3, lit '':?''), (1, v)]" for p
    unfolding ENV_RE_lang using assms(2,3) Required by (auto simp: is_op_def)
  from expand_match [OF assms(1) this match_op [OF assms(2) k _ ] repl_values(3)] Required assms(3) show ?thesis
    by (intro exI) auto
next
  case (Alternative alt)
  with assms have alt: "\<not> contains alt (lit ''${'')" by simp
  have "sub_posE ENV_RE (repl env) b ((pre @ placeholder_text v (Alternative alt)) @ post) =
      bindE (sub_posE ENV_RE (repl env) (rev (pre @ placeholder_text v (Alternative alt)) @ b) post)
        (\<lambda>rest. Inr ((pre @ placeholder_text v (Alternative alt)) @ rest))"
    by (rule sub_posE_skip_text) (rule alternative_skipped [OF assms(1,2) alt])
  with Alternative show ?thesis by (intro exI) auto
qed

text \<open>The pattern has no anchors and \<open>repl\<close> reads only the groups, so what is left of the string is
  expanded as if it stood alone.\<close>

lemma Str_anchor_free [simp]: "anchor_free (Str s)"
  by (induction s) (simp_all add: Chr_def)

lemma expand_from: "sub_posE ENV_RE (repl env) b a = expand a env"
  unfolding expand_def re_subE_def
proof (rule sub_posE_behind)
  show "anchor_free ENV_RE"
    by (simp add: ENV_RE_def ident_re_def op_part_re_def op_re_def Opt_def NotIn_def Chr_def)
  show "repl env m t = repl env m' t" if "m_caps m = m_caps m'" for m m' t
    using that by (simp add: repl_def group_def)
qed

lemma expand_no_placeholder: "\<not> contains t (lit ''${'') \<Longrightarrow> expand t env = Inr t"
  using search_pos_None [of ENV_RE "[]" t] re_search_None_headed [OF ENV_RE_headed]
  by (simp add: expand_def re_subE_def sub_posE.simps re_search_def)

subsection \<open>Properties\<close>

text \<open>C3. What \<open>expand\<close> makes of the first placeholder of a string, in each of the four forms that the script documents: \<open>${VAR}\<close>,
  \<open>${VAR:-default}\<close> and \<open>${VAR:?message}\<close> are replaced by their value under Compose's rules, or their message is raised;
  \<open>${VAR:+alt}\<close> is not recognised and left as it stands, in every environment. The text before it is kept, and the text after
  it is expanded in the same way. The argument holds no closing brace, and in the fourth form no opener of a placeholder.\<close>

theorem expand_placeholder_forms:
  assumes "\<not> contains (pre @ lit ''$'') (lit ''${'')" and "is_ident v" and "placeholder_ok ph"
  shows "expand (pre @ placeholder_text v ph @ post) env =
    bindE (placeholder_value env v ph) (\<lambda>new. bindE (expand post env) (\<lambda>rest. Inr (pre @ new @ rest)))"
  using expand_placeholder [OF assms, of env "[]" post] by (simp add: expand_from)

theorem expand_placeholder_forms_witness:
  "expand (lit ''postgres://'' @ placeholder_text (lit ''HOST'') (Default (lit ''db'')) @
      lit '':5432'' @ placeholder_text (lit ''TLS'') (Alternative (lit ''--tls'')) @ []) [lit ''TLS'' \<mapsto> lit ''1''] =
     Inr (lit ''postgres://db:5432${TLS:+--tls}'')"
proof -
  have "expand [] [lit ''TLS'' \<mapsto> lit ''1''] = Inr []"
    by (rule expand_no_placeholder) (simp add: lit_def)
  then have "expand (lit '':5432'' @ placeholder_text (lit ''TLS'') (Alternative (lit ''--tls'')) @ []) [lit ''TLS'' \<mapsto> lit ''1''] =
      Inr (lit '':5432${TLS:+--tls}'')"
    by (subst expand_placeholder_forms) (simp_all add: is_ident_def text_simps)
  then show ?thesis
    by (subst expand_placeholder_forms) (simp_all add: is_ident_def text_simps)
qed

definition env_text :: "(pystr \<times> pystr) list \<Rightarrow> pystr" where
  "env_text kvs = py_join [NL] (map (\<lambda>(k, v). k @ [61, 34] @ v @ [34]) kvs)"

lemma py_strip_id: "s = [] \<or> \<not> is_space (hd s) \<and> \<not> is_space (last s) \<Longrightarrow> py_strip s = s"
proof -
  have keep: "dropWhile is_space t = t" if "t = [] \<or> \<not> is_space (hd t)" for t using that by (cases t) auto
  assume "s = [] \<or> \<not> is_space (hd s) \<and> \<not> is_space (last s)"
  then have "dropWhile is_space s = s" "dropWhile is_space (rev s) = rev s" by (auto intro!: keep simp: hd_rev)
  then show ?thesis by (simp add: py_strip_def)
qed

lemma env_line_quoted:
  assumes "is_ident k"
  shows "env_line (k @ [61, 34] @ v @ [34]) env = env(k \<mapsto> v)"
proof -
  let ?l = "k @ [61, 34] @ v @ [34]"
  have chars: "\<forall>c\<in>set k. \<not> is_space c \<and> c \<noteq> 61 \<and> c \<noteq> 35"
    using ident_chars [OF assms] by (force simp: is_ident_char_def is_space_def)
  from assms obtain c cs where k: "k = c # cs" by (cases k) (auto simp: is_ident_def)
  have line: "py_strip ?l = ?l" by (rule py_strip_id) (use chars k in \<open>simp add: is_space_def\<close>)
  have key: "py_strip k = k"
    by (rule py_strip_id) (use chars k in auto)
  have val: "py_strip ([34] @ v @ [34]) = [34] @ v @ [34]" by (rule py_strip_id) (simp add: is_space_def)
  have "takeWhile (\<lambda>c. c \<noteq> 61) ?l = k" "dropWhile (\<lambda>c. c \<noteq> 61) ?l = [61, 34] @ v @ [34]"
    using chars by (subst takeWhile_append2 dropWhile_append2; auto)+
  moreover have "contains ?l (lit ''='')" by (auto simp: contains_iff lit_def)
  moreover have "\<not> prefix (lit ''#'') ?l" using chars k by (auto simp: lit_def)
  ultimately show ?thesis using line key val k by (simp add: env_line_def Let_def)
qed

text \<open>C23. Reading back a .env file: names and values written as \<open>NAME="value"\<close> lines are loaded as they
  were, a later line overriding an earlier one, whatever characters but line boundaries the values hold.\<close>

theorem load_env_file_reads_back:
  assumes "\<forall>(k, v)\<in>set kvs. is_ident k \<and> (\<forall>c\<in>set v. \<not> is_linebreak c)"
  shows "load_env_file (Some (File (Some (env_text kvs)))) = Inr (map_of (rev kvs))"
proof -
  have "\<forall>l\<in>set (map (\<lambda>(k, v). k @ [61, 34] @ v @ [34]) kvs). l \<noteq> [] \<and> (\<forall>c\<in>set l. \<not> is_linebreak c)"
    using assms ident_chars by (fastforce simp: is_linebreak_def is_ident_char_def)
  from splitlines_join [OF this] have "splitlines (env_text kvs) = map (\<lambda>(k, v). k @ [61, 34] @ v @ [34]) kvs"
    by (simp add: env_text_def)
  moreover have "fold env_line (map (\<lambda>(k, v). k @ [61, 34] @ v @ [34]) kvs) env = env ++ map_of (rev kvs)" for env
    using assms
  proof (induction kvs arbitrary: env)
    case (Cons kv kvs)
    then show ?case by (cases kv) (auto simp: env_line_quoted [simplified] map_add_def fun_eq_iff split: option.split)
  qed simp
  ultimately show ?thesis by (simp add: load_env_file_def)
qed

theorem load_env_file_reads_back_witness:
  "\<exists>env. load_env_file (Some (File (Some (env_text [(lit ''A'', lit ''it is = # fine ''), (lit ''A'', lit ''2'')])))) = Inr env \<and>
     env (lit ''A'') = Some (lit ''2'')"
  by (subst load_env_file_reads_back) (simp_all add: is_ident_def text_simps)

lemma not_caught_iff:
  "not_caught doc env vars = Inr failures \<Longrightarrow>
     failures = filter (\<lambda>var. \<exists>d. walk (env(var := None)) doc = Inr d) vars"
  by (induction vars arbitrary: failures) (auto split: sum.splits exn.splits)

text \<open>C33. The exit codes of the script: 0 means that the file expands in the full environment and that the
  expansion raises for each required variable once it is removed; a marker \<open>${VAR:?}\<close> that the parsed
  document does not contain (in a comment, say) makes the script fail with 3.\<close>

theorem validate_env_exit_code:
  assumes "safe_load raw = Inr doc" and "load_env_file ex = Inr env_file" and "env = env_file ++ environ"
    and "validate_env_main safe_load (Some (File (Some raw))) ex environ = Inr code"
  shows "(code = 0 \<longleftrightarrow> (\<exists>d. walk env doc = Inr d) \<and> (\<forall>var\<in>set (required_vars raw). \<forall>d. walk (env(var := None)) doc \<noteq> Inr d)) \<and>
    (code = 3 \<longleftrightarrow> (\<exists>d. walk env doc = Inr d) \<and> (\<exists>var\<in>set (required_vars raw). \<exists>d. walk (env(var := None)) doc = Inr d))"
  using assms by (auto simp: validate_env_main_def Let_def empty_filter_conv filter_empty_conv dest!: not_caught_iff
      split: sum.splits exn.splits if_splits)

theorem validate_env_exit_code_witness:
  "required_vars (lit ''# ${A:?}'') = [lit ''A''] \<and>
     list_ex (\<lambda>var. \<exists>d. walk ([lit ''A'' \<mapsto> lit ''1''](var := None)) (PDict [(PStr (lit ''services''), PDict [])]) = Inr d)
       (required_vars (lit ''# ${A:?}''))"
proof -
  have vars: "required_vars (lit ''# ${A:?}'') = [lit ''A'']" by code_simp
  have "validate_env_main (\<lambda>_. Inr (PDict [(PStr (lit ''services''), PDict [])])) (Some (File (Some (lit ''# ${A:?}'')))) None
      [lit ''A'' \<mapsto> lit ''1''] = Inr 3"
    by (simp add: validate_env_main_def vars load_env_file_def services_line_def)
  from validate_env_exit_code [OF refl _ _ this, of Map.empty "[lit ''A'' \<mapsto> lit ''1'']"] vars show ?thesis
    by (simp add: load_env_file_def)
qed

end
