(* ===== verification/Compose_Validate.thy ===== *)
theory Compose_Validate
  imports Py_World "HOL-Library.List_Lexorder"
begin

section \<open>The structural check of the Compose file (infra/scripts/validate_compose.py)\<close>

text \<open>
  \<open>validate\<close> goes over the parsed document and returns its errors; \<open>main\<close> prints a summary of the
  document first and the errors after it. The summary is modelled by what it can raise: it calls
  \<open>len\<close>, \<open>keys\<close>, \<open>join\<close> and \<open>get\<close> on values whose type \<open>validate\<close> has only reported.
\<close>

subsection \<open>\<open>validate\<close>\<close>

abbreviation err :: "string \<Rightarrow> pystr list \<Rightarrow> finding" where
  "err what xs \<equiv> Finding ''compose'' what xs"

definition network_errors :: "world \<Rightarrow> pyval \<Rightarrow> finding list" where
  "network_errors w networks = (case networks of
     PDict kvs \<Rightarrow> map (\<lambda>(name, spec). err ''networks entry'' [py_str w name]) (filter (\<lambda>(name, spec). \<not> is_dict spec) kvs)
   | _ \<Rightarrow> [err ''networks'' []])"

definition depends_on_errors :: "world \<Rightarrow> pystr \<Rightarrow> pyval \<Rightarrow> finding list" where
  "depends_on_errors w svc_name dep = (case dep of
     PList ds \<Rightarrow> map (\<lambda>d. err ''depends_on item'' [svc_name, type_name d]) (filter (\<lambda>d. \<not> is_str d) ds)
   | PDict kvs \<Rightarrow> map (\<lambda>(d_name, d_spec). err ''depends_on entry'' [svc_name, py_str w d_name])
        (filter (\<lambda>(d_name, d_spec). \<not> is_dict d_spec) kvs)
   | _ \<Rightarrow> [])"

definition service_errors :: "world \<Rightarrow> pyval \<times> pyval \<Rightarrow> finding list" where
  "service_errors w entry = (let svc_name = py_str w (fst entry) in
     case snd entry of
       PDict svc \<Rightarrow>
         (if has_key svc ''image'' \<or> has_key svc ''build'' then [] else [err ''image or build'' [svc_name]]) @
         (let nets = dget svc ''networks'' PNone in
          if nets \<noteq> PNone \<and> \<not> (is_list nets \<or> is_str nets) then [err ''service networks'' [svc_name]] else []) @
         depends_on_errors w svc_name (dget svc ''depends_on'' PNone) @
         (let prof = dget svc ''profiles'' PNone in
          if prof \<noteq> PNone \<and> \<not> is_list prof then [err ''profiles'' [svc_name]] else [])
     | _ \<Rightarrow> [err ''service'' [svc_name]])"

definition validate :: "world \<Rightarrow> pyval \<Rightarrow> finding list" where
  "validate w doc = (case doc of
     PDict root_map \<Rightarrow>
       (if has_key root_map ''services'' then [] else [err ''required keys'' []]) @
       network_errors w (dget root_map ''networks'' (PDict [])) @
       (if is_dict (dget root_map ''volumes'' (PDict [])) then [] else [err ''volumes'' []]) @
       (let secrets = dget root_map ''secrets'' (PDict []) in
        if truthy secrets \<and> \<not> is_dict secrets then [err ''secrets'' []] else []) @
       (case dget root_map ''services'' (PDict []) of
          PDict (entry # services) \<Rightarrow> concat (map (service_errors w) (entry # services))
        | _ \<Rightarrow> [err ''services'' []])
   | _ \<Rightarrow> [err ''top level'' [type_name doc]])"

subsection \<open>\<open>main\<close>\<close>

text \<open>One summary line: \<open>len(d)\<close>, then \<open>', '.join(sorted(d.keys()))\<close>. Keys of different types cannot be
  sorted and keys that are no strings cannot be joined: a TypeError both times.\<close>

fun names_line :: "pyval \<Rightarrow> unit res" where
  "names_line (PDict kvs) = (if list_all (\<lambda>(k, v). is_str k) kvs then Inr () else Inl TypeError)"
| "names_line (PList xs) = Inl AttributeError"
| "names_line (PStr s) = Inl AttributeError"
| "names_line _ = Inl TypeError"

text \<open>\<open>','.join(xs)\<close> of a list, and \<open>len(v)\<close>.\<close>

definition join_line :: "pyval list \<Rightarrow> unit res" where
  "join_line xs = (if list_all is_str xs then Inr () else Inl TypeError)"

definition has_len :: "pyval \<Rightarrow> bool" where
  "has_len v \<longleftrightarrow> is_dict v \<or> is_list v \<or> is_str v"

definition detail_line :: "pyval \<Rightarrow> unit res" where
  "detail_line v = (case v of
     PDict svc \<Rightarrow>
       bindE (case dget svc ''networks'' (PList []) of PList nets \<Rightarrow> join_line nets | _ \<Rightarrow> Inr ()) (\<lambda>_.
       bindE (case dget svc ''depends_on'' PNone of PList deps \<Rightarrow> join_line deps | _ \<Rightarrow> Inr ()) (\<lambda>_.
       let ports = dget svc ''ports'' (PList []) in
       if truthy ports \<and> \<not> has_len ports then Inl TypeError else Inr ()))
   | _ \<Rightarrow> Inl AttributeError)"

definition key_text :: "pyval \<Rightarrow> pystr" where
  "key_text k = (case k of PStr s \<Rightarrow> s | _ \<Rightarrow> [])"

definition summary :: "pyval \<Rightarrow> unit res" where
  "summary doc = (let root_map = dict_items doc; services = dget root_map ''services'' (PDict []);
       secrets = dget root_map ''secrets'' (PDict []) in
     bindE (names_line services) (\<lambda>_.
     bindE (names_line (dget root_map ''networks'' (PDict []))) (\<lambda>_.
     bindE (names_line (dget root_map ''volumes'' (PDict []))) (\<lambda>_.
     bindE (if truthy secrets then names_line secrets else Inr ()) (\<lambda>_.
     foldE (\<lambda>(name, svc) _. detail_line svc) (sort_key (\<lambda>(name, svc). key_text name) (dict_items services)) ())))))"

definition compose_main :: "world \<Rightarrow> node option \<Rightarrow> nat res" where
  "compose_main w compose_path =
     (if \<not> is_file_node compose_path then Inr 1
      else bindE (node_text compose_path) (\<lambda>raw.
        case yaml_load w raw of
          Inl YAMLError \<Rightarrow> Inr 2
        | Inl e \<Rightarrow> Inl e
        | Inr doc \<Rightarrow> bindE (summary doc) (\<lambda>_. Inr (if validate w doc \<noteq> [] then 3 else 0))))"

subsection \<open>Properties\<close>

text \<open>The documents that pass.\<close>

definition wf_service :: "pyval \<Rightarrow> bool" where
  "wf_service v \<longleftrightarrow> (\<exists>svc. v = PDict svc \<and> (has_key svc ''image'' \<or> has_key svc ''build'') \<and>
     (let nets = dget svc ''networks'' PNone in nets = PNone \<or> is_list nets \<or> is_str nets) \<and>
     (\<forall>ds. dget svc ''depends_on'' PNone = PList ds \<longrightarrow> (\<forall>d\<in>set ds. is_str d)) \<and>
     (\<forall>kvs. dget svc ''depends_on'' PNone = PDict kvs \<longrightarrow> (\<forall>(k, d)\<in>set kvs. is_dict d)) \<and>
     (let prof = dget svc ''profiles'' PNone in prof = PNone \<or> is_list prof))"

definition wf_compose :: "pyval \<Rightarrow> bool" where
  "wf_compose doc \<longleftrightarrow> (\<exists>root_map services. doc = PDict root_map \<and>
     dget root_map ''services'' (PDict []) = PDict services \<and> services \<noteq> [] \<and> (\<forall>(k, s)\<in>set services. wf_service s) \<and>
     (\<exists>nets. dget root_map ''networks'' (PDict []) = PDict nets \<and> (\<forall>(k, n)\<in>set nets. is_dict n)) \<and>
     is_dict (dget root_map ''volumes'' (PDict [])) \<and>
     (let secrets = dget root_map ''secrets'' (PDict []) in truthy secrets \<longrightarrow> is_dict secrets))"

lemma depends_on_errors_Nil:
  "depends_on_errors w n dep = [] \<longleftrightarrow>
     (\<forall>ds. dep = PList ds \<longrightarrow> (\<forall>d\<in>set ds. is_str d)) \<and> (\<forall>kvs. dep = PDict kvs \<longrightarrow> (\<forall>(k, d)\<in>set kvs. is_dict d))"
  by (cases dep) (auto simp: depends_on_errors_def filter_empty_conv)

lemma service_errors_Nil: "service_errors w (k, v) = [] \<longleftrightarrow> wf_service v"
  by (cases v) (auto simp: service_errors_def wf_service_def depends_on_errors_Nil Let_def)

lemma network_errors_Nil:
  "network_errors w v = [] \<longleftrightarrow> (\<exists>nets. v = PDict nets \<and> (\<forall>(k, n)\<in>set nets. is_dict n))"
  by (cases v) (auto simp: network_errors_def filter_empty_conv)

lemma services_key: "dget root_map ''services'' (PDict []) = PDict (e # es) \<Longrightarrow> has_key root_map ''services''"
  by (auto simp: dget_def has_key_def split: option.splits)

lemma services_errors_Nil:
  "(case s of PDict (entry # services) \<Rightarrow> concat (map (service_errors w) (entry # services)) | _ \<Rightarrow> [err ''services'' []]) = []
     \<longleftrightarrow> (\<exists>services. s = PDict services \<and> services \<noteq> [] \<and> (\<forall>(k, v)\<in>set services. wf_service v))"
proof (cases s)
  case (PDict kvs)
  have entry: "service_errors w e = [] \<longleftrightarrow> (case e of (k, v) \<Rightarrow> wf_service v)" for e
    by (cases e) (simp add: service_errors_Nil)
  from PDict show ?thesis by (cases kvs) (simp_all add: entry)
qed auto


lemma names_line_ok: "names_line v = Inr u \<Longrightarrow> is_dict v"
  by (cases v) auto

lemma detail_line_ok: "detail_line v = Inr u \<Longrightarrow> is_dict v"
  by (cases v) (auto simp: detail_line_def)

lemma foldE_unit_ok: "foldE (\<lambda>(k, v) _. f v) xs () = Inr u \<Longrightarrow> (k, v) \<in> set xs \<Longrightarrow> \<exists>u. f v = Inr u"
  by (induction xs) auto

lemma summary_ok:
  assumes "summary (PDict root_map) = Inr u"
  shows "is_dict (dget root_map ''services'' (PDict []))" "is_dict (dget root_map ''networks'' (PDict []))"
    "is_dict (dget root_map ''volumes'' (PDict []))"
    "truthy (dget root_map ''secrets'' (PDict [])) \<Longrightarrow> is_dict (dget root_map ''secrets'' (PDict []))"
    "(k, v) \<in> set (dict_items (dget root_map ''services'' (PDict []))) \<Longrightarrow> is_dict v"
  using assms
  by (auto simp: summary_def Let_def split: if_splits dest: names_line_ok)
     (auto dest!: foldE_unit_ok intro: detail_line_ok)

lemma service_error_sites:
  "is_dict v \<Longrightarrow> e \<in> set (service_errors w (k, v)) \<Longrightarrow> site e \<noteq> ''service'' \<and> site e \<noteq> ''networks'' \<and> site e \<noteq> ''volumes'' \<and> site e \<noteq> ''secrets'' \<and> site e \<noteq> ''services''"
  by (cases v) (auto simp: service_errors_def depends_on_errors_def Let_def split: pyval.splits if_splits)

text \<open>C34. The errors about the containers themselves are never printed: when the script exits with 3, the
  summary has gone through, so that \<open>networks\<close>, \<open>volumes\<close>, \<open>secrets\<close> and every service are mappings and
  \<open>services\<close> can only be absent or empty. A document with one of these errors ends in a traceback.\<close>

theorem container_errors_not_reported:
  assumes "yaml_load w raw = Inr (PDict root_map)" and "compose_main w (Some (File (Some raw))) = Inr 3"
    and "e \<in> set (validate w (PDict root_map))"
  shows "site e \<noteq> ''networks'' \<and> site e \<noteq> ''volumes'' \<and> site e \<noteq> ''secrets'' \<and> site e \<noteq> ''service'' \<and>
    (site e = ''services'' \<longrightarrow> dget root_map ''services'' (PDict []) = PDict [])"
proof -
  from assms(1,2) obtain u where "summary (PDict root_map) = Inr u" by (auto simp: compose_main_def)
  note ok = summary_ok [OF this]
  from ok(1) obtain svcs where svcs: "dget root_map ''services'' (PDict []) = PDict svcs" by (auto simp: is_dict_iff)
  from ok(2) obtain nets where nets: "dget root_map ''networks'' (PDict []) = PDict nets" by (auto simp: is_dict_iff)
  from assms(3) ok(3,4) consider (key) "site e = ''required keys''" | (net) "site e = ''networks entry''"
    | (empty) "svcs = []" "site e = ''services''" | (svc) k v where "(k, v) \<in> set svcs" "e \<in> set (service_errors w (k, v))"
    by (cases svcs) (auto simp: validate_def svcs nets network_errors_def Let_def split: if_splits)
  then show ?thesis
  proof cases
    case svc
    with ok(5) svcs have "is_dict v" by auto
    from service_error_sites [OF this svc(2)] show ?thesis by blast
  qed (simp_all add: svcs)
qed

definition sample_doc :: pyval where
  "sample_doc = PDict [(PStr (lit ''services''), PDict [(PStr (lit ''db''), PDict [])])]"

definition sample_world :: world where
  "sample_world = (mk_world (Dir []))\<lparr>yaml_load := \<lambda>_. Inr sample_doc\<rparr>"

theorem container_errors_not_reported_witness:
  "compose_main sample_world (Some (File (Some []))) = Inr 3 \<and>
     validate sample_world sample_doc = [err ''image or build'' [lit ''db'']] \<and>
     list_all (\<lambda>e. site e \<noteq> ''service'') (validate sample_world sample_doc)"
proof -
  have v: "validate sample_world sample_doc = [err ''image or build'' [lit ''db'']]"
    by (simp add: validate_def sample_doc_def dget_def has_key_def network_errors_def service_errors_def
        depends_on_errors_def lit_def)
  have "summary sample_doc = Inr ()"
    by (simp add: summary_def sample_doc_def dget_def lit_def detail_line_def join_line_def key_text_def)
  then have main: "compose_main sample_world (Some (File (Some []))) = Inr 3"
    using v by (simp add: compose_main_def) (simp add: sample_world_def)
  have "yaml_load sample_world [] = Inr (PDict (dict_items sample_doc))" "PDict (dict_items sample_doc) = sample_doc"
    by (simp_all add: sample_world_def sample_doc_def)
  from container_errors_not_reported [OF this(1) main] this(2) v main show ?thesis by simp
qed

end
