(* ===== verification/Jwt_Smoke.thy ===== *)
theory Jwt_Smoke
  imports Py_World
begin

section \<open>The JWT smoke test of the gateway (infra/kong/smoke-jwt.py)\<close>

text \<open>
  \<open>smoke_main\<close> sends three requests: none, a minted and a tampered token. PyJWT's \<open>encode\<close>, the clock and the server
  are parameters; the server is a function on its own state, so that the order of the requests shows. Nothing is assumed of
  them: which servers pass the test is stated by the answers they give.
\<close>

subsection \<open>The script\<close>

definition JWT_ISSUER :: pystr where "JWT_ISSUER = lit ''opene2ee-backend''"
definition JWT_AUDIENCE :: pystr where "JWT_AUDIENCE = lit ''opene2ee-mobile''"
definition JWT_TTL_SEC :: int where "JWT_TTL_SEC = 300"

type_synonym encoder = "pyval \<Rightarrow> pystr \<Rightarrow> string \<Rightarrow> pystr"

definition mint :: "encoder \<Rightarrow> int \<Rightarrow> pystr \<Rightarrow> pystr \<Rightarrow> int \<Rightarrow> pystr" where
  "mint jwt_encode now secret sub ttl =
     (let payload = PDict [(PStr (lit ''iss''), PStr JWT_ISSUER), (PStr (lit ''aud''), PStr JWT_AUDIENCE),
        (PStr (lit ''sub''), PStr sub), (PStr (lit ''iat''), PInt now), (PStr (lit ''exp''), PInt (now + ttl))]
      in jwt_encode payload secret ''HS256'')"

text \<open>What \<open>urlopen\<close> may do: answer, raise an HTTPError with a code, or a URLError.\<close>

datatype response = Response nat | HTTPError nat | URLError

type_synonym 's server = "'s \<Rightarrow> pystr \<Rightarrow> pystr option \<Rightarrow> response \<times> 's"

definition http_get :: "'s server \<Rightarrow> 's \<Rightarrow> pystr \<Rightarrow> pystr option \<Rightarrow> (nat \<times> 's) res" where
  "http_get urlopen s url token =
     (case urlopen s url (map_option (\<lambda>t. lit ''Bearer '' @ t) token) of
        (Response status, s') \<Rightarrow> Inr (status, s')
      | (HTTPError code, s') \<Rightarrow> Inr (code, s')
      | (URLError, s') \<Rightarrow> Inl (SystemExit 2))"

record cli_args =
  kong_url :: pystr
  whoami_path :: pystr
  secret_env :: pystr
  sub :: pystr

text \<open>\<open>sig[:-1] + ("A" if sig[-1] != "A" else "B")\<close>; the index raises on an empty string.\<close>

definition tamper :: "pystr \<Rightarrow> pystr res" where
  "tamper sig = (if sig = [] then Inl IndexError
     else Inr (butlast sig @ (if last sig \<noteq> 65 then lit ''A'' else lit ''B'')))"

definition rstrip_slash :: "pystr \<Rightarrow> pystr" where
  "rstrip_slash s = rev (dropWhile (\<lambda>c. c = 47) (rev s))"

definition smoke_main :: "encoder \<Rightarrow> int \<Rightarrow> (pystr \<Rightarrow> pystr option) \<Rightarrow> cli_args \<Rightarrow> 's server \<Rightarrow> 's \<Rightarrow> (nat \<times> 's) res" where
  "smoke_main jwt_encode now environ cli urlopen s =
     (let secret = (case environ (secret_env cli) of Some v \<Rightarrow> v | None \<Rightarrow> []) in
      if secret = [] then Inr (2, s)
      else let url = rstrip_slash (kong_url cli) @ whoami_path cli in
        bindE (http_get urlopen s url None) (\<lambda>(code, s).
        if code \<noteq> 401 then Inr (1, s)
        else let token = mint jwt_encode now secret (sub cli) JWT_TTL_SEC in
          bindE (http_get urlopen s url (Some token)) (\<lambda>(code, s).
          if code \<noteq> 200 then Inr (1, s)
          else case split_char 46 token of
            [head, payload, sig] \<Rightarrow>
              bindE (tamper sig) (\<lambda>sig'.
              bindE (http_get urlopen s url (Some (py_join (lit ''.'') [head, payload, sig']))) (\<lambda>(code, s).
              if code \<noteq> 401 then Inr (1, s) else Inr (0, s)))
          | _ \<Rightarrow> Inl (ValueError (lit ''unpack'')))))"

subsection \<open>What a pass says\<close>

text \<open>The server answers a request with a status, by a response or by an HTTPError, and goes over to its next state.\<close>

definition answers :: "'s server \<Rightarrow> 's \<Rightarrow> pystr \<Rightarrow> pystr option \<Rightarrow> nat \<Rightarrow> 's \<Rightarrow> bool" where
  "answers urlopen s url auth code s' \<longleftrightarrow> urlopen s url auth = (Response code, s') \<or> urlopen s url auth = (HTTPError code, s')"

definition bearer :: "pystr \<Rightarrow> pystr option" where
  "bearer token = Some (lit ''Bearer '' @ token)"

lemma http_get_Inr: "http_get urlopen s url token = Inr (code, s') \<longleftrightarrow>
    answers urlopen s url (case token of None \<Rightarrow> None | Some t \<Rightarrow> bearer t) code s'"
  by (auto simp: http_get_def answers_def bearer_def split: response.split prod.split option.split)

lemma split_three:
  "split_char 46 t = [h, p, g] \<longleftrightarrow> t = h @ 46 # p @ 46 # g \<and> 46 \<notin> set (h @ p @ g)"
proof
  assume split: "split_char 46 t = [h, p, g]"
  have "t = py_join [46] [h, p, g]" using join_split_char [of 46 t] by (simp add: split)
  moreover have "46 \<notin> set x" if "x \<in> {h, p, g}" for x using split_char_no_sep [of x 46 t] that by (simp add: split)
  ultimately show "t = h @ 46 # p @ 46 # g \<and> 46 \<notin> set (h @ p @ g)" by simp
next
  assume "t = h @ 46 # p @ 46 # g \<and> 46 \<notin> set (h @ p @ g)"
  then show "split_char 46 t = [h, p, g]" by (simp add: split_char_append split_char_no_c)
qed

lemma tamper_Inr: "tamper sig = Inr sig' \<longleftrightarrow> (\<exists>u c. sig = u @ [c] \<and> sig' = u @ [if c = 65 then 66 else 65])"
  by (cases sig rule: rev_cases) (auto simp: tamper_def lit_def)

text \<open>The third probe: the token is taken apart, tampered with and sent.\<close>

lemma third_probe:
  "(case split_char 46 t of
      [head, payload, sig] \<Rightarrow>
        bindE (tamper sig) (\<lambda>sig'.
        bindE (http_get urlopen s url (Some (py_join (lit ''.'') [head, payload, sig']))) (\<lambda>(code, s).
        if code \<noteq> 401 then Inr (1, s) else Inr (0, s)))
    | _ \<Rightarrow> Inl (ValueError (lit ''unpack''))) = Inr (0 :: nat, s') \<longleftrightarrow>
   (\<exists>h p sig c. t = h @ lit ''.'' @ p @ lit ''.'' @ sig @ [c] \<and> 46 \<notin> set (h @ p @ sig @ [c]) \<and>
      answers urlopen s url (bearer (h @ lit ''.'' @ p @ lit ''.'' @ sig @ [if c = 65 then 66 else 65])) 401 s')"
  (is "?probe (split_char 46 t) \<longleftrightarrow> ?R")
proof (cases "\<exists>h p g. split_char 46 t = [h, p, g]")
  case True
  then obtain h p g where g: "split_char 46 t = [h, p, g]" by blast
  have unique: "t = h' @ lit ''.'' @ p' @ lit ''.'' @ sig @ [c] \<and> 46 \<notin> set (h' @ p' @ sig @ [c]) \<longleftrightarrow> h' = h \<and> p' = p \<and> sig @ [c] = g"
    for h' p' sig c using g split_three [of t h' p' "sig @ [c]"] by (auto simp: lit_def)
  have "?R \<longleftrightarrow> (\<exists>sig c. sig @ [c] = g \<and>
      answers urlopen s url (bearer (h @ lit ''.'' @ p @ lit ''.'' @ sig @ [if c = 65 then 66 else 65])) 401 s')"
    using unique by (simp only: conj_assoc [symmetric]) blast
  also have "\<dots> \<longleftrightarrow> (\<exists>sig'. tamper g = Inr sig' \<and> answers urlopen s url (bearer (h @ lit ''.'' @ p @ lit ''.'' @ sig')) 401 s')"
    unfolding tamper_Inr by blast
  also have "\<dots> \<longleftrightarrow> ?probe [h, p, g]"
  proof -
    have "(case x of (code, s) \<Rightarrow> if code \<noteq> 401 then Inr (1, s) else Inr (0, s)) = Inr (0 :: nat, s') \<longleftrightarrow> x = (401, s')"
      for x by (cases x) auto
    then show ?thesis by (simp add: http_get_Inr)
  qed
  finally show ?thesis by (simp only: g)
next
  case False
  have "\<not> (t = h @ lit ''.'' @ p @ lit ''.'' @ sig @ [c] \<and> 46 \<notin> set (h @ p @ sig @ [c]))" for h p sig c
    using False split_three [of t h p "sig @ [c]"] by (auto simp: lit_def)
  then have "\<not> ?R" by blast
  moreover have "\<not> ?probe (split_char 46 t)" using False by (auto split: list.split)
  ultimately show ?thesis by blast
qed

text \<open>C2. The smoke test exits with 0 exactly when the secret is set, the minted token has three parts and a last character, and the
  server, on one and the same URL and in the states that the requests leave it in, answers 401 to a request without a token, then
  200 to the minted token, and then 401 to that token with its last character changed, to \<open>A\<close>, or to \<open>B\<close> where it was \<open>A\<close>,
  and with nothing else changed. So a pass shows two tokens that differ in one character of the signature and that
  the server tells apart.\<close>

theorem smoke_test_passes_iff:
  "smoke_main jwt_encode now environ cli urlopen s = Inr (0, s') \<longleftrightarrow>
    (\<exists>secret h p sig c s1 s2. let url = rstrip_slash (kong_url cli) @ whoami_path cli;
         token = (\<lambda>last. h @ lit ''.'' @ p @ lit ''.'' @ sig @ [last]) in
       environ (secret_env cli) = Some secret \<and> secret \<noteq> [] \<and>
       mint jwt_encode now secret (sub cli) JWT_TTL_SEC = token c \<and> 46 \<notin> set (h @ p @ sig @ [c]) \<and>
       answers urlopen s url None 401 s1 \<and> answers urlopen s1 url (bearer (token c)) 200 s2 \<and>
       answers urlopen s2 url (bearer (token (if c = 65 then 66 else 65))) 401 s')" (is "?run \<longleftrightarrow> ?pass")
proof (cases "environ (secret_env cli) = None \<or> environ (secret_env cli) = Some []")
  case True
  then show ?thesis by (auto simp: smoke_main_def Let_def)
next
  case False
  then obtain secret where secret: "environ (secret_env cli) = Some secret" "secret \<noteq> []" by auto
  let ?url = "rstrip_slash (kong_url cli) @ whoami_path cli" and ?t = "mint jwt_encode now secret (sub cli) JWT_TTL_SEC"
  have "?run \<longleftrightarrow> (\<exists>s1 s2. answers urlopen s ?url None 401 s1 \<and> answers urlopen s1 ?url (bearer ?t) 200 s2 \<and>
      (\<exists>h p sig c. ?t = h @ lit ''.'' @ p @ lit ''.'' @ sig @ [c] \<and> 46 \<notin> set (h @ p @ sig @ [c]) \<and>
         answers urlopen s2 ?url (bearer (h @ lit ''.'' @ p @ lit ''.'' @ sig @ [if c = 65 then 66 else 65])) 401 s'))"
    using secret by (simp add: smoke_main_def Let_def http_get_Inr third_probe split: prod.split if_split)
  also have "\<dots> \<longleftrightarrow> ?pass" (is "?L \<longleftrightarrow> _")
  proof
    assume ?L
    then obtain h p sig c s1 s2 where t: "?t = h @ lit ''.'' @ p @ lit ''.'' @ sig @ [c]" and a: "46 \<notin> set (h @ p @ sig @ [c])"
        "answers urlopen s ?url None 401 s1" "answers urlopen s1 ?url (bearer ?t) 200 s2"
        "answers urlopen s2 ?url (bearer (h @ lit ''.'' @ p @ lit ''.'' @ sig @ [if c = 65 then 66 else 65])) 401 s'"
      by (elim exE conjE)
    show ?pass unfolding Let_def by (intro exI conjI) (rule secret t a a(3) [unfolded t])+
  next
    assume ?pass
    then obtain secret' h p sig c s1 s2 where "environ (secret_env cli) = Some secret'"
      and rest: "mint jwt_encode now secret' (sub cli) JWT_TTL_SEC = h @ lit ''.'' @ p @ lit ''.'' @ sig @ [c]"
        "46 \<notin> set (h @ p @ sig @ [c])" "answers urlopen s ?url None 401 s1"
        "answers urlopen s1 ?url (bearer (h @ lit ''.'' @ p @ lit ''.'' @ sig @ [c])) 200 s2"
        "answers urlopen s2 ?url (bearer (h @ lit ''.'' @ p @ lit ''.'' @ sig @ [if c = 65 then 66 else 65])) 401 s'"
      unfolding Let_def by (elim exE conjE)
    with secret have "secret' = secret" by simp
    with rest show ?L by metis
  qed
  finally show ?thesis .
qed

end
