(* ===== verification/Spec2Isabelle.thy ===== *)
theory Spec2Isabelle
  imports Self_Test_Cases Scan_Steps Env_Expand Compose_Validate Jwt_Smoke
begin

section \<open>The verification library of the repository's Python tooling\<close>

text \<open>
  The repository holds a mobile application (Dart and Kotlin), a backend (Go), its deployment files, and the
  Python programs that guard them: an audit of the sources and build files, a self-test of the audit, a scanner for
  pinned tools, and checks of the Compose file, of the gateway and of a built APK. This development models the
  Python programs.

  \<^bold>\<open>The programs and how they interact.\<close> tools/workflow-yaml-audit.py is a list of checks; each reads files of the
  repository and returns a list of findings, and \<open>main\<close> exits with 1 when there is one. tools/audit-self-test.py holds a
  second implementation of every check, on texts, and runs it on seeded violations: it guards the audit only as far as
  the two implementations agree, which is what \<open>Self_Test\<close>, \<open>Literal_Replicas\<close> and \<open>Vpn_Replicas\<close> are about. The other programs stand alone. None
  of them keeps state between runs; the state that matters is inside their loops (comment flags, brace depth, the
  environment, the tally, the state of the server).

  \<^bold>\<open>Conventions.\<close> Strings are lists of code points, and \<open>lit\<close> makes one of an ASCII literal. What may raise returns
  \<open>exn + 'a\<close>, with one constructor for each exception the code meets; a read fails with OSError or
  UnicodeDecodeError. A finding is the place that reports it with the values its message shows. Files
  are a tree below the repository root. What is no code of the repository is a parameter: PyYAML, \<open>json\<close>, ElementTree,
  \<open>git ls-files\<close>, PyJWT, the clock, the environment and the server. The loops of the code that
  advance an index are recursions on the rest of the text, so that no fuel is used and every function is total; that the loops
  themselves end, with the results of the recursions, is what \<open>Index_Loops\<close> proves.

  \<^bold>\<open>Theories.\<close>

  \<^item> \<open>Py_Prelude\<close>: strings, their methods, exceptions, and the lemmas the components share.
  \<^item> \<open>Py_Regex\<close>: Python's regular expressions. The matcher backtracks in Python's order; a
    declarative language of matches, proved equivalent, carries the proofs.
  \<^item> \<open>Py_World\<close>: YAML and JSON values, XML elements, the file tree, the parameters, findings.
  \<^item> \<open>Strip_Comments\<close>: \<open>strip_comments\<close>, which cuts the lines where a comment begins by a description without the scanner, in
    terms of escapes and of the parity of quotes. The locale \<open>line_stripper\<close> holds what line-wise
    stripping guarantees, interpreted on the Kotlin and on the Dart variant.
  \<^item> \<open>Gradle_Checks\<close> (S1 to S5 and the versions), \<open>Workflow_Checks\<close> (the workflow files and S6),
    \<open>Pubspec_Checks\<close> (S7, S17 to S20), \<open>Android_Checks\<close> (S8 to S10),
    \<open>Flutter_Checks\<close> (S11 to S13): the checks of the audit. For most of them the documents that pass are
    described declaratively; the brace counter is refined from a grammar of balanced blocks.
  \<^item> \<open>Self_Test\<close>: the replicas of these checks. The locales \<open>faithful_replica\<close> (same findings) and
    \<open>verdict_replica\<close> (same verdict) are interpreted on the pairs for which they hold;
    for S12 and S13 they do not, and the last lemmas say where the two differ.
  \<^item> \<open>Literal_Checks\<close> (S25 to S72): the checks that look for literals in Dart, Kotlin, Go and YAML sources, all but a
    few of the shape \<open>with_text\<close>. \<open>Literal_Replicas\<close>: their replicas, 36 of them faithful, three with other literals; the
    locale \<open>needle_check\<close> says that a literal passes wherever it stands.
  \<^item> \<open>Vpn_Checks\<close> (S73 to S84), \<open>Session_Checks\<close> (S86 to S94), \<open>Tcp_Checks\<close> (S95 to S111, S115): the checks of the VPN
    service, of the session screen and of the user-space TCP stack, with their patterns. \<open>Vpn_Properties\<close>: what some of them accept, that the
    lines they report exist, that S74 reads the balanced block of \<open>onStartCommand\<close>, and what S98 overlooks.
  \<^item> \<open>Audit_Main\<close>: \<open>main\<close> of the audit as a table of stages, in its order. It exits with 0 exactly when every stage is silent;
    it raises only through the workflow and build files, since every later check returns; it loses no finding.
  \<^item> \<open>Vpn_Replicas\<close>: the replicas of S73 to S115 and of S25; seventeen report the findings of their checks, five agree on
    the verdict, five decide differently. \<open>Proxy_Replicas\<close> (S112 to S124) and \<open>Proxy_Rules\<close> (S129 to S139): replicas that stand
    for no check; the latter return the whole text of their messages.
  \<^item> \<open>Self_Test_Driver\<close>: the main block of the self-test for any table of cases, its exit code, and the cases of S129 to S137.
    \<open>Build_Cases\<close> (S1 to S20, S28, S42, S43), \<open>Literal_Cases\<close> (S25 to S72), \<open>Vpn_Cases\<close> and \<open>Pattern_Cases\<close> (S73 to S124): the
    cases with their texts and the messages that are expected, evaluated in the logic. \<open>Text_Lines\<close>: the texts are lists of lines, and what the
    replicas do on a text, stripping comments, looking for literals, searching with patterns, is done line by line.
    \<open>Text_Patterns\<close>: where a pattern can match in a text of lines, that \<open>finditer\<close> misses no match, and in which order the literals
    of a text stand; \<open>Pattern_Cases\<close>, whose replicas search with patterns or compare places, rests on it.
    \<open>Self_Test_Cases\<close>: the table of the main block with its 188 cases, on which the self-test is proved to exit with 0.
  \<^item> \<open>Pin_Scanner\<close>: tools/lib/scanner.py, which binaries it reports and which it misses. \<open>Scan_Steps\<close>: its three flags as the modes
    of a state machine. It implements a grammar of code and block comments, given as an inductive relation; the states of
    its loops (\<open>reached\<close>) keep an invariant; one line always brings it back to reading code, and a block that is not
    closed hides the rest of the file.
  \<^item> \<open>Env_Expand\<close>: infra/scripts/validate_env.py, the substitution of variables in the four forms it documents, one of which it leaves alone, the reading of .env files
    and the exit codes.
  \<^item> \<open>Compose_Validate\<close>: infra/scripts/validate_compose.py, the documents that pass, and the documents whose errors
    are lost in a traceback.
  \<^item> \<open>Jwt_Smoke\<close>: infra/kong/smoke-jwt.py against an arbitrary server: which answers make it exit with 0. The gateway and the JWT
    library are no code of the repository, so that nothing is assumed of them.
  \<^item> \<open>Index_Loops\<close>: the while loops of the comment strippers, of the brace counters, of the scanner and of the string
    extraction as \<open>while_option\<close>, with their index, flags and \<open>break\<close>. The locale \<open>index_loop\<close> gives their end and their result.
  \<^item> \<open>Dex_Tokens\<close>: the two DEX checks, whose extraction of strings neither loses nor invents an occurrence.

  \<^bold>\<open>Not modelled.\<close> The text of the other messages, PASS and progress lines, beyond what computing them can raise; the order in which a
  set is printed; YAML values of types the configuration does not use (dates, binary data, sets); the generated LLDB helper.
  The backend and the application are other languages.
\<close>

end
